(* ===== verification/Arc_Prelude.thy ===== *)
theory Arc_Prelude
  imports Main "HOL-Library.Word" "HOL-Library.Char_ord" "HOL-Library.List_Lexorder"
begin

text \<open>
  Shared vocabulary of the development: the collections the component proofs use, errors as
  sums with their bind, Python's string and integer formatting as far as ARC calls it,
  timezone-aware datetimes, and tables of keyed rows with the locale of the laws every
  component relies on when it loads, saves or inserts a row.
\<close>

named_theorems table_laws \<open>laws of lookups, saves and inserts in keyed tables\<close>
named_theorems row_frames \<open>what an operation leaves unchanged in a row or a table\<close>

section \<open>Errors as sums\<close>

text \<open>
  A Python call that may raise is a value of \<open>'e + 'a\<close>: \<open>Inl\<close> is the exception that
  leaves the call, \<open>Inr\<close> the returned value.
\<close>

definition sbind :: "'e + 'a \<Rightarrow> ('a \<Rightarrow> 'e + 'b) \<Rightarrow> 'e + 'b" where
  "sbind m f = (case m of Inl e \<Rightarrow> Inl e | Inr x \<Rightarrow> f x)"

lemma sbind_simps [simp]:
  "sbind (Inl e) f = Inl e"
  "sbind (Inr x) f = f x"
  by (simp_all add: sbind_def)

lemma sbind_eq_Inr_iff: "sbind m f = Inr y \<longleftrightarrow> (\<exists>x. m = Inr x \<and> f x = Inr y)"
  by (cases m) auto

lemma sbind_eq_Inl_iff:
  "sbind m f = Inl e \<longleftrightarrow> m = Inl e \<or> (\<exists>x. m = Inr x \<and> f x = Inl e)"
  by (cases m) auto

lemma sbind_InrE [elim!]:
  assumes "sbind m f = Inr y"
  obtains x where "m = Inr x" "f x = Inr y"
  using assms by (auto simp: sbind_eq_Inr_iff)

text \<open>A comprehension whose element expression may raise.\<close>

fun smap :: "('a \<Rightarrow> 'e + 'b) \<Rightarrow> 'a list \<Rightarrow> 'e + 'b list" where
  "smap f [] = Inr []"
| "smap f (x # xs) = sbind (f x) (\<lambda>y. sbind (smap f xs) (\<lambda>ys. Inr (y # ys)))"

lemma smap_Inr_iff: "smap f xs = Inr ys \<longleftrightarrow> list_all2 (\<lambda>x y. f x = Inr y) xs ys"
  by (induction xs arbitrary: ys) (auto simp: sbind_eq_Inr_iff list_all2_Cons1)

lemma smap_Inr_set: "smap f xs = Inr ys \<Longrightarrow> y \<in> set ys \<Longrightarrow> \<exists>x \<in> set xs. f x = Inr y"
  by (induction xs arbitrary: ys) (auto simp: sbind_eq_Inr_iff)

lemma smap_all_Inr: "(\<And>x. x \<in> set xs \<Longrightarrow> f x = Inr (g x)) \<Longrightarrow> smap f xs = Inr (map g xs)"
  by (induction xs) auto

lemma smap_Inl: "smap f xs = Inl e \<Longrightarrow> \<exists>x \<in> set xs. f x = Inl e"
  by (induction xs) (auto simp: sbind_eq_Inl_iff)

text \<open>Looking a member up by a value that identifies it.\<close>

lemma find_by_value:
  "(\<And>a b. f a = f b \<longleftrightarrow> a = b) \<Longrightarrow> m \<in> set xs \<Longrightarrow> find (\<lambda>x. f x = s) xs = Some m \<longleftrightarrow> s = f m"
  by (induction xs) (auto simp: find_Some_iff)

text \<open>Sorting by a key and mapping.\<close>

lemma insort_key_map: "insort_key k (f x) (map f xs) = map f (insort_key (\<lambda>y. k (f y)) x xs)"
  by (induction xs) auto

lemma sort_key_map: "sort_key k (map f xs) = map f (sort_key (\<lambda>y. k (f y)) xs)"
  by (induction xs) (auto simp: insort_key_map)

section \<open>Python strings\<close>

text \<open>
  A Python \<open>str\<close> is a list of characters, each read as the code point of its number.
  Case mapping is modelled on the ASCII letters, which is the alphabet of the status words,
  codes and currencies it is applied to.
\<close>

definition py_ord :: "char \<Rightarrow> int" where
  "py_ord c = of_char c"

lemma py_ord_inj: "py_ord a = py_ord b \<longleftrightarrow> a = b"
  by (simp add: py_ord_def)

definition is_ws :: "char \<Rightarrow> bool" where
  "is_ws c \<longleftrightarrow> (let n = py_ord c in (9 \<le> n \<and> n \<le> 13) \<or> (28 \<le> n \<and> n \<le> 32) \<or> n = 133 \<or> n = 160)"

definition py_strip :: "string \<Rightarrow> string" where
  "py_strip s = rev (dropWhile is_ws (rev (dropWhile is_ws s)))"

definition lower_char :: "char \<Rightarrow> char" where
  "lower_char c = (if 65 \<le> py_ord c \<and> py_ord c \<le> 90 then char_of (py_ord c + 32) else c)"

definition upper_char :: "char \<Rightarrow> char" where
  "upper_char c = (if 97 \<le> py_ord c \<and> py_ord c \<le> 122 then char_of (py_ord c - 32) else c)"

definition py_lower :: "string \<Rightarrow> string" where
  "py_lower s = map lower_char s"

definition py_upper :: "string \<Rightarrow> string" where
  "py_upper s = map upper_char s"

text \<open>Python's truth value of an optional string: absent and empty are both false.\<close>

definition truthy :: "string option \<Rightarrow> bool" where
  "truthy v = (case v of None \<Rightarrow> False | Some s \<Rightarrow> s \<noteq> [])"

text \<open>Python's \<open>a or b\<close> on optional strings.\<close>

definition py_or :: "string option \<Rightarrow> string option \<Rightarrow> string option" where
  "py_or a b = (if truthy a then a else b)"

lemma truthy_simps [simp]: "\<not> truthy None" "truthy (Some s) \<longleftrightarrow> s \<noteq> []"
  by (simp_all add: truthy_def)

lemma py_or_simps [simp]:
  "py_or None b = b"
  "s \<noteq> [] \<Longrightarrow> py_or (Some s) b = Some s"
  "py_or (Some []) b = b"
  by (simp_all add: py_or_def)

lemma py_ord_bounds: "0 \<le> py_ord c" "py_ord c < 256"
proof -
  have "py_ord c = int (of_char c)" by (simp add: py_ord_def of_nat_of_char)
  then show "0 \<le> py_ord c" "py_ord c < 256" using nat_of_char_less_256 [of c] by simp_all
qed

lemma py_ord_char_of: "0 \<le> n \<Longrightarrow> n < 256 \<Longrightarrow> py_ord (char_of n) = n"
  by (simp add: py_ord_def)

lemma lower_char_idem [simp]: "lower_char (lower_char c) = lower_char c"
  by (auto simp: lower_char_def py_ord_char_of)

lemma upper_char_idem [simp]: "upper_char (upper_char c) = upper_char c"
  by (auto simp: upper_char_def py_ord_char_of)

lemma py_lower_idem [simp]: "py_lower (py_lower s) = py_lower s"
  by (simp add: py_lower_def)

lemma py_upper_idem [simp]: "py_upper (py_upper s) = py_upper s"
  by (simp add: py_upper_def)

lemma length_py_lower [simp]: "length (py_lower s) = length s"
  by (simp add: py_lower_def)

lemma length_py_upper [simp]: "length (py_upper s) = length s"
  by (simp add: py_upper_def)

lemma py_lower_Nil [simp]: "py_lower s = [] \<longleftrightarrow> s = []"
  by (simp add: py_lower_def)

lemma is_ws_lower [simp]: "is_ws (lower_char c) = is_ws c"
  by (auto simp: lower_char_def is_ws_def Let_def py_ord_char_of)

lemma is_ws_upper [simp]: "is_ws (upper_char c) = is_ws c"
  by (auto simp: upper_char_def is_ws_def Let_def py_ord_char_of)

lemma py_strip_map:
  assumes "\<And>c. is_ws (g c) = is_ws c"
  shows "py_strip (map g s) = map g (py_strip s)"
  using assms by (simp add: py_strip_def rev_map dropWhile_map comp_def)

lemma py_strip_lower: "py_strip (py_lower s) = py_lower (py_strip s)"
  by (simp add: py_lower_def py_strip_map)

lemma py_strip_upper: "py_strip (py_upper s) = py_upper (py_strip s)"
  by (simp add: py_upper_def py_strip_map)

lemma dropWhile_snoc: "\<not> P a \<Longrightarrow> dropWhile P (xs @ [a]) = dropWhile P xs @ [a]"
  by (induction xs) auto

lemma py_strip_idem [simp]: "py_strip (py_strip s) = py_strip s"
proof (cases "dropWhile is_ws s")
  case Nil
  then show ?thesis by (simp only: py_strip_def rev.simps dropWhile.simps)
next
  case (Cons a t)
  then have "\<not> is_ws a" by (metis dropWhile_eq_Cons_conv)
  then have "dropWhile is_ws (rev (a # t)) = dropWhile is_ws (rev t) @ [a]"
    by (simp add: dropWhile_snoc)
  with Cons \<open>\<not> is_ws a\<close> show ?thesis by (simp add: py_strip_def dropWhile_snoc)
qed

subsection \<open>Integers and identifiers as text\<close>

definition digit :: "int \<Rightarrow> char" where
  "digit d = ''0123456789abcdef'' ! nat d"

function dec_str :: "int \<Rightarrow> string" where
  "dec_str n = (if n < 10 then [digit n] else dec_str (n div 10) @ [digit (n mod 10)])"
  by pat_completeness auto
termination
  by (relation "measure nat") auto

declare dec_str.simps [simp del]

text \<open>\<open>str(i)\<close> of a Python integer.\<close>

definition int_str :: "int \<Rightarrow> string" where
  "int_str i = (if i < 0 then CHR ''-'' # dec_str (- i) else dec_str i)"

text \<open>\<open>f"{n:0w}"\<close>: decimal digits padded with zeros on the left.\<close>

definition zero_pad :: "nat \<Rightarrow> int \<Rightarrow> string" where
  "zero_pad w n = replicate (w - length (dec_str n)) CHR ''0'' @ dec_str n"

fun hex_fixed :: "nat \<Rightarrow> int \<Rightarrow> string" where
  "hex_fixed 0 n = []"
| "hex_fixed (Suc w) n = hex_fixed w (n div 16) @ [digit (n mod 16)]"

text \<open>A UUID is its 128 bits; \<open>u.hex\<close> and \<open>str(u)\<close> are its two texts.\<close>

type_synonym uuid = "128 word"

definition uuid_hex :: "uuid \<Rightarrow> string" where
  "uuid_hex u = hex_fixed 32 (uint u)"

definition uuid_str :: "uuid \<Rightarrow> string" where
  "uuid_str u = (let h = uuid_hex u in
     take 8 h @ ''-'' @ take 4 (drop 8 h) @ ''-'' @ take 4 (drop 12 h) @ ''-'' @
     take 4 (drop 16 h) @ ''-'' @ drop 20 h)"

lemma digit_inj: "0 \<le> a \<Longrightarrow> a < 16 \<Longrightarrow> 0 \<le> b \<Longrightarrow> b < 16 \<Longrightarrow> digit a = digit b \<Longrightarrow> a = b"
proof -
  assume a: "0 \<le> a" "a < 16" and b: "0 \<le> b" "b < 16" and eq: "digit a = digit b"
  have "distinct ''0123456789abcdef''" by simp
  moreover have "nat a < length ''0123456789abcdef''" "nat b < length ''0123456789abcdef''"
    using a b by auto
  ultimately have "nat a = nat b" using eq by (simp only: digit_def nth_eq_iff_index_eq)
  with a b show "a = b" by simp
qed

lemma digit_dec: "0 \<le> d \<Longrightarrow> d < 10 \<Longrightarrow> digit d \<in> set ''0123456789''"
proof -
  assume "0 \<le> d" "d < 10"
  then have "nat d < length ''0123456789''" by auto
  moreover have "digit d = ''0123456789'' ! nat d"
    using calculation nth_append_left [of "nat d" "''0123456789''" "''abcdef''"] by (simp add: digit_def)
  ultimately show ?thesis by (metis nth_mem)
qed

lemma dec_str_digits: "0 \<le> n \<Longrightarrow> set (dec_str n) \<subseteq> set ''0123456789''"
proof (induction n rule: dec_str.induct)
  case (1 n)
  show ?case
  proof (cases "n < 10")
    case True
    then show ?thesis using "1.prems" digit_dec [of n] by (subst dec_str.simps) simp
  next
    case False
    then have "set (dec_str (n div 10)) \<subseteq> set ''0123456789''" using "1.IH" by simp
    moreover have "digit (n mod 10) \<in> set ''0123456789''" by (rule digit_dec) simp_all
    ultimately show ?thesis using False by (subst dec_str.simps) simp
  qed
qed

lemma dec_str_nonempty [simp]: "dec_str n \<noteq> []" "[] \<noteq> dec_str n"
  by (subst dec_str.simps, simp)+

lemma dec_str_inj: "0 \<le> m \<Longrightarrow> 0 \<le> n \<Longrightarrow> dec_str m = dec_str n \<Longrightarrow> m = n"
proof (induction m arbitrary: n rule: dec_str.induct)
  case (1 m)
  show ?case
  proof (cases "m < 10"; cases "n < 10")
    assume "m < 10" "n < 10"
    with "1.prems" show ?thesis
      using digit_inj [of m n] by (simp add: dec_str.simps [of m] dec_str.simps [of n])
  next
    assume "m < 10" "\<not> n < 10"
    with "1.prems" show ?thesis by (simp add: dec_str.simps [of m] dec_str.simps [of n])
  next
    assume "\<not> m < 10" "n < 10"
    with "1.prems" show ?thesis by (simp add: dec_str.simps [of m] dec_str.simps [of n])
  next
    assume big: "\<not> m < 10" "\<not> n < 10"
    with "1.prems"(3) have "dec_str (m div 10) = dec_str (n div 10)"
      and d: "digit (m mod 10) = digit (n mod 10)"
      by (simp_all add: dec_str.simps [of m] dec_str.simps [of n])
    with big "1.IH" [of "n div 10"] have "m div 10 = n div 10" by simp
    moreover from d have "m mod 10 = n mod 10" by (intro digit_inj) (auto intro: order_less_trans)
    ultimately show ?thesis by (metis div_mult_mod_eq)
  qed
qed

lemma int_str_chars: "set (int_str i) \<subseteq> insert CHR ''-'' (set ''0123456789'')"
  using dec_str_digits [of i] dec_str_digits [of "- i"] by (auto simp: int_str_def)

lemma int_str_nonempty [simp]: "int_str i \<noteq> []"
  by (simp add: int_str_def)

lemma int_str_inj [simp]: "int_str i = int_str j \<longleftrightarrow> i = j"
proof
  assume eq: "int_str i = int_str j"
  have minus: "CHR ''-'' \<notin> set (dec_str n)" if "0 \<le> n" for n
    using dec_str_digits [OF that] by auto
  show "i = j"
  proof (cases "i < 0"; cases "j < 0")
    assume "i < 0" "j < 0"
    with eq show ?thesis using dec_str_inj [of "- i" "- j"] by (simp add: int_str_def)
  next
    assume "\<not> i < 0" "\<not> j < 0"
    with eq show ?thesis using dec_str_inj [of i j] by (simp add: int_str_def)
  next
    assume "i < 0" "\<not> j < 0"
    with eq show ?thesis using minus [of j] by (auto simp: int_str_def) (metis list.set_intros(1))
  next
    assume "\<not> i < 0" "j < 0"
    with eq show ?thesis using minus [of i] by (auto simp: int_str_def)
  qed
qed simp

lemma length_hex_fixed [simp]: "length (hex_fixed w n) = w"
  by (induction w arbitrary: n) simp_all

lemma hex_fixed_inj:
  "0 \<le> m \<Longrightarrow> m < 16 ^ w \<Longrightarrow> 0 \<le> n \<Longrightarrow> n < 16 ^ w \<Longrightarrow> hex_fixed w m = hex_fixed w n \<Longrightarrow> m = n"
proof (induction w arbitrary: m n)
  case 0
  then show ?case by simp
next
  case (Suc w)
  from Suc.prems have "hex_fixed w (m div 16) = hex_fixed w (n div 16)"
    and d: "digit (m mod 16) = digit (n mod 16)" by simp_all
  then have "m div 16 = n div 16"
    using Suc.prems by (intro Suc.IH) (auto simp: div_less_iff_less_mult)
  moreover from d have "m mod 16 = n mod 16" by (intro digit_inj) simp_all
  ultimately show ?case by (metis div_mult_mod_eq)
qed

lemma length_uuid_hex [simp]: "length (uuid_hex u) = 32"
  by (simp add: uuid_hex_def)

lemma uuid_hex_inj [simp]: "uuid_hex u = uuid_hex v \<longleftrightarrow> u = v"
proof
  assume "uuid_hex u = uuid_hex v"
  moreover have "uint w < 16 ^ 32" "0 \<le> uint w" for w :: uuid
    using uint_lt2p [of w] by simp_all
  ultimately have "uint u = uint v" unfolding uuid_hex_def by (blast intro: hex_fixed_inj)
  then show "u = v" by (simp add: word_uint_eq_iff)
qed simp

lemma uuid_parts: "take 8 h @ take 4 (drop 8 h) @ take 4 (drop 12 h) @ take 4 (drop 16 h) @ drop 20 h = h"
proof -
  have step: "take 4 (drop n h) @ drop m h = drop n h" if "m = n + 4" for n m
    unfolding that by (metis append_take_drop_id drop_drop add.commute)
  have "take 4 (drop 8 h) @ drop 12 h = drop 8 h" "take 4 (drop 12 h) @ drop 16 h = drop 12 h"
    "take 4 (drop 16 h) @ drop 20 h = drop 16 h" by (rule step; simp)+
  then show ?thesis by (simp only: append_take_drop_id)
qed

lemma uuid_str_inj [simp]: "uuid_str u = uuid_str v \<longleftrightarrow> u = v"
proof
  assume "uuid_str u = uuid_str v"
  then have "uuid_hex u = uuid_hex v"
    by (subst (1 2) uuid_parts [symmetric]) (simp add: uuid_str_def Let_def)
  then show "u = v" by simp
qed simp

section \<open>Datetimes\<close>

text \<open>
  A Python \<open>datetime\<close>: microseconds since 1970-01-01T00:00:00 (UTC when aware, the
  naive wall clock otherwise) and its UTC offset in minutes, \<open>None\<close> for a naive value.
  Two aware values compare by their instant, whatever their offsets. The functions that
  may receive a naive value test for it first, as the source does, so an ordering is only
  ever taken between aware values.
\<close>

record py_datetime =
  dt_us :: int
  dt_offset :: "int option"

definition dt_aware :: "py_datetime \<Rightarrow> bool" where
  "dt_aware d \<longleftrightarrow> dt_offset d \<noteq> None"

definition dt_less :: "py_datetime \<Rightarrow> py_datetime \<Rightarrow> bool" where
  "dt_less a b \<longleftrightarrow> dt_us a < dt_us b"

definition dt_le :: "py_datetime \<Rightarrow> py_datetime \<Rightarrow> bool" where
  "dt_le a b \<longleftrightarrow> dt_us a \<le> dt_us b"

text \<open>Python's \<open>==\<close>: a naive and an aware value are never equal.\<close>

definition dt_eq :: "py_datetime \<Rightarrow> py_datetime \<Rightarrow> bool" where
  "dt_eq a b \<longleftrightarrow> dt_us a = dt_us b \<and> dt_aware a = dt_aware b"

definition dt_opt_eq :: "py_datetime option \<Rightarrow> py_datetime option \<Rightarrow> bool" where
  "dt_opt_eq a b = (case (a, b) of (None, None) \<Rightarrow> True | (Some x, Some y) \<Rightarrow> dt_eq x y | _ \<Rightarrow> False)"

definition seconds :: "int \<Rightarrow> int" where
  "seconds n = n * 1000000"

definition minutes :: "int \<Rightarrow> int" where
  "minutes n = seconds (60 * n)"

definition dt_add :: "py_datetime \<Rightarrow> int \<Rightarrow> py_datetime" where
  "dt_add d delta = d\<lparr>dt_us := dt_us d + delta\<rparr>"

definition dt_min :: "py_datetime \<Rightarrow> py_datetime \<Rightarrow> py_datetime" where
  "dt_min a b = (if dt_less b a then b else a)"

text \<open>\<open>int(d.timestamp())\<close>: whole seconds, truncated towards zero.\<close>

definition dt_timestamp :: "py_datetime \<Rightarrow> int" where
  "dt_timestamp d = (if 0 \<le> dt_us d then dt_us d div 1000000 else - ((- dt_us d) div 1000000))"

text \<open>The proleptic Gregorian date of a day number counted from 1970-01-01.\<close>

definition civil_date :: "int \<Rightarrow> int \<times> int \<times> int" where
  "civil_date days =
    (let z = days + 719468;
         era = z div 146097;
         doe = z - era * 146097;
         yoe = (doe - doe div 1460 + doe div 36524 - doe div 146096) div 365;
         doy = doe - (365 * yoe + yoe div 4 - yoe div 100);
         mp = (5 * doy + 2) div 153;
         d = doy - (153 * mp + 2) div 5 + 1;
         m = (if mp < 10 then mp + 3 else mp - 9)
     in (yoe + era * 400 + (if m \<le> 2 then 1 else 0), m, d))"

definition dt_isoformat :: "py_datetime \<Rightarrow> string" where
  "dt_isoformat dt =
    (let off = (case dt_offset dt of None \<Rightarrow> 0 | Some mi \<Rightarrow> mi);
         local = dt_us dt + minutes off;
         secs = local div 1000000;
         us = local mod 1000000;
         (y, m, d) = civil_date (secs div 86400);
         s = secs mod 86400
     in zero_pad 4 y @ ''-'' @ zero_pad 2 m @ ''-'' @ zero_pad 2 d @ ''T'' @
        zero_pad 2 (s div 3600) @ '':'' @ zero_pad 2 (s div 60 mod 60) @ '':'' @ zero_pad 2 (s mod 60) @
        (if us = 0 then [] else ''.'' @ zero_pad 6 us) @
        (case dt_offset dt of None \<Rightarrow> []
         | Some mi \<Rightarrow> (if mi < 0 then ''-'' else ''+'') @ zero_pad 2 (\<bar>mi\<bar> div 60) @ '':'' @
             zero_pad 2 (\<bar>mi\<bar> mod 60)))"

lemma dt_opt_eq_simps [simp]:
  "dt_opt_eq None None" "dt_opt_eq (Some x) (Some y) = dt_eq x y"
  "\<not> dt_opt_eq None (Some y)" "\<not> dt_opt_eq (Some x) None"
  by (simp_all add: dt_opt_eq_def)

lemma dt_eq_refl [simp]: "dt_eq d d" and dt_opt_eq_refl [simp]: "dt_opt_eq o1 o1"
  by (simp_all add: dt_eq_def dt_opt_eq_def split: option.split)

lemma dt_aware_add [simp]: "dt_aware (dt_add d n) = dt_aware d"
  by (simp add: dt_add_def dt_aware_def)

lemma dt_us_add [simp]: "dt_us (dt_add d n) = dt_us d + n"
  by (simp add: dt_add_def)

section \<open>Tables\<close>

text \<open>
  A database table is the list of its rows in insertion order. \<open>row_find\<close> is a select by
  primary key, \<open>row_save\<close> the update of one row when its session is flushed,
  \<open>row_add\<close> an insert.
\<close>

definition row_find :: "('r \<Rightarrow> 'k) \<Rightarrow> 'k \<Rightarrow> 'r list \<Rightarrow> 'r option" where
  "row_find key k t = find (\<lambda>r. key r = k) t"

definition row_save :: "('r \<Rightarrow> 'k) \<Rightarrow> 'r \<Rightarrow> 'r list \<Rightarrow> 'r list" where
  "row_save key r t = map (\<lambda>x. if key x = key r then r else x) t"

definition row_add :: "'r \<Rightarrow> 'r list \<Rightarrow> 'r list" where
  "row_add r t = t @ [r]"

lemma row_find_SomeD: "row_find key k t = Some r \<Longrightarrow> key r = k \<and> r \<in> set t"
  by (auto simp: row_find_def find_Some_iff)

lemma row_find_None_iff: "row_find key k t = None \<longleftrightarrow> k \<notin> key ` set t"
  by (auto simp: row_find_def find_None_iff)

lemma row_find_save:
  "row_find key k (row_save key r t) =
     (if k = key r then (if row_find key k t = None then None else Some r) else row_find key k t)"
  by (induction t) (auto simp: row_find_def row_save_def)

lemma row_find_add:
  "row_find key k (row_add r t) =
     (case row_find key k t of Some x \<Rightarrow> Some x | None \<Rightarrow> if key r = k then Some r else None)"
  by (induction t) (auto simp: row_find_def row_add_def)

lemma row_save_keys: "map key (row_save key r t) = map key t"
  by (simp add: row_save_def)

lemma row_save_set: "set (row_save key r t) \<subseteq> insert r (set t)"
  by (auto simp: row_save_def)

text \<open>
  The interface every component uses: what a lookup returns after a save or an insert, and
  that a save never changes the keys of the table.
\<close>

locale row_store =
  fixes key :: "'r \<Rightarrow> 'k"
    and rows :: "'d \<Rightarrow> 'r list"
    and lookup :: "'k \<Rightarrow> 'd \<Rightarrow> 'r option"
    and save :: "'r \<Rightarrow> 'd \<Rightarrow> 'd"
    and add :: "'r \<Rightarrow> 'd \<Rightarrow> 'd"
  assumes lookup_rows: "lookup k d = row_find key k (rows d)"
    and save_rows: "rows (save r d) = row_save key r (rows d)"
    and add_rows: "rows (add r d) = row_add r (rows d)"
begin

lemma lookup_key: "lookup k d = Some r \<Longrightarrow> key r = k"
  unfolding lookup_rows by (drule row_find_SomeD) (rule conjunct1)

lemma lookup_in: "lookup k d = Some r \<Longrightarrow> r \<in> set (rows d)"
  unfolding lookup_rows by (drule row_find_SomeD) (rule conjunct2)

lemma lookup_None_iff: "lookup k d = None \<longleftrightarrow> k \<notin> key ` set (rows d)"
  by (simp only: lookup_rows row_find_None_iff)

lemma lookup_save:
  "lookup k (save r d) = (if k = key r then (if lookup k d = None then None else Some r) else lookup k d)"
  by (simp only: lookup_rows save_rows row_find_save)

lemma lookup_saved: "lookup k d = Some r0 \<Longrightarrow> key r = k \<Longrightarrow> lookup k (save r d) = Some r"
  by (simp add: lookup_save)

lemma lookup_save_other: "key r \<noteq> k \<Longrightarrow> lookup k (save r d) = lookup k d"
  by (simp add: lookup_save)

lemma lookup_add:
  "lookup k (add r d) =
     (case lookup k d of Some x \<Rightarrow> Some x | None \<Rightarrow> if key r = k then Some r else None)"
  by (simp only: lookup_rows add_rows row_find_add)

lemma lookup_added: "lookup (key r) d = None \<Longrightarrow> lookup (key r) (add r d) = Some r"
  by (simp add: lookup_add)

lemma lookup_add_old: "lookup k d = Some x \<Longrightarrow> lookup k (add r d) = Some x"
  by (simp add: lookup_add)

lemma keys_save: "map key (rows (save r d)) = map key (rows d)"
  by (simp only: save_rows row_save_keys)

lemma set_save: "set (rows (save r d)) \<subseteq> insert r (set (rows d))"
  by (simp only: save_rows row_save_set)

lemma set_add: "set (rows (add r d)) = insert r (set (rows d))"
  by (auto simp: add_rows row_add_def)

lemma in_saveE:
  assumes "x \<in> set (rows (save r d))"
  obtains "x = r" "key r \<in> key ` set (rows d)" | "x \<in> set (rows d)" "key x \<noteq> key r"
proof -
  from assms(1) obtain y where y: "y \<in> set (rows d)" "x = (if key y = key r then r else y)"
    unfolding save_rows row_save_def by auto
  show thesis
  proof (cases "key y = key r")
    case True
    with y have "x = r" "key r \<in> key ` set (rows d)" by (auto intro: image_eqI [of _ key y])
    then show thesis by (rule that(1))
  next
    case False
    with y show thesis by (intro that(2)) simp_all
  qed
qed

lemma distinct_save: "distinct (map key (rows (save r d))) = distinct (map key (rows d))"
  by (simp only: keys_save)

lemma distinct_add:
  "distinct (map key (rows (add r d))) \<longleftrightarrow> distinct (map key (rows d)) \<and> lookup (key r) d = None"
  by (auto simp: add_rows row_add_def lookup_None_iff)

lemma lookup_distinct:
  assumes "distinct (map key (rows d))" "r \<in> set (rows d)"
  shows "lookup (key r) d = Some r"
proof (cases "lookup (key r) d")
  case None
  with assms(2) show ?thesis by (auto simp: lookup_None_iff)
next
  case (Some x)
  then have "key x = key r" "x \<in> set (rows d)" by (auto dest: lookup_key lookup_in)
  with assms have "x = r" by (metis distinct_map inj_onD)
  with Some show ?thesis by simp
qed

lemmas laws = lookup_saved lookup_save_other lookup_added lookup_add_old

end

text \<open>Rows that stay in place: what \<open>row_save\<close> does to a predicate on all rows.\<close>

lemma row_save_all:
  assumes "\<forall>x \<in> set t. P x" "P r"
  shows "\<forall>x \<in> set (row_save key r t). P x"
  using assms row_save_set [of key r t] by blast

lemma filter_row_save:
  assumes "\<And>x. x \<in> set t \<Longrightarrow> key x = key r \<Longrightarrow> P x \<longleftrightarrow> P r"
  shows "length (filter P (row_save key r t)) = length (filter P t)"
  using assms by (induction t) (auto simp: row_save_def)

end
