(* ===== verification/Arc_Json.thy ===== *)
theory Arc_Json
  imports Arc_Prelude
begin

text \<open>
  JSON values and Python's \<open>json.dumps\<close> with compact separators and \<open>sort_keys=True\<close>, the
  serialisation under every fingerprint of ARC, and the proof that it loses nothing: two
  values with the same text are the same value up to the order of object keys. The locale
  \<open>fingerprinted\<close> turns this into what a SHA-256 fingerprint binds.
\<close>

datatype json =
    JNull
  | JBool bool
  | JInt int
  | JFloat string \<comment> \<open>the text \<open>repr\<close> gives the float\<close>
  | JStr string
  | JArr "json list"
  | JObj "(string \<times> json) list"

definition jopt :: "('a \<Rightarrow> json) \<Rightarrow> 'a option \<Rightarrow> json" where
  "jopt f v = (case v of None \<Rightarrow> JNull | Some x \<Rightarrow> f x)"

section \<open>Serialisation\<close>

definition escape_char :: "bool \<Rightarrow> char \<Rightarrow> string" where
  "escape_char ascii c =
    (if c = CHR 0x22 then [CHR 0x5C, CHR 0x22]
     else if c = CHR 0x5C then [CHR 0x5C, CHR 0x5C]
     else if c = CHR 0x0A then [CHR 0x5C, CHR ''n'']
     else if c = CHR 0x0D then [CHR 0x5C, CHR ''r'']
     else if c = CHR 0x09 then [CHR 0x5C, CHR ''t'']
     else if c = CHR 0x0C then [CHR 0x5C, CHR ''f'']
     else if c = CHR 0x08 then [CHR 0x5C, CHR ''b'']
     else if py_ord c < 32 \<or> (ascii \<and> 126 < py_ord c) then [CHR 0x5C, CHR ''u''] @ hex_fixed 4 (py_ord c)
     else [c])"

definition json_string :: "bool \<Rightarrow> string \<Rightarrow> string" where
  "json_string ascii s = CHR 0x22 # concat (map (escape_char ascii) s) @ [CHR 0x22]"

fun commas :: "string list \<Rightarrow> string" where
  "commas [] = []"
| "commas [x] = x"
| "commas (x # xs) = x @ CHR '','' # commas xs"

fun json_print :: "bool \<Rightarrow> json \<Rightarrow> string" where
  "json_print ascii JNull = ''null''"
| "json_print ascii (JBool b) = (if b then ''true'' else ''false'')"
| "json_print ascii (JInt i) = int_str i"
| "json_print ascii (JFloat r) = r"
| "json_print ascii (JStr s) = json_string ascii s"
| "json_print ascii (JArr vs) = CHR ''['' # commas (map (json_print ascii) vs) @ '']''"
| "json_print ascii (JObj kvs) =
     CHR ''{'' # commas (map (\<lambda>(k, v). json_string ascii k @ CHR '':'' # json_print ascii v) kvs) @ ''}''"

text \<open>\<open>sort_keys=True\<close>, in every nested object.\<close>

fun json_canon :: "json \<Rightarrow> json" where
  "json_canon (JArr vs) = JArr (map json_canon vs)"
| "json_canon (JObj kvs) = JObj (sort_key fst (map (\<lambda>(k, v). (k, json_canon v)) kvs))"
| "json_canon v = v"

text \<open>\<open>json.dumps(v, ensure_ascii=ascii, separators=(",", ":"), sort_keys=True)\<close>.\<close>

definition json_dumps :: "bool \<Rightarrow> json \<Rightarrow> string" where
  "json_dumps ascii v = json_print ascii (json_canon v)"

section \<open>Serialisation is injective\<close>

text \<open>
  Number and literal tokens consist of the characters below; a float's text is such a token
  that is neither an integer's nor a literal.
\<close>

definition token_chars :: "char set" where
  "token_chars = set ''0123456789abcdefghijklmnopqrstuvwxyzINy+-.''"

definition float_token :: "string \<Rightarrow> bool" where
  "float_token r \<longleftrightarrow> r \<noteq> [] \<and> set r \<subseteq> token_chars \<and>
     \<not> set r \<subseteq> insert CHR ''-'' (set ''0123456789'') \<and>
     r \<noteq> ''null'' \<and> r \<noteq> ''true'' \<and> r \<noteq> ''false''"

fun wf_json :: "json \<Rightarrow> bool" where
  "wf_json (JFloat r) = float_token r"
| "wf_json (JArr vs) = (\<forall>v \<in> set vs. wf_json v)"
| "wf_json (JObj kvs) = (\<forall>kv \<in> set kvs. wf_json (snd kv))"
| "wf_json v = True"

definition value_end :: "string \<Rightarrow> bool" where
  "value_end s \<longleftrightarrow> s = [] \<or> hd s \<in> {CHR '','', CHR '']'', CHR ''}''}"

lemma value_end_simps [simp]:
  "value_end []" "value_end (CHR '','' # s)" "value_end (CHR '']'' # s)" "value_end (CHR ''}'' # s)"
  by (simp_all add: value_end_def)

fun scalar :: "json \<Rightarrow> bool" where
  "scalar (JStr s) = False"
| "scalar (JArr vs) = False"
| "scalar (JObj kvs) = False"
| "scalar v = True"

lemma scalar_token:
  assumes "scalar v" "wf_json v"
  shows "set (json_print ascii v) \<subseteq> token_chars" "json_print ascii v \<noteq> []"
proof -
  have "insert CHR ''-'' (set ''0123456789'') \<subseteq> token_chars" by (auto simp: token_chars_def)
  then have "set (int_str i) \<subseteq> token_chars" for i using int_str_chars [of i] by blast
  with assms show "set (json_print ascii v) \<subseteq> token_chars" "json_print ascii v \<noteq> []"
    by (cases v; auto simp: token_chars_def float_token_def)+
qed

lemma scalar_print_inj:
  assumes "scalar v" "wf_json v" "scalar w" "wf_json w" "json_print ascii v = json_print ascii w"
  shows "v = w"
proof -
  have "set ''null'' \<subseteq> insert CHR ''-'' (set ''0123456789'') \<longleftrightarrow> False"
    "set ''true'' \<subseteq> insert CHR ''-'' (set ''0123456789'') \<longleftrightarrow> False"
    "set ''false'' \<subseteq> insert CHR ''-'' (set ''0123456789'') \<longleftrightarrow> False" by simp_all
  then have lit: "int_str i \<noteq> ''null''" "int_str i \<noteq> ''true''" "int_str i \<noteq> ''false''" for i
    using int_str_chars [of i] by metis+
  have fl: "\<not> float_token (int_str i)" "\<not> float_token ''null''" "\<not> float_token ''true''"
    "\<not> float_token ''false''" for i
    using int_str_chars [of i] by (simp_all only: float_token_def) blast+
  show ?thesis using assms lit [symmetric] lit fl
    by (cases v; cases w) (auto split: if_splits)
qed

lemma token_split:
  assumes "set a \<subseteq> token_chars" "set b \<subseteq> token_chars" "value_end s" "value_end t" "a @ s = b @ t"
  shows "a = b \<and> s = t"
proof -
  have stop: "takeWhile (\<lambda>c. c \<in> token_chars) (x @ u) = x" if "set x \<subseteq> token_chars" "value_end u" for x u
  proof -
    have "takeWhile (\<lambda>c. c \<in> token_chars) u = []"
      using that(2) by (cases u) (auto simp: value_end_def token_chars_def)
    with that(1) show ?thesis by (subst takeWhile_append2) auto
  qed
  from assms stop [of a s] stop [of b t] have "a = b" by simp
  with assms show ?thesis by simp
qed

lemma escape_char_Cons: "\<exists>d ds. escape_char ascii c = d # ds \<and> d \<noteq> CHR 0x22"
  by (simp add: escape_char_def)

lemma length_escape_u: "length (hex_fixed 4 n) = 4"
  by simp

lemma escape_char_prefix:
  assumes "escape_char ascii c @ x = escape_char ascii d @ y"
  shows "c = d \<and> x = y"
proof -
  have u: "c = d \<and> x = y" if "hex_fixed 4 (py_ord c) @ x = hex_fixed 4 (py_ord d) @ y"
  proof -
    from that have "hex_fixed 4 (py_ord c) = hex_fixed 4 (py_ord d)" "x = y"
      by (simp_all add: append_eq_append_conv)
    moreover have "py_ord c = py_ord d"
      using py_ord_bounds [of c] py_ord_bounds [of d] calculation(1) by (intro hex_fixed_inj [of _ 4]) auto
    ultimately show ?thesis by (simp add: py_ord_inj)
  qed
  show ?thesis using assms u
    by (simp only: escape_char_def) (auto split: if_splits)
qed

lemma escaped_split:
  assumes "concat (map (escape_char ascii) s) @ CHR 0x22 # x = concat (map (escape_char ascii) t) @ CHR 0x22 # y"
  shows "s = t \<and> x = y"
  using assms
proof (induction s arbitrary: t)
  case Nil
  show ?case
  proof (cases t)
    case (Cons d t')
    with Nil escape_char_Cons [of ascii d] show ?thesis by auto
  qed (use Nil in simp)
next
  case (Cons c s)
  show ?case
  proof (cases t)
    case Nil
    with Cons.prems escape_char_Cons [of ascii c] show ?thesis by auto
  next
    case (Cons d t')
    with Cons.prems have "escape_char ascii c @ (concat (map (escape_char ascii) s) @ CHR 0x22 # x)
      = escape_char ascii d @ (concat (map (escape_char ascii) t') @ CHR 0x22 # y)" by simp
    then have "c = d" "concat (map (escape_char ascii) s) @ CHR 0x22 # x
      = concat (map (escape_char ascii) t') @ CHR 0x22 # y" by (blast dest: escape_char_prefix)+
    with Cons Cons.IH [of t'] show ?thesis by simp
  qed
qed

lemma json_string_split: "json_string ascii s @ x = json_string ascii t @ y \<Longrightarrow> s = t \<and> x = y"
  by (auto simp: json_string_def dest: escaped_split)

text \<open>The first character of a printed value tells scalars, strings, arrays and objects apart.\<close>

lemma json_print_hd:
  assumes "wf_json v"
  obtains c cs where "json_print ascii v = c # cs"
    "c = CHR 0x22 \<longleftrightarrow> (\<exists>s. v = JStr s)" "c = CHR ''['' \<longleftrightarrow> (\<exists>vs. v = JArr vs)"
    "c = CHR ''{'' \<longleftrightarrow> (\<exists>kvs. v = JObj kvs)" "c \<in> token_chars \<longleftrightarrow> scalar v"
    "c \<noteq> CHR '']''" "c \<noteq> CHR ''}''"
proof (cases "scalar v")
  case True
  with scalar_token [OF True assms, of ascii] obtain c cs where c: "json_print ascii v = c # cs" "c \<in> token_chars"
    by (metis list.set_intros(1) neq_Nil_conv subsetD)
  then have "c \<noteq> CHR 0x22" "c \<noteq> CHR ''[''" "c \<noteq> CHR ''{''" "c \<noteq> CHR '']''" "c \<noteq> CHR ''}''"
    by (auto simp: token_chars_def)
  with c True show ?thesis by (intro that [of c cs]) auto
next
  case False
  then show ?thesis by (cases v) (auto simp: json_string_def token_chars_def intro: that)
qed

lemma commas_Cons: "xs \<noteq> [] \<Longrightarrow> commas (x # xs) = x @ CHR '','' # commas xs"
  by (cases xs) auto

text \<open>
  A comma-separated sequence up to its closing bracket determines its elements, when each
  element is determined by its text followed by a separator or the bracket.
\<close>

lemma commas_split:
  assumes elem: "\<And>a b x y. a \<in> set as \<Longrightarrow> b \<in> B \<Longrightarrow> value_end x \<Longrightarrow> value_end y \<Longrightarrow>
      f a @ x = f b @ y \<Longrightarrow> a = b \<and> x = y"
    and nonempty: "\<And>b. b \<in> set as \<union> B \<Longrightarrow> \<exists>c cs. f b = c # cs \<and> c \<noteq> close"
    and close: "close \<in> {CHR '']'', CHR ''}''}" "set bs \<subseteq> B"
    and eq: "commas (map f as) @ close # s = commas (map f bs) @ close # t"
  shows "as = bs \<and> s = t"
  using elem nonempty close(2) eq
proof (induction as arbitrary: bs)
  case Nil
  then show ?case by (cases bs; cases "tl bs") fastforce+
next
  case (Cons a as)
  obtain b bs' where bs: "bs = b # bs'"
  proof (cases bs)
    case Nil
    with Cons.prems(2) [of a] Cons.prems(4) show ?thesis by (cases as) auto
  qed (rule that)
  have ve: "value_end (close # u)" "close \<noteq> CHR '',''" for u using close(1) by (auto simp: value_end_def)
  have tail: "commas (map f (z # zs)) @ close # u =
      f z @ (if zs = [] then close # u else CHR '','' # commas (map f zs) @ close # u)" for z zs u
    by (simp add: commas_Cons)
  let ?x = "if as = [] then close # s else CHR '','' # commas (map f as) @ close # s"
  let ?y = "if bs' = [] then close # t else CHR '','' # commas (map f bs') @ close # t"
  have "f a @ ?x = f b @ ?y" using Cons.prems(4) by (simp only: bs tail)
  moreover have "value_end ?x" "value_end ?y" using ve by auto
  ultimately have ab: "a = b \<and> ?x = ?y"
    using Cons.prems(3) by (intro Cons.prems(1)) (auto simp: bs)
  show ?case
  proof (cases "as = []")
    case True
    with ab ve(2) show ?thesis by (auto simp: bs split: if_splits)
  next
    case False
    with ab ve(2) have "commas (map f as) @ close # s = commas (map f bs') @ close # t"
      by (auto split: if_splits)
    then have "as = bs' \<and> s = t"
      by (rule Cons.IH [rotated 3]) (use Cons.prems(1-3) in \<open>auto simp: bs\<close>)
    with ab show ?thesis by (simp add: bs)
  qed
qed

abbreviation print_entry :: "bool \<Rightarrow> string \<times> json \<Rightarrow> string" where
  "print_entry ascii \<equiv> \<lambda>(k, v). json_string ascii k @ CHR '':'' # json_print ascii v"

lemma scalar_split:
  assumes "scalar v" "wf_json v" "wf_json w" "value_end s" "value_end t"
    "json_print ascii v @ s = json_print ascii w @ t"
  shows "v = w \<and> s = t"
proof -
  have "scalar w"
  proof (rule json_print_hd [OF assms(2), of ascii], rule json_print_hd [OF assms(3), of ascii])
    fix c cs d ds
    assume "json_print ascii v = c # cs" "c \<in> token_chars \<longleftrightarrow> scalar v"
      "json_print ascii w = d # ds" "d \<in> token_chars \<longleftrightarrow> scalar w"
    with assms(1,6) show ?thesis by simp
  qed
  then have "json_print ascii v = json_print ascii w \<and> s = t"
    using assms by (intro token_split) (auto dest: scalar_token(1))
  with \<open>scalar w\<close> assms show ?thesis by (blast dest: scalar_print_inj)
qed

lemma json_print_split:
  "wf_json v \<Longrightarrow> wf_json w \<Longrightarrow> value_end s \<Longrightarrow> value_end t \<Longrightarrow>
     json_print ascii v @ s = json_print ascii w @ t \<Longrightarrow> v = w \<and> s = t"
proof (induction v arbitrary: w s t)
  case (JStr a)
  obtain b where "w = JStr b"
  proof (rule json_print_hd [OF JStr.prems(2), of ascii])
    fix c cs assume "json_print ascii w = c # cs" "c = CHR 0x22 \<longleftrightarrow> (\<exists>s. w = JStr s)"
    with JStr.prems(5) that show thesis by (auto simp: json_string_def)
  qed
  with JStr.prems(5) show ?case by (auto dest: json_string_split)
next
  case (JArr vs)
  obtain ws where w: "w = JArr ws"
  proof (rule json_print_hd [OF JArr.prems(2), of ascii])
    fix c cs assume "json_print ascii w = c # cs" "c = CHR ''['' \<longleftrightarrow> (\<exists>vs. w = JArr vs)"
    with JArr.prems(5) that show thesis by auto
  qed
  have "vs = ws \<and> s = t"
  proof (rule commas_split [where f = "json_print ascii" and B = "{b. wf_json b}" and close = "CHR '']''"])
    fix b assume "b \<in> set vs \<union> {b. wf_json b}"
    with JArr.prems(1) have "wf_json b" by auto
    then show "\<exists>c cs. json_print ascii b = c # cs \<and> c \<noteq> CHR '']''"
      by (rule json_print_hd [of _ ascii]) auto
  qed (use JArr.prems w JArr.IH in auto)
  with w show ?case by simp
next
  case (JObj kvs)
  obtain kws where w: "w = JObj kws"
  proof (rule json_print_hd [OF JObj.prems(2), of ascii])
    fix c cs assume "json_print ascii w = c # cs" "c = CHR ''{'' \<longleftrightarrow> (\<exists>kvs. w = JObj kvs)"
    with JObj.prems(5) that show thesis by auto
  qed
  have "kvs = kws \<and> s = t"
  proof (rule commas_split [where f = "print_entry ascii" and B = "{b. wf_json (snd b)}" and close = "CHR ''}''"])
    fix a b x y
    assume ab: "a \<in> set kvs" "b \<in> {b. wf_json (snd b)}" "value_end x" "value_end y"
      "print_entry ascii a @ x = print_entry ascii b @ y"
    then have "json_string ascii (fst a) @ CHR '':'' # json_print ascii (snd a) @ x =
      json_string ascii (fst b) @ CHR '':'' # json_print ascii (snd b) @ y"
      by (simp add: case_prod_beta)
    then have "fst a = fst b" "json_print ascii (snd a) @ x = json_print ascii (snd b) @ y"
      by (blast dest: json_string_split)+
    with ab JObj.IH [of a "snd a" "snd b" x y] JObj.prems(1) show "a = b \<and> x = y"
      by (auto simp: prod_eq_iff prod_set_simps snds.simps)
  qed (use JObj.prems w in \<open>auto simp: json_string_def\<close>)
  with w show ?case by simp
qed (erule (4) scalar_split [rotated], simp)+

lemma json_print_inj: "wf_json v \<Longrightarrow> wf_json w \<Longrightarrow> json_print ascii v = json_print ascii w \<Longrightarrow> v = w"
  using json_print_split [of v w "[]" "[]" ascii] by simp

lemma wf_json_canon: "wf_json v \<Longrightarrow> wf_json (json_canon v)"
proof (induction v rule: json_canon.induct)
  case (2 kvs)
  have "wf_json (json_canon v)" if "(k, v) \<in> set kvs" for k v
    using "2.prems" that by (intro "2.IH" [of "(k, v)" k v]) auto
  then show ?case by (auto simp: case_prod_beta)
qed auto

theorem json_dumps_eq_iff:
  assumes "wf_json v" "wf_json w"
  shows "json_dumps ascii v = json_dumps ascii w \<longleftrightarrow> json_canon v = json_canon w"
  using assms by (auto simp: json_dumps_def dest: json_print_inj [OF wf_json_canon wf_json_canon])

section \<open>Dictionaries\<close>

text \<open>
  A Python \<open>dict\<close> is its items in order. Assigning to a key replaces the value in place or
  appends the item; \<open>d.update(items)\<close> assigns them in turn.
\<close>

definition dict_put :: "string \<Rightarrow> 'v \<Rightarrow> (string \<times> 'v) list \<Rightarrow> (string \<times> 'v) list" where
  "dict_put k v d =
     (if k \<in> fst ` set d then map (\<lambda>(j, w). (j, if j = k then v else w)) d else d @ [(k, v)])"

definition dict_update :: "(string \<times> 'v) list \<Rightarrow> (string \<times> 'v) list \<Rightarrow> (string \<times> 'v) list" where
  "dict_update d items = foldl (\<lambda>acc (k, v). dict_put k v acc) d items"

lemma map_of_replace:
  "map_of (map (\<lambda>(j, w). (j, if j = k then v else w)) d) i =
     (if i = k \<and> k \<in> fst ` set d then Some v else map_of d i)"
  by (induction d) (auto simp: case_prod_beta rev_image_eqI)

lemma map_of_dict_put [simp]: "map_of (dict_put k v d) i = (if i = k then Some v else map_of d i)"
proof (cases "k \<in> fst ` set d")
  case True
  then show ?thesis by (simp add: dict_put_def map_of_replace)
next
  case False
  then have "map_of d k = None" by (simp add: map_of_eq_None_iff)
  with False show ?thesis by (auto simp: dict_put_def map_add_def split: option.split)
qed

lemma dict_update_simps [simp]:
  "dict_update d [] = d"
  "dict_update d ((k, v) # items) = dict_update (dict_put k v d) items"
  by (simp_all add: dict_update_def)

lemma map_of_dict_update:
  "map_of (dict_update d items) i = (case map_of (rev items) i of Some v \<Rightarrow> Some v | None \<Rightarrow> map_of d i)"
  by (induction items arbitrary: d) (auto simp: map_add_def split: option.splits)

lemma jopt_inj: "inj f \<Longrightarrow> (\<And>x. f x \<noteq> JNull) \<Longrightarrow> jopt f a = jopt f b \<longleftrightarrow> a = b"
  by (cases a; cases b) (simp_all add: jopt_def inj_eq, metis)

lemma jopt_eq_simps [simp]: "jopt JStr a = jopt JStr b \<longleftrightarrow> a = b" "jopt JInt i = jopt JInt j \<longleftrightarrow> i = j"
  by (simp_all add: jopt_inj inj_on_def)

lemma json_canon_jopt [simp]: "json_canon (jopt JStr a) = jopt JStr a" "json_canon (jopt JInt i) = jopt JInt i"
  by (cases a; cases i; simp add: jopt_def)+

lemma wf_json_jopt [simp]: "(\<And>x. wf_json (f x)) \<Longrightarrow> wf_json (jopt f v)"
  by (cases v) (simp_all add: jopt_def)

section \<open>What a fingerprint binds\<close>

text \<open>
  \<open>json_field k v\<close> is the (canonical) value a JSON object has under a key.
\<close>

definition json_field :: "string \<Rightarrow> json \<Rightarrow> json option" where
  "json_field k v = (case v of JObj kvs \<Rightarrow> map_option json_canon (map_of kvs k) | _ \<Rightarrow> None)"

lemma distinct_keys_sort_key:
  "distinct (map fst (sort_key fst kvs)) \<longleftrightarrow> distinct (map fst kvs)" for kvs :: "(string \<times> 'a) list"
  by (simp add: distinct_map)

lemma map_of_sort_key:
  fixes kvs :: "(string \<times> 'a) list"
  assumes "distinct (map fst kvs)"
  shows "map_of (sort_key fst kvs) = map_of kvs"
proof -
  have "distinct (map fst (sort_key fst kvs))" using assms by (simp only: distinct_keys_sort_key)
  with assms show ?thesis by (simp add: map_of_inject_set)
qed

abbreviation canon_entries :: "(string \<times> json) list \<Rightarrow> (string \<times> json) list" where
  "canon_entries \<equiv> map (\<lambda>(k, v). (k, json_canon v))"

lemma keys_canon_entries: "map fst (canon_entries kvs) = map fst kvs"
  by (induction kvs) auto

lemma json_field_canon:
  assumes "distinct (map fst kvs)" "distinct (map fst kws)" "json_canon (JObj kvs) = json_canon (JObj kws)"
  shows "json_field k (JObj kvs) = json_field k (JObj kws)"
proof -
  have d: "distinct (map fst (canon_entries kvs))" "distinct (map fst (canon_entries kws))"
    using assms(1,2) by (simp_all only: keys_canon_entries)
  have "map_of (canon_entries kvs) = map_of (canon_entries kws)"
    using assms(3) map_of_sort_key [OF d(1)] map_of_sort_key [OF d(2)] by simp
  then have "map_option json_canon (map_of kvs k) = map_option json_canon (map_of kws k)"
    by (metis map_of_map comp_apply)
  then show ?thesis by (simp add: json_field_def)
qed

text \<open>
  SHA-256 is a parameter \<open>sha\<close> of the model. A theorem that needs two distinct texts to have
  distinct digests says so of those two texts only.
\<close>

definition no_collision :: "(string \<Rightarrow> string) \<Rightarrow> string \<Rightarrow> string \<Rightarrow> bool" where
  "no_collision sha x y \<longleftrightarrow> (sha x = sha y \<longrightarrow> x = y)"

text \<open>A stand-in for the digest, for closed examples.\<close>

definition fixed_sha :: "string \<Rightarrow> string" where
  "fixed_sha = (\<lambda>_. ''h'')"

text \<open>
  The contract of a fingerprint: the facts it hashes are a JSON object with distinct keys.
\<close>

locale fingerprinted =
  fixes facts :: "'a \<Rightarrow> json" and ascii :: bool
  assumes facts_wf: "wf_json (facts a)"
    and facts_keys: "\<exists>kvs. facts a = JObj kvs \<and> distinct (map fst kvs)"
begin

lemma same_facts:
  assumes "sha (json_dumps ascii (facts a)) = sha (json_dumps ascii (facts b))"
    and "no_collision sha (json_dumps ascii (facts a)) (json_dumps ascii (facts b))"
  shows "json_canon (facts a) = json_canon (facts b)"
  using assms json_dumps_eq_iff [OF facts_wf facts_wf] by (simp add: no_collision_def)

lemma binds:
  assumes "sha (json_dumps ascii (facts a)) = sha (json_dumps ascii (facts b))"
    and "no_collision sha (json_dumps ascii (facts a)) (json_dumps ascii (facts b))"
  shows "json_field k (facts a) = json_field k (facts b)"
proof -
  obtain kvs kws where "facts a = JObj kvs" "distinct (map fst kvs)" "facts b = JObj kws" "distinct (map fst kws)"
    using facts_keys by metis
  with same_facts [OF assms] json_field_canon [of kvs kws k] show ?thesis by metis
qed

end

end
