(* ===== verification/Arc_Enums.thy ===== *)
theory Arc_Enums
  imports Arc_Prelude
begin

text \<open>
  The controlled values of \<open>arc/domain/enums.py\<close>. Each \<open>StrEnum\<close> is a datatype with the
  members of the source; \<open><enum>_value\<close> is the string the database, the fingerprints and the
  audit events hold for a member. Constructors are written with their enum's name in front
  (\<open>CaseState.WAITING_FOR_OUTCOME\<close>), as in the source.
\<close>

datatype CaseState =
    DETECTED
  | RECONCILING
  | DIAGNOSED
  | DECISIONED
  | POLICY_VALIDATED
  | ACTIONED
  | WAITING_FOR_OUTCOME
  | RECOVERED
  | EXHAUSTED
  | ESCALATED

fun case_state_value :: "CaseState \<Rightarrow> string" where
  "case_state_value CaseState.DETECTED = ''DETECTED''"
| "case_state_value CaseState.RECONCILING = ''RECONCILING''"
| "case_state_value CaseState.DIAGNOSED = ''DIAGNOSED''"
| "case_state_value CaseState.DECISIONED = ''DECISIONED''"
| "case_state_value CaseState.POLICY_VALIDATED = ''POLICY_VALIDATED''"
| "case_state_value CaseState.ACTIONED = ''ACTIONED''"
| "case_state_value CaseState.WAITING_FOR_OUTCOME = ''WAITING_FOR_OUTCOME''"
| "case_state_value CaseState.RECOVERED = ''RECOVERED''"
| "case_state_value CaseState.EXHAUSTED = ''EXHAUSTED''"
| "case_state_value CaseState.ESCALATED = ''ESCALATED''"

datatype EventProcessingStatus =
    RECEIVED
  | PROCESSING
  | PROCESSED
  | FAILED
  | UNSUPPORTED

fun event_status_value :: "EventProcessingStatus \<Rightarrow> string" where
  "event_status_value EventProcessingStatus.RECEIVED = ''RECEIVED''"
| "event_status_value EventProcessingStatus.PROCESSING = ''PROCESSING''"
| "event_status_value EventProcessingStatus.PROCESSED = ''PROCESSED''"
| "event_status_value EventProcessingStatus.FAILED = ''FAILED''"
| "event_status_value EventProcessingStatus.UNSUPPORTED = ''UNSUPPORTED''"

datatype EligibilityDecision =
    ELIGIBLE
  | WAIT
  | STOP
  | REVIEW

fun eligibility_value :: "EligibilityDecision \<Rightarrow> string" where
  "eligibility_value EligibilityDecision.ELIGIBLE = ''ELIGIBLE''"
| "eligibility_value EligibilityDecision.WAIT = ''WAIT''"
| "eligibility_value EligibilityDecision.STOP = ''STOP''"
| "eligibility_value EligibilityDecision.REVIEW = ''REVIEW''"

datatype FailureCategory =
    CUSTOMER_AUTHENTICATION
  | CUSTOMER_FUNDS
  | CUSTOMER_INTERRUPTION
  | CUSTOMER_OR_INSTRUMENT_RESTRICTION
  | BANK_OR_ISSUER
  | GATEWAY_OR_NETWORK
  | MERCHANT_CONFIGURATION
  | RAZORPAY_OR_PLATFORM
  | SUBSCRIPTION_RETRY_EXHAUSTED
  | UNKNOWN

fun failure_category_value :: "FailureCategory \<Rightarrow> string" where
  "failure_category_value FailureCategory.CUSTOMER_AUTHENTICATION = ''CUSTOMER_AUTHENTICATION''"
| "failure_category_value FailureCategory.CUSTOMER_FUNDS = ''CUSTOMER_FUNDS''"
| "failure_category_value FailureCategory.CUSTOMER_INTERRUPTION = ''CUSTOMER_INTERRUPTION''"
| "failure_category_value FailureCategory.CUSTOMER_OR_INSTRUMENT_RESTRICTION = ''CUSTOMER_OR_INSTRUMENT_RESTRICTION''"
| "failure_category_value FailureCategory.BANK_OR_ISSUER = ''BANK_OR_ISSUER''"
| "failure_category_value FailureCategory.GATEWAY_OR_NETWORK = ''GATEWAY_OR_NETWORK''"
| "failure_category_value FailureCategory.MERCHANT_CONFIGURATION = ''MERCHANT_CONFIGURATION''"
| "failure_category_value FailureCategory.RAZORPAY_OR_PLATFORM = ''RAZORPAY_OR_PLATFORM''"
| "failure_category_value FailureCategory.SUBSCRIPTION_RETRY_EXHAUSTED = ''SUBSCRIPTION_RETRY_EXHAUSTED''"
| "failure_category_value FailureCategory.UNKNOWN = ''UNKNOWN''"

datatype RecoveryDisposition =
    CUSTOMER_ACTION_REQUIRED
  | RETRY_LATER
  | ALTERNATE_METHOD_PREFERRED
  | MERCHANT_FIX_REQUIRED
  | RECOVERY_STRATEGY_REQUIRED
  | MANUAL_REVIEW
  | UNKNOWN

fun disposition_value :: "RecoveryDisposition \<Rightarrow> string" where
  "disposition_value RecoveryDisposition.CUSTOMER_ACTION_REQUIRED = ''CUSTOMER_ACTION_REQUIRED''"
| "disposition_value RecoveryDisposition.RETRY_LATER = ''RETRY_LATER''"
| "disposition_value RecoveryDisposition.ALTERNATE_METHOD_PREFERRED = ''ALTERNATE_METHOD_PREFERRED''"
| "disposition_value RecoveryDisposition.MERCHANT_FIX_REQUIRED = ''MERCHANT_FIX_REQUIRED''"
| "disposition_value RecoveryDisposition.RECOVERY_STRATEGY_REQUIRED = ''RECOVERY_STRATEGY_REQUIRED''"
| "disposition_value RecoveryDisposition.MANUAL_REVIEW = ''MANUAL_REVIEW''"
| "disposition_value RecoveryDisposition.UNKNOWN = ''UNKNOWN''"

datatype RecoveryAction =
    NO_ACTION
  | WAIT
  | REQUEST_RETRY
  | CREATE_RECOVERY_LINK
  | REQUEST_PAYMENT_METHOD_UPDATE
  | ESCALATE_TO_HUMAN

fun action_value :: "RecoveryAction \<Rightarrow> string" where
  "action_value RecoveryAction.NO_ACTION = ''NO_ACTION''"
| "action_value RecoveryAction.WAIT = ''WAIT''"
| "action_value RecoveryAction.REQUEST_RETRY = ''REQUEST_RETRY''"
| "action_value RecoveryAction.CREATE_RECOVERY_LINK = ''CREATE_RECOVERY_LINK''"
| "action_value RecoveryAction.REQUEST_PAYMENT_METHOD_UPDATE = ''REQUEST_PAYMENT_METHOD_UPDATE''"
| "action_value RecoveryAction.ESCALATE_TO_HUMAN = ''ESCALATE_TO_HUMAN''"

datatype StrategySource =
    RULE
  | AI

fun strategy_source_value :: "StrategySource \<Rightarrow> string" where
  "strategy_source_value StrategySource.RULE = ''RULE''"
| "strategy_source_value StrategySource.AI = ''AI''"

datatype PolicyDecisionResult =
    AUTHORIZED
  | REQUIRES_APPROVAL
  | BLOCKED

fun policy_result_value :: "PolicyDecisionResult \<Rightarrow> string" where
  "policy_result_value PolicyDecisionResult.AUTHORIZED = ''AUTHORIZED''"
| "policy_result_value PolicyDecisionResult.REQUIRES_APPROVAL = ''REQUIRES_APPROVAL''"
| "policy_result_value PolicyDecisionResult.BLOCKED = ''BLOCKED''"

datatype ApprovalStatus =
    PENDING
  | APPROVED
  | REJECTED

fun approval_status_value :: "ApprovalStatus \<Rightarrow> string" where
  "approval_status_value ApprovalStatus.PENDING = ''PENDING''"
| "approval_status_value ApprovalStatus.APPROVED = ''APPROVED''"
| "approval_status_value ApprovalStatus.REJECTED = ''REJECTED''"

datatype RecoveryExecutionStatus =
    PREPARED
  | IN_PROGRESS
  | SUCCEEDED
  | FAILED
  | INDETERMINATE
  | CANCELLED
  | COMPENSATION_REQUIRED

fun execution_status_value :: "RecoveryExecutionStatus \<Rightarrow> string" where
  "execution_status_value RecoveryExecutionStatus.PREPARED = ''PREPARED''"
| "execution_status_value RecoveryExecutionStatus.IN_PROGRESS = ''IN_PROGRESS''"
| "execution_status_value RecoveryExecutionStatus.SUCCEEDED = ''SUCCEEDED''"
| "execution_status_value RecoveryExecutionStatus.FAILED = ''FAILED''"
| "execution_status_value RecoveryExecutionStatus.INDETERMINATE = ''INDETERMINATE''"
| "execution_status_value RecoveryExecutionStatus.CANCELLED = ''CANCELLED''"
| "execution_status_value RecoveryExecutionStatus.COMPENSATION_REQUIRED = ''COMPENSATION_REQUIRED''"

datatype ProviderMode =
    TEST
  | LIVE

fun provider_mode_value :: "ProviderMode \<Rightarrow> string" where
  "provider_mode_value ProviderMode.TEST = ''TEST''"
| "provider_mode_value ProviderMode.LIVE = ''LIVE''"

datatype OutcomeObservationSource =
    POLL
  | WEBHOOK_TRIGGERED

fun observation_source_value :: "OutcomeObservationSource \<Rightarrow> string" where
  "observation_source_value OutcomeObservationSource.POLL = ''POLL''"
| "observation_source_value OutcomeObservationSource.WEBHOOK_TRIGGERED = ''WEBHOOK_TRIGGERED''"

datatype RecoveryOutcomeStatus =
    PENDING
  | RECOVERED
  | EXPIRED
  | CANCELLED
  | REVIEW_REQUIRED

fun outcome_status_value :: "RecoveryOutcomeStatus \<Rightarrow> string" where
  "outcome_status_value RecoveryOutcomeStatus.PENDING = ''PENDING''"
| "outcome_status_value RecoveryOutcomeStatus.RECOVERED = ''RECOVERED''"
| "outcome_status_value RecoveryOutcomeStatus.EXPIRED = ''EXPIRED''"
| "outcome_status_value RecoveryOutcomeStatus.CANCELLED = ''CANCELLED''"
| "outcome_status_value RecoveryOutcomeStatus.REVIEW_REQUIRED = ''REVIEW_REQUIRED''"

section \<open>The values identify the members\<close>

lemma case_state_value_inj [simp]: "case_state_value a = case_state_value b \<longleftrightarrow> a = b"
  by (cases a; cases b) simp_all

lemma event_status_value_inj [simp]: "event_status_value a = event_status_value b \<longleftrightarrow> a = b"
  by (cases a; cases b) simp_all

lemma eligibility_value_inj [simp]: "eligibility_value a = eligibility_value b \<longleftrightarrow> a = b"
  by (cases a; cases b) simp_all

lemma failure_category_value_inj [simp]: "failure_category_value a = failure_category_value b \<longleftrightarrow> a = b"
  by (cases a; cases b) simp_all

lemma disposition_value_inj [simp]: "disposition_value a = disposition_value b \<longleftrightarrow> a = b"
  by (cases a; cases b) simp_all

lemma action_value_inj [simp]: "action_value a = action_value b \<longleftrightarrow> a = b"
  by (cases a; cases b) simp_all

lemma strategy_source_value_inj [simp]: "strategy_source_value a = strategy_source_value b \<longleftrightarrow> a = b"
  by (cases a; cases b) simp_all

lemma policy_result_value_inj [simp]: "policy_result_value a = policy_result_value b \<longleftrightarrow> a = b"
  by (cases a; cases b) simp_all

lemma approval_status_value_inj [simp]: "approval_status_value a = approval_status_value b \<longleftrightarrow> a = b"
  by (cases a; cases b) simp_all

lemma execution_status_value_inj [simp]: "execution_status_value a = execution_status_value b \<longleftrightarrow> a = b"
  by (cases a; cases b) simp_all

lemma provider_mode_value_inj [simp]: "provider_mode_value a = provider_mode_value b \<longleftrightarrow> a = b"
  by (cases a; cases b) simp_all

lemma observation_source_value_inj [simp]: "observation_source_value a = observation_source_value b \<longleftrightarrow> a = b"
  by (cases a; cases b) simp_all

lemma outcome_status_value_inj [simp]: "outcome_status_value a = outcome_status_value b \<longleftrightarrow> a = b"
  by (cases a; cases b) simp_all

section \<open>Members from values\<close>

text \<open>\<open>RecoveryAction(value)\<close> and \<open>FailureCategory(value)\<close>: \<open>None\<close> where Python raises.\<close>

definition failure_category_of_value :: "string \<Rightarrow> FailureCategory option" where
  "failure_category_of_value s = find (\<lambda>m. failure_category_value m = s)
     [FailureCategory.CUSTOMER_AUTHENTICATION,
      FailureCategory.CUSTOMER_FUNDS,
      FailureCategory.CUSTOMER_INTERRUPTION,
      FailureCategory.CUSTOMER_OR_INSTRUMENT_RESTRICTION,
      FailureCategory.BANK_OR_ISSUER,
      FailureCategory.GATEWAY_OR_NETWORK,
      FailureCategory.MERCHANT_CONFIGURATION,
      FailureCategory.RAZORPAY_OR_PLATFORM,
      FailureCategory.SUBSCRIPTION_RETRY_EXHAUSTED,
      FailureCategory.UNKNOWN]"

lemma failure_category_of_value_iff: "failure_category_of_value s = Some m \<longleftrightarrow> s = failure_category_value m"
  unfolding failure_category_of_value_def by (rule find_by_value, simp) (cases m; simp)

definition action_of_value :: "string \<Rightarrow> RecoveryAction option" where
  "action_of_value s = find (\<lambda>m. action_value m = s)
     [RecoveryAction.NO_ACTION,
      RecoveryAction.WAIT,
      RecoveryAction.REQUEST_RETRY,
      RecoveryAction.CREATE_RECOVERY_LINK,
      RecoveryAction.REQUEST_PAYMENT_METHOD_UPDATE,
      RecoveryAction.ESCALATE_TO_HUMAN]"

lemma action_of_value_iff: "action_of_value s = Some m \<longleftrightarrow> s = action_value m"
  unfolding action_of_value_def by (rule find_by_value, simp) (cases m; simp)

section \<open>The lifecycle order of case states\<close>

text \<open>
  The position of a state on the way from detection to an outcome. The three terminal
  states come last; \<open>ESCALATED\<close>, \<open>EXHAUSTED\<close> and \<open>RECOVERED\<close> exclude each other.
\<close>

fun case_state_rank :: "CaseState \<Rightarrow> nat" where
  "case_state_rank CaseState.DETECTED = 0"
| "case_state_rank CaseState.RECONCILING = 1"
| "case_state_rank CaseState.DIAGNOSED = 2"
| "case_state_rank CaseState.DECISIONED = 3"
| "case_state_rank CaseState.POLICY_VALIDATED = 4"
| "case_state_rank CaseState.ACTIONED = 5"
| "case_state_rank CaseState.WAITING_FOR_OUTCOME = 6"
| "case_state_rank CaseState.RECOVERED = 7"
| "case_state_rank CaseState.EXHAUSTED = 8"
| "case_state_rank CaseState.ESCALATED = 9"

lemma case_state_rank_inj [simp]: "case_state_rank a = case_state_rank b \<longleftrightarrow> a = b"
  by (cases a; cases b) simp_all

instantiation CaseState :: linorder
begin

definition less_eq_CaseState :: "CaseState \<Rightarrow> CaseState \<Rightarrow> bool" where
  "a \<le> b \<longleftrightarrow> case_state_rank a \<le> case_state_rank b"

definition less_CaseState :: "CaseState \<Rightarrow> CaseState \<Rightarrow> bool" where
  "a < b \<longleftrightarrow> case_state_rank a < case_state_rank b"

instance
proof
  fix a b c :: CaseState
  show "a < b \<longleftrightarrow> a \<le> b \<and> \<not> b \<le> a" by (auto simp: less_eq_CaseState_def less_CaseState_def)
  show "a \<le> a" by (simp add: less_eq_CaseState_def)
  show "a \<le> b \<Longrightarrow> b \<le> c \<Longrightarrow> a \<le> c" by (simp add: less_eq_CaseState_def)
  show "a \<le> b \<Longrightarrow> b \<le> a \<Longrightarrow> a = b" by (simp add: less_eq_CaseState_def)
  show "a \<le> b \<or> b \<le> a" by (auto simp: less_eq_CaseState_def)
qed

end

end
