(* ===== verification/Arc_Models.thy ===== *)
theory Arc_Models
  imports Arc_Json Arc_Enums
begin

text \<open>
  The rows of ARC's tables (\<open>arc/domain/models\<close>), one record per mapped class with a field
  per column, the CHECK constraints of each table as a predicate on its row, and the database
  as the record of its tables. The columns \<open>created_at\<close> and \<open>updated_at\<close> that the server
  maintains and no modelled operation reads are left out, as are the key and time of a case
  event, which nothing refers to. The columns of \<open>MerchantPolicy\<close> that its strict
  validation inspects are JSON values, so that every malformed policy is a row of the model.
\<close>

section \<open>Rows\<close>

record payment_case =
  pc_id :: uuid
  pc_case_reference :: string
  pc_merchant_id :: string
  pc_payment_id :: "string option"
  pc_subscription_id :: "string option"
  pc_razorpay_payment_status :: "string option"
  pc_razorpay_subscription_status :: "string option"
  pc_razorpay_payment_method :: "string option"
  pc_customer_id :: "string option"
  pc_amount :: "int option"
  pc_currency :: "string option"
  pc_current_state :: CaseState
  pc_error_code :: "string option"
  pc_error_description :: "string option"
  pc_error_source :: "string option"
  pc_error_step :: "string option"
  pc_error_reason :: "string option"
  pc_eligibility_status :: "EligibilityDecision option"
  pc_eligibility_reason_code :: "string option"
  pc_eligibility_evaluated_at :: "py_datetime option"
  pc_failure_category :: "FailureCategory option"
  pc_recovery_disposition :: "RecoveryDisposition option"
  pc_diagnosis_reason_code :: "string option"
  pc_diagnosed_at :: "py_datetime option"
  pc_assessment_fingerprint :: "string option"
  pc_attempt_count :: int
  pc_contact_attempt_count :: int
  pc_detected_at :: py_datetime
  pc_last_reconciled_at :: "py_datetime option"
  pc_resolved_at :: "py_datetime option"

record case_event =
  ce_case_id :: uuid
  ce_event_type :: string
  ce_source :: string
  ce_event_data :: json

record strategy_proposal =
  sp_id :: uuid
  sp_case_id :: uuid
  sp_assessment_fingerprint :: string
  sp_strategy_input_fingerprint :: string
  sp_source :: StrategySource
  sp_action :: RecoveryAction
  sp_reason_code :: string
  sp_explanation :: string
  sp_confidence :: "string option" \<comment> \<open>the text of the float\<close>
  sp_re_evaluate_after_seconds :: "int option"
  sp_prompt_version :: string
  sp_model :: "string option"
  sp_provider_response_id :: "string option"
  sp_input_tokens :: "int option"
  sp_output_tokens :: "int option"
  sp_total_tokens :: "int option"
  sp_latency_ms :: "int option"
  sp_superseded_at :: "py_datetime option"

record merchant_policy =
  mp_id :: uuid
  mp_merchant_id :: string
  mp_automation_enabled :: json
  mp_allowed_actions :: json
  mp_max_automated_attempts :: json
  mp_max_contact_attempts :: json
  mp_recovery_window_minutes :: json
  mp_high_value_threshold_minor :: json
  mp_require_approval_above_minor :: json
  mp_stopping_rules :: json

record policy_decision =
  pd_id :: uuid
  pd_case_id :: uuid
  pd_strategy_proposal_id :: uuid
  pd_merchant_policy_id :: "uuid option"
  pd_strategy_input_fingerprint :: string
  pd_policy_fingerprint :: string
  pd_authorization_input_fingerprint :: string
  pd_result :: PolicyDecisionResult
  pd_reason_code :: string
  pd_explanation :: string
  pd_recovery_window_ends_at :: "py_datetime option"
  pd_approval_threshold_minor :: "int option"
  pd_high_value_threshold_minor :: "int option"
  pd_observed_high_value :: "bool option"
  pd_observed_amount_minor :: "int option"
  pd_observed_attempt_count :: int
  pd_observed_contact_attempt_count :: int
  pd_evaluated_at :: py_datetime
  pd_superseded_at :: "py_datetime option"

record approval_request =
  ar_id :: uuid
  ar_case_id :: uuid
  ar_policy_decision_id :: uuid
  ar_status :: ApprovalStatus
  ar_requested_at :: py_datetime
  ar_decided_at :: "py_datetime option"
  ar_decided_by :: "string option"
  ar_decision_note :: "string option"

record recovery_action =
  ra_id :: uuid
  ra_case_id :: uuid
  ra_strategy_proposal_id :: uuid
  ra_policy_decision_id :: uuid
  ra_approval_request_id :: "uuid option"
  ra_action :: RecoveryAction
  ra_execution_status :: RecoveryExecutionStatus
  ra_idempotency_key :: string
  ra_request_fingerprint :: string
  ra_provider :: string
  ra_external_reference_id :: "string option"
  ra_external_reference :: "string option"
  ra_external_status :: "string option"
  ra_external_url :: "string option"
  ra_external_expires_at :: "py_datetime option"
  ra_execution_started_at :: "py_datetime option"
  ra_execution_attempt_count :: int
  ra_executed_at :: "py_datetime option"
  ra_failed_at :: "py_datetime option"
  ra_error_code :: "string option"
  ra_next_evaluation_at :: "py_datetime option"

record outcome_observation =
  ro_id :: uuid
  ro_case_id :: uuid
  ro_recovery_action_id :: uuid
  ro_source :: OutcomeObservationSource
  ro_provider :: string
  ro_provider_mode :: ProviderMode
  ro_provider_status :: string
  ro_outcome_status :: RecoveryOutcomeStatus
  ro_amount_expected_minor :: int
  ro_amount_paid_minor :: int
  ro_currency :: string
  ro_provider_payment_id :: "string option"
  ro_provider_payment_status :: "string option"
  ro_evidence_fingerprint :: string
  ro_observed_at :: py_datetime
  ro_created_at :: py_datetime

record recovery_attribution =
  at_id :: uuid
  at_case_id :: uuid
  at_recovery_action_id :: uuid
  at_outcome_observation_id :: uuid
  at_provider :: string
  at_provider_mode :: ProviderMode
  at_provider_payment_link_id :: string
  at_provider_reference_id :: string
  at_provider_payment_id :: string
  at_recovered_amount_minor :: int
  at_currency :: string
  at_attribution_reason_code :: string
  at_evidence_fingerprint :: string
  at_attributed_at :: py_datetime

record webhook_event =
  we_id :: uuid
  we_razorpay_event_id :: string
  we_event_type :: string
  we_account_id :: "string option"
  we_payment_id :: "string option"
  we_subscription_id :: "string option"
  we_customer_id :: "string option"
  we_raw_payload :: json
  we_payload_hash :: string
  we_raw_body_sha256 :: "string option"
  we_signature_verified :: bool
  we_received_at :: py_datetime
  we_processing_status :: EventProcessingStatus
  we_processing_started_at :: "py_datetime option"
  we_processing_attempt_count :: int
  we_processed_at :: "py_datetime option"
  we_processing_error :: "string option"

section \<open>Exceptions\<close>

text \<open>
  The exception classes that ARC raises, each with its message. \<open>PyRuntimeError\<close>,
  \<open>PyValueError\<close> and \<open>PyTypeError\<close> are Python's own.
\<close>

datatype arc_error =
    InvalidCaseTransition string
  | PaymentCaseNotFoundError string
  | CasePersistenceError string
  | EventPersistenceError string
  | IntegrityError string
  | PyRuntimeError string
  | PyValueError string
  | PyTypeError string
  | StrategyCaseNotFoundError string
  | StrategyConfigurationError string
  | StrategyAuthenticationError string
  | StrategyRateLimitError string
  | StrategyUnavailableError string
  | StrategyInvalidOutputError string
  | StrategyRefusalError string
  | StrategyNotAllowedError string
  | StrategyStaleContextError string
  | PolicyConfigurationError string
  | CurrentAuthorizationError string
  | PolicyCaseNotFoundError string
  | PolicyEvaluationNotAllowedError string
  | PolicyProposalNotCurrentError string
  | ApprovalNotFoundError string
  | ApprovalNotAllowedError string
  | ApprovalDecisionConflictError string
  | ExecutionCaseNotFoundError string
  | ExecutionNotPermittedError string
  | ExecutionRequiresPolicyReevaluationError string
  | ExecutionConfigurationError string
  | PaymentLinkConfigurationError string
  | PaymentLinkAuthenticationError string
  | PaymentLinkRateLimitError string
  | PaymentLinkRejectedError string
  | PaymentLinkUnavailableError string
  | PaymentLinkInvalidResponseError string
  | PaymentLinkUncertainError string
  | RecoveryObservationNotFoundError string
  | RecoveryObservationConfigurationError string
  | RecoveryObservationProviderError string
  | WebhookProcessingError string
  | WebhookEventNotFoundError string
  | InvalidWebhookPayload string
  | RazorpayConfigurationError string
  | RazorpayAuthenticationError string
  | RazorpayNotFoundError string
  | RazorpayRateLimitError string
  | RazorpayUnavailableError string
  | RazorpayInvalidResponseError string

fun error_text :: "arc_error \<Rightarrow> string" where
  "error_text (InvalidCaseTransition m) = m"
| "error_text (PaymentCaseNotFoundError m) = m"
| "error_text (CasePersistenceError m) = m"
| "error_text (EventPersistenceError m) = m"
| "error_text (IntegrityError m) = m"
| "error_text (PyRuntimeError m) = m"
| "error_text (PyValueError m) = m"
| "error_text (PyTypeError m) = m"
| "error_text (StrategyCaseNotFoundError m) = m"
| "error_text (StrategyConfigurationError m) = m"
| "error_text (StrategyAuthenticationError m) = m"
| "error_text (StrategyRateLimitError m) = m"
| "error_text (StrategyUnavailableError m) = m"
| "error_text (StrategyInvalidOutputError m) = m"
| "error_text (StrategyRefusalError m) = m"
| "error_text (StrategyNotAllowedError m) = m"
| "error_text (StrategyStaleContextError m) = m"
| "error_text (PolicyConfigurationError m) = m"
| "error_text (CurrentAuthorizationError m) = m"
| "error_text (PolicyCaseNotFoundError m) = m"
| "error_text (PolicyEvaluationNotAllowedError m) = m"
| "error_text (PolicyProposalNotCurrentError m) = m"
| "error_text (ApprovalNotFoundError m) = m"
| "error_text (ApprovalNotAllowedError m) = m"
| "error_text (ApprovalDecisionConflictError m) = m"
| "error_text (ExecutionCaseNotFoundError m) = m"
| "error_text (ExecutionNotPermittedError m) = m"
| "error_text (ExecutionRequiresPolicyReevaluationError m) = m"
| "error_text (ExecutionConfigurationError m) = m"
| "error_text (PaymentLinkConfigurationError m) = m"
| "error_text (PaymentLinkAuthenticationError m) = m"
| "error_text (PaymentLinkRateLimitError m) = m"
| "error_text (PaymentLinkRejectedError m) = m"
| "error_text (PaymentLinkUnavailableError m) = m"
| "error_text (PaymentLinkInvalidResponseError m) = m"
| "error_text (PaymentLinkUncertainError m) = m"
| "error_text (RecoveryObservationNotFoundError m) = m"
| "error_text (RecoveryObservationConfigurationError m) = m"
| "error_text (RecoveryObservationProviderError m) = m"
| "error_text (WebhookProcessingError m) = m"
| "error_text (WebhookEventNotFoundError m) = m"
| "error_text (InvalidWebhookPayload m) = m"
| "error_text (RazorpayConfigurationError m) = m"
| "error_text (RazorpayAuthenticationError m) = m"
| "error_text (RazorpayNotFoundError m) = m"
| "error_text (RazorpayRateLimitError m) = m"
| "error_text (RazorpayUnavailableError m) = m"
| "error_text (RazorpayInvalidResponseError m) = m"

section \<open>CHECK constraints\<close>

definition sha256_hex :: "string \<Rightarrow> bool" where
  "sha256_hex s \<longleftrightarrow> length s = 64 \<and> set s \<subseteq> set ''0123456789abcdef''"

definition opt_all :: "('a \<Rightarrow> bool) \<Rightarrow> 'a option \<Rightarrow> bool" where
  "opt_all P v = (case v of None \<Rightarrow> True | Some x \<Rightarrow> P x)"

lemma opt_all_simps [simp]: "opt_all P None" "opt_all P (Some x) = P x"
  by (simp_all add: opt_all_def)

text \<open>The state columns range over their enum by type; the other constraints are these.\<close>

definition payment_case_check :: "payment_case \<Rightarrow> bool" where
  "payment_case_check c \<longleftrightarrow> 0 \<le> pc_attempt_count c \<and> 0 \<le> pc_contact_attempt_count c \<and>
     opt_all (\<lambda>a. 0 \<le> a) (pc_amount c) \<and> opt_all sha256_hex (pc_assessment_fingerprint c)"

definition strategy_proposal_check :: "strategy_proposal \<Rightarrow> bool" where
  "strategy_proposal_check p \<longleftrightarrow>
     sha256_hex (sp_assessment_fingerprint p) \<and> sha256_hex (sp_strategy_input_fingerprint p) \<and>
     opt_all (\<lambda>n. 0 \<le> n \<and> n \<le> 86400) (sp_re_evaluate_after_seconds p) \<and>
     opt_all (\<lambda>n. 0 \<le> n) (sp_input_tokens p) \<and> opt_all (\<lambda>n. 0 \<le> n) (sp_output_tokens p) \<and>
     opt_all (\<lambda>n. 0 \<le> n) (sp_total_tokens p) \<and> opt_all (\<lambda>n. 0 \<le> n) (sp_latency_ms p) \<and>
     (sp_source p = StrategySource.AI \<and> sp_model p \<noteq> None \<and> sp_provider_response_id p \<noteq> None \<and>
        sp_confidence p \<noteq> None \<or>
      sp_source p = StrategySource.RULE \<and> sp_model p = None \<and> sp_provider_response_id p = None \<and>
        sp_confidence p = None \<and> sp_input_tokens p = None \<and> sp_output_tokens p = None \<and>
        sp_total_tokens p = None \<and> sp_latency_ms p = None)"

definition policy_decision_check :: "policy_decision \<Rightarrow> bool" where
  "policy_decision_check d \<longleftrightarrow>
     sha256_hex (pd_strategy_input_fingerprint d) \<and> sha256_hex (pd_policy_fingerprint d) \<and>
     sha256_hex (pd_authorization_input_fingerprint d) \<and>
     opt_all (\<lambda>n. 0 \<le> n) (pd_approval_threshold_minor d) \<and>
     opt_all (\<lambda>n. 0 \<le> n) (pd_high_value_threshold_minor d) \<and>
     opt_all (\<lambda>n. 0 \<le> n) (pd_observed_amount_minor d) \<and>
     0 \<le> pd_observed_attempt_count d \<and> 0 \<le> pd_observed_contact_attempt_count d"

definition approval_request_check :: "approval_request \<Rightarrow> bool" where
  "approval_request_check a \<longleftrightarrow>
     (ar_status a = ApprovalStatus.PENDING \<and> ar_decided_at a = None \<and> ar_decided_by a = None) \<or>
     (ar_status a \<in> {ApprovalStatus.APPROVED, ApprovalStatus.REJECTED} \<and> ar_decided_at a \<noteq> None \<and>
        ar_decided_by a \<noteq> None)"

definition recovery_action_check :: "recovery_action \<Rightarrow> bool" where
  "recovery_action_check r \<longleftrightarrow> ra_provider r \<in> {''INTERNAL'', ''RAZORPAY''} \<and>
     sha256_hex (ra_idempotency_key r) \<and> sha256_hex (ra_request_fingerprint r) \<and>
     0 \<le> ra_execution_attempt_count r \<and> opt_all (\<lambda>s. length s \<le> 40) (ra_external_reference r)"

definition outcome_observation_check :: "outcome_observation \<Rightarrow> bool" where
  "outcome_observation_check o1 \<longleftrightarrow> ro_provider o1 = ''RAZORPAY'' \<and> 0 \<le> ro_amount_expected_minor o1 \<and>
     0 \<le> ro_amount_paid_minor o1 \<and> sha256_hex (ro_evidence_fingerprint o1)"

definition recovery_attribution_check :: "recovery_attribution \<Rightarrow> bool" where
  "recovery_attribution_check a \<longleftrightarrow> at_provider a = ''RAZORPAY'' \<and> 0 < at_recovered_amount_minor a \<and>
     at_attribution_reason_code a = ''ARC_PAYMENT_LINK_CAPTURED'' \<and> sha256_hex (at_evidence_fingerprint a)"

definition webhook_event_check :: "webhook_event \<Rightarrow> bool" where
  "webhook_event_check e \<longleftrightarrow> sha256_hex (we_payload_hash e) \<and> opt_all sha256_hex (we_raw_body_sha256 e) \<and>
     0 \<le> we_processing_attempt_count e"

text \<open>
  The update listener of the webhook ledger refuses a flush that changes one of these fields.
\<close>

definition immutable_event_fields_kept :: "webhook_event \<Rightarrow> webhook_event \<Rightarrow> bool" where
  "immutable_event_fields_kept e e' \<longleftrightarrow>
     we_id e = we_id e' \<and> we_razorpay_event_id e = we_razorpay_event_id e' \<and>
     we_event_type e = we_event_type e' \<and> we_account_id e = we_account_id e' \<and>
     we_payment_id e = we_payment_id e' \<and> we_subscription_id e = we_subscription_id e' \<and>
     we_customer_id e = we_customer_id e' \<and> we_raw_payload e = we_raw_payload e' \<and>
     we_payload_hash e = we_payload_hash e' \<and> we_raw_body_sha256 e = we_raw_body_sha256 e' \<and>
     we_signature_verified e = we_signature_verified e' \<and> we_received_at e = we_received_at e'"

section \<open>The database\<close>

record arc_db =
  db_cases :: "payment_case list"
  db_case_events :: "case_event list"
  db_proposals :: "strategy_proposal list"
  db_policies :: "merchant_policy list"
  db_decisions :: "policy_decision list"
  db_approvals :: "approval_request list"
  db_actions :: "recovery_action list"
  db_observations :: "outcome_observation list"
  db_attributions :: "recovery_attribution list"
  db_webhook_events :: "webhook_event list"

definition empty_db :: arc_db where
  "empty_db = \<lparr>db_cases = [], db_case_events = [], db_proposals = [], db_policies = [], db_decisions = [],
     db_approvals = [], db_actions = [], db_observations = [], db_attributions = [], db_webhook_events = []\<rparr>"

text \<open>
  Selects by primary key, the flush of one changed row, and inserts. Events are only ever
  appended, which is all \<open>CaseEvent\<close>'s listeners permit.
\<close>

definition find_case :: "uuid \<Rightarrow> arc_db \<Rightarrow> payment_case option" where
  "find_case k db = row_find pc_id k (db_cases db)"

definition save_case :: "payment_case \<Rightarrow> arc_db \<Rightarrow> arc_db" where
  "save_case r db = db\<lparr>db_cases := row_save pc_id r (db_cases db)\<rparr>"

definition add_case :: "payment_case \<Rightarrow> arc_db \<Rightarrow> arc_db" where
  "add_case r db = db\<lparr>db_cases := row_add r (db_cases db)\<rparr>"

definition find_proposal :: "uuid \<Rightarrow> arc_db \<Rightarrow> strategy_proposal option" where
  "find_proposal k db = row_find sp_id k (db_proposals db)"

definition save_proposal :: "strategy_proposal \<Rightarrow> arc_db \<Rightarrow> arc_db" where
  "save_proposal r db = db\<lparr>db_proposals := row_save sp_id r (db_proposals db)\<rparr>"

definition add_proposal :: "strategy_proposal \<Rightarrow> arc_db \<Rightarrow> arc_db" where
  "add_proposal r db = db\<lparr>db_proposals := row_add r (db_proposals db)\<rparr>"

definition find_decision :: "uuid \<Rightarrow> arc_db \<Rightarrow> policy_decision option" where
  "find_decision k db = row_find pd_id k (db_decisions db)"

definition save_decision :: "policy_decision \<Rightarrow> arc_db \<Rightarrow> arc_db" where
  "save_decision r db = db\<lparr>db_decisions := row_save pd_id r (db_decisions db)\<rparr>"

definition add_decision :: "policy_decision \<Rightarrow> arc_db \<Rightarrow> arc_db" where
  "add_decision r db = db\<lparr>db_decisions := row_add r (db_decisions db)\<rparr>"

definition find_approval :: "uuid \<Rightarrow> arc_db \<Rightarrow> approval_request option" where
  "find_approval k db = row_find ar_id k (db_approvals db)"

definition save_approval :: "approval_request \<Rightarrow> arc_db \<Rightarrow> arc_db" where
  "save_approval r db = db\<lparr>db_approvals := row_save ar_id r (db_approvals db)\<rparr>"

definition add_approval :: "approval_request \<Rightarrow> arc_db \<Rightarrow> arc_db" where
  "add_approval r db = db\<lparr>db_approvals := row_add r (db_approvals db)\<rparr>"

definition find_action :: "uuid \<Rightarrow> arc_db \<Rightarrow> recovery_action option" where
  "find_action k db = row_find ra_id k (db_actions db)"

definition save_action :: "recovery_action \<Rightarrow> arc_db \<Rightarrow> arc_db" where
  "save_action r db = db\<lparr>db_actions := row_save ra_id r (db_actions db)\<rparr>"

definition add_action :: "recovery_action \<Rightarrow> arc_db \<Rightarrow> arc_db" where
  "add_action r db = db\<lparr>db_actions := row_add r (db_actions db)\<rparr>"

definition find_observation :: "uuid \<Rightarrow> arc_db \<Rightarrow> outcome_observation option" where
  "find_observation k db = row_find ro_id k (db_observations db)"

definition save_observation :: "outcome_observation \<Rightarrow> arc_db \<Rightarrow> arc_db" where
  "save_observation r db = db\<lparr>db_observations := row_save ro_id r (db_observations db)\<rparr>"

definition add_observation :: "outcome_observation \<Rightarrow> arc_db \<Rightarrow> arc_db" where
  "add_observation r db = db\<lparr>db_observations := row_add r (db_observations db)\<rparr>"

definition find_attribution :: "uuid \<Rightarrow> arc_db \<Rightarrow> recovery_attribution option" where
  "find_attribution k db = row_find at_id k (db_attributions db)"

definition save_attribution :: "recovery_attribution \<Rightarrow> arc_db \<Rightarrow> arc_db" where
  "save_attribution r db = db\<lparr>db_attributions := row_save at_id r (db_attributions db)\<rparr>"

definition add_attribution :: "recovery_attribution \<Rightarrow> arc_db \<Rightarrow> arc_db" where
  "add_attribution r db = db\<lparr>db_attributions := row_add r (db_attributions db)\<rparr>"

definition find_webhook :: "uuid \<Rightarrow> arc_db \<Rightarrow> webhook_event option" where
  "find_webhook k db = row_find we_id k (db_webhook_events db)"

definition save_webhook :: "webhook_event \<Rightarrow> arc_db \<Rightarrow> arc_db" where
  "save_webhook r db = db\<lparr>db_webhook_events := row_save we_id r (db_webhook_events db)\<rparr>"

definition add_webhook :: "webhook_event \<Rightarrow> arc_db \<Rightarrow> arc_db" where
  "add_webhook r db = db\<lparr>db_webhook_events := row_add r (db_webhook_events db)\<rparr>"

definition add_event :: "case_event \<Rightarrow> arc_db \<Rightarrow> arc_db" where
  "add_event e db = db\<lparr>db_case_events := db_case_events db @ [e]\<rparr>"

interpretation cases_table: row_store pc_id db_cases find_case save_case add_case
  by unfold_locales (simp_all add: find_case_def save_case_def add_case_def)

interpretation proposals_table: row_store sp_id db_proposals find_proposal save_proposal add_proposal
  by unfold_locales (simp_all add: find_proposal_def save_proposal_def add_proposal_def)

interpretation decisions_table: row_store pd_id db_decisions find_decision save_decision add_decision
  by unfold_locales (simp_all add: find_decision_def save_decision_def add_decision_def)

interpretation approvals_table: row_store ar_id db_approvals find_approval save_approval add_approval
  by unfold_locales (simp_all add: find_approval_def save_approval_def add_approval_def)

interpretation actions_table: row_store ra_id db_actions find_action save_action add_action
  by unfold_locales (simp_all add: find_action_def save_action_def add_action_def)

interpretation observations_table: row_store ro_id db_observations find_observation save_observation add_observation
  by unfold_locales (simp_all add: find_observation_def save_observation_def add_observation_def)

interpretation attributions_table: row_store at_id db_attributions find_attribution save_attribution add_attribution
  by unfold_locales (simp_all add: find_attribution_def save_attribution_def add_attribution_def)

interpretation webhook_events_table: row_store we_id db_webhook_events find_webhook save_webhook add_webhook
  by unfold_locales (simp_all add: find_webhook_def save_webhook_def add_webhook_def)

text \<open>
  A service call that runs one transaction: an exception that leaves it rolls the session back,
  so the database is the one it started from.
\<close>

definition transaction :: "arc_db \<Rightarrow> arc_error + 'r \<times> arc_db \<Rightarrow> (arc_error + 'r) \<times> arc_db" where
  "transaction db m = (case m of Inl e \<Rightarrow> (Inl e, db) | Inr (r, db') \<Rightarrow> (Inr r, db'))"

lemma transaction_simps [simp]:
  "transaction db (Inl e) = (Inl e, db)" "transaction db (Inr (r, db')) = (Inr r, db')"
  by (simp_all add: transaction_def)

lemma transaction_InrE:
  assumes "transaction db m = (Inr r, db')"
  obtains "m = Inr (r, db')"
  using assms by (auto simp: transaction_def split: sum.splits prod.splits)

lemma transaction_Inl_unchanged: "transaction db m = (Inl e, db') \<Longrightarrow> db' = db \<and> m = Inl e"
  by (auto simp: transaction_def split: sum.splits prod.splits)

section \<open>Sample rows\<close>

text \<open>
  A case whose card payment failed and was reconciled at the instant \<open>sample_time\<close>. The
  closed examples of the component theories start from it.
\<close>

definition sample_time :: py_datetime where
  "sample_time = \<lparr>dt_us = 1750000000000000, dt_offset = Some 0\<rparr>"

definition sample_case :: payment_case where
  "sample_case = \<lparr>pc_id = 7, pc_case_reference = ''pay_a'', pc_merchant_id = ''m1'', pc_payment_id = Some ''p1'',
     pc_subscription_id = None, pc_razorpay_payment_status = Some ''failed'',
     pc_razorpay_subscription_status = None, pc_razorpay_payment_method = Some ''card'',
     pc_customer_id = None, pc_amount = Some 5000, pc_currency = Some ''INR'',
     pc_current_state = CaseState.RECONCILING, pc_error_code = None, pc_error_description = None,
     pc_error_source = Some ''customer'', pc_error_step = None, pc_error_reason = Some ''incorrect_otp'',
     pc_eligibility_status = None, pc_eligibility_reason_code = None, pc_eligibility_evaluated_at = None,
     pc_failure_category = None, pc_recovery_disposition = None, pc_diagnosis_reason_code = None,
     pc_diagnosed_at = None, pc_assessment_fingerprint = None, pc_attempt_count = 0,
     pc_contact_attempt_count = 0, pc_detected_at = sample_time, pc_last_reconciled_at = Some sample_time,
     pc_resolved_at = None\<rparr>"

section \<open>Frames\<close>

text \<open>A save or an insert leaves every other table as it was.\<close>

lemma frame_save_case [simp, row_frames]:
  "db_case_events (save_case r db) = db_case_events db"
  "db_proposals (save_case r db) = db_proposals db"
  "db_policies (save_case r db) = db_policies db"
  "db_decisions (save_case r db) = db_decisions db"
  "db_approvals (save_case r db) = db_approvals db"
  "db_actions (save_case r db) = db_actions db"
  "db_observations (save_case r db) = db_observations db"
  "db_attributions (save_case r db) = db_attributions db"
  "db_webhook_events (save_case r db) = db_webhook_events db"
  "find_proposal k (save_case r db) = find_proposal k db"
  "find_decision k (save_case r db) = find_decision k db"
  "find_approval k (save_case r db) = find_approval k db"
  "find_action k (save_case r db) = find_action k db"
  "find_observation k (save_case r db) = find_observation k db"
  "find_attribution k (save_case r db) = find_attribution k db"
  "find_webhook k (save_case r db) = find_webhook k db"
  by (simp_all add: save_case_def find_proposal_def find_decision_def find_approval_def find_action_def find_observation_def find_attribution_def find_webhook_def)

lemma frame_add_case [simp, row_frames]:
  "db_case_events (add_case r db) = db_case_events db"
  "db_proposals (add_case r db) = db_proposals db"
  "db_policies (add_case r db) = db_policies db"
  "db_decisions (add_case r db) = db_decisions db"
  "db_approvals (add_case r db) = db_approvals db"
  "db_actions (add_case r db) = db_actions db"
  "db_observations (add_case r db) = db_observations db"
  "db_attributions (add_case r db) = db_attributions db"
  "db_webhook_events (add_case r db) = db_webhook_events db"
  "find_proposal k (add_case r db) = find_proposal k db"
  "find_decision k (add_case r db) = find_decision k db"
  "find_approval k (add_case r db) = find_approval k db"
  "find_action k (add_case r db) = find_action k db"
  "find_observation k (add_case r db) = find_observation k db"
  "find_attribution k (add_case r db) = find_attribution k db"
  "find_webhook k (add_case r db) = find_webhook k db"
  by (simp_all add: add_case_def find_proposal_def find_decision_def find_approval_def find_action_def find_observation_def find_attribution_def find_webhook_def)

lemma frame_save_proposal [simp, row_frames]:
  "db_cases (save_proposal r db) = db_cases db"
  "db_case_events (save_proposal r db) = db_case_events db"
  "db_policies (save_proposal r db) = db_policies db"
  "db_decisions (save_proposal r db) = db_decisions db"
  "db_approvals (save_proposal r db) = db_approvals db"
  "db_actions (save_proposal r db) = db_actions db"
  "db_observations (save_proposal r db) = db_observations db"
  "db_attributions (save_proposal r db) = db_attributions db"
  "db_webhook_events (save_proposal r db) = db_webhook_events db"
  "find_case k (save_proposal r db) = find_case k db"
  "find_decision k (save_proposal r db) = find_decision k db"
  "find_approval k (save_proposal r db) = find_approval k db"
  "find_action k (save_proposal r db) = find_action k db"
  "find_observation k (save_proposal r db) = find_observation k db"
  "find_attribution k (save_proposal r db) = find_attribution k db"
  "find_webhook k (save_proposal r db) = find_webhook k db"
  by (simp_all add: save_proposal_def find_case_def find_decision_def find_approval_def find_action_def find_observation_def find_attribution_def find_webhook_def)

lemma frame_add_proposal [simp, row_frames]:
  "db_cases (add_proposal r db) = db_cases db"
  "db_case_events (add_proposal r db) = db_case_events db"
  "db_policies (add_proposal r db) = db_policies db"
  "db_decisions (add_proposal r db) = db_decisions db"
  "db_approvals (add_proposal r db) = db_approvals db"
  "db_actions (add_proposal r db) = db_actions db"
  "db_observations (add_proposal r db) = db_observations db"
  "db_attributions (add_proposal r db) = db_attributions db"
  "db_webhook_events (add_proposal r db) = db_webhook_events db"
  "find_case k (add_proposal r db) = find_case k db"
  "find_decision k (add_proposal r db) = find_decision k db"
  "find_approval k (add_proposal r db) = find_approval k db"
  "find_action k (add_proposal r db) = find_action k db"
  "find_observation k (add_proposal r db) = find_observation k db"
  "find_attribution k (add_proposal r db) = find_attribution k db"
  "find_webhook k (add_proposal r db) = find_webhook k db"
  by (simp_all add: add_proposal_def find_case_def find_decision_def find_approval_def find_action_def find_observation_def find_attribution_def find_webhook_def)

lemma frame_save_decision [simp, row_frames]:
  "db_cases (save_decision r db) = db_cases db"
  "db_case_events (save_decision r db) = db_case_events db"
  "db_proposals (save_decision r db) = db_proposals db"
  "db_policies (save_decision r db) = db_policies db"
  "db_approvals (save_decision r db) = db_approvals db"
  "db_actions (save_decision r db) = db_actions db"
  "db_observations (save_decision r db) = db_observations db"
  "db_attributions (save_decision r db) = db_attributions db"
  "db_webhook_events (save_decision r db) = db_webhook_events db"
  "find_case k (save_decision r db) = find_case k db"
  "find_proposal k (save_decision r db) = find_proposal k db"
  "find_approval k (save_decision r db) = find_approval k db"
  "find_action k (save_decision r db) = find_action k db"
  "find_observation k (save_decision r db) = find_observation k db"
  "find_attribution k (save_decision r db) = find_attribution k db"
  "find_webhook k (save_decision r db) = find_webhook k db"
  by (simp_all add: save_decision_def find_case_def find_proposal_def find_approval_def find_action_def find_observation_def find_attribution_def find_webhook_def)

lemma frame_add_decision [simp, row_frames]:
  "db_cases (add_decision r db) = db_cases db"
  "db_case_events (add_decision r db) = db_case_events db"
  "db_proposals (add_decision r db) = db_proposals db"
  "db_policies (add_decision r db) = db_policies db"
  "db_approvals (add_decision r db) = db_approvals db"
  "db_actions (add_decision r db) = db_actions db"
  "db_observations (add_decision r db) = db_observations db"
  "db_attributions (add_decision r db) = db_attributions db"
  "db_webhook_events (add_decision r db) = db_webhook_events db"
  "find_case k (add_decision r db) = find_case k db"
  "find_proposal k (add_decision r db) = find_proposal k db"
  "find_approval k (add_decision r db) = find_approval k db"
  "find_action k (add_decision r db) = find_action k db"
  "find_observation k (add_decision r db) = find_observation k db"
  "find_attribution k (add_decision r db) = find_attribution k db"
  "find_webhook k (add_decision r db) = find_webhook k db"
  by (simp_all add: add_decision_def find_case_def find_proposal_def find_approval_def find_action_def find_observation_def find_attribution_def find_webhook_def)

lemma frame_save_approval [simp, row_frames]:
  "db_cases (save_approval r db) = db_cases db"
  "db_case_events (save_approval r db) = db_case_events db"
  "db_proposals (save_approval r db) = db_proposals db"
  "db_policies (save_approval r db) = db_policies db"
  "db_decisions (save_approval r db) = db_decisions db"
  "db_actions (save_approval r db) = db_actions db"
  "db_observations (save_approval r db) = db_observations db"
  "db_attributions (save_approval r db) = db_attributions db"
  "db_webhook_events (save_approval r db) = db_webhook_events db"
  "find_case k (save_approval r db) = find_case k db"
  "find_proposal k (save_approval r db) = find_proposal k db"
  "find_decision k (save_approval r db) = find_decision k db"
  "find_action k (save_approval r db) = find_action k db"
  "find_observation k (save_approval r db) = find_observation k db"
  "find_attribution k (save_approval r db) = find_attribution k db"
  "find_webhook k (save_approval r db) = find_webhook k db"
  by (simp_all add: save_approval_def find_case_def find_proposal_def find_decision_def find_action_def find_observation_def find_attribution_def find_webhook_def)

lemma frame_add_approval [simp, row_frames]:
  "db_cases (add_approval r db) = db_cases db"
  "db_case_events (add_approval r db) = db_case_events db"
  "db_proposals (add_approval r db) = db_proposals db"
  "db_policies (add_approval r db) = db_policies db"
  "db_decisions (add_approval r db) = db_decisions db"
  "db_actions (add_approval r db) = db_actions db"
  "db_observations (add_approval r db) = db_observations db"
  "db_attributions (add_approval r db) = db_attributions db"
  "db_webhook_events (add_approval r db) = db_webhook_events db"
  "find_case k (add_approval r db) = find_case k db"
  "find_proposal k (add_approval r db) = find_proposal k db"
  "find_decision k (add_approval r db) = find_decision k db"
  "find_action k (add_approval r db) = find_action k db"
  "find_observation k (add_approval r db) = find_observation k db"
  "find_attribution k (add_approval r db) = find_attribution k db"
  "find_webhook k (add_approval r db) = find_webhook k db"
  by (simp_all add: add_approval_def find_case_def find_proposal_def find_decision_def find_action_def find_observation_def find_attribution_def find_webhook_def)

lemma frame_save_action [simp, row_frames]:
  "db_cases (save_action r db) = db_cases db"
  "db_case_events (save_action r db) = db_case_events db"
  "db_proposals (save_action r db) = db_proposals db"
  "db_policies (save_action r db) = db_policies db"
  "db_decisions (save_action r db) = db_decisions db"
  "db_approvals (save_action r db) = db_approvals db"
  "db_observations (save_action r db) = db_observations db"
  "db_attributions (save_action r db) = db_attributions db"
  "db_webhook_events (save_action r db) = db_webhook_events db"
  "find_case k (save_action r db) = find_case k db"
  "find_proposal k (save_action r db) = find_proposal k db"
  "find_decision k (save_action r db) = find_decision k db"
  "find_approval k (save_action r db) = find_approval k db"
  "find_observation k (save_action r db) = find_observation k db"
  "find_attribution k (save_action r db) = find_attribution k db"
  "find_webhook k (save_action r db) = find_webhook k db"
  by (simp_all add: save_action_def find_case_def find_proposal_def find_decision_def find_approval_def find_observation_def find_attribution_def find_webhook_def)

lemma frame_add_action [simp, row_frames]:
  "db_cases (add_action r db) = db_cases db"
  "db_case_events (add_action r db) = db_case_events db"
  "db_proposals (add_action r db) = db_proposals db"
  "db_policies (add_action r db) = db_policies db"
  "db_decisions (add_action r db) = db_decisions db"
  "db_approvals (add_action r db) = db_approvals db"
  "db_observations (add_action r db) = db_observations db"
  "db_attributions (add_action r db) = db_attributions db"
  "db_webhook_events (add_action r db) = db_webhook_events db"
  "find_case k (add_action r db) = find_case k db"
  "find_proposal k (add_action r db) = find_proposal k db"
  "find_decision k (add_action r db) = find_decision k db"
  "find_approval k (add_action r db) = find_approval k db"
  "find_observation k (add_action r db) = find_observation k db"
  "find_attribution k (add_action r db) = find_attribution k db"
  "find_webhook k (add_action r db) = find_webhook k db"
  by (simp_all add: add_action_def find_case_def find_proposal_def find_decision_def find_approval_def find_observation_def find_attribution_def find_webhook_def)

lemma frame_save_observation [simp, row_frames]:
  "db_cases (save_observation r db) = db_cases db"
  "db_case_events (save_observation r db) = db_case_events db"
  "db_proposals (save_observation r db) = db_proposals db"
  "db_policies (save_observation r db) = db_policies db"
  "db_decisions (save_observation r db) = db_decisions db"
  "db_approvals (save_observation r db) = db_approvals db"
  "db_actions (save_observation r db) = db_actions db"
  "db_attributions (save_observation r db) = db_attributions db"
  "db_webhook_events (save_observation r db) = db_webhook_events db"
  "find_case k (save_observation r db) = find_case k db"
  "find_proposal k (save_observation r db) = find_proposal k db"
  "find_decision k (save_observation r db) = find_decision k db"
  "find_approval k (save_observation r db) = find_approval k db"
  "find_action k (save_observation r db) = find_action k db"
  "find_attribution k (save_observation r db) = find_attribution k db"
  "find_webhook k (save_observation r db) = find_webhook k db"
  by (simp_all add: save_observation_def find_case_def find_proposal_def find_decision_def find_approval_def find_action_def find_attribution_def find_webhook_def)

lemma frame_add_observation [simp, row_frames]:
  "db_cases (add_observation r db) = db_cases db"
  "db_case_events (add_observation r db) = db_case_events db"
  "db_proposals (add_observation r db) = db_proposals db"
  "db_policies (add_observation r db) = db_policies db"
  "db_decisions (add_observation r db) = db_decisions db"
  "db_approvals (add_observation r db) = db_approvals db"
  "db_actions (add_observation r db) = db_actions db"
  "db_attributions (add_observation r db) = db_attributions db"
  "db_webhook_events (add_observation r db) = db_webhook_events db"
  "find_case k (add_observation r db) = find_case k db"
  "find_proposal k (add_observation r db) = find_proposal k db"
  "find_decision k (add_observation r db) = find_decision k db"
  "find_approval k (add_observation r db) = find_approval k db"
  "find_action k (add_observation r db) = find_action k db"
  "find_attribution k (add_observation r db) = find_attribution k db"
  "find_webhook k (add_observation r db) = find_webhook k db"
  by (simp_all add: add_observation_def find_case_def find_proposal_def find_decision_def find_approval_def find_action_def find_attribution_def find_webhook_def)

lemma frame_save_attribution [simp, row_frames]:
  "db_cases (save_attribution r db) = db_cases db"
  "db_case_events (save_attribution r db) = db_case_events db"
  "db_proposals (save_attribution r db) = db_proposals db"
  "db_policies (save_attribution r db) = db_policies db"
  "db_decisions (save_attribution r db) = db_decisions db"
  "db_approvals (save_attribution r db) = db_approvals db"
  "db_actions (save_attribution r db) = db_actions db"
  "db_observations (save_attribution r db) = db_observations db"
  "db_webhook_events (save_attribution r db) = db_webhook_events db"
  "find_case k (save_attribution r db) = find_case k db"
  "find_proposal k (save_attribution r db) = find_proposal k db"
  "find_decision k (save_attribution r db) = find_decision k db"
  "find_approval k (save_attribution r db) = find_approval k db"
  "find_action k (save_attribution r db) = find_action k db"
  "find_observation k (save_attribution r db) = find_observation k db"
  "find_webhook k (save_attribution r db) = find_webhook k db"
  by (simp_all add: save_attribution_def find_case_def find_proposal_def find_decision_def find_approval_def find_action_def find_observation_def find_webhook_def)

lemma frame_add_attribution [simp, row_frames]:
  "db_cases (add_attribution r db) = db_cases db"
  "db_case_events (add_attribution r db) = db_case_events db"
  "db_proposals (add_attribution r db) = db_proposals db"
  "db_policies (add_attribution r db) = db_policies db"
  "db_decisions (add_attribution r db) = db_decisions db"
  "db_approvals (add_attribution r db) = db_approvals db"
  "db_actions (add_attribution r db) = db_actions db"
  "db_observations (add_attribution r db) = db_observations db"
  "db_webhook_events (add_attribution r db) = db_webhook_events db"
  "find_case k (add_attribution r db) = find_case k db"
  "find_proposal k (add_attribution r db) = find_proposal k db"
  "find_decision k (add_attribution r db) = find_decision k db"
  "find_approval k (add_attribution r db) = find_approval k db"
  "find_action k (add_attribution r db) = find_action k db"
  "find_observation k (add_attribution r db) = find_observation k db"
  "find_webhook k (add_attribution r db) = find_webhook k db"
  by (simp_all add: add_attribution_def find_case_def find_proposal_def find_decision_def find_approval_def find_action_def find_observation_def find_webhook_def)

lemma frame_save_webhook [simp, row_frames]:
  "db_cases (save_webhook r db) = db_cases db"
  "db_case_events (save_webhook r db) = db_case_events db"
  "db_proposals (save_webhook r db) = db_proposals db"
  "db_policies (save_webhook r db) = db_policies db"
  "db_decisions (save_webhook r db) = db_decisions db"
  "db_approvals (save_webhook r db) = db_approvals db"
  "db_actions (save_webhook r db) = db_actions db"
  "db_observations (save_webhook r db) = db_observations db"
  "db_attributions (save_webhook r db) = db_attributions db"
  "find_case k (save_webhook r db) = find_case k db"
  "find_proposal k (save_webhook r db) = find_proposal k db"
  "find_decision k (save_webhook r db) = find_decision k db"
  "find_approval k (save_webhook r db) = find_approval k db"
  "find_action k (save_webhook r db) = find_action k db"
  "find_observation k (save_webhook r db) = find_observation k db"
  "find_attribution k (save_webhook r db) = find_attribution k db"
  by (simp_all add: save_webhook_def find_case_def find_proposal_def find_decision_def find_approval_def find_action_def find_observation_def find_attribution_def)

lemma frame_add_webhook [simp, row_frames]:
  "db_cases (add_webhook r db) = db_cases db"
  "db_case_events (add_webhook r db) = db_case_events db"
  "db_proposals (add_webhook r db) = db_proposals db"
  "db_policies (add_webhook r db) = db_policies db"
  "db_decisions (add_webhook r db) = db_decisions db"
  "db_approvals (add_webhook r db) = db_approvals db"
  "db_actions (add_webhook r db) = db_actions db"
  "db_observations (add_webhook r db) = db_observations db"
  "db_attributions (add_webhook r db) = db_attributions db"
  "find_case k (add_webhook r db) = find_case k db"
  "find_proposal k (add_webhook r db) = find_proposal k db"
  "find_decision k (add_webhook r db) = find_decision k db"
  "find_approval k (add_webhook r db) = find_approval k db"
  "find_action k (add_webhook r db) = find_action k db"
  "find_observation k (add_webhook r db) = find_observation k db"
  "find_attribution k (add_webhook r db) = find_attribution k db"
  by (simp_all add: add_webhook_def find_case_def find_proposal_def find_decision_def find_approval_def find_action_def find_observation_def find_attribution_def)

lemma frame_add_event [simp, row_frames]:
  "db_case_events (add_event e db) = db_case_events db @ [e]"
  "db_cases (add_event e db) = db_cases db"
  "db_proposals (add_event e db) = db_proposals db"
  "db_policies (add_event e db) = db_policies db"
  "db_decisions (add_event e db) = db_decisions db"
  "db_approvals (add_event e db) = db_approvals db"
  "db_actions (add_event e db) = db_actions db"
  "db_observations (add_event e db) = db_observations db"
  "db_attributions (add_event e db) = db_attributions db"
  "db_webhook_events (add_event e db) = db_webhook_events db"
  "find_case k (add_event e db) = find_case k db"
  "find_proposal k (add_event e db) = find_proposal k db"
  "find_decision k (add_event e db) = find_decision k db"
  "find_approval k (add_event e db) = find_approval k db"
  "find_action k (add_event e db) = find_action k db"
  "find_observation k (add_event e db) = find_observation k db"
  "find_attribution k (add_event e db) = find_attribution k db"
  "find_webhook k (add_event e db) = find_webhook k db"
  by (simp_all add: add_event_def find_case_def find_proposal_def find_decision_def find_approval_def find_action_def find_observation_def find_attribution_def find_webhook_def)

lemmas cases_laws [table_laws] = cases_table.laws
lemmas proposals_laws [table_laws] = proposals_table.laws
lemmas decisions_laws [table_laws] = decisions_table.laws
lemmas approvals_laws [table_laws] = approvals_table.laws
lemmas actions_laws [table_laws] = actions_table.laws
lemmas observations_laws [table_laws] = observations_table.laws
lemmas attributions_laws [table_laws] = attributions_table.laws
lemmas webhook_events_laws [table_laws] = webhook_events_table.laws

end
