(* ===== verification/Arc_State_Machine.thy ===== *)
theory Arc_State_Machine
  imports Arc_Models
begin

text \<open>
  The case lifecycle of \<open>arc/reconciliation/state_machine.py\<close> with its audit trail, and the
  helpers of \<open>arc/reconciliation/case_audit.py\<close> that reconciliation moves cases with. The
  locale \<open>staged\<close> holds what follows from every change of state moving up a bounded rank;
  the case lifecycle interprets it here and the approval lifecycle in its own theory.
\<close>

section \<open>Staged systems\<close>

locale staged =
  fixes step :: "'s \<Rightarrow> 's \<Rightarrow> bool" and rank :: "'s \<Rightarrow> nat" and top :: nat
  assumes step_up: "step s t \<Longrightarrow> s \<noteq> t \<Longrightarrow> rank s < rank t"
    and rank_top: "rank s \<le> top"
begin

definition final :: "'s \<Rightarrow> bool" where
  "final s \<longleftrightarrow> (\<forall>t. step s t \<longrightarrow> t = s)"

lemma steps_up: "step\<^sup>*\<^sup>* s t \<Longrightarrow> s \<noteq> t \<Longrightarrow> rank s < rank t"
proof (induction rule: rtranclp_induct)
  case (step u t)
  show ?case
  proof (cases "s = u")
    case True
    with step show ?thesis by (simp add: step_up)
  next
    case False
    with step.IH have "rank s < rank u" .
    moreover have "rank u \<le> rank t" using step.hyps(2) step_up [of u t] by (cases "u = t") auto
    ultimately show ?thesis by simp
  qed
qed simp

lemma never_back: "step\<^sup>*\<^sup>* s t \<Longrightarrow> step\<^sup>*\<^sup>* t s \<Longrightarrow> s = t"
  using steps_up [of s t] steps_up [of t s] by fastforce

lemma final_stays: "step\<^sup>*\<^sup>* s t \<Longrightarrow> final s \<Longrightarrow> t = s"
  by (induction rule: rtranclp_induct) (auto simp: final_def)

lemma at_top_final: "rank s = top \<Longrightarrow> final s"
  using step_up rank_top unfolding final_def by (metis leD)

lemma history_ranks:
  "successively (\<lambda>s t. step s t \<and> s \<noteq> t) ss \<Longrightarrow> sorted_wrt (<) (map rank ss)"
proof (induction ss rule: induct_list012)
  case (3 s t ss)
  then have "rank s < rank t" "sorted_wrt (<) (map rank (t # ss))" by (auto intro: step_up)
  then show ?case by fastforce
qed auto

lemma history_distinct: "successively (\<lambda>s t. step s t \<and> s \<noteq> t) ss \<Longrightarrow> distinct ss"
  using history_ranks [of ss] strict_sorted_iff [of "map rank ss"] by (auto simp: distinct_map)

lemma history_length:
  assumes "successively (\<lambda>s t. step s t \<and> s \<noteq> t) ss"
  shows "length ss \<le> Suc top"
proof -
  have "distinct (map rank ss)" using history_ranks [OF assms] strict_sorted_iff by blast
  then have "card (set (map rank ss)) = length ss" by (simp only: distinct_card length_map)
  moreover have "set (map rank ss) \<subseteq> {..top}" using rank_top by auto
  then have "card (set (map rank ss)) \<le> card {..top}" by (intro card_mono) auto
  ultimately show ?thesis by simp
qed

end

section \<open>The case lifecycle\<close>

definition TERMINAL_CASE_STATES :: "CaseState set" where
  "TERMINAL_CASE_STATES = {CaseState.RECOVERED, CaseState.EXHAUSTED, CaseState.ESCALATED}"

fun allowed_transitions :: "CaseState \<Rightarrow> CaseState set" where
  "allowed_transitions CaseState.DETECTED =
     {CaseState.RECONCILING, CaseState.RECOVERED, CaseState.EXHAUSTED, CaseState.ESCALATED}"
| "allowed_transitions CaseState.RECONCILING =
     {CaseState.DIAGNOSED, CaseState.RECOVERED, CaseState.EXHAUSTED, CaseState.ESCALATED}"
| "allowed_transitions CaseState.DIAGNOSED =
     {CaseState.DECISIONED, CaseState.RECOVERED, CaseState.EXHAUSTED, CaseState.ESCALATED}"
| "allowed_transitions CaseState.DECISIONED =
     {CaseState.POLICY_VALIDATED, CaseState.RECOVERED, CaseState.EXHAUSTED, CaseState.ESCALATED}"
| "allowed_transitions CaseState.POLICY_VALIDATED =
     {CaseState.ACTIONED, CaseState.RECOVERED, CaseState.EXHAUSTED, CaseState.ESCALATED}"
| "allowed_transitions CaseState.ACTIONED =
     {CaseState.WAITING_FOR_OUTCOME, CaseState.RECOVERED, CaseState.EXHAUSTED, CaseState.ESCALATED}"
| "allowed_transitions CaseState.WAITING_FOR_OUTCOME = TERMINAL_CASE_STATES"
| "allowed_transitions CaseState.RECOVERED = {}"
| "allowed_transitions CaseState.EXHAUSTED = {}"
| "allowed_transitions CaseState.ESCALATED = {}"

definition can_transition :: "CaseState \<Rightarrow> CaseState \<Rightarrow> bool" where
  "can_transition current_state target_state \<longleftrightarrow>
     current_state = target_state \<or> target_state \<in> allowed_transitions current_state"

record case_transition_result =
  tr_previous_state :: CaseState
  tr_new_state :: CaseState
  tr_changed :: bool
  tr_audit_event :: "case_event option"

type_synonym json_dict = "(string \<times> json) list"

definition transition_case ::
  "payment_case \<Rightarrow> CaseState \<Rightarrow> string \<Rightarrow> string \<Rightarrow> json_dict \<Rightarrow> arc_db \<Rightarrow>
     arc_error + case_transition_result \<times> payment_case \<times> arc_db" where
  "transition_case payment_case target_state reason_code source metadata db =
    (let previous_state = pc_current_state payment_case in
     if previous_state = target_state then
       Inr (\<lparr>tr_previous_state = previous_state, tr_new_state = target_state, tr_changed = False,
             tr_audit_event = None\<rparr>, payment_case, db)
     else if \<not> can_transition previous_state target_state then
       Inl (InvalidCaseTransition (''Case transition '' @ case_state_value previous_state @ '' -> '' @
              case_state_value target_state @ '' is not allowed''))
     else
       let event_data = dict_update metadata
             [(''previous_state'', JStr (case_state_value previous_state)),
              (''new_state'', JStr (case_state_value target_state)),
              (''reason_code'', JStr reason_code)];
           audit_event = \<lparr>ce_case_id = pc_id payment_case, ce_event_type = ''CASE_STATE_TRANSITION'',
             ce_source = source, ce_event_data = JObj event_data\<rparr>
       in Inr (\<lparr>tr_previous_state = previous_state, tr_new_state = target_state, tr_changed = True,
                tr_audit_event = Some audit_event\<rparr>,
               payment_case\<lparr>pc_current_state := target_state\<rparr>, add_event audit_event db))"

text \<open>A caller that ignores the returned transition result.\<close>

definition move_case ::
  "payment_case \<Rightarrow> CaseState \<Rightarrow> string \<Rightarrow> string \<Rightarrow> json_dict \<Rightarrow> arc_db \<Rightarrow>
     arc_error + payment_case \<times> arc_db" where
  "move_case payment_case target_state reason_code source metadata db =
     sbind (transition_case payment_case target_state reason_code source metadata db)
       (\<lambda>(_, payment_case', db'). Inr (payment_case', db'))"

section \<open>Facts about transitions\<close>

fun case_stage :: "CaseState \<Rightarrow> nat" where
  "case_stage s = min 7 (case_state_rank s)"

lemma can_transition_refl [simp]: "can_transition s s"
  by (simp add: can_transition_def)

lemma can_transition_iff:
  "can_transition s t \<longleftrightarrow>
     s = t \<or> s \<notin> TERMINAL_CASE_STATES \<and>
       (t \<in> TERMINAL_CASE_STATES \<or> case_state_rank t = Suc (case_state_rank s))"
  by (cases s; cases t) (simp_all add: can_transition_def TERMINAL_CASE_STATES_def)

interpretation case_lifecycle: staged can_transition case_stage 7
proof
  fix s t
  show "can_transition s t \<Longrightarrow> s \<noteq> t \<Longrightarrow> case_stage s < case_stage t"
    by (cases s; cases t) (simp_all add: can_transition_def TERMINAL_CASE_STATES_def)
qed simp

lemma case_stage_top_iff: "case_stage s = 7 \<longleftrightarrow> s \<in> TERMINAL_CASE_STATES"
  by (cases s) (simp_all add: TERMINAL_CASE_STATES_def)

lemma can_transition_le: "can_transition s t \<Longrightarrow> s \<le> t"
  by (cases s; cases t) (simp_all add: can_transition_def TERMINAL_CASE_STATES_def less_eq_CaseState_def)

lemma terminal_case_final: "s \<in> TERMINAL_CASE_STATES \<Longrightarrow> can_transition s t \<longleftrightarrow> t = s"
  by (cases s; cases t) (simp_all add: can_transition_def TERMINAL_CASE_STATES_def)

lemma transition_case_Inl_iff:
  "(\<exists>e. transition_case pc t r src m db = Inl e) \<longleftrightarrow> \<not> can_transition (pc_current_state pc) t"
  by (auto simp: transition_case_def Let_def)

lemma transition_case_InrD:
  assumes "transition_case pc t r src m db = Inr (res, pc', db')"
  shows "can_transition (pc_current_state pc) t" "pc' = pc\<lparr>pc_current_state := t\<rparr>"
    "db' = (case tr_audit_event res of None \<Rightarrow> db | Some ev \<Rightarrow> add_event ev db)"
    "tr_changed res \<longleftrightarrow> pc_current_state pc \<noteq> t"
    "tr_audit_event res = None \<longleftrightarrow> \<not> tr_changed res"
  using assms by (auto simp: transition_case_def Let_def split: if_splits)

text \<open>What callers use of \<open>move_case\<close>.\<close>

definition only_events_added :: "arc_db \<Rightarrow> arc_db \<Rightarrow> bool" where
  "only_events_added db db' \<longleftrightarrow> (\<exists>evs. db' = db\<lparr>db_case_events := db_case_events db @ evs\<rparr>)"

lemma only_events_added_refl [simp]: "only_events_added db db"
  unfolding only_events_added_def by (intro exI [of _ "[]"]) simp

lemma only_events_added_event [simp]: "only_events_added db (add_event e db)"
  unfolding only_events_added_def add_event_def by blast

lemma only_events_added_trans [trans]:
  "only_events_added a b \<Longrightarrow> only_events_added b c \<Longrightarrow> only_events_added a c"
  unfolding only_events_added_def by fastforce

lemma only_events_addedD:
  assumes "only_events_added db db'"
  shows "db_cases db' = db_cases db" "db_proposals db' = db_proposals db" "db_policies db' = db_policies db"
    "db_decisions db' = db_decisions db" "db_approvals db' = db_approvals db" "db_actions db' = db_actions db"
    "db_observations db' = db_observations db" "db_attributions db' = db_attributions db"
    "db_webhook_events db' = db_webhook_events db"
  using assms by (auto simp: only_events_added_def)

lemma move_case_InrD:
  assumes "move_case pc t r src m db = Inr (pc', db')"
  shows "can_transition (pc_current_state pc) t" "pc' = pc\<lparr>pc_current_state := t\<rparr>" "only_events_added db db'"
  using assms
  by (auto simp: move_case_def transition_case_def Let_def split: if_splits)

lemma move_case_ok:
  assumes "can_transition (pc_current_state pc) t"
  shows "\<exists>db'. move_case pc t r src m db = Inr (pc\<lparr>pc_current_state := t\<rparr>, db') \<and> only_events_added db db'"
proof (cases "pc_current_state pc = t")
  case True
  then show ?thesis by (auto simp: move_case_def transition_case_def)
next
  case False
  with assms show ?thesis by (simp add: move_case_def transition_case_def Let_def)
qed

section \<open>Reconciliation's use of the lifecycle\<close>

definition RECONCILIATION_SOURCE :: string where
  "RECONCILIATION_SOURCE = ''RAZORPAY_RECONCILIATION''"

definition UNKNOWN_MERCHANT_ID :: string where
  "UNKNOWN_MERCHANT_ID = ''unknown''"

definition initialize_case_audit ::
  "payment_case \<Rightarrow> webhook_event \<Rightarrow> string \<Rightarrow> py_datetime \<Rightarrow> bool \<Rightarrow> arc_db \<Rightarrow> arc_db" where
  "initialize_case_audit payment_case event external_status reconciled_at created db =
    (if \<not> created then db
     else add_event \<lparr>ce_case_id = pc_id payment_case, ce_event_type = ''CASE_DETECTED'',
       ce_source = RECONCILIATION_SOURCE,
       ce_event_data = JObj
         [(''source_webhook_event_id'', JStr (we_razorpay_event_id event)),
          (''previous_state'', JNull),
          (''new_state'', JStr (case_state_value CaseState.DETECTED)),
          (''external_status'', JStr external_status),
          (''reason_code'', JStr ''CASE_DETECTED''),
          (''reconciled_at'', JStr (dt_isoformat reconciled_at))]\<rparr> db)"

definition reconciliation_metadata :: "webhook_event \<Rightarrow> string \<Rightarrow> py_datetime \<Rightarrow> json_dict" where
  "reconciliation_metadata event external_status reconciled_at =
     [(''source_webhook_event_id'', JStr (we_razorpay_event_id event)),
      (''external_status'', JStr external_status),
      (''reconciled_at'', JStr (dt_isoformat reconciled_at))]"

definition transition_if_allowed ::
  "payment_case \<Rightarrow> CaseState \<Rightarrow> string \<Rightarrow> webhook_event \<Rightarrow> string \<Rightarrow> py_datetime \<Rightarrow> arc_db \<Rightarrow>
     arc_error + payment_case \<times> arc_db" where
  "transition_if_allowed payment_case target_state reason_code event external_status reconciled_at db =
    (if \<not> can_transition (pc_current_state payment_case) target_state then Inr (payment_case, db)
     else move_case payment_case target_state reason_code RECONCILIATION_SOURCE
            (reconciliation_metadata event external_status reconciled_at) db)"

definition move_detected_case_to_reconciling ::
  "payment_case \<Rightarrow> webhook_event \<Rightarrow> string \<Rightarrow> py_datetime \<Rightarrow> arc_db \<Rightarrow>
     arc_error + payment_case \<times> arc_db" where
  "move_detected_case_to_reconciling payment_case event external_status reconciled_at db =
    (if \<not> can_transition (pc_current_state payment_case) CaseState.RECONCILING then Inr (payment_case, db)
     else move_case payment_case CaseState.RECONCILING ''AUTHORITATIVE_RECONCILIATION_STARTED''
            RECONCILIATION_SOURCE (reconciliation_metadata event external_status reconciled_at) db)"

definition append_reconciliation_audit ::
  "payment_case \<Rightarrow> webhook_event \<Rightarrow> CaseState \<Rightarrow> string \<Rightarrow> string \<Rightarrow> py_datetime \<Rightarrow> arc_db \<Rightarrow> arc_db" where
  "append_reconciliation_audit payment_case event previous_state reason_code external_status reconciled_at db =
     add_event \<lparr>ce_case_id = pc_id payment_case, ce_event_type = reason_code,
       ce_source = RECONCILIATION_SOURCE,
       ce_event_data = JObj
         [(''source_webhook_event_id'', JStr (we_razorpay_event_id event)),
          (''previous_state'', JStr (case_state_value previous_state)),
          (''new_state'', JStr (case_state_value (pc_current_state payment_case))),
          (''external_status'', JStr external_status),
          (''reason_code'', JStr reason_code),
          (''reconciled_at'', JStr (dt_isoformat reconciled_at))]\<rparr> db"

lemma transition_if_allowed_total:
  "\<exists>db'. transition_if_allowed pc t r ev st at db =
       Inr (if can_transition (pc_current_state pc) t then pc\<lparr>pc_current_state := t\<rparr> else pc, db') \<and>
     only_events_added db db'"
  by (simp add: transition_if_allowed_def move_case_ok)

lemma can_transition_RECONCILING:
  "can_transition s CaseState.RECONCILING \<longleftrightarrow> s = CaseState.DETECTED \<or> s = CaseState.RECONCILING"
  by (cases s) (simp_all add: can_transition_def TERMINAL_CASE_STATES_def)

lemma move_detected_total:
  "\<exists>db'. move_detected_case_to_reconciling pc ev st at db =
       Inr (if pc_current_state pc = CaseState.DETECTED then pc\<lparr>pc_current_state := CaseState.RECONCILING\<rparr> else pc, db') \<and>
     only_events_added db db'"
proof (cases "can_transition (pc_current_state pc) CaseState.RECONCILING")
  case True
  then have "pc\<lparr>pc_current_state := CaseState.RECONCILING\<rparr> =
      (if pc_current_state pc = CaseState.DETECTED then pc\<lparr>pc_current_state := CaseState.RECONCILING\<rparr> else pc)"
    by (auto simp: can_transition_RECONCILING)
  with True move_case_ok [of pc CaseState.RECONCILING "''AUTHORITATIVE_RECONCILIATION_STARTED''"
      RECONCILIATION_SOURCE "reconciliation_metadata ev st at" db]
  show ?thesis by (simp only: move_detected_case_to_reconciling_def if_False not_True_eq_False simp_thms)
next
  case False
  then show ?thesis by (auto simp: move_detected_case_to_reconciling_def can_transition_RECONCILING)
qed

section \<open>Properties\<close>

text \<open>
  A case never returns to a state it left, and its history of state changes is at most
  eight states long, whatever sequence of permitted transitions it takes.
\<close>

lemma case_history_bounded:
  assumes "successively (\<lambda>s t. can_transition s t \<and> s \<noteq> t) history"
  shows "distinct history \<and> sorted_wrt (<) history \<and> length history \<le> 8"
proof -
  have "sorted_wrt (<) history"
    using assms
  proof (induction history rule: induct_list012)
    case (3 s t ss)
    then have "s \<le> t" "s \<noteq> t" "sorted_wrt (<) (t # ss)" by (auto dest: can_transition_le)
    then show ?case by fastforce
  qed auto
  then show ?thesis using case_lifecycle.history_distinct [OF assms] case_lifecycle.history_length [OF assms] by simp
qed

text \<open>
  \<open>transition_case\<close> fails exactly on a transition that is not allowed. When it succeeds, the
  row differs from the one passed in at most in its state, an audit event is appended exactly
  when the state changed, and that event names the previous state, the new state and the reason
  even if the caller's metadata carries keys of the same names.
\<close>

lemma transition_case_audited:
  "case transition_case pc t r src m db of
     Inl e \<Rightarrow> \<not> can_transition (pc_current_state pc) t
   | Inr (res, pc', db') \<Rightarrow> can_transition (pc_current_state pc) t \<and> pc' = pc\<lparr>pc_current_state := t\<rparr> \<and>
       (if pc_current_state pc = t then db' = db \<and> tr_audit_event res = None
        else \<exists>ev. tr_audit_event res = Some ev \<and> db' = add_event ev db \<and> ce_case_id ev = pc_id pc \<and>
          ce_source ev = src \<and>
          json_field ''previous_state'' (ce_event_data ev) =
            Some (JStr (case_state_value (pc_current_state pc))) \<and>
          json_field ''new_state'' (ce_event_data ev) = Some (JStr (case_state_value t)) \<and>
          json_field ''reason_code'' (ce_event_data ev) = Some (JStr r))"
  by (auto simp: transition_case_def Let_def json_field_def map_of_dict_update)

end
