(* ===== verification/Arc_Eligibility.thy ===== *)
theory Arc_Eligibility
  imports Arc_State_Machine
begin

text \<open>
  Recovery-reasoning preconditions, \<open>arc/policy/eligibility.py\<close>: the assessment fingerprint of
  a case and the eligibility decision on its reconciled facts.
\<close>

section \<open>The assessment fingerprint\<close>

definition RECONCILIATION_FRESHNESS :: int where
  "RECONCILIATION_FRESHNESS = seconds 300"

definition ASSESSMENT_RULESET_VERSION :: string where
  "ASSESSMENT_RULESET_VERSION = ''task5-v1''"

fun terminal_reason :: "CaseState \<Rightarrow> string option" where
  "terminal_reason CaseState.RECOVERED = Some ''STOP_ALREADY_RECOVERED''"
| "terminal_reason CaseState.EXHAUSTED = Some ''STOP_ALREADY_EXHAUSTED''"
| "terminal_reason CaseState.ESCALATED = Some ''STOP_ALREADY_ESCALATED''"
| "terminal_reason _ = None"

definition normalized :: "string option \<Rightarrow> string option" where
  "normalized value = (case value of None \<Rightarrow> None
     | Some v \<Rightarrow> let n = py_lower (py_strip v) in if n = [] then None else Some n)"

definition assessment_facts :: "payment_case \<Rightarrow> json" where
  "assessment_facts c = JObj
    [(''ruleset_version'', JStr ASSESSMENT_RULESET_VERSION),
     (''terminal_case_state'',
        if terminal_reason (pc_current_state c) \<noteq> None then JStr (case_state_value (pc_current_state c)) else JNull),
     (''payment_id'', jopt JStr (pc_payment_id c)),
     (''subscription_id'', jopt JStr (pc_subscription_id c)),
     (''razorpay_payment_status'', jopt JStr (normalized (pc_razorpay_payment_status c))),
     (''razorpay_subscription_status'', jopt JStr (normalized (pc_razorpay_subscription_status c))),
     (''error_code'', jopt JStr (normalized (pc_error_code c))),
     (''error_source'', jopt JStr (normalized (pc_error_source c))),
     (''error_step'', jopt JStr (normalized (pc_error_step c))),
     (''error_reason'', jopt JStr (normalized (pc_error_reason c))),
     (''payment_method'', jopt JStr (normalized (pc_razorpay_payment_method c))),
     (''amount'', jopt JInt (pc_amount c)),
     (''currency'', jopt (\<lambda>s. JStr (py_upper (py_strip s))) (pc_currency c)),
     (''last_reconciled_at'', jopt (\<lambda>d. JStr (dt_isoformat d)) (pc_last_reconciled_at c))]"

definition build_assessment_fingerprint :: "(string \<Rightarrow> string) \<Rightarrow> payment_case \<Rightarrow> string" where
  "build_assessment_fingerprint sha c = sha (json_dumps True (assessment_facts c))"

section \<open>Eligibility\<close>

record eligibility_result =
  el_decision :: EligibilityDecision
  el_reason_code :: string
  el_explanation :: string
  el_assessment_fingerprint :: string

definition el_result :: "EligibilityDecision \<Rightarrow> string \<Rightarrow> string \<Rightarrow> string \<Rightarrow> eligibility_result" where
  "el_result decision reason_code explanation fingerprint =
     \<lparr>el_decision = decision, el_reason_code = reason_code, el_explanation = explanation,
      el_assessment_fingerprint = fingerprint\<rparr>"

definition assess_payment_status :: "payment_case \<Rightarrow> string \<Rightarrow> string \<Rightarrow> eligibility_result" where
  "assess_payment_status c status fingerprint =
    (if status = ''captured'' then
       el_result EligibilityDecision.STOP ''PAYMENT_ALREADY_CAPTURED''
         ''The authoritative payment status is captured.'' fingerprint
     else if status = ''refunded'' then
       el_result EligibilityDecision.STOP ''PAYMENT_REFUNDED''
         ''The authoritative payment status is refunded.'' fingerprint
     else if status \<in> {''created'', ''authorized''} then
       el_result EligibilityDecision.WAIT ''PAYMENT_NOT_FINAL''
         ''The payment has not reached a final failure state.'' fingerprint
     else if status = ''failed'' then
       (if pc_current_state c = CaseState.DETECTED then
          el_result EligibilityDecision.REVIEW ''CASE_STATE_NOT_RECONCILED''
            ''A confirmed failure is not in a reconciled ARC state.'' fingerprint
        else
          el_result EligibilityDecision.ELIGIBLE ''PAYMENT_FAILURE_CONFIRMED''
            ''Authoritative payment failure is eligible for diagnosis.'' fingerprint)
     else
       el_result EligibilityDecision.REVIEW ''UNRECOGNIZED_PAYMENT_STATUS''
         ''The authoritative payment status is not recognized.'' fingerprint)"

definition assess_subscription_status ::
  "payment_case \<Rightarrow> string option \<Rightarrow> string \<Rightarrow> eligibility_result" where
  "assess_subscription_status c status fingerprint =
    (if status = Some ''pending'' then
       el_result EligibilityDecision.WAIT ''PLATFORM_RETRY_ACTIVE''
         ''Razorpay subscription retries remain active.'' fingerprint
     else if status = Some ''halted'' then
       (if pc_current_state c = CaseState.DETECTED then
          el_result EligibilityDecision.REVIEW ''CASE_STATE_NOT_RECONCILED''
            ''A halted subscription is not in a reconciled ARC state.'' fingerprint
        else
          el_result EligibilityDecision.ELIGIBLE ''SUBSCRIPTION_RETRIES_EXHAUSTED''
            ''Automatic subscription retries are exhausted.'' fingerprint)
     else if status = Some ''active'' then
       el_result EligibilityDecision.STOP ''SUBSCRIPTION_ACTIVE''
         ''The subscription is active and requires no recovery reasoning.'' fingerprint
     else if status = Some ''paused'' then
       el_result EligibilityDecision.WAIT ''SUBSCRIPTION_PAUSED''
         ''The subscription is paused.'' fingerprint
     else if status \<in> {Some ''created'', Some ''authenticated''} then
       el_result EligibilityDecision.WAIT ''SUBSCRIPTION_NOT_RECOVERY_READY''
         ''The subscription is not ready for recovery reasoning.'' fingerprint
     else if status \<in> {Some ''cancelled'', Some ''completed'', Some ''expired''} then
       el_result EligibilityDecision.STOP ''SUBSCRIPTION_TERMINAL''
         ''The subscription is in a non-recoverable terminal state.'' fingerprint
     else
       el_result EligibilityDecision.REVIEW ''UNRECOGNIZED_SUBSCRIPTION_STATUS''
         ''The authoritative subscription status is not recognized.'' fingerprint)"

definition assess_eligibility ::
  "(string \<Rightarrow> string) \<Rightarrow> payment_case \<Rightarrow> py_datetime \<Rightarrow> eligibility_result" where
  "assess_eligibility sha c now =
    (let fingerprint = build_assessment_fingerprint sha c in
     case terminal_reason (pc_current_state c) of
       Some reason \<Rightarrow> el_result EligibilityDecision.STOP reason
         ''The ARC case is terminal and cannot be reopened.'' fingerprint
     | None \<Rightarrow>
       if \<not> truthy (pc_payment_id c) \<and> \<not> truthy (pc_subscription_id c) then
         el_result EligibilityDecision.REVIEW ''CASE_IDENTITY_MISSING''
           ''The case has no payment or subscription identity.'' fingerprint
       else case pc_last_reconciled_at c of
         None \<Rightarrow> el_result EligibilityDecision.WAIT ''RECONCILIATION_REQUIRED''
           ''Authoritative reconciliation must complete before assessment.'' fingerprint
       | Some reconciled_at \<Rightarrow>
         if \<not> dt_aware reconciled_at \<or> \<not> dt_aware now then
           el_result EligibilityDecision.REVIEW ''MALFORMED_RECONCILIATION_TIMESTAMP''
             ''The reconciliation timestamp is not timezone-aware.'' fingerprint
         else if dt_less now reconciled_at then
           el_result EligibilityDecision.REVIEW ''RECONCILIATION_TIMESTAMP_IN_FUTURE''
             ''The reconciliation timestamp is later than the assessment clock.'' fingerprint
         else if dt_us now - dt_us reconciled_at > RECONCILIATION_FRESHNESS then
           el_result EligibilityDecision.WAIT ''RECONCILIATION_STALE''
             ''Authoritative financial truth is outside the freshness window.'' fingerprint
         else
           (let payment_status = normalized (pc_razorpay_payment_status c);
                subscription_status = normalized (pc_razorpay_subscription_status c)
            in if payment_status \<noteq> None \<and> subscription_status \<noteq> None then
                 el_result EligibilityDecision.REVIEW ''CONFLICTING_EXTERNAL_STATUSES''
                   ''The case contains conflicting payment and subscription truth.'' fingerprint
               else case payment_status of
                 Some status \<Rightarrow>
                   if \<not> truthy (pc_payment_id c) then
                     el_result EligibilityDecision.REVIEW ''PAYMENT_IDENTITY_MISSING''
                       ''Payment truth exists without a payment identity.'' fingerprint
                   else assess_payment_status c status fingerprint
               | None \<Rightarrow>
                   if subscription_status = None then
                     el_result EligibilityDecision.REVIEW ''AUTHORITATIVE_STATUS_MISSING''
                       ''Reconciliation did not produce a usable external status.'' fingerprint
                   else if \<not> truthy (pc_subscription_id c) then
                     el_result EligibilityDecision.REVIEW ''SUBSCRIPTION_IDENTITY_MISSING''
                       ''Subscription truth exists without a subscription identity.'' fingerprint
                   else if pc_payment_id c \<noteq> None then
                     el_result EligibilityDecision.REVIEW ''CONFLICTING_CASE_IDENTITY''
                       ''A subscription case contains an unexpected payment identity.'' fingerprint
                   else assess_subscription_status c subscription_status fingerprint))"

section \<open>Facts\<close>

lemma el_result_sel [simp]:
  "el_decision (el_result d r x f) = d" "el_reason_code (el_result d r x f) = r"
  "el_explanation (el_result d r x f) = x" "el_assessment_fingerprint (el_result d r x f) = f"
  by (simp_all add: el_result_def)

lemma terminal_reason_None_iff: "terminal_reason s = None \<longleftrightarrow> s \<notin> TERMINAL_CASE_STATES"
  by (cases s) (simp_all add: TERMINAL_CASE_STATES_def)

lemma normalized_idem [simp]: "normalized (normalized v) = normalized v"
  by (auto simp: normalized_def Let_def py_strip_lower split: option.split)

lemma normalized_nonempty [simp]: "normalized v \<noteq> Some []"
  by (auto simp: normalized_def Let_def split: option.split)

lemma assess_fingerprint [simp]:
  "el_assessment_fingerprint (assess_eligibility sha c now) = build_assessment_fingerprint sha c"
  by (simp add: assess_eligibility_def assess_payment_status_def assess_subscription_status_def Let_def
      split: option.split)

lemma payment_eligible_iff:
  "el_decision (assess_payment_status c status f) = EligibilityDecision.ELIGIBLE \<longleftrightarrow>
     status = ''failed'' \<and> pc_current_state c \<noteq> CaseState.DETECTED"
  by (auto simp: assess_payment_status_def)

lemma subscription_eligible_iff:
  "el_decision (assess_subscription_status c status f) = EligibilityDecision.ELIGIBLE \<longleftrightarrow>
     status = Some ''halted'' \<and> pc_current_state c \<noteq> CaseState.DETECTED"
  by (auto simp: assess_subscription_status_def)

lemma payment_settled:
  "status \<in> {''captured'', ''refunded''} \<Longrightarrow>
     el_decision (assess_payment_status c status f) = EligibilityDecision.STOP"
  by (auto simp: assess_payment_status_def)

lemma subscription_settled:
  "status \<in> {Some ''active'', Some ''cancelled'', Some ''completed'', Some ''expired''} \<Longrightarrow>
     el_decision (assess_subscription_status c status f) = EligibilityDecision.STOP"
  by (auto simp: assess_subscription_status_def)

lemma assess_eligibility_cong:
  assumes "terminal_reason (pc_current_state d) = terminal_reason (pc_current_state c)"
    "pc_current_state d = CaseState.DETECTED \<longleftrightarrow> pc_current_state c = CaseState.DETECTED"
    "assessment_facts d = assessment_facts c"
    "pc_payment_id d = pc_payment_id c" "pc_subscription_id d = pc_subscription_id c"
    "pc_last_reconciled_at d = pc_last_reconciled_at c"
    "pc_razorpay_payment_status d = pc_razorpay_payment_status c"
    "pc_razorpay_subscription_status d = pc_razorpay_subscription_status c"
  shows "assess_eligibility sha d t = assess_eligibility sha c t"
  unfolding assess_eligibility_def build_assessment_fingerprint_def assess_payment_status_def
    assess_subscription_status_def assms ..

lemma eligible_live:
  assumes "el_decision (assess_eligibility sha c now) = EligibilityDecision.ELIGIBLE"
  shows "pc_current_state c \<notin> TERMINAL_CASE_STATES" "pc_current_state c \<noteq> CaseState.DETECTED"
proof -
  have live: "terminal_reason (pc_current_state c) = None"
    using assms by (cases "terminal_reason (pc_current_state c)") (simp_all add: assess_eligibility_def Let_def)
  then show "pc_current_state c \<notin> TERMINAL_CASE_STATES" by (simp add: terminal_reason_None_iff)
  obtain r where r: "pc_last_reconciled_at c = Some r"
    using assms live by (cases "pc_last_reconciled_at c") (auto simp: assess_eligibility_def Let_def split: if_splits)
  show "pc_current_state c \<noteq> CaseState.DETECTED"
    using assms live r
    by (cases "normalized (pc_razorpay_payment_status c)"; cases "normalized (pc_razorpay_subscription_status c)")
      (auto simp: assess_eligibility_def Let_def payment_eligible_iff subscription_eligible_iff split: if_splits)
qed

interpretation assessment_fp: fingerprinted assessment_facts True
  by unfold_locales (simp_all add: assessment_facts_def)

section \<open>Properties\<close>

text \<open>
  C36. A case is eligible exactly when it is neither terminal nor merely detected, was reconciled
  at most 300 seconds ago by an aware clock that is not in the future, and its truth is a failed
  payment with a payment identity or a halted subscription with a subscription identity and no
  payment identity, and never both kinds of truth at once.
\<close>

theorem eligible_iff:
  "el_decision (assess_eligibility sha c now) = EligibilityDecision.ELIGIBLE \<longleftrightarrow>
     pc_current_state c \<notin> TERMINAL_CASE_STATES \<and> pc_current_state c \<noteq> CaseState.DETECTED \<and>
     (case pc_last_reconciled_at c of None \<Rightarrow> False
      | Some r \<Rightarrow> dt_aware r \<and> dt_aware now \<and> dt_us r \<le> dt_us now \<and> dt_us now \<le> dt_us r + 300 * 1000000) \<and>
     (normalized (pc_razorpay_payment_status c) = Some ''failed'' \<and>
        normalized (pc_razorpay_subscription_status c) = None \<and> truthy (pc_payment_id c) \<or>
      normalized (pc_razorpay_payment_status c) = None \<and>
        normalized (pc_razorpay_subscription_status c) = Some ''halted'' \<and>
        truthy (pc_subscription_id c) \<and> pc_payment_id c = None)"
proof (cases "terminal_reason (pc_current_state c)")
  case (Some reason)
  then show ?thesis by (simp add: assess_eligibility_def Let_def terminal_reason_None_iff [symmetric])
next
  case live: None
  show ?thesis
  proof (cases "pc_last_reconciled_at c")
    case None
    with live show ?thesis by (simp add: assess_eligibility_def Let_def)
  next
    case (Some r)
    with live show ?thesis
      by (cases "normalized (pc_razorpay_payment_status c)"; cases "normalized (pc_razorpay_subscription_status c)")
        (auto simp: assess_eligibility_def Let_def payment_eligible_iff subscription_eligible_iff
          terminal_reason_None_iff [symmetric] RECONCILIATION_FRESHNESS_def seconds_def dt_less_def)
  qed
qed

text \<open>
  A captured or refunded payment, and an active, cancelled, completed or expired
  subscription, is never eligible for recovery and never asked to wait: the decision is STOP, or
  REVIEW when the facts are inconsistent, once fresh truth is on record for a live case.
\<close>

lemma settled_truth_stops:
  assumes "pc_current_state c \<notin> TERMINAL_CASE_STATES" "pc_last_reconciled_at c = Some r"
    and "dt_us now \<le> dt_us r + RECONCILIATION_FRESHNESS"
    and "normalized (pc_razorpay_payment_status c) \<in> {Some ''captured'', Some ''refunded''} \<or>
      normalized (pc_razorpay_payment_status c) = None \<and>
      normalized (pc_razorpay_subscription_status c) \<in>
        {Some ''active'', Some ''cancelled'', Some ''completed'', Some ''expired''}"
  shows "el_decision (assess_eligibility sha c now) \<in> {EligibilityDecision.STOP, EligibilityDecision.REVIEW}"
proof -
  have live: "terminal_reason (pc_current_state c) = None" using assms(1) by (simp add: terminal_reason_None_iff)
  show ?thesis
    using assms(2-4) live
    by (cases "normalized (pc_razorpay_payment_status c)"; cases "normalized (pc_razorpay_subscription_status c)")
      (auto simp: assess_eligibility_def Let_def payment_settled subscription_settled)
qed

text \<open>
  The assessment fingerprint hashes inputs only: nothing an assessment, a strategy, a policy
  decision or an execution writes to the case changes it while the case stays out of the terminal
  states, and neither does the spelling of a status, code or currency in another case or with
  spaces around it.
\<close>

lemma assessment_fingerprint_ignores_outputs:
  assumes "terminal_reason s = terminal_reason (pc_current_state c)"
    and "terminal_reason s = None"
  shows "build_assessment_fingerprint sha (c\<lparr>pc_current_state := s, pc_eligibility_status := e,
     pc_eligibility_reason_code := er, pc_eligibility_evaluated_at := et, pc_failure_category := fc,
     pc_recovery_disposition := rd, pc_diagnosis_reason_code := dr, pc_diagnosed_at := da,
     pc_assessment_fingerprint := af, pc_attempt_count := n, pc_contact_attempt_count := m,
     pc_resolved_at := ra, pc_error_reason := normalized (pc_error_reason c),
     pc_error_code := normalized (pc_error_code c), pc_error_source := normalized (pc_error_source c),
     pc_currency := map_option (\<lambda>x. py_upper (py_strip x)) (pc_currency c)\<rparr>) =
     build_assessment_fingerprint sha c"
  using assms
  by (cases "pc_currency c") (simp_all add: build_assessment_fingerprint_def assessment_facts_def jopt_def
      py_strip_upper)

text \<open>
  Two cases with one assessment fingerprint agree on every fact the assessment reads: their
  identities, statuses, failure evidence, method, amount and currency. SHA-256 enters only through
  the two texts hashed: they are assumed not to collide.
\<close>

lemma assessment_fingerprint_binds:
  assumes "build_assessment_fingerprint sha c = build_assessment_fingerprint sha d"
    and "no_collision sha (json_dumps True (assessment_facts c)) (json_dumps True (assessment_facts d))"
  shows "pc_payment_id c = pc_payment_id d \<and> pc_subscription_id c = pc_subscription_id d \<and>
    normalized (pc_razorpay_payment_status c) = normalized (pc_razorpay_payment_status d) \<and>
    normalized (pc_razorpay_subscription_status c) = normalized (pc_razorpay_subscription_status d) \<and>
    normalized (pc_error_reason c) = normalized (pc_error_reason d) \<and>
    normalized (pc_error_source c) = normalized (pc_error_source d) \<and>
    normalized (pc_error_step c) = normalized (pc_error_step d) \<and>
    normalized (pc_razorpay_payment_method c) = normalized (pc_razorpay_payment_method d) \<and>
    pc_amount c = pc_amount d"
proof -
  note b = assessment_fp.binds [of sha c d, OF assms(1) [unfolded build_assessment_fingerprint_def] assms(2)]
  note field = json_field_def assessment_facts_def
  show ?thesis
    using b [of "''payment_id''"] b [of "''subscription_id''"] b [of "''razorpay_payment_status''"]
      b [of "''razorpay_subscription_status''"] b [of "''error_reason''"] b [of "''error_source''"]
      b [of "''error_step''"] b [of "''payment_method''"] b [of "''amount''"]
    by (simp add: field)
qed

end
