(* ===== verification/Arc_Diagnosis.thy ===== *)
theory Arc_Diagnosis
  imports Arc_Eligibility
begin

text \<open>
  The failure classifier of \<open>arc/diagnosis/failure_classifier.py\<close>: its rule tables, the order in
  which evidence is consulted, and the disposition of every category.
\<close>

definition reason_rules :: "(string \<times> FailureCategory \<times> string) list" where
  "reason_rules =
    [(''incorrect_otp'', (FailureCategory.CUSTOMER_AUTHENTICATION, ''STRUCTURED_REASON_INCORRECT_OTP'')),
     (''invalid_otp'', (FailureCategory.CUSTOMER_AUTHENTICATION, ''STRUCTURED_REASON_INVALID_OTP'')),
     (''otp_expired'', (FailureCategory.CUSTOMER_AUTHENTICATION, ''STRUCTURED_REASON_OTP_EXPIRED'')),
     (''otp_attempts_exceeded'', (FailureCategory.CUSTOMER_AUTHENTICATION, ''STRUCTURED_REASON_OTP_ATTEMPTS_EXCEEDED'')),
     (''insufficient_funds'', (FailureCategory.CUSTOMER_FUNDS, ''STRUCTURED_REASON_INSUFFICIENT_FUNDS'')),
     (''payment_cancelled'', (FailureCategory.CUSTOMER_INTERRUPTION, ''STRUCTURED_REASON_PAYMENT_CANCELLED'')),
     (''payment_timed_out'', (FailureCategory.CUSTOMER_INTERRUPTION, ''STRUCTURED_REASON_PAYMENT_TIMED_OUT'')),
     (''payment_collect_request_expired'', (FailureCategory.CUSTOMER_INTERRUPTION, ''STRUCTURED_REASON_COLLECT_REQUEST_EXPIRED'')),
     (''transaction_limit_exceeded'', (FailureCategory.CUSTOMER_OR_INSTRUMENT_RESTRICTION, ''STRUCTURED_REASON_TRANSACTION_LIMIT_EXCEEDED'')),
     (''transaction_daily_limit_exceeded'', (FailureCategory.CUSTOMER_OR_INSTRUMENT_RESTRICTION, ''STRUCTURED_REASON_DAILY_LIMIT_EXCEEDED'')),
     (''transaction_frequency_limit_exceeded'', (FailureCategory.CUSTOMER_OR_INSTRUMENT_RESTRICTION, ''STRUCTURED_REASON_FREQUENCY_LIMIT_EXCEEDED'')),
     (''international_transaction_not_allowed'', (FailureCategory.CUSTOMER_OR_INSTRUMENT_RESTRICTION, ''STRUCTURED_REASON_INTERNATIONAL_NOT_ALLOWED'')),
     (''card_not_enrolled'', (FailureCategory.CUSTOMER_OR_INSTRUMENT_RESTRICTION, ''STRUCTURED_REASON_CARD_NOT_ENROLLED'')),
     (''invalid_vpa'', (FailureCategory.CUSTOMER_OR_INSTRUMENT_RESTRICTION, ''STRUCTURED_REASON_INVALID_VPA'')),
     (''user_not_registered_for_netbanking'', (FailureCategory.CUSTOMER_OR_INSTRUMENT_RESTRICTION, ''STRUCTURED_REASON_NETBANKING_NOT_REGISTERED'')),
     (''transaction_on_vpa_restricted'', (FailureCategory.CUSTOMER_OR_INSTRUMENT_RESTRICTION, ''STRUCTURED_REASON_VPA_RESTRICTED'')),
     (''user_not_eligible'', (FailureCategory.CUSTOMER_OR_INSTRUMENT_RESTRICTION, ''STRUCTURED_REASON_USER_NOT_ELIGIBLE'')),
     (''bank_technical_error'', (FailureCategory.BANK_OR_ISSUER, ''STRUCTURED_REASON_BANK_TECHNICAL_ERROR'')),
     (''gateway_technical_error'', (FailureCategory.GATEWAY_OR_NETWORK, ''STRUCTURED_REASON_GATEWAY_TECHNICAL_ERROR'')),
     (''upi_app_technical_error'', (FailureCategory.GATEWAY_OR_NETWORK, ''STRUCTURED_REASON_UPI_APP_TECHNICAL_ERROR'')),
     (''verification_failed'', (FailureCategory.GATEWAY_OR_NETWORK, ''STRUCTURED_REASON_VERIFICATION_FAILED''))]"

definition source_rules :: "(string \<times> FailureCategory \<times> string) list" where
  "source_rules =
    [(''customer'', (FailureCategory.UNKNOWN, ''UNMAPPED_CUSTOMER_SOURCE'')),
     (''customer_psp'', (FailureCategory.UNKNOWN, ''UNMAPPED_CUSTOMER_SOURCE'')),
     (''issuer_bank'', (FailureCategory.BANK_OR_ISSUER, ''STRUCTURED_SOURCE_ISSUER_BANK'')),
     (''beneficiary_bank'', (FailureCategory.BANK_OR_ISSUER, ''STRUCTURED_SOURCE_BENEFICIARY_BANK'')),
     (''bank'', (FailureCategory.BANK_OR_ISSUER, ''STRUCTURED_SOURCE_BANK'')),
     (''gateway'', (FailureCategory.GATEWAY_OR_NETWORK, ''STRUCTURED_SOURCE_GATEWAY'')),
     (''network'', (FailureCategory.GATEWAY_OR_NETWORK, ''STRUCTURED_SOURCE_NETWORK'')),
     (''business'', (FailureCategory.MERCHANT_CONFIGURATION, ''STRUCTURED_SOURCE_BUSINESS'')),
     (''razorpay'', (FailureCategory.RAZORPAY_OR_PLATFORM, ''STRUCTURED_SOURCE_RAZORPAY'')),
     (''internal'', (FailureCategory.RAZORPAY_OR_PLATFORM, ''STRUCTURED_SOURCE_INTERNAL''))]"

definition step_rules :: "(string \<times> FailureCategory \<times> string) list" where
  "step_rules =
    [(''payment_authentication'', (FailureCategory.CUSTOMER_AUTHENTICATION, ''STRUCTURED_STEP_PAYMENT_AUTHENTICATION''))]"

fun disposition_of :: "FailureCategory \<Rightarrow> RecoveryDisposition" where
  "disposition_of FailureCategory.CUSTOMER_AUTHENTICATION = RecoveryDisposition.CUSTOMER_ACTION_REQUIRED"
| "disposition_of FailureCategory.CUSTOMER_FUNDS = RecoveryDisposition.CUSTOMER_ACTION_REQUIRED"
| "disposition_of FailureCategory.CUSTOMER_INTERRUPTION = RecoveryDisposition.CUSTOMER_ACTION_REQUIRED"
| "disposition_of FailureCategory.CUSTOMER_OR_INSTRUMENT_RESTRICTION = RecoveryDisposition.ALTERNATE_METHOD_PREFERRED"
| "disposition_of FailureCategory.BANK_OR_ISSUER = RecoveryDisposition.RETRY_LATER"
| "disposition_of FailureCategory.GATEWAY_OR_NETWORK = RecoveryDisposition.RETRY_LATER"
| "disposition_of FailureCategory.MERCHANT_CONFIGURATION = RecoveryDisposition.MERCHANT_FIX_REQUIRED"
| "disposition_of FailureCategory.RAZORPAY_OR_PLATFORM = RecoveryDisposition.RETRY_LATER"
| "disposition_of FailureCategory.SUBSCRIPTION_RETRY_EXHAUSTED = RecoveryDisposition.RECOVERY_STRATEGY_REQUIRED"
| "disposition_of FailureCategory.UNKNOWN = RecoveryDisposition.MANUAL_REVIEW"

record failure_diagnosis =
  dg_failure_category :: FailureCategory
  dg_recovery_disposition :: RecoveryDisposition
  dg_diagnosis_reason_code :: string
  dg_evidence :: "(string \<times> string option) list"

definition diagnosis_of :: "FailureCategory \<Rightarrow> string \<Rightarrow> (string \<times> string option) list \<Rightarrow> failure_diagnosis" where
  "diagnosis_of category reason_code evidence =
     \<lparr>dg_failure_category = category, dg_recovery_disposition = disposition_of category,
      dg_diagnosis_reason_code = reason_code, dg_evidence = evidence\<rparr>"

definition failure_evidence :: "payment_case \<Rightarrow> (string \<times> string option) list" where
  "failure_evidence c =
     [(''error_code'', normalized (pc_error_code c)),
      (''error_reason'', normalized (pc_error_reason c)),
      (''error_source'', normalized (pc_error_source c)),
      (''error_step'', normalized (pc_error_step c)),
      (''payment_method'', normalized (pc_razorpay_payment_method c))]"

text \<open>A table lookup on a value that may be absent.\<close>

definition rule_for :: "(string \<times> 'a) list \<Rightarrow> string option \<Rightarrow> 'a option" where
  "rule_for rules key = (case key of None \<Rightarrow> None | Some k \<Rightarrow> map_of rules k)"

definition classify_failure :: "payment_case \<Rightarrow> failure_diagnosis" where
  "classify_failure c =
    (let evidence = failure_evidence c in
     if normalized (pc_razorpay_subscription_status c) = Some ''halted'' then
       diagnosis_of FailureCategory.SUBSCRIPTION_RETRY_EXHAUSTED
         ''SUBSCRIPTION_AUTOMATIC_RETRIES_EXHAUSTED'' evidence
     else case rule_for reason_rules (normalized (pc_error_reason c)) of
       Some (category, reason_code) \<Rightarrow> diagnosis_of category reason_code evidence
     | None \<Rightarrow>
       (case rule_for source_rules (normalized (pc_error_source c)) of
          Some (category, reason_code) \<Rightarrow> diagnosis_of category reason_code evidence
        | None \<Rightarrow>
          (case rule_for step_rules (normalized (pc_error_step c)) of
             Some (category, reason_code) \<Rightarrow> diagnosis_of category reason_code evidence
           | None \<Rightarrow> diagnosis_of FailureCategory.UNKNOWN ''PAYMENT_FAILURE_UNCLASSIFIED'' evidence)))"

section \<open>Facts\<close>

lemma diagnosis_of_sel [simp]:
  "dg_failure_category (diagnosis_of k r e) = k" "dg_recovery_disposition (diagnosis_of k r e) = disposition_of k"
  "dg_diagnosis_reason_code (diagnosis_of k r e) = r" "dg_evidence (diagnosis_of k r e) = e"
  by (simp_all add: diagnosis_of_def)

lemma classify_evidence [simp]: "dg_evidence (classify_failure c) = failure_evidence c"
  by (simp add: classify_failure_def Let_def split: option.split)

lemma classify_disposition [simp]:
  "dg_recovery_disposition (classify_failure c) = disposition_of (dg_failure_category (classify_failure c))"
  by (simp add: classify_failure_def Let_def split: option.split)

lemma classify_failure_cong:
  assumes "pc_razorpay_subscription_status d = pc_razorpay_subscription_status c"
    "pc_error_code d = pc_error_code c" "pc_error_reason d = pc_error_reason c"
    "pc_error_source d = pc_error_source c" "pc_error_step d = pc_error_step c"
    "pc_razorpay_payment_method d = pc_razorpay_payment_method c"
  shows "classify_failure d = classify_failure c"
  unfolding classify_failure_def failure_evidence_def assms ..

lemma reason_rules_known: "(k, cat, r) \<in> set reason_rules \<Longrightarrow> cat \<noteq> FailureCategory.UNKNOWN \<and>
    cat \<noteq> FailureCategory.SUBSCRIPTION_RETRY_EXHAUSTED"
  by (auto simp: reason_rules_def)

lemma rule_for_Some: "rule_for rules key = Some v \<Longrightarrow> \<exists>k. key = Some k \<and> (k, v) \<in> set rules"
  by (auto simp: rule_for_def split: option.splits dest: map_of_SomeD)

section \<open>Properties\<close>

text \<open>
  The strongest evidence decides: a halted subscription before every reason, a known reason
  before the source, a known source before the step; the description is never read. The
  disposition is a function of the category alone.
\<close>

lemma diagnosis_precedence:
  "(dg_failure_category (classify_failure c), dg_diagnosis_reason_code (classify_failure c)) =
     hd ((if normalized (pc_razorpay_subscription_status c) = Some ''halted''
          then [(FailureCategory.SUBSCRIPTION_RETRY_EXHAUSTED, ''SUBSCRIPTION_AUTOMATIC_RETRIES_EXHAUSTED'')]
          else []) @
         [v. (k, v) \<leftarrow> reason_rules, Some k = normalized (pc_error_reason c)] @
         [v. (k, v) \<leftarrow> source_rules, Some k = normalized (pc_error_source c)] @
         [v. (k, v) \<leftarrow> step_rules, Some k = normalized (pc_error_step c)] @
         [(FailureCategory.UNKNOWN, ''PAYMENT_FAILURE_UNCLASSIFIED'')]) \<and>
   dg_recovery_disposition (classify_failure c) = disposition_of (dg_failure_category (classify_failure c)) \<and>
   classify_failure (c\<lparr>pc_error_description := d\<rparr>) = classify_failure c"
proof -
  define ms where "ms rules key = [v. (k, v) \<leftarrow> rules, Some k = key]"
    for rules :: "(string \<times> FailureCategory \<times> string) list" and key
  have look: "rule_for rules key = (case ms rules key of [] \<Rightarrow> None | v # vs \<Rightarrow> Some v)" for rules key
    unfolding ms_def by (cases key; induction rules) (auto simp: rule_for_def case_prod_beta)
  have same: "classify_failure (c\<lparr>pc_error_description := d\<rparr>) = classify_failure c"
    by (simp add: classify_failure_def failure_evidence_def Let_def cong: if_cong option.case_cong)
  show ?thesis
    unfolding ms_def [symmetric]
    using same
    by (cases "ms reason_rules (normalized (pc_error_reason c))";
        cases "ms source_rules (normalized (pc_error_source c))";
        cases "ms step_rules (normalized (pc_error_step c))")
      (simp_all add: classify_failure_def Let_def look case_prod_beta)
qed

text \<open>
  The diagnosis is a function of the hashed assessment inputs: two cases with one assessment
  fingerprint get the same category, disposition and reason code, so a proposal that carries the
  fingerprint carries the diagnosis.
\<close>

lemma diagnosis_bound_by_fingerprint:
  assumes "build_assessment_fingerprint sha c = build_assessment_fingerprint sha d"
    and "no_collision sha (json_dumps True (assessment_facts c)) (json_dumps True (assessment_facts d))"
  shows "dg_failure_category (classify_failure c) = dg_failure_category (classify_failure d) \<and>
    dg_recovery_disposition (classify_failure c) = dg_recovery_disposition (classify_failure d) \<and>
    dg_diagnosis_reason_code (classify_failure c) = dg_diagnosis_reason_code (classify_failure d)"
proof -
  note b = assessment_fp.binds [of sha c d, OF assms(1) [unfolded build_assessment_fingerprint_def] assms(2)]
  have "normalized (pc_razorpay_subscription_status c) = normalized (pc_razorpay_subscription_status d)"
    "normalized (pc_error_reason c) = normalized (pc_error_reason d)"
    "normalized (pc_error_source c) = normalized (pc_error_source d)"
    "normalized (pc_error_step c) = normalized (pc_error_step d)"
    using b [of "''razorpay_subscription_status''"] b [of "''error_reason''"] b [of "''error_source''"]
      b [of "''error_step''"] by (simp_all add: json_field_def assessment_facts_def)
  then show ?thesis by (simp add: classify_failure_def Let_def diagnosis_of_def split: option.split)
qed

end
