(* ===== verification/Arc_Policy.thy ===== *)
theory Arc_Policy
  imports Arc_Diagnosis
begin

text \<open>
  Merchant policy: the strict validation of a persisted policy row (\<open>arc/policy/schemas.py\<close>) and
  the pure authorization rules with their precedence (\<open>arc/policy/authorization.py\<close>).
\<close>

section \<open>Policy validation\<close>

record policy_configuration =
  cf_automation_enabled :: bool
  cf_allowed_actions :: "RecoveryAction set"
  cf_max_automated_attempts :: int
  cf_max_contact_attempts :: int
  cf_recovery_window_minutes :: int
  cf_high_value_threshold_minor :: int
  cf_require_approval_above_minor :: "int option"
  cf_blocked_failure_categories :: "FailureCategory set"
  cf_blocked_payment_methods :: "string set"
  cf_require_approval_actions :: "RecoveryAction set"

record stopping_rules =
  sr_blocked_failure_categories :: "FailureCategory list"
  sr_blocked_payment_methods :: "string list"
  sr_require_approval_actions :: "RecoveryAction list"

text \<open>The before-validator: a value that is present must be a JSON array.\<close>

definition require_json_list :: "json \<Rightarrow> arc_error + json list" where
  "require_json_list value = (case value of JArr vs \<Rightarrow> Inr vs
     | _ \<Rightarrow> Inl (PyValueError ''Stopping-rule values must be JSON arrays''))"

text \<open>
  One model field: its default, an empty list, when the key is absent, otherwise the array with
  every element validated.
\<close>

definition stopping_field :: "(json \<Rightarrow> arc_error + 'a) \<Rightarrow> string \<Rightarrow> json_dict \<Rightarrow> arc_error + 'a list" where
  "stopping_field element name d = (case map_of d name of None \<Rightarrow> Inr []
     | Some value \<Rightarrow> sbind (require_json_list value) (smap element))"

definition member_element :: "(string \<Rightarrow> 'a option) \<Rightarrow> json \<Rightarrow> arc_error + 'a" where
  "member_element of_value v = (case v of
       JStr s \<Rightarrow> (case of_value s of Some m \<Rightarrow> Inr m | None \<Rightarrow> Inl (PyValueError ''not an enumeration member''))
     | _ \<Rightarrow> Inl (PyValueError ''not an enumeration member''))"

definition normalize_payment_method :: "json \<Rightarrow> arc_error + string" where
  "normalize_payment_method v = (case v of
       JStr s \<Rightarrow> if py_strip s = [] then Inl (PyValueError ''Payment methods must be non-empty strings'')
         else Inr (py_lower (py_strip s))
     | _ \<Rightarrow> Inl (PyValueError ''Input should be a valid string''))"

definition stopping_rules_model_validate :: "json_dict \<Rightarrow> arc_error + stopping_rules" where
  "stopping_rules_model_validate d =
    (if \<not> fst ` set d \<subseteq> {''blocked_failure_categories'', ''blocked_payment_methods'', ''require_approval_actions''}
     then Inl (PyValueError ''Extra inputs are not permitted'')
     else sbind (stopping_field (member_element failure_category_of_value) ''blocked_failure_categories'' d) (\<lambda>cats.
       sbind (stopping_field normalize_payment_method ''blocked_payment_methods'' d) (\<lambda>methods.
       sbind (stopping_field (member_element action_of_value) ''require_approval_actions'' d) (\<lambda>acts.
         Inr \<lparr>sr_blocked_failure_categories = cats, sr_blocked_payment_methods = methods,
              sr_require_approval_actions = acts\<rparr>))))"

definition limit_of :: "json \<Rightarrow> int option" where
  "limit_of v = (case v of JInt n \<Rightarrow> if n < 0 then None else Some n | _ \<Rightarrow> None)"

text \<open>
  \<open>validate_allowed\<close> is the comprehension over the string elements together with the comparison
  of lengths after it: an element that is not a string is either unhashable, which raises, or
  makes the set of values longer than the set of actions, which raises too.
\<close>

definition is_str :: "json \<Rightarrow> bool" where
  "is_str v = (case v of JStr s \<Rightarrow> True | _ \<Rightarrow> False)"

definition validate_allowed :: "json list \<Rightarrow> arc_error + RecoveryAction set" where
  "validate_allowed vs =
     sbind (smap (member_element action_of_value) [v \<leftarrow> vs. is_str v])
       (\<lambda>acts. if \<not> list_all is_str vs
          then Inl (PyValueError ''allowed_actions contains malformed values'') else Inr (set acts))"

definition validate_policy :: "merchant_policy \<Rightarrow> arc_error + policy_configuration" where
  "validate_policy p =
    (case mp_allowed_actions p of JArr actions \<Rightarrow>
      (case mp_stopping_rules p of JObj rules \<Rightarrow>
        (case mp_automation_enabled p of JBool automation \<Rightarrow>
          (case (limit_of (mp_max_automated_attempts p), limit_of (mp_max_contact_attempts p),
                 limit_of (mp_recovery_window_minutes p), limit_of (mp_high_value_threshold_minor p)) of
             (Some attempts, Some contacts, Some window, Some high_value) \<Rightarrow>
               if mp_require_approval_above_minor p \<noteq> JNull \<and> limit_of (mp_require_approval_above_minor p) = None
               then Inl (PolicyConfigurationError ''Approval threshold is invalid'')
               else (case sbind (validate_allowed actions) (\<lambda>allowed.
                       sbind (stopping_rules_model_validate rules) (\<lambda>sr. Inr (allowed, sr))) of
                   Inl error \<Rightarrow> Inl (PolicyConfigurationError ''Merchant policy configuration is invalid'')
                 | Inr (allowed, sr) \<Rightarrow>
                     Inr \<lparr>cf_automation_enabled = automation, cf_allowed_actions = allowed,
                       cf_max_automated_attempts = attempts, cf_max_contact_attempts = contacts,
                       cf_recovery_window_minutes = window, cf_high_value_threshold_minor = high_value,
                       cf_require_approval_above_minor = limit_of (mp_require_approval_above_minor p),
                       cf_blocked_failure_categories = set (sr_blocked_failure_categories sr),
                       cf_blocked_payment_methods = set (sr_blocked_payment_methods sr),
                       cf_require_approval_actions = set (sr_require_approval_actions sr)\<rparr>)
           | _ \<Rightarrow> Inl (PolicyConfigurationError ''Policy numeric limits are invalid''))
         | _ \<Rightarrow> Inl (PolicyConfigurationError ''automation_enabled must be boolean''))
       | _ \<Rightarrow> Inl (PolicyConfigurationError ''stopping_rules must be a JSON object''))
     | _ \<Rightarrow> Inl (PolicyConfigurationError ''allowed_actions must be a JSON array''))"

section \<open>Authorization rules\<close>

definition SAFE_INTERNAL_ACTIONS :: "RecoveryAction set" where
  "SAFE_INTERNAL_ACTIONS = {RecoveryAction.NO_ACTION, RecoveryAction.WAIT, RecoveryAction.ESCALATE_TO_HUMAN}"

definition AUTOMATED_RECOVERY_ACTIONS :: "RecoveryAction set" where
  "AUTOMATED_RECOVERY_ACTIONS =
     {RecoveryAction.REQUEST_RETRY, RecoveryAction.CREATE_RECOVERY_LINK, RecoveryAction.REQUEST_PAYMENT_METHOD_UPDATE}"

definition CUSTOMER_CONTACT_ACTIONS :: "RecoveryAction set" where
  "CUSTOMER_CONTACT_ACTIONS = {RecoveryAction.CREATE_RECOVERY_LINK, RecoveryAction.REQUEST_PAYMENT_METHOD_UPDATE}"

record authorization_facts =
  af_action :: RecoveryAction
  af_amount_minor :: "int option"
  af_attempt_count :: int
  af_contact_attempt_count :: int
  af_detected_at :: py_datetime
  af_failure_category :: "FailureCategory option"
  af_payment_method :: "string option"
  af_evaluated_at :: py_datetime

record authorization_evaluation =
  av_result :: PolicyDecisionResult
  av_reason_code :: string
  av_explanation :: string
  av_recovery_window_ends_at :: "py_datetime option"
  av_recovery_window_expired :: "bool option"
  av_approval_threshold_minor :: "int option"
  av_high_value_threshold_minor :: "int option"
  av_observed_high_value :: "bool option"

definition auth_result ::
  "PolicyDecisionResult \<Rightarrow> string \<Rightarrow> string \<Rightarrow> py_datetime option \<Rightarrow> bool option \<Rightarrow>
     policy_configuration option \<Rightarrow> int option \<Rightarrow> authorization_evaluation" where
  "auth_result result reason_code explanation ends_at expired configuration amount_minor =
    (let high_value_threshold = map_option cf_high_value_threshold_minor configuration in
     \<lparr>av_result = result, av_reason_code = reason_code, av_explanation = explanation,
      av_recovery_window_ends_at = ends_at, av_recovery_window_expired = expired,
      av_approval_threshold_minor = (case configuration of None \<Rightarrow> None
        | Some c \<Rightarrow> cf_require_approval_above_minor c),
      av_high_value_threshold_minor = high_value_threshold,
      av_observed_high_value = (case (amount_minor, high_value_threshold) of
        (Some a, Some h) \<Rightarrow> Some (h \<le> a) | _ \<Rightarrow> None)\<rparr>)"

fun safe_internal_reason :: "RecoveryAction \<Rightarrow> string" where
  "safe_internal_reason RecoveryAction.NO_ACTION = ''SAFE_INTERNAL_NO_ACTION''"
| "safe_internal_reason RecoveryAction.WAIT = ''SAFE_INTERNAL_WAIT''"
| "safe_internal_reason RecoveryAction.ESCALATE_TO_HUMAN = ''SAFE_INTERNAL_HUMAN_ESCALATION''"
| "safe_internal_reason _ = []"

definition normalized_method :: "string option \<Rightarrow> string option" where
  "normalized_method m = map_option (\<lambda>s. py_lower (py_strip s)) m"

definition opt_in :: "'a option \<Rightarrow> 'a set \<Rightarrow> bool" where
  "opt_in v S = (case v of None \<Rightarrow> False | Some x \<Rightarrow> x \<in> S)"

definition evaluate_authorization ::
  "authorization_facts \<Rightarrow> bool \<Rightarrow> policy_configuration option \<Rightarrow> authorization_evaluation" where
  "evaluate_authorization f policy_present configuration =
    (let amount = af_amount_minor f; action = af_action f in
     if action \<in> SAFE_INTERNAL_ACTIONS then
       auth_result PolicyDecisionResult.AUTHORIZED (safe_internal_reason action)
         ''The proposal is an internal safety-preserving action.'' None None None amount
     else if action \<notin> AUTOMATED_RECOVERY_ACTIONS then
       auth_result PolicyDecisionResult.BLOCKED ''POLICY_CONFIGURATION_INVALID''
         ''The proposal is not a recognized policy-controlled action.'' None None None amount
     else if \<not> policy_present then
       auth_result PolicyDecisionResult.BLOCKED ''POLICY_NOT_CONFIGURED''
         ''No merchant policy is configured for external recovery.'' None None None amount
     else case configuration of
       None \<Rightarrow> auth_result PolicyDecisionResult.BLOCKED ''POLICY_CONFIGURATION_INVALID''
         ''Merchant policy configuration failed strict validation.'' None None None amount
     | Some c \<Rightarrow>
       if action \<notin> cf_allowed_actions c then
         auth_result PolicyDecisionResult.BLOCKED ''ACTION_NOT_ALLOWED_BY_POLICY''
           ''The proposed action is not in the merchant allowlist.'' None None configuration amount
       else if opt_in (af_failure_category f) (cf_blocked_failure_categories c) then
         auth_result PolicyDecisionResult.BLOCKED ''STOPPING_RULE_FAILURE_CATEGORY''
           ''A hard stopping rule blocks this failure category.'' None None configuration amount
       else if opt_in (normalized_method (af_payment_method f)) (cf_blocked_payment_methods c) then
         auth_result PolicyDecisionResult.BLOCKED ''STOPPING_RULE_PAYMENT_METHOD''
           ''A hard stopping rule blocks this payment method.'' None None configuration amount
       else if cf_recovery_window_minutes c \<le> 0 then
         auth_result PolicyDecisionResult.BLOCKED ''RECOVERY_WINDOW_NOT_CONFIGURED''
           ''A positive recovery window is required for external recovery.'' None None configuration amount
       else
         (let ends_at = dt_add (af_detected_at f) (minutes (cf_recovery_window_minutes c)) in
          if dt_less ends_at (af_evaluated_at f) then
            auth_result PolicyDecisionResult.BLOCKED ''RECOVERY_WINDOW_EXPIRED''
              ''The merchant recovery window has expired.'' (Some ends_at) (Some True) configuration amount
          else if cf_max_automated_attempts c \<le> af_attempt_count f then
            auth_result PolicyDecisionResult.BLOCKED ''MAX_AUTOMATED_ATTEMPTS_REACHED''
              ''The automated recovery-attempt limit has been reached.''
              (Some ends_at) (Some False) configuration amount
          else if action \<in> CUSTOMER_CONTACT_ACTIONS \<and> cf_max_contact_attempts c \<le> af_contact_attempt_count f then
            auth_result PolicyDecisionResult.BLOCKED ''MAX_CUSTOMER_CONTACTS_REACHED''
              ''The customer-contact limit has been reached.'' (Some ends_at) (Some False) configuration amount
          else case amount of
            None \<Rightarrow> auth_result PolicyDecisionResult.BLOCKED ''POLICY_AMOUNT_CONTEXT_MISSING''
              ''Amount context is required for external recovery policy.''
              (Some ends_at) (Some False) configuration None
          | Some amount_minor \<Rightarrow>
            if action \<in> cf_require_approval_actions c then
              auth_result PolicyDecisionResult.REQUIRES_APPROVAL ''STOPPING_RULE_REQUIRES_APPROVAL''
                ''Merchant policy requires approval for this action.''
                (Some ends_at) (Some False) configuration amount
            else if (case cf_require_approval_above_minor c of None \<Rightarrow> False | Some threshold \<Rightarrow> threshold \<le> amount_minor) then
              auth_result PolicyDecisionResult.REQUIRES_APPROVAL ''AMOUNT_REQUIRES_HUMAN_APPROVAL''
                ''The case amount meets the merchant approval threshold.''
                (Some ends_at) (Some False) configuration amount
            else if \<not> cf_automation_enabled c then
              auth_result PolicyDecisionResult.REQUIRES_APPROVAL ''AUTOMATION_DISABLED_REQUIRES_APPROVAL''
                ''Merchant automation is disabled, so human approval is required.''
                (Some ends_at) (Some False) configuration amount
            else
              auth_result PolicyDecisionResult.AUTHORIZED ''POLICY_AUTHORIZED''
                ''The proposal satisfies all deterministic merchant policy controls.''
                (Some ends_at) (Some False) configuration amount))"

definition is_execution_authorized :: "policy_decision \<Rightarrow> bool" where
  "is_execution_authorized d \<longleftrightarrow> pd_result d = PolicyDecisionResult.AUTHORIZED \<and> pd_superseded_at d = None"

section \<open>Facts\<close>

lemma auth_result_sel [simp]:
  "av_result (auth_result r rc x en ex cf am) = r" "av_reason_code (auth_result r rc x en ex cf am) = rc"
  "av_explanation (auth_result r rc x en ex cf am) = x"
  "av_recovery_window_ends_at (auth_result r rc x en ex cf am) = en"
  "av_recovery_window_expired (auth_result r rc x en ex cf am) = ex"
  by (simp_all add: auth_result_def Let_def)

lemma auth_result_thresholds:
  "av_approval_threshold_minor (auth_result r rc x en ex cf am) =
     (case cf of None \<Rightarrow> None | Some c \<Rightarrow> cf_require_approval_above_minor c)"
  "av_high_value_threshold_minor (auth_result r rc x en ex cf am) = map_option cf_high_value_threshold_minor cf"
  by (simp_all add: auth_result_def Let_def)

lemma action_classes: "a \<notin> SAFE_INTERNAL_ACTIONS \<longleftrightarrow> a \<in> AUTOMATED_RECOVERY_ACTIONS"
  by (cases a) (simp_all add: SAFE_INTERNAL_ACTIONS_def AUTOMATED_RECOVERY_ACTIONS_def)

lemma contact_actions_automated: "a \<in> CUSTOMER_CONTACT_ACTIONS \<Longrightarrow> a \<notin> SAFE_INTERNAL_ACTIONS"
  by (auto simp: CUSTOMER_CONTACT_ACTIONS_def SAFE_INTERNAL_ACTIONS_def)

text \<open>The guards that no approval can lift, and those that ask for one.\<close>

definition hard_guards_pass :: "authorization_facts \<Rightarrow> policy_configuration \<Rightarrow> bool" where
  "hard_guards_pass f c \<longleftrightarrow>
     af_action f \<in> cf_allowed_actions c \<and>
     \<not> opt_in (af_failure_category f) (cf_blocked_failure_categories c) \<and>
     \<not> opt_in (normalized_method (af_payment_method f)) (cf_blocked_payment_methods c) \<and>
     0 < cf_recovery_window_minutes c \<and>
     dt_us (af_evaluated_at f) \<le> dt_us (af_detected_at f) + minutes (cf_recovery_window_minutes c) \<and>
     af_attempt_count f < cf_max_automated_attempts c \<and>
     (af_action f \<in> CUSTOMER_CONTACT_ACTIONS \<longrightarrow> af_contact_attempt_count f < cf_max_contact_attempts c) \<and>
     af_amount_minor f \<noteq> None"

definition approval_guards_pass :: "authorization_facts \<Rightarrow> policy_configuration \<Rightarrow> bool" where
  "approval_guards_pass f c \<longleftrightarrow> cf_automation_enabled c \<and> af_action f \<notin> cf_require_approval_actions c \<and>
     (case (cf_require_approval_above_minor c, af_amount_minor f) of
        (Some t, Some a) \<Rightarrow> a < t | _ \<Rightarrow> True)"

lemma evaluate_result:
  assumes "af_action f \<in> AUTOMATED_RECOVERY_ACTIONS"
  shows "av_result (evaluate_authorization f True (Some c)) =
    (if \<not> hard_guards_pass f c then PolicyDecisionResult.BLOCKED
     else if approval_guards_pass f c then PolicyDecisionResult.AUTHORIZED
     else PolicyDecisionResult.REQUIRES_APPROVAL)"
proof -
  have auto: "af_action f \<notin> SAFE_INTERNAL_ACTIONS" using assms by (simp add: action_classes)
  show ?thesis
    using assms auto
    by (cases "af_amount_minor f"; cases "cf_require_approval_above_minor c")
      (simp_all add: evaluate_authorization_def Let_def hard_guards_pass_def approval_guards_pass_def dt_less_def
        not_le not_less)
qed

lemma evaluate_no_policy:
  assumes "af_action f \<in> AUTOMATED_RECOVERY_ACTIONS" "\<not> present \<or> cf = None"
  shows "av_result (evaluate_authorization f present cf) = PolicyDecisionResult.BLOCKED"
  using assms by (auto simp: evaluate_authorization_def Let_def action_classes [symmetric])

lemma evaluate_internal:
  assumes "af_action f \<in> SAFE_INTERNAL_ACTIONS"
  shows "av_result (evaluate_authorization f present cf) = PolicyDecisionResult.AUTHORIZED"
    "av_recovery_window_ends_at (evaluate_authorization f present cf) = None"
    "av_recovery_window_expired (evaluate_authorization f present cf) = None"
  using assms by (simp_all add: evaluate_authorization_def Let_def)

lemma evaluate_permitted_window:
  assumes "av_result (evaluate_authorization f present cf) \<noteq> PolicyDecisionResult.BLOCKED"
    "af_action f \<in> AUTOMATED_RECOVERY_ACTIONS"
  obtains c where "cf = Some c" "present" "hard_guards_pass f c"
    "av_recovery_window_ends_at (evaluate_authorization f present cf) =
       Some (dt_add (af_detected_at f) (minutes (cf_recovery_window_minutes c)))"
    "av_recovery_window_expired (evaluate_authorization f present cf) = Some False"
proof -
  obtain c where c: "cf = Some c" "present" using assms evaluate_no_policy by (cases cf) blast+
  with assms evaluate_result [OF assms(2), of c] have hard: "hard_guards_pass f c" by (simp split: if_splits)
  have auto: "af_action f \<notin> SAFE_INTERNAL_ACTIONS" using assms(2) by (simp add: action_classes)
  obtain a where a: "af_amount_minor f = Some a" using hard by (auto simp: hard_guards_pass_def)
  have "av_recovery_window_ends_at (evaluate_authorization f present cf) =
       Some (dt_add (af_detected_at f) (minutes (cf_recovery_window_minutes c)))"
    "av_recovery_window_expired (evaluate_authorization f present cf) = Some False"
    using hard c auto assms(2) a
    by (simp_all add: evaluate_authorization_def Let_def hard_guards_pass_def dt_less_def)
  with c hard that show thesis by blast
qed

lemma member_of_value [simp]:
  "action_of_value (action_value a) = Some a" "failure_category_of_value (failure_category_value k) = Some k"
  by (simp_all add: action_of_value_iff failure_category_of_value_iff)

lemma member_element_Inr_iff:
  "member_element action_of_value v = Inr a \<longleftrightarrow> v = JStr (action_value a)"
  "member_element failure_category_of_value v = Inr k \<longleftrightarrow> v = JStr (failure_category_value k)"
  by (auto simp: member_element_def action_of_value_iff failure_category_of_value_iff
      split: json.splits option.splits)

lemma normalize_payment_method_InrD:
  "normalize_payment_method v = Inr m \<Longrightarrow> m \<noteq> [] \<and> py_lower (py_strip m) = m"
  by (auto simp: normalize_payment_method_def py_strip_lower split: json.splits if_splits)

lemma normalize_payment_method_fixed:
  "m \<noteq> [] \<Longrightarrow> py_lower (py_strip m) = m \<Longrightarrow> normalize_payment_method (JStr m) = Inr m"
  by (auto simp: normalize_payment_method_def)

lemma limit_of_nonneg: "limit_of v = Some n \<Longrightarrow> 0 \<le> n \<and> v = JInt n"
  by (auto simp: limit_of_def split: json.splits if_splits)

lemma validate_allowed_Inr:
  assumes "validate_allowed vs = Inr acts"
  shows "set vs = JStr ` action_value ` acts"
proof -
  from assms obtain as where as: "smap (member_element action_of_value) [v \<leftarrow> vs. is_str v] = Inr as"
    "list_all is_str vs" "acts = set as"
    by (auto simp: validate_allowed_def sbind_eq_Inr_iff split: if_splits)
  then have "[v \<leftarrow> vs. is_str v] = vs" by (simp add: filter_id_conv list_all_iff)
  with as have "list_all2 (\<lambda>x y. x = JStr (action_value y)) vs as"
    by (simp add: smap_Inr_iff member_element_Inr_iff)
  then have "vs = map (\<lambda>a. JStr (action_value a)) as" by (induction rule: list_all2_induct) auto
  with as show ?thesis by (simp add: image_image)
qed

definition configuration_wf :: "policy_configuration \<Rightarrow> bool" where
  "configuration_wf c \<longleftrightarrow> 0 \<le> cf_max_automated_attempts c \<and> 0 \<le> cf_max_contact_attempts c \<and>
     0 \<le> cf_recovery_window_minutes c \<and> 0 \<le> cf_high_value_threshold_minor c \<and>
     opt_all (\<lambda>t. 0 \<le> t) (cf_require_approval_above_minor c) \<and>
     (\<forall>m \<in> cf_blocked_payment_methods c. m \<noteq> [] \<and> py_lower (py_strip m) = m)"

lemma stopping_field_Inr:
  assumes "stopping_field el name d = Inr ys" "y \<in> set ys"
  shows "\<exists>x. el x = Inr y"
proof (cases "map_of d name")
  case None
  with assms show ?thesis by (simp add: stopping_field_def)
next
  case (Some v)
  with assms(1) obtain vs where "smap el vs = Inr ys" by (auto simp: stopping_field_def)
  with assms(2) show ?thesis using smap_Inr_set by metis
qed

lemma stopping_methods_normal:
  assumes "stopping_rules_model_validate d = Inr sr" "m \<in> set (sr_blocked_payment_methods sr)"
  shows "m \<noteq> [] \<and> py_lower (py_strip m) = m"
proof -
  obtain ms where "stopping_field normalize_payment_method ''blocked_payment_methods'' d = Inr ms"
    "sr_blocked_payment_methods sr = ms"
    using assms(1) by (auto simp: stopping_rules_model_validate_def split: if_splits)
  with assms(2) show ?thesis by (auto dest: stopping_field_Inr normalize_payment_method_InrD)
qed

lemma validate_policy_InrE:
  assumes "validate_policy p = Inr c"
  obtains vs rules au n1 n2 n3 n4 allowed sr where
    "mp_allowed_actions p = JArr vs" "mp_stopping_rules p = JObj rules" "mp_automation_enabled p = JBool au"
    "limit_of (mp_max_automated_attempts p) = Some n1" "limit_of (mp_max_contact_attempts p) = Some n2"
    "limit_of (mp_recovery_window_minutes p) = Some n3" "limit_of (mp_high_value_threshold_minor p) = Some n4"
    "validate_allowed vs = Inr allowed" "stopping_rules_model_validate rules = Inr sr"
    "c = \<lparr>cf_automation_enabled = au, cf_allowed_actions = allowed,
       cf_max_automated_attempts = n1, cf_max_contact_attempts = n2, cf_recovery_window_minutes = n3,
       cf_high_value_threshold_minor = n4,
       cf_require_approval_above_minor = limit_of (mp_require_approval_above_minor p),
       cf_blocked_failure_categories = set (sr_blocked_failure_categories sr),
       cf_blocked_payment_methods = set (sr_blocked_payment_methods sr),
       cf_require_approval_actions = set (sr_require_approval_actions sr)\<rparr>"
  using assms unfolding validate_policy_def
  by (simp split: json.splits option.splits sum.splits if_splits) (auto simp: sbind_eq_Inr_iff)

lemma validate_policy_InrD:
  assumes "validate_policy p = Inr c"
  shows "configuration_wf c"
    "\<exists>vs. mp_allowed_actions p = JArr vs \<and> set vs = JStr ` action_value ` cf_allowed_actions c"
proof -
  show "configuration_wf c"
    using assms
  proof (rule validate_policy_InrE)
    fix vs rules au n1 n2 n3 n4 allowed sr
    assume n: "limit_of (mp_max_automated_attempts p) = Some n1" "limit_of (mp_max_contact_attempts p) = Some n2"
      "limit_of (mp_recovery_window_minutes p) = Some n3" "limit_of (mp_high_value_threshold_minor p) = Some n4"
      and sr: "stopping_rules_model_validate rules = Inr sr"
      and c: "c = \<lparr>cf_automation_enabled = au, cf_allowed_actions = allowed,
        cf_max_automated_attempts = n1, cf_max_contact_attempts = n2, cf_recovery_window_minutes = n3,
        cf_high_value_threshold_minor = n4,
        cf_require_approval_above_minor = limit_of (mp_require_approval_above_minor p),
        cf_blocked_failure_categories = set (sr_blocked_failure_categories sr),
        cf_blocked_payment_methods = set (sr_blocked_payment_methods sr),
        cf_require_approval_actions = set (sr_require_approval_actions sr)\<rparr>"
    have "opt_all (\<lambda>t. 0 \<le> t) (limit_of v)" for v
      using limit_of_nonneg [of v] by (cases "limit_of v") auto
    then show "configuration_wf c"
      using n [THEN limit_of_nonneg] stopping_methods_normal [OF sr] by (simp add: configuration_wf_def c)
  qed
  show "\<exists>vs. mp_allowed_actions p = JArr vs \<and> set vs = JStr ` action_value ` cf_allowed_actions c"
    using assms by (rule validate_policy_InrE) (simp add: validate_allowed_Inr)
qed

lemma validate_policy_Inl: "validate_policy p = Inl e \<Longrightarrow> \<exists>m. e = PolicyConfigurationError m"
  by (auto simp: validate_policy_def split: json.splits option.splits sum.splits if_splits)

section \<open>Sample configuration\<close>

definition sample_configuration :: policy_configuration where
  "sample_configuration = \<lparr>cf_automation_enabled = True,
     cf_allowed_actions = {RecoveryAction.CREATE_RECOVERY_LINK, RecoveryAction.REQUEST_RETRY},
     cf_max_automated_attempts = 3, cf_max_contact_attempts = 2, cf_recovery_window_minutes = 60,
     cf_high_value_threshold_minor = 100000, cf_require_approval_above_minor = Some 50000,
     cf_blocked_failure_categories = {FailureCategory.RAZORPAY_OR_PLATFORM},
     cf_blocked_payment_methods = {''upi''}, cf_require_approval_actions = {}\<rparr>"

definition sample_facts :: authorization_facts where
  "sample_facts = \<lparr>af_action = RecoveryAction.CREATE_RECOVERY_LINK, af_amount_minor = Some 5000,
     af_attempt_count = 0, af_contact_attempt_count = 0, af_detected_at = sample_time,
     af_failure_category = Some FailureCategory.CUSTOMER_AUTHENTICATION, af_payment_method = Some ''card'',
     af_evaluated_at = dt_add sample_time (seconds 60)\<rparr>"

section \<open>Properties\<close>

text \<open>
  C39. Validation fails closed. It raises \<open>PolicyConfigurationError\<close> and nothing else, and a
  configuration it returns is well formed: limits and threshold are not negative, blocked methods
  are non-empty and already stripped and lowered, and the allowlist is exactly the set of actions
  named in the row, every element of which names an action.
\<close>

theorem validate_policy_fails_closed:
  "case validate_policy p of
     Inl e \<Rightarrow> \<exists>m. e = PolicyConfigurationError m
   | Inr c \<Rightarrow> configuration_wf c \<and>
       (\<exists>vs. mp_allowed_actions p = JArr vs \<and> set vs = JStr ` action_value ` cf_allowed_actions c)"
  using validate_policy_InrD [of p] validate_policy_Inl [of p] by (simp split: sum.split)

text \<open>
  C38. Validation loses nothing: a well-formed configuration, written to a row as JSON, is what
  validating the row returns.
\<close>

definition policy_row_of ::
  "policy_configuration \<Rightarrow> RecoveryAction list \<Rightarrow> FailureCategory list \<Rightarrow> string list \<Rightarrow>
     RecoveryAction list \<Rightarrow> merchant_policy" where
  "policy_row_of c actions categories methods approvals =
     \<lparr>mp_id = 1, mp_merchant_id = ''m1'', mp_automation_enabled = JBool (cf_automation_enabled c),
      mp_allowed_actions = JArr (map (\<lambda>a. JStr (action_value a)) actions),
      mp_max_automated_attempts = JInt (cf_max_automated_attempts c),
      mp_max_contact_attempts = JInt (cf_max_contact_attempts c),
      mp_recovery_window_minutes = JInt (cf_recovery_window_minutes c),
      mp_high_value_threshold_minor = JInt (cf_high_value_threshold_minor c),
      mp_require_approval_above_minor = jopt JInt (cf_require_approval_above_minor c),
      mp_stopping_rules = JObj
        [(''blocked_failure_categories'', JArr (map (\<lambda>k. JStr (failure_category_value k)) categories)),
         (''blocked_payment_methods'', JArr (map JStr methods)),
         (''require_approval_actions'', JArr (map (\<lambda>a. JStr (action_value a)) approvals))]\<rparr>"

lemma smap_JStr:
  "(\<And>x. x \<in> set xs \<Longrightarrow> el (JStr (g x)) = Inr x) \<Longrightarrow> smap el (map (\<lambda>x. JStr (g x)) xs) = Inr xs"
  by (induction xs) auto

lemma validate_allowed_values: "validate_allowed (map (\<lambda>a. JStr (action_value a)) acts) = Inr (set acts)"
proof -
  have "[v \<leftarrow> map (\<lambda>a. JStr (action_value a)) acts. is_str v] = map (\<lambda>a. JStr (action_value a)) acts"
    by (simp add: is_str_def comp_def)
  moreover have "smap (member_element action_of_value) (map (\<lambda>a. JStr (action_value a)) acts) = Inr acts"
    by (rule smap_JStr) (simp add: member_element_Inr_iff)
  moreover have "list_all is_str (map (\<lambda>a. JStr (action_value a)) acts)" by (simp add: list_all_iff is_str_def)
  ultimately show ?thesis by (simp only: validate_allowed_def sbind_simps not_True_eq_False if_False)
qed

theorem validate_policy_roundtrip:
  assumes "configuration_wf c" "set actions = cf_allowed_actions c"
    "set categories = cf_blocked_failure_categories c" "set methods = cf_blocked_payment_methods c"
    "set approvals = cf_require_approval_actions c"
  shows "validate_policy (policy_row_of c actions categories methods approvals) = Inr c"
proof -
  have m: "smap normalize_payment_method (map JStr methods) = Inr methods"
    using assms(1,4) by (intro smap_JStr [where g = "\<lambda>x. x"] normalize_payment_method_fixed)
      (auto simp: configuration_wf_def)
  have a: "smap (member_element action_of_value) (map (\<lambda>a. JStr (action_value a)) approvals) = Inr approvals"
    by (rule smap_JStr) (simp add: member_element_Inr_iff)
  have k: "smap (member_element failure_category_of_value)
      (map (\<lambda>k. JStr (failure_category_value k)) categories) = Inr categories"
    by (rule smap_JStr) (simp add: member_element_Inr_iff)
  show ?thesis
    using assms
    by (cases "cf_require_approval_above_minor c")
      (simp_all add: validate_policy_def policy_row_of_def configuration_wf_def limit_of_def jopt_def
        validate_allowed_values stopping_rules_model_validate_def stopping_field_def require_json_list_def m a k)
qed

theorem validate_policy_roundtrip_witness:
  "validate_policy (policy_row_of sample_configuration
     [RecoveryAction.REQUEST_RETRY, RecoveryAction.CREATE_RECOVERY_LINK] [FailureCategory.RAZORPAY_OR_PLATFORM]
     [''upi''] []) = Inr sample_configuration"
proof -
  have "py_lower (py_strip ''upi'') = ''upi''" by code_simp
  then show ?thesis
    using validate_policy_roundtrip [of sample_configuration
      "[RecoveryAction.REQUEST_RETRY, RecoveryAction.CREATE_RECOVERY_LINK]"
      "[FailureCategory.RAZORPAY_OR_PLATFORM]" "[''upi'']" "[]"]
    by (auto simp: sample_configuration_def configuration_wf_def)
qed

text \<open>
  C13. When an external action is authorized. A policy is present and valid, the action is on its
  allowlist, neither its failure category nor its method is blocked, the recovery window is open,
  both counters are below their limits, the amount is known and below every approval threshold, the
  action needs no approval and automation is on. Internal actions are always authorized.
\<close>

theorem authorized_iff:
  "av_result (evaluate_authorization f present cf) = PolicyDecisionResult.AUTHORIZED \<longleftrightarrow>
     af_action f \<in> SAFE_INTERNAL_ACTIONS \<or>
     present \<and> (case (cf, af_amount_minor f) of
       (Some c, Some a) \<Rightarrow>
         af_action f \<in> cf_allowed_actions c \<and>
         \<not> opt_in (af_failure_category f) (cf_blocked_failure_categories c) \<and>
         \<not> opt_in (normalized_method (af_payment_method f)) (cf_blocked_payment_methods c) \<and>
         0 < cf_recovery_window_minutes c \<and>
         dt_us (af_evaluated_at f) \<le> dt_us (af_detected_at f) + 60 * 1000000 * cf_recovery_window_minutes c \<and>
         af_attempt_count f < cf_max_automated_attempts c \<and>
         (af_action f = RecoveryAction.REQUEST_RETRY \<or> af_contact_attempt_count f < cf_max_contact_attempts c) \<and>
         af_action f \<notin> cf_require_approval_actions c \<and>
         (case cf_require_approval_above_minor c of None \<Rightarrow> True | Some t \<Rightarrow> a < t) \<and>
         cf_automation_enabled c
     | _ \<Rightarrow> False)"
proof (cases "af_action f \<in> SAFE_INTERNAL_ACTIONS")
  case True
  then show ?thesis by (simp add: evaluate_internal)
next
  case False
  then have auto: "af_action f \<in> AUTOMATED_RECOVERY_ACTIONS" by (simp add: action_classes)
  have contact: "af_action f = RecoveryAction.REQUEST_RETRY \<longleftrightarrow> af_action f \<notin> CUSTOMER_CONTACT_ACTIONS"
    using auto by (auto simp: AUTOMATED_RECOVERY_ACTIONS_def CUSTOMER_CONTACT_ACTIONS_def)
  show ?thesis
  proof (cases cf)
    case None
    with False auto evaluate_no_policy [of f present cf] show ?thesis by simp
  next
    case (Some c)
    show ?thesis
    proof (cases present)
      case True
      then show ?thesis
        using False Some evaluate_result [OF auto, of c]
        by (cases "af_amount_minor f"; cases "cf_require_approval_above_minor c")
          (auto simp: hard_guards_pass_def approval_guards_pass_def contact minutes_def seconds_def)
    next
      case False
      with \<open>af_action f \<notin> SAFE_INTERNAL_ACTIONS\<close> auto evaluate_no_policy [of f present cf] show ?thesis by simp
    qed
  qed
qed

text \<open>
  Hard stops come before every approval rule. Whether an external action is blocked, and the
  reason given, do not depend on the automation switch, the approval threshold or the list of
  actions that need approval: no approval setting can lift a block or hide its reason.
\<close>

lemma hard_stops_precede_approval:
  assumes "av_result (evaluate_authorization f present (Some c)) = PolicyDecisionResult.BLOCKED"
  shows "let v = evaluate_authorization f present (Some (c\<lparr>cf_automation_enabled := b,
            cf_require_approval_above_minor := t, cf_require_approval_actions := acts\<rparr>))
    in av_result v = PolicyDecisionResult.BLOCKED \<and>
       av_reason_code v = av_reason_code (evaluate_authorization f present (Some c))"
proof -
  define d where "d = c\<lparr>cf_automation_enabled := b, cf_require_approval_above_minor := t,
    cf_require_approval_actions := acts\<rparr>"
  have auto: "af_action f \<notin> SAFE_INTERNAL_ACTIONS" "af_action f \<in> AUTOMATED_RECOVERY_ACTIONS"
    using assms evaluate_internal(1) [of f present "Some c"] by (auto simp: action_classes [symmetric])
  have same: "hard_guards_pass f d = hard_guards_pass f c" by (simp add: hard_guards_pass_def d_def)
  show ?thesis
  proof (cases present)
    case True
    with assms evaluate_result [OF auto(2), of c] have "\<not> hard_guards_pass f c" by (auto split: if_splits)
    then show ?thesis
      using same True auto evaluate_result [OF auto(2), of d]
      unfolding d_def [symmetric]
      by (cases "af_amount_minor f")
        (auto simp: Let_def evaluate_authorization_def hard_guards_pass_def dt_less_def d_def)
  next
    case False
    with auto show ?thesis by (simp add: evaluate_authorization_def Let_def)
  qed
qed

text \<open>
  C37. Authorization only tightens. With the same policy, more attempts, more contacts, a later
  clock or a larger amount never turn a block into a permission, nor a need for approval into an
  authorization.
\<close>

fun severity :: "PolicyDecisionResult \<Rightarrow> nat" where
  "severity PolicyDecisionResult.AUTHORIZED = 0"
| "severity PolicyDecisionResult.REQUIRES_APPROVAL = 1"
| "severity PolicyDecisionResult.BLOCKED = 2"

theorem authorization_tightens:
  assumes "af_amount_minor f = Some a" "a \<le> a'"
    and "af_attempt_count f \<le> n" "af_contact_attempt_count f \<le> k" "dt_us (af_evaluated_at f) \<le> dt_us now"
  shows "severity (av_result (evaluate_authorization f present cf)) \<le>
    severity (av_result (evaluate_authorization (f\<lparr>af_amount_minor := Some a', af_attempt_count := n,
      af_contact_attempt_count := k, af_evaluated_at := now\<rparr>) present cf))"
proof -
  define g where "g = f\<lparr>af_amount_minor := Some a', af_attempt_count := n, af_contact_attempt_count := k,
    af_evaluated_at := now\<rparr>"
  have "severity (av_result (evaluate_authorization f present cf)) \<le>
      severity (av_result (evaluate_authorization g present cf))"
  proof (cases "af_action f \<in> SAFE_INTERNAL_ACTIONS")
    case True
    then show ?thesis by (simp add: evaluate_internal)
  next
    case False
    then have auto: "af_action f \<in> AUTOMATED_RECOVERY_ACTIONS" "af_action g \<in> AUTOMATED_RECOVERY_ACTIONS"
      by (simp_all add: action_classes g_def)
    show ?thesis
    proof (cases "present \<and> cf \<noteq> None")
      case True
      then obtain c where c: "cf = Some c" "present" by auto
      have "hard_guards_pass g c \<Longrightarrow> hard_guards_pass f c"
        using assms by (auto simp: hard_guards_pass_def g_def)
      moreover have "approval_guards_pass g c \<Longrightarrow> approval_guards_pass f c"
        using assms by (auto simp: approval_guards_pass_def g_def split: option.splits)
      ultimately show ?thesis
        using c evaluate_result [OF auto(1), of c] evaluate_result [OF auto(2), of c] by simp
    next
      case False
      with auto show ?thesis using evaluate_no_policy by auto
    qed
  qed
  then show ?thesis by (simp add: g_def)
qed

theorem authorization_tightens_witness:
  "severity (av_result (evaluate_authorization sample_facts True (Some sample_configuration))) \<le>
   severity (av_result (evaluate_authorization (sample_facts\<lparr>af_amount_minor := Some 60000, af_attempt_count := 1,
      af_contact_attempt_count := 1, af_evaluated_at := dt_add sample_time (seconds 120)\<rparr>) True
      (Some sample_configuration)))"
  by (rule authorization_tightens [of _ 5000]) (simp_all add: sample_facts_def seconds_def)

text \<open>
  The persisted window. An external action that is not blocked carries the end of its recovery
  window, detection plus the configured minutes, marked as not expired at the evaluation clock;
  the expired mark is set exactly with the reason \<open>RECOVERY_WINDOW_EXPIRED\<close>.
\<close>

lemma recovery_window_metadata:
  "(av_result (evaluate_authorization f present cf) \<noteq> PolicyDecisionResult.BLOCKED \<and>
      af_action f \<in> AUTOMATED_RECOVERY_ACTIONS \<longrightarrow>
      av_recovery_window_ends_at (evaluate_authorization f present cf) =
        map_option (\<lambda>c. dt_add (af_detected_at f) (minutes (cf_recovery_window_minutes c))) cf \<and> cf \<noteq> None \<and>
      av_recovery_window_expired (evaluate_authorization f present cf) = Some False) \<and>
   (av_recovery_window_expired (evaluate_authorization f present cf) = Some True \<longleftrightarrow>
      av_reason_code (evaluate_authorization f present cf) = ''RECOVERY_WINDOW_EXPIRED'')"
proof
  show "av_result (evaluate_authorization f present cf) \<noteq> PolicyDecisionResult.BLOCKED \<and>
      af_action f \<in> AUTOMATED_RECOVERY_ACTIONS \<longrightarrow>
      av_recovery_window_ends_at (evaluate_authorization f present cf) =
        map_option (\<lambda>c. dt_add (af_detected_at f) (minutes (cf_recovery_window_minutes c))) cf \<and> cf \<noteq> None \<and>
      av_recovery_window_expired (evaluate_authorization f present cf) = Some False"
    by (auto elim: evaluate_permitted_window)
  have "safe_internal_reason (af_action f) \<noteq> ''RECOVERY_WINDOW_EXPIRED''"
    by (cases "af_action f") simp_all
  then show "av_recovery_window_expired (evaluate_authorization f present cf) = Some True \<longleftrightarrow>
      av_reason_code (evaluate_authorization f present cf) = ''RECOVERY_WINDOW_EXPIRED''"
    by (cases cf; cases "af_amount_minor f") (simp_all add: evaluate_authorization_def Let_def)
qed

end
