(* ===== verification/Arc_Assessment.thy ===== *)
theory Arc_Assessment
  imports Arc_Diagnosis
begin

text \<open>
  The assessment service of \<open>arc/assessment.py\<close>: one transaction that decides eligibility,
  diagnoses an eligible case, writes both to the locked case row and appends the audit events.
\<close>

definition ASSESSMENT_SOURCE :: string where
  "ASSESSMENT_SOURCE = ''DETERMINISTIC_ASSESSMENT''"

record case_assessment_result =
  as_case_id :: uuid
  as_case_state :: CaseState
  as_eligibility_status :: EligibilityDecision
  as_eligibility_reason_code :: string
  as_failure_category :: "FailureCategory option"
  as_recovery_disposition :: "RecoveryDisposition option"
  as_diagnosis_reason_code :: "string option"
  as_assessment_fingerprint :: string
  as_idempotent :: bool

definition is_fully_assessed ::
  "payment_case \<Rightarrow> eligibility_result \<Rightarrow> failure_diagnosis option \<Rightarrow> bool" where
  "is_fully_assessed c eligibility diagnosis =
    (if pc_assessment_fingerprint c \<noteq> Some (el_assessment_fingerprint eligibility) \<or>
        pc_eligibility_status c \<noteq> Some (el_decision eligibility) \<or>
        pc_eligibility_reason_code c \<noteq> Some (el_reason_code eligibility) \<or>
        pc_eligibility_evaluated_at c = None then False
     else if el_decision eligibility = EligibilityDecision.ELIGIBLE then
       (case diagnosis of None \<Rightarrow> False
        | Some d \<Rightarrow> pc_failure_category c = Some (dg_failure_category d) \<and>
            pc_recovery_disposition c = Some (dg_recovery_disposition d) \<and>
            pc_diagnosis_reason_code c = Some (dg_diagnosis_reason_code d) \<and> pc_diagnosed_at c \<noteq> None)
     else pc_failure_category c = None \<and> pc_recovery_disposition c = None \<and>
       pc_diagnosis_reason_code c = None \<and> pc_diagnosed_at c = None)"

definition persist_eligibility :: "payment_case \<Rightarrow> eligibility_result \<Rightarrow> py_datetime \<Rightarrow> payment_case" where
  "persist_eligibility c eligibility assessed_at =
     c\<lparr>pc_eligibility_status := Some (el_decision eligibility),
       pc_eligibility_reason_code := Some (el_reason_code eligibility),
       pc_eligibility_evaluated_at := Some assessed_at,
       pc_assessment_fingerprint := Some (el_assessment_fingerprint eligibility)\<rparr>"

definition clear_diagnosis :: "payment_case \<Rightarrow> payment_case" where
  "clear_diagnosis c =
     c\<lparr>pc_failure_category := None, pc_recovery_disposition := None, pc_diagnosis_reason_code := None,
       pc_diagnosed_at := None\<rparr>"

definition persist_diagnosis :: "payment_case \<Rightarrow> failure_diagnosis \<Rightarrow> py_datetime \<Rightarrow> payment_case" where
  "persist_diagnosis c diagnosis assessed_at =
     c\<lparr>pc_failure_category := Some (dg_failure_category diagnosis),
       pc_recovery_disposition := Some (dg_recovery_disposition diagnosis),
       pc_diagnosis_reason_code := Some (dg_diagnosis_reason_code diagnosis),
       pc_diagnosed_at := Some assessed_at\<rparr>"

definition external_status :: "payment_case \<Rightarrow> string option" where
  "external_status c = py_or (pc_razorpay_payment_status c) (pc_razorpay_subscription_status c)"

definition append_eligibility_audit ::
  "payment_case \<Rightarrow> eligibility_result \<Rightarrow> CaseState \<Rightarrow> arc_db \<Rightarrow> arc_db" where
  "append_eligibility_audit c eligibility previous_state db =
     add_event \<lparr>ce_case_id = pc_id c, ce_event_type = ''ELIGIBILITY_EVALUATED'', ce_source = ASSESSMENT_SOURCE,
       ce_event_data = JObj
         [(''eligibility_decision'', JStr (eligibility_value (el_decision eligibility))),
          (''eligibility_reason'', JStr (el_reason_code eligibility)),
          (''external_status'', jopt JStr (external_status c)),
          (''assessment_fingerprint'', JStr (el_assessment_fingerprint eligibility)),
          (''previous_state'', JStr (case_state_value previous_state)),
          (''new_state'', JStr (case_state_value (pc_current_state c)))]\<rparr> db"

definition append_diagnosis_audit ::
  "payment_case \<Rightarrow> failure_diagnosis \<Rightarrow> string \<Rightarrow> CaseState \<Rightarrow> bool \<Rightarrow> arc_db \<Rightarrow> arc_db" where
  "append_diagnosis_audit c diagnosis assessment_fingerprint previous_state rediagnosed db =
     add_event \<lparr>ce_case_id = pc_id c,
       ce_event_type = (if rediagnosed then ''FAILURE_REDIAGNOSED'' else ''FAILURE_DIAGNOSED''),
       ce_source = ASSESSMENT_SOURCE,
       ce_event_data = JObj
         [(''failure_category'', JStr (failure_category_value (dg_failure_category diagnosis))),
          (''recovery_disposition'', JStr (disposition_value (dg_recovery_disposition diagnosis))),
          (''diagnosis_reason'', JStr (dg_diagnosis_reason_code diagnosis)),
          (''evidence'', JObj (map (\<lambda>(k, v). (k, jopt JStr v)) (dg_evidence diagnosis))),
          (''external_status'', jopt JStr (external_status c)),
          (''assessment_fingerprint'', JStr assessment_fingerprint),
          (''previous_state'', JStr (case_state_value previous_state)),
          (''new_state'', JStr (case_state_value (pc_current_state c)))]\<rparr> db"

definition assessment_result :: "payment_case \<Rightarrow> bool \<Rightarrow> arc_error + case_assessment_result" where
  "assessment_result c idempotent =
    (case (pc_eligibility_status c, pc_eligibility_reason_code c, pc_assessment_fingerprint c) of
       (Some status, Some reason, Some fp) \<Rightarrow>
         Inr \<lparr>as_case_id = pc_id c, as_case_state = pc_current_state c, as_eligibility_status = status,
           as_eligibility_reason_code = reason, as_failure_category = pc_failure_category c,
           as_recovery_disposition = pc_recovery_disposition c,
           as_diagnosis_reason_code = pc_diagnosis_reason_code c, as_assessment_fingerprint = fp,
           as_idempotent = idempotent\<rparr>
     | _ \<Rightarrow> Inl (PyRuntimeError ''Case assessment projection is incomplete''))"

text \<open>The transaction once the case row is locked, and the service call around it.\<close>

definition assess_locked ::
  "(string \<Rightarrow> string) \<Rightarrow> payment_case \<Rightarrow> py_datetime \<Rightarrow> arc_db \<Rightarrow> arc_error + case_assessment_result \<times> arc_db" where
  "assess_locked sha payment_case assessed_at db =
    (let eligibility = assess_eligibility sha payment_case assessed_at;
         diagnosis = (if el_decision eligibility = EligibilityDecision.ELIGIBLE
                      then Some (classify_failure payment_case) else None)
     in if is_fully_assessed payment_case eligibility diagnosis then
          sbind (assessment_result payment_case True) (\<lambda>r. Inr (r, db))
        else
          let previous_state = pc_current_state payment_case;
              previously_diagnosed = (pc_diagnosed_at payment_case \<noteq> None \<or> previous_state = CaseState.DIAGNOSED);
              case1 = persist_eligibility payment_case eligibility assessed_at;
              db1 = append_eligibility_audit case1 eligibility previous_state db
          in if el_decision eligibility \<noteq> EligibilityDecision.ELIGIBLE then
               let case2 = clear_diagnosis case1
               in sbind (assessment_result case2 False) (\<lambda>r. Inr (r, save_case case2 db1))
             else case diagnosis of
               None \<Rightarrow> Inl (PyRuntimeError ''Eligible case did not produce a deterministic diagnosis'')
             | Some d \<Rightarrow>
               let case2 = persist_diagnosis case1 d assessed_at
               in sbind (if pc_current_state case2 = CaseState.RECONCILING then
                           move_case case2 CaseState.DIAGNOSED ''DETERMINISTIC_FAILURE_DIAGNOSED'' ASSESSMENT_SOURCE
                             [(''assessment_fingerprint'', JStr (el_assessment_fingerprint eligibility))] db1
                         else Inr (case2, db1))
                    (\<lambda>(case3, db2).
                      let db3 = append_diagnosis_audit case3 d (el_assessment_fingerprint eligibility)
                                  previous_state previously_diagnosed db2
                      in sbind (assessment_result case3 False) (\<lambda>r. Inr (r, save_case case3 db3))))"

definition assess_case ::
  "(string \<Rightarrow> string) \<Rightarrow> uuid \<Rightarrow> py_datetime \<Rightarrow> arc_db \<Rightarrow> (arc_error + case_assessment_result) \<times> arc_db" where
  "assess_case sha case_id assessed_at db = transaction db
    (case find_case case_id db of
       None \<Rightarrow> Inl (PaymentCaseNotFoundError ''Payment case was not found'')
     | Some payment_case \<Rightarrow> assess_locked sha payment_case assessed_at db)"

section \<open>The row an assessment leaves\<close>

text \<open>
  The functional specification, field by field: what a case row holds after a full assessment at
  \<open>t\<close>, and whether it holds that already, at whatever times it was decided and diagnosed, so that
  an assessment finds nothing to do.
\<close>

definition assessed_row :: "(string \<Rightarrow> string) \<Rightarrow> payment_case \<Rightarrow> py_datetime \<Rightarrow> payment_case" where
  "assessed_row sha c t =
    (let e = assess_eligibility sha c t; d = classify_failure c; eligible = (el_decision e = EligibilityDecision.ELIGIBLE)
     in c\<lparr>pc_current_state :=
            if eligible \<and> pc_current_state c = CaseState.RECONCILING then CaseState.DIAGNOSED else pc_current_state c,
          pc_eligibility_status := Some (el_decision e),
          pc_eligibility_reason_code := Some (el_reason_code e),
          pc_eligibility_evaluated_at := Some t,
          pc_failure_category := if eligible then Some (dg_failure_category d) else None,
          pc_recovery_disposition := if eligible then Some (dg_recovery_disposition d) else None,
          pc_diagnosis_reason_code := if eligible then Some (dg_diagnosis_reason_code d) else None,
          pc_diagnosed_at := if eligible then Some t else None,
          pc_assessment_fingerprint := Some (el_assessment_fingerprint e)\<rparr>)"

definition up_to_date :: "(string \<Rightarrow> string) \<Rightarrow> payment_case \<Rightarrow> py_datetime \<Rightarrow> bool" where
  "up_to_date sha c t =
    (let r = assessed_row sha c t
     in pc_eligibility_status c = pc_eligibility_status r \<and> pc_eligibility_reason_code c = pc_eligibility_reason_code r \<and>
        pc_assessment_fingerprint c = pc_assessment_fingerprint r \<and> pc_failure_category c = pc_failure_category r \<and>
        pc_recovery_disposition c = pc_recovery_disposition r \<and> pc_diagnosis_reason_code c = pc_diagnosis_reason_code r \<and>
        pc_eligibility_evaluated_at c \<noteq> None \<and> (pc_diagnosed_at c = None \<longleftrightarrow> pc_diagnosed_at r = None))"

text \<open>The code compares and writes these fields in its helpers.\<close>

lemma assessed_row_written:
  "el_decision (assess_eligibility sha c t) \<noteq> EligibilityDecision.ELIGIBLE \<Longrightarrow>
     assessed_row sha c t = clear_diagnosis (persist_eligibility c (assess_eligibility sha c t) t)"
  "el_decision (assess_eligibility sha c t) = EligibilityDecision.ELIGIBLE \<Longrightarrow>
     assessed_row sha c t = (persist_diagnosis (persist_eligibility c (assess_eligibility sha c t) t) (classify_failure c) t)
       \<lparr>pc_current_state := if pc_current_state c = CaseState.RECONCILING then CaseState.DIAGNOSED else pc_current_state c\<rparr>"
  by (simp_all add: assessed_row_def Let_def persist_eligibility_def clear_diagnosis_def persist_diagnosis_def)

lemma up_to_date_checked:
  "up_to_date sha c t \<longleftrightarrow> is_fully_assessed c (assess_eligibility sha c t)
     (if el_decision (assess_eligibility sha c t) = EligibilityDecision.ELIGIBLE then Some (classify_failure c) else None)"
  by (auto simp: up_to_date_def is_fully_assessed_def assessed_row_def Let_def)

lemma assessment_result_ok:
  "pc_eligibility_status c = Some e \<Longrightarrow> pc_eligibility_reason_code c = Some r \<Longrightarrow> pc_assessment_fingerprint c = Some f \<Longrightarrow>
     assessment_result c i = Inr \<lparr>as_case_id = pc_id c, as_case_state = pc_current_state c, as_eligibility_status = e,
       as_eligibility_reason_code = r, as_failure_category = pc_failure_category c,
       as_recovery_disposition = pc_recovery_disposition c, as_diagnosis_reason_code = pc_diagnosis_reason_code c,
       as_assessment_fingerprint = f, as_idempotent = i\<rparr>"
  by (simp add: assessment_result_def)

lemma row_write_sels [simp]:
  "pc_id (persist_eligibility c e t) = pc_id c" "pc_current_state (persist_eligibility c e t) = pc_current_state c"
  "pc_id (clear_diagnosis c) = pc_id c" "pc_current_state (clear_diagnosis c) = pc_current_state c"
  "pc_id (persist_diagnosis c d t) = pc_id c" "pc_current_state (persist_diagnosis c d t) = pc_current_state c"
  by (simp_all add: persist_eligibility_def clear_diagnosis_def persist_diagnosis_def)

lemma assessed_row_id [simp]: "pc_id (assessed_row sha c t) = pc_id c"
  by (simp add: assessed_row_def Let_def)

lemma only_events_eligibility_audit [simp]: "only_events_added db (append_eligibility_audit c e s db)"
  by (simp add: append_eligibility_audit_def)

lemma only_events_diagnosis_audit [simp]: "only_events_added db (append_diagnosis_audit c d f s b db)"
  by (simp add: append_diagnosis_audit_def)

lemma assess_locked_up_to_date:
  assumes "up_to_date sha c t"
  shows "\<exists>r. assess_locked sha c t db = Inr (r, db) \<and> assessment_result c True = Inr r"
proof -
  define e where "e = assess_eligibility sha c t"
  have full: "is_fully_assessed c e
      (if el_decision e = EligibilityDecision.ELIGIBLE then Some (classify_failure c) else None)"
    using assms by (simp only: up_to_date_checked e_def)
  then have "pc_assessment_fingerprint c = Some (el_assessment_fingerprint e)"
    "pc_eligibility_status c = Some (el_decision e)" "pc_eligibility_reason_code c = Some (el_reason_code e)"
    by (simp_all add: is_fully_assessed_def split: if_splits)
  then obtain r where r: "assessment_result c True = Inr r" by (simp add: assessment_result_ok)
  then show ?thesis
    unfolding assess_locked_def Let_def e_def [symmetric] by (simp only: full if_True sbind_simps) blast
qed

lemma assess_locked_ineligible:
  assumes "\<not> up_to_date sha c t" "el_decision (assess_eligibility sha c t) \<noteq> EligibilityDecision.ELIGIBLE"
  shows "\<exists>r db1. assess_locked sha c t db = Inr (r, save_case (assessed_row sha c t) db1) \<and>
    assessment_result (assessed_row sha c t) False = Inr r \<and> only_events_added db db1"
proof -
  define e where "e = assess_eligibility sha c t"
  have row: "assessed_row sha c t = clear_diagnosis (persist_eligibility c e t)"
    using assms by (simp add: assessed_row_written e_def)
  obtain r where r: "assessment_result (clear_diagnosis (persist_eligibility c e t)) False = Inr r"
    by (simp add: assessment_result_def persist_eligibility_def clear_diagnosis_def)
  have "\<not> is_fully_assessed c e None" "el_decision e \<noteq> EligibilityDecision.ELIGIBLE"
    using assms by (simp_all add: up_to_date_checked e_def)
  with r show ?thesis
    unfolding assess_locked_def Let_def e_def [symmetric] row
    by (intro exI [of _ r] exI [of _ "append_eligibility_audit (persist_eligibility c e t) e (pc_current_state c) db"])
      simp
qed

lemma assess_locked_eligible:
  assumes "\<not> up_to_date sha c t" "el_decision (assess_eligibility sha c t) = EligibilityDecision.ELIGIBLE"
  shows "\<exists>r db1. assess_locked sha c t db = Inr (r, save_case (assessed_row sha c t) db1) \<and>
    assessment_result (assessed_row sha c t) False = Inr r \<and> only_events_added db db1"
proof -
  define e where "e = assess_eligibility sha c t"
  define c2 where "c2 = persist_diagnosis (persist_eligibility c e t) (classify_failure c) t"
  define c3 where "c3 = c2\<lparr>pc_current_state :=
      if pc_current_state c = CaseState.RECONCILING then CaseState.DIAGNOSED else pc_current_state c\<rparr>"
  define db1 where "db1 = append_eligibility_audit (persist_eligibility c e t) e (pc_current_state c) db"
  have row: "assessed_row sha c t = c3"
    using assms by (simp add: assessed_row_written e_def c2_def c3_def)
  obtain r where r: "assessment_result c3 False = Inr r"
    by (simp add: assessment_result_def persist_eligibility_def persist_diagnosis_def c2_def c3_def)
  have "\<exists>db2. (if pc_current_state c2 = CaseState.RECONCILING then
           move_case c2 CaseState.DIAGNOSED ''DETERMINISTIC_FAILURE_DIAGNOSED'' ASSESSMENT_SOURCE
             [(''assessment_fingerprint'', JStr (el_assessment_fingerprint e))] db1
         else Inr (c2, db1)) = Inr (c3, db2) \<and> only_events_added db1 db2"
  proof (cases "pc_current_state c = CaseState.RECONCILING")
    case True
    then have "can_transition (pc_current_state c2) CaseState.DIAGNOSED" by (simp add: c2_def can_transition_def)
    with True show ?thesis using move_case_ok by (simp add: c3_def) (simp add: c2_def)
  next
    case False
    then show ?thesis by (auto simp: c3_def c2_def)
  qed
  then obtain db2 where db2: "(if pc_current_state c2 = CaseState.RECONCILING then
           move_case c2 CaseState.DIAGNOSED ''DETERMINISTIC_FAILURE_DIAGNOSED'' ASSESSMENT_SOURCE
             [(''assessment_fingerprint'', JStr (el_assessment_fingerprint e))] db1
         else Inr (c2, db1)) = Inr (c3, db2)" "only_events_added db1 db2" by blast
  have "only_events_added db db2"
    using only_events_added_trans [OF _ db2(2)] by (simp add: db1_def)
  moreover have full: "\<not> is_fully_assessed c e (Some (classify_failure c))"
    "el_decision e = EligibilityDecision.ELIGIBLE"
    using assms by (simp_all add: up_to_date_checked e_def)
  then have "assess_locked sha c t db = Inr (r, save_case c3 (append_diagnosis_audit c3 (classify_failure c)
      (el_assessment_fingerprint e) (pc_current_state c)
      (pc_diagnosed_at c \<noteq> None \<or> pc_current_state c = CaseState.DIAGNOSED) db2))"
    unfolding assess_locked_def Let_def e_def [symmetric]
    using db2(1) r by (cases "pc_current_state c2 = CaseState.RECONCILING")
      (simp_all add: c2_def [symmetric] db1_def [symmetric])
  ultimately show ?thesis
    using r row only_events_added_trans [OF _ only_events_diagnosis_audit] by fastforce
qed

lemma assess_locked_work:
  assumes "\<not> up_to_date sha c t"
  shows "\<exists>r db1. assess_locked sha c t db = Inr (r, save_case (assessed_row sha c t) db1) \<and>
    assessment_result (assessed_row sha c t) False = Inr r \<and> only_events_added db db1"
  using assess_locked_ineligible [OF assms] assess_locked_eligible [OF assms] by blast

section \<open>What an assessment finds the second time\<close>

lemma assess_eligibility_stable:
  assumes "el_decision (assess_eligibility sha c t) = EligibilityDecision.ELIGIBLE"
  shows "assess_eligibility sha (assessed_row sha c t) t = assess_eligibility sha c t"
proof -
  have live: "pc_current_state c \<notin> TERMINAL_CASE_STATES" "pc_current_state c \<noteq> CaseState.DETECTED"
    using eligible_live [OF assms] by simp_all
  define s where "s = (if pc_current_state c = CaseState.RECONCILING then CaseState.DIAGNOSED else pc_current_state c)"
  have s: "terminal_reason s = None" "terminal_reason (pc_current_state c) = None" "s \<noteq> CaseState.DETECTED"
    using live by (auto simp: s_def terminal_reason_None_iff TERMINAL_CASE_STATES_def)
  have row: "assessed_row sha c t = c\<lparr>pc_current_state := s,
      pc_eligibility_status := Some EligibilityDecision.ELIGIBLE,
      pc_eligibility_reason_code := Some (el_reason_code (assess_eligibility sha c t)),
      pc_eligibility_evaluated_at := Some t,
      pc_failure_category := Some (dg_failure_category (classify_failure c)),
      pc_recovery_disposition := Some (dg_recovery_disposition (classify_failure c)),
      pc_diagnosis_reason_code := Some (dg_diagnosis_reason_code (classify_failure c)),
      pc_diagnosed_at := Some t,
      pc_assessment_fingerprint := Some (build_assessment_fingerprint sha c)\<rparr>"
    using assms by (simp add: assessed_row_def Let_def s_def)
  have facts: "assessment_facts (assessed_row sha c t) = assessment_facts c"
    using s by (simp add: assessment_facts_def row)
  show ?thesis
    using s live facts by (intro assess_eligibility_cong) (simp_all add: row)
qed

lemma assess_eligibility_stable_ineligible:
  assumes "el_decision (assess_eligibility sha c t) \<noteq> EligibilityDecision.ELIGIBLE"
  shows "assess_eligibility sha (assessed_row sha c t) t = assess_eligibility sha c t"
proof -
  have row: "assessed_row sha c t = clear_diagnosis (persist_eligibility c (assess_eligibility sha c t) t)"
    using assms by (simp add: assessed_row_written)
  show ?thesis
    by (rule assess_eligibility_cong)
      (simp_all add: row clear_diagnosis_def persist_eligibility_def assessment_facts_def)
qed

lemma assessed_row_up_to_date: "up_to_date sha (assessed_row sha c t) t"
proof (cases "el_decision (assess_eligibility sha c t) = EligibilityDecision.ELIGIBLE")
  case True
  have "classify_failure (assessed_row sha c t) = classify_failure c"
    using True by (intro classify_failure_cong)
      (simp_all add: assessed_row_def Let_def)
  with True show ?thesis
    unfolding up_to_date_checked assess_eligibility_stable [OF True]
    by (simp add: is_fully_assessed_def) (simp add: assessed_row_def Let_def)
next
  case False
  then show ?thesis
    unfolding up_to_date_checked assess_eligibility_stable_ineligible [OF False]
    by (simp add: is_fully_assessed_def) (simp add: assessed_row_def Let_def)
qed

section \<open>Properties\<close>

text \<open>
  C35. What an assessment does. It fails exactly when the case does not exist, leaving the database
  as it was. When the stored assessment is up to date it writes nothing; otherwise it writes the
  specified row \<open>assessed_row\<close> to this case, appends audit events, and touches nothing else.
\<close>

theorem assess_case_refines:
  "case find_case k db of
     None \<Rightarrow> assess_case sha k t db = (Inl (PaymentCaseNotFoundError ''Payment case was not found''), db)
   | Some c \<Rightarrow> \<exists>r. fst (assess_case sha k t db) = Inr r \<and> as_idempotent r = up_to_date sha c t \<and>
       as_case_id r = k \<and>
       (if up_to_date sha c t then snd (assess_case sha k t db) = db
        else \<exists>evs. snd (assess_case sha k t db) =
           save_case (assessed_row sha c t) (db\<lparr>db_case_events := db_case_events db @ evs\<rparr>))"
proof (cases "find_case k db")
  case None
  then show ?thesis by (simp add: assess_case_def)
next
  case (Some c)
  then have k: "pc_id c = k" by (rule cases_table.lookup_key)
  have view: "assessment_result d i = Inr r \<Longrightarrow> as_idempotent r = i \<and> as_case_id r = pc_id d" for d i r
    by (auto simp: assessment_result_def split: option.splits)
  show ?thesis
  proof (cases "up_to_date sha c t")
    case True
    from assess_locked_up_to_date [OF True, of db] Some k True show ?thesis
      by (auto simp: assess_case_def dest!: view)
  next
    case False
    obtain r db1 where r: "assess_locked sha c t db = Inr (r, save_case (assessed_row sha c t) db1)"
      "assessment_result (assessed_row sha c t) False = Inr r" "only_events_added db db1"
      using assess_locked_work [OF False] by blast
    from r(2) have "as_idempotent r = False \<and> as_case_id r = k" by (auto dest!: view simp: k)
    moreover have "assess_case sha k t db = (Inr r, save_case (assessed_row sha c t) db1)"
      using Some r(1) by (simp add: assess_case_def)
    moreover obtain evs where "db1 = db\<lparr>db_case_events := db_case_events db @ evs\<rparr>"
      using r(3) by (auto simp: only_events_added_def)
    ultimately show ?thesis using Some False by auto
  qed
qed

text \<open>
  Assessing twice is assessing once: after a successful assessment, assessing again under the
  same clock reports an idempotent result with the same content and writes nothing.
\<close>

lemma assess_case_idempotent:
  assumes "assess_case sha k t db = (Inr r, db')"
  shows "assess_case sha k t db' = (Inr (r\<lparr>as_idempotent := True\<rparr>), db')"
proof -
  obtain c where c: "find_case k db = Some c" "assess_locked sha c t db = Inr (r, db')"
    using assms by (auto simp: assess_case_def split: option.splits elim!: transaction_InrE)
  have again: "assess_case sha k t db' = (Inr (r\<lparr>as_idempotent := True\<rparr>), db')"
    if "find_case k db' = Some d" "up_to_date sha d t" "assessment_result d i = Inr r" for d i
  proof -
    from assess_locked_up_to_date [OF that(2)] obtain r' where
      r': "assess_locked sha d t db' = Inr (r', db')" "assessment_result d True = Inr r'" by blast
    with that(3) have "r' = r\<lparr>as_idempotent := True\<rparr>"
      by (auto simp: assessment_result_def split: option.splits)
    with that(1) r'(1) show ?thesis by (simp add: assess_case_def)
  qed
  show ?thesis
  proof (cases "up_to_date sha c t")
    case True
    with assess_locked_up_to_date [OF True, of db] c show ?thesis by (intro again [of c True]) auto
  next
    case False
    with assess_locked_work [OF False, of db] c obtain db1 where
      d: "db' = save_case (assessed_row sha c t) db1" "assessment_result (assessed_row sha c t) False = Inr r"
        "only_events_added db db1" by auto
    have "find_case k db1 = Some c" using c(1) d(3) by (auto simp: only_events_added_def find_case_def)
    then have "find_case k db' = Some (assessed_row sha c t)"
      using cases_table.lookup_key [OF c(1)] by (simp add: d(1) cases_table.lookup_saved)
    with d(2) assessed_row_up_to_date show ?thesis by (intro again [of _ False]) auto
  qed
qed

definition sample_db :: arc_db where
  "sample_db = empty_db\<lparr>db_cases := [sample_case]\<rparr>"

text \<open>
  A diagnosis is on record exactly when the case is eligible, and an assessment moves a case
  only from \<open>RECONCILING\<close> to \<open>DIAGNOSED\<close>, and only when it is eligible; identity, money, counters
  and external truth stay as they were.
\<close>

lemma assessment_effect:
  "(el_decision (assess_eligibility sha c t) = EligibilityDecision.ELIGIBLE \<longleftrightarrow>
      pc_diagnosed_at (assessed_row sha c t) \<noteq> None) \<and>
   (pc_diagnosed_at (assessed_row sha c t) \<noteq> None \<longleftrightarrow> pc_failure_category (assessed_row sha c t) \<noteq> None) \<and>
   pc_current_state (assessed_row sha c t) =
     (if pc_current_state c = CaseState.RECONCILING \<and>
         el_decision (assess_eligibility sha c t) = EligibilityDecision.ELIGIBLE
      then CaseState.DIAGNOSED else pc_current_state c) \<and>
   pc_assessment_fingerprint (assessed_row sha c t) = Some (build_assessment_fingerprint sha c) \<and>
   pc_amount (assessed_row sha c t) = pc_amount c \<and>
   pc_attempt_count (assessed_row sha c t) = pc_attempt_count c \<and>
   pc_contact_attempt_count (assessed_row sha c t) = pc_contact_attempt_count c \<and>
   pc_razorpay_payment_status (assessed_row sha c t) = pc_razorpay_payment_status c \<and>
   pc_resolved_at (assessed_row sha c t) = pc_resolved_at c"
  by (simp add: assessed_row_def Let_def persist_eligibility_def persist_diagnosis_def clear_diagnosis_def)

end
