(* ===== verification/Arc_Current_Rows.thy ===== *)
theory Arc_Current_Rows
  imports Arc_Models
begin

text \<open>
  The contract that strategy proposals and policy decisions share: a row belongs to a case and
  may be superseded, at most one row of a case is current (the partial unique indexes
  \<open>uq_strategy_proposals_current_case\<close> and \<open>uq_policy_decisions_current_case\<close>), and a new or
  restored row replaces the current one.
\<close>

definition current_row :: "('r \<Rightarrow> uuid) \<Rightarrow> ('r \<Rightarrow> py_datetime option) \<Rightarrow> uuid \<Rightarrow> 'r list \<Rightarrow> 'r option" where
  "current_row owner ended k rows = find (\<lambda>r. owner r = k \<and> ended r = None) rows"

definition one_current :: "('r \<Rightarrow> uuid) \<Rightarrow> ('r \<Rightarrow> uuid) \<Rightarrow> ('r \<Rightarrow> py_datetime option) \<Rightarrow> 'r list \<Rightarrow> bool" where
  "one_current key owner ended rows \<longleftrightarrow> distinct (map key rows) \<and>
     (\<forall>x \<in> set rows. \<forall>y \<in> set rows.
        owner x = owner y \<and> ended x = None \<and> ended y = None \<longrightarrow> key x = key y)"

lemma one_currentI:
  assumes "distinct (map key rows)"
    and "\<And>x y. x \<in> set rows \<Longrightarrow> y \<in> set rows \<Longrightarrow> owner x = owner y \<Longrightarrow> ended x = None \<Longrightarrow>
      ended y = None \<Longrightarrow> key x = key y"
  shows "one_current key owner ended rows"
  unfolding one_current_def using assms by blast

lemma one_currentD:
  assumes "one_current key owner ended rows"
  shows "distinct (map key rows)"
    and "x \<in> set rows \<Longrightarrow> y \<in> set rows \<Longrightarrow> owner x = owner y \<Longrightarrow> ended x = None \<Longrightarrow>
      ended y = None \<Longrightarrow> key x = key y"
  using assms unfolding one_current_def by blast+

lemma one_current_same:
  assumes "one_current key owner ended rows" "x \<in> set rows" "y \<in> set rows" "key x = key y"
  shows "x = y"
  using one_currentD(1) [OF assms(1)] assms(2-4) by (metis distinct_map inj_onD)

lemma find_map_cong:
  "(\<And>x. x \<in> set xs \<Longrightarrow> f x = x \<or> \<not> P x \<and> \<not> P (f x)) \<Longrightarrow> find P (map f xs) = find P xs"
proof (induction xs)
  case (Cons a xs)
  then have "find P (map f xs) = find P xs" by simp
  with Cons.prems [of a] show ?case by auto
qed simp

lemma find_append_other: "\<not> P new \<Longrightarrow> find P (xs @ [new]) = find P xs"
  by (induction xs) auto

text \<open>End the current row of the case, if it has one.\<close>

definition end_current ::
  "('r \<Rightarrow> uuid) \<Rightarrow> ('r \<Rightarrow> uuid) \<Rightarrow> ('r \<Rightarrow> py_datetime option) \<Rightarrow> (py_datetime option \<Rightarrow> 'r \<Rightarrow> 'r) \<Rightarrow>
     uuid \<Rightarrow> py_datetime \<Rightarrow> 'r list \<Rightarrow> 'r list" where
  "end_current key owner ended set_ended k t rows = (case current_row owner ended k rows of
       None \<Rightarrow> rows | Some r \<Rightarrow> row_save key (set_ended (Some t) r) rows)"

locale current_rows =
  fixes key :: "'r \<Rightarrow> uuid" and owner :: "'r \<Rightarrow> uuid" and ended :: "'r \<Rightarrow> py_datetime option"
    and set_ended :: "py_datetime option \<Rightarrow> 'r \<Rightarrow> 'r"
  assumes key_set [simp]: "key (set_ended t r) = key r"
    and owner_set [simp]: "owner (set_ended t r) = owner r"
    and ended_set [simp]: "ended (set_ended t r) = t"
begin

lemma current_Some:
  "current_row owner ended k rows = Some r \<Longrightarrow> r \<in> set rows \<and> owner r = k \<and> ended r = None"
  by (auto simp: current_row_def find_Some_iff)

lemma current_None_iff:
  "current_row owner ended k rows = None \<longleftrightarrow> (\<forall>r \<in> set rows. owner r = k \<longrightarrow> ended r \<noteq> None)"
  by (auto simp: current_row_def find_None_iff)

lemma current_unique:
  assumes "one_current key owner ended rows" "x \<in> set rows" "ended x = None"
  shows "current_row owner ended (owner x) rows = Some x"
proof (cases "current_row owner ended (owner x) rows")
  case None
  with assms(2,3) show ?thesis by (force simp: current_None_iff)
next
  case (Some r)
  then have r: "r \<in> set rows" "owner r = owner x" "ended r = None" by (auto dest: current_Some)
  have "key r = key x" by (rule one_currentD(2) [OF assms(1) r(1) assms(2) r(2,3) assms(3)])
  then have "r = x" by (rule one_current_same [OF assms(1) r(1) assms(2)])
  with Some show ?thesis by simp
qed

lemma end_current_keys: "map key (end_current key owner ended set_ended k t rows) = map key rows"
  by (simp add: end_current_def row_save_keys split: option.split)

lemma end_current_rows:
  assumes "one_current key owner ended rows" "x \<in> set (end_current key owner ended set_ended k t rows)"
  shows "(x \<in> set rows \<and> (owner x = k \<longrightarrow> ended x \<noteq> None)) \<or>
    (ended x = Some t \<and> owner x = k \<and> current_row owner ended k rows \<noteq> None)"
proof (cases "current_row owner ended k rows")
  case None
  with assms show ?thesis by (auto simp: end_current_def current_None_iff)
next
  case (Some r)
  then have r: "r \<in> set rows" "owner r = k" "ended r = None" by (auto dest: current_Some)
  from assms(2) Some obtain y where y: "y \<in> set rows" "x = (if key y = key r then set_ended (Some t) r else y)"
    by (auto simp: end_current_def row_save_def)
  show ?thesis
  proof (cases "key y = key r")
    case True
    with y r Some show ?thesis by simp
  next
    case False
    then have "owner y = k \<longrightarrow> ended y \<noteq> None"
      using one_currentD(2) [OF assms(1) y(1) r(1)] r by auto
    with False y show ?thesis by simp
  qed
qed

lemma ended_none_left:
  assumes "one_current key owner ended rows" "x \<in> set (end_current key owner ended set_ended k t rows)" "ended x = None"
  shows "x \<in> set rows" "owner x \<noteq> k"
  using end_current_rows [OF assms(1,2)] assms(3) by auto

lemma one_current_end:
  assumes "one_current key owner ended rows"
  shows "one_current key owner ended (end_current key owner ended set_ended k t rows)"
proof (rule one_currentI)
  show "distinct (map key (end_current key owner ended set_ended k t rows))"
    using one_currentD(1) [OF assms] by (simp only: end_current_keys)
  fix x y
  assume "x \<in> set (end_current key owner ended set_ended k t rows)" "ended x = None"
    and "y \<in> set (end_current key owner ended set_ended k t rows)" "ended y = None"
  then have "x \<in> set rows" "y \<in> set rows" using ended_none_left(1) [OF assms] by blast+
  then show "owner x = owner y \<Longrightarrow> key x = key y"
    using one_currentD(2) [OF assms] \<open>ended x = None\<close> \<open>ended y = None\<close> by blast
qed

lemma one_current_replace:
  assumes "one_current key owner ended rows" "key new \<notin> key ` set rows" "owner new = k"
  shows "one_current key owner ended (row_add new (end_current key owner ended set_ended k t rows))"
proof -
  let ?rows = "end_current key owner ended set_ended k t rows"
  have old: "one_current key owner ended ?rows" by (rule one_current_end [OF assms(1)])
  have "key ` set ?rows = key ` set rows"
    using arg_cong [OF end_current_keys [of k t rows], of set] by simp
  with assms(2) have fresh: "key new \<notin> key ` set ?rows" by simp
  have no: "owner x \<noteq> k" if "x \<in> set ?rows" "ended x = None" for x
    using ended_none_left(2) [OF assms(1) that] .
  show ?thesis
  proof (rule one_currentI)
    show "distinct (map key (row_add new ?rows))"
      using one_currentD(1) [OF old] fresh by (simp add: row_add_def)
    fix x y
    assume xy: "x \<in> set (row_add new ?rows)" "y \<in> set (row_add new ?rows)" "owner x = owner y"
      "ended x = None" "ended y = None"
    then have "x \<in> set ?rows \<or> x = new" "y \<in> set ?rows \<or> y = new" by (auto simp: row_add_def)
    then show "key x = key y"
      using no [of x] no [of y] xy(3-5) assms(3) one_currentD(2) [OF old, of x y] by auto
  qed
qed

lemma current_replaced:
  assumes "one_current key owner ended rows" "key new \<notin> key ` set rows" "owner new = k" "ended new = None"
  shows "current_row owner ended k (row_add new (end_current key owner ended set_ended k t rows)) = Some new"
  using current_unique [OF one_current_replace [OF assms(1-3)], of new] assms by (simp add: row_add_def)

lemma current_other:
  assumes "one_current key owner ended rows" "j \<noteq> k" "owner new = k"
  shows "current_row owner ended j (row_add new (end_current key owner ended set_ended k t rows)) =
    current_row owner ended j rows"
proof -
  let ?P = "\<lambda>r. owner r = j \<and> ended r = None"
  have "find ?P (end_current key owner ended set_ended k t rows) = find ?P rows"
  proof (cases "current_row owner ended k rows")
    case None
    then show ?thesis by (simp add: end_current_def)
  next
    case (Some r)
    then have r: "r \<in> set rows" "owner r = k" by (auto dest: current_Some)
    have "find ?P (row_save key (set_ended (Some t) r) rows) = find ?P rows"
      unfolding row_save_def
    proof (rule find_map_cong)
      fix x assume "x \<in> set rows"
      then show "(if key x = key (set_ended (Some t) r) then set_ended (Some t) r else x) = x \<or>
          \<not> ?P x \<and> \<not> ?P (if key x = key (set_ended (Some t) r) then set_ended (Some t) r else x)"
        using one_current_same [OF assms(1) _ r(1), of x] r(2) assms(2) by auto
    qed
    with Some show ?thesis by (simp add: end_current_def)
  qed
  with assms(2,3) show ?thesis
    unfolding current_row_def row_add_def by (subst find_append_other) auto
qed

lemma one_current_restore:
  assumes "one_current key owner ended rows" "x \<in> set rows" "owner x = k" "ended x \<noteq> None"
  shows "one_current key owner ended (row_save key (set_ended None x) (end_current key owner ended set_ended k t rows))"
proof -
  let ?rows = "end_current key owner ended set_ended k t rows"
  have old: "one_current key owner ended ?rows" by (rule one_current_end [OF assms(1)])
  have no: "owner y \<noteq> k" if "y \<in> set ?rows" "ended y = None" for y
    using ended_none_left(2) [OF assms(1) that] .
  let ?new = "row_save key (set_ended None x) ?rows"
  have cases_new: "y = set_ended None x \<or> y \<in> set ?rows" if "y \<in> set ?new" for y
    using that row_save_set [of key "set_ended None x" ?rows] by blast
  show ?thesis
  proof (rule one_currentI)
    show "distinct (map key ?new)" using one_currentD(1) [OF old] by (simp only: row_save_keys)
    fix y z
    assume yz: "y \<in> set ?new" "z \<in> set ?new" "owner y = owner z" "ended y = None" "ended z = None"
    show "key y = key z"
      using cases_new [OF yz(1)] cases_new [OF yz(2)] no [of y] no [of z] yz(3-5) assms(3)
        one_currentD(2) [OF old, of y z] by auto
  qed
qed

end

text \<open>Both tables follow the contract.\<close>

interpretation proposal_rows: current_rows sp_id sp_case_id sp_superseded_at "\<lambda>t r. r\<lparr>sp_superseded_at := t\<rparr>"
  by unfold_locales simp_all

interpretation decision_rows: current_rows pd_id pd_case_id pd_superseded_at "\<lambda>t r. r\<lparr>pd_superseded_at := t\<rparr>"
  by unfold_locales simp_all

end
