(* ===== verification/Arc_Strategy.thy ===== *)
theory Arc_Strategy
  imports Arc_Assessment Arc_Current_Rows
begin

text \<open>
  Strategy generation, \<open>arc/intelligence\<close>: the bounded context built from current truth, the
  compatibility rules, the input fingerprint, and the two-transaction service that drops a
  proposal whose context changed while the model was asked. The model provider is a parameter.
\<close>

section \<open>Compatibility rules\<close>

fun compatible_actions :: "RecoveryDisposition \<Rightarrow> RecoveryAction set" where
  "compatible_actions RecoveryDisposition.CUSTOMER_ACTION_REQUIRED =
     {RecoveryAction.REQUEST_RETRY, RecoveryAction.CREATE_RECOVERY_LINK, RecoveryAction.REQUEST_PAYMENT_METHOD_UPDATE, RecoveryAction.WAIT, RecoveryAction.ESCALATE_TO_HUMAN}"
| "compatible_actions RecoveryDisposition.RETRY_LATER =
     {RecoveryAction.WAIT, RecoveryAction.REQUEST_RETRY, RecoveryAction.ESCALATE_TO_HUMAN}"
| "compatible_actions RecoveryDisposition.ALTERNATE_METHOD_PREFERRED =
     {RecoveryAction.REQUEST_PAYMENT_METHOD_UPDATE, RecoveryAction.CREATE_RECOVERY_LINK, RecoveryAction.ESCALATE_TO_HUMAN}"
| "compatible_actions RecoveryDisposition.RECOVERY_STRATEGY_REQUIRED =
     {RecoveryAction.REQUEST_RETRY, RecoveryAction.CREATE_RECOVERY_LINK, RecoveryAction.REQUEST_PAYMENT_METHOD_UPDATE, RecoveryAction.ESCALATE_TO_HUMAN}"
| "compatible_actions RecoveryDisposition.MANUAL_REVIEW =
     {RecoveryAction.ESCALATE_TO_HUMAN}"
| "compatible_actions RecoveryDisposition.MERCHANT_FIX_REQUIRED =
     {RecoveryAction.ESCALATE_TO_HUMAN}"
| "compatible_actions RecoveryDisposition.UNKNOWN =
     {RecoveryAction.ESCALATE_TO_HUMAN}"

definition is_action_compatible :: "RecoveryDisposition \<Rightarrow> RecoveryAction \<Rightarrow> bool" where
  "is_action_compatible disposition action \<longleftrightarrow> action \<in> compatible_actions disposition"

fun ai_reason_code :: "RecoveryAction \<Rightarrow> string" where
  "ai_reason_code RecoveryAction.NO_ACTION = ''AI_PROPOSED_NO_ACTION''"
| "ai_reason_code RecoveryAction.WAIT = ''AI_PROPOSED_WAIT''"
| "ai_reason_code RecoveryAction.REQUEST_RETRY = ''AI_PROPOSED_REQUEST_RETRY''"
| "ai_reason_code RecoveryAction.CREATE_RECOVERY_LINK = ''AI_PROPOSED_CREATE_RECOVERY_LINK''"
| "ai_reason_code RecoveryAction.REQUEST_PAYMENT_METHOD_UPDATE = ''AI_PROPOSED_PAYMENT_METHOD_UPDATE''"
| "ai_reason_code RecoveryAction.ESCALATE_TO_HUMAN = ''AI_PROPOSED_HUMAN_ESCALATION''"

record rule_strategy =
  rs_action :: RecoveryAction
  rs_reason_code :: string
  rs_explanation :: string

fun rule_strategy_for :: "RecoveryDisposition \<Rightarrow> rule_strategy option" where
  "rule_strategy_for RecoveryDisposition.MANUAL_REVIEW = Some \<lparr>rs_action = RecoveryAction.ESCALATE_TO_HUMAN,
     rs_reason_code = ''RULE_MANUAL_REVIEW_REQUIRED'', rs_explanation = ''Deterministic assessment requires operator review.''\<rparr>"
| "rule_strategy_for RecoveryDisposition.MERCHANT_FIX_REQUIRED = Some \<lparr>rs_action = RecoveryAction.ESCALATE_TO_HUMAN,
     rs_reason_code = ''RULE_MERCHANT_FIX_REQUIRED'', rs_explanation = ''Merchant-side configuration requires operator action.''\<rparr>"
| "rule_strategy_for RecoveryDisposition.UNKNOWN = Some \<lparr>rs_action = RecoveryAction.ESCALATE_TO_HUMAN,
     rs_reason_code = ''RULE_UNKNOWN_DISPOSITION_ESCALATION'', rs_explanation = ''The recovery disposition is unknown and must be reviewed.''\<rparr>"
| "rule_strategy_for _ = None"

section \<open>Context\<close>

record strategy_output =
  so_action :: RecoveryAction
  so_explanation :: string
  so_confidence :: string
  so_re_evaluate_after_seconds :: "int option"

record strategy_model_result =
  mr_output :: strategy_output
  mr_provider_response_id :: string
  mr_model :: string
  mr_input_tokens :: "int option"
  mr_output_tokens :: "int option"
  mr_total_tokens :: "int option"
  mr_latency_ms :: int

record strategy_context =
  sc_amount_minor :: "int option"
  sc_currency :: "string option"
  sc_payment_method :: "string option"
  sc_payment_status :: "string option"
  sc_subscription_status :: "string option"
  sc_failure_category :: FailureCategory
  sc_recovery_disposition :: RecoveryDisposition
  sc_diagnosis_reason_code :: string
  sc_error_reason :: "string option"
  sc_error_source :: "string option"
  sc_error_step :: "string option"
  sc_attempt_count :: int
  sc_recovery_kind :: string

definition bounded_context_text :: "string \<Rightarrow> bool" where
  "bounded_context_text s \<longleftrightarrow> 1 \<le> length s \<and> length s \<le> 100"

text \<open>The field constraints of the frozen, strict model.\<close>

definition strategy_context_valid :: "strategy_context \<Rightarrow> bool" where
  "strategy_context_valid x \<longleftrightarrow>
     opt_all (\<lambda>n. 0 \<le> n) (sc_amount_minor x) \<and> opt_all (\<lambda>s. length s = 3) (sc_currency x) \<and>
     opt_all bounded_context_text (sc_payment_method x) \<and> opt_all bounded_context_text (sc_payment_status x) \<and>
     opt_all bounded_context_text (sc_subscription_status x) \<and>
     bounded_context_text (sc_diagnosis_reason_code x) \<and>
     opt_all bounded_context_text (sc_error_reason x) \<and> opt_all bounded_context_text (sc_error_source x) \<and>
     opt_all bounded_context_text (sc_error_step x) \<and> 0 \<le> sc_attempt_count x \<and>
     sc_recovery_kind x \<in> {''payment'', ''subscription''}"

definition required_assessment_fingerprint :: "payment_case \<Rightarrow> arc_error + string" where
  "required_assessment_fingerprint c = (case pc_assessment_fingerprint c of
       None \<Rightarrow> Inl (StrategyNotAllowedError ''Current deterministic assessment is missing'')
     | Some f \<Rightarrow> Inr f)"

definition build_strategy_context :: "payment_case \<Rightarrow> arc_error + strategy_context" where
  "build_strategy_context c =
    (case (pc_failure_category c, pc_recovery_disposition c, pc_diagnosis_reason_code c) of
       (Some category, Some disposition, Some reason) \<Rightarrow>
         let payment_status = normalized (pc_razorpay_payment_status c);
             x = \<lparr>sc_amount_minor = pc_amount c,
               sc_currency = map_option (\<lambda>s. py_upper (py_strip s)) (pc_currency c),
               sc_payment_method = normalized (pc_razorpay_payment_method c),
               sc_payment_status = payment_status,
               sc_subscription_status = normalized (pc_razorpay_subscription_status c),
               sc_failure_category = category, sc_recovery_disposition = disposition,
               sc_diagnosis_reason_code = reason,
               sc_error_reason = normalized (pc_error_reason c),
               sc_error_source = normalized (pc_error_source c),
               sc_error_step = normalized (pc_error_step c),
               sc_attempt_count = pc_attempt_count c,
               sc_recovery_kind = (if payment_status \<noteq> None then ''payment'' else ''subscription'')\<rparr>
         in if strategy_context_valid x then Inr x
            else Inl (StrategyNotAllowedError ''Strategy context could not be built safely'')
     | _ \<Rightarrow> Inl (StrategyNotAllowedError ''Current deterministic diagnosis is missing''))"

definition validate_strategy_context ::
  "(string \<Rightarrow> string) \<Rightarrow> payment_case \<Rightarrow> py_datetime \<Rightarrow> arc_error + strategy_context" where
  "validate_strategy_context sha c now =
    (let eligibility = assess_eligibility sha c now; diagnosis = classify_failure c in
     if el_decision eligibility \<noteq> EligibilityDecision.ELIGIBLE then
       Inl (StrategyNotAllowedError ''Current deterministic eligibility does not allow strategy'')
     else if pc_eligibility_status c \<noteq> Some EligibilityDecision.ELIGIBLE \<or>
       pc_eligibility_reason_code c \<noteq> Some (el_reason_code eligibility) \<or>
       pc_assessment_fingerprint c \<noteq> Some (el_assessment_fingerprint eligibility) \<or>
       pc_eligibility_evaluated_at c = None \<or> pc_failure_category c = None \<or>
       pc_recovery_disposition c = None \<or> pc_diagnosis_reason_code c = None \<or> pc_diagnosed_at c = None then
       Inl (StrategyNotAllowedError ''Current deterministic assessment is missing or stale'')
     else if pc_failure_category c \<noteq> Some (dg_failure_category diagnosis) \<or>
       pc_recovery_disposition c \<noteq> Some (dg_recovery_disposition diagnosis) \<or>
       pc_diagnosis_reason_code c \<noteq> Some (dg_diagnosis_reason_code diagnosis) then
       Inl (StrategyNotAllowedError ''Current deterministic diagnosis is missing or stale'')
     else build_strategy_context c)"

section \<open>Fingerprint\<close>

definition STRATEGY_PROMPT_VERSION :: string where
  "STRATEGY_PROMPT_VERSION = ''arc-strategy-v1''"

definition STRATEGY_RULESET_VERSION :: string where
  "STRATEGY_RULESET_VERSION = ''arc-strategy-rules-v1''"

definition strategy_context_json :: "strategy_context \<Rightarrow> json" where
  "strategy_context_json x = JObj
    [(''amount_minor'', jopt JInt (sc_amount_minor x)),
     (''currency'', jopt JStr (sc_currency x)),
     (''payment_method'', jopt JStr (sc_payment_method x)),
     (''payment_status'', jopt JStr (sc_payment_status x)),
     (''subscription_status'', jopt JStr (sc_subscription_status x)),
     (''failure_category'', JStr (failure_category_value (sc_failure_category x))),
     (''recovery_disposition'', JStr (disposition_value (sc_recovery_disposition x))),
     (''diagnosis_reason_code'', JStr (sc_diagnosis_reason_code x)),
     (''error_reason'', jopt JStr (sc_error_reason x)),
     (''error_source'', jopt JStr (sc_error_source x)),
     (''error_step'', jopt JStr (sc_error_step x)),
     (''attempt_count'', JInt (sc_attempt_count x)),
     (''recovery_kind'', JStr (sc_recovery_kind x))]"

definition strategy_facts :: "string \<times> strategy_context \<times> string option \<Rightarrow> json" where
  "strategy_facts = (\<lambda>(assessment_fingerprint, context, model). JObj
    [(''assessment_fingerprint'', JStr assessment_fingerprint),
     (''prompt_version'', JStr STRATEGY_PROMPT_VERSION),
     (''strategy_ruleset_version'', JStr STRATEGY_RULESET_VERSION),
     (''model'', jopt JStr model),
     (''context'', strategy_context_json context)])"

definition build_strategy_input_fingerprint ::
  "(string \<Rightarrow> string) \<Rightarrow> string \<Rightarrow> strategy_context \<Rightarrow> string option \<Rightarrow> string" where
  "build_strategy_input_fingerprint sha assessment_fingerprint context model =
     sha (json_dumps True (strategy_facts (assessment_fingerprint, context, model)))"

interpretation strategy_fp: fingerprinted strategy_facts True
  by unfold_locales (auto simp: strategy_facts_def strategy_context_json_def)

section \<open>Audit\<close>

definition STRATEGY_AUDIT_SOURCE :: string where
  "STRATEGY_AUDIT_SOURCE = ''STRATEGY_ENGINE''"

definition strategy_event :: "payment_case \<Rightarrow> string \<Rightarrow> json_dict \<Rightarrow> arc_db \<Rightarrow> arc_db" where
  "strategy_event c event_type event_data db =
     add_event \<lparr>ce_case_id = pc_id c, ce_event_type = event_type, ce_source = STRATEGY_AUDIT_SOURCE,
       ce_event_data = JObj event_data\<rparr> db"

definition append_generation_failure ::
  "payment_case \<Rightarrow> string \<Rightarrow> string \<Rightarrow> string option \<Rightarrow> string \<Rightarrow> arc_db \<Rightarrow> arc_db" where
  "append_generation_failure c assessment_fp input_fp model reason =
     strategy_event c ''STRATEGY_GENERATION_FAILED''
       [(''reason_code'', JStr reason), (''assessment_fingerprint'', JStr assessment_fp),
        (''strategy_input_fingerprint'', JStr input_fp), (''model'', jopt JStr model),
        (''prompt_version'', JStr STRATEGY_PROMPT_VERSION),
        (''case_state'', JStr (case_state_value (pc_current_state c)))]"

definition proposal_audit_data :: "strategy_proposal \<Rightarrow> CaseState \<Rightarrow> CaseState \<Rightarrow> json_dict" where
  "proposal_audit_data p previous_state new_state =
     [(''proposal_id'', JStr (uuid_str (sp_id p))), (''source'', JStr (strategy_source_value (sp_source p))),
      (''action'', JStr (action_value (sp_action p))), (''reason_code'', JStr (sp_reason_code p)),
      (''assessment_fingerprint'', JStr (sp_assessment_fingerprint p)),
      (''strategy_input_fingerprint'', JStr (sp_strategy_input_fingerprint p)),
      (''model'', jopt JStr (sp_model p)), (''prompt_version'', JStr (sp_prompt_version p)),
      (''confidence'', jopt JFloat (sp_confidence p)), (''latency_ms'', jopt JInt (sp_latency_ms p)),
      (''input_tokens'', jopt JInt (sp_input_tokens p)), (''output_tokens'', jopt JInt (sp_output_tokens p)),
      (''total_tokens'', jopt JInt (sp_total_tokens p)),
      (''previous_state'', JStr (case_state_value previous_state)),
      (''new_state'', JStr (case_state_value new_state))]"

definition append_generated :: "payment_case \<Rightarrow> strategy_proposal \<Rightarrow> CaseState \<Rightarrow> arc_db \<Rightarrow> arc_db" where
  "append_generated c p previous_state =
     strategy_event c
       (if previous_state = CaseState.DECISIONED then ''STRATEGY_REGENERATED''
        else if sp_source p = StrategySource.RULE then ''STRATEGY_RULE_GENERATED'' else ''STRATEGY_GENERATED'')
       (proposal_audit_data p previous_state (pc_current_state c))"

definition append_rejected ::
  "payment_case \<Rightarrow> string \<Rightarrow> string \<Rightarrow> StrategySource \<Rightarrow> RecoveryAction \<Rightarrow> string option \<Rightarrow> arc_db \<Rightarrow> arc_db" where
  "append_rejected c assessment_fp input_fp src action model =
     strategy_event c ''STRATEGY_PROPOSAL_REJECTED''
       [(''reason_code'', JStr ''STRATEGY_INCOMPATIBLE_WITH_DIAGNOSIS''),
        (''source'', JStr (strategy_source_value src)), (''action'', JStr (action_value action)),
        (''assessment_fingerprint'', JStr assessment_fp), (''strategy_input_fingerprint'', JStr input_fp),
        (''model'', jopt JStr model), (''prompt_version'', JStr STRATEGY_PROMPT_VERSION),
        (''case_state'', JStr (case_state_value (pc_current_state c)))]"

definition append_stale_context ::
  "payment_case \<Rightarrow> string \<Rightarrow> string \<Rightarrow> StrategySource \<Rightarrow> RecoveryAction option \<Rightarrow> string option \<Rightarrow> arc_db \<Rightarrow> arc_db" where
  "append_stale_context c assessment_fp input_fp src action model =
     strategy_event c ''STRATEGY_DISCARDED_STALE_CONTEXT''
       [(''reason_code'', JStr ''STRATEGY_DISCARDED_STALE_CONTEXT''),
        (''source'', JStr (strategy_source_value src)),
        (''action'', jopt (\<lambda>a. JStr (action_value a)) action),
        (''assessment_fingerprint'', JStr assessment_fp), (''strategy_input_fingerprint'', JStr input_fp),
        (''model'', jopt JStr model), (''prompt_version'', JStr STRATEGY_PROMPT_VERSION),
        (''case_state'', JStr (case_state_value (pc_current_state c)))]"

section \<open>The service\<close>

record strategy_result =
  sg_proposal_id :: uuid
  sg_case_id :: uuid
  sg_case_state :: CaseState
  sg_source :: StrategySource
  sg_action :: RecoveryAction
  sg_reason_code :: string
  sg_explanation :: string
  sg_confidence :: "string option"
  sg_re_evaluate_after_seconds :: "int option"
  sg_assessment_fingerprint :: string
  sg_strategy_input_fingerprint :: string
  sg_idempotent :: bool

record strategy_snapshot =
  ss_case_id :: uuid
  ss_assessment_fingerprint :: string
  ss_context :: strategy_context
  ss_strategy_input_fingerprint :: string
  ss_configured_model :: "string option"
  ss_rule_strategy :: "rule_strategy option"

text \<open>
  What the service is built with: the name of the configured model, and the provider call, which
  returns a validated result or raises. The provider's client is not modelled.
\<close>

record strategy_env =
  se_model :: string
  se_propose :: "strategy_context \<Rightarrow> arc_error + strategy_model_result"

fun is_strategy_error :: "arc_error \<Rightarrow> bool" where
  "is_strategy_error (StrategyConfigurationError m) = True"
| "is_strategy_error (StrategyAuthenticationError m) = True"
| "is_strategy_error (StrategyRateLimitError m) = True"
| "is_strategy_error (StrategyUnavailableError m) = True"
| "is_strategy_error (StrategyInvalidOutputError m) = True"
| "is_strategy_error (StrategyRefusalError m) = True"
| "is_strategy_error (StrategyNotAllowedError m) = True"
| "is_strategy_error (StrategyStaleContextError m) = True"
| "is_strategy_error _ = False"

fun strategy_error_reason :: "arc_error \<Rightarrow> string" where
  "strategy_error_reason (StrategyConfigurationError m) = ''STRATEGY_CONFIGURATION_ERROR''"
| "strategy_error_reason (StrategyAuthenticationError m) = ''STRATEGY_AUTHENTICATION_FAILED''"
| "strategy_error_reason (StrategyRateLimitError m) = ''STRATEGY_RATE_LIMITED''"
| "strategy_error_reason (StrategyUnavailableError m) = ''STRATEGY_PROVIDER_UNAVAILABLE''"
| "strategy_error_reason (StrategyInvalidOutputError m) = ''STRATEGY_INVALID_OUTPUT''"
| "strategy_error_reason (StrategyRefusalError m) = ''STRATEGY_MODEL_REFUSED''"
| "strategy_error_reason (StrategyNotAllowedError m) = ''STRATEGY_NOT_ALLOWED''"
| "strategy_error_reason (StrategyStaleContextError m) = ''STRATEGY_DISCARDED_STALE_CONTEXT''"
| "strategy_error_reason _ = ''STRATEGY_ERROR''"

definition find_identical_proposal :: "uuid \<Rightarrow> string \<Rightarrow> arc_db \<Rightarrow> strategy_proposal option" where
  "find_identical_proposal case_id fp db =
     find (\<lambda>p. sp_case_id p = case_id \<and> sp_strategy_input_fingerprint p = fp) (db_proposals db)"

definition find_current_proposal :: "uuid \<Rightarrow> arc_db \<Rightarrow> strategy_proposal option" where
  "find_current_proposal case_id db = current_row sp_case_id sp_superseded_at case_id (db_proposals db)"

definition validate_generation_state :: "payment_case \<Rightarrow> arc_db \<Rightarrow> bool" where
  "validate_generation_state c db \<longleftrightarrow>
     pc_current_state c = CaseState.DIAGNOSED \<or>
     pc_current_state c = CaseState.DECISIONED \<and>
       (case (find_current_proposal (pc_id c) db, pc_assessment_fingerprint c) of
          (Some current, Some f) \<Rightarrow> sp_assessment_fingerprint current \<noteq> f | _ \<Rightarrow> False)"

definition generation_state_error :: arc_error where
  "generation_state_error = StrategyNotAllowedError ''Case state does not allow strategy generation''"

definition strategy_view :: "strategy_proposal \<Rightarrow> CaseState \<Rightarrow> bool \<Rightarrow> strategy_result" where
  "strategy_view p case_state idempotent =
     \<lparr>sg_proposal_id = sp_id p, sg_case_id = sp_case_id p, sg_case_state = case_state, sg_source = sp_source p,
      sg_action = sp_action p, sg_reason_code = sp_reason_code p, sg_explanation = sp_explanation p,
      sg_confidence = sp_confidence p, sg_re_evaluate_after_seconds = sp_re_evaluate_after_seconds p,
      sg_assessment_fingerprint = sp_assessment_fingerprint p,
      sg_strategy_input_fingerprint = sp_strategy_input_fingerprint p, sg_idempotent = idempotent\<rparr>"

definition configured_model :: "strategy_env \<Rightarrow> arc_error + string" where
  "configured_model env =
    (if se_model env = [] \<or> 100 < length (se_model env)
     then Inl (StrategyConfigurationError ''OpenAI strategy model configuration is invalid'')
     else Inr (se_model env))"

definition prepare_snapshot ::
  "(string \<Rightarrow> string) \<Rightarrow> strategy_env \<Rightarrow> uuid \<Rightarrow> py_datetime \<Rightarrow> arc_db \<Rightarrow>
     arc_error + (strategy_result + strategy_snapshot)" where
  "prepare_snapshot sha env case_id now db =
    (case find_case case_id db of
       None \<Rightarrow> Inl (StrategyCaseNotFoundError ''Payment case was not found'')
     | Some payment_case \<Rightarrow>
       sbind (validate_strategy_context sha payment_case now) (\<lambda>context.
         let rule = rule_strategy_for (sc_recovery_disposition context) in
         sbind (if rule \<noteq> None then Inr None
                else sbind (configured_model env) (\<lambda>m. Inr (Some m))) (\<lambda>model.
           sbind (required_assessment_fingerprint payment_case) (\<lambda>assessment_fp.
             let input_fp = build_strategy_input_fingerprint sha assessment_fp context model in
             case find_identical_proposal case_id input_fp db of
               Some existing \<Rightarrow> Inr (Inl (strategy_view existing (pc_current_state payment_case) True))
             | None \<Rightarrow>
               if \<not> validate_generation_state payment_case db then Inl generation_state_error
               else Inr (Inr \<lparr>ss_case_id = case_id, ss_assessment_fingerprint = assessment_fp,
                      ss_context = context, ss_strategy_input_fingerprint = input_fp,
                      ss_configured_model = model, ss_rule_strategy = rule\<rparr>)))))"

definition chosen_action :: "strategy_snapshot \<Rightarrow> strategy_model_result option \<Rightarrow> arc_error + RecoveryAction" where
  "chosen_action snap model_result =
    (case ss_rule_strategy snap of Some rule \<Rightarrow> Inr (rs_action rule)
     | None \<Rightarrow> (case model_result of Some mr \<Rightarrow> Inr (so_action (mr_output mr))
         | None \<Rightarrow> Inl (PyRuntimeError ''AI strategy did not provide a model result'')))"

definition snapshot_source :: "strategy_snapshot \<Rightarrow> StrategySource" where
  "snapshot_source snap = (if ss_rule_strategy snap \<noteq> None then StrategySource.RULE else StrategySource.AI)"

definition result_model :: "strategy_snapshot \<Rightarrow> strategy_model_result option \<Rightarrow> string option" where
  "result_model snap model_result = (case model_result of Some mr \<Rightarrow> Some (mr_model mr)
     | None \<Rightarrow> ss_configured_model snap)"

definition audit_stale_context ::
  "payment_case \<Rightarrow> strategy_snapshot \<Rightarrow> strategy_model_result option \<Rightarrow> arc_db \<Rightarrow> arc_db" where
  "audit_stale_context c snap model_result =
     append_stale_context c (ss_assessment_fingerprint snap) (ss_strategy_input_fingerprint snap)
       (snapshot_source snap)
       (case model_result of Some mr \<Rightarrow> Some (so_action (mr_output mr))
        | None \<Rightarrow> map_option rs_action (ss_rule_strategy snap))
       (result_model snap model_result)"

definition build_proposal ::
  "strategy_snapshot \<Rightarrow> RecoveryAction \<Rightarrow> strategy_model_result option \<Rightarrow> uuid \<Rightarrow> strategy_proposal" where
  "build_proposal snap action model_result new_id =
    (let bare = \<lparr>sp_id = new_id, sp_case_id = ss_case_id snap,
           sp_assessment_fingerprint = ss_assessment_fingerprint snap,
           sp_strategy_input_fingerprint = ss_strategy_input_fingerprint snap, sp_source = StrategySource.RULE,
           sp_action = action, sp_reason_code = [], sp_explanation = [], sp_confidence = None,
           sp_re_evaluate_after_seconds = None, sp_prompt_version = STRATEGY_PROMPT_VERSION, sp_model = None,
           sp_provider_response_id = None, sp_input_tokens = None, sp_output_tokens = None,
           sp_total_tokens = None, sp_latency_ms = None, sp_superseded_at = None\<rparr>
     in case ss_rule_strategy snap of
          Some rule \<Rightarrow> bare\<lparr>sp_reason_code := rs_reason_code rule, sp_explanation := rs_explanation rule\<rparr>
        | None \<Rightarrow> (case model_result of
            Some mr \<Rightarrow> bare\<lparr>sp_source := StrategySource.AI, sp_reason_code := ai_reason_code action,
              sp_explanation := so_explanation (mr_output mr), sp_confidence := Some (so_confidence (mr_output mr)),
              sp_re_evaluate_after_seconds := so_re_evaluate_after_seconds (mr_output mr),
              sp_model := Some (mr_model mr), sp_provider_response_id := Some (mr_provider_response_id mr),
              sp_input_tokens := mr_input_tokens mr, sp_output_tokens := mr_output_tokens mr,
              sp_total_tokens := mr_total_tokens mr, sp_latency_ms := Some (mr_latency_ms mr)\<rparr>
          | None \<Rightarrow> bare))"

text \<open>The accepted proposal replaces the current one and moves a diagnosed case on.\<close>

definition supersede_proposal :: "uuid \<Rightarrow> py_datetime \<Rightarrow> arc_db \<Rightarrow> arc_db" where
  "supersede_proposal case_id t db = db\<lparr>db_proposals :=
     end_current sp_id sp_case_id sp_superseded_at (\<lambda>t r. r\<lparr>sp_superseded_at := t\<rparr>) case_id t (db_proposals db)\<rparr>"

definition accept_proposal ::
  "payment_case \<Rightarrow> strategy_proposal \<Rightarrow> py_datetime \<Rightarrow> arc_db \<Rightarrow> arc_error + strategy_result \<times> arc_db" where
  "accept_proposal c proposal persisted_at db =
    (let previous_state = pc_current_state c;
         db1 = add_proposal proposal (supersede_proposal (pc_id c) persisted_at db)
     in sbind (if previous_state = CaseState.DIAGNOSED then
                 move_case c CaseState.DECISIONED ''STRATEGY_PROPOSAL_ACCEPTED'' STRATEGY_AUDIT_SOURCE
                   [(''proposal_id'', JStr (uuid_str (sp_id proposal))),
                    (''strategy_input_fingerprint'', JStr (sp_strategy_input_fingerprint proposal))] db1
               else Inr (c, db1))
          (\<lambda>(c', db2). Inr (strategy_view proposal (pc_current_state c') False,
             save_case c' (append_generated c' proposal previous_state db2))))"

definition persist_on_case ::
  "(string \<Rightarrow> string) \<Rightarrow> strategy_snapshot \<Rightarrow> strategy_model_result option \<Rightarrow> py_datetime \<Rightarrow> py_datetime \<Rightarrow> uuid \<Rightarrow>
     payment_case \<Rightarrow> arc_db \<Rightarrow> (arc_error + strategy_result) \<times> arc_db" where
  "persist_on_case sha snap model_result now persisted_at new_id c db =
    (let stale = (Inl (StrategyStaleContextError ''Strategy proposal was discarded because case truth changed''),
                  audit_stale_context c snap model_result db)
     in case sbind (validate_strategy_context sha c now) (\<lambda>context.
              sbind (required_assessment_fingerprint c) (\<lambda>fp. Inr (context, fp))) of
          Inl e \<Rightarrow> if is_strategy_error e then stale else (Inl e, db)
        | Inr (context, assessment_fp) \<Rightarrow>
          if assessment_fp \<noteq> ss_assessment_fingerprint snap \<or> context \<noteq> ss_context snap \<or>
             build_strategy_input_fingerprint sha assessment_fp context (ss_configured_model snap) \<noteq>
               ss_strategy_input_fingerprint snap
          then stale
          else case find_identical_proposal (ss_case_id snap) (ss_strategy_input_fingerprint snap) db of
              Some existing \<Rightarrow> (Inr (strategy_view existing (pc_current_state c) True), db)
            | None \<Rightarrow>
              if \<not> validate_generation_state c db then (Inl generation_state_error, db)
              else (case chosen_action snap model_result of
                  Inl e \<Rightarrow> (Inl e, db)
                | Inr action \<Rightarrow>
                  if \<not> is_action_compatible (sc_recovery_disposition context) action then
                    (Inl (StrategyNotAllowedError ''Strategy proposal is incompatible with diagnosis''),
                     append_rejected c (ss_assessment_fingerprint snap) (ss_strategy_input_fingerprint snap)
                       (snapshot_source snap) action (result_model snap model_result) db)
                  else transaction db
                    (accept_proposal c (build_proposal snap action model_result new_id) persisted_at db)))"

definition persist_locked ::
  "(string \<Rightarrow> string) \<Rightarrow> strategy_snapshot \<Rightarrow> strategy_model_result option \<Rightarrow> py_datetime \<Rightarrow> py_datetime \<Rightarrow> uuid \<Rightarrow>
     arc_db \<Rightarrow> (arc_error + strategy_result) \<times> arc_db" where
  "persist_locked sha snap model_result now persisted_at new_id db =
    (case find_case (ss_case_id snap) db of
       None \<Rightarrow> (Inl (StrategyCaseNotFoundError ''Payment case was not found''), db)
     | Some c \<Rightarrow> persist_on_case sha snap model_result now persisted_at new_id c db)"

definition record_generation_failure :: "strategy_snapshot \<Rightarrow> string \<Rightarrow> arc_db \<Rightarrow> arc_db" where
  "record_generation_failure snap reason db =
    (case find_case (ss_case_id snap) db of
       None \<Rightarrow> db
     | Some c \<Rightarrow> append_generation_failure c (ss_assessment_fingerprint snap)
         (ss_strategy_input_fingerprint snap) (ss_configured_model snap) reason db)"

text \<open>
  The whole call. The case lock is released while the model is asked, so \<open>others\<close> stands for
  whatever other transactions commit in between; the clock is read once before and twice after.
\<close>

definition generate_strategy ::
  "(string \<Rightarrow> string) \<Rightarrow> strategy_env \<Rightarrow> uuid \<Rightarrow> py_datetime \<Rightarrow> py_datetime \<Rightarrow> py_datetime \<Rightarrow> uuid \<Rightarrow>
     (arc_db \<Rightarrow> arc_db) \<Rightarrow> arc_db \<Rightarrow> (arc_error + strategy_result) \<times> arc_db" where
  "generate_strategy sha env case_id t1 t2 t3 new_id others db =
    (case prepare_snapshot sha env case_id t1 db of
       Inl e \<Rightarrow> (Inl e, db)
     | Inr (Inl result) \<Rightarrow> (Inr result, db)
     | Inr (Inr snap) \<Rightarrow>
       if ss_rule_strategy snap \<noteq> None then persist_locked sha snap None t2 t3 new_id (others db)
       else (case se_propose env (ss_context snap) of
           Inr mr \<Rightarrow> persist_locked sha snap (Some mr) t2 t3 new_id (others db)
         | Inl e \<Rightarrow>
           if is_strategy_error e then (Inl e, record_generation_failure snap (strategy_error_reason e) (others db))
           else let safe = StrategyUnavailableError ''Strategy provider failed safely''
                in (Inl safe, record_generation_failure snap (strategy_error_reason safe) (others db))))"

section \<open>Facts\<close>

lemma validate_strategy_context_InrD:
  assumes "validate_strategy_context sha c now = Inr x"
  shows "el_decision (assess_eligibility sha c now) = EligibilityDecision.ELIGIBLE"
    "pc_assessment_fingerprint c = Some (build_assessment_fingerprint sha c)"
    "pc_failure_category c = Some (dg_failure_category (classify_failure c))"
    "pc_recovery_disposition c = Some (sc_recovery_disposition x)"
    "sc_recovery_disposition x = disposition_of (dg_failure_category (classify_failure c))"
    "sc_failure_category x = dg_failure_category (classify_failure c)"
    "sc_amount_minor x = pc_amount c" "sc_attempt_count x = pc_attempt_count c" "strategy_context_valid x"
  using assms
  by (auto simp: validate_strategy_context_def build_strategy_context_def Let_def split: if_splits option.splits)

lemma validate_strategy_context_InlD:
  "validate_strategy_context sha c now = Inl e \<Longrightarrow> \<exists>m. e = StrategyNotAllowedError m"
  by (auto simp: validate_strategy_context_def build_strategy_context_def Let_def split: if_splits option.splits)

lemma context_with_fingerprint:
  "sbind (validate_strategy_context sha c now) (\<lambda>context.
     sbind (required_assessment_fingerprint c) (\<lambda>fp. Inr (context, fp))) =
   (case validate_strategy_context sha c now of Inl e \<Rightarrow> Inl e
    | Inr context \<Rightarrow> Inr (context, build_assessment_fingerprint sha c))"
proof (cases "validate_strategy_context sha c now")
  case (Inr x)
  then show ?thesis using validate_strategy_context_InrD(2) [OF Inr] by (simp add: required_assessment_fingerprint_def)
qed simp

lemma only_events_strategy_event [simp]: "only_events_added db (strategy_event c t d db)"
  by (simp add: strategy_event_def)

lemma only_events_stale [simp]: "only_events_added db (audit_stale_context c snap mr db)"
  by (simp add: audit_stale_context_def append_stale_context_def)

lemma supersede_proposal_sel [simp]:
  "db_cases (supersede_proposal k t db) = db_cases db" "find_case j (supersede_proposal k t db) = find_case j db"
  "db_decisions (supersede_proposal k t db) = db_decisions db"
  "db_approvals (supersede_proposal k t db) = db_approvals db"
  "db_actions (supersede_proposal k t db) = db_actions db"
  "db_observations (supersede_proposal k t db) = db_observations db"
  "db_attributions (supersede_proposal k t db) = db_attributions db"
  "db_webhook_events (supersede_proposal k t db) = db_webhook_events db"
  "db_policies (supersede_proposal k t db) = db_policies db"
  by (simp_all add: supersede_proposal_def find_case_def)

lemma accept_proposal_InrE:
  assumes "accept_proposal c p t db = Inr (r, db')"
    and "pc_current_state c = CaseState.DIAGNOSED \<or> pc_current_state c = CaseState.DECISIONED"
  obtains db2 where "db' = save_case (c\<lparr>pc_current_state := CaseState.DECISIONED\<rparr>) db2"
    "only_events_added (add_proposal p (supersede_proposal (pc_id c) t db)) db2"
    "r = strategy_view p CaseState.DECISIONED False"
proof (cases "pc_current_state c = CaseState.DIAGNOSED")
  case True
  with assms(1) obtain c' db2 where m: "move_case c CaseState.DECISIONED ''STRATEGY_PROPOSAL_ACCEPTED''
        STRATEGY_AUDIT_SOURCE
        [(''proposal_id'', JStr (uuid_str (sp_id p))),
         (''strategy_input_fingerprint'', JStr (sp_strategy_input_fingerprint p))]
        (add_proposal p (supersede_proposal (pc_id c) t db)) = Inr (c', db2)"
    "r = strategy_view p (pc_current_state c') False" "db' = save_case c' (append_generated c' p (pc_current_state c) db2)"
    by (auto simp: accept_proposal_def Let_def)
  from move_case_InrD [OF m(1)] have c': "c' = c\<lparr>pc_current_state := CaseState.DECISIONED\<rparr>"
    and e: "only_events_added (add_proposal p (supersede_proposal (pc_id c) t db)) db2" by auto
  have "only_events_added db2 (append_generated c' p (pc_current_state c) db2)"
    by (simp add: append_generated_def)
  with c' e m(2,3) show thesis
    by (intro that [of "append_generated c' p (pc_current_state c) db2"]) (auto intro: only_events_added_trans)
next
  case False
  with assms have d: "pc_current_state c = CaseState.DECISIONED" by simp
  have same: "c\<lparr>pc_current_state := CaseState.DECISIONED\<rparr> = c" using d by simp
  show thesis
    using assms(1) d
    by (intro that [of "append_generated c p (pc_current_state c) (add_proposal p (supersede_proposal (pc_id c) t db))"])
      (auto simp: accept_proposal_def Let_def append_generated_def same)
qed

lemma persist_accepts:
  assumes "persist_locked sha snap mr now t new_id db = (Inr r, db')" "\<not> sg_idempotent r"
  obtains c action where "find_case (ss_case_id snap) db = Some c" "pc_id c = ss_case_id snap"
    "validate_strategy_context sha c now = Inr (ss_context snap)"
    "ss_assessment_fingerprint snap = build_assessment_fingerprint sha c"
    "find_identical_proposal (ss_case_id snap) (ss_strategy_input_fingerprint snap) db = None"
    "validate_generation_state c db" "chosen_action snap mr = Inr action"
    "is_action_compatible (sc_recovery_disposition (ss_context snap)) action"
    "accept_proposal c (build_proposal snap action mr new_id) t db = Inr (r, db')"
proof -
  obtain c where c: "find_case (ss_case_id snap) db = Some c"
    "persist_on_case sha snap mr now t new_id c db = (Inr r, db')"
    using assms(1) by (auto simp: persist_locked_def split: option.splits)
  have id: "pc_id c = ss_case_id snap" using cases_table.lookup_key [OF c(1)] .
  show thesis
  proof (cases "validate_strategy_context sha c now")
    case (Inl e)
    with c(2) show thesis
      using validate_strategy_context_InlD [OF Inl]
      by (auto simp: persist_on_case_def context_with_fingerprint)
  next
    case (Inr x)
    then have req: "required_assessment_fingerprint c = Inr (build_assessment_fingerprint sha c)"
      by (simp add: required_assessment_fingerprint_def validate_strategy_context_InrD(2))
    show thesis
    proof (rule that)
      show "find_case (ss_case_id snap) db = Some c" "pc_id c = ss_case_id snap" by fact+
      show "validate_strategy_context sha c now = Inr (ss_context snap)"
        "ss_assessment_fingerprint snap = build_assessment_fingerprint sha c"
        "find_identical_proposal (ss_case_id snap) (ss_strategy_input_fingerprint snap) db = None"
        "validate_generation_state c db"
        "chosen_action snap mr = Inr (THE a. chosen_action snap mr = Inr a)"
        "is_action_compatible (sc_recovery_disposition (ss_context snap)) (THE a. chosen_action snap mr = Inr a)"
        "accept_proposal c (build_proposal snap (THE a. chosen_action snap mr = Inr a) mr new_id) t db = Inr (r, db')"
        using c(2) Inr req assms(2)
        by (auto simp: persist_on_case_def context_with_fingerprint strategy_view_def Let_def
            split: if_splits option.splits sum.splits elim!: transaction_InrE)
    qed
  qed
qed

lemma one_current_added:
  assumes "one_current sp_id sp_case_id sp_superseded_at (db_proposals db)" "find_proposal (sp_id p) db = None"
  shows "one_current sp_id sp_case_id sp_superseded_at
      (db_proposals (add_proposal p (supersede_proposal (sp_case_id p) t db)))"
    "sp_superseded_at p = None \<Longrightarrow>
      find_current_proposal (sp_case_id p) (add_proposal p (supersede_proposal (sp_case_id p) t db)) = Some p"
proof -
  have rows: "db_proposals (add_proposal p (supersede_proposal (sp_case_id p) t db)) =
      row_add p (end_current sp_id sp_case_id sp_superseded_at (\<lambda>t r. r\<lparr>sp_superseded_at := t\<rparr>)
        (sp_case_id p) t (db_proposals db))"
    by (simp add: add_proposal_def supersede_proposal_def)
  have fresh: "sp_id p \<notin> sp_id ` set (db_proposals db)"
    using assms(2) by (simp only: proposals_table.lookup_None_iff not_False_eq_True)
  show "one_current sp_id sp_case_id sp_superseded_at
      (db_proposals (add_proposal p (supersede_proposal (sp_case_id p) t db)))"
    unfolding rows by (rule proposal_rows.one_current_replace [OF assms(1) fresh refl])
  show "sp_superseded_at p = None \<Longrightarrow>
      find_current_proposal (sp_case_id p) (add_proposal p (supersede_proposal (sp_case_id p) t db)) = Some p"
    unfolding find_current_proposal_def rows by (rule proposal_rows.current_replaced [OF assms(1) fresh refl])
qed

lemma build_proposal_sel [simp]:
  "sp_id (build_proposal snap a mr k) = k" "sp_case_id (build_proposal snap a mr k) = ss_case_id snap"
  "sp_superseded_at (build_proposal snap a mr k) = None" "sp_action (build_proposal snap a mr k) = a"
  "sp_assessment_fingerprint (build_proposal snap a mr k) = ss_assessment_fingerprint snap"
  "sp_strategy_input_fingerprint (build_proposal snap a mr k) = ss_strategy_input_fingerprint snap"
  by (simp_all add: build_proposal_def Let_def split: option.split)

section \<open>Properties\<close>

text \<open>
  C34. The fence. When the case row no longer carries the truth the snapshot was taken from, because
  its context no longer validates, or validates to another context, or its assessment fingerprint
  changed, then whatever the model answered is discarded: the call raises
  \<open>StrategyStaleContextError\<close>, and all it leaves behind is audit events.
\<close>

theorem stale_proposal_discarded:
  assumes "find_case (ss_case_id snap) db = Some c"
    and "validate_strategy_context sha c now \<noteq> Inr (ss_context snap) \<or>
      pc_assessment_fingerprint c \<noteq> Some (ss_assessment_fingerprint snap)"
  shows "\<exists>db'. persist_locked sha snap mr now t new_id db =
      (Inl (StrategyStaleContextError ''Strategy proposal was discarded because case truth changed''), db') \<and>
    only_events_added db db'"
proof (cases "validate_strategy_context sha c now")
  case (Inl e)
  then have "is_strategy_error e" using validate_strategy_context_InlD [OF Inl] by auto
  with assms(1) Inl show ?thesis
    by (auto simp: persist_locked_def persist_on_case_def context_with_fingerprint Let_def)
next
  case (Inr x)
  with assms(2) have "x \<noteq> ss_context snap \<or> build_assessment_fingerprint sha c \<noteq> ss_assessment_fingerprint snap"
    using validate_strategy_context_InrD(2) [OF Inr] by auto
  moreover have "required_assessment_fingerprint c = Inr (build_assessment_fingerprint sha c)"
    using validate_strategy_context_InrD(2) [OF Inr] by (simp add: required_assessment_fingerprint_def)
  ultimately show ?thesis
    using assms(1) Inr by (auto simp: persist_locked_def persist_on_case_def Let_def)
qed

definition sample_snapshot :: strategy_snapshot where
  "sample_snapshot = \<lparr>ss_case_id = 7, ss_assessment_fingerprint = ''old'',
     ss_context = \<lparr>sc_amount_minor = Some 5000, sc_currency = Some ''INR'', sc_payment_method = Some ''card'',
       sc_payment_status = Some ''failed'', sc_subscription_status = None,
       sc_failure_category = FailureCategory.CUSTOMER_AUTHENTICATION,
       sc_recovery_disposition = RecoveryDisposition.CUSTOMER_ACTION_REQUIRED,
       sc_diagnosis_reason_code = ''STRUCTURED_REASON_INCORRECT_OTP'', sc_error_reason = Some ''incorrect_otp'',
       sc_error_source = Some ''customer'', sc_error_step = None, sc_attempt_count = 0,
       sc_recovery_kind = ''payment''\<rparr>,
     ss_strategy_input_fingerprint = ''old'', ss_configured_model = Some ''m'', ss_rule_strategy = None\<rparr>"

theorem stale_proposal_discarded_witness:
  "\<exists>db'. persist_locked id sample_snapshot None sample_time sample_time 9 sample_db =
     (Inl (StrategyStaleContextError ''Strategy proposal was discarded because case truth changed''), db') \<and>
   only_events_added sample_db db'"
  by (rule stale_proposal_discarded [of _ _ sample_case])
    (simp_all add: sample_snapshot_def sample_db_def sample_case_def find_case_def row_find_def)

text \<open>
  What an accepted proposal is. When the service persists a new proposal, the case is still
  eligible and diagnosed as the snapshot says, the action is compatible with its disposition, the
  case was diagnosed or is being decided again under another assessment and is now decided, and
  the proposal is the one current proposal of the case, bound to the current assessment.
\<close>

lemma accepted_proposal:
  assumes "persist_locked sha snap mr now t new_id db = (Inr r, db')" "\<not> sg_idempotent r"
    and "one_current sp_id sp_case_id sp_superseded_at (db_proposals db)" "find_proposal new_id db = None"
  shows "\<exists>c p. find_case (ss_case_id snap) db = Some c \<and>
    el_decision (assess_eligibility sha c now) = EligibilityDecision.ELIGIBLE \<and>
    pc_current_state c \<in> {CaseState.DIAGNOSED, CaseState.DECISIONED} \<and>
    find_case (ss_case_id snap) db' = Some (c\<lparr>pc_current_state := CaseState.DECISIONED\<rparr>) \<and>
    find_current_proposal (ss_case_id snap) db' = Some p \<and> sp_id p = new_id \<and>
    sp_action p \<in> compatible_actions (disposition_of (dg_failure_category (classify_failure c))) \<and>
    pc_assessment_fingerprint c = Some (sp_assessment_fingerprint p) \<and>
    one_current sp_id sp_case_id sp_superseded_at (db_proposals db')"
  using assms(1,2)
proof (rule persist_accepts)
  fix c action
  let ?p = "build_proposal snap action mr new_id"
  assume c: "find_case (ss_case_id snap) db = Some c" "pc_id c = ss_case_id snap"
    and x: "validate_strategy_context sha c now = Inr (ss_context snap)"
    and fp: "ss_assessment_fingerprint snap = build_assessment_fingerprint sha c"
    and st: "validate_generation_state c db"
    and ok: "is_action_compatible (sc_recovery_disposition (ss_context snap)) action"
    and acc: "accept_proposal c ?p t db = Inr (r, db')"
  have state: "pc_current_state c = CaseState.DIAGNOSED \<or> pc_current_state c = CaseState.DECISIONED"
    using st by (auto simp: validate_generation_state_def)
  obtain db2 where db2: "db' = save_case (c\<lparr>pc_current_state := CaseState.DECISIONED\<rparr>) db2"
    "only_events_added (add_proposal ?p (supersede_proposal (pc_id c) t db)) db2"
    using accept_proposal_InrE [OF acc state] by metis
  have same: "db_proposals db' = db_proposals (add_proposal ?p (supersede_proposal (sp_case_id ?p) t db))"
    using db2 c(2) by (simp add: only_events_addedD)
  have "find_case (ss_case_id snap) db2 = Some c"
    using only_events_addedD(1) [OF db2(2)] c(1) by (simp add: find_case_def)
  then have "find_case (ss_case_id snap) db' = Some (c\<lparr>pc_current_state := CaseState.DECISIONED\<rparr>)"
    using db2(1) c(2) by (simp add: cases_table.lookup_saved)
  moreover have "find_current_proposal (ss_case_id snap) db' = Some ?p"
    "one_current sp_id sp_case_id sp_superseded_at (db_proposals db')"
    using one_current_added [OF assms(3), of ?p t] assms(4)
    unfolding find_current_proposal_def same by (simp_all add: find_current_proposal_def)
  ultimately show ?thesis
    using c x state ok fp validate_strategy_context_InrD [OF x]
    by (intro exI [of _ c] exI [of _ ?p]) (simp add: is_action_compatible_def)
qed

definition diagnosed_case :: payment_case where
  "diagnosed_case = sample_case\<lparr>pc_current_state := CaseState.DIAGNOSED,
     pc_eligibility_status := Some EligibilityDecision.ELIGIBLE,
     pc_eligibility_reason_code := Some ''PAYMENT_FAILURE_CONFIRMED'',
     pc_eligibility_evaluated_at := Some sample_time,
     pc_failure_category := Some FailureCategory.CUSTOMER_AUTHENTICATION,
     pc_recovery_disposition := Some RecoveryDisposition.CUSTOMER_ACTION_REQUIRED,
     pc_diagnosis_reason_code := Some ''STRUCTURED_REASON_INCORRECT_OTP'',
     pc_diagnosed_at := Some sample_time, pc_assessment_fingerprint := Some ''h''\<rparr>"

definition diagnosed_db :: arc_db where
  "diagnosed_db = empty_db\<lparr>db_cases := [diagnosed_case]\<rparr>"

definition sample_model_result :: strategy_model_result where
  "sample_model_result = \<lparr>mr_output = \<lparr>so_action = RecoveryAction.CREATE_RECOVERY_LINK, so_explanation = ''link'',
     so_confidence = ''0.8'', so_re_evaluate_after_seconds = None\<rparr>, mr_provider_response_id = ''r1'',
     mr_model = ''m'', mr_input_tokens = None, mr_output_tokens = None, mr_total_tokens = None, mr_latency_ms = 10\<rparr>"

definition sample_env :: strategy_env where
  "sample_env = \<lparr>se_model = ''m'', se_propose = (\<lambda>_. Inr sample_model_result)\<rparr>"

definition current_snapshot :: strategy_snapshot where
  "current_snapshot = sample_snapshot\<lparr>ss_assessment_fingerprint := ''h'', ss_strategy_input_fingerprint := ''h''\<rparr>"

text \<open>
  Asking twice. While the truth of the case is still the snapshot's, a second request returns
  the persisted proposal, marked idempotent, changes nothing and does not ask the model again.
\<close>

lemma find_ended_None:
  assumes "find P rows = None" "\<And>t r. P (set_ended t r) = P r"
  shows "find P (end_current key owner ended set_ended k t rows) = None"
proof (cases "current_row owner ended k rows")
  case None
  with assms show ?thesis by (simp add: end_current_def)
next
  case (Some r)
  then have "r \<in> set rows" by (auto simp: current_row_def find_Some_iff)
  with assms Some show ?thesis by (auto simp: end_current_def row_save_def find_None_iff)
qed

lemma find_last: "find P xs = None \<Longrightarrow> P a \<Longrightarrow> find P (xs @ [a]) = Some a"
  by (induction xs) (auto split: if_splits)

lemma persisted_is_identical:
  assumes "persist_locked sha snap mr now t new_id db = (Inr r, db')"
  shows "\<exists>p. find_identical_proposal (ss_case_id snap) (ss_strategy_input_fingerprint snap) db' = Some p \<and>
    sp_id p = sg_proposal_id r"
proof (cases "sg_idempotent r")
  case True
  obtain c where c: "find_case (ss_case_id snap) db = Some c"
    "persist_on_case sha snap mr now t new_id c db = (Inr r, db')"
    using assms by (auto simp: persist_locked_def split: option.splits)
  have fresh: False if "accept_proposal c p t db = Inr (r, db')" for p
    using that True by (auto simp: accept_proposal_def Let_def strategy_view_def)
  show ?thesis
    using c(2)
    by (auto simp: persist_on_case_def Let_def strategy_view_def
        split: sum.splits if_splits option.splits elim!: transaction_InrE dest: fresh)
next
  case False
  with assms show ?thesis
  proof (rule persist_accepts)
    fix c action
    let ?p = "build_proposal snap action mr new_id"
    assume c: "pc_id c = ss_case_id snap"
      and none: "find_identical_proposal (ss_case_id snap) (ss_strategy_input_fingerprint snap) db = None"
      and st: "validate_generation_state c db"
      and acc: "accept_proposal c ?p t db = Inr (r, db')"
    have "pc_current_state c = CaseState.DIAGNOSED \<or> pc_current_state c = CaseState.DECISIONED"
      using st by (auto simp: validate_generation_state_def)
    then obtain db2 where "db' = save_case (c\<lparr>pc_current_state := CaseState.DECISIONED\<rparr>) db2"
      "only_events_added (add_proposal ?p (supersede_proposal (pc_id c) t db)) db2"
      "r = strategy_view ?p CaseState.DECISIONED False" using accept_proposal_InrE [OF acc] by metis
    then have "db_proposals db' = db_proposals (add_proposal ?p (supersede_proposal (pc_id c) t db))"
      "r = strategy_view ?p CaseState.DECISIONED False" by (simp_all add: only_events_addedD)
    moreover have "find_identical_proposal (ss_case_id snap) (ss_strategy_input_fingerprint snap)
        (add_proposal ?p (supersede_proposal (pc_id c) t db)) = Some ?p"
      using none unfolding find_identical_proposal_def
      by (simp add: add_proposal_def supersede_proposal_def row_add_def find_last find_ended_None)
    ultimately show ?thesis by (simp add: find_identical_proposal_def strategy_view_def)
  qed
qed

lemma strategy_request_idempotent:
  assumes "prepare_snapshot sha env k t1 db0 = Inr (Inr snap)"
    and "persist_locked sha snap mr t2 t3 new_id db = (Inr r, db')"
    and "find_case k db' = Some c" "validate_strategy_context sha c t = Inr (ss_context snap)"
    and "pc_assessment_fingerprint c = Some (ss_assessment_fingerprint snap)"
  shows "\<exists>r'. generate_strategy sha env k t u v other_id others db' = (Inr r', db') \<and>
    sg_idempotent r' \<and> sg_proposal_id r' = sg_proposal_id r"
proof -
  have snap: "ss_case_id snap = k"
    "ss_rule_strategy snap = rule_strategy_for (sc_recovery_disposition (ss_context snap))"
    "(if ss_rule_strategy snap \<noteq> None then Inr None else sbind (configured_model env) (\<lambda>m. Inr (Some m))) =
       Inr (ss_configured_model snap)"
    "ss_strategy_input_fingerprint snap =
       build_strategy_input_fingerprint sha (ss_assessment_fingerprint snap) (ss_context snap) (ss_configured_model snap)"
    using assms(1)
    by (auto simp: prepare_snapshot_def Let_def split: option.splits if_splits)
  obtain p where p: "find_identical_proposal k (ss_strategy_input_fingerprint snap) db' = Some p"
    "sp_id p = sg_proposal_id r"
    using persisted_is_identical [OF assms(2)] snap(1) by auto
  have "prepare_snapshot sha env k t db' = Inr (Inl (strategy_view p (pc_current_state c) True))"
    unfolding prepare_snapshot_def assms(3,4) option.case sbind_simps Let_def snap(2) [symmetric] snap(3)
    by (simp add: required_assessment_fingerprint_def assms(5) snap(4) [symmetric] p(1))
  with p(2) show ?thesis by (simp add: generate_strategy_def strategy_view_def)
qed

end
