(* ===== verification/Arc_Authorization.thy ===== *)
theory Arc_Authorization
  imports Arc_Policy Arc_Strategy
begin

text \<open>
  The merchant authorization service: policy and authorization fingerprints
  (\<open>arc/policy/fingerprint.py\<close>), the recomputation of current authorization inputs that policy
  evaluation and execution share (\<open>arc/policy/current.py\<close>), and the transaction that persists one
  current decision per case (\<open>arc/policy/service.py\<close>, \<open>arc/policy/audit.py\<close>).
\<close>

section \<open>Policy fingerprint\<close>

definition POLICY_RULESET_VERSION :: string where
  "POLICY_RULESET_VERSION = ''arc-merchant-policy-v1''"

definition AUTHORIZATION_RULESET_VERSION :: string where
  "AUTHORIZATION_RULESET_VERSION = ''arc-authorization-v1''"

fun canonicalize_json :: "json \<Rightarrow> json" where
  "canonicalize_json (JObj kvs) = JObj (sort_key fst (map (\<lambda>(k, v). (k, canonicalize_json v)) kvs))"
| "canonicalize_json (JArr vs) = JArr (sort_key (json_dumps True) (map canonicalize_json vs))"
| "canonicalize_json v = v"

text \<open>\<open>sorted(member.value for member in members)\<close>\<close>

definition sorted_values :: "string set \<Rightarrow> json" where
  "sorted_values S = JArr (map JStr (sorted_list_of_set S))"

definition valid_policy_facts :: "policy_configuration \<Rightarrow> json" where
  "valid_policy_facts c = JObj
    [(''policy_status'', JStr ''valid''),
     (''policy_ruleset_version'', JStr POLICY_RULESET_VERSION),
     (''automation_enabled'', JBool (cf_automation_enabled c)),
     (''allowed_actions'', sorted_values (action_value ` cf_allowed_actions c)),
     (''max_automated_attempts'', JInt (cf_max_automated_attempts c)),
     (''max_contact_attempts'', JInt (cf_max_contact_attempts c)),
     (''recovery_window_minutes'', JInt (cf_recovery_window_minutes c)),
     (''high_value_threshold_minor'', JInt (cf_high_value_threshold_minor c)),
     (''require_approval_above_minor'', jopt JInt (cf_require_approval_above_minor c)),
     (''stopping_rules'', JObj
       [(''blocked_failure_categories'', sorted_values (failure_category_value ` cf_blocked_failure_categories c)),
        (''blocked_payment_methods'', sorted_values (cf_blocked_payment_methods c)),
        (''require_approval_actions'', sorted_values (action_value ` cf_require_approval_actions c))])]"

definition policy_facts :: "merchant_policy option \<Rightarrow> policy_configuration option \<Rightarrow> json" where
  "policy_facts policy configuration =
    (case policy of
       None \<Rightarrow> JObj [(''policy_status'', JStr ''policy_missing''),
                    (''policy_ruleset_version'', JStr POLICY_RULESET_VERSION)]
     | Some p \<Rightarrow> (case configuration of
         None \<Rightarrow> JObj
           [(''policy_status'', JStr ''policy_invalid''),
            (''policy_ruleset_version'', JStr POLICY_RULESET_VERSION),
            (''automation_enabled'', canonicalize_json (mp_automation_enabled p)),
            (''allowed_actions'', canonicalize_json (mp_allowed_actions p)),
            (''max_automated_attempts'', canonicalize_json (mp_max_automated_attempts p)),
            (''max_contact_attempts'', canonicalize_json (mp_max_contact_attempts p)),
            (''recovery_window_minutes'', canonicalize_json (mp_recovery_window_minutes p)),
            (''high_value_threshold_minor'', canonicalize_json (mp_high_value_threshold_minor p)),
            (''require_approval_above_minor'', canonicalize_json (mp_require_approval_above_minor p)),
            (''stopping_rules'', canonicalize_json (mp_stopping_rules p))]
       | Some c \<Rightarrow> valid_policy_facts c))"

definition build_policy_fingerprint ::
  "(string \<Rightarrow> string) \<Rightarrow> merchant_policy option \<Rightarrow> policy_configuration option \<Rightarrow> string" where
  "build_policy_fingerprint sha policy configuration = sha (json_dumps True (policy_facts policy configuration))"

section \<open>Authorization fingerprint\<close>

record authorization_inputs =
  ai_strategy_proposal_id :: uuid
  ai_strategy_input_fingerprint :: string
  ai_assessment_fingerprint :: string
  ai_policy_fingerprint :: string
  ai_action :: RecoveryAction
  ai_attempt_count :: int
  ai_contact_attempt_count :: int
  ai_amount_minor :: "int option"
  ai_failure_category :: "FailureCategory option"
  ai_payment_method :: "string option"
  ai_recovery_window_ends_at :: "py_datetime option"
  ai_recovery_window_expired :: "bool option"

definition authorization_facts_json :: "authorization_inputs \<Rightarrow> json" where
  "authorization_facts_json i = JObj
    [(''authorization_ruleset_version'', JStr AUTHORIZATION_RULESET_VERSION),
     (''strategy_proposal_id'', JStr (uuid_str (ai_strategy_proposal_id i))),
     (''strategy_input_fingerprint'', JStr (ai_strategy_input_fingerprint i)),
     (''assessment_fingerprint'', JStr (ai_assessment_fingerprint i)),
     (''policy_fingerprint'', JStr (ai_policy_fingerprint i)),
     (''action'', JStr (action_value (ai_action i))),
     (''attempt_count'', JInt (ai_attempt_count i)),
     (''contact_attempt_count'', JInt (ai_contact_attempt_count i)),
     (''amount_minor'', jopt JInt (ai_amount_minor i)),
     (''failure_category'', jopt (\<lambda>k. JStr (failure_category_value k)) (ai_failure_category i)),
     (''payment_method'', jopt JStr (normalized_method (ai_payment_method i))),
     (''recovery_window_ends_at'', jopt (\<lambda>d. JStr (dt_isoformat d)) (ai_recovery_window_ends_at i)),
     (''recovery_window_expired'', jopt JBool (ai_recovery_window_expired i))]"

definition build_authorization_input_fingerprint :: "(string \<Rightarrow> string) \<Rightarrow> authorization_inputs \<Rightarrow> string" where
  "build_authorization_input_fingerprint sha i = sha (json_dumps True (authorization_facts_json i))"

interpretation policy_fp: fingerprinted valid_policy_facts True
  by unfold_locales (auto simp: valid_policy_facts_def sorted_values_def)

interpretation authorization_fp: fingerprinted authorization_facts_json True
  by unfold_locales (auto simp: authorization_facts_json_def)

section \<open>Current inputs\<close>

record current_authorization =
  ca_merchant_policy :: "merchant_policy option"
  ca_configuration :: "policy_configuration option"
  ca_assessment_fingerprint :: string
  ca_policy_fingerprint :: string
  ca_authorization_input_fingerprint :: string
  ca_evaluation :: authorization_evaluation

definition validate_current_proposal ::
  "(string \<Rightarrow> string) \<Rightarrow> payment_case \<Rightarrow> strategy_proposal \<Rightarrow> py_datetime \<Rightarrow> arc_error option" where
  "validate_current_proposal sha c p evaluated_at =
    (let eligibility = assess_eligibility sha c evaluated_at; diagnosis = classify_failure c in
     if sp_case_id p \<noteq> pc_id c \<or> sp_superseded_at p \<noteq> None then
       Some (CurrentAuthorizationError ''Strategy proposal does not belong to the current case'')
     else if pc_assessment_fingerprint c \<noteq> Some (sp_assessment_fingerprint p) then
       Some (CurrentAuthorizationError ''Strategy proposal assessment is stale'')
     else if el_decision eligibility \<noteq> EligibilityDecision.ELIGIBLE \<or>
       pc_assessment_fingerprint c \<noteq> Some (el_assessment_fingerprint eligibility) \<or>
       pc_eligibility_status c \<noteq> Some EligibilityDecision.ELIGIBLE \<or>
       pc_eligibility_reason_code c \<noteq> Some (el_reason_code eligibility) then
       Some (CurrentAuthorizationError ''Strategy proposal no longer matches current eligibility'')
     else if pc_failure_category c \<noteq> Some (dg_failure_category diagnosis) \<or>
       pc_recovery_disposition c \<noteq> Some (dg_recovery_disposition diagnosis) \<or>
       pc_diagnosis_reason_code c \<noteq> Some (dg_diagnosis_reason_code diagnosis) then
       Some (CurrentAuthorizationError ''Strategy proposal no longer matches current diagnosis'')
     else None)"

definition validate_if_present :: "merchant_policy option \<Rightarrow> policy_configuration option" where
  "validate_if_present policy = (case policy of None \<Rightarrow> None
     | Some p \<Rightarrow> (case validate_policy p of Inr c \<Rightarrow> Some c | Inl e \<Rightarrow> None))"

definition find_policy :: "string \<Rightarrow> arc_db \<Rightarrow> merchant_policy option" where
  "find_policy merchant_id db = find (\<lambda>p. mp_merchant_id p = merchant_id) (db_policies db)"

definition current_facts :: "payment_case \<Rightarrow> strategy_proposal \<Rightarrow> py_datetime \<Rightarrow> authorization_facts" where
  "current_facts c p evaluated_at =
     \<lparr>af_action = sp_action p, af_amount_minor = pc_amount c, af_attempt_count = pc_attempt_count c,
      af_contact_attempt_count = pc_contact_attempt_count c, af_detected_at = pc_detected_at c,
      af_failure_category = pc_failure_category c, af_payment_method = pc_razorpay_payment_method c,
      af_evaluated_at = evaluated_at\<rparr>"

definition recompute_current_authorization_inputs ::
  "(string \<Rightarrow> string) \<Rightarrow> payment_case \<Rightarrow> strategy_proposal \<Rightarrow> py_datetime \<Rightarrow> arc_db \<Rightarrow>
     arc_error + current_authorization" where
  "recompute_current_authorization_inputs sha c p evaluated_at db =
    (if \<not> dt_aware evaluated_at then
       Inl (CurrentAuthorizationError ''Authorization clock must be timezone-aware'')
     else if \<not> dt_aware (pc_detected_at c) then
       Inl (CurrentAuthorizationError ''Case detected_at must be timezone-aware'')
     else case validate_current_proposal sha c p evaluated_at of
       Some e \<Rightarrow> Inl e
     | None \<Rightarrow>
       let policy = find_policy (pc_merchant_id c) db;
           configuration = validate_if_present policy;
           policy_fp = build_policy_fingerprint sha policy configuration;
           evaluation = evaluate_authorization (current_facts c p evaluated_at) (policy \<noteq> None) configuration
       in sbind (required_assessment_fingerprint c) (\<lambda>assessment_fp.
            Inr \<lparr>ca_merchant_policy = policy, ca_configuration = configuration,
              ca_assessment_fingerprint = assessment_fp, ca_policy_fingerprint = policy_fp,
              ca_authorization_input_fingerprint = build_authorization_input_fingerprint sha
                \<lparr>ai_strategy_proposal_id = sp_id p,
                 ai_strategy_input_fingerprint = sp_strategy_input_fingerprint p,
                 ai_assessment_fingerprint = assessment_fp, ai_policy_fingerprint = policy_fp,
                 ai_action = sp_action p, ai_attempt_count = pc_attempt_count c,
                 ai_contact_attempt_count = pc_contact_attempt_count c, ai_amount_minor = pc_amount c,
                 ai_failure_category = pc_failure_category c,
                 ai_payment_method = pc_razorpay_payment_method c,
                 ai_recovery_window_ends_at = av_recovery_window_ends_at evaluation,
                 ai_recovery_window_expired = av_recovery_window_expired evaluation\<rparr>,
              ca_evaluation = evaluation\<rparr>))"

section \<open>Audit\<close>

definition POLICY_AUDIT_SOURCE :: string where
  "POLICY_AUDIT_SOURCE = ''MERCHANT_POLICY''"

definition append_policy_audit ::
  "payment_case \<Rightarrow> policy_decision \<Rightarrow> RecoveryAction \<Rightarrow> CaseState \<Rightarrow> bool \<Rightarrow> arc_db \<Rightarrow> arc_db" where
  "append_policy_audit c d action previous_state reevaluated db =
     add_event \<lparr>ce_case_id = pc_id c,
       ce_event_type = (if reevaluated then ''POLICY_REEVALUATED''
         else (case pd_result d of
             PolicyDecisionResult.AUTHORIZED \<Rightarrow> ''POLICY_AUTHORIZED''
           | PolicyDecisionResult.REQUIRES_APPROVAL \<Rightarrow> ''POLICY_REQUIRES_APPROVAL''
           | PolicyDecisionResult.BLOCKED \<Rightarrow> ''POLICY_BLOCKED'')),
       ce_source = POLICY_AUDIT_SOURCE,
       ce_event_data = JObj
         [(''policy_decision_id'', JStr (uuid_str (pd_id d))),
          (''strategy_proposal_id'', JStr (uuid_str (pd_strategy_proposal_id d))),
          (''action'', JStr (action_value action)),
          (''result'', JStr (policy_result_value (pd_result d))),
          (''reason_code'', JStr (pd_reason_code d)),
          (''policy_fingerprint'', JStr (pd_policy_fingerprint d)),
          (''authorization_input_fingerprint'', JStr (pd_authorization_input_fingerprint d)),
          (''observed_amount_minor'', jopt JInt (pd_observed_amount_minor d)),
          (''approval_threshold_minor'', jopt JInt (pd_approval_threshold_minor d)),
          (''high_value_threshold_minor'', jopt JInt (pd_high_value_threshold_minor d)),
          (''observed_high_value'', jopt JBool (pd_observed_high_value d)),
          (''observed_attempt_count'', JInt (pd_observed_attempt_count d)),
          (''observed_contact_attempt_count'', JInt (pd_observed_contact_attempt_count d)),
          (''recovery_window_ends_at'', jopt (\<lambda>t. JStr (dt_isoformat t)) (pd_recovery_window_ends_at d)),
          (''previous_state'', JStr (case_state_value previous_state)),
          (''new_state'', JStr (case_state_value (pc_current_state c)))]\<rparr> db"

section \<open>The service\<close>

record policy_evaluation_result =
  pr_policy_decision_id :: uuid
  pr_case_id :: uuid
  pr_strategy_proposal_id :: uuid
  pr_case_state :: CaseState
  pr_action :: RecoveryAction
  pr_result :: PolicyDecisionResult
  pr_reason_code :: string
  pr_explanation :: string
  pr_policy_fingerprint :: string
  pr_authorization_input_fingerprint :: string
  pr_idempotent :: bool

definition HARD_STOP_REASONS :: "string set" where
  "HARD_STOP_REASONS = {''MAX_AUTOMATED_ATTEMPTS_REACHED'', ''MAX_CUSTOMER_CONTACTS_REACHED'',
     ''RECOVERY_WINDOW_EXPIRED'', ''STOPPING_RULE_FAILURE_CATEGORY'', ''STOPPING_RULE_PAYMENT_METHOD''}"

definition find_identical_decision :: "uuid \<Rightarrow> string \<Rightarrow> arc_db \<Rightarrow> policy_decision option" where
  "find_identical_decision case_id fp db =
     find (\<lambda>d. pd_case_id d = case_id \<and> pd_authorization_input_fingerprint d = fp) (db_decisions db)"

definition find_current_decision :: "uuid \<Rightarrow> arc_db \<Rightarrow> policy_decision option" where
  "find_current_decision case_id db = current_row pd_case_id pd_superseded_at case_id (db_decisions db)"

definition policy_view :: "policy_decision \<Rightarrow> payment_case \<Rightarrow> RecoveryAction \<Rightarrow> bool \<Rightarrow> policy_evaluation_result" where
  "policy_view d c action idempotent =
     \<lparr>pr_policy_decision_id = pd_id d, pr_case_id = pd_case_id d,
      pr_strategy_proposal_id = pd_strategy_proposal_id d, pr_case_state = pc_current_state c, pr_action = action,
      pr_result = pd_result d, pr_reason_code = pd_reason_code d, pr_explanation = pd_explanation d,
      pr_policy_fingerprint = pd_policy_fingerprint d,
      pr_authorization_input_fingerprint = pd_authorization_input_fingerprint d, pr_idempotent = idempotent\<rparr>"

definition build_decision ::
  "payment_case \<Rightarrow> strategy_proposal \<Rightarrow> current_authorization \<Rightarrow> py_datetime \<Rightarrow> uuid \<Rightarrow> policy_decision" where
  "build_decision c p inputs evaluated_at new_id =
    (let v = ca_evaluation inputs in
     \<lparr>pd_id = new_id, pd_case_id = pc_id c, pd_strategy_proposal_id = sp_id p,
      pd_merchant_policy_id = map_option mp_id (ca_merchant_policy inputs),
      pd_strategy_input_fingerprint = sp_strategy_input_fingerprint p,
      pd_policy_fingerprint = ca_policy_fingerprint inputs,
      pd_authorization_input_fingerprint = ca_authorization_input_fingerprint inputs,
      pd_result = av_result v, pd_reason_code = av_reason_code v, pd_explanation = av_explanation v,
      pd_recovery_window_ends_at = av_recovery_window_ends_at v,
      pd_approval_threshold_minor = av_approval_threshold_minor v,
      pd_high_value_threshold_minor = av_high_value_threshold_minor v,
      pd_observed_high_value = av_observed_high_value v, pd_observed_amount_minor = pc_amount c,
      pd_observed_attempt_count = pc_attempt_count c,
      pd_observed_contact_attempt_count = pc_contact_attempt_count c,
      pd_evaluated_at = evaluated_at, pd_superseded_at = None\<rparr>)"

definition policy_target :: "policy_decision \<Rightarrow> CaseState \<times> string" where
  "policy_target d =
    (if pd_result d = PolicyDecisionResult.AUTHORIZED then (CaseState.POLICY_VALIDATED, ''POLICY_AUTHORIZED'')
     else if pd_result d = PolicyDecisionResult.REQUIRES_APPROVAL then
       (CaseState.POLICY_VALIDATED, ''POLICY_REQUIRES_APPROVAL'')
     else if pd_reason_code d \<in> HARD_STOP_REASONS then (CaseState.EXHAUSTED, pd_reason_code d)
     else (CaseState.ESCALATED, pd_reason_code d))"

definition apply_policy_transition ::
  "payment_case \<Rightarrow> policy_decision \<Rightarrow> arc_db \<Rightarrow> arc_error + payment_case \<times> arc_db" where
  "apply_policy_transition c d db =
     move_case c (fst (policy_target d)) (snd (policy_target d)) POLICY_AUDIT_SOURCE
       [(''policy_decision_id'', JStr (uuid_str (pd_id d)))] db"

definition supersede_decision :: "uuid \<Rightarrow> py_datetime \<Rightarrow> arc_db \<Rightarrow> arc_db" where
  "supersede_decision case_id t db = db\<lparr>db_decisions :=
     end_current pd_id pd_case_id pd_superseded_at (\<lambda>t r. r\<lparr>pd_superseded_at := t\<rparr>) case_id t (db_decisions db)\<rparr>"

text \<open>
  Persist the decision: restore the identical superseded row, or insert a new one, in place of the
  current row. Restoring updates two rows in one flush; \<open>flush_ok restored ended\<close> says whether the
  database accepts the two updates in the order in which the session sends them, given its unique
  index on current rows. When it does not, the integrity error leaves the call.
\<close>

definition persist_decision ::
  "(uuid \<Rightarrow> uuid \<Rightarrow> bool) \<Rightarrow> payment_case \<Rightarrow> strategy_proposal \<Rightarrow> current_authorization \<Rightarrow> py_datetime \<Rightarrow> uuid \<Rightarrow>
     policy_decision option \<Rightarrow> arc_db \<Rightarrow> arc_error + policy_evaluation_result \<times> arc_db" where
  "persist_decision flush_ok c p inputs evaluated_at new_id existing db =
    (let previous_state = pc_current_state c;
         current_decision = find_current_decision (pc_id c) db;
         reevaluated = (current_decision \<noteq> None);
         db1 = supersede_decision (pc_id c) evaluated_at db
     in if (case (existing, current_decision) of
              (Some e, Some cur) \<Rightarrow> \<not> flush_ok (pd_id e) (pd_id cur) | _ \<Rightarrow> False)
        then Inl (IntegrityError ''uq_policy_decisions_current_case'')
        else
          let (d, db2) = (case existing of
                Some e \<Rightarrow> (let d = e\<lparr>pd_superseded_at := None\<rparr> in (d, save_decision d db1))
              | None \<Rightarrow> (let d = build_decision c p inputs evaluated_at new_id in (d, add_decision d db1)))
          in sbind (apply_policy_transition c d db2) (\<lambda>(c', db3).
               let db4 = append_policy_audit c' d (sp_action p) previous_state reevaluated db3
               in Inr (policy_view d c' (sp_action p) False, save_case c' db4)))"

definition evaluate_proposal ::
  "(string \<Rightarrow> string) \<Rightarrow> (uuid \<Rightarrow> uuid \<Rightarrow> bool) \<Rightarrow> payment_case \<Rightarrow> strategy_proposal \<Rightarrow> py_datetime \<Rightarrow> uuid \<Rightarrow>
     arc_db \<Rightarrow> arc_error + policy_evaluation_result \<times> arc_db" where
  "evaluate_proposal sha flush_ok c p evaluated_at new_id db =
    (case recompute_current_authorization_inputs sha c p evaluated_at db of
       Inl e \<Rightarrow> Inl (PolicyProposalNotCurrentError (error_text e))
     | Inr inputs \<Rightarrow>
       let existing = find_identical_decision (pc_id c) (ca_authorization_input_fingerprint inputs) db in
       (case existing of
          Some e \<Rightarrow> if pd_superseded_at e = None then Inr (policy_view e c (sp_action p) True, db)
            else persist_decision flush_ok c p inputs evaluated_at new_id existing db
        | None \<Rightarrow> persist_decision flush_ok c p inputs evaluated_at new_id None db))"

definition evaluate_locked ::
  "(string \<Rightarrow> string) \<Rightarrow> (uuid \<Rightarrow> uuid \<Rightarrow> bool) \<Rightarrow> payment_case \<Rightarrow> uuid option \<Rightarrow> py_datetime \<Rightarrow> uuid \<Rightarrow>
     arc_db \<Rightarrow> arc_error + policy_evaluation_result \<times> arc_db" where
  "evaluate_locked sha flush_ok c strategy_proposal_id evaluated_at new_id db =
    (if pc_current_state c \<notin> {CaseState.DECISIONED, CaseState.POLICY_VALIDATED} then
       Inl (PolicyEvaluationNotAllowedError ''Case state does not allow merchant policy evaluation'')
     else case find_current_proposal (pc_id c) db of
       None \<Rightarrow> Inl (PolicyProposalNotCurrentError ''A current strategy proposal is required'')
     | Some p \<Rightarrow>
       if strategy_proposal_id \<noteq> None \<and> strategy_proposal_id \<noteq> Some (sp_id p) then
         Inl (PolicyProposalNotCurrentError ''Only the current strategy proposal may be evaluated'')
       else evaluate_proposal sha flush_ok c p evaluated_at new_id db)"

definition evaluate_policy ::
  "(string \<Rightarrow> string) \<Rightarrow> (uuid \<Rightarrow> uuid \<Rightarrow> bool) \<Rightarrow> uuid \<Rightarrow> uuid option \<Rightarrow> py_datetime \<Rightarrow> uuid \<Rightarrow>
     arc_db \<Rightarrow> (arc_error + policy_evaluation_result) \<times> arc_db" where
  "evaluate_policy sha flush_ok case_id strategy_proposal_id evaluated_at new_id db = transaction db
    (case find_case case_id db of
       None \<Rightarrow> Inl (PolicyCaseNotFoundError ''Payment case was not found'')
     | Some c \<Rightarrow> evaluate_locked sha flush_ok c strategy_proposal_id evaluated_at new_id db)"

section \<open>Facts\<close>

lemma recompute_InrD:
  assumes "recompute_current_authorization_inputs sha c p t db = Inr i"
  shows "sp_case_id p = pc_id c" "sp_superseded_at p = None"
    "pc_assessment_fingerprint c = Some (sp_assessment_fingerprint p)"
    "pc_assessment_fingerprint c = Some (build_assessment_fingerprint sha c)"
    "el_decision (assess_eligibility sha c t) = EligibilityDecision.ELIGIBLE"
    "ca_merchant_policy i = find_policy (pc_merchant_id c) db"
    "ca_configuration i = validate_if_present (ca_merchant_policy i)"
    "ca_policy_fingerprint i = build_policy_fingerprint sha (ca_merchant_policy i) (ca_configuration i)"
    "ca_evaluation i = evaluate_authorization (current_facts c p t) (ca_merchant_policy i \<noteq> None) (ca_configuration i)"
    "dt_aware t"
  using assms
  by (auto simp: recompute_current_authorization_inputs_def validate_current_proposal_def Let_def
      required_assessment_fingerprint_def split: if_splits option.splits)

lemma recompute_fingerprint:
  assumes "recompute_current_authorization_inputs sha c p t db = Inr i"
  shows "ca_authorization_input_fingerprint i = build_authorization_input_fingerprint sha
    \<lparr>ai_strategy_proposal_id = sp_id p, ai_strategy_input_fingerprint = sp_strategy_input_fingerprint p,
     ai_assessment_fingerprint = sp_assessment_fingerprint p, ai_policy_fingerprint = ca_policy_fingerprint i,
     ai_action = sp_action p, ai_attempt_count = pc_attempt_count c,
     ai_contact_attempt_count = pc_contact_attempt_count c, ai_amount_minor = pc_amount c,
     ai_failure_category = pc_failure_category c, ai_payment_method = pc_razorpay_payment_method c,
     ai_recovery_window_ends_at = av_recovery_window_ends_at (ca_evaluation i),
     ai_recovery_window_expired = av_recovery_window_expired (ca_evaluation i)\<rparr>"
  using assms recompute_InrD(3) [OF assms]
  by (auto simp: recompute_current_authorization_inputs_def Let_def
      required_assessment_fingerprint_def split: if_splits option.splits)

text \<open>Moving a live case on does not change what authorization recomputes.\<close>

lemma recompute_cong:
  assumes "pc_current_state c \<in> {CaseState.DECISIONED, CaseState.POLICY_VALIDATED}"
    "s \<in> {CaseState.DECISIONED, CaseState.POLICY_VALIDATED}" "db_policies db' = db_policies db"
  shows "recompute_current_authorization_inputs sha (c\<lparr>pc_current_state := s\<rparr>) p t db' =
    recompute_current_authorization_inputs sha c p t db"
proof -
  let ?d = "c\<lparr>pc_current_state := s\<rparr>"
  have live: "terminal_reason s = None" "terminal_reason (pc_current_state c) = None"
    using assms(1,2) by (auto simp: terminal_reason_None_iff TERMINAL_CASE_STATES_def)
  have facts: "assessment_facts ?d = assessment_facts c"
    using live by (simp add: assessment_facts_def)
  have el: "assess_eligibility sha ?d t = assess_eligibility sha c t"
    using assms(1,2) live facts by (intro assess_eligibility_cong) auto
  have cl: "classify_failure ?d = classify_failure c" by (rule classify_failure_cong) simp_all
  show ?thesis
    by (simp add: recompute_current_authorization_inputs_def validate_current_proposal_def
        required_assessment_fingerprint_def find_policy_def current_facts_def el cl assms(3) cong: if_cong option.case_cong)
qed

lemma supersede_decision_sel [simp]:
  "db_cases (supersede_decision k t db) = db_cases db" "find_case j (supersede_decision k t db) = find_case j db"
  "db_proposals (supersede_decision k t db) = db_proposals db" "db_policies (supersede_decision k t db) = db_policies db"
  "db_approvals (supersede_decision k t db) = db_approvals db" "db_actions (supersede_decision k t db) = db_actions db"
  "db_observations (supersede_decision k t db) = db_observations db"
  "db_attributions (supersede_decision k t db) = db_attributions db"
  "db_webhook_events (supersede_decision k t db) = db_webhook_events db"
  "db_case_events (supersede_decision k t db) = db_case_events db"
  by (simp_all add: supersede_decision_def find_case_def)

text \<open>The decision that becomes current, and the tables with it in place.\<close>

definition decision_for ::
  "payment_case \<Rightarrow> strategy_proposal \<Rightarrow> current_authorization \<Rightarrow> py_datetime \<Rightarrow> uuid \<Rightarrow> policy_decision option \<Rightarrow>
     policy_decision" where
  "decision_for c p i t new_id existing = (case existing of Some e \<Rightarrow> e\<lparr>pd_superseded_at := None\<rparr>
     | None \<Rightarrow> build_decision c p i t new_id)"

definition decision_put :: "uuid \<Rightarrow> py_datetime \<Rightarrow> policy_decision option \<Rightarrow> policy_decision \<Rightarrow> arc_db \<Rightarrow> arc_db" where
  "decision_put k t existing d db = (case existing of Some e \<Rightarrow> save_decision d (supersede_decision k t db)
     | None \<Rightarrow> add_decision d (supersede_decision k t db))"

lemma decision_put_sel [simp]:
  "db_cases (decision_put k t ex d db) = db_cases db" "find_case j (decision_put k t ex d db) = find_case j db"
  "db_proposals (decision_put k t ex d db) = db_proposals db" "db_policies (decision_put k t ex d db) = db_policies db"
  by (simp_all add: decision_put_def split: option.split)

lemma persist_decision_InrE:
  assumes "persist_decision ok c p i t new_id existing db = Inr (r, db')"
  obtains db2 where
    "can_transition (pc_current_state c) (fst (policy_target (decision_for c p i t new_id existing)))"
    "only_events_added (decision_put (pc_id c) t existing (decision_for c p i t new_id existing) db) db2"
    "db' = save_case (c\<lparr>pc_current_state := fst (policy_target (decision_for c p i t new_id existing))\<rparr>) db2"
    "r = policy_view (decision_for c p i t new_id existing)
       (c\<lparr>pc_current_state := fst (policy_target (decision_for c p i t new_id existing))\<rparr>) (sp_action p) False"
proof -
  define d where "d = decision_for c p i t new_id existing"
  define db1 where "db1 = decision_put (pc_id c) t existing d db"
  have "sbind (apply_policy_transition c d db1) (\<lambda>(c', db3).
      Inr (policy_view d c' (sp_action p) False,
        save_case c' (append_policy_audit c' d (sp_action p) (pc_current_state c)
          (find_current_decision (pc_id c) db \<noteq> None) db3))) = Inr (r, db')"
    using assms
    by (auto simp: persist_decision_def Let_def d_def db1_def decision_for_def decision_put_def
        split: if_splits option.splits)
  then obtain c' db3 where a: "apply_policy_transition c d db1 = Inr (c', db3)"
    "r = policy_view d c' (sp_action p) False"
    "db' = save_case c' (append_policy_audit c' d (sp_action p) (pc_current_state c)
       (find_current_decision (pc_id c) db \<noteq> None) db3)"
    by auto
  note m = move_case_InrD [OF a(1) [unfolded apply_policy_transition_def]]
  have ev: "only_events_added db1 (append_policy_audit c' d (sp_action p) (pc_current_state c)
      (find_current_decision (pc_id c) db \<noteq> None) db3)"
    unfolding append_policy_audit_def by (rule only_events_added_trans [OF m(3) only_events_added_event])
  show thesis
    using m(1) ev a(3,2) unfolding m(2) db1_def d_def by (rule that)
qed

lemma decision_put_current:
  fixes c :: payment_case and p :: strategy_proposal and i :: current_authorization and t :: py_datetime
  assumes one: "one_current pd_id pd_case_id pd_superseded_at (db_decisions db)"
    and ex: "\<And>e. existing = Some e \<Longrightarrow> e \<in> set (db_decisions db) \<and> pd_case_id e = pc_id c \<and> pd_superseded_at e \<noteq> None"
    and new: "existing = None \<Longrightarrow> find_decision new_id db = None"
  defines "d \<equiv> decision_for c p i t new_id existing"
  shows "one_current pd_id pd_case_id pd_superseded_at (db_decisions (decision_put (pc_id c) t existing d db))"
    "find_current_decision (pc_id c) (decision_put (pc_id c) t existing d db) = Some d"
proof -
  let ?rows = "db_decisions (decision_put (pc_id c) t existing d db)"
  let ?ended = "end_current pd_id pd_case_id pd_superseded_at (\<lambda>t r. r\<lparr>pd_superseded_at := t\<rparr>) (pc_id c) t (db_decisions db)"
  have keys: "pd_id ` set ?ended = pd_id ` set (db_decisions db)"
    using arg_cong [OF decision_rows.end_current_keys [of "pc_id c" t "db_decisions db"], of set] by simp
  have "one_current pd_id pd_case_id pd_superseded_at ?rows \<and> d \<in> set ?rows \<and> pd_case_id d = pc_id c \<and>
      pd_superseded_at d = None"
  proof (cases existing)
    case None
    then have rows: "?rows = row_add d ?ended" by (simp add: decision_put_def add_decision_def supersede_decision_def)
    have d: "d = build_decision c p i t new_id" by (simp add: d_def decision_for_def None)
    have fresh: "pd_id d \<notin> pd_id ` set (db_decisions db)"
      using new [OF None] decisions_table.lookup_None_iff [of new_id db] by (simp add: d build_decision_def Let_def)
    have "pd_case_id d = pc_id c" "pd_superseded_at d = None" by (simp_all add: d build_decision_def Let_def)
    then show ?thesis
      unfolding rows using decision_rows.one_current_replace [OF one fresh] by (simp add: row_add_def)
  next
    case (Some e)
    then have d: "d = e\<lparr>pd_superseded_at := None\<rparr>" by (simp add: d_def decision_for_def)
    have rows: "?rows = row_save pd_id d ?ended"
      using Some by (simp add: decision_put_def save_decision_def supersede_decision_def)
    have e: "e \<in> set (db_decisions db)" "pd_case_id e = pc_id c" "pd_superseded_at e \<noteq> None" using ex [OF Some] by auto
    have "pd_id e \<in> pd_id ` set ?ended" unfolding keys using e(1) by simp
    then obtain x where "x \<in> set ?ended" "pd_id x = pd_id d" by (auto simp: d)
    then have "d \<in> set (row_save pd_id d ?ended)" by (auto simp: row_save_def intro: image_eqI [of _ _ x])
    then have "d \<in> set ?rows" by (simp only: rows)
    then show ?thesis
      using decision_rows.one_current_restore [OF one e, of t] e(2) unfolding rows by (simp add: d)
  qed
  then show "one_current pd_id pd_case_id pd_superseded_at ?rows"
    and "find_current_decision (pc_id c) (decision_put (pc_id c) t existing d db) = Some d"
    using decision_rows.current_unique [of ?rows d] by (auto simp: find_current_decision_def)
qed

lemma policy_target_validated:
  "fst (policy_target d) = CaseState.POLICY_VALIDATED \<longleftrightarrow> pd_result d \<noteq> PolicyDecisionResult.BLOCKED"
  "fst (policy_target d) \<in> {CaseState.POLICY_VALIDATED, CaseState.EXHAUSTED, CaseState.ESCALATED}"
  by (cases "pd_result d"; simp add: policy_target_def)+

lemma evaluate_policy_InrE:
  assumes "evaluate_policy sha ok k sp t new_id db = (Inr r, db')"
  obtains c p i where "find_case k db = Some c" "pc_id c = k"
    "pc_current_state c \<in> {CaseState.DECISIONED, CaseState.POLICY_VALIDATED}" "find_current_proposal k db = Some p"
    "recompute_current_authorization_inputs sha c p t db = Inr i"
    "evaluate_proposal sha ok c p t new_id db = Inr (r, db')"
proof -
  obtain c where c: "find_case k db = Some c" "evaluate_locked sha ok c sp t new_id db = Inr (r, db')"
    using assms by (auto simp: evaluate_policy_def elim!: transaction_InrE split: option.splits)
  have id: "pc_id c = k" using cases_table.lookup_key [OF c(1)] .
  obtain p where p: "find_current_proposal k db = Some p" "evaluate_proposal sha ok c p t new_id db = Inr (r, db')"
    "pc_current_state c \<in> {CaseState.DECISIONED, CaseState.POLICY_VALIDATED}"
    using c(2) by (auto simp: evaluate_locked_def id split: option.splits if_splits)
  obtain i where "recompute_current_authorization_inputs sha c p t db = Inr i"
    using p(2) by (auto simp: evaluate_proposal_def split: sum.splits)
  with c id p show thesis by (intro that)
qed

section \<open>Sample rows\<close>

definition sample_policy :: merchant_policy where
  "sample_policy = \<lparr>mp_id = 3, mp_merchant_id = ''m1'', mp_automation_enabled = JBool True,
     mp_allowed_actions = JArr [JStr ''CREATE_RECOVERY_LINK'', JStr ''REQUEST_RETRY''],
     mp_max_automated_attempts = JInt 3, mp_max_contact_attempts = JInt 2, mp_recovery_window_minutes = JInt 60,
     mp_high_value_threshold_minor = JInt 100000, mp_require_approval_above_minor = JInt 50000,
     mp_stopping_rules = JObj []\<rparr>"

definition sample_proposal :: strategy_proposal where
  "sample_proposal = build_proposal current_snapshot RecoveryAction.CREATE_RECOVERY_LINK (Some sample_model_result) 9"

definition decisioned_db :: arc_db where
  "decisioned_db = empty_db\<lparr>db_cases := [diagnosed_case\<lparr>pc_current_state := CaseState.DECISIONED\<rparr>],
     db_proposals := [sample_proposal], db_policies := [sample_policy]\<rparr>"

definition any_order :: "uuid \<Rightarrow> uuid \<Rightarrow> bool" where
  "any_order restored ended = True"

section \<open>Properties\<close>

text \<open>
  C40. What an authorization fingerprint pins down. Two evaluations with one fingerprint evaluated
  the same proposal for the same action, under the same assessment and the same policy, at the
  same attempt and contact counts, amount, failure category and payment method. A permission
  that carries the fingerprint cannot be used for anything else.
\<close>

theorem authorization_fingerprint_binds:
  assumes "build_authorization_input_fingerprint sha i = build_authorization_input_fingerprint sha j"
    and "no_collision sha (json_dumps True (authorization_facts_json i)) (json_dumps True (authorization_facts_json j))"
  shows "ai_strategy_proposal_id i = ai_strategy_proposal_id j \<and>
    ai_strategy_input_fingerprint i = ai_strategy_input_fingerprint j \<and>
    ai_assessment_fingerprint i = ai_assessment_fingerprint j \<and>
    ai_policy_fingerprint i = ai_policy_fingerprint j \<and> ai_action i = ai_action j \<and>
    ai_attempt_count i = ai_attempt_count j \<and> ai_contact_attempt_count i = ai_contact_attempt_count j \<and>
    ai_amount_minor i = ai_amount_minor j \<and> ai_failure_category i = ai_failure_category j \<and>
    normalized_method (ai_payment_method i) = normalized_method (ai_payment_method j) \<and>
    ai_recovery_window_expired i = ai_recovery_window_expired j"
proof -
  note b = authorization_fp.binds [of sha i j, OF assms(1) [unfolded build_authorization_input_fingerprint_def] assms(2)]
  note field = json_field_def authorization_facts_json_def
  show ?thesis
    using b [of "''strategy_proposal_id''"] b [of "''strategy_input_fingerprint''"] b [of "''assessment_fingerprint''"]
      b [of "''policy_fingerprint''"] b [of "''action''"] b [of "''attempt_count''"] b [of "''contact_attempt_count''"]
      b [of "''amount_minor''"] b [of "''failure_category''"] b [of "''payment_method''"]
      b [of "''recovery_window_expired''"]
    by (simp add: field) (cases "ai_failure_category i"; cases "ai_failure_category j";
      cases "ai_recovery_window_expired i"; cases "ai_recovery_window_expired j"; simp add: jopt_def)
qed

definition sample_inputs :: authorization_inputs where
  "sample_inputs = \<lparr>ai_strategy_proposal_id = 9, ai_strategy_input_fingerprint = ''h'',
     ai_assessment_fingerprint = ''h'', ai_policy_fingerprint = ''h'', ai_action = RecoveryAction.CREATE_RECOVERY_LINK,
     ai_attempt_count = 0, ai_contact_attempt_count = 0, ai_amount_minor = Some 5000,
     ai_failure_category = Some FailureCategory.CUSTOMER_AUTHENTICATION, ai_payment_method = Some ''card'',
     ai_recovery_window_ends_at = None, ai_recovery_window_expired = None\<rparr>"

theorem authorization_fingerprint_binds_witness:
  "ai_action (sample_inputs\<lparr>ai_payment_method := Some '' Card''\<rparr>) = ai_action sample_inputs"
  using authorization_fingerprint_binds [of id "sample_inputs\<lparr>ai_payment_method := Some '' Card''\<rparr>" sample_inputs]
  by (simp add: build_authorization_input_fingerprint_def authorization_facts_json_def no_collision_def
      sample_inputs_def normalized_method_def py_strip_def py_lower_def)

text \<open>
  C12. What a policy evaluation leaves behind. A call that is not idempotent makes one decision the
  current decision of the case, the earlier one being superseded: it is bound to the current
  proposal and to the recomputed authorization fingerprint, carries the result and reason of the
  evaluation when it is new, and moves the case to POLICY_VALIDATED exactly when it does not block
  and to EXHAUSTED or ESCALATED otherwise. No case gets two current decisions.
\<close>

theorem policy_decision_recorded:
  assumes "evaluate_policy sha ok k sp t new_id db = (Inr r, db')" "\<not> pr_idempotent r"
    and "one_current pd_id pd_case_id pd_superseded_at (db_decisions db)" "find_decision new_id db = None"
  shows "\<exists>c p i d. find_case k db = Some c \<and> find_current_proposal k db = Some p \<and>
    recompute_current_authorization_inputs sha c p t db = Inr i \<and>
    find_current_decision k db' = Some d \<and> pr_policy_decision_id r = pd_id d \<and>
    pd_authorization_input_fingerprint d = ca_authorization_input_fingerprint i \<and>
    (if find_identical_decision k (ca_authorization_input_fingerprint i) db = None
     then pd_strategy_proposal_id d = sp_id p \<and> pd_result d = av_result (ca_evaluation i) \<and>
       pd_reason_code d = av_reason_code (ca_evaluation i)
     else find_identical_decision k (ca_authorization_input_fingerprint i) db =
       Some (d\<lparr>pd_superseded_at := pd_superseded_at (the (find_identical_decision k
         (ca_authorization_input_fingerprint i) db))\<rparr>)) \<and>
    find_case k db' = Some (c\<lparr>pc_current_state := fst (policy_target d)\<rparr>) \<and>
    (fst (policy_target d) = CaseState.POLICY_VALIDATED \<longleftrightarrow> pd_result d \<noteq> PolicyDecisionResult.BLOCKED) \<and>
    one_current pd_id pd_case_id pd_superseded_at (db_decisions db')"
  using assms(1)
proof (rule evaluate_policy_InrE)
  fix c p i
  assume c: "find_case k db = Some c" "pc_id c = k" and p: "find_current_proposal k db = Some p"
    and i: "recompute_current_authorization_inputs sha c p t db = Inr i"
    and ev: "evaluate_proposal sha ok c p t new_id db = Inr (r, db')"
  define ex where "ex = find_identical_decision k (ca_authorization_input_fingerprint i) db"
  have per: "persist_decision ok c p i t new_id ex db = Inr (r, db')"
    and old: "\<And>e. ex = Some e \<Longrightarrow> pd_superseded_at e \<noteq> None"
    using ev i assms(2) by (auto simp: evaluate_proposal_def ex_def c(2) policy_view_def Let_def split: option.splits if_splits)
  have mem: "e \<in> set (db_decisions db) \<and> pd_case_id e = pc_id c \<and> pd_superseded_at e \<noteq> None \<and>
      pd_authorization_input_fingerprint e = ca_authorization_input_fingerprint i" if "ex = Some e" for e
    using that old [OF that] by (auto simp: ex_def find_identical_decision_def find_Some_iff c(2))
  let ?d = "decision_for c p i t new_id ex"
  from per obtain db2 where db2: "only_events_added (decision_put (pc_id c) t ex ?d db) db2"
    "db' = save_case (c\<lparr>pc_current_state := fst (policy_target ?d)\<rparr>) db2"
    "r = policy_view ?d (c\<lparr>pc_current_state := fst (policy_target ?d)\<rparr>) (sp_action p) False"
    by (rule persist_decision_InrE)
  have dec: "db_decisions db' = db_decisions (decision_put (pc_id c) t ex ?d db)"
    using db2 by (simp add: only_events_addedD)
  have "find_case k db2 = Some c" using only_events_addedD(1) [OF db2(1)] c(1) by (simp add: find_case_def)
  then have case': "find_case k db' = Some (c\<lparr>pc_current_state := fst (policy_target ?d)\<rparr>)"
    using db2(2) c(2) by (simp add: cases_table.lookup_saved)
  have cur: "one_current pd_id pd_case_id pd_superseded_at (db_decisions db')" "find_current_decision k db' = Some ?d"
    using decision_put_current [OF assms(3), where existing = ex and c = c and new_id = new_id and p = p and i = i and t = t] mem assms(4)
    unfolding find_current_decision_def dec by (simp_all add: c(2))
  have body: "pd_authorization_input_fingerprint ?d = ca_authorization_input_fingerprint i"
    "if ex = None then pd_strategy_proposal_id ?d = sp_id p \<and> pd_result ?d = av_result (ca_evaluation i) \<and>
       pd_reason_code ?d = av_reason_code (ca_evaluation i)
     else ex = Some (?d\<lparr>pd_superseded_at := pd_superseded_at (the ex)\<rparr>)"
    using mem by (cases ex; simp add: decision_for_def build_decision_def Let_def)+
  show ?thesis
    using c p i cur case' body db2(3) policy_target_validated(1) [of ?d]
    by (intro exI [of _ c] exI [of _ p] exI [of _ i] exI [of _ ?d]) (cases ex; simp add: policy_view_def flip: ex_def)
qed

lemma decisioned_run:
  defines "run \<equiv> evaluate_policy fixed_sha any_order 7 None (dt_add sample_time (seconds 60)) 20 decisioned_db"
  shows "\<exists>r db'. run = (Inr r, db') \<and> \<not> pr_idempotent r \<and> pr_result r = PolicyDecisionResult.AUTHORIZED \<and>
    pr_case_state r = CaseState.POLICY_VALIDATED \<and> pr_policy_decision_id r = 20"
proof -
  have "case fst run of Inl e \<Rightarrow> False
     | Inr r \<Rightarrow> \<not> pr_idempotent r \<and> pr_result r = PolicyDecisionResult.AUTHORIZED \<and>
         pr_case_state r = CaseState.POLICY_VALIDATED \<and> pr_policy_decision_id r = 20"
    unfolding run_def by code_simp
  then show ?thesis by (cases run) (auto split: sum.splits)
qed

lemma decisioned_tables:
  "one_current pd_id pd_case_id pd_superseded_at (db_decisions decisioned_db)" "find_decision k decisioned_db = None"
  by (simp_all add: decisioned_db_def empty_db_def one_current_def find_decision_def row_find_def)

theorem policy_decision_recorded_witness:
  "\<exists>r db' d. evaluate_policy fixed_sha any_order 7 None (dt_add sample_time (seconds 60)) 20 decisioned_db = (Inr r, db') \<and>
     find_current_decision 7 db' = Some d \<and> pd_id d = 20 \<and> pr_result r = PolicyDecisionResult.AUTHORIZED"
proof -
  obtain r db' where run: "evaluate_policy fixed_sha any_order 7 None (dt_add sample_time (seconds 60)) 20 decisioned_db =
      (Inr r, db')" and r: "\<not> pr_idempotent r" "pr_result r = PolicyDecisionResult.AUTHORIZED" "pr_policy_decision_id r = 20"
    using decisioned_run by blast
  from policy_decision_recorded [OF run r(1) decisioned_tables] run r show ?thesis by auto
qed

text \<open>
  Evaluating again. While the case is validated, its proposal current and the recomputed
  fingerprint the same, a second evaluation returns the decision just recorded, marked idempotent,
  and changes nothing. For the same instant the fingerprint is the same.
\<close>

lemma recorded_tables:
  assumes "evaluate_policy sha ok k sp t new_id db = (Inr r, db')"
  shows "db_proposals db' = db_proposals db \<and> db_policies db' = db_policies db"
  using assms
proof (rule evaluate_policy_InrE)
  fix c p i
  assume i: "recompute_current_authorization_inputs sha c p t db = Inr i"
    and ev: "evaluate_proposal sha ok c p t new_id db = Inr (r, db')"
  define ex where "ex = find_identical_decision (pc_id c) (ca_authorization_input_fingerprint i) db"
  from ev i have "db' = db \<or> persist_decision ok c p i t new_id ex db = Inr (r, db')"
    by (auto simp: evaluate_proposal_def ex_def Let_def split: option.splits if_splits)
  then show ?thesis
    by (auto elim!: persist_decision_InrE simp: only_events_addedD)
qed

lemma find_map_same:
  "(\<And>x. x \<in> set xs \<Longrightarrow> P (f x) = P x) \<Longrightarrow> find P (map f xs) = map_option f (find P xs)"
  by (induction xs) auto

lemma find_identical_put:
  fixes c :: payment_case and p :: strategy_proposal and i :: current_authorization and t :: py_datetime and new_id :: uuid
  assumes one: "one_current pd_id pd_case_id pd_superseded_at (db_decisions db)"
    and ex: "existing = find_identical_decision (pc_id c) (ca_authorization_input_fingerprint i) db"
    and old: "\<And>e. existing = Some e \<Longrightarrow> pd_superseded_at e \<noteq> None"
  defines "d \<equiv> decision_for c p i t new_id existing"
  shows "find_identical_decision (pc_id c) (ca_authorization_input_fingerprint i)
    (decision_put (pc_id c) t existing d db) = Some d"
proof -
  let ?P = "\<lambda>d. pd_case_id d = pc_id c \<and> pd_authorization_input_fingerprint d = ca_authorization_input_fingerprint i"
  let ?rows = "db_decisions db"
  let ?ended = "end_current pd_id pd_case_id pd_superseded_at (\<lambda>t r. r\<lparr>pd_superseded_at := t\<rparr>) (pc_id c) t ?rows"
  have P: "find ?P ?rows = existing" by (simp add: ex find_identical_decision_def)
  show ?thesis
  proof (cases existing)
    case None
    then have "find ?P ?ended = None" using P by (intro find_ended_None) simp_all
    then show ?thesis
      using None by (simp add: find_identical_decision_def decision_put_def add_decision_def supersede_decision_def
          row_add_def find_last d_def decision_for_def build_decision_def Let_def)
  next
    case (Some e)
    then have e: "e \<in> set ?rows" "?P e" "pd_superseded_at e \<noteq> None" using P old by (auto simp: find_Some_iff)
    have ended: "find ?P ?ended = Some e \<and> e \<in> set ?ended"
    proof (cases "current_row pd_case_id pd_superseded_at (pc_id c) ?rows")
      case None
      then show ?thesis using P Some e by (simp add: end_current_def)
    next
      case (Some r)
      then have r: "r \<in> set ?rows" "pd_superseded_at r = None" by (auto dest: decision_rows.current_Some)
      let ?f = "\<lambda>x. if pd_id x = pd_id r then r\<lparr>pd_superseded_at := Some t\<rparr> else x"
      have rows: "?ended = map ?f ?rows" using Some by (simp add: end_current_def row_save_def)
      have "?P (?f x) = ?P x" if "x \<in> set ?rows" for x
        using one_current_same [OF one that r(1)] by auto
      then have "find ?P ?ended = map_option ?f (find ?P ?rows)" unfolding rows by (rule find_map_same)
      moreover have "?f e = e" using one_current_same [OF one e(1) r(1)] e(3) r(2) by auto
      moreover have "?f e \<in> set ?ended" unfolding rows set_map using e(1) by (rule imageI)
      ultimately show ?thesis using P \<open>existing = Some e\<close> by simp
    qed
    have oneE: "one_current pd_id pd_case_id pd_superseded_at ?ended" by (rule decision_rows.one_current_end [OF one])
    let ?g = "\<lambda>x. if pd_id x = pd_id d then d else x"
    have d: "d = e\<lparr>pd_superseded_at := None\<rparr>" by (simp add: d_def decision_for_def Some)
    have "?P (?g x) = ?P x" if "x \<in> set ?ended" for x
      using one_current_same [OF oneE that, of e] ended by (auto simp: d)
    then have "find ?P (map ?g ?ended) = map_option ?g (find ?P ?ended)" by (rule find_map_same)
    moreover have "pd_id e = pd_id d" by (simp add: d)
    ultimately have "find ?P (map ?g ?ended) = Some d" using ended by simp
    with Some show ?thesis
      by (simp add: find_identical_decision_def decision_put_def save_decision_def supersede_decision_def row_save_def)
  qed
qed

lemma policy_evaluation_idempotent:
  assumes "evaluate_policy sha ok k sp t new_id db = (Inr r, db')" "\<not> pr_idempotent r"
    and "one_current pd_id pd_case_id pd_superseded_at (db_decisions db)"
    and "pr_result r \<noteq> PolicyDecisionResult.BLOCKED"
  shows "\<exists>r'. evaluate_policy sha ok k None t other_id db' = (Inr r', db') \<and>
    pr_idempotent r' \<and> pr_policy_decision_id r' = pr_policy_decision_id r \<and> pr_result r' = pr_result r"
  using assms(1)
proof (rule evaluate_policy_InrE)
  fix c p i
  assume c: "find_case k db = Some c" "pc_id c = k" and p: "find_current_proposal k db = Some p"
    and st: "pc_current_state c \<in> {CaseState.DECISIONED, CaseState.POLICY_VALIDATED}"
    and i: "recompute_current_authorization_inputs sha c p t db = Inr i"
    and ev: "evaluate_proposal sha ok c p t new_id db = Inr (r, db')"
  define ex where "ex = find_identical_decision (pc_id c) (ca_authorization_input_fingerprint i) db"
  have per: "persist_decision ok c p i t new_id ex db = Inr (r, db')"
    and old: "\<And>e. ex = Some e \<Longrightarrow> pd_superseded_at e \<noteq> None"
    using ev i assms(2) by (auto simp: evaluate_proposal_def ex_def policy_view_def Let_def split: option.splits if_splits)
  let ?d = "decision_for c p i t new_id ex"
  from per obtain db2 where db2: "only_events_added (decision_put (pc_id c) t ex ?d db) db2"
    "db' = save_case (c\<lparr>pc_current_state := fst (policy_target ?d)\<rparr>) db2"
    "r = policy_view ?d (c\<lparr>pc_current_state := fst (policy_target ?d)\<rparr>) (sp_action p) False"
    by (rule persist_decision_InrE)
  have tgt: "fst (policy_target ?d) = CaseState.POLICY_VALIDATED"
    using assms(4) db2(3) policy_target_validated(1) [of ?d] by (simp add: policy_view_def)
  let ?c = "c\<lparr>pc_current_state := CaseState.POLICY_VALIDATED\<rparr>"
  have "find_case k db2 = Some c" using only_events_addedD(1) [OF db2(1)] c(1) by (simp add: find_case_def)
  then have c': "find_case k db' = Some ?c"
    using db2(2) c(2) tgt by (simp add: cases_table.lookup_saved)
  have p': "find_current_proposal k db' = Some p"
    using p recorded_tables [OF assms(1)] by (simp add: find_current_proposal_def)
  have i': "recompute_current_authorization_inputs sha ?c p t db' = Inr i"
    using recompute_cong [OF st, of CaseState.POLICY_VALIDATED db' db] recorded_tables [OF assms(1)] i by simp
  have "db_decisions db' = db_decisions (decision_put (pc_id c) t ex ?d db)" using db2 by (simp add: only_events_addedD)
  then have d': "find_identical_decision (pc_id c) (ca_authorization_input_fingerprint i) db' = Some ?d"
    using find_identical_put [OF assms(3) ex_def old, of t p new_id] by (simp add: find_identical_decision_def)
  have cur: "pd_superseded_at ?d = None" by (cases ex) (simp_all add: decision_for_def build_decision_def Let_def)
  have "evaluate_proposal sha ok ?c p t other_id db' = Inr (policy_view ?d ?c (sp_action p) True, db')"
    by (simp add: evaluate_proposal_def i' d' cur)
  then have "evaluate_policy sha ok k None t other_id db' = (Inr (policy_view ?d ?c (sp_action p) True), db')"
    by (simp add: evaluate_policy_def c' evaluate_locked_def c(2) p')
  then show ?thesis using db2(3) by (simp add: policy_view_def)
qed

text \<open>
  Facts that return to an earlier value. When the recomputed fingerprint is that of a
  superseded decision while another one is current, the service reinstates the old row and ends the
  current one in one flush. If the session sends the reinstatement first, the index on current rows
  rejects it: the call raises the integrity error and nothing changes, so the case keeps a decision
  that no longer matches its facts, on every retry.
\<close>

lemma restored_decision_conflict:
  assumes "find_case k db = Some c" "pc_current_state c = CaseState.POLICY_VALIDATED"
    and "find_current_proposal k db = Some p" "recompute_current_authorization_inputs sha c p t db = Inr i"
    and "find_identical_decision k (ca_authorization_input_fingerprint i) db = Some e" "pd_superseded_at e \<noteq> None"
    and "find_current_decision k db = Some cur" "\<not> flush_ok (pd_id e) (pd_id cur)"
  shows "evaluate_policy sha flush_ok k None t new_id db = (Inl (IntegrityError ''uq_policy_decisions_current_case''), db)"
  using assms cases_table.lookup_key [OF assms(1)]
  by (simp add: evaluate_policy_def evaluate_locked_def evaluate_proposal_def persist_decision_def)

text \<open>
  The witness: the policy allows links, then forbids them, then allows them again, and updates are
  sent in the order of the row ids.
\<close>

definition id_order :: "uuid \<Rightarrow> uuid \<Rightarrow> bool" where
  "id_order restored ended \<longleftrightarrow> ended < restored"

definition flipped_db :: arc_db where
  "flipped_db =
    (let c = diagnosed_case\<lparr>pc_current_state := CaseState.POLICY_VALIDATED\<rparr>;
         t = dt_add sample_time (seconds 60)
     in empty_db\<lparr>db_cases := [c], db_proposals := [sample_proposal], db_policies := [sample_policy],
          db_decisions := (case recompute_current_authorization_inputs fixed_sha c sample_proposal t
              (empty_db\<lparr>db_policies := [sample_policy]\<rparr>) of
            Inl e \<Rightarrow> []
          | Inr i \<Rightarrow> (let d = build_decision c sample_proposal i t 20
             in [d\<lparr>pd_superseded_at := Some t\<rparr>,
                 d\<lparr>pd_id := 21, pd_authorization_input_fingerprint := ''other''\<rparr>]))\<rparr>)"

end
