(* ===== verification/Arc_Approval.thy ===== *)
theory Arc_Approval
  imports Arc_Authorization
begin

text \<open>
  Human approval: the permission rule that joins policy and human authority
  (\<open>arc/approval/permission.py\<close>), the request and the irreversible decision of an operator
  (\<open>arc/approval/service.py\<close>) and their audit events (\<open>arc/approval/audit.py\<close>).
\<close>

section \<open>Permission\<close>

definition is_execution_permitted :: "policy_decision \<Rightarrow> approval_request option \<Rightarrow> bool" where
  "is_execution_permitted d approval \<longleftrightarrow>
    (if is_execution_authorized d then True
     else pd_result d = PolicyDecisionResult.REQUIRES_APPROVAL \<and> pd_superseded_at d = None \<and>
       (case approval of None \<Rightarrow> False
        | Some a \<Rightarrow> ar_case_id a = pd_case_id d \<and> ar_policy_decision_id a = pd_id d \<and>
            ar_status a = ApprovalStatus.APPROVED))"

section \<open>Audit\<close>

definition APPROVAL_AUDIT_SOURCE :: string where
  "APPROVAL_AUDIT_SOURCE = ''HUMAN_APPROVAL''"

fun approval_event_type :: "ApprovalStatus \<Rightarrow> string" where
  "approval_event_type ApprovalStatus.PENDING = ''APPROVAL_REQUESTED''"
| "approval_event_type ApprovalStatus.APPROVED = ''APPROVAL_APPROVED''"
| "approval_event_type ApprovalStatus.REJECTED = ''APPROVAL_REJECTED''"

definition append_approval_audit :: "approval_request \<Rightarrow> arc_db \<Rightarrow> arc_db" where
  "append_approval_audit a db =
     add_event \<lparr>ce_case_id = ar_case_id a, ce_event_type = approval_event_type (ar_status a),
       ce_source = APPROVAL_AUDIT_SOURCE,
       ce_event_data = JObj
         [(''approval_request_id'', JStr (uuid_str (ar_id a))),
          (''policy_decision_id'', JStr (uuid_str (ar_policy_decision_id a))),
          (''status'', JStr (approval_status_value (ar_status a)))]\<rparr> db"

section \<open>The service\<close>

record approval_request_result =
  aq_approval_request_id :: uuid
  aq_case_id :: uuid
  aq_policy_decision_id :: uuid
  aq_status :: ApprovalStatus
  aq_case_state :: CaseState
  aq_idempotent :: bool

definition approval_view :: "approval_request \<Rightarrow> payment_case \<Rightarrow> bool \<Rightarrow> approval_request_result" where
  "approval_view a c idempotent =
     \<lparr>aq_approval_request_id = ar_id a, aq_case_id = ar_case_id a, aq_policy_decision_id = ar_policy_decision_id a,
      aq_status = ar_status a, aq_case_state = pc_current_state c, aq_idempotent = idempotent\<rparr>"

definition lock_case :: "uuid \<Rightarrow> arc_db \<Rightarrow> arc_error + payment_case" where
  "lock_case case_id db = (case find_case case_id db of
       None \<Rightarrow> Inl (ApprovalNotFoundError ''Payment case was not found'') | Some c \<Rightarrow> Inr c)"

definition lock_decision :: "uuid \<Rightarrow> arc_db \<Rightarrow> arc_error + policy_decision" where
  "lock_decision decision_id db = (case find_decision decision_id db of
       None \<Rightarrow> Inl (ApprovalNotFoundError ''Policy decision was not found'') | Some d \<Rightarrow> Inr d)"

definition validate_current_approval_context :: "payment_case \<Rightarrow> policy_decision \<Rightarrow> arc_error + unit" where
  "validate_current_approval_context c d =
    (if pc_current_state c \<noteq> CaseState.POLICY_VALIDATED then
       Inl (ApprovalNotAllowedError ''Case state does not allow a human approval decision'')
     else if pd_case_id d \<noteq> pc_id c \<or> pd_superseded_at d \<noteq> None \<or>
       pd_result d \<noteq> PolicyDecisionResult.REQUIRES_APPROVAL then
       Inl (ApprovalNotAllowedError ''Only the current approval-required policy decision may be approved'')
     else Inr ())"

definition bounded_required :: "string \<Rightarrow> nat \<Rightarrow> string \<Rightarrow> arc_error + string" where
  "bounded_required value maximum name =
    (let normalized = py_strip value in
     if normalized = [] \<or> maximum < length normalized
     then Inl (ApprovalNotAllowedError (''Approval '' @ name @ '' is invalid'')) else Inr normalized)"

definition bounded_optional :: "string option \<Rightarrow> nat \<Rightarrow> string \<Rightarrow> arc_error + string option" where
  "bounded_optional value maximum name = (case value of None \<Rightarrow> Inr None
     | Some v \<Rightarrow> let normalized = py_strip v in
         if normalized = [] then Inr None
         else if maximum < length normalized
         then Inl (ApprovalNotAllowedError (''Approval '' @ name @ '' is invalid'')) else Inr (Some normalized))"

definition require_aware :: "py_datetime \<Rightarrow> arc_error + unit" where
  "require_aware value = (if dt_aware value then Inr ()
     else Inl (ApprovalNotAllowedError ''Approval clock must be timezone-aware''))"

definition find_approval_for :: "uuid \<Rightarrow> arc_db \<Rightarrow> approval_request option" where
  "find_approval_for decision_id db = find (\<lambda>a. ar_policy_decision_id a = decision_id) (db_approvals db)"

definition request_locked ::
  "uuid \<Rightarrow> py_datetime \<Rightarrow> uuid \<Rightarrow> payment_case \<Rightarrow> arc_db \<Rightarrow> arc_error + approval_request_result \<times> arc_db" where
  "request_locked decision_id requested_at new_id c db =
     sbind (lock_decision decision_id db) (\<lambda>d.
     sbind (validate_current_approval_context c d) (\<lambda>_.
       case find_approval_for (pd_id d) db of
         Some existing \<Rightarrow> Inr (approval_view existing c True, db)
       | None \<Rightarrow> sbind (require_aware requested_at) (\<lambda>_.
           let a = \<lparr>ar_id = new_id, ar_case_id = pc_id c, ar_policy_decision_id = pd_id d,
                 ar_status = ApprovalStatus.PENDING, ar_requested_at = requested_at, ar_decided_at = None,
                 ar_decided_by = None, ar_decision_note = None\<rparr>
           in Inr (approval_view a c False, append_approval_audit a (add_approval a db)))))"

definition ensure_approval_request ::
  "uuid \<Rightarrow> py_datetime \<Rightarrow> uuid \<Rightarrow> arc_db \<Rightarrow> (arc_error + approval_request_result) \<times> arc_db" where
  "ensure_approval_request decision_id requested_at new_id db = transaction db
    (case find_decision decision_id db of
       None \<Rightarrow> Inl (ApprovalNotFoundError ''Policy decision was not found'')
     | Some decision_hint \<Rightarrow> sbind (lock_case (pd_case_id decision_hint) db) (\<lambda>c.
         request_locked decision_id requested_at new_id c db))"

definition decide_pending ::
  "approval_request \<Rightarrow> ApprovalStatus \<Rightarrow> string \<Rightarrow> string option \<Rightarrow> py_datetime \<Rightarrow> payment_case \<Rightarrow> arc_db \<Rightarrow>
     arc_error + approval_request_result \<times> arc_db" where
  "decide_pending a decision operator note decided_at c db =
     sbind (lock_decision (ar_policy_decision_id a) db) (\<lambda>policy_decision.
     sbind (validate_current_approval_context c policy_decision) (\<lambda>_.
       if ar_case_id a \<noteq> pc_id c then
         Inl (ApprovalNotAllowedError ''Approval request does not belong to the current case'')
       else sbind (require_aware decided_at) (\<lambda>_.
         let a' = a\<lparr>ar_status := decision, ar_decided_at := Some decided_at, ar_decided_by := Some operator,
                   ar_decision_note := note\<rparr>;
             db1 = append_approval_audit a' (save_approval a' db)
         in sbind (if decision = ApprovalStatus.REJECTED
                   then move_case c CaseState.ESCALATED ''HUMAN_APPROVAL_REJECTED'' APPROVAL_AUDIT_SOURCE
                     [(''approval_request_id'', JStr (uuid_str (ar_id a))),
                      (''policy_decision_id'', JStr (uuid_str (pd_id policy_decision)))] db1
                   else Inr (c, db1))
              (\<lambda>(c', db2). Inr (approval_view a' c' False, save_case c' db2)))))"

definition decide_approval ::
  "uuid \<Rightarrow> ApprovalStatus \<Rightarrow> string \<Rightarrow> string option \<Rightarrow> py_datetime \<Rightarrow> arc_db \<Rightarrow>
     (arc_error + approval_request_result) \<times> arc_db" where
  "decide_approval approval_id decision decided_by note decided_at db = transaction db
    (if decision \<notin> {ApprovalStatus.APPROVED, ApprovalStatus.REJECTED} then
       Inl (ApprovalNotAllowedError ''Approval decision must be APPROVED or REJECTED'')
     else sbind (bounded_required decided_by 100 ''operator'') (\<lambda>operator.
       sbind (bounded_optional note 500 ''note'') (\<lambda>bounded_note.
         case find_approval approval_id db of
           None \<Rightarrow> Inl (ApprovalNotFoundError ''Approval request was not found'')
         | Some a \<Rightarrow> sbind (lock_case (ar_case_id a) db) (\<lambda>c.
             if ar_status a \<noteq> ApprovalStatus.PENDING then
               (if ar_status a = decision then Inr (approval_view a c True, db)
                else Inl (ApprovalDecisionConflictError ''A terminal approval decision cannot be changed''))
             else decide_pending a decision operator bounded_note decided_at c db))))"

section \<open>Facts\<close>

text \<open>The approval lifecycle is staged: a decision is made once.\<close>

definition approval_step :: "ApprovalStatus \<Rightarrow> ApprovalStatus \<Rightarrow> bool" where
  "approval_step s t \<longleftrightarrow> s = t \<or> s = ApprovalStatus.PENDING"

definition approval_stage :: "ApprovalStatus \<Rightarrow> nat" where
  "approval_stage s = (if s = ApprovalStatus.PENDING then 0 else 1)"

interpretation approval_lifecycle: staged approval_step approval_stage 1
  by unfold_locales (auto simp: approval_step_def approval_stage_def)

lemma decided_final: "s \<noteq> ApprovalStatus.PENDING \<Longrightarrow> approval_step\<^sup>*\<^sup>* s t \<Longrightarrow> t = s"
  by (erule approval_lifecycle.final_stays) (simp add: approval_lifecycle.final_def approval_step_def)

lemma lock_case_InrD: "lock_case k db = Inr c \<Longrightarrow> find_case k db = Some c"
  by (simp add: lock_case_def split: option.splits)

lemma lock_decision_InrD: "lock_decision k db = Inr d \<Longrightarrow> find_decision k db = Some d"
  by (simp add: lock_decision_def split: option.splits)

lemma approval_context_Inr:
  "validate_current_approval_context c d = Inr u \<longleftrightarrow> pc_current_state c = CaseState.POLICY_VALIDATED \<and>
     pd_case_id d = pc_id c \<and> pd_superseded_at d = None \<and> pd_result d = PolicyDecisionResult.REQUIRES_APPROVAL"
  by (simp add: validate_current_approval_context_def)

lemma only_events_approval [simp]: "only_events_added db (append_approval_audit a db)"
  by (simp add: append_approval_audit_def)

lemma save_case_same: "find_case k db = Some c \<Longrightarrow> distinct (map pc_id (db_cases db)) \<Longrightarrow> save_case c db = db"
proof -
  assume c: "find_case k db = Some c" and d: "distinct (map pc_id (db_cases db))"
  then have "c \<in> set (db_cases db)" by (auto dest: cases_table.lookup_in)
  with d have "row_save pc_id c (db_cases db) = db_cases db"
    unfolding row_save_def by (intro map_idI) (auto simp: distinct_map inj_on_def)
  then show ?thesis by (simp add: save_case_def)
qed

lemma decide_pending_InrE:
  assumes "decide_pending a decision operator note t c db = Inr (r, db')"
  obtains d db2 where "find_decision (ar_policy_decision_id a) db = Some d"
    "pc_current_state c = CaseState.POLICY_VALIDATED" "pd_case_id d = pc_id c" "pd_superseded_at d = None"
    "pd_result d = PolicyDecisionResult.REQUIRES_APPROVAL" "ar_case_id a = pc_id c" "dt_aware t"
    "only_events_added (save_approval (a\<lparr>ar_status := decision, ar_decided_at := Some t,
       ar_decided_by := Some operator, ar_decision_note := note\<rparr>) db) db2"
    "db' = save_case (if decision = ApprovalStatus.REJECTED then c\<lparr>pc_current_state := CaseState.ESCALATED\<rparr> else c) db2"
    "aq_status r = decision" "\<not> aq_idempotent r"
proof -
  let ?a = "a\<lparr>ar_status := decision, ar_decided_at := Some t, ar_decided_by := Some operator, ar_decision_note := note\<rparr>"
  let ?db1 = "append_approval_audit ?a (save_approval ?a db)"
  have ev: "only_events_added (save_approval ?a db) ?db1" by simp
  from assms obtain d u where d: "lock_decision (ar_policy_decision_id a) db = Inr d"
    and u: "validate_current_approval_context c d = Inr u" "ar_case_id a = pc_id c" "require_aware t = Inr ()"
    and fin: "sbind (if decision = ApprovalStatus.REJECTED
        then move_case c CaseState.ESCALATED ''HUMAN_APPROVAL_REJECTED'' APPROVAL_AUDIT_SOURCE
          [(''approval_request_id'', JStr (uuid_str (ar_id a))), (''policy_decision_id'', JStr (uuid_str (pd_id d)))] ?db1
        else Inr (c, ?db1)) (\<lambda>(c', db2). Inr (approval_view ?a c' False, save_case c' db2)) = Inr (r, db')"
    by (auto simp: decide_pending_def Let_def sbind_eq_Inr_iff split: if_splits)
  note ctx = u(1) [unfolded approval_context_Inr]
  have t: "dt_aware t" using u(3) by (simp add: require_aware_def split: if_splits)
  show thesis
  proof (cases "decision = ApprovalStatus.REJECTED")
    case False
    with fin have "db' = save_case c ?db1" "r = approval_view ?a c False" by simp_all
    with False ctx d t u(2) ev show thesis
      by (intro that [of d ?db1]) (simp_all add: lock_decision_InrD approval_view_def)
  next
    case True
    with fin obtain c' db2 where m: "move_case c CaseState.ESCALATED ''HUMAN_APPROVAL_REJECTED'' APPROVAL_AUDIT_SOURCE
          [(''approval_request_id'', JStr (uuid_str (ar_id a))), (''policy_decision_id'', JStr (uuid_str (pd_id d)))] ?db1 =
        Inr (c', db2)" "r = approval_view ?a c' False" "db' = save_case c' db2" by auto
    note mv = move_case_InrD [OF m(1)]
    have "only_events_added (save_approval ?a db) db2" by (rule only_events_added_trans [OF ev mv(3)])
    with True ctx d t u(2) m(2,3) mv(2) show thesis
      by (intro that [of d db2]) (simp_all add: lock_decision_InrD approval_view_def)
  qed
qed

lemma decide_approval_InrE:
  assumes "decide_approval k decision by note t db = (Inr r, db')"
  obtains (decided) a where "find_approval k db = Some a" "ar_status a = decision" "ar_status a \<noteq> ApprovalStatus.PENDING"
      "db' = db" "aq_idempotent r"
  | (pending) a c operator bounded where "find_approval k db = Some a" "ar_status a = ApprovalStatus.PENDING"
      "find_case (ar_case_id a) db = Some c" "decision \<in> {ApprovalStatus.APPROVED, ApprovalStatus.REJECTED}"
      "bounded_required by 100 ''operator'' = Inr operator"
      "decide_pending a decision operator bounded t c db = Inr (r, db')"
proof -
  from assms obtain operator bounded a c where
    ok: "decision \<in> {ApprovalStatus.APPROVED, ApprovalStatus.REJECTED}"
    and op: "bounded_required by 100 ''operator'' = Inr operator" and a: "find_approval k db = Some a"
    and c: "find_case (ar_case_id a) db = Some c"
    and fin: "(if ar_status a \<noteq> ApprovalStatus.PENDING then
               (if ar_status a = decision then Inr (approval_view a c True, db)
                else Inl (ApprovalDecisionConflictError ''A terminal approval decision cannot be changed''))
             else decide_pending a decision operator bounded t c db) = Inr (r, db')"
    by (auto simp: decide_approval_def sbind_eq_Inr_iff lock_case_InrD elim!: transaction_InrE split: if_splits option.splits)
  show thesis
  proof (cases "ar_status a = ApprovalStatus.PENDING")
    case True
    with ok op a c fin show thesis by (intro pending) simp_all
  next
    case False
    with a fin show thesis by (intro decided) (auto simp: approval_view_def split: if_splits)
  qed
qed

lemma decide_approval_Inl: "decide_approval k decision by note t db = (Inl e, db') \<Longrightarrow> db' = db"
  unfolding decide_approval_def by (drule transaction_Inl_unchanged) simp

lemma request_locked_distinct:
  assumes "request_locked d t new_id c db = Inr (r, db')"
    and "distinct (map ar_policy_decision_id (db_approvals db))"
  shows "distinct (map ar_policy_decision_id (db_approvals db'))"
  using assms
  by (auto simp: request_locked_def Let_def append_approval_audit_def add_approval_def row_add_def
      find_approval_for_def find_None_iff split: option.splits) blast

section \<open>Sample rows\<close>

definition pending_approval :: approval_request where
  "pending_approval = \<lparr>ar_id = 30, ar_case_id = 7, ar_policy_decision_id = 20, ar_status = ApprovalStatus.PENDING,
     ar_requested_at = sample_time, ar_decided_at = None, ar_decided_by = None, ar_decision_note = None\<rparr>"

definition waiting_decision :: policy_decision where
  "waiting_decision = \<lparr>pd_id = 20, pd_case_id = 7, pd_strategy_proposal_id = 9, pd_merchant_policy_id = Some 3,
     pd_strategy_input_fingerprint = ''h'', pd_policy_fingerprint = ''h'', pd_authorization_input_fingerprint = ''h'',
     pd_result = PolicyDecisionResult.REQUIRES_APPROVAL, pd_reason_code = ''HUMAN_APPROVAL_REQUIRED'', pd_explanation = [],
     pd_recovery_window_ends_at = None, pd_approval_threshold_minor = None, pd_high_value_threshold_minor = None,
     pd_observed_high_value = None, pd_observed_amount_minor = Some 5000, pd_observed_attempt_count = 0,
     pd_observed_contact_attempt_count = 0, pd_evaluated_at = sample_time, pd_superseded_at = None\<rparr>"

definition waiting_db :: arc_db where
  "waiting_db = empty_db\<lparr>db_cases := [diagnosed_case\<lparr>pc_current_state := CaseState.POLICY_VALIDATED\<rparr>],
     db_decisions := [waiting_decision], db_approvals := [pending_approval]\<rparr>"

section \<open>Properties\<close>

text \<open>
  C30. An approval is decided once. Whatever call is made with whatever arguments, every approval
  request survives it, moves only from PENDING to a decision, and one that is decided, or that the
  call does not name, keeps every column: its status, its operator, its time and its note.
\<close>

theorem approval_decided_once:
  assumes "find_approval j db = Some a"
  shows "\<exists>a'. find_approval j (snd (decide_approval k decision by note t db)) = Some a' \<and>
    approval_step (ar_status a) (ar_status a') \<and>
    (if ar_status a \<noteq> ApprovalStatus.PENDING \<or> j \<noteq> k then a' = a else ar_policy_decision_id a' = ar_policy_decision_id a)"
proof (cases "decide_approval k decision by note t db")
  case (Pair res db')
  show ?thesis
  proof (cases res)
    case (Inl e)
    then have "db' = db" using Pair decide_approval_Inl by metis
    with assms Pair show ?thesis by (simp add: approval_step_def)
  next
    case (Inr r)
    with Pair have "decide_approval k decision by note t db = (Inr r, db')" by simp
    then show ?thesis
    proof (cases rule: decide_approval_InrE)
      case decided
      with assms Pair show ?thesis by (simp add: approval_step_def)
    next
      case (pending b c operator bounded)
      let ?b = "b\<lparr>ar_status := decision, ar_decided_at := Some t, ar_decided_by := Some operator, ar_decision_note := bounded\<rparr>"
      from pending(6) obtain db2 x where "only_events_added (save_approval ?b db) db2" "db' = save_case x db2"
        by (rule decide_pending_InrE)
      then have rows: "find_approval j db' = find_approval j (save_approval ?b db)" for j
        by (simp add: find_approval_def only_events_addedD)
      have id: "ar_id ?b = k" using approvals_table.lookup_key [OF pending(1)] by simp
      show ?thesis
      proof (cases "j = k")
        case True
        with assms pending(1) have "b = a" by simp
        with True id approvals_table.lookup_saved [OF pending(1), of ?b] pending(2) show ?thesis
          by (simp add: Pair rows approval_step_def)
      next
        case False
        with assms id show ?thesis by (simp add: Pair rows approvals_table.lookup_save_other approval_step_def)
      qed
    qed
  qed
qed

theorem approval_decided_once_witness:
  "\<exists>a'. find_approval 30 (snd (decide_approval 30 ApprovalStatus.REJECTED ''ops'' None sample_time
       (waiting_db\<lparr>db_approvals := [pending_approval\<lparr>ar_status := ApprovalStatus.APPROVED\<rparr>]\<rparr>))) = Some a' \<and>
     ar_status a' = ApprovalStatus.APPROVED"
  using approval_decided_once [of 30 "waiting_db\<lparr>db_approvals := [pending_approval\<lparr>ar_status := ApprovalStatus.APPROVED\<rparr>]\<rparr>"
      "pending_approval\<lparr>ar_status := ApprovalStatus.APPROVED\<rparr>" 30 ApprovalStatus.REJECTED "''ops''" None sample_time]
  by (auto simp: find_approval_def row_find_def pending_approval_def)

text \<open>
  What a decision does. It is taken only while the case is POLICY_VALIDATED and the decision
  asked about is the unsuperseded approval-required decision of that case, by a named operator.
  Approving leaves the case where it is and makes exactly this decision executable; rejecting ends
  the case as ESCALATED and makes it executable never.
\<close>

lemma approval_decision_effect:
  assumes "decide_approval k decision by note t db = (Inr r, db')" "\<not> aq_idempotent r"
  shows "\<exists>a a' c d. find_approval k db = Some a \<and> ar_status a = ApprovalStatus.PENDING \<and>
    find_case (ar_case_id a) db = Some c \<and> pc_current_state c = CaseState.POLICY_VALIDATED \<and>
    find_decision (ar_policy_decision_id a) db = Some d \<and> pd_case_id d = pc_id c \<and> pd_superseded_at d = None \<and>
    pd_result d = PolicyDecisionResult.REQUIRES_APPROVAL \<and> find_decision (ar_policy_decision_id a) db' = Some d \<and>
    find_approval k db' = Some a' \<and> ar_decided_at a' = Some t \<and> ar_decided_by a' \<notin> {None, Some []} \<and>
    (decision = ApprovalStatus.APPROVED \<longleftrightarrow> is_execution_permitted d (Some a')) \<and>
    find_case (ar_case_id a) db' = Some (c\<lparr>pc_current_state :=
      if decision = ApprovalStatus.APPROVED then CaseState.POLICY_VALIDATED else CaseState.ESCALATED\<rparr>)"
  using assms(1)
proof (cases rule: decide_approval_InrE)
  case decided
  with assms(2) show ?thesis by simp
next
  case (pending a c operator bounded)
  let ?a = "a\<lparr>ar_status := decision, ar_decided_at := Some t, ar_decided_by := Some operator, ar_decision_note := bounded\<rparr>"
  from pending(6) obtain d db2 where
    d: "find_decision (ar_policy_decision_id a) db = Some d" "pc_current_state c = CaseState.POLICY_VALIDATED"
      "pd_case_id d = pc_id c" "pd_superseded_at d = None" "pd_result d = PolicyDecisionResult.REQUIRES_APPROVAL"
      "ar_case_id a = pc_id c"
    and ev: "only_events_added (save_approval ?a db) db2"
    and db': "db' = save_case (if decision = ApprovalStatus.REJECTED then c\<lparr>pc_current_state := CaseState.ESCALATED\<rparr> else c) db2"
    by (rule decide_pending_InrE)
  have op: "operator \<noteq> []" using pending(5) by (auto simp: bounded_required_def Let_def split: if_splits)
  have id: "ar_id ?a = k" using approvals_table.lookup_key [OF pending(1)] by simp
  have "find_approval k db' = find_approval k (save_approval ?a db)"
    using ev db' by (simp add: find_approval_def only_events_addedD)
  then have a': "find_approval k db' = Some ?a" using approvals_table.lookup_saved [OF pending(1) id] by simp
  have "find_decision (ar_policy_decision_id a) db' = find_decision (ar_policy_decision_id a) db"
    using ev db' by (simp add: find_decision_def only_events_addedD)
  with d(1) have dec: "find_decision (ar_policy_decision_id a) db' = Some d" by simp
  have "find_case (ar_case_id a) db2 = Some c"
    using pending(3) ev by (simp add: find_case_def only_events_addedD)
  then have case': "find_case (ar_case_id a) db' =
      Some (if decision = ApprovalStatus.REJECTED then c\<lparr>pc_current_state := CaseState.ESCALATED\<rparr> else c)"
    using cases_table.lookup_saved d(6) by (simp add: db')
  have same: "c = c\<lparr>pc_current_state := CaseState.POLICY_VALIDATED\<rparr>" using d(2) by simp
  have "pd_id d = ar_policy_decision_id a" using decisions_table.lookup_key [OF d(1)] .
  then have perm: "is_execution_permitted d (Some ?a) \<longleftrightarrow> decision = ApprovalStatus.APPROVED"
    using d(3-6) by (simp add: is_execution_permitted_def is_execution_authorized_def)
  show ?thesis
    using pending(1,2,3,4) d a' dec case' perm op same
    by (intro exI [of _ a] exI [of _ ?a] exI [of _ c] exI [of _ d]) auto
qed

text \<open>
  One request per decision. Asking for approval never adds a second request for a decision
  that has one, so the human decision on a policy decision is unique.
\<close>

lemma one_request_per_decision:
  assumes "distinct (map ar_policy_decision_id (db_approvals db))"
  shows "distinct (map ar_policy_decision_id (db_approvals (snd (ensure_approval_request d t new_id db))))"
proof (cases "ensure_approval_request d t new_id db")
  case (Pair res db')
  show ?thesis
  proof (cases res)
    case (Inl e)
    then have "db' = db"
      using Pair unfolding ensure_approval_request_def by (metis transaction_Inl_unchanged)
    with assms Pair show ?thesis by simp
  next
    case (Inr r)
    obtain c where "request_locked d t new_id c db = Inr (r, db')"
      using Pair Inr by (auto simp: ensure_approval_request_def elim!: transaction_InrE split: option.splits)
    with assms Pair show ?thesis by (auto dest: request_locked_distinct)
  qed
qed

end
