(* ===== verification/Arc_Payment_Links.thy ===== *)
theory Arc_Payment_Links
  imports Arc_State_Machine
begin

text \<open>
  The payment link client (\<open>arc/integrations/razorpay/payment_links.py\<close>): the request contract,
  the validation of provider answers, the classification of HTTP failures and the four calls of
  the gateway. The HTTP library is the parameter \<open>http\<close>, a function of the request that may
  change the provider's world, and \<open>valid_url\<close> is the URL type of the validation library.
\<close>

section \<open>Failures\<close>

fun is_payment_link_error :: "arc_error \<Rightarrow> bool" where
  "is_payment_link_error (PaymentLinkConfigurationError m) = True"
| "is_payment_link_error (PaymentLinkAuthenticationError m) = True"
| "is_payment_link_error (PaymentLinkRateLimitError m) = True"
| "is_payment_link_error (PaymentLinkRejectedError m) = True"
| "is_payment_link_error (PaymentLinkUnavailableError m) = True"
| "is_payment_link_error (PaymentLinkInvalidResponseError m) = True"
| "is_payment_link_error (PaymentLinkUncertainError m) = True"
| "is_payment_link_error _ = False"

fun is_uncertain :: "arc_error \<Rightarrow> bool" where
  "is_uncertain (PaymentLinkUncertainError m) = True"
| "is_uncertain _ = False"

fun payment_link_reason :: "arc_error \<Rightarrow> string" where
  "payment_link_reason (PaymentLinkConfigurationError m) = ''RAZORPAY_CONFIGURATION_ERROR''"
| "payment_link_reason (PaymentLinkAuthenticationError m) = ''RAZORPAY_AUTHENTICATION_FAILED''"
| "payment_link_reason (PaymentLinkRateLimitError m) = ''RAZORPAY_RATE_LIMITED''"
| "payment_link_reason (PaymentLinkRejectedError m) = ''RAZORPAY_PAYMENT_LINK_REJECTED''"
| "payment_link_reason (PaymentLinkUnavailableError m) = ''RAZORPAY_PAYMENT_LINK_UNAVAILABLE''"
| "payment_link_reason (PaymentLinkInvalidResponseError m) = ''RAZORPAY_PAYMENT_LINK_INVALID_RESPONSE''"
| "payment_link_reason (PaymentLinkUncertainError m) = ''RAZORPAY_PAYMENT_LINK_OUTCOME_UNCERTAIN''"
| "payment_link_reason _ = ''RAZORPAY_PAYMENT_LINK_ERROR''"

section \<open>Contracts\<close>

record payment_link_request =
  pq_amount :: int
  pq_currency :: string
  pq_reference_id :: string
  pq_expire_by :: int

definition PAYMENT_LINK_DESCRIPTION :: string where
  "PAYMENT_LINK_DESCRIPTION = ''ARC recovery payment''"

text \<open>The constructor validates the fields, then normalizes the currency.\<close>

definition make_payment_link_request :: "int \<Rightarrow> string \<Rightarrow> string \<Rightarrow> int \<Rightarrow> arc_error + payment_link_request" where
  "make_payment_link_request amount currency reference_id expire_by =
    (if amount \<le> 0 \<or> length currency \<noteq> 3 \<or> reference_id = [] \<or> 40 < length reference_id \<or> expire_by \<le> 0
     then Inl (PyValueError ''PaymentLinkCreateRequest'')
     else Inr \<lparr>pq_amount = amount, pq_currency = py_upper (py_strip currency), pq_reference_id = reference_id,
            pq_expire_by = expire_by\<rparr>)"

definition payment_link_request_json :: "payment_link_request \<Rightarrow> json" where
  "payment_link_request_json q = JObj
    [(''amount'', JInt (pq_amount q)), (''currency'', JStr (pq_currency q)), (''accept_partial'', JBool False),
     (''reference_id'', JStr (pq_reference_id q)), (''description'', JStr PAYMENT_LINK_DESCRIPTION),
     (''expire_by'', JInt (pq_expire_by q)),
     (''notify'', JObj [(''sms'', JBool False), (''email'', JBool False)]), (''reminder_enable'', JBool False)]"

record captured_payment =
  cp_payment_id :: string
  cp_amount :: int
  cp_status :: string
  cp_method :: "string option"
  cp_created_at :: "int option"
  cp_payment_link_id :: "string option"

record payment_link_snapshot =
  ps_id :: string
  ps_reference_id :: string
  ps_amount :: int
  ps_amount_paid :: int
  ps_currency :: string
  ps_status :: string
  ps_short_url :: string
  ps_expire_by :: "int option"
  ps_expired_at :: "int option"
  ps_cancelled_at :: "int option"
  ps_updated_at :: "int option"
  ps_payments :: "captured_payment list"

section \<open>Validation of answers\<close>

text \<open>
  Strict validation of a decoded body; \<open>None\<close> is any of the three exceptions the callers turn
  into their own. Unknown fields are ignored.
\<close>

definition strict_str :: "nat \<Rightarrow> nat \<Rightarrow> json \<Rightarrow> string option" where
  "strict_str lo hi v = (case v of JStr s \<Rightarrow> if lo \<le> length s \<and> length s \<le> hi then Some s else None | _ \<Rightarrow> None)"

definition strict_int :: "int \<Rightarrow> json \<Rightarrow> int option" where
  "strict_int lo v = (case v of JInt n \<Rightarrow> if lo \<le> n then Some n else None | _ \<Rightarrow> None)"

definition required :: "string \<Rightarrow> (json \<Rightarrow> 'a option) \<Rightarrow> json_dict \<Rightarrow> 'a option" where
  "required k f d = Option.bind (map_of d k) f"

definition optional :: "string \<Rightarrow> (json \<Rightarrow> 'a option) \<Rightarrow> json_dict \<Rightarrow> 'a option option" where
  "optional k f d = (case map_of d k of None \<Rightarrow> Some None | Some JNull \<Rightarrow> Some None
     | Some v \<Rightarrow> map_option Some (f v))"

fun all_some :: "('a \<Rightarrow> 'b option) \<Rightarrow> 'a list \<Rightarrow> 'b list option" where
  "all_some f [] = Some []"
| "all_some f (x # xs) = Option.bind (f x) (\<lambda>y. map_option ((#) y) (all_some f xs))"

definition captured_payment_validate :: "json \<Rightarrow> captured_payment option" where
  "captured_payment_validate v = (case v of
     JObj d \<Rightarrow>
       Option.bind (required ''payment_id'' (strict_str 1 100) d) (\<lambda>payment_id.
       Option.bind (required ''amount'' (strict_int 1) d) (\<lambda>amount.
       Option.bind (required ''status'' (strict_str 1 64) d) (\<lambda>status.
       Option.bind (optional ''method'' (strict_str 0 64) d) (\<lambda>method.
       Option.bind (optional ''created_at'' (strict_int 0) d) (\<lambda>created_at.
       Option.bind (optional ''payment_link_id'' (strict_str 0 100) d) (\<lambda>payment_link_id.
         Some \<lparr>cp_payment_id = payment_id, cp_amount = amount, cp_status = py_lower (py_strip status),
           cp_method = method, cp_created_at = created_at, cp_payment_link_id = payment_link_id\<rparr>))))))
   | _ \<Rightarrow> None)"

definition payments_field :: "json_dict \<Rightarrow> captured_payment list option" where
  "payments_field d = (case map_of d ''payments'' of None \<Rightarrow> Some [] | Some JNull \<Rightarrow> Some []
     | Some (JArr vs) \<Rightarrow> all_some captured_payment_validate vs | Some _ \<Rightarrow> None)"

definition snapshot_validate :: "(string \<Rightarrow> string option) \<Rightarrow> json \<Rightarrow> payment_link_snapshot option" where
  "snapshot_validate valid_url v = (case v of
     JObj d \<Rightarrow>
       Option.bind (required ''id'' (strict_str 1 100) d) (\<lambda>link_id.
       Option.bind (required ''reference_id'' (strict_str 1 40) d) (\<lambda>reference_id.
       Option.bind (required ''amount'' (strict_int 1) d) (\<lambda>amount.
       Option.bind (required ''amount_paid'' (strict_int 0) d) (\<lambda>amount_paid.
       Option.bind (required ''currency'' (strict_str 3 3) d) (\<lambda>currency.
       Option.bind (required ''status'' (strict_str 1 64) d) (\<lambda>status.
       Option.bind (required ''short_url'' (\<lambda>u. case u of JStr s \<Rightarrow> valid_url s | _ \<Rightarrow> None) d) (\<lambda>short_url.
       Option.bind (optional ''expire_by'' (strict_int 0) d) (\<lambda>expire_by.
       Option.bind (optional ''expired_at'' (strict_int 0) d) (\<lambda>expired_at.
       Option.bind (optional ''cancelled_at'' (strict_int 0) d) (\<lambda>cancelled_at.
       Option.bind (optional ''updated_at'' (strict_int 0) d) (\<lambda>updated_at.
       Option.bind (payments_field d) (\<lambda>payments.
         Some \<lparr>ps_id = link_id, ps_reference_id = reference_id, ps_amount = amount, ps_amount_paid = amount_paid,
           ps_currency = py_upper (py_strip currency), ps_status = py_lower (py_strip status),
           ps_short_url = short_url, ps_expire_by = expire_by, ps_expired_at = expired_at,
           ps_cancelled_at = cancelled_at, ps_updated_at = updated_at, ps_payments = payments\<rparr>))))))))))))
   | _ \<Rightarrow> None)"

definition collection_validate :: "(string \<Rightarrow> string option) \<Rightarrow> json \<Rightarrow> payment_link_snapshot list option" where
  "collection_validate valid_url v = (case v of
     JObj d \<Rightarrow> required ''payment_links'' (\<lambda>w. case w of
         JArr vs \<Rightarrow> if 100 < length vs then None else all_some (snapshot_validate valid_url) vs
       | _ \<Rightarrow> None) d
   | _ \<Rightarrow> None)"

section \<open>Transport\<close>

datatype link_operation = LookupOp | CreateOp | CancelOp | FetchOp

record http_request =
  hq_method :: string
  hq_path :: string
  hq_params :: "(string \<times> string) list"
  hq_json :: "json option"

text \<open>A response is its status and its body when that is JSON; the other outcomes raise.\<close>

datatype http_outcome = HttpTimeoutOrNetwork | HttpRequestError | HttpResponse int "json option"

type_synonym 'w http_client = "http_request \<Rightarrow> 'w \<Rightarrow> http_outcome \<times> 'w"

definition raise_for_status :: "int \<Rightarrow> link_operation \<Rightarrow> arc_error + unit" where
  "raise_for_status status_code op =
    (if 200 \<le> status_code \<and> status_code < 300 then Inr ()
     else if status_code \<in> {401, 403} then
       Inl (PaymentLinkAuthenticationError ''Razorpay Payment Link authentication failed'')
     else if status_code = 429 then
       Inl (PaymentLinkRateLimitError ''Razorpay Payment Link rate limit was reached'')
     else if 500 \<le> status_code then
       (if op = CreateOp then
          Inl (PaymentLinkUncertainError ''Razorpay Payment Link creation outcome is uncertain'')
        else Inl (PaymentLinkUnavailableError ''Razorpay Payment Link API is temporarily unavailable''))
     else Inl (PaymentLinkRejectedError ''Razorpay rejected the Payment Link request''))"

definition link_response :: "http_outcome \<Rightarrow> link_operation \<Rightarrow> arc_error + json option" where
  "link_response outcome op = (case outcome of
       HttpTimeoutOrNetwork \<Rightarrow>
         if op = CreateOp then
           Inl (PaymentLinkUncertainError ''Razorpay Payment Link creation outcome is uncertain'')
         else Inl (PaymentLinkUnavailableError ''Razorpay Payment Link API is temporarily unavailable'')
     | HttpRequestError \<Rightarrow>
         if op = CreateOp then
           Inl (PaymentLinkUncertainError ''Razorpay Payment Link creation outcome is uncertain'')
         else Inl (PaymentLinkUnavailableError ''Razorpay Payment Link request failed safely'')
     | HttpResponse status_code body \<Rightarrow> sbind (raise_for_status status_code op) (\<lambda>_. Inr body))"

definition bounded_identifier :: "string \<Rightarrow> nat \<Rightarrow> arc_error + string" where
  "bounded_identifier identifier maximum =
    (let normalized = py_strip identifier in
     if normalized = [] \<or> maximum < length normalized
     then Inl (PaymentLinkInvalidResponseError ''Razorpay Payment Link identifier is invalid'')
     else Inr normalized)"

text \<open>\<open>urllib.parse.quote(s, safe='')\<close>: every byte of the UTF-8 text but the unreserved ones.\<close>

definition unreserved :: "char \<Rightarrow> bool" where
  "unreserved c \<longleftrightarrow> c \<in> set ''ABCDEFGHIJKLMNOPQRSTUVWXYZabcdefghijklmnopqrstuvwxyz0123456789_.-~''"

definition utf8_bytes :: "char \<Rightarrow> int list" where
  "utf8_bytes c = (if py_ord c < 128 then [py_ord c] else [192 + py_ord c div 64, 128 + py_ord c mod 64])"

definition quote_char :: "char \<Rightarrow> string" where
  "quote_char c = (if unreserved c then [c]
     else concat (map (\<lambda>b. CHR 0x25 # py_upper (hex_fixed 2 b)) (utf8_bytes c)))"

definition url_quote :: "string \<Rightarrow> string" where
  "url_quote s = concat (map quote_char s)"

section \<open>The gateway\<close>

text \<open>What execution and observation call. Each call may change the provider's world.\<close>

record 'w payment_link_gateway =
  gw_lookup :: "string \<Rightarrow> 'w \<Rightarrow> (arc_error + payment_link_snapshot list) \<times> 'w"
  gw_create :: "payment_link_request \<Rightarrow> 'w \<Rightarrow> (arc_error + payment_link_snapshot) \<times> 'w"
  gw_cancel :: "string \<Rightarrow> 'w \<Rightarrow> (arc_error + payment_link_snapshot) \<times> 'w"
  gw_fetch :: "string \<Rightarrow> 'w \<Rightarrow> (arc_error + payment_link_snapshot) \<times> 'w"

definition lookup_by_reference ::
  "'w http_client \<Rightarrow> (string \<Rightarrow> string option) \<Rightarrow> string \<Rightarrow> 'w \<Rightarrow> (arc_error + payment_link_snapshot list) \<times> 'w" where
  "lookup_by_reference http valid_url reference_id w =
    (case bounded_identifier reference_id 40 of
       Inl e \<Rightarrow> (Inl e, w)
     | Inr reference \<Rightarrow>
       let (outcome, w') = http \<lparr>hq_method = ''GET'', hq_path = ''/v1/payment_links'',
             hq_params = [(''reference_id'', reference)], hq_json = None\<rparr> w
       in (sbind (link_response outcome LookupOp) (\<lambda>body.
             case Option.bind body (collection_validate valid_url) of Some links \<Rightarrow> Inr links
             | None \<Rightarrow> Inl (PaymentLinkInvalidResponseError ''Razorpay returned an invalid Payment Link lookup'')), w'))"

definition create_link ::
  "'w http_client \<Rightarrow> (string \<Rightarrow> string option) \<Rightarrow> payment_link_request \<Rightarrow> 'w \<Rightarrow>
     (arc_error + payment_link_snapshot) \<times> 'w" where
  "create_link http valid_url q w =
    (let (outcome, w') = http \<lparr>hq_method = ''POST'', hq_path = ''/v1/payment_links'', hq_params = [],
           hq_json = Some (payment_link_request_json q)\<rparr> w
     in (sbind (link_response outcome CreateOp) (\<lambda>body.
           case Option.bind body (snapshot_validate valid_url) of
             None \<Rightarrow> Inl (PaymentLinkUncertainError ''Razorpay Payment Link creation returned an uncertain response'')
           | Some snapshot \<Rightarrow>
             if ps_reference_id snapshot \<noteq> pq_reference_id q \<or> ps_amount snapshot \<noteq> pq_amount q \<or>
                ps_currency snapshot \<noteq> pq_currency q
             then Inl (PaymentLinkUncertainError ''Razorpay Payment Link creation returned mismatched fields'')
             else Inr snapshot), w'))"

definition identified_snapshot ::
  "(string \<Rightarrow> string option) \<Rightarrow> string \<Rightarrow> string \<Rightarrow> string \<Rightarrow> json option \<Rightarrow> arc_error + payment_link_snapshot" where
  "identified_snapshot valid_url identifier invalid mismatched body =
    (case Option.bind body (snapshot_validate valid_url) of
       None \<Rightarrow> Inl (PaymentLinkInvalidResponseError invalid)
     | Some snapshot \<Rightarrow>
       if ps_id snapshot \<noteq> identifier then Inl (PaymentLinkInvalidResponseError mismatched) else Inr snapshot)"

definition cancel_link ::
  "'w http_client \<Rightarrow> (string \<Rightarrow> string option) \<Rightarrow> string \<Rightarrow> 'w \<Rightarrow> (arc_error + payment_link_snapshot) \<times> 'w" where
  "cancel_link http valid_url payment_link_id w =
    (case bounded_identifier payment_link_id 100 of
       Inl e \<Rightarrow> (Inl e, w)
     | Inr identifier \<Rightarrow>
       let (outcome, w') = http \<lparr>hq_method = ''POST'',
             hq_path = ''/v1/payment_links/'' @ url_quote identifier @ ''/cancel'', hq_params = [], hq_json = None\<rparr> w
       in (sbind (link_response outcome CancelOp)
             (identified_snapshot valid_url identifier ''Razorpay returned an invalid Payment Link cancellation''
               ''Razorpay returned a mismatched Payment Link cancellation''), w'))"

definition fetch_by_id ::
  "'w http_client \<Rightarrow> (string \<Rightarrow> string option) \<Rightarrow> string \<Rightarrow> 'w \<Rightarrow> (arc_error + payment_link_snapshot) \<times> 'w" where
  "fetch_by_id http valid_url payment_link_id w =
    (case bounded_identifier payment_link_id 100 of
       Inl e \<Rightarrow> (Inl e, w)
     | Inr identifier \<Rightarrow>
       let (outcome, w') = http \<lparr>hq_method = ''GET'', hq_path = ''/v1/payment_links/'' @ url_quote identifier,
             hq_params = [], hq_json = None\<rparr> w
       in (sbind (link_response outcome FetchOp)
             (identified_snapshot valid_url identifier ''Razorpay returned an invalid Payment Link fetch''
               ''Razorpay returned a mismatched Payment Link fetch''), w'))"

text \<open>The client's constructors demand both credentials.\<close>

definition client_from_settings ::
  "string option \<Rightarrow> string option \<Rightarrow> 'w http_client \<Rightarrow> (string \<Rightarrow> string option) \<Rightarrow>
     arc_error + 'w payment_link_gateway" where
  "client_from_settings key_id key_secret http valid_url =
    (if key_id \<in> {None, Some []} \<or> key_secret \<in> {None, Some []} then
       Inl (PaymentLinkConfigurationError ''Razorpay Payment Link credentials are not configured'')
     else Inr \<lparr>gw_lookup = lookup_by_reference http valid_url, gw_create = create_link http valid_url,
            gw_cancel = cancel_link http valid_url, gw_fetch = fetch_by_id http valid_url\<rparr>)"

definition derive_razorpay_provider_mode :: "string option \<Rightarrow> arc_error + ProviderMode" where
  "derive_razorpay_provider_mode key_id = (case key_id of
       None \<Rightarrow> Inl (PaymentLinkConfigurationError ''Razorpay Payment Link credentials are not configured'')
     | Some k \<Rightarrow>
       if take 9 k = ''rzp_test_'' then Inr ProviderMode.TEST
       else if take 9 k = ''rzp_live_'' then Inr ProviderMode.LIVE
       else Inl (PaymentLinkConfigurationError ''Razorpay credential mode could not be determined safely''))"

section \<open>Facts\<close>

lemma required_Some_iff: "required k f d = Some x \<longleftrightarrow> (\<exists>v. map_of d k = Some v \<and> f v = Some x)"
  by (auto simp: required_def bind_eq_Some_conv)

lemma strict_str_Some: "strict_str lo hi v = Some s \<Longrightarrow> lo \<le> length s \<and> length s \<le> hi \<and> v = JStr s"
  by (simp add: strict_str_def split: json.splits if_splits)

lemma strict_int_Some: "strict_int lo v = Some n \<Longrightarrow> lo \<le> n \<and> v = JInt n"
  by (simp add: strict_int_def split: json.splits if_splits)

lemma snapshot_validate_bounds:
  assumes "snapshot_validate valid_url v = Some s"
  shows "1 \<le> length (ps_id s)" "length (ps_id s) \<le> 100" "1 \<le> length (ps_reference_id s)"
    "length (ps_reference_id s) \<le> 40" "0 < ps_amount s" "0 \<le> ps_amount_paid s"
  using assms
  by (auto simp: snapshot_validate_def bind_eq_Some_conv required_Some_iff
      dest!: strict_str_Some strict_int_Some split: json.splits)

lemma all_some_member: "all_some f xs = Some ys \<Longrightarrow> y \<in> set ys \<Longrightarrow> \<exists>x \<in> set xs. f x = Some y"
  by (induction xs arbitrary: ys) (auto simp: bind_eq_Some_conv)

lemma all_some_length: "all_some f xs = Some ys \<Longrightarrow> length ys = length xs"
  by (induction xs arbitrary: ys) (auto simp: bind_eq_Some_conv)

definition within_contract :: "payment_link_snapshot \<Rightarrow> bool" where
  "within_contract s \<longleftrightarrow> 1 \<le> length (ps_id s) \<and> length (ps_id s) \<le> 100 \<and> 1 \<le> length (ps_reference_id s) \<and>
     length (ps_reference_id s) \<le> 40 \<and> 0 < ps_amount s \<and> 0 \<le> ps_amount_paid s"

lemma validated_within_contract: "snapshot_validate valid_url v = Some s \<Longrightarrow> within_contract s"
  using snapshot_validate_bounds [of valid_url v s] by (simp add: within_contract_def)

lemma collection_validate_contract:
  assumes "collection_validate valid_url v = Some ss"
  shows "length ss \<le> 100 \<and> list_all within_contract ss"
proof -
  obtain d w where w: "(case w of JArr vs \<Rightarrow> if 100 < length vs then None else all_some (snapshot_validate valid_url) vs
      | _ \<Rightarrow> None) = Some ss"
    using assms by (cases v) (auto simp: collection_validate_def required_Some_iff)
  then obtain vs where "length vs \<le> 100" "all_some (snapshot_validate valid_url) vs = Some ss"
    by (cases w) (auto simp: not_less split: if_splits)
  then show ?thesis
    using all_some_length [of "snapshot_validate valid_url" vs ss] all_some_member [of "snapshot_validate valid_url" vs ss]
    by (auto simp: list_all_iff intro: validated_within_contract)
qed

lemma raise_for_status_Inr: "raise_for_status c op = Inr u \<longleftrightarrow> 200 \<le> c \<and> c < 300"
  by (simp add: raise_for_status_def)

lemma raise_for_status_Inl_create:
  "raise_for_status c CreateOp = Inl e \<Longrightarrow>
     is_payment_link_error e \<and> \<not> (200 \<le> c \<and> c < 300) \<and> (is_uncertain e \<longleftrightarrow> 500 \<le> c)"
  by (auto simp: raise_for_status_def split: if_splits)

lemma raise_for_status_Inl: "raise_for_status c op = Inl e \<Longrightarrow> is_payment_link_error e"
  by (auto simp: raise_for_status_def split: if_splits)

lemma link_response_Inl: "link_response r op = Inl e \<Longrightarrow> is_payment_link_error e"
  by (auto simp: link_response_def sbind_eq_Inl_iff raise_for_status_Inl split: http_outcome.splits if_splits)

lemma hex_fixed_chars: "0 \<le> n \<Longrightarrow> set (hex_fixed w n) \<subseteq> set ''0123456789abcdef''"
proof (induction w arbitrary: n)
  case (Suc w)
  have "digit (n mod 16) \<in> set ''0123456789abcdef''"
    unfolding digit_def by (rule nth_mem) (use pos_mod_bound [of 16 n] pos_mod_sign [of 16 n] in simp)
  moreover have "set (hex_fixed w (n div 16)) \<subseteq> set ''0123456789abcdef''" using Suc by simp
  ultimately show ?case by auto
qed simp

lemma slash_not_quoted: "CHR ''/'' \<notin> set (url_quote s)"
proof -
  have up: "CHR ''/'' \<notin> set (py_upper x)" if "set x \<subseteq> set ''0123456789abcdef''" for x
  proof -
    have "list_all (\<lambda>c. upper_char c \<noteq> CHR ''/'') ''0123456789abcdef''" by code_simp
    then have "\<forall>c \<in> set ''0123456789abcdef''. upper_char c \<noteq> CHR ''/''" by (simp only: list_all_iff)
    with that show ?thesis unfolding py_upper_def by fastforce
  qed
  have "CHR ''/'' \<notin> set (py_upper (hex_fixed 2 b))" if "b \<in> set (utf8_bytes c)" for b c
  proof -
    have "0 \<le> py_ord c" by (metis of_nat_0_le_iff of_nat_of_char py_ord_def)
    then have "0 \<le> b" using that by (auto simp: utf8_bytes_def split: if_splits)
    then show ?thesis by (intro up hex_fixed_chars)
  qed
  then have "CHR ''/'' \<notin> set (quote_char c)" for c
    by (auto simp: quote_char_def unreserved_def)
  then show ?thesis by (auto simp: url_quote_def)
qed

section \<open>Properties\<close>

text \<open>
  Certain and uncertain creations. A creation that succeeds returned a validated link with
  exactly the reference, amount and currency asked for. It fails with a certain error only when
  the provider answered with a status that refuses the request, below 500; a timeout, a broken
  connection, a server error, a malformed or a mismatched success are all reported as uncertain,
  since the link may exist.
\<close>

lemma create_failures_classified:
  "case fst (create_link http valid_url q w) of
     Inr s \<Rightarrow> ps_reference_id s = pq_reference_id q \<and> ps_amount s = pq_amount q \<and> ps_currency s = pq_currency q \<and>
       within_contract s
   | Inl e \<Rightarrow> is_payment_link_error e \<and>
       (\<not> is_uncertain e \<longleftrightarrow> (\<exists>code body. code < 500 \<and> \<not> (200 \<le> code \<and> code < 300) \<and>
          fst (http \<lparr>hq_method = ''POST'', hq_path = ''/v1/payment_links'', hq_params = [],
            hq_json = Some (payment_link_request_json q)\<rparr> w) = HttpResponse code body))"
proof (cases "http \<lparr>hq_method = ''POST'', hq_path = ''/v1/payment_links'', hq_params = [],
            hq_json = Some (payment_link_request_json q)\<rparr> w")
  case (Pair outcome w')
  show ?thesis
  proof (cases outcome)
    case (HttpResponse code body)
    show ?thesis
    proof (cases "raise_for_status code CreateOp")
      case (Inl e)
      with raise_for_status_Inl_create [OF Inl] show ?thesis
        by (auto simp: create_link_def Pair HttpResponse link_response_def)
    next
      case (Inr u)
      then have "200 \<le> code \<and> code < 300" by (simp add: raise_for_status_Inr)
      with Inr show ?thesis
        by (auto simp: create_link_def Pair HttpResponse link_response_def bind_eq_Some_conv
            dest: validated_within_contract split: option.splits)
    qed
  qed (simp_all add: create_link_def Pair link_response_def)
qed

text \<open>
  What the other calls return. Whatever the provider answers, a lookup returns at most a
  hundred links, every link is within the contract's bounds, a cancellation or a fetch returns the
  link that was asked for, and a failure is one of the client's own errors.
\<close>

lemma answers_validated:
  "(case fst (lookup_by_reference http valid_url r w) of
      Inr ss \<Rightarrow> length ss \<le> 100 \<and> list_all within_contract ss | Inl e \<Rightarrow> is_payment_link_error e) \<and>
   (case fst (cancel_link http valid_url k w) of
      Inr s \<Rightarrow> ps_id s = py_strip k \<and> within_contract s | Inl e \<Rightarrow> is_payment_link_error e) \<and>
   (case fst (fetch_by_id http valid_url k w) of
      Inr s \<Rightarrow> ps_id s = py_strip k \<and> within_contract s | Inl e \<Rightarrow> is_payment_link_error e)"
proof -
  have ident: "bounded_identifier x n = Inl e \<Longrightarrow> is_payment_link_error e"
    "bounded_identifier x n = Inr y \<Longrightarrow> y = py_strip x" for x n e y
    by (auto simp: bounded_identifier_def Let_def split: if_splits)
  have lookup: "case sbind (link_response o1 LookupOp) (\<lambda>body.
        case Option.bind body (collection_validate valid_url) of Some links \<Rightarrow> Inr links
        | None \<Rightarrow> Inl (PaymentLinkInvalidResponseError m)) of
      Inr ss \<Rightarrow> length ss \<le> 100 \<and> list_all within_contract ss | Inl e \<Rightarrow> is_payment_link_error e" for o1 m
    by (cases "link_response o1 LookupOp")
      (auto simp: link_response_Inl bind_eq_Some_conv dest: collection_validate_contract split: option.splits)
  have one: "case sbind (link_response o1 op) (identified_snapshot valid_url y m n) of
      Inr s \<Rightarrow> ps_id s = y \<and> within_contract s | Inl e \<Rightarrow> is_payment_link_error e" for o1 op y m n
    by (cases "link_response o1 op")
      (auto simp: link_response_Inl identified_snapshot_def bind_eq_Some_conv
        intro: validated_within_contract split: option.splits)
  have "case fst (lookup_by_reference http valid_url r w) of
      Inr ss \<Rightarrow> length ss \<le> 100 \<and> list_all within_contract ss | Inl e \<Rightarrow> is_payment_link_error e"
    by (cases "bounded_identifier r 40") (simp_all add: lookup_by_reference_def case_prod_beta Let_def ident(1) lookup)
  moreover have "case fst (cancel_link http valid_url k w) of
      Inr s \<Rightarrow> ps_id s = py_strip k \<and> within_contract s | Inl e \<Rightarrow> is_payment_link_error e"
  proof (cases "bounded_identifier k 100")
    case (Inr y)
    with ident(2) [OF Inr] one show ?thesis by (simp add: cancel_link_def case_prod_beta Let_def)
  qed (simp add: cancel_link_def ident(1))
  moreover have "case fst (fetch_by_id http valid_url k w) of
      Inr s \<Rightarrow> ps_id s = py_strip k \<and> within_contract s | Inl e \<Rightarrow> is_payment_link_error e"
  proof (cases "bounded_identifier k 100")
    case (Inr y)
    with ident(2) [OF Inr] one show ?thesis by (simp add: fetch_by_id_def case_prod_beta Let_def)
  qed (simp add: fetch_by_id_def ident(1))
  ultimately show ?thesis by blast
qed

end
