(* ===== verification/Arc_Leases.thy ===== *)
theory Arc_Leases
  imports Arc_Prelude
begin

text \<open>
  The lease that execution and webhook processing put on a row: a claim stamps the row with its
  start and counts the attempt; a row whose lease is fresh is not claimed again, and a worker
  whose attempt is not the row's latest one has lost its claim.
\<close>

locale leased =
  fixes claim :: "py_datetime \<Rightarrow> 'r \<Rightarrow> 'r"
    and fresh :: "'r \<Rightarrow> py_datetime \<Rightarrow> bool"
    and attempts :: "'r \<Rightarrow> int"
    and lease :: int
  assumes fresh_claim: "dt_aware t \<Longrightarrow> fresh (claim t r) now \<longleftrightarrow> dt_us now < dt_us t + lease"
    and attempts_claim: "attempts (claim t r) = attempts r + 1"
    and lease_pos: "0 < lease"
begin

text \<open>A row, its claims and the time of the last one, as workers take it over one after another.\<close>

inductive claims :: "'r \<Rightarrow> py_datetime list \<Rightarrow> 'r \<Rightarrow> bool" where
  none: "claims r [] r"
| again: "claims r ts r' \<Longrightarrow> \<not> fresh r' t \<Longrightarrow> dt_aware t \<Longrightarrow> claims r (t # ts) (claim t r')"

lemma exclusive: "dt_aware t \<Longrightarrow> dt_us now < dt_us t + lease \<Longrightarrow> fresh (claim t r) now"
  by (simp add: fresh_claim)

lemma taken_over: "dt_aware t \<Longrightarrow> dt_us t + lease \<le> dt_us now \<Longrightarrow> \<not> fresh (claim t r) now"
  by (simp add: fresh_claim)

lemma fenced: "attempts (claim t r) \<noteq> attempts r"
  by (simp add: attempts_claim)

lemma claims_count: "claims r ts r' \<Longrightarrow> attempts r' = attempts r + int (length ts)"
  by (induction rule: claims.induct) (simp_all add: attempts_claim)

lemma claims_spaced: "claims r ts r' \<Longrightarrow> successively (\<lambda>t s. dt_us s + lease \<le> dt_us t) ts"
proof (induction rule: claims.induct)
  case (again r ts r' t)
  show ?case
  proof (cases ts)
    case (Cons s ss)
    with again.hyps(1) obtain r0 where "r' = claim s r0" "dt_aware s" by (auto elim: claims.cases)
    with again.hyps(2) have "dt_us s + lease \<le> dt_us t" by (simp add: fresh_claim not_less)
    with again.IH Cons show ?thesis by simp
  qed simp
qed simp

end

end
