(* ===== verification/Arc_Execution.thy ===== *)
theory Arc_Execution
  imports Arc_Approval Arc_Payment_Links Arc_Leases
begin

text \<open>
  Governed recovery execution: the fingerprints of an execution (\<open>arc/execution/fingerprint.py\<close>),
  its audit (\<open>arc/execution/audit.py\<close>) and the service (\<open>arc/execution/service.py\<close>) that claims
  the current decision under a lease, performs the action, and fences the result against what
  changed meanwhile. Each database transaction is one definition; \<open>execute\<close> composes them with
  the provider calls, and with \<open>others\<close> and \<open>later\<close>, whatever other transactions commit while no
  lock is held.
\<close>

section \<open>Fingerprints\<close>

definition EXECUTOR_RULESET_VERSION :: string where
  "EXECUTOR_RULESET_VERSION = ''arc-recovery-executor-v1''"

record execution_identity =
  xi_policy_decision_id :: uuid
  xi_authorization_input_fingerprint :: string
  xi_strategy_proposal_id :: uuid
  xi_action :: RecoveryAction

definition execution_identity_facts :: "execution_identity \<Rightarrow> json" where
  "execution_identity_facts i = JObj
    [(''executor_ruleset_version'', JStr EXECUTOR_RULESET_VERSION),
     (''policy_decision_id'', JStr (uuid_str (xi_policy_decision_id i))),
     (''authorization_input_fingerprint'', JStr (xi_authorization_input_fingerprint i)),
     (''strategy_proposal_id'', JStr (uuid_str (xi_strategy_proposal_id i))),
     (''action'', JStr (action_value (xi_action i)))]"

definition build_execution_idempotency_key :: "(string \<Rightarrow> string) \<Rightarrow> execution_identity \<Rightarrow> string" where
  "build_execution_idempotency_key sha i = sha (json_dumps True (execution_identity_facts i))"

record link_intent =
  li_action :: RecoveryAction
  li_amount_minor :: int
  li_currency :: string
  li_reference_id :: string
  li_expire_by :: int

definition link_intent_facts :: "link_intent \<Rightarrow> json" where
  "link_intent_facts i = JObj
    [(''executor_ruleset_version'', JStr EXECUTOR_RULESET_VERSION), (''action'', JStr (action_value (li_action i))),
     (''amount'', JInt (li_amount_minor i)), (''currency'', JStr (py_upper (py_strip (li_currency i)))),
     (''reference_id'', JStr (li_reference_id i)), (''expire_by'', JInt (li_expire_by i)),
     (''accept_partial'', JBool False), (''description'', JStr PAYMENT_LINK_DESCRIPTION),
     (''notify'', JObj [(''email'', JBool False), (''sms'', JBool False)]), (''reminder_enable'', JBool False)]"

definition build_payment_link_request_fingerprint :: "(string \<Rightarrow> string) \<Rightarrow> link_intent \<Rightarrow> string" where
  "build_payment_link_request_fingerprint sha i = sha (json_dumps True (link_intent_facts i))"

definition internal_request_facts :: "RecoveryAction \<Rightarrow> uuid \<Rightarrow> int option \<Rightarrow> json" where
  "internal_request_facts action policy_decision_id re_evaluate_after_seconds = JObj
    [(''executor_ruleset_version'', JStr EXECUTOR_RULESET_VERSION), (''action'', JStr (action_value action)),
     (''policy_decision_id'', JStr (uuid_str policy_decision_id)),
     (''re_evaluate_after_seconds'', jopt JInt re_evaluate_after_seconds)]"

definition build_internal_request_fingerprint ::
  "(string \<Rightarrow> string) \<Rightarrow> RecoveryAction \<Rightarrow> uuid \<Rightarrow> int option \<Rightarrow> string" where
  "build_internal_request_fingerprint sha action policy_decision_id re_evaluate_after_seconds =
     sha (json_dumps True (internal_request_facts action policy_decision_id re_evaluate_after_seconds))"

interpretation execution_key: fingerprinted execution_identity_facts True
  by unfold_locales (auto simp: execution_identity_facts_def)

interpretation link_request_fp: fingerprinted link_intent_facts True
  by unfold_locales (auto simp: link_intent_facts_def)

section \<open>Audit\<close>

definition EXECUTION_AUDIT_SOURCE :: string where
  "EXECUTION_AUDIT_SOURCE = ''RECOVERY_EXECUTOR''"

definition append_execution_audit :: "recovery_action \<Rightarrow> string \<Rightarrow> json_dict \<Rightarrow> arc_db \<Rightarrow> arc_db" where
  "append_execution_audit r event_type metadata db =
     add_event \<lparr>ce_case_id = ra_case_id r, ce_event_type = event_type, ce_source = EXECUTION_AUDIT_SOURCE,
       ce_event_data = JObj (dict_update
         [(''recovery_action_id'', JStr (uuid_str (ra_id r))),
          (''policy_decision_id'', JStr (uuid_str (ra_policy_decision_id r))),
          (''strategy_proposal_id'', JStr (uuid_str (ra_strategy_proposal_id r))),
          (''approval_request_id'', jopt (\<lambda>u. JStr (uuid_str u)) (ra_approval_request_id r)),
          (''action'', JStr (action_value (ra_action r))),
          (''execution_status'', JStr (execution_status_value (ra_execution_status r))),
          (''provider'', JStr (ra_provider r)), (''reference_id'', jopt JStr (ra_external_reference r)),
          (''provider_entity_id'', jopt JStr (ra_external_reference_id r)),
          (''provider_status'', jopt JStr (ra_external_status r)),
          (''attempt_count'', JInt (ra_execution_attempt_count r))] metadata)\<rparr> db"

section \<open>Data\<close>

definition EXECUTION_LEASE_SECONDS :: int where
  "EXECUTION_LEASE_SECONDS = 120"

definition PAYMENT_LINK_OPERATIONAL_EXPIRY_SECONDS :: int where
  "PAYMENT_LINK_OPERATIONAL_EXPIRY_SECONDS = 30 * 60"

definition FINAL_EXECUTION_STATUSES :: "RecoveryExecutionStatus set" where
  "FINAL_EXECUTION_STATUSES = {RecoveryExecutionStatus.SUCCEEDED, RecoveryExecutionStatus.FAILED,
     RecoveryExecutionStatus.CANCELLED, RecoveryExecutionStatus.COMPENSATION_REQUIRED}"

definition INTERNAL_SUPPORTED_ACTIONS :: "RecoveryAction set" where
  "INTERNAL_SUPPORTED_ACTIONS = {RecoveryAction.WAIT, RecoveryAction.NO_ACTION, RecoveryAction.ESCALATE_TO_HUMAN}"

definition UNSUPPORTED_ACTIONS :: "RecoveryAction set" where
  "UNSUPPORTED_ACTIONS = {RecoveryAction.REQUEST_RETRY, RecoveryAction.REQUEST_PAYMENT_METHOD_UPDATE}"

record execution_result =
  xr_recovery_action_id :: uuid
  xr_case_id :: uuid
  xr_policy_decision_id :: uuid
  xr_action :: RecoveryAction
  xr_execution_status :: RecoveryExecutionStatus
  xr_case_state :: CaseState
  xr_reason_code :: string
  xr_execution_attempt_count :: int
  xr_external_reference_id :: "string option"
  xr_external_reference :: "string option"
  xr_external_status :: "string option"
  xr_external_url :: "string option"
  xr_idempotent :: bool

record execution_claim =
  xc_recovery_action_id :: uuid
  xc_case_id :: uuid
  xc_action :: RecoveryAction
  xc_amount_minor :: "int option"
  xc_currency :: "string option"
  xc_reference_id :: "string option"
  xc_expire_by :: "int option"

definition execution_view :: "recovery_action \<Rightarrow> payment_case \<Rightarrow> string \<Rightarrow> bool \<Rightarrow> execution_result" where
  "execution_view r c reason_code idempotent =
     \<lparr>xr_recovery_action_id = ra_id r, xr_case_id = ra_case_id r, xr_policy_decision_id = ra_policy_decision_id r,
      xr_action = ra_action r, xr_execution_status = ra_execution_status r, xr_case_state = pc_current_state c,
      xr_reason_code = reason_code, xr_execution_attempt_count = ra_execution_attempt_count r,
      xr_external_reference_id = ra_external_reference_id r, xr_external_reference = ra_external_reference r,
      xr_external_status = ra_external_status r, xr_external_url = ra_external_url r, xr_idempotent = idempotent\<rparr>"

definition already_final :: "recovery_action \<Rightarrow> payment_case \<Rightarrow> execution_result" where
  "already_final r c = execution_view r c ''RECOVERY_ACTION_ALREADY_FINAL'' True"

section \<open>Loading\<close>

definition lock_execution_case :: "uuid \<Rightarrow> arc_db \<Rightarrow> arc_error + payment_case" where
  "lock_execution_case case_id db = (case find_case case_id db of
       None \<Rightarrow> Inl (ExecutionCaseNotFoundError ''Payment case was not found'') | Some c \<Rightarrow> Inr c)"

definition lock_record :: "uuid \<Rightarrow> arc_db \<Rightarrow> arc_error + recovery_action" where
  "lock_record record_id db = (case find_action record_id db of
       None \<Rightarrow> Inl (ExecutionConfigurationError ''Recovery action ledger row was not found'') | Some r \<Rightarrow> Inr r)"

definition load_current_proposal :: "uuid \<Rightarrow> arc_db \<Rightarrow> arc_error + strategy_proposal" where
  "load_current_proposal case_id db = (case find_current_proposal case_id db of
       None \<Rightarrow> Inl (ExecutionRequiresPolicyReevaluationError ''A current strategy proposal is required'')
     | Some p \<Rightarrow> Inr p)"

definition load_current_decision :: "uuid \<Rightarrow> arc_db \<Rightarrow> arc_error + policy_decision" where
  "load_current_decision case_id db = (case find_current_decision case_id db of
       None \<Rightarrow> Inl (ExecutionRequiresPolicyReevaluationError ''A current policy decision is required'')
     | Some d \<Rightarrow> Inr d)"

definition find_action_for :: "uuid \<Rightarrow> arc_db \<Rightarrow> recovery_action option" where
  "find_action_for decision_id db = find (\<lambda>r. ra_policy_decision_id r = decision_id) (db_actions db)"

definition require_execution_clock :: "py_datetime \<Rightarrow> arc_error + unit" where
  "require_execution_clock value = (if dt_aware value then Inr ()
     else Inl (ExecutionConfigurationError ''Recovery execution clock must be timezone-aware''))"

section \<open>Authority\<close>

definition current_inputs ::
  "(string \<Rightarrow> string) \<Rightarrow> payment_case \<Rightarrow> strategy_proposal \<Rightarrow> policy_decision \<Rightarrow> py_datetime \<Rightarrow> arc_db \<Rightarrow>
     arc_error + current_authorization" where
  "current_inputs sha c p d evaluated_at db =
    (if pd_strategy_proposal_id d \<noteq> sp_id p then
       Inl (ExecutionRequiresPolicyReevaluationError ''Current policy decision does not reference current strategy'')
     else case recompute_current_authorization_inputs sha c p evaluated_at db of
       Inl e \<Rightarrow> Inl (ExecutionRequiresPolicyReevaluationError (error_text e))
     | Inr inputs \<Rightarrow>
       let v = ca_evaluation inputs in
       if pd_strategy_input_fingerprint d \<noteq> sp_strategy_input_fingerprint p \<or>
          pd_policy_fingerprint d \<noteq> ca_policy_fingerprint inputs \<or>
          pd_authorization_input_fingerprint d \<noteq> ca_authorization_input_fingerprint inputs \<or>
          pd_result d \<noteq> av_result v \<or> pd_reason_code d \<noteq> av_reason_code v \<or>
          \<not> dt_opt_eq (pd_recovery_window_ends_at d) (av_recovery_window_ends_at v) \<or>
          pd_observed_amount_minor d \<noteq> pc_amount c \<or> pd_observed_attempt_count d \<noteq> pc_attempt_count c \<or>
          pd_observed_contact_attempt_count d \<noteq> pc_contact_attempt_count c
       then Inl (ExecutionRequiresPolicyReevaluationError ''Current deterministic authorization inputs have changed'')
       else if pd_result d = PolicyDecisionResult.BLOCKED \<or> av_recovery_window_expired v = Some True
       then Inl (ExecutionRequiresPolicyReevaluationError ''Current policy decision no longer permits execution'')
       else Inr inputs)"

definition post_request_context_is_current ::
  "(string \<Rightarrow> string) \<Rightarrow> payment_case \<Rightarrow> recovery_action \<Rightarrow> py_datetime \<Rightarrow> arc_db \<Rightarrow> bool" where
  "post_request_context_is_current sha c r evaluated_at db =
    (if pc_current_state c \<noteq> CaseState.POLICY_VALIDATED then False
     else case (find_proposal (ra_strategy_proposal_id r) db, find_decision (ra_policy_decision_id r) db) of
       (Some p, Some d) \<Rightarrow>
         if sp_superseded_at p \<noteq> None \<or> pd_superseded_at d \<noteq> None then False
         else (case current_inputs sha c p d evaluated_at db of
             Inl e \<Rightarrow> False
           | Inr inputs \<Rightarrow> is_execution_permitted d (find_approval_for (pd_id d) db))
     | _ \<Rightarrow> False)"

section \<open>The ledger row\<close>

definition link_record ::
  "(string \<Rightarrow> string) \<Rightarrow> payment_case \<Rightarrow> strategy_proposal \<Rightarrow> policy_decision \<Rightarrow> py_datetime \<Rightarrow> recovery_action \<Rightarrow>
     arc_error + recovery_action" where
  "link_record sha c p d now r =
    (case pc_amount c of
       None \<Rightarrow> Inl (ExecutionRequiresPolicyReevaluationError ''A positive amount is required for Payment Link execution'')
     | Some amount \<Rightarrow>
       if amount \<le> 0 then
         Inl (ExecutionRequiresPolicyReevaluationError ''A positive amount is required for Payment Link execution'')
       else case pc_currency c of
         None \<Rightarrow> Inl (ExecutionRequiresPolicyReevaluationError ''A three-letter currency is required for Payment Link execution'')
       | Some currency \<Rightarrow>
         if length (py_strip currency) \<noteq> 3 then
           Inl (ExecutionRequiresPolicyReevaluationError ''A three-letter currency is required for Payment Link execution'')
         else case pd_recovery_window_ends_at d of
           None \<Rightarrow> Inl (ExecutionRequiresPolicyReevaluationError ''Authorized recovery window has expired'')
         | Some window_end \<Rightarrow>
           if dt_le window_end now then
             Inl (ExecutionRequiresPolicyReevaluationError ''Authorized recovery window has expired'')
           else
             let expires_at = dt_min window_end (dt_add now (seconds PAYMENT_LINK_OPERATIONAL_EXPIRY_SECONDS));
                 expire_by = dt_timestamp expires_at
             in if expire_by \<le> dt_timestamp now then
                  Inl (ExecutionRequiresPolicyReevaluationError ''Payment Link expiry is no longer executable'')
                else
                  let reference_id = ''arc_'' @ uuid_hex (ra_id r)
                  in Inr (r\<lparr>ra_request_fingerprint := build_payment_link_request_fingerprint sha
                         \<lparr>li_action = sp_action p, li_amount_minor = amount, li_currency = currency,
                          li_reference_id = reference_id, li_expire_by = expire_by\<rparr>,
                       ra_provider := ''RAZORPAY'', ra_external_reference := Some reference_id,
                       ra_external_expires_at := Some expires_at\<rparr>))"

definition build_record ::
  "(string \<Rightarrow> string) \<Rightarrow> payment_case \<Rightarrow> strategy_proposal \<Rightarrow> policy_decision \<Rightarrow> approval_request option \<Rightarrow>
     current_authorization \<Rightarrow> py_datetime \<Rightarrow> uuid \<Rightarrow> arc_error + recovery_action" where
  "build_record sha c p d approval inputs now record_id =
    (let bare = \<lparr>ra_id = record_id, ra_case_id = pc_id c, ra_strategy_proposal_id = sp_id p,
           ra_policy_decision_id = pd_id d, ra_approval_request_id = map_option ar_id approval,
           ra_action = sp_action p, ra_execution_status = RecoveryExecutionStatus.PREPARED,
           ra_idempotency_key = build_execution_idempotency_key sha
             \<lparr>xi_policy_decision_id = pd_id d,
              xi_authorization_input_fingerprint = ca_authorization_input_fingerprint inputs,
              xi_strategy_proposal_id = sp_id p, xi_action = sp_action p\<rparr>,
           ra_request_fingerprint = build_internal_request_fingerprint sha (sp_action p) (pd_id d)
             (sp_re_evaluate_after_seconds p),
           ra_provider = ''INTERNAL'', ra_external_reference_id = None, ra_external_reference = None,
           ra_external_status = None, ra_external_url = None, ra_external_expires_at = None,
           ra_execution_started_at = None, ra_execution_attempt_count = 0, ra_executed_at = None,
           ra_failed_at = None, ra_error_code = None, ra_next_evaluation_at = None\<rparr>
     in if sp_action p = RecoveryAction.CREATE_RECOVERY_LINK then link_record sha c p d now bare else Inr bare)"

definition expected_request ::
  "(string \<Rightarrow> string) \<Rightarrow> recovery_action \<Rightarrow> payment_case \<Rightarrow> strategy_proposal \<Rightarrow> policy_decision \<Rightarrow> arc_error + string" where
  "expected_request sha r c p d =
    (if ra_action r = RecoveryAction.CREATE_RECOVERY_LINK then
       (case (pc_amount c, pc_currency c, ra_external_reference r, ra_external_expires_at r) of
          (Some amount, Some currency, Some reference, Some expires_at) \<Rightarrow>
            Inr (build_payment_link_request_fingerprint sha
              \<lparr>li_action = ra_action r, li_amount_minor = amount, li_currency = currency,
               li_reference_id = reference, li_expire_by = dt_timestamp expires_at\<rparr>)
        | _ \<Rightarrow> Inl (ExecutionConfigurationError ''Payment Link execution intent is incomplete''))
     else Inr (build_internal_request_fingerprint sha (ra_action r) (pd_id d) (sp_re_evaluate_after_seconds p)))"

definition validate_existing_record ::
  "(string \<Rightarrow> string) \<Rightarrow> recovery_action \<Rightarrow> payment_case \<Rightarrow> strategy_proposal \<Rightarrow> policy_decision \<Rightarrow> arc_error + unit" where
  "validate_existing_record sha r c p d =
    (if ra_case_id r \<noteq> pc_id c \<or> ra_strategy_proposal_id r \<noteq> sp_id p \<or> ra_action r \<noteq> sp_action p \<or>
        ra_idempotency_key r \<noteq> build_execution_idempotency_key sha
          \<lparr>xi_policy_decision_id = pd_id d, xi_authorization_input_fingerprint = pd_authorization_input_fingerprint d,
           xi_strategy_proposal_id = sp_id p, xi_action = sp_action p\<rparr>
     then Inl (ExecutionRequiresPolicyReevaluationError ''Existing recovery action does not match current authorization'')
     else sbind (expected_request sha r c p d) (\<lambda>expected.
       if ra_request_fingerprint r \<noteq> expected
       then Inl (ExecutionRequiresPolicyReevaluationError ''Existing recovery request fingerprint is inconsistent'')
       else Inr ()))"

definition has_fresh_lease :: "recovery_action \<Rightarrow> py_datetime \<Rightarrow> bool" where
  "has_fresh_lease r now =
    (if ra_execution_status r \<noteq> RecoveryExecutionStatus.IN_PROGRESS then False
     else case ra_execution_started_at r of None \<Rightarrow> False
       | Some started_at \<Rightarrow> dt_less (dt_add now (- seconds EXECUTION_LEASE_SECONDS)) started_at)"

definition start_attempt :: "py_datetime \<Rightarrow> recovery_action \<Rightarrow> recovery_action" where
  "start_attempt now r = r\<lparr>ra_execution_status := RecoveryExecutionStatus.IN_PROGRESS,
     ra_execution_started_at := Some now, ra_execution_attempt_count := ra_execution_attempt_count r + 1,
     ra_failed_at := None, ra_error_code := None\<rparr>"

definition to_claim :: "recovery_action \<Rightarrow> payment_case \<Rightarrow> execution_claim" where
  "to_claim r c = \<lparr>xc_recovery_action_id = ra_id r, xc_case_id = ra_case_id r, xc_action = ra_action r,
     xc_amount_minor = pc_amount c, xc_currency = pc_currency c, xc_reference_id = ra_external_reference r,
     xc_expire_by = map_option dt_timestamp (ra_external_expires_at r)\<rparr>"

section \<open>Claiming\<close>

definition claim_row ::
  "recovery_action \<Rightarrow> payment_case \<Rightarrow> py_datetime \<Rightarrow> arc_db \<Rightarrow> (execution_result + execution_claim) \<times> arc_db" where
  "claim_row r c now db =
    (if has_fresh_lease r now then (Inl (execution_view r c ''EXECUTION_ALREADY_PROCESSING'' True), db)
     else let r' = start_attempt now r
       in (Inr (to_claim r' c), append_execution_audit r' ''RECOVERY_ACTION_STARTED'' [] (save_action r' db)))"

definition claim_current ::
  "(string \<Rightarrow> string) \<Rightarrow> payment_case \<Rightarrow> strategy_proposal \<Rightarrow> policy_decision \<Rightarrow> recovery_action option \<Rightarrow> py_datetime \<Rightarrow>
     uuid \<Rightarrow> arc_db \<Rightarrow> arc_error + (execution_result + execution_claim) \<times> arc_db" where
  "claim_current sha c p d existing now record_id db =
     sbind (current_inputs sha c p d now db) (\<lambda>inputs.
       let approval = find_approval_for (pd_id d) db in
       if \<not> is_execution_permitted d approval then
         Inl (ExecutionNotPermittedError ''Current authorization does not permit execution'')
       else case existing of
           None \<Rightarrow> sbind (build_record sha c p d approval inputs now record_id) (\<lambda>r.
             Inr (claim_row r c now (append_execution_audit r ''RECOVERY_ACTION_PREPARED'' [] (add_action r db))))
         | Some r \<Rightarrow> sbind (validate_existing_record sha r c p d) (\<lambda>_. Inr (claim_row r c now db)))"

definition prepare_locked ::
  "(string \<Rightarrow> string) \<Rightarrow> payment_case \<Rightarrow> py_datetime \<Rightarrow> uuid \<Rightarrow> arc_db \<Rightarrow>
     arc_error + (execution_result + execution_claim) \<times> arc_db" where
  "prepare_locked sha c now record_id db =
     sbind (load_current_proposal (pc_id c) db) (\<lambda>p.
     sbind (load_current_decision (pc_id c) db) (\<lambda>d.
       let existing = find_action_for (pd_id d) db in
       case existing of
         Some r \<Rightarrow>
           if ra_execution_status r \<in> FINAL_EXECUTION_STATUSES then Inr (Inl (already_final r c), db)
           else if pc_current_state c \<noteq> CaseState.POLICY_VALIDATED then
             Inl (ExecutionRequiresPolicyReevaluationError ''Case state requires policy reevaluation before execution'')
           else claim_current sha c p d existing now record_id db
       | None \<Rightarrow>
           if pc_current_state c \<noteq> CaseState.POLICY_VALIDATED then
             Inl (ExecutionRequiresPolicyReevaluationError ''Case state requires policy reevaluation before execution'')
           else claim_current sha c p d None now record_id db))"

definition prepare_and_claim ::
  "(string \<Rightarrow> string) \<Rightarrow> uuid \<Rightarrow> py_datetime \<Rightarrow> uuid \<Rightarrow> arc_db \<Rightarrow>
     (arc_error + (execution_result + execution_claim)) \<times> arc_db" where
  "prepare_and_claim sha case_id now record_id db = transaction db
    (sbind (require_execution_clock now) (\<lambda>_.
     sbind (lock_execution_case case_id db) (\<lambda>c. prepare_locked sha c now record_id db)))"

section \<open>The provider's part\<close>

definition payment_link_request :: "execution_claim \<Rightarrow> arc_error + payment_link_request" where
  "payment_link_request claim =
    (case (xc_amount_minor claim, xc_currency claim, xc_reference_id claim, xc_expire_by claim) of
       (Some amount, Some currency, Some reference_id, Some expire_by) \<Rightarrow>
         make_payment_link_request amount (py_upper (py_strip currency)) reference_id expire_by
     | _ \<Rightarrow> Inl (ExecutionConfigurationError ''Payment Link execution claim is incomplete''))"

definition matches_request :: "payment_link_snapshot \<Rightarrow> payment_link_request \<Rightarrow> bool" where
  "matches_request s q \<longleftrightarrow> ps_reference_id s = pq_reference_id q \<and> ps_amount s = pq_amount q \<and>
     ps_currency s = pq_currency q"

text \<open>What looking up and creating come to: a link, adopted or new, or a problem to record.\<close>

record provider_problem =
  pp_status :: RecoveryExecutionStatus
  pp_error_code :: string
  pp_event_type :: string

definition indeterminate :: "string \<Rightarrow> provider_problem" where
  "indeterminate code = \<lparr>pp_status = RecoveryExecutionStatus.INDETERMINATE, pp_error_code = code,
     pp_event_type = ''RECOVERY_ACTION_INDETERMINATE''\<rparr>"

definition failed :: "string \<Rightarrow> provider_problem" where
  "failed code = \<lparr>pp_status = RecoveryExecutionStatus.FAILED, pp_error_code = code,
     pp_event_type = ''RECOVERY_ACTION_FAILED''\<rparr>"

definition obtain_link ::
  "'w payment_link_gateway \<Rightarrow> payment_link_request \<Rightarrow> 'w \<Rightarrow>
     (arc_error + (provider_problem + payment_link_snapshot \<times> bool)) \<times> 'w" where
  "obtain_link gw q w =
    (case gw_lookup gw (pq_reference_id q) w of
       (Inl e, w1) \<Rightarrow>
         (if is_payment_link_error e then Inr (Inl (indeterminate (payment_link_reason e))) else Inl e, w1)
     | (Inr matches, w1) \<Rightarrow>
         (case matches of
            [] \<Rightarrow> (case gw_create gw q w1 of
                (Inr s, w2) \<Rightarrow> (Inr (Inr (s, False)), w2)
              | (Inl e, w2) \<Rightarrow>
                  (if is_uncertain e then Inr (Inl (indeterminate (payment_link_reason e)))
                   else if is_payment_link_error e then Inr (Inl (failed (payment_link_reason e)))
                   else Inl e, w2))
          | [s] \<Rightarrow> if matches_request s q then (Inr (Inr (s, True)), w1)
                   else (Inr (Inl (indeterminate ''RAZORPAY_PAYMENT_LINK_LOOKUP_AMBIGUOUS'')), w1)
          | _ \<Rightarrow> (Inr (Inl (indeterminate ''RAZORPAY_PAYMENT_LINK_LOOKUP_AMBIGUOUS'')), w1)))"

section \<open>Finalizing\<close>

definition persist_external_projection :: "recovery_action \<Rightarrow> payment_link_snapshot \<Rightarrow> recovery_action" where
  "persist_external_projection r s = r\<lparr>ra_external_reference_id := Some (ps_id s),
     ra_external_reference := Some (ps_reference_id s), ra_external_status := Some (ps_status s),
     ra_external_url := Some (ps_short_url s)\<rparr>"

definition bounded_error_code :: "string \<Rightarrow> string" where
  "bounded_error_code value = (let normalized = py_upper (py_strip value) in
     if normalized = [] \<or> 100 < length normalized then ''RECOVERY_EXECUTION_FAILED'' else normalized)"

text \<open>Load what the claim names, under the locks the service takes.\<close>

definition with_claim ::
  "execution_claim \<Rightarrow> arc_db \<Rightarrow> (payment_case \<Rightarrow> recovery_action \<Rightarrow> arc_error + 'r \<times> arc_db) \<Rightarrow> arc_error + 'r \<times> arc_db" where
  "with_claim claim db body =
     sbind (lock_execution_case (xc_case_id claim) db) (\<lambda>c.
     sbind (lock_record (xc_recovery_action_id claim) db) (\<lambda>r. body c r))"

definition finalize_provider_problem ::
  "execution_claim \<Rightarrow> provider_problem \<Rightarrow> py_datetime \<Rightarrow> arc_db \<Rightarrow> (arc_error + execution_result) \<times> arc_db" where
  "finalize_provider_problem claim problem now db = transaction db
    (sbind (require_execution_clock now) (\<lambda>_. with_claim claim db (\<lambda>c r.
       if ra_execution_status r \<in> FINAL_EXECUTION_STATUSES then Inr (already_final r c, db)
       else
         let code = bounded_error_code (pp_error_code problem);
             r1 = r\<lparr>ra_execution_status := pp_status problem, ra_error_code := Some code\<rparr>;
             r2 = (if pp_status problem = RecoveryExecutionStatus.FAILED then r1\<lparr>ra_failed_at := Some now\<rparr> else r1)
         in Inr (execution_view r2 c code False,
              append_execution_audit r2 (pp_event_type problem) [] (save_action r2 db)))))"

definition state_metadata :: "CaseState \<Rightarrow> CaseState \<Rightarrow> json_dict" where
  "state_metadata previous_state new_state =
     [(''previous_state'', JStr (case_state_value previous_state)), (''new_state'', JStr (case_state_value new_state))]"

definition move_for_action ::
  "recovery_action \<Rightarrow> CaseState \<Rightarrow> string \<Rightarrow> payment_case \<times> arc_db \<Rightarrow> arc_error + payment_case \<times> arc_db" where
  "move_for_action r target reason = (\<lambda>(c, db).
     move_case c target reason EXECUTION_AUDIT_SOURCE [(''recovery_action_id'', JStr (uuid_str (ra_id r)))] db)"

definition await_outcome :: "recovery_action \<Rightarrow> payment_case \<times> arc_db \<Rightarrow> arc_error + payment_case \<times> arc_db" where
  "await_outcome r m = sbind (move_for_action r CaseState.ACTIONED ''RECOVERY_ACTION_EXECUTED'' m)
     (move_for_action r CaseState.WAITING_FOR_OUTCOME ''AWAITING_RECOVERY_OUTCOME'')"

definition count_attempt :: "RecoveryAction \<Rightarrow> payment_case \<Rightarrow> payment_case" where
  "count_attempt action c =
    (let c1 = c\<lparr>pc_attempt_count := pc_attempt_count c + 1\<rparr>
     in if action \<in> CUSTOMER_CONTACT_ACTIONS then c1\<lparr>pc_contact_attempt_count := pc_contact_attempt_count c + 1\<rparr>
        else c1)"

definition finalize_external_success ::
  "(string \<Rightarrow> string) \<Rightarrow> execution_claim \<Rightarrow> payment_link_snapshot \<Rightarrow> bool \<Rightarrow> py_datetime \<Rightarrow> arc_db \<Rightarrow>
     (arc_error + execution_result \<times> bool) \<times> arc_db" where
  "finalize_external_success sha claim snapshot adopted now db = transaction db
    (sbind (require_execution_clock now) (\<lambda>_. with_claim claim db (\<lambda>c r0.
       let r = persist_external_projection r0 snapshot in
       if \<not> post_request_context_is_current sha c r now db then
         let r1 = r\<lparr>ra_execution_status := RecoveryExecutionStatus.COMPENSATION_REQUIRED,
                   ra_error_code := Some ''EXECUTION_BLOCKED_STALE_AUTHORIZATION''\<rparr>
         in Inr ((execution_view r1 c ''EXECUTION_BLOCKED_STALE_AUTHORIZATION'' False, True),
              append_execution_audit r1 ''EXECUTION_BLOCKED_STALE_AUTHORIZATION'' [] (save_action r1 db))
       else
         let r1 = r\<lparr>ra_execution_status := RecoveryExecutionStatus.SUCCEEDED, ra_executed_at := Some now,
                   ra_failed_at := None, ra_error_code := None\<rparr>
         in sbind (await_outcome r1 (count_attempt (ra_action r1) c, save_action r1 db)) (\<lambda>(c', db1).
              let db2 = (if adopted then append_execution_audit r1 ''RECOVERY_ACTION_ADOPTED_EXISTING'' [] db1 else db1);
                  db3 = append_execution_audit r1 ''RECOVERY_ACTION_SUCCEEDED''
                    (state_metadata (pc_current_state c) (pc_current_state c')) db2
              in Inr ((execution_view r1 c' ''RECOVERY_ACTION_SUCCEEDED'' False, False), save_case c' db3)))))"

definition finalize_compensation ::
  "execution_claim \<Rightarrow> payment_link_snapshot \<Rightarrow> string + payment_link_snapshot \<Rightarrow> arc_db \<Rightarrow>
     (arc_error + execution_result) \<times> arc_db" where
  "finalize_compensation claim original outcome db = transaction db
    (with_claim claim db (\<lambda>c r.
       let (r1, reason, event_type) = (case outcome of
             Inr cancelled \<Rightarrow>
               ((persist_external_projection r cancelled)\<lparr>ra_execution_status := RecoveryExecutionStatus.CANCELLED,
                  ra_error_code := None\<rparr>, ''RECOVERY_ACTION_COMPENSATED'', ''RECOVERY_ACTION_COMPENSATED'')
           | Inl error_code \<Rightarrow>
               (let code = bounded_error_code error_code in
                ((persist_external_projection r original)\<lparr>ra_execution_status :=
                    RecoveryExecutionStatus.COMPENSATION_REQUIRED, ra_error_code := Some code\<rparr>, code,
                 ''RECOVERY_ACTION_COMPENSATION_REQUIRED'')))
       in Inr (execution_view r1 c reason False, append_execution_audit r1 event_type [] (save_action r1 db))))"

text \<open>Cancel the link again; \<open>Inl\<close> of the outcome is the reason code of a cancellation not confirmed.\<close>

definition cancel_outcome ::
  "'w payment_link_gateway \<Rightarrow> payment_link_snapshot \<Rightarrow> 'w \<Rightarrow> (arc_error + (string + payment_link_snapshot)) \<times> 'w" where
  "cancel_outcome gw s w =
    (case gw_cancel gw (ps_id s) w of
       (Inr cancelled, w1) \<Rightarrow>
         (Inr (if ps_status cancelled \<noteq> ''cancelled'' then Inl ''EXECUTION_CONFIGURATION_ERROR'' else Inr cancelled), w1)
     | (Inl e, w1) \<Rightarrow> (if is_payment_link_error e then Inr (Inl (payment_link_reason e)) else Inl e, w1))"

section \<open>Internal actions\<close>

definition finish_internal ::
  "recovery_action \<Rightarrow> payment_case \<Rightarrow> py_datetime \<Rightarrow> arc_db \<Rightarrow> arc_error + execution_result \<times> arc_db" where
  "finish_internal r c now db =
    (let r1 = r\<lparr>ra_execution_status := RecoveryExecutionStatus.SUCCEEDED, ra_executed_at := Some now\<rparr>;
         re = (case find_proposal (ra_strategy_proposal_id r) db of None \<Rightarrow> None
               | Some p \<Rightarrow> sp_re_evaluate_after_seconds p);
         r2 = (if ra_action r = RecoveryAction.WAIT then
                 (case re of None \<Rightarrow> r1 | Some n \<Rightarrow> r1\<lparr>ra_next_evaluation_at := Some (dt_add now (seconds n))\<rparr>)
               else r1);
         db1 = save_action r2 db
     in sbind (if ra_action r = RecoveryAction.WAIT then await_outcome r2 (c, db1)
               else if ra_action r = RecoveryAction.ESCALATE_TO_HUMAN then
                 move_for_action r2 CaseState.ESCALATED ''RECOVERY_ACTION_ESCALATED_TO_HUMAN'' (c, db1)
               else move_for_action r2 CaseState.EXHAUSTED ''RECOVERY_NO_ACTION_SELECTED'' (c, db1))
          (\<lambda>(c', db2). Inr (execution_view r2 c' ''RECOVERY_ACTION_SUCCEEDED'' False,
             save_case c' (append_execution_audit r2 ''RECOVERY_ACTION_SUCCEEDED''
               (state_metadata (pc_current_state c) (pc_current_state c')) db2))))"

definition execute_internal ::
  "(string \<Rightarrow> string) \<Rightarrow> execution_claim \<Rightarrow> py_datetime \<Rightarrow> arc_db \<Rightarrow> (arc_error + execution_result) \<times> arc_db" where
  "execute_internal sha claim now db = transaction db
    (sbind (require_execution_clock now) (\<lambda>_. with_claim claim db (\<lambda>c r.
       if ra_execution_status r \<in> FINAL_EXECUTION_STATUSES then Inr (already_final r c, db)
       else if \<not> post_request_context_is_current sha c r now db then
         let r1 = r\<lparr>ra_execution_status := RecoveryExecutionStatus.CANCELLED,
                   ra_error_code := Some ''EXECUTION_REQUIRES_POLICY_REEVALUATION''\<rparr>
         in Inr (execution_view r1 c ''EXECUTION_REQUIRES_POLICY_REEVALUATION'' False,
              append_execution_audit r1 ''EXECUTION_BLOCKED_STALE_AUTHORIZATION'' [] (save_action r1 db))
       else if ra_action r \<in> UNSUPPORTED_ACTIONS then
         let r1 = r\<lparr>ra_execution_status := RecoveryExecutionStatus.FAILED, ra_failed_at := Some now,
                   ra_error_code := Some ''EXECUTOR_ACTION_NOT_IMPLEMENTED''\<rparr>;
             db1 = append_execution_audit r1 ''EXECUTOR_ACTION_NOT_IMPLEMENTED'' [] (save_action r1 db)
         in sbind (move_for_action r1 CaseState.ESCALATED ''EXECUTOR_ACTION_NOT_IMPLEMENTED'' (c, db1))
              (\<lambda>(c', db2). Inr (execution_view r1 c' ''EXECUTOR_ACTION_NOT_IMPLEMENTED'' False, save_case c' db2))
       else if ra_action r \<notin> INTERNAL_SUPPORTED_ACTIONS then
         Inl (ExecutionConfigurationError ''Recovery action has no bounded executor'')
       else finish_internal r c now db)))"

section \<open>The whole call\<close>

text \<open>
  \<open>gateway\<close> is the gateway the service was given or builds from its settings, which may fail.
  The clock is read at the claim (\<open>t1\<close>) and when the result is recorded (\<open>t2\<close>).
\<close>

definition execute_payment_link ::
  "(string \<Rightarrow> string) \<Rightarrow> arc_error + 'w payment_link_gateway \<Rightarrow> execution_claim \<Rightarrow> py_datetime \<Rightarrow>
     (arc_db \<Rightarrow> arc_db) \<Rightarrow> (arc_db \<Rightarrow> arc_db) \<Rightarrow> 'w \<Rightarrow> arc_db \<Rightarrow> (arc_error + execution_result) \<times> arc_db \<times> 'w" where
  "execute_payment_link sha gateway claim t2 others later w db =
    (case sbind (payment_link_request claim) (\<lambda>q. sbind gateway (\<lambda>gw. Inr (q, gw))) of
       Inl e \<Rightarrow> (Inl e, db, w)
     | Inr (q, gw) \<Rightarrow>
       (case obtain_link gw q w of
          (Inl e, w1) \<Rightarrow> (Inl e, db, w1)
        | (Inr (Inl problem), w1) \<Rightarrow>
            (let (res, db1) = finalize_provider_problem claim problem t2 (others db) in (res, db1, w1))
        | (Inr (Inr (s, adopted)), w1) \<Rightarrow>
            (case finalize_external_success sha claim s adopted t2 (others db) of
               (Inl e, db1) \<Rightarrow> (Inl e, db1, w1)
             | (Inr (result, compensation_required), db1) \<Rightarrow>
                 if \<not> compensation_required then (Inr result, db1, w1)
                 else (case cancel_outcome gw s w1 of
                     (Inl e, w2) \<Rightarrow> (Inl e, db1, w2)
                   | (Inr outcome, w2) \<Rightarrow>
                       (let (res, db2) = finalize_compensation claim s outcome (later db1) in (res, db2, w2))))))"

definition execute ::
  "(string \<Rightarrow> string) \<Rightarrow> arc_error + 'w payment_link_gateway \<Rightarrow> uuid \<Rightarrow> py_datetime \<Rightarrow> py_datetime \<Rightarrow> uuid \<Rightarrow>
     (arc_db \<Rightarrow> arc_db) \<Rightarrow> (arc_db \<Rightarrow> arc_db) \<Rightarrow> 'w \<Rightarrow> arc_db \<Rightarrow> (arc_error + execution_result) \<times> arc_db \<times> 'w" where
  "execute sha gateway case_id t1 t2 record_id others later w db =
    (case prepare_and_claim sha case_id t1 record_id db of
       (Inl e, db1) \<Rightarrow> (Inl e, db1, w)
     | (Inr (Inl result), db1) \<Rightarrow> (Inr result, db1, w)
     | (Inr (Inr claim), db1) \<Rightarrow>
       if xc_action claim = RecoveryAction.CREATE_RECOVERY_LINK
       then execute_payment_link sha gateway claim t2 others later w db1
       else (let (res, db2) = execute_internal sha claim t2 (others db1) in (res, db2, w)))"

section \<open>Facts\<close>

lemma has_fresh_lease_started: "has_fresh_lease (start_attempt t r) now \<longleftrightarrow> dt_us now < dt_us t + seconds EXECUTION_LEASE_SECONDS"
  by (auto simp: has_fresh_lease_def start_attempt_def dt_less_def)

interpretation execution_lease: leased start_attempt has_fresh_lease ra_execution_attempt_count "seconds EXECUTION_LEASE_SECONDS"
  by unfold_locales (simp_all add: has_fresh_lease_started, simp_all add: start_attempt_def EXECUTION_LEASE_SECONDS_def seconds_def)

lemma only_events_execution [simp]: "only_events_added db (append_execution_audit r e m db)"
  by (simp add: append_execution_audit_def)

lemma lock_execution_case_Inr [simp]: "lock_execution_case k db = Inr c \<longleftrightarrow> find_case k db = Some c"
  by (simp add: lock_execution_case_def split: option.splits)

lemma lock_record_Inr [simp]: "lock_record k db = Inr r \<longleftrightarrow> find_action k db = Some r"
  by (simp add: lock_record_def split: option.splits)

lemma load_current_proposal_Inr [simp]: "load_current_proposal k db = Inr p \<longleftrightarrow> find_current_proposal k db = Some p"
  by (simp add: load_current_proposal_def split: option.splits)

lemma load_current_decision_Inr [simp]: "load_current_decision k db = Inr d \<longleftrightarrow> find_current_decision k db = Some d"
  by (simp add: load_current_decision_def split: option.splits)

lemma require_execution_clock_Inr [simp]: "require_execution_clock t = Inr u \<longleftrightarrow> dt_aware t"
  by (simp add: require_execution_clock_def)

lemma current_inputs_InrD:
  assumes "current_inputs sha c p d t db = Inr i"
  shows "pd_strategy_proposal_id d = sp_id p" "recompute_current_authorization_inputs sha c p t db = Inr i"
    "pd_authorization_input_fingerprint d = ca_authorization_input_fingerprint i"
    "pd_policy_fingerprint d = ca_policy_fingerprint i"
    "pd_result d = av_result (ca_evaluation i)" "pd_result d \<noteq> PolicyDecisionResult.BLOCKED"
    "av_recovery_window_expired (ca_evaluation i) \<noteq> Some True"
    "pd_observed_amount_minor d = pc_amount c" "pd_observed_attempt_count d = pc_attempt_count c"
    "pd_observed_contact_attempt_count d = pc_contact_attempt_count c"
  using assms by (auto simp: current_inputs_def Let_def split: if_splits sum.splits)

text \<open>The only error of the check is the one its second caller catches.\<close>

lemma current_inputs_InlD:
  "current_inputs sha c p d t db = Inl e \<Longrightarrow> \<exists>m. e = ExecutionRequiresPolicyReevaluationError m"
  by (auto simp: current_inputs_def Let_def split: if_splits sum.splits)

lemma link_record_InrD:
  assumes "link_record sha c p d now r = Inr r'"
  shows "ra_id r' = ra_id r" "ra_case_id r' = ra_case_id r" "ra_policy_decision_id r' = ra_policy_decision_id r"
    "ra_action r' = ra_action r" "ra_execution_status r' = ra_execution_status r"
    "ra_strategy_proposal_id r' = ra_strategy_proposal_id r"
    "ra_external_reference r' = Some (''arc_'' @ uuid_hex (ra_id r))"
    "ra_execution_attempt_count r' = ra_execution_attempt_count r" "ra_provider r' = ''RAZORPAY''"
    "\<exists>e w. ra_external_expires_at r' = Some e \<and> pd_recovery_window_ends_at d = Some w \<and> dt_us e \<le> dt_us w \<and>
       dt_us e \<le> dt_us now + seconds PAYMENT_LINK_OPERATIONAL_EXPIRY_SECONDS \<and> dt_timestamp now < dt_timestamp e"
    "\<exists>a cur. pc_amount c = Some a \<and> 0 < a \<and> pc_currency c = Some cur \<and> length (py_strip cur) = 3"
    "ra_approval_request_id r' = ra_approval_request_id r"
  using assms
  by (auto simp: link_record_def Let_def dt_min_def dt_less_def split: option.splits if_splits)

lemma build_record_InrD:
  assumes "build_record sha c p d approval i now k = Inr r"
  shows "ra_id r = k" "ra_case_id r = pc_id c" "ra_policy_decision_id r = pd_id d" "ra_action r = sp_action p"
    "ra_execution_status r = RecoveryExecutionStatus.PREPARED" "ra_strategy_proposal_id r = sp_id p"
    "ra_external_reference r = (if sp_action p = RecoveryAction.CREATE_RECOVERY_LINK then Some (''arc_'' @ uuid_hex k) else None)"
    "ra_execution_attempt_count r = 0" "\<not> has_fresh_lease r t" "ra_approval_request_id r = map_option ar_id approval"
  using assms link_record_InrD [of sha c p d now _ r]
  by (auto simp: build_record_def Let_def has_fresh_lease_def split: if_splits)

lemma validate_existing_InrD:
  assumes "validate_existing_record sha r c p d = Inr u"
  shows "ra_case_id r = pc_id c" "ra_strategy_proposal_id r = sp_id p" "ra_action r = sp_action p"
  using assms by (auto simp: validate_existing_record_def split: if_splits)

lemma start_attempt_sel [simp]:
  "ra_id (start_attempt t r) = ra_id r" "ra_case_id (start_attempt t r) = ra_case_id r"
  "ra_policy_decision_id (start_attempt t r) = ra_policy_decision_id r" "ra_action (start_attempt t r) = ra_action r"
  "ra_strategy_proposal_id (start_attempt t r) = ra_strategy_proposal_id r"
  "ra_execution_status (start_attempt t r) = RecoveryExecutionStatus.IN_PROGRESS"
  "ra_execution_started_at (start_attempt t r) = Some t"
  "ra_external_reference (start_attempt t r) = ra_external_reference r"
  "ra_external_expires_at (start_attempt t r) = ra_external_expires_at r"
  "ra_execution_attempt_count (start_attempt t r) = ra_execution_attempt_count r + 1"
  by (simp_all add: start_attempt_def)

text \<open>
  How a claim comes about: the row \<open>r\<close> is the decision's row, found or just inserted into the
  table \<open>rows\<close>, and is neither final nor leased.
\<close>

definition row_for :: "policy_decision \<Rightarrow> uuid \<Rightarrow> recovery_action \<Rightarrow> arc_db \<Rightarrow> recovery_action list \<Rightarrow> bool" where
  "row_for d record_id r db rows \<longleftrightarrow>
    (case find_action_for (pd_id d) db of
       Some r0 \<Rightarrow> r = r0 \<and> rows = db_actions db
     | None \<Rightarrow> ra_id r = record_id \<and> ra_execution_attempt_count r = 0 \<and>
         ra_approval_request_id r = map_option ar_id (find_approval_for (pd_id d) db) \<and>
         (ra_external_reference r = None \<or> ra_external_reference r = Some (''arc_'' @ uuid_hex record_id)) \<and>
         rows = row_add r (db_actions db))"

lemma prepare_claimE:
  assumes "prepare_and_claim sha k now record_id db = (Inr (Inr claim), db')"
  obtains c p d i r rows where "find_case k db = Some c" "pc_id c = k" "pc_current_state c = CaseState.POLICY_VALIDATED"
    "find_current_proposal k db = Some p" "find_current_decision k db = Some d" "dt_aware now"
    "current_inputs sha c p d now db = Inr i" "is_execution_permitted d (find_approval_for (pd_id d) db)"
    "row_for d record_id r db rows" "ra_policy_decision_id r = pd_id d" "ra_case_id r = k" "ra_action r = sp_action p"
    "ra_strategy_proposal_id r = sp_id p"
    "ra_execution_status r \<notin> FINAL_EXECUTION_STATUSES" "\<not> has_fresh_lease r now"
    "claim = to_claim (start_attempt now r) c"
    "db_actions db' = row_save ra_id (start_attempt now r) rows"
    "db_cases db' = db_cases db" "db_proposals db' = db_proposals db" "db_decisions db' = db_decisions db"
    "db_approvals db' = db_approvals db" "db_policies db' = db_policies db"
proof -
  obtain c where c: "find_case k db = Some c" "dt_aware now"
    and prep: "prepare_locked sha c now record_id db = Inr (Inr claim, db')"
    using assms by (auto simp: prepare_and_claim_def elim!: transaction_InrE)
  have id: "pc_id c = k" using cases_table.lookup_key [OF c(1)] .
  from prep obtain p d where p: "find_current_proposal k db = Some p" and d: "find_current_decision k db = Some d"
    and body: "(case find_action_for (pd_id d) db of
         Some r \<Rightarrow>
           if ra_execution_status r \<in> FINAL_EXECUTION_STATUSES then Inr (Inl (already_final r c), db)
           else if pc_current_state c \<noteq> CaseState.POLICY_VALIDATED then
             Inl (ExecutionRequiresPolicyReevaluationError ''Case state requires policy reevaluation before execution'')
           else claim_current sha c p d (find_action_for (pd_id d) db) now record_id db
       | None \<Rightarrow>
           if pc_current_state c \<noteq> CaseState.POLICY_VALIDATED then
             Inl (ExecutionRequiresPolicyReevaluationError ''Case state requires policy reevaluation before execution'')
           else claim_current sha c p d None now record_id db) = Inr (Inr claim, db')"
    by (auto simp: prepare_locked_def Let_def id sbind_eq_Inr_iff)
  have nf: "ra_execution_status r \<notin> FINAL_EXECUTION_STATUSES" if "find_action_for (pd_id d) db = Some r" for r
    using body that by (simp split: if_splits)
  have st: "pc_current_state c = CaseState.POLICY_VALIDATED"
    and cl: "claim_current sha c p d (find_action_for (pd_id d) db) now record_id db = Inr (Inr claim, db')"
    using body by (cases "find_action_for (pd_id d) db"; simp split: if_splits)+
  from cl obtain i where i: "current_inputs sha c p d now db = Inr i"
    and perm: "is_execution_permitted d (find_approval_for (pd_id d) db)"
    and fin: "(case find_action_for (pd_id d) db of
           None \<Rightarrow> sbind (build_record sha c p d (find_approval_for (pd_id d) db) i now record_id) (\<lambda>r.
             Inr (claim_row r c now (append_execution_audit r ''RECOVERY_ACTION_PREPARED'' [] (add_action r db))))
         | Some r \<Rightarrow> sbind (validate_existing_record sha r c p d) (\<lambda>_. Inr (claim_row r c now db))) = Inr (Inr claim, db')"
    by (auto simp: claim_current_def Let_def split: if_splits)
  show thesis
  proof (cases "find_action_for (pd_id d) db")
    case None
    with fin obtain r where b: "build_record sha c p d (find_approval_for (pd_id d) db) i now record_id = Inr r"
      and cr: "claim_row r c now (append_execution_audit r ''RECOVERY_ACTION_PREPARED'' [] (add_action r db)) = (Inr claim, db')"
      by (auto simp: sbind_eq_Inr_iff)
    note r = build_record_InrD [OF b]
    have db': "claim = to_claim (start_attempt now r) c"
      "db' = append_execution_audit (start_attempt now r) ''RECOVERY_ACTION_STARTED'' []
        (save_action (start_attempt now r) (append_execution_audit r ''RECOVERY_ACTION_PREPARED'' [] (add_action r db)))"
      using cr r(9) by (simp_all add: claim_row_def Let_def)
    show thesis
      using c id st p d i perm None r db'
      by (intro that [of c p d i r "row_add r (db_actions db)"])
        (auto simp: row_for_def FINAL_EXECUTION_STATUSES_def append_execution_audit_def save_action_def add_action_def
          split: if_splits)
  next
    case (Some r)
    with fin have v: "validate_existing_record sha r c p d = Inr ()" and cr: "claim_row r c now db = (Inr claim, db')"
      by (auto simp: sbind_eq_Inr_iff)
    have fresh: "\<not> has_fresh_lease r now" using cr by (auto simp: claim_row_def split: if_splits)
    then have db': "claim = to_claim (start_attempt now r) c"
      "db' = append_execution_audit (start_attempt now r) ''RECOVERY_ACTION_STARTED'' [] (save_action (start_attempt now r) db)"
      using cr by (simp_all add: claim_row_def Let_def)
    have "ra_policy_decision_id r = pd_id d" using Some by (auto simp: find_action_for_def find_Some_iff)
    then show thesis
      using c id st p d i perm Some nf [OF Some] fresh db' validate_existing_InrD [OF v]
      by (intro that [of c p d i r "db_actions db"])
        (auto simp: row_for_def append_execution_audit_def save_action_def)
  qed
qed

lemma find_row_saved:
  "find P t = Some r \<Longrightarrow> P r' \<Longrightarrow> key r' = key r \<Longrightarrow> find P (row_save key r' t) = Some r'"
  by (induction t) (auto simp: row_save_def split: if_splits)

lemma row_for_find:
  assumes "row_for d k r db rows" "ra_policy_decision_id r = pd_id d"
  shows "find (\<lambda>r. ra_policy_decision_id r = pd_id d) rows = Some r" "r \<in> set rows"
proof -
  show f: "find (\<lambda>r. ra_policy_decision_id r = pd_id d) rows = Some r"
    using assms by (auto simp: row_for_def find_action_for_def row_add_def find_last split: option.splits)
  then show "r \<in> set rows" by (auto simp: find_Some_iff)
qed

lemma claimed_row:
  assumes "row_for d k r db rows" "ra_policy_decision_id r = pd_id d"
    and "db_actions db' = row_save ra_id (start_attempt t r) rows"
  shows "find_action_for (pd_id d) db' = Some (start_attempt t r)"
    "find_action (ra_id r) db' = Some (start_attempt t r)"
proof -
  note f = row_for_find [OF assms(1,2)]
  show "find_action_for (pd_id d) db' = Some (start_attempt t r)"
    unfolding find_action_for_def assms(3) by (rule find_row_saved [OF f(1)]) (simp_all add: assms(2))
  have "row_find ra_id (ra_id r) rows \<noteq> None" using f(2) by (auto simp: row_find_None_iff)
  then show "find_action (ra_id r) db' = Some (start_attempt t r)"
    unfolding find_action_def assms(3) by (simp add: row_find_save)
qed

lemma with_claim_InrE:
  assumes "with_claim claim db body = Inr x"
  obtains c r where "find_case (xc_case_id claim) db = Some c" "find_action (xc_recovery_action_id claim) db = Some r"
    "body c r = Inr x"
  using assms by (auto simp: with_claim_def)

lemma action_saved: "find_action k db = Some r0 \<Longrightarrow> ra_id r = k \<Longrightarrow> find_action k (save_action r db) = Some r"
  by (rule actions_table.lookup_saved)

lemma projection_sel [simp]:
  "ra_id (persist_external_projection r s) = ra_id r" "ra_case_id (persist_external_projection r s) = ra_case_id r"
  "ra_action (persist_external_projection r s) = ra_action r"
  "ra_policy_decision_id (persist_external_projection r s) = ra_policy_decision_id r"
  "ra_strategy_proposal_id (persist_external_projection r s) = ra_strategy_proposal_id r"
  "ra_execution_status (persist_external_projection r s) = ra_execution_status r"
  by (simp_all add: persist_external_projection_def)

lemma context_projection [simp]:
  "post_request_context_is_current sha c (persist_external_projection r s) t db = post_request_context_is_current sha c r t db"
  by (simp add: post_request_context_is_current_def)

lemma context_current_state:
  "post_request_context_is_current sha c r t db \<Longrightarrow> pc_current_state c = CaseState.POLICY_VALIDATED"
  by (simp add: post_request_context_is_current_def split: if_splits)

lemma count_attempt_sel [simp]:
  "pc_id (count_attempt a c) = pc_id c" "pc_current_state (count_attempt a c) = pc_current_state c"
  "pc_attempt_count (count_attempt a c) = pc_attempt_count c + 1"
  "pc_contact_attempt_count (count_attempt a c) =
     pc_contact_attempt_count c + (if a \<in> CUSTOMER_CONTACT_ACTIONS then 1 else 0)"
  by (simp_all add: count_attempt_def Let_def)

lemma await_outcome_total:
  assumes "pc_current_state c = CaseState.POLICY_VALIDATED"
  shows "\<exists>db'. await_outcome r (c, db) = Inr (c\<lparr>pc_current_state := CaseState.WAITING_FOR_OUTCOME\<rparr>, db') \<and>
    only_events_added db db'"
proof -
  let ?m = "[(''recovery_action_id'', JStr (uuid_str (ra_id r)))]"
  let ?c = "c\<lparr>pc_current_state := CaseState.ACTIONED\<rparr>"
  have "can_transition (pc_current_state c) CaseState.ACTIONED" using assms by (simp add: can_transition_def)
  from move_case_ok [OF this] obtain db1 where
    m1: "move_case c CaseState.ACTIONED ''RECOVERY_ACTION_EXECUTED'' EXECUTION_AUDIT_SOURCE ?m db = Inr (?c, db1)"
    "only_events_added db db1" by blast
  have "can_transition (pc_current_state ?c) CaseState.WAITING_FOR_OUTCOME" by (simp add: can_transition_def)
  from move_case_ok [OF this] obtain db2 where
    m2: "move_case ?c CaseState.WAITING_FOR_OUTCOME ''AWAITING_RECOVERY_OUTCOME'' EXECUTION_AUDIT_SOURCE ?m db1 =
        Inr (?c\<lparr>pc_current_state := CaseState.WAITING_FOR_OUTCOME\<rparr>, db2)" "only_events_added db1 db2" by blast
  have "only_events_added db db2" by (rule only_events_added_trans [OF m1(2) m2(2)])
  with m1(1) m2(1) show ?thesis by (simp add: await_outcome_def move_for_action_def)
qed

section \<open>Sample rows\<close>

text \<open>
  The case of the policy theory with its authorized decision, ready to execute; the row its
  execution leaves; and a provider that keeps the links it made.
\<close>

definition ready_case :: payment_case where
  "ready_case = diagnosed_case\<lparr>pc_current_state := CaseState.POLICY_VALIDATED\<rparr>"

definition authorized_decision :: policy_decision where
  "authorized_decision = waiting_decision\<lparr>pd_result := PolicyDecisionResult.AUTHORIZED,
     pd_reason_code := ''POLICY_AUTHORIZED'',
     pd_recovery_window_ends_at := Some \<lparr>dt_us = 1750003600000000, dt_offset = Some 0\<rparr>\<rparr>"

definition ready_db :: arc_db where
  "ready_db = empty_db\<lparr>db_cases := [ready_case], db_proposals := [sample_proposal], db_policies := [sample_policy],
     db_decisions := [authorized_decision]\<rparr>"

definition succeeded_action :: recovery_action where
  "succeeded_action = \<lparr>ra_id = 40, ra_case_id = 7, ra_strategy_proposal_id = 9, ra_policy_decision_id = 20,
     ra_approval_request_id = None, ra_action = RecoveryAction.CREATE_RECOVERY_LINK,
     ra_execution_status = RecoveryExecutionStatus.SUCCEEDED, ra_idempotency_key = ''h'', ra_request_fingerprint = ''h'',
     ra_provider = ''RAZORPAY'', ra_external_reference_id = Some ''plink_1'', ra_external_reference = Some ''arc_28'',
     ra_external_status = Some ''created'', ra_external_url = Some ''https://r/1'', ra_external_expires_at = None,
     ra_execution_started_at = Some sample_time, ra_execution_attempt_count = 1, ra_executed_at = Some sample_time,
     ra_failed_at = None, ra_error_code = None, ra_next_evaluation_at = None\<rparr>"

definition executed_db :: arc_db where
  "executed_db = ready_db\<lparr>db_cases := [ready_case\<lparr>pc_current_state := CaseState.WAITING_FOR_OUTCOME,
       pc_attempt_count := 1, pc_contact_attempt_count := 1\<rparr>], db_actions := [succeeded_action]\<rparr>"

definition provider_link :: "payment_link_request \<Rightarrow> payment_link_snapshot" where
  "provider_link q = \<lparr>ps_id = ''plink_'' @ pq_reference_id q, ps_reference_id = pq_reference_id q, ps_amount = pq_amount q,
     ps_amount_paid = 0, ps_currency = pq_currency q, ps_status = ''created'', ps_short_url = ''https://r/1'',
     ps_expire_by = None, ps_expired_at = None, ps_cancelled_at = None, ps_updated_at = None, ps_payments = []\<rparr>"

definition sample_gateway :: "payment_link_snapshot list payment_link_gateway" where
  "sample_gateway = \<lparr>gw_lookup = (\<lambda>ref w. (Inr [s \<leftarrow> w. ps_reference_id s = ref], w)),
     gw_create = (\<lambda>q w. (Inr (provider_link q), provider_link q # w)),
     gw_cancel = (\<lambda>k w. (case find (\<lambda>s. ps_id s = k) w of
         None \<Rightarrow> (Inl (PaymentLinkRejectedError ''no such link''), w)
       | Some s \<Rightarrow> (Inr (s\<lparr>ps_status := ''cancelled''\<rparr>),
           map (\<lambda>x. if ps_id x = k then x\<lparr>ps_status := ''cancelled''\<rparr> else x) w))),
     gw_fetch = (\<lambda>k w. (case find (\<lambda>s. ps_id s = k) w of
         None \<Rightarrow> (Inl (PaymentLinkRejectedError ''no such link''), w) | Some s \<Rightarrow> (Inr s, w)))\<rparr>"

definition claim_time :: py_datetime where
  "claim_time = dt_add sample_time (seconds 90)"

lemma ready_claim:
  "\<exists>claim db'. prepare_and_claim fixed_sha 7 claim_time 40 ready_db = (Inr (Inr claim), db') \<and>
     xc_recovery_action_id claim = 40"
proof -
  have "case fst (prepare_and_claim fixed_sha 7 claim_time 40 ready_db) of
      Inr (Inr claim) \<Rightarrow> xc_recovery_action_id claim = 40 | _ \<Rightarrow> False" by code_simp
  then show ?thesis
    by (cases "prepare_and_claim fixed_sha 7 claim_time 40 ready_db") (auto split: sum.splits)
qed

section \<open>Properties\<close>

text \<open>
  C2. A claim is authorized. A worker gets a claim only for a POLICY_VALIDATED case whose current
  decision belongs to its current proposal and repeats, fact by fact, what policy evaluation gives
  now: same authorization fingerprint, not blocked, window open; and which is authorized or carries
  an approval of exactly this decision. The claim leaves one row of that decision in progress.
\<close>

theorem claim_is_authorized:
  assumes "prepare_and_claim sha k now record_id db = (Inr (Inr claim), db')"
  shows "\<exists>c p d i r. find_case k db = Some c \<and> pc_current_state c = CaseState.POLICY_VALIDATED \<and>
    find_current_proposal k db = Some p \<and> find_current_decision k db = Some d \<and> pd_strategy_proposal_id d = sp_id p \<and>
    recompute_current_authorization_inputs sha c p now db = Inr i \<and>
    pd_authorization_input_fingerprint d = ca_authorization_input_fingerprint i \<and>
    pd_result d = av_result (ca_evaluation i) \<and> pd_result d \<noteq> PolicyDecisionResult.BLOCKED \<and>
    av_recovery_window_expired (ca_evaluation i) \<noteq> Some True \<and>
    is_execution_permitted d (find_approval_for (pd_id d) db) \<and>
    find_action (xc_recovery_action_id claim) db' = Some r \<and> find_action_for (pd_id d) db' = Some r \<and>
    ra_execution_status r = RecoveryExecutionStatus.IN_PROGRESS \<and> ra_execution_started_at r = Some now \<and>
    ra_action r = sp_action p \<and> xc_amount_minor claim = pc_amount c \<and>
    xc_reference_id claim = ra_external_reference r \<and> find_case k db' = Some c"
  using assms
proof (rule prepare_claimE)
  fix c p d i r rows
  assume c: "find_case k db = Some c" "pc_current_state c = CaseState.POLICY_VALIDATED"
    and p: "find_current_proposal k db = Some p" and d: "find_current_decision k db = Some d"
    and i: "current_inputs sha c p d now db = Inr i" and perm: "is_execution_permitted d (find_approval_for (pd_id d) db)"
    and r: "row_for d record_id r db rows" "ra_policy_decision_id r = pd_id d" "ra_action r = sp_action p"
    and cl: "claim = to_claim (start_attempt now r) c"
    and db': "db_actions db' = row_save ra_id (start_attempt now r) rows" "db_cases db' = db_cases db"
  have "find_case k db' = Some c" using c(1) db'(2) by (simp add: find_case_def)
  then show ?thesis
    using c p d perm current_inputs_InrD [OF i] claimed_row [OF r(1,2) db'(1)] r(3)
    by (intro exI [of _ c] exI [of _ p] exI [of _ d] exI [of _ i] exI [of _ "start_attempt now r"])
      (simp add: cl to_claim_def)
qed

theorem claim_is_authorized_witness:
  "\<exists>claim db' d. prepare_and_claim fixed_sha 7 claim_time 40 ready_db = (Inr (Inr claim), db') \<and>
     find_current_decision 7 ready_db = Some d \<and> is_execution_permitted d (find_approval_for (pd_id d) ready_db)"
proof -
  obtain claim db' where "prepare_and_claim fixed_sha 7 claim_time 40 ready_db = (Inr (Inr claim), db')"
    using ready_claim by blast
  with claim_is_authorized [OF this] show ?thesis by blast
qed

text \<open>
  C4. One worker at a time. Within 120 seconds of a claim, no other call gets a claim on the case,
  whatever its clock reads below that bound; and later claims on one row lie at least 120 seconds
  apart and are numbered by the attempt counter.
\<close>

theorem fresh_claim_excludes:
  assumes "prepare_and_claim sha k t1 id1 db = (Inr (Inr claim), db1)"
    and "dt_us t2 < dt_us t1 + seconds 120"
  shows "fst (prepare_and_claim sha k t2 id2 db1) \<noteq> Inr (Inr claim2)"
proof
  assume "fst (prepare_and_claim sha k t2 id2 db1) = Inr (Inr claim2)"
  then obtain db2 where second: "prepare_and_claim sha k t2 id2 db1 = (Inr (Inr claim2), db2)"
    by (cases "prepare_and_claim sha k t2 id2 db1") auto
  from assms(1) obtain c d r rows where
    d: "find_current_decision k db = Some d" and t1: "dt_aware t1"
    and r: "row_for d id1 r db rows" "ra_policy_decision_id r = pd_id d"
    and db1: "db_actions db1 = row_save ra_id (start_attempt t1 r) rows" "db_decisions db1 = db_decisions db"
    by (rule prepare_claimE)
  from second obtain d2 r2 rows2 where
    d2: "find_current_decision k db1 = Some d2" and r2: "row_for d2 id2 r2 db1 rows2" "\<not> has_fresh_lease r2 t2"
    by (rule prepare_claimE)
  have "d2 = d" using d d2 db1(2) by (simp add: find_current_decision_def)
  with r2(1) claimed_row(1) [OF r db1(1)] have "r2 = start_attempt t1 r" by (simp add: row_for_def)
  with r2(2) execution_lease.exclusive [OF t1] assms(2) show False by (simp add: EXECUTION_LEASE_SECONDS_def)
qed

theorem fresh_claim_excludes_witness:
  "\<exists>db1. \<forall>c2. fst (prepare_and_claim fixed_sha 7 claim_time 41 db1) \<noteq> Inr (Inr c2)"
proof -
  obtain claim db1 where "prepare_and_claim fixed_sha 7 claim_time 40 ready_db = (Inr (Inr claim), db1)"
    using ready_claim by blast
  from fresh_claim_excludes [OF this, of claim_time 41] show ?thesis by (auto simp: seconds_def)
qed

text \<open>
  Executing again. Once the row of the current decision is final, every further call returns
  it, marked idempotent: no row changes and the provider is not asked anything.
\<close>

lemma final_action_not_repeated:
  assumes "find_case k db = Some c" "find_current_proposal k db = Some p" "find_current_decision k db = Some d"
    and "find_action_for (pd_id d) db = Some r" "ra_execution_status r \<in> FINAL_EXECUTION_STATUSES" "dt_aware t1"
  shows "execute sha gateway k t1 t2 new_id others later w db =
    (Inr (execution_view r c ''RECOVERY_ACTION_ALREADY_FINAL'' True), db, w)"
proof -
  have "prepare_and_claim sha k t1 new_id db = (Inr (Inl (already_final r c)), db)"
    using assms cases_table.lookup_key [OF assms(1)]
    by (simp add: prepare_and_claim_def require_execution_clock_def lock_execution_case_def prepare_locked_def
        load_current_proposal_def load_current_decision_def)
  then show ?thesis by (simp add: execute_def already_final_def)
qed

text \<open>Recording a link while the authorization still stands: the call returns, with these two rows.\<close>

lemma finalize_success_current:
  assumes c: "find_case (xc_case_id claim) db = Some c" and r: "find_action (xc_recovery_action_id claim) db = Some r"
    and cur: "post_request_context_is_current sha c r now db" and now: "dt_aware now"
  shows "\<exists>res db'. finalize_external_success sha claim s adopted now db = (Inr (res, False), db') \<and>
    xr_execution_status res = RecoveryExecutionStatus.SUCCEEDED \<and>
    find_action (xc_recovery_action_id claim) db' = Some (persist_external_projection r s\<lparr>ra_execution_status :=
      RecoveryExecutionStatus.SUCCEEDED, ra_executed_at := Some now, ra_failed_at := None, ra_error_code := None\<rparr>) \<and>
    find_case (xc_case_id claim) db' =
      Some (count_attempt (ra_action r) c\<lparr>pc_current_state := CaseState.WAITING_FOR_OUTCOME\<rparr>)"
proof -
  have key: "ra_id r = xc_recovery_action_id claim" "pc_id c = xc_case_id claim"
    using actions_table.lookup_key [OF r] cases_table.lookup_key [OF c] .
  let ?r = "persist_external_projection r s\<lparr>ra_execution_status := RecoveryExecutionStatus.SUCCEEDED,
     ra_executed_at := Some now, ra_failed_at := None, ra_error_code := None\<rparr>"
  let ?c = "count_attempt (ra_action r) c\<lparr>pc_current_state := CaseState.WAITING_FOR_OUTCOME\<rparr>"
  have "pc_current_state (count_attempt (ra_action r) c) = CaseState.POLICY_VALIDATED"
    using context_current_state [OF cur] by simp
  from await_outcome_total [OF this] obtain db1 where
    aw: "await_outcome ?r (count_attempt (ra_action r) c, save_action ?r db) = Inr (?c, db1)"
    "only_events_added (save_action ?r db) db1" by blast
  define db2 where "db2 = (if adopted then append_execution_audit ?r ''RECOVERY_ACTION_ADOPTED_EXISTING'' [] db1 else db1)"
  define db3 where "db3 = append_execution_audit ?r ''RECOVERY_ACTION_SUCCEEDED''
    (state_metadata (pc_current_state c) (pc_current_state ?c)) db2"
  have "with_claim claim db (\<lambda>c r0.
       let r = persist_external_projection r0 s in
       if \<not> post_request_context_is_current sha c r now db then
         let r1 = r\<lparr>ra_execution_status := RecoveryExecutionStatus.COMPENSATION_REQUIRED,
                   ra_error_code := Some ''EXECUTION_BLOCKED_STALE_AUTHORIZATION''\<rparr>
         in Inr ((execution_view r1 c ''EXECUTION_BLOCKED_STALE_AUTHORIZATION'' False, True),
              append_execution_audit r1 ''EXECUTION_BLOCKED_STALE_AUTHORIZATION'' [] (save_action r1 db))
       else
         let r1 = r\<lparr>ra_execution_status := RecoveryExecutionStatus.SUCCEEDED, ra_executed_at := Some now,
                   ra_failed_at := None, ra_error_code := None\<rparr>
         in sbind (await_outcome r1 (count_attempt (ra_action r1) c, save_action r1 db)) (\<lambda>(c', db1).
              let db2 = (if adopted then append_execution_audit r1 ''RECOVERY_ACTION_ADOPTED_EXISTING'' [] db1 else db1);
                  db3 = append_execution_audit r1 ''RECOVERY_ACTION_SUCCEEDED''
                    (state_metadata (pc_current_state c) (pc_current_state c')) db2
              in Inr ((execution_view r1 c' ''RECOVERY_ACTION_SUCCEEDED'' False, False), save_case c' db3))) =
      Inr ((execution_view ?r ?c ''RECOVERY_ACTION_SUCCEEDED'' False, False), save_case ?c db3)"
    using cur aw(1) c r
    by (simp add: Let_def db2_def db3_def with_claim_def lock_execution_case_def lock_record_def)
  moreover have clock: "require_execution_clock now = Inr ()" using now by simp
  ultimately have run: "finalize_external_success sha claim s adopted now db =
      (Inr (execution_view ?r ?c ''RECOVERY_ACTION_SUCCEEDED'' False, False), save_case ?c db3)"
    by (simp only: finalize_external_success_def clock sbind_simps transaction_simps)
  have "only_events_added (save_action ?r db) db2"
    using aw(2) only_events_added_trans [OF aw(2) only_events_execution] by (simp add: db2_def)
  then have ev: "only_events_added (save_action ?r db) db3"
    unfolding db3_def by (rule only_events_added_trans) simp
  have "find_action (xc_recovery_action_id claim) (save_case ?c db3) = find_action (xc_recovery_action_id claim) (save_action ?r db)"
    using ev by (simp add: find_action_def only_events_addedD)
  also have "\<dots> = Some ?r" using action_saved [OF r, of ?r] key by simp
  finally have ra: "find_action (xc_recovery_action_id claim) (save_case ?c db3) = Some ?r" .
  have "find_case (xc_case_id claim) db3 = Some c" using c ev by (simp add: find_case_def only_events_addedD)
  then have "find_case (xc_case_id claim) (save_case ?c db3) = Some ?c" using key by (simp add: cases_table.lookup_saved)
  with run ra show ?thesis by (simp add: execution_view_def)
qed

text \<open>
  C31. What a link that exists leads to. If the authorization still stands when the link has been
  obtained, the row becomes SUCCEEDED, the case counts exactly one attempt (and one contact where
  the action contacts the customer) and waits for the outcome. Otherwise nothing of the case
  changes, no attempt is counted, the row demands compensation and the worker cancels the link.
\<close>

theorem external_success_effect:
  assumes "finalize_external_success sha claim s adopted now db = (Inr (res, compensation_required), db')"
  shows "\<exists>c r r'. find_case (xc_case_id claim) db = Some c \<and> find_action (xc_recovery_action_id claim) db = Some r \<and>
    find_action (xc_recovery_action_id claim) db' = Some r' \<and>
    ra_external_reference_id r' = Some (ps_id s) \<and>
    (compensation_required \<longleftrightarrow> \<not> post_request_context_is_current sha c r now db) \<and>
    (if compensation_required
     then ra_execution_status r' = RecoveryExecutionStatus.COMPENSATION_REQUIRED \<and> find_case (xc_case_id claim) db' = Some c
     else ra_execution_status r' = RecoveryExecutionStatus.SUCCEEDED \<and> ra_executed_at r' = Some now \<and>
       find_case (xc_case_id claim) db' =
         Some (count_attempt (ra_action r) c\<lparr>pc_current_state := CaseState.WAITING_FOR_OUTCOME\<rparr>))"
proof -
  obtain c r where c: "find_case (xc_case_id claim) db = Some c" and r: "find_action (xc_recovery_action_id claim) db = Some r"
    and body: "(let r = persist_external_projection r s in
       if \<not> post_request_context_is_current sha c r now db then
         let r1 = r\<lparr>ra_execution_status := RecoveryExecutionStatus.COMPENSATION_REQUIRED,
                   ra_error_code := Some ''EXECUTION_BLOCKED_STALE_AUTHORIZATION''\<rparr>
         in Inr ((execution_view r1 c ''EXECUTION_BLOCKED_STALE_AUTHORIZATION'' False, True),
              append_execution_audit r1 ''EXECUTION_BLOCKED_STALE_AUTHORIZATION'' [] (save_action r1 db))
       else
         let r1 = r\<lparr>ra_execution_status := RecoveryExecutionStatus.SUCCEEDED, ra_executed_at := Some now,
                   ra_failed_at := None, ra_error_code := None\<rparr>
         in sbind (await_outcome r1 (count_attempt (ra_action r1) c, save_action r1 db)) (\<lambda>(c', db1).
              let db2 = (if adopted then append_execution_audit r1 ''RECOVERY_ACTION_ADOPTED_EXISTING'' [] db1 else db1);
                  db3 = append_execution_audit r1 ''RECOVERY_ACTION_SUCCEEDED''
                    (state_metadata (pc_current_state c) (pc_current_state c')) db2
              in Inr ((execution_view r1 c' ''RECOVERY_ACTION_SUCCEEDED'' False, False), save_case c' db3))) =
      Inr ((res, compensation_required), db')"
    using assms unfolding finalize_external_success_def
    by (auto elim!: transaction_InrE with_claim_InrE)
  have key: "ra_id r = xc_recovery_action_id claim" "pc_id c = xc_case_id claim"
    using actions_table.lookup_key [OF r] cases_table.lookup_key [OF c] .
  show ?thesis
  proof (cases "post_request_context_is_current sha c r now db")
    case False
    let ?r = "persist_external_projection r s\<lparr>ra_execution_status := RecoveryExecutionStatus.COMPENSATION_REQUIRED,
       ra_error_code := Some ''EXECUTION_BLOCKED_STALE_AUTHORIZATION''\<rparr>"
    from False body have x: "compensation_required"
      "db' = append_execution_audit ?r ''EXECUTION_BLOCKED_STALE_AUTHORIZATION'' [] (save_action ?r db)"
      by (simp_all add: Let_def)
    have "find_action (xc_recovery_action_id claim) db' = Some ?r"
      using action_saved [OF r, of ?r] key by (simp add: x(2) append_execution_audit_def)
    then show ?thesis
      using c r False x(1)
      by (intro exI [of _ c] exI [of _ r] exI [of _ ?r])
        (simp add: x(2) append_execution_audit_def persist_external_projection_def)
  next
    case True
    have "dt_aware now" using assms by (auto simp: finalize_external_success_def elim!: transaction_InrE)
    from finalize_success_current [OF c r True this, of s adopted] assms c r True show ?thesis
      by (auto simp: persist_external_projection_def)
  qed
qed

theorem external_success_effect_witness:
  "\<exists>res db' r'. finalize_external_success fixed_sha \<lparr>xc_recovery_action_id = 40, xc_case_id = 7,
       xc_action = RecoveryAction.CREATE_RECOVERY_LINK, xc_amount_minor = Some 5000, xc_currency = Some ''INR'',
       xc_reference_id = None, xc_expire_by = None\<rparr> (provider_link \<lparr>pq_amount = 5000, pq_currency = ''INR'',
       pq_reference_id = ''arc_28'', pq_expire_by = 1\<rparr>) False claim_time executed_db = (Inr (res, True), db') \<and>
     find_action 40 db' = Some r' \<and> ra_execution_status r' = RecoveryExecutionStatus.COMPENSATION_REQUIRED"
    (is "\<exists>res db' r'. ?run = _ \<and> _ \<and> _")
proof -
  have "case fst ?run of Inr (res, c) \<Rightarrow> c | Inl e \<Rightarrow> False" by code_simp
  then obtain res db' where run: "?run = (Inr (res, True), db')" by (cases ?run) (auto split: sum.splits)
  from external_success_effect [OF run] run show ?thesis by auto
qed

text \<open>
  C33. The late worker. Unlike the two other finalizations, this one does not look at the status
  of the row. A worker that finishes after another one has recorded SUCCEEDED, so that the case is
  no longer POLICY_VALIDATED, overwrites the success with COMPENSATION_REQUIRED and is told to
  cancel the link, while the case keeps waiting for its payment and keeps the counted attempt. The
  same worker reporting a provider problem would have left the row alone.
\<close>

theorem late_worker_overwrites_success:
  assumes "find_case (xc_case_id claim) db = Some c" "find_action (xc_recovery_action_id claim) db = Some r"
    and "ra_execution_status r = RecoveryExecutionStatus.SUCCEEDED" "pc_current_state c = CaseState.WAITING_FOR_OUTCOME"
    and "dt_aware now"
  shows "(\<exists>res db' r'. finalize_external_success sha claim s adopted now db = (Inr (res, True), db') \<and>
      find_action (xc_recovery_action_id claim) db' = Some r' \<and>
      ra_execution_status r' = RecoveryExecutionStatus.COMPENSATION_REQUIRED \<and> find_case (xc_case_id claim) db' = Some c) \<and>
    finalize_provider_problem claim problem now db = (Inr (already_final r c), db)"
proof
  let ?r = "persist_external_projection r s\<lparr>ra_execution_status := RecoveryExecutionStatus.COMPENSATION_REQUIRED,
       ra_error_code := Some ''EXECUTION_BLOCKED_STALE_AUTHORIZATION''\<rparr>"
  have stale: "\<not> post_request_context_is_current sha c r now db"
    using context_current_state [of sha c r now db] assms(4) by auto
  have clock: "require_execution_clock now = Inr ()" using assms(5) by simp
  have "ra_id ?r = xc_recovery_action_id claim" using actions_table.lookup_key [OF assms(2)] by simp
  from action_saved [OF assms(2) this]
  have "find_action (xc_recovery_action_id claim)
      (append_execution_audit ?r ''EXECUTION_BLOCKED_STALE_AUTHORIZATION'' [] (save_action ?r db)) = Some ?r"
    by (simp add: append_execution_audit_def)
  with stale assms(1,2) show "\<exists>res db' r'. finalize_external_success sha claim s adopted now db = (Inr (res, True), db') \<and>
      find_action (xc_recovery_action_id claim) db' = Some r' \<and>
      ra_execution_status r' = RecoveryExecutionStatus.COMPENSATION_REQUIRED \<and> find_case (xc_case_id claim) db' = Some c"
    by (simp add: finalize_external_success_def clock with_claim_def lock_execution_case_def lock_record_def Let_def
        append_execution_audit_def)
  show "finalize_provider_problem claim problem now db = (Inr (already_final r c), db)"
    using assms(1-3) by (simp add: finalize_provider_problem_def clock with_claim_def lock_execution_case_def
        lock_record_def FINAL_EXECUTION_STATUSES_def)
qed

theorem late_worker_overwrites_success_witness:
  "\<forall>s. \<exists>res db' r'. finalize_external_success fixed_sha \<lparr>xc_recovery_action_id = 40, xc_case_id = 7,
       xc_action = RecoveryAction.CREATE_RECOVERY_LINK, xc_amount_minor = Some 5000, xc_currency = Some ''INR'',
       xc_reference_id = None, xc_expire_by = None\<rparr> s True claim_time executed_db = (Inr (res, True), db') \<and>
     find_action 40 db' = Some r' \<and> ra_execution_status r' = RecoveryExecutionStatus.COMPENSATION_REQUIRED"
proof -
  let ?claim = "\<lparr>xc_recovery_action_id = 40, xc_case_id = 7, xc_action = RecoveryAction.CREATE_RECOVERY_LINK,
    xc_amount_minor = Some 5000, xc_currency = Some ''INR'', xc_reference_id = None, xc_expire_by = None\<rparr>"
  have "find_case (xc_case_id ?claim) executed_db = Some (hd (db_cases executed_db))"
    "find_action (xc_recovery_action_id ?claim) executed_db = Some succeeded_action"
    "ra_execution_status succeeded_action = RecoveryExecutionStatus.SUCCEEDED"
    "pc_current_state (hd (db_cases executed_db)) = CaseState.WAITING_FOR_OUTCOME" "dt_aware claim_time" by code_simp+
  note late = late_worker_overwrites_success [OF this]
  show ?thesis (is "\<forall>s. ?P s")
  proof
    fix s
    from late [of fixed_sha s True "failed []"] show "?P s" by auto
  qed
qed

text \<open>
  C3. Never two links. Let \<open>links w ref\<close> be the number of links with a reference in the provider's
  world, and suppose that a lookup changes no link and lists them all, that a call to create makes
  at most one more, with the reference it was given, and that cancelling makes none. Then an
  execution never makes a second link with a reference that has one, whether it creates, adopts,
  finds an ambiguity, fails, or compensates; a reference that had none ends with one at most.
\<close>

definition gateway_lookup_ok :: "'w payment_link_gateway \<Rightarrow> ('w \<Rightarrow> string \<Rightarrow> nat) \<Rightarrow> bool" where
  "gateway_lookup_ok gw links \<longleftrightarrow> (\<forall>ref w. links (snd (gw_lookup gw ref w)) = links w \<and>
     (case fst (gw_lookup gw ref w) of Inr ss \<Rightarrow> ss = [] \<longrightarrow> links w ref = 0 | Inl e \<Rightarrow> True))"

definition gateway_create_ok :: "'w payment_link_gateway \<Rightarrow> ('w \<Rightarrow> string \<Rightarrow> nat) \<Rightarrow> bool" where
  "gateway_create_ok gw links \<longleftrightarrow> (\<forall>q w ref. links (snd (gw_create gw q w)) ref \<le>
     links w ref + (if ref = pq_reference_id q then 1 else 0))"

definition gateway_cancel_ok :: "'w payment_link_gateway \<Rightarrow> ('w \<Rightarrow> string \<Rightarrow> nat) \<Rightarrow> bool" where
  "gateway_cancel_ok gw links \<longleftrightarrow> (\<forall>k w ref. links (snd (gw_cancel gw k w)) ref \<le> links w ref)"

lemma obtain_link_count:
  assumes "gateway_lookup_ok gw links" "gateway_create_ok gw links"
  shows "links (snd (obtain_link gw q w)) ref \<le> max 1 (links w ref)"
proof (cases "gw_lookup gw (pq_reference_id q) w")
  case (Pair res w1)
  have look: "links w1 = links w" "res = Inr [] \<Longrightarrow> links w (pq_reference_id q) = 0"
    using assms(1) Pair unfolding gateway_lookup_ok_def by (metis snd_conv, force split: sum.splits)
  show ?thesis
  proof (cases "res = Inr []")
    case True
    obtain res2 w2 where cr: "gw_create gw q w1 = (res2, w2)" by (cases "gw_create gw q w1")
    then have "links w2 ref \<le> links w1 ref + (if ref = pq_reference_id q then 1 else 0)"
      using assms(2) unfolding gateway_create_ok_def by (metis snd_conv)
    then have "links w2 ref \<le> max 1 (links w ref)"
      using look True by (cases "ref = pq_reference_id q") auto
    moreover have "snd (obtain_link gw q w) = w2"
      using Pair True cr by (simp add: obtain_link_def split: sum.split)
    ultimately show ?thesis by simp
  next
    case False
    then have "snd (obtain_link gw q w) = w1"
      using Pair by (auto simp: obtain_link_def split: sum.splits list.splits)
    then show ?thesis using look by simp
  qed
qed

lemma cancel_outcome_count:
  assumes "gateway_cancel_ok gw links"
  shows "links (snd (cancel_outcome gw s w)) ref \<le> links w ref"
proof -
  have "snd (cancel_outcome gw s w) = snd (gw_cancel gw (ps_id s) w)"
    by (cases "gw_cancel gw (ps_id s) w") (simp add: cancel_outcome_def split: sum.split)
  then show ?thesis using assms by (simp add: gateway_cancel_ok_def)
qed

theorem never_two_links:
  assumes "gateway_lookup_ok gw links" "gateway_create_ok gw links" "gateway_cancel_ok gw links"
  shows "links (snd (snd (execute sha (Inr gw) k t1 t2 new_id others later w db))) ref \<le> max 1 (links w ref)"
proof -
  have link: "links (snd (snd (execute_payment_link sha (Inr gw) claim t2 others later w db1))) ref \<le> max 1 (links w ref)"
    for claim db1
  proof (cases "payment_link_request claim")
    case (Inr q)
    obtain res w1 where ob: "obtain_link gw q w = (res, w1)" by (cases "obtain_link gw q w")
    have w1: "links w1 ref \<le> max 1 (links w ref)" using obtain_link_count [OF assms(1,2), of q w ref] ob by simp
    have w2: "links (snd (cancel_outcome gw s w1)) ref \<le> max 1 (links w ref)" for s
      using cancel_outcome_count [OF assms(3), of s w1 ref] w1 by linarith
    have "snd (snd (execute_payment_link sha (Inr gw) claim t2 others later w db1)) = w1 \<or>
        (\<exists>s. snd (snd (execute_payment_link sha (Inr gw) claim t2 others later w db1)) = snd (cancel_outcome gw s w1))"
      by (auto simp: execute_payment_link_def Inr ob case_prod_beta split: sum.splits prod.splits if_splits)
    with w1 w2 show ?thesis by auto
  qed (simp add: execute_payment_link_def)
  show ?thesis
    using link by (auto simp: execute_def case_prod_beta split: sum.splits prod.splits)
qed

theorem never_two_links_witness:
  "\<forall>ref. length (filter (\<lambda>s. ps_reference_id s = ref)
     (snd (snd (execute fixed_sha (Inr sample_gateway) 7 claim_time claim_time 40 id id [] ready_db)))) \<le> 1"
proof -
  let ?links = "\<lambda>w ref. length (filter (\<lambda>s. ps_reference_id s = ref) w)"
  have "gateway_lookup_ok sample_gateway ?links"
    by (auto simp: gateway_lookup_ok_def sample_gateway_def filter_empty_conv)
  moreover have "gateway_create_ok sample_gateway ?links"
    by (auto simp: gateway_create_ok_def sample_gateway_def provider_link_def)
  moreover have "length (filter ((\<lambda>s. ps_reference_id s = r) \<circ> (\<lambda>x. if ps_id x = k then x\<lparr>ps_status := v\<rparr> else x)) w) = ?links w r"
    for k v r and w :: "payment_link_snapshot list" by (induction w) auto
  then have "gateway_cancel_ok sample_gateway ?links"
    by (auto simp: gateway_cancel_ok_def sample_gateway_def split: option.splits)
  ultimately show ?thesis
    using never_two_links [of sample_gateway ?links fixed_sha 7 claim_time claim_time 40 id id "[]" ready_db] by simp
qed

text \<open>
  What a link is asked for. The intent that a new row of a link action records is for a positive
  amount in a three-letter currency, under a reference of 36 characters, within the 40 the provider
  and the table allow, that names the row; it expires strictly after the clock, within 30 minutes
  and not after the authorized window. On a retry the claim carries the same reference.
\<close>

lemma link_intent_bounds:
  assumes "build_record sha c p d approval i now k = Inr r" "sp_action p = RecoveryAction.CREATE_RECOVERY_LINK"
  shows "\<exists>ref e w a. ra_external_reference r = Some ref \<and> length ref = 36 \<and> (\<forall>k2. ref = ''arc_'' @ uuid_hex k2 \<longleftrightarrow> k2 = k) \<and>
    ra_external_expires_at r = Some e \<and> pd_recovery_window_ends_at d = Some w \<and> dt_us e \<le> dt_us w \<and>
    dt_us e \<le> dt_us now + seconds 1800 \<and> dt_timestamp now < dt_timestamp e \<and> pc_amount c = Some a \<and> 0 < a \<and>
    xc_reference_id (to_claim (start_attempt t2 (start_attempt t1 r)) c) = Some ref"
proof -
  obtain r0 where l: "link_record sha c p d now r0 = Inr r"
    using assms by (auto simp: build_record_def Let_def)
  show ?thesis
    using build_record_InrD(7) [OF assms(1)] assms(2) link_record_InrD(10,11) [OF l]
    by (auto simp: to_claim_def PAYMENT_LINK_OPERATIONAL_EXPIRY_SECONDS_def)
qed

text \<open>
  The key of an execution. Two executions share an idempotency key only for the same decision,
  authorization, proposal and action; two link requests share a fingerprint only for the same
  amount, currency, reference and expiry.
\<close>

lemma execution_key_binds:
  assumes "no_collision sha (json_dumps True (execution_identity_facts i)) (json_dumps True (execution_identity_facts j))"
    and "no_collision sha (json_dumps True (link_intent_facts m)) (json_dumps True (link_intent_facts n))"
  shows "(build_execution_idempotency_key sha i = build_execution_idempotency_key sha j \<longleftrightarrow> i = j) \<and>
    (build_payment_link_request_fingerprint sha m = build_payment_link_request_fingerprint sha n \<longleftrightarrow>
       m\<lparr>li_currency := py_upper (py_strip (li_currency m))\<rparr> = n\<lparr>li_currency := py_upper (py_strip (li_currency n))\<rparr>)"
proof
  show "build_execution_idempotency_key sha i = build_execution_idempotency_key sha j \<longleftrightarrow> i = j"
  proof
    assume "build_execution_idempotency_key sha i = build_execution_idempotency_key sha j"
    note b = execution_key.binds [OF this [unfolded build_execution_idempotency_key_def] assms(1)]
    show "i = j"
      using b [of "''policy_decision_id''"] b [of "''authorization_input_fingerprint''"] b [of "''strategy_proposal_id''"]
        b [of "''action''"]
      by (simp add: json_field_def execution_identity_facts_def)
  qed simp
  show "build_payment_link_request_fingerprint sha m = build_payment_link_request_fingerprint sha n \<longleftrightarrow>
     m\<lparr>li_currency := py_upper (py_strip (li_currency m))\<rparr> = n\<lparr>li_currency := py_upper (py_strip (li_currency n))\<rparr>"
    (is "?L = ?R")
  proof
    assume ?L
    note b = link_request_fp.binds [OF this [unfolded build_payment_link_request_fingerprint_def] assms(2)]
    show ?R
      using b [of "''action''"] b [of "''amount''"] b [of "''currency''"] b [of "''reference_id''"] b [of "''expire_by''"]
      by (simp add: json_field_def link_intent_facts_def)
  next
    assume ?R
    then have "link_intent_facts m = link_intent_facts n" by (cases m; cases n) (simp add: link_intent_facts_def)
    then show ?L by (simp add: build_payment_link_request_fingerprint_def)
  qed
qed

end
