(* ===== verification/Arc_Outcomes.thy ===== *)
theory Arc_Outcomes
  imports Arc_Execution "HOL-Library.Product_Lexorder"
begin

text \<open>
  Outcome observation and attribution: the classification of provider evidence
  (\<open>arc/outcomes/classification.py\<close>), its fingerprint (\<open>arc/outcomes/fingerprint.py\<close>), its audit
  (\<open>arc/outcomes/audit.py\<close>) and the service that reads the provider without a lock and records
  what it read under one (\<open>arc/outcomes/service.py\<close>).
\<close>

section \<open>Classification\<close>

record expected_evidence =
  ee_recovery_action_id :: uuid
  ee_payment_link_id :: string
  ee_reference_id :: string
  ee_amount_minor :: int
  ee_currency :: string

record outcome_classification =
  oc_outcome_status :: RecoveryOutcomeStatus
  oc_reason_code :: string
  oc_provider_payment_id :: "string option"
  oc_provider_payment_status :: "string option"

definition review :: "string \<Rightarrow> outcome_classification" where
  "review reason_code = \<lparr>oc_outcome_status = RecoveryOutcomeStatus.REVIEW_REQUIRED, oc_reason_code = reason_code,
     oc_provider_payment_id = None, oc_provider_payment_status = None\<rparr>"

definition outcome_of :: "RecoveryOutcomeStatus \<Rightarrow> string \<Rightarrow> outcome_classification" where
  "outcome_of status reason_code = \<lparr>oc_outcome_status = status, oc_reason_code = reason_code,
     oc_provider_payment_id = None, oc_provider_payment_status = None\<rparr>"

definition classify_payment_link_outcome ::
  "expected_evidence \<Rightarrow> payment_link_snapshot \<Rightarrow> outcome_classification" where
  "classify_payment_link_outcome expected s =
    (if ps_id s \<noteq> ee_payment_link_id expected \<or> ps_reference_id s \<noteq> ee_reference_id expected \<or>
        ps_amount s \<noteq> ee_amount_minor expected \<or> ps_currency s \<noteq> py_upper (py_strip (ee_currency expected))
     then review ''RECOVERY_OUTCOME_IDENTITY_OR_AMOUNT_MISMATCH''
     else if list_ex (\<lambda>p. cp_payment_link_id p \<noteq> None \<and> cp_payment_link_id p \<noteq> Some (ee_payment_link_id expected))
        (ps_payments s)
     then review ''RECOVERY_OUTCOME_PAYMENT_LINK_MISMATCH''
     else if ps_status s \<in> {''created'', ''issued''} then
       (if ps_amount_paid s \<noteq> 0 \<or> ps_payments s \<noteq> [] then review ''RECOVERY_OUTCOME_PENDING_EVIDENCE_CONFLICT''
        else outcome_of RecoveryOutcomeStatus.PENDING ''RECOVERY_PAYMENT_LINK_PENDING'')
     else if ps_status s = ''paid'' then
       (if ps_amount_paid s \<noteq> ee_amount_minor expected then review ''RECOVERY_OUTCOME_AMOUNT_PAID_MISMATCH''
        else case ps_payments s of
          [payment] \<Rightarrow>
            if cp_status payment \<noteq> ''captured'' \<or> cp_amount payment \<noteq> ee_amount_minor expected
            then review ''RECOVERY_OUTCOME_CAPTURE_MISMATCH''
            else \<lparr>oc_outcome_status = RecoveryOutcomeStatus.RECOVERED, oc_reason_code = ''RECOVERY_PAYMENT_CAPTURED'',
                   oc_provider_payment_id = Some (cp_payment_id payment),
                   oc_provider_payment_status = Some (cp_status payment)\<rparr>
        | _ \<Rightarrow> review ''RECOVERY_OUTCOME_CAPTURE_AMBIGUOUS'')
     else if ps_status s = ''expired'' then
       (if ps_amount_paid s \<noteq> 0 \<or> ps_payments s \<noteq> [] then review ''RECOVERY_OUTCOME_EXPIRED_EVIDENCE_CONFLICT''
        else outcome_of RecoveryOutcomeStatus.EXPIRED ''RECOVERY_PAYMENT_LINK_EXPIRED'')
     else if ps_status s = ''cancelled'' then
       (if ps_amount_paid s \<noteq> 0 \<or> ps_payments s \<noteq> [] then review ''RECOVERY_OUTCOME_CANCELLED_EVIDENCE_CONFLICT''
        else outcome_of RecoveryOutcomeStatus.CANCELLED ''RECOVERY_PAYMENT_LINK_CANCELLED'')
     else if ps_status s = ''partially_paid'' then review ''RECOVERY_OUTCOME_PARTIAL_PAYMENT_UNSUPPORTED''
     else review ''RECOVERY_OUTCOME_PROVIDER_STATUS_UNKNOWN'')"

section \<open>Fingerprint\<close>

definition OUTCOME_OBSERVER_VERSION :: string where
  "OUTCOME_OBSERVER_VERSION = ''payment-link-outcome-v1''"

definition payment_json :: "captured_payment \<Rightarrow> json" where
  "payment_json p = JObj
    [(''payment_id'', JStr (cp_payment_id p)), (''amount'', JInt (cp_amount p)), (''status'', JStr (cp_status p)),
     (''method'', jopt JStr (cp_method p)), (''created_at'', jopt JInt (cp_created_at p)),
     (''payment_link_id'', jopt JStr (cp_payment_link_id p))]"

definition payment_order :: "captured_payment \<Rightarrow> string \<times> int \<times> string" where
  "payment_order p = (cp_payment_id p, cp_amount p, cp_status p)"

definition outcome_evidence :: "uuid \<times> payment_link_snapshot \<Rightarrow> json" where
  "outcome_evidence = (\<lambda>(recovery_action_id, s). JObj
    [(''observer_version'', JStr OUTCOME_OBSERVER_VERSION),
     (''recovery_action_id'', JStr (uuid_str recovery_action_id)), (''payment_link_id'', JStr (ps_id s)),
     (''reference_id'', JStr (ps_reference_id s)), (''status'', JStr (ps_status s)), (''amount'', JInt (ps_amount s)),
     (''amount_paid'', JInt (ps_amount_paid s)), (''currency'', JStr (ps_currency s)),
     (''payments'', JArr (map payment_json (sort_key payment_order (ps_payments s)))),
     (''updated_at'', jopt JInt (ps_updated_at s)), (''expire_by'', jopt JInt (ps_expire_by s)),
     (''expired_at'', jopt JInt (ps_expired_at s)), (''cancelled_at'', jopt JInt (ps_cancelled_at s))])"

definition build_outcome_evidence_fingerprint ::
  "(string \<Rightarrow> string) \<Rightarrow> uuid \<Rightarrow> payment_link_snapshot \<Rightarrow> string" where
  "build_outcome_evidence_fingerprint sha recovery_action_id s =
     sha (json_dumps False (outcome_evidence (recovery_action_id, s)))"

lemma payment_json_wf [simp]: "wf_json (payment_json p)"
  by (simp add: payment_json_def)

interpretation evidence_fp: fingerprinted outcome_evidence False
  by unfold_locales (auto simp: outcome_evidence_def)

section \<open>Audit\<close>

definition OUTCOME_AUDIT_SOURCE :: string where
  "OUTCOME_AUDIT_SOURCE = ''RECOVERY_OBSERVER''"

definition append_outcome_audit ::
  "outcome_observation \<Rightarrow> string \<Rightarrow> string \<Rightarrow> recovery_attribution option \<Rightarrow> arc_db \<Rightarrow> arc_db" where
  "append_outcome_audit ob event_type reason_code attribution db =
    (let action = find_action (ro_recovery_action_id ob) db in
     add_event \<lparr>ce_case_id = ro_case_id ob, ce_event_type = event_type, ce_source = OUTCOME_AUDIT_SOURCE,
       ce_event_data = JObj
         [(''recovery_action_id'', JStr (uuid_str (ro_recovery_action_id ob))),
          (''observation_id'', JStr (uuid_str (ro_id ob))),
          (''attribution_id'', jopt (\<lambda>a. JStr (uuid_str (at_id a))) attribution),
          (''provider'', JStr (ro_provider ob)), (''provider_mode'', JStr (provider_mode_value (ro_provider_mode ob))),
          (''provider_status'', JStr (ro_provider_status ob)),
          (''provider_entity_id'', jopt JStr (Option.bind action ra_external_reference_id)),
          (''provider_reference_id'', jopt JStr (Option.bind action ra_external_reference)),
          (''provider_payment_id'', jopt JStr (ro_provider_payment_id ob)),
          (''expected_amount_minor'', JInt (ro_amount_expected_minor ob)),
          (''amount_paid_minor'', JInt (ro_amount_paid_minor ob)),
          (''recovered_amount_minor'', jopt (\<lambda>a. JInt (at_recovered_amount_minor a)) attribution),
          (''currency'', JStr (ro_currency ob)),
          (''outcome_status'', JStr (outcome_status_value (ro_outcome_status ob))),
          (''evidence_fingerprint'', JStr (ro_evidence_fingerprint ob)),
          (''source'', JStr (observation_source_value (ro_source ob))), (''reason_code'', JStr reason_code)]\<rparr> db)"

section \<open>The service\<close>

definition ATTRIBUTION_REASON_CODE :: string where
  "ATTRIBUTION_REASON_CODE = ''ARC_PAYMENT_LINK_CAPTURED''"

record outcome_result =
  or_recovery_action_id :: uuid
  or_case_id :: uuid
  or_observation_id :: uuid
  or_attribution_id :: "uuid option"
  or_provider_mode :: ProviderMode
  or_provider_status :: string
  or_outcome_status :: RecoveryOutcomeStatus
  or_case_state :: CaseState
  or_reason_code :: string
  or_recovered_amount_minor :: "int option"
  or_currency :: string
  or_idempotent :: bool

record observation_claim =
  ob_expected :: expected_evidence
  ob_case_id :: uuid
  ob_provider_mode :: ProviderMode

definition outcome_view ::
  "outcome_observation \<Rightarrow> recovery_attribution option \<Rightarrow> payment_case \<Rightarrow> string \<Rightarrow> bool \<Rightarrow> outcome_result" where
  "outcome_view ob attribution c reason_code idempotent =
     \<lparr>or_recovery_action_id = ro_recovery_action_id ob, or_case_id = ro_case_id ob, or_observation_id = ro_id ob,
      or_attribution_id = map_option at_id attribution, or_provider_mode = ro_provider_mode ob,
      or_provider_status = ro_provider_status ob, or_outcome_status = ro_outcome_status ob,
      or_case_state = pc_current_state c, or_reason_code = reason_code,
      or_recovered_amount_minor = map_option at_recovered_amount_minor attribution, or_currency = ro_currency ob,
      or_idempotent = idempotent\<rparr>"

definition lock_action_and_case :: "uuid \<Rightarrow> arc_db \<Rightarrow> arc_error + recovery_action \<times> payment_case" where
  "lock_action_and_case recovery_action_id db =
    (case find_action recovery_action_id db of
       None \<Rightarrow> Inl (RecoveryObservationNotFoundError ''Recovery action was not found'')
     | Some action \<Rightarrow> (case find_case (ra_case_id action) db of
         None \<Rightarrow> Inl (RecoveryObservationNotFoundError ''Recovery action context was not found'')
       | Some c \<Rightarrow> if ra_case_id action \<noteq> pc_id c
           then Inl (RecoveryObservationNotFoundError ''Recovery action context was not found'')
           else Inr (action, c)))"

definition observable_states :: "CaseState set" where
  "observable_states =
     {CaseState.WAITING_FOR_OUTCOME, CaseState.RECOVERED, CaseState.EXHAUSTED, CaseState.ESCALATED}"

definition configuration_error :: "string \<Rightarrow> arc_error + 'a" where
  "configuration_error m = Inl (RecoveryObservationConfigurationError m)"

definition validate_observable :: "recovery_action \<Rightarrow> payment_case \<Rightarrow> arc_error + expected_evidence" where
  "validate_observable action c =
    (if ra_action action \<noteq> RecoveryAction.CREATE_RECOVERY_LINK \<or>
        ra_execution_status action \<noteq> RecoveryExecutionStatus.SUCCEEDED \<or> ra_provider action \<noteq> ''RAZORPAY''
     then configuration_error ''Recovery action does not support outcome observation''
     else case (ra_external_reference_id action, ra_external_reference action) of
       (Some link_id, Some reference) \<Rightarrow>
         (case pc_amount c of
            None \<Rightarrow> configuration_error ''Recovery case has no positive expected amount''
          | Some amount \<Rightarrow>
            if amount \<le> 0 then configuration_error ''Recovery case has no positive expected amount''
            else
              let currency = py_upper (py_strip (case pc_currency c of None \<Rightarrow> [] | Some s \<Rightarrow> s))
              in if length currency \<noteq> 3 then configuration_error ''Recovery case has no valid currency''
                 else if pc_current_state c \<notin> observable_states
                 then configuration_error ''Recovery case is not observable in its current state''
                 else Inr \<lparr>ee_recovery_action_id = ra_id action, ee_payment_link_id = link_id,
                        ee_reference_id = reference, ee_amount_minor = amount, ee_currency = currency\<rparr>)
     | _ \<Rightarrow> configuration_error ''Recovery action is missing provider identifiers'')"

definition attribution_for_action :: "uuid \<Rightarrow> arc_db \<Rightarrow> recovery_attribution option" where
  "attribution_for_action recovery_action_id db =
     find (\<lambda>a. at_recovery_action_id a = recovery_action_id) (db_attributions db)"

definition demote :: "outcome_classification \<Rightarrow> string \<Rightarrow> outcome_classification" where
  "demote k reason_code = k\<lparr>oc_outcome_status := RecoveryOutcomeStatus.REVIEW_REQUIRED, oc_reason_code := reason_code\<rparr>"

definition protect_existing ::
  "payment_case \<Rightarrow> recovery_action \<Rightarrow> outcome_classification \<Rightarrow> recovery_attribution option \<Rightarrow> arc_db \<Rightarrow>
     outcome_classification" where
  "protect_existing c action k existing_attribution db =
    (if oc_outcome_status k \<noteq> RecoveryOutcomeStatus.RECOVERED then k
     else case oc_provider_payment_id k of
       None \<Rightarrow> demote k ''RECOVERY_OUTCOME_CAPTURE_MISSING''
     | Some payment_id \<Rightarrow>
       (case find (\<lambda>a. at_provider_payment_id a = payment_id) (db_attributions db) of
          Some attributed \<Rightarrow> if at_recovery_action_id attributed \<noteq> ra_id action
            then demote k ''RECOVERY_ATTRIBUTION_PAYMENT_ALREADY_COUNTED''
            else (case existing_attribution of
                Some e \<Rightarrow> if at_provider_payment_id e = payment_id then k
                  else demote k ''RECOVERY_ATTRIBUTION_ACTION_ALREADY_COUNTED''
              | None \<Rightarrow> if pc_current_state c = CaseState.RECOVERED
                  then demote k ''RECOVERY_ATTRIBUTION_CASE_ALREADY_RECOVERED'' else k)
        | None \<Rightarrow> (case existing_attribution of
                Some e \<Rightarrow> if at_provider_payment_id e = payment_id then k
                  else demote k ''RECOVERY_ATTRIBUTION_ACTION_ALREADY_COUNTED''
              | None \<Rightarrow> if pc_current_state c = CaseState.RECOVERED
                  then demote k ''RECOVERY_ATTRIBUTION_CASE_ALREADY_RECOVERED'' else k)))"

definition build_observation ::
  "observation_claim \<Rightarrow> payment_case \<Rightarrow> recovery_action \<Rightarrow> expected_evidence \<Rightarrow> payment_link_snapshot \<Rightarrow>
     outcome_classification \<Rightarrow> string \<Rightarrow> OutcomeObservationSource \<Rightarrow> py_datetime \<Rightarrow> py_datetime \<Rightarrow> uuid \<Rightarrow> outcome_observation" where
  "build_observation claim c action current s k fingerprint source observed_at created_at new_id =
     \<lparr>ro_id = new_id, ro_case_id = pc_id c, ro_recovery_action_id = ra_id action, ro_source = source,
      ro_provider = ''RAZORPAY'', ro_provider_mode = ob_provider_mode claim, ro_provider_status = ps_status s,
      ro_outcome_status = oc_outcome_status k, ro_amount_expected_minor = ee_amount_minor current,
      ro_amount_paid_minor = ps_amount_paid s, ro_currency = ee_currency current,
      ro_provider_payment_id = oc_provider_payment_id k, ro_provider_payment_status = oc_provider_payment_status k,
      ro_evidence_fingerprint = fingerprint, ro_observed_at = observed_at, ro_created_at = created_at\<rparr>"

definition build_attribution ::
  "observation_claim \<Rightarrow> outcome_observation \<Rightarrow> expected_evidence \<Rightarrow> payment_link_snapshot \<Rightarrow> outcome_classification \<Rightarrow>
     uuid \<Rightarrow> recovery_attribution" where
  "build_attribution claim ob current s k new_id =
     \<lparr>at_id = new_id, at_case_id = ro_case_id ob, at_recovery_action_id = ro_recovery_action_id ob,
      at_outcome_observation_id = ro_id ob, at_provider = ''RAZORPAY'', at_provider_mode = ob_provider_mode claim,
      at_provider_payment_link_id = ps_id s, at_provider_reference_id = ps_reference_id s,
      at_provider_payment_id = (case oc_provider_payment_id k of None \<Rightarrow> [] | Some p \<Rightarrow> p),
      at_recovered_amount_minor = ee_amount_minor current, at_currency = ee_currency current,
      at_attribution_reason_code = ATTRIBUTION_REASON_CODE, at_evidence_fingerprint = ro_evidence_fingerprint ob,
      at_attributed_at = ro_observed_at ob\<rparr>"

text \<open>The three unique constraints of the attribution table.\<close>

definition attribution_conflict :: "recovery_attribution \<Rightarrow> arc_db \<Rightarrow> bool" where
  "attribution_conflict a db \<longleftrightarrow> list_ex (\<lambda>b. at_recovery_action_id b = at_recovery_action_id a \<or>
     at_outcome_observation_id b = at_outcome_observation_id a \<or>
     at_provider_payment_id b = at_provider_payment_id a) (db_attributions db)"

definition outcome_metadata :: "outcome_observation \<Rightarrow> json_dict" where
  "outcome_metadata ob = [(''recovery_action_id'', JStr (uuid_str (ro_recovery_action_id ob))),
     (''outcome_observation_id'', JStr (uuid_str (ro_id ob)))]"

text \<open>A waiting case is resolved by the outcome; in any other state it is left alone.\<close>

definition resolve_waiting ::
  "payment_case \<Rightarrow> CaseState \<Rightarrow> string \<Rightarrow> json_dict \<Rightarrow> py_datetime \<Rightarrow> arc_db \<Rightarrow> arc_error + payment_case \<times> arc_db" where
  "resolve_waiting c target reason metadata observed_at db =
    (if pc_current_state c = CaseState.WAITING_FOR_OUTCOME then
       sbind (move_case c target reason OUTCOME_AUDIT_SOURCE metadata db)
         (\<lambda>(c', db'). Inr (c'\<lparr>pc_resolved_at := Some observed_at\<rparr>, db'))
     else Inr (c, db))"

definition apply_outcome_transition ::
  "payment_case \<Rightarrow> outcome_observation \<Rightarrow> outcome_classification \<Rightarrow> recovery_attribution option \<Rightarrow> py_datetime \<Rightarrow> arc_db \<Rightarrow>
     arc_error + payment_case \<times> arc_db" where
  "apply_outcome_transition c ob k attribution observed_at db =
    (let reason = oc_reason_code k; status = oc_outcome_status k;
         db1 = append_outcome_audit ob ''RECOVERY_OUTCOME_OBSERVED'' reason attribution db;
         db2 = append_outcome_audit ob (''RECOVERY_OUTCOME_'' @ outcome_status_value status) reason attribution db1
     in if status = RecoveryOutcomeStatus.PENDING then Inr (c, db2)
        else if status = RecoveryOutcomeStatus.RECOVERED then
          (case attribution of
             None \<Rightarrow> configuration_error ''Recovered outcome has no durable attribution''
           | Some a \<Rightarrow> resolve_waiting c CaseState.RECOVERED ''RECOVERY_PAYMENT_CAPTURED''
               (outcome_metadata ob @ [(''attribution_id'', JStr (uuid_str (at_id a)))]) observed_at
               (append_outcome_audit ob ''RECOVERY_ATTRIBUTED'' ATTRIBUTION_REASON_CODE attribution db2))
        else if status \<in> {RecoveryOutcomeStatus.EXPIRED, RecoveryOutcomeStatus.CANCELLED} then
          resolve_waiting c CaseState.EXHAUSTED reason (outcome_metadata ob) observed_at db2
        else resolve_waiting c CaseState.ESCALATED reason (outcome_metadata ob) observed_at
          (append_outcome_audit ob ''RECOVERY_ATTRIBUTION_CONFLICT'' reason None db2))"

text \<open>
  Recording a first observation. \<open>raced\<close> are the attributions that other transactions commit
  between the check of existing ones and the insert; the insert runs in a savepoint, and a unique
  constraint it violates turns the outcome into one that needs review.
\<close>

definition attribute ::
  "observation_claim \<Rightarrow> outcome_observation \<Rightarrow> expected_evidence \<Rightarrow> payment_link_snapshot \<Rightarrow> outcome_classification \<Rightarrow>
     recovery_attribution option \<Rightarrow> uuid \<Rightarrow> arc_db \<Rightarrow>
     outcome_observation \<times> outcome_classification \<times> recovery_attribution option \<times> arc_db" where
  "attribute claim ob current s k existing_attribution new_id db =
    (if oc_outcome_status k = RecoveryOutcomeStatus.RECOVERED \<and> existing_attribution = None then
       let a = build_attribution claim ob current s k new_id in
       if attribution_conflict a db then
         let k' = demote k ''RECOVERY_ATTRIBUTION_UNIQUENESS_CONFLICT'';
             ob' = ob\<lparr>ro_outcome_status := oc_outcome_status k'\<rparr>
         in (ob', k', None, save_observation ob' db)
       else (ob, k, Some a, add_attribution a db)
     else (ob, k, existing_attribution, db))"

definition record_observation ::
  "observation_claim \<Rightarrow> payment_case \<Rightarrow> recovery_action \<Rightarrow> expected_evidence \<Rightarrow> payment_link_snapshot \<Rightarrow> string \<Rightarrow>
     OutcomeObservationSource \<Rightarrow> py_datetime \<Rightarrow> py_datetime \<Rightarrow> uuid \<times> uuid \<Rightarrow> recovery_attribution list \<Rightarrow> arc_db \<Rightarrow>
     arc_error + outcome_result \<times> arc_db" where
  "record_observation claim c action current s fingerprint source observed_at created_at new_ids raced db =
    (let existing_attribution = attribution_for_action (ra_id action) db;
         k = protect_existing c action (classify_payment_link_outcome current s) existing_attribution db;
         ob = build_observation claim c action current s k fingerprint source observed_at created_at (fst new_ids);
         db1 = save_action (action\<lparr>ra_external_status := Some (ps_status s)\<rparr>) (add_observation ob db);
         db2 = db1\<lparr>db_attributions := db_attributions db1 @ raced\<rparr>;
         (ob', k', attribution, db3) = attribute claim ob current s k existing_attribution (snd new_ids) db2
     in sbind (apply_outcome_transition c ob' k' attribution observed_at db3) (\<lambda>(c', db4).
          Inr (outcome_view ob' attribution c' (oc_reason_code k') False, save_case c' db4)))"

definition persist_observation ::
  "(string \<Rightarrow> string) \<Rightarrow> observation_claim \<Rightarrow> payment_link_snapshot \<Rightarrow> OutcomeObservationSource \<Rightarrow> py_datetime \<Rightarrow>
     py_datetime \<Rightarrow> uuid \<times> uuid \<Rightarrow> recovery_attribution list \<Rightarrow> arc_db \<Rightarrow> (arc_error + outcome_result) \<times> arc_db" where
  "persist_observation sha claim s source observed_at created_at new_ids raced db = transaction db
    (if \<not> dt_aware observed_at then configuration_error ''Recovery observation clock must be timezone-aware''
     else
       let fingerprint = build_outcome_evidence_fingerprint sha (ee_recovery_action_id (ob_expected claim)) s
       in sbind (lock_action_and_case (ee_recovery_action_id (ob_expected claim)) db) (\<lambda>(action, c).
          sbind (validate_observable action c) (\<lambda>current.
            if current \<noteq> ob_expected claim \<or> pc_id c \<noteq> ob_case_id claim then
              configuration_error ''Recovery action context changed during provider read''
            else case find (\<lambda>ob. ro_recovery_action_id ob = ra_id action \<and> ro_evidence_fingerprint ob = fingerprint)
                (db_observations db) of
              Some existing \<Rightarrow> Inr (outcome_view existing (attribution_for_action (ra_id action) db) c
                ''RECOVERY_OUTCOME_ALREADY_OBSERVED'' True, db)
            | None \<Rightarrow> record_observation claim c action current s fingerprint source observed_at created_at new_ids
                raced db)))"

definition prepare_observation :: "arc_error + ProviderMode \<Rightarrow> uuid \<Rightarrow> arc_db \<Rightarrow> arc_error + observation_claim" where
  "prepare_observation provider_mode recovery_action_id db =
     sbind provider_mode (\<lambda>mode.
     sbind (lock_action_and_case recovery_action_id db) (\<lambda>(action, c).
     sbind (validate_observable action c) (\<lambda>expected.
       Inr \<lparr>ob_expected = expected, ob_case_id = pc_id c, ob_provider_mode = mode\<rparr>)))"

definition as_configuration_error :: "arc_error + 'a \<Rightarrow> arc_error + 'a" where
  "as_configuration_error m = (case m of Inr x \<Rightarrow> Inr x
     | Inl e \<Rightarrow> if is_payment_link_error e then configuration_error (error_text e) else Inl e)"

definition resolved_provider_mode :: "ProviderMode option \<Rightarrow> string option \<Rightarrow> arc_error + ProviderMode" where
  "resolved_provider_mode explicit key_id = (case explicit of Some m \<Rightarrow> Inr m
     | None \<Rightarrow> as_configuration_error (derive_razorpay_provider_mode key_id))"

text \<open>
  The whole call. \<open>gateway\<close> is the gateway given, or built from the settings; \<open>others\<close> is what other
  transactions commit while the provider is read.
\<close>

definition observe_recovery_action ::
  "(string \<Rightarrow> string) \<Rightarrow> arc_error + ProviderMode \<Rightarrow> arc_error + 'w payment_link_gateway \<Rightarrow> uuid \<Rightarrow>
     OutcomeObservationSource \<Rightarrow> py_datetime \<Rightarrow> py_datetime \<Rightarrow> uuid \<times> uuid \<Rightarrow> recovery_attribution list \<Rightarrow>
     (arc_db \<Rightarrow> arc_db) \<Rightarrow> 'w \<Rightarrow> arc_db \<Rightarrow> (arc_error + outcome_result) \<times> arc_db \<times> 'w" where
  "observe_recovery_action sha provider_mode gateway recovery_action_id source observed_at created_at new_ids raced
     others w db =
    (case sbind (prepare_observation provider_mode recovery_action_id db) (\<lambda>claim.
            sbind (as_configuration_error gateway) (\<lambda>gw. Inr (claim, gw))) of
       Inl e \<Rightarrow> (Inl e, db, w)
     | Inr (claim, gw) \<Rightarrow>
       (case gw_fetch gw (ee_payment_link_id (ob_expected claim)) w of
          (Inl e, w1) \<Rightarrow> (Inl (if is_payment_link_error e then RecoveryObservationProviderError (error_text e) else e), db, w1)
        | (Inr s, w1) \<Rightarrow>
            (let (res, db1) = persist_observation sha claim s source observed_at created_at new_ids raced (others db)
             in (res, db1, w1))))"

section \<open>Facts\<close>

fun outcome_target :: "RecoveryOutcomeStatus \<Rightarrow> CaseState" where
  "outcome_target RecoveryOutcomeStatus.PENDING = CaseState.WAITING_FOR_OUTCOME"
| "outcome_target RecoveryOutcomeStatus.RECOVERED = CaseState.RECOVERED"
| "outcome_target RecoveryOutcomeStatus.EXPIRED = CaseState.EXHAUSTED"
| "outcome_target RecoveryOutcomeStatus.CANCELLED = CaseState.EXHAUSTED"
| "outcome_target RecoveryOutcomeStatus.REVIEW_REQUIRED = CaseState.ESCALATED"

text \<open>What an outcome makes of a case: a waiting one is resolved, any other stays.\<close>

definition settled_case :: "payment_case \<Rightarrow> RecoveryOutcomeStatus \<Rightarrow> py_datetime \<Rightarrow> payment_case" where
  "settled_case c status t =
    (if pc_current_state c = CaseState.WAITING_FOR_OUTCOME \<and> status \<noteq> RecoveryOutcomeStatus.PENDING
     then c\<lparr>pc_current_state := outcome_target status, pc_resolved_at := Some t\<rparr> else c)"

lemma settled_case_id [simp]: "pc_id (settled_case c k t) = pc_id c"
  by (simp add: settled_case_def)

lemma only_events_outcome [simp]: "only_events_added db (append_outcome_audit ob e r a db)"
  by (simp add: append_outcome_audit_def Let_def)

lemma resolve_waiting_settled:
  assumes "status \<noteq> RecoveryOutcomeStatus.PENDING" "only_events_added db d"
  shows "\<exists>db'. resolve_waiting c (outcome_target status) reason m t d = Inr (settled_case c status t, db') \<and>
    only_events_added db db'"
proof (cases "pc_current_state c = CaseState.WAITING_FOR_OUTCOME")
  case True
  with assms(1) have "can_transition (pc_current_state c) (outcome_target status)"
    by (cases status) (simp_all add: can_transition_def TERMINAL_CASE_STATES_def)
  from move_case_ok [OF this] obtain db' where
    "move_case c (outcome_target status) reason OUTCOME_AUDIT_SOURCE m d =
       Inr (c\<lparr>pc_current_state := outcome_target status\<rparr>, db')" "only_events_added d db'" by blast
  with True assms show ?thesis
    by (auto simp: resolve_waiting_def settled_case_def intro: only_events_added_trans)
qed (use assms in \<open>simp add: resolve_waiting_def settled_case_def\<close>)

lemma apply_outcome_total:
  assumes "oc_outcome_status k = RecoveryOutcomeStatus.RECOVERED \<Longrightarrow> attribution \<noteq> None"
  shows "\<exists>db'. apply_outcome_transition c ob k attribution t db = Inr (settled_case c (oc_outcome_status k) t, db') \<and>
    only_events_added db db'"
proof -
  define db2 where "db2 = append_outcome_audit ob (''RECOVERY_OUTCOME_'' @ outcome_status_value (oc_outcome_status k))
    (oc_reason_code k) attribution
    (append_outcome_audit ob ''RECOVERY_OUTCOME_OBSERVED'' (oc_reason_code k) attribution db)"
  have e: "only_events_added db db2" "only_events_added db (append_outcome_audit ob x y z db2)" for x y z
    unfolding db2_def by (meson only_events_added_trans only_events_outcome)+
  show ?thesis
  proof (cases "oc_outcome_status k")
    case PENDING
    with e(1) show ?thesis
      by (simp add: apply_outcome_transition_def Let_def settled_case_def db2_def)
  next
    case RECOVERED
    then obtain a where "attribution = Some a" using assms by auto
    with RECOVERED resolve_waiting_settled [of "oc_outcome_status k" db, OF _ e(2)] show ?thesis
      by (simp add: apply_outcome_transition_def Let_def db2_def)
  next
    case EXPIRED
    with resolve_waiting_settled [of "oc_outcome_status k" db, OF _ e(1)] show ?thesis
      by (simp add: apply_outcome_transition_def Let_def db2_def)
  next
    case CANCELLED
    with resolve_waiting_settled [of "oc_outcome_status k" db, OF _ e(1)] show ?thesis
      by (simp add: apply_outcome_transition_def Let_def db2_def)
  next
    case REVIEW_REQUIRED
    with resolve_waiting_settled [of "oc_outcome_status k" db, OF _ e(2)] show ?thesis
      by (simp add: apply_outcome_transition_def Let_def db2_def)
  qed
qed

lemma recovered_classification:
  "oc_outcome_status (classify_payment_link_outcome e s) = RecoveryOutcomeStatus.RECOVERED \<longleftrightarrow>
     ps_id s = ee_payment_link_id e \<and> ps_reference_id s = ee_reference_id e \<and> ps_amount s = ee_amount_minor e \<and>
     ps_currency s = py_upper (py_strip (ee_currency e)) \<and> ps_status s = ''paid'' \<and>
     ps_amount_paid s = ee_amount_minor e \<and>
     (\<exists>p. ps_payments s = [p] \<and> cp_status p = ''captured'' \<and> cp_amount p = ee_amount_minor e \<and>
        (cp_payment_link_id p = None \<or> cp_payment_link_id p = Some (ee_payment_link_id e)))"
  by (cases "ps_payments s"; cases "tl (ps_payments s)")
    (auto simp: classify_payment_link_outcome_def review_def outcome_of_def split: if_splits)

lemma recovered_payment:
  "oc_outcome_status (classify_payment_link_outcome e s) = RecoveryOutcomeStatus.RECOVERED \<Longrightarrow>
     \<exists>p. ps_payments s = [p] \<and> oc_provider_payment_id (classify_payment_link_outcome e s) = Some (cp_payment_id p)"
  by (cases "ps_payments s"; cases "tl (ps_payments s)")
    (auto simp: classify_payment_link_outcome_def review_def outcome_of_def split: if_splits)

lemma demote_sel [simp]: "oc_outcome_status (demote k r) = RecoveryOutcomeStatus.REVIEW_REQUIRED"
  by (simp add: demote_def)

lemma protect_RECOVERED:
  assumes "oc_outcome_status (protect_existing c action k existing db) = RecoveryOutcomeStatus.RECOVERED"
  shows "protect_existing c action k existing db = k" "oc_outcome_status k = RecoveryOutcomeStatus.RECOVERED"
    "existing = None \<Longrightarrow> pc_current_state c \<noteq> CaseState.RECOVERED"
  using assms by (auto simp: protect_existing_def split: if_splits option.splits)

lemma protect_status:
  "oc_outcome_status (protect_existing c action k existing db) \<noteq> RecoveryOutcomeStatus.REVIEW_REQUIRED \<Longrightarrow>
     protect_existing c action k existing db = k"
  by (auto simp: protect_existing_def split: if_splits option.splits)

lemma lock_action_and_case_Inr:
  "lock_action_and_case k db = Inr (action, c) \<longleftrightarrow>
     find_action k db = Some action \<and> find_case (ra_case_id action) db = Some c \<and> pc_id c = ra_case_id action"
  by (auto simp: lock_action_and_case_def split: option.splits if_splits)

lemma validate_observable_InrD:
  assumes "validate_observable action c = Inr e"
  shows "ra_execution_status action = RecoveryExecutionStatus.SUCCEEDED" "ra_action action = RecoveryAction.CREATE_RECOVERY_LINK"
    "pc_current_state c \<in> observable_states" "ee_recovery_action_id e = ra_id action" "pc_amount c = Some (ee_amount_minor e)"
    "ra_external_reference_id action = Some (ee_payment_link_id e)" "ra_external_reference action = Some (ee_reference_id e)"
    "0 < ee_amount_minor e"
  using assms by (auto simp: validate_observable_def configuration_error_def Let_def split: if_splits option.splits)

text \<open>The row that attribution works on and what it leaves, in one description of the branches.\<close>

lemma attribute_cases:
  assumes "attribute claim ob current s k existing new_id db = (ob', k', attribution, db')"
  obtains (kept) "ob' = ob" "k' = k" "attribution = existing" "db' = db"
      "oc_outcome_status k \<noteq> RecoveryOutcomeStatus.RECOVERED \<or> existing \<noteq> None"
  | (attributed) a where "oc_outcome_status k = RecoveryOutcomeStatus.RECOVERED" "existing = None"
      "a = build_attribution claim ob current s k new_id" "\<not> attribution_conflict a db"
      "ob' = ob" "k' = k" "attribution = Some a" "db' = add_attribution a db"
  | (conflict) "oc_outcome_status k = RecoveryOutcomeStatus.RECOVERED" "existing = None"
      "k' = demote k ''RECOVERY_ATTRIBUTION_UNIQUENESS_CONFLICT''"
      "ob' = ob\<lparr>ro_outcome_status := RecoveryOutcomeStatus.REVIEW_REQUIRED\<rparr>" "attribution = None"
      "db' = save_observation ob' db"
proof (cases "oc_outcome_status k = RecoveryOutcomeStatus.RECOVERED \<and> existing = None")
  case False
  with assms show thesis by (intro kept) (auto simp: attribute_def)
next
  case rec: True
  show thesis
  proof (cases "attribution_conflict (build_attribution claim ob current s k new_id) db")
    case True
    with rec assms show thesis by (intro conflict) (auto simp: attribute_def Let_def demote_def)
  next
    case False
    with rec assms show thesis by (intro attributed [OF _ _ refl]) (auto simp: attribute_def Let_def)
  qed
qed

lemma transaction_Inr_iff: "transaction db m = (Inr r, db') \<longleftrightarrow> m = Inr (r, db')"
  by (auto simp: transaction_def split: sum.splits prod.splits)

lemma persist_observation_InrE:
  assumes "persist_observation sha claim s source t created ids raced db = (Inr r, db')" "\<not> or_idempotent r"
  obtains action c where "find_action (ee_recovery_action_id (ob_expected claim)) db = Some action"
    "find_case (ob_case_id claim) db = Some c" "pc_id c = ob_case_id claim" "ra_case_id action = pc_id c"
    "validate_observable action c = Inr (ob_expected claim)" "dt_aware t"
    "find (\<lambda>ob. ro_recovery_action_id ob = ra_id action \<and>
       ro_evidence_fingerprint ob = build_outcome_evidence_fingerprint sha (ra_id action) s) (db_observations db) = None"
    "record_observation claim c action (ob_expected claim) s
       (build_outcome_evidence_fingerprint sha (ra_id action) s) source t created ids raced db = Inr (r, db')"
proof -
  define fp where "fp = build_outcome_evidence_fingerprint sha (ee_recovery_action_id (ob_expected claim)) s"
  define rest where "rest action c current =
    (if current \<noteq> ob_expected claim \<or> pc_id c \<noteq> ob_case_id claim then
       configuration_error ''Recovery action context changed during provider read''
     else case find (\<lambda>ob. ro_recovery_action_id ob = ra_id action \<and> ro_evidence_fingerprint ob = fp) (db_observations db) of
       Some existing \<Rightarrow> Inr (outcome_view existing (attribution_for_action (ra_id action) db) c
         ''RECOVERY_OUTCOME_ALREADY_OBSERVED'' True, db)
     | None \<Rightarrow> record_observation claim c action current s fp source t created ids raced db)" for action c current
  have t: "dt_aware t" and
    "sbind (lock_action_and_case (ee_recovery_action_id (ob_expected claim)) db) (\<lambda>(action, c).
       sbind (validate_observable action c) (rest action c)) = Inr (r, db')"
    using assms(1) unfolding persist_observation_def transaction_Inr_iff rest_def fp_def Let_def
    by (cases "dt_aware t"; simp add: configuration_error_def)+
  then obtain action c current where
    l: "lock_action_and_case (ee_recovery_action_id (ob_expected claim)) db = Inr (action, c)"
    and v: "validate_observable action c = Inr current" and "rest action c current = Inr (r, db')"
    unfolding sbind_eq_Inr_iff by auto
  note body = this(3) [unfolded rest_def]
  have same: "current = ob_expected claim" "pc_id c = ob_case_id claim"
    using body by (auto simp: configuration_error_def split: if_splits)
  note lk = l [unfolded lock_action_and_case_Inr]
  have id: "ee_recovery_action_id (ob_expected claim) = ra_id action"
    using validate_observable_InrD(4) [OF v] same(1) by simp
  have none: "find (\<lambda>ob. ro_recovery_action_id ob = ra_id action \<and> ro_evidence_fingerprint ob = fp) (db_observations db) = None"
    using body same assms(2) by (auto simp: outcome_view_def split: option.splits)
  with body same have "record_observation claim c action current s fp source t created ids raced db = Inr (r, db')" by simp
  with lk v t none same id show thesis by (intro that [of action c]) (simp_all add: fp_def)
qed

lemma record_observation_InrE:
  assumes "record_observation claim c action e s fp source t created ids raced db = Inr (r, db')"
  defines "k \<equiv> protect_existing c action (classify_payment_link_outcome e s) (attribution_for_action (ra_id action) db) db"
  defines "ob \<equiv> build_observation claim c action e s k fp source t created (fst ids)"
  defines "db1 \<equiv> save_action (action\<lparr>ra_external_status := Some (ps_status s)\<rparr>) (add_observation ob db)"
  defines "db2 \<equiv> db1\<lparr>db_attributions := db_attributions db1 @ raced\<rparr>"
  obtains ob' k' attribution db3 db4 where
    "attribute claim ob e s k (attribution_for_action (ra_id action) db) (snd ids) db2 = (ob', k', attribution, db3)"
    "oc_outcome_status k' = RecoveryOutcomeStatus.RECOVERED \<Longrightarrow> attribution \<noteq> None"
    "ro_outcome_status ob' = oc_outcome_status k'"
    "only_events_added db3 db4" "db' = save_case (settled_case c (oc_outcome_status k') t) db4"
    "r = outcome_view ob' attribution (settled_case c (oc_outcome_status k') t) (oc_reason_code k') False"
proof -
  obtain ob' k' attribution db3 where
    a: "attribute claim ob e s k (attribution_for_action (ra_id action) db) (snd ids) db2 = (ob', k', attribution, db3)"
    by (metis prod_cases4)
  have some: "attribution \<noteq> None" if "oc_outcome_status k' = RecoveryOutcomeStatus.RECOVERED"
    using a that by (cases rule: attribute_cases) auto
  have st: "ro_outcome_status ob' = oc_outcome_status k'"
    using a by (cases rule: attribute_cases) (simp_all add: ob_def build_observation_def)
  from apply_outcome_total [of k' attribution, OF some, of c ob' t db3] obtain db4 where
    ap: "apply_outcome_transition c ob' k' attribution t db3 = Inr (settled_case c (oc_outcome_status k') t, db4)"
    "only_events_added db3 db4" by blast
  have "sbind (apply_outcome_transition c ob' k' attribution t db3) (\<lambda>(c', db4).
          Inr (outcome_view ob' attribution c' (oc_reason_code k') False, save_case c' db4)) = Inr (r, db')"
    using assms(1) a
    unfolding record_observation_def Let_def k_def [symmetric] ob_def [symmetric] db1_def [symmetric] db2_def [symmetric]
    by (simp add: ob_def k_def db1_def db2_def)
  with ap(1) have "r = outcome_view ob' attribution (settled_case c (oc_outcome_status k') t) (oc_reason_code k') False"
    "db' = save_case (settled_case c (oc_outcome_status k') t) db4" by auto
  with a some st ap(2) show thesis by (intro that)
qed

text \<open>Everything a first observation changes, in one elimination rule.\<close>

lemma find_case_rows: "db_cases d = db_cases d' \<Longrightarrow> find_case k d = find_case k d'"
  by (simp add: find_case_def)

lemma find_action_rows: "db_actions d = db_actions d' \<Longrightarrow> find_action k d = find_action k d'"
  by (simp add: find_action_def)

lemma find_append_new: "find P xs = None \<Longrightarrow> P y \<Longrightarrow> find P (xs @ [y]) = Some y"
  by (induction xs) (auto split: if_splits)

lemma find_saved_new:
  "find P xs = None \<Longrightarrow> P y' \<Longrightarrow> key y' = key y \<Longrightarrow> find P (row_save key y' (xs @ [y])) = Some y'"
  by (induction xs) (auto simp: row_save_def split: if_splits)

lemma recorded_outcome:
  assumes run: "persist_observation sha claim s source t created ids raced db = (Inr r, db')" "\<not> or_idempotent r"
  obtains action c ob new where
    "find_action (ee_recovery_action_id (ob_expected claim)) db = Some action"
    "find_case (ob_case_id claim) db = Some c" "validate_observable action c = Inr (ob_expected claim)" "dt_aware t"
    "pc_id c = ob_case_id claim" "ra_case_id action = ob_case_id claim"
    "find_case (ob_case_id claim) db' = Some (settled_case c (or_outcome_status r) t)"
    "or_case_state r = pc_current_state (settled_case c (or_outcome_status r) t)"
    "find_action (ee_recovery_action_id (ob_expected claim)) db' = Some (action\<lparr>ra_external_status := Some (ps_status s)\<rparr>)"
    "find (\<lambda>ob. ro_recovery_action_id ob = ra_id action \<and>
       ro_evidence_fingerprint ob = build_outcome_evidence_fingerprint sha (ra_id action) s) (db_observations db') = Some ob"
    "ro_outcome_status ob = or_outcome_status r" "ro_id ob = or_observation_id r"
    "db_attributions db' = db_attributions db @ raced @ new"
    "or_outcome_status r = RecoveryOutcomeStatus.RECOVERED \<Longrightarrow>
       oc_outcome_status (classify_payment_link_outcome (ob_expected claim) s) = RecoveryOutcomeStatus.RECOVERED \<and>
       or_attribution_id r \<noteq> None"
    "new = [] \<or> (\<exists>a. new = [a] \<and> or_outcome_status r = RecoveryOutcomeStatus.RECOVERED \<and> or_attribution_id r = Some (at_id a) \<and>
       at_case_id a = ob_case_id claim \<and> at_recovery_action_id a = ra_id action \<and>
       at_outcome_observation_id a = or_observation_id r \<and>
       at_recovered_amount_minor a = ee_amount_minor (ob_expected claim) \<and>
       [at_provider_payment_id a] = map cp_payment_id (ps_payments s) \<and>
       \<not> attribution_conflict a (db\<lparr>db_attributions := db_attributions db @ raced\<rparr>))"
proof -
  let ?fp = "build_outcome_evidence_fingerprint sha (ee_recovery_action_id (ob_expected claim)) s"
  from persist_observation_InrE [OF run] obtain action c where
    a: "find_action (ee_recovery_action_id (ob_expected claim)) db = Some action"
    and c: "find_case (ob_case_id claim) db = Some c" "pc_id c = ob_case_id claim" "ra_case_id action = pc_id c"
    and v: "validate_observable action c = Inr (ob_expected claim)" and t: "dt_aware t"
    and none: "find (\<lambda>ob. ro_recovery_action_id ob = ra_id action \<and>
       ro_evidence_fingerprint ob = build_outcome_evidence_fingerprint sha (ra_id action) s) (db_observations db) = None"
    and rec: "record_observation claim c action (ob_expected claim) s
       (build_outcome_evidence_fingerprint sha (ra_id action) s) source t created ids raced db = Inr (r, db')"
    by blast
  define k where "k = protect_existing c action (classify_payment_link_outcome (ob_expected claim) s)
    (attribution_for_action (ra_id action) db) db"
  define ob where "ob = build_observation claim c action (ob_expected claim) s k
    (build_outcome_evidence_fingerprint sha (ra_id action) s) source t created (fst ids)"
  define action' where "action' = action\<lparr>ra_external_status := Some (ps_status s)\<rparr>"
  define db1 where "db1 = save_action action' (add_observation ob db)"
  define db2 where "db2 = db1\<lparr>db_attributions := db_attributions db1 @ raced\<rparr>"
  from record_observation_InrE [OF rec, folded k_def, folded ob_def action'_def, folded db1_def, folded db2_def]
  obtain ob' k' attribution db3 db4 where
    at: "attribute claim ob (ob_expected claim) s k (attribution_for_action (ra_id action) db) (snd ids) db2 =
      (ob', k', attribution, db3)"
    and some: "oc_outcome_status k' = RecoveryOutcomeStatus.RECOVERED \<Longrightarrow> attribution \<noteq> None"
    and st: "ro_outcome_status ob' = oc_outcome_status k'" and ev: "only_events_added db3 db4"
    and db': "db' = save_case (settled_case c (oc_outcome_status k') t) db4"
    and r: "r = outcome_view ob' attribution (settled_case c (oc_outcome_status k') t) (oc_reason_code k') False"
    by metis
  note ev = only_events_addedD [OF ev]
  have rows2: "db_cases db2 = db_cases db" "db_observations db2 = db_observations db @ [ob]"
    "db_attributions db2 = db_attributions db @ raced"
    by (simp_all add: db2_def db1_def add_observation_def save_action_def row_add_def)
  have id: "ra_id action = ee_recovery_action_id (ob_expected claim)"
    using actions_table.lookup_key [OF a] by simp
  have act2: "find_action (ra_id action) db2 = Some action'"
    using action_saved [of "ra_id action" "add_observation ob db" action action'] a id
    by (simp add: db2_def db1_def action'_def find_action_def)
  have ob_sel: "ro_recovery_action_id ob = ra_id action" "ro_case_id ob = ob_case_id claim"
    "ro_evidence_fingerprint ob = build_outcome_evidence_fingerprint sha (ra_id action) s"
    using c by (simp_all add: ob_def build_observation_def)
  let ?P = "\<lambda>ob. ro_recovery_action_id ob = ra_id action \<and>
       ro_evidence_fingerprint ob = build_outcome_evidence_fingerprint sha (ra_id action) s"
  have P: "?P ob" using ob_sel by simp
  have kR: "protect_existing c action (classify_payment_link_outcome (ob_expected claim) s)
      (attribution_for_action (ra_id action) db) db = classify_payment_link_outcome (ob_expected claim) s"
    "oc_outcome_status (classify_payment_link_outcome (ob_expected claim) s) = RecoveryOutcomeStatus.RECOVERED"
    if "oc_outcome_status k = RecoveryOutcomeStatus.RECOVERED"
    using protect_RECOVERED [OF that [unfolded k_def]] by simp_all
  have "\<exists>new. db_attributions db3 = db_attributions db @ raced @ new \<and> db_cases db3 = db_cases db \<and>
      db_actions db3 = db_actions db2 \<and> find ?P (db_observations db3) = Some ob' \<and>
      (oc_outcome_status k' = RecoveryOutcomeStatus.RECOVERED \<longrightarrow> oc_outcome_status k = RecoveryOutcomeStatus.RECOVERED) \<and>
      (new = [] \<or> (\<exists>a. new = [a] \<and> oc_outcome_status k' = RecoveryOutcomeStatus.RECOVERED \<and> attribution = Some a \<and>
         ob' = ob \<and> k' = k \<and> a = build_attribution claim ob (ob_expected claim) s k (snd ids) \<and>
         \<not> attribution_conflict a db2))"
    using at
  proof (cases rule: attribute_cases)
    case kept
    with rows2 find_append_new [of ?P, OF none P] show ?thesis by simp
  next
    case (attributed a)
    with rows2 find_append_new [of ?P, OF none P] show ?thesis
      by (simp add: add_attribution_def row_add_def)
  next
    case conflict
    then have "?P ob'" "ro_id ob' = ro_id ob" using P by simp_all
    with conflict rows2 find_saved_new [of ?P, OF none this] show ?thesis
      by (simp add: save_observation_def)
  qed
  then obtain new where new: "db_attributions db3 = db_attributions db @ raced @ new" "db_cases db3 = db_cases db"
      "db_actions db3 = db_actions db2" "find ?P (db_observations db3) = Some ob'"
      "oc_outcome_status k' = RecoveryOutcomeStatus.RECOVERED \<Longrightarrow> oc_outcome_status k = RecoveryOutcomeStatus.RECOVERED"
      "new = [] \<or> (\<exists>a. new = [a] \<and> oc_outcome_status k' = RecoveryOutcomeStatus.RECOVERED \<and> attribution = Some a \<and>
         ob' = ob \<and> k' = k \<and> a = build_attribution claim ob (ob_expected claim) s k (snd ids) \<and>
         \<not> attribution_conflict a db2)" by blast
  have rs: "or_outcome_status r = oc_outcome_status k'" "or_observation_id r = ro_id ob'"
      "or_attribution_id r = map_option at_id attribution"
      "or_case_state r = pc_current_state (settled_case c (oc_outcome_status k') t)"
    using st by (simp_all add: r outcome_view_def)
  have case': "find_case (ob_case_id claim) db' = Some (settled_case c (oc_outcome_status k') t)"
    unfolding db' by (rule cases_table.lookup_saved [of _ _ c])
      (use c new(2) ev(1) in \<open>simp_all add: find_case_def\<close>)
  have act': "find_action (ra_id action) db' = Some action'"
    using act2 new(3) ev(6) by (simp add: db' find_action_def)
  have new': "new = [] \<or> (\<exists>a. new = [a] \<and> oc_outcome_status k' = RecoveryOutcomeStatus.RECOVERED \<and> map_option at_id attribution = Some (at_id a) \<and>
       at_case_id a = ob_case_id claim \<and> at_recovery_action_id a = ra_id action \<and>
       at_outcome_observation_id a = ro_id ob' \<and>
       at_recovered_amount_minor a = ee_amount_minor (ob_expected claim) \<and>
       [at_provider_payment_id a] = map cp_payment_id (ps_payments s) \<and>
       \<not> attribution_conflict a (db\<lparr>db_attributions := db_attributions db @ raced\<rparr>))"
    using new(6)
  proof (elim disjE exE conjE)
    fix a assume a: "new = [a]" "oc_outcome_status k' = RecoveryOutcomeStatus.RECOVERED" "attribution = Some a"
         "ob' = ob" "k' = k" "a = build_attribution claim ob (ob_expected claim) s k (snd ids)"
         "\<not> attribution_conflict a db2"
    then have "oc_outcome_status k = RecoveryOutcomeStatus.RECOVERED" by simp
    from kR [OF this] recovered_payment have "\<exists>p. ps_payments s = [p] \<and> oc_provider_payment_id k = Some (cp_payment_id p)"
      unfolding k_def by metis
    then have "[at_provider_payment_id a] = map cp_payment_id (ps_payments s)" using a(6) by (auto simp: build_attribution_def)
    moreover have "\<not> attribution_conflict a (db\<lparr>db_attributions := db_attributions db @ raced\<rparr>)"
      using a(7) rows2 by (simp add: attribution_conflict_def)
    ultimately show ?thesis using a ob_sel by (simp add: build_attribution_def)
  qed simp
  show thesis
  proof (rule that [of action c ob' new])
    show "or_outcome_status r = RecoveryOutcomeStatus.RECOVERED \<Longrightarrow>
       oc_outcome_status (classify_payment_link_outcome (ob_expected claim) s) = RecoveryOutcomeStatus.RECOVERED \<and>
       or_attribution_id r \<noteq> None"
      using some new(5) kR(2) by (simp add: rs)
  qed (use a c v t case' act' new new' rs st ev id in \<open>simp_all add: db' action'_def\<close>)
qed

lemma persist_idempotent_unchanged:
  assumes "or_idempotent r" "persist_observation sha claim s source t created ids raced db = (Inr r, db')"
  shows "db' = db"
proof -
  have "or_idempotent r = False" if "record_observation claim c action e s fp source t created ids raced db = Inr (r, db')" for c action e fp
    using that by (auto elim!: record_observation_InrE simp: outcome_view_def)
  with assms show ?thesis
    unfolding persist_observation_def transaction_Inr_iff
    by (auto simp: configuration_error_def Let_def sbind_eq_Inr_iff split: if_splits option.splits)
qed

section \<open>Properties\<close>

text \<open>
  A link of the provider that was paid, and the claim to observe the executed action of the
  examples.
\<close>

definition sample_claim :: observation_claim where
  "sample_claim = \<lparr>ob_expected = \<lparr>ee_recovery_action_id = 40, ee_payment_link_id = ''plink_1'', ee_reference_id = ''arc_28'',
     ee_amount_minor = 5000, ee_currency = ''INR''\<rparr>, ob_case_id = 7, ob_provider_mode = ProviderMode.TEST\<rparr>"

definition paid_link :: payment_link_snapshot where
  "paid_link = \<lparr>ps_id = ''plink_1'', ps_reference_id = ''arc_28'', ps_amount = 5000, ps_amount_paid = 5000,
     ps_currency = ''INR'', ps_status = ''paid'', ps_short_url = ''https://r/1'', ps_expire_by = None, ps_expired_at = None,
     ps_cancelled_at = None, ps_updated_at = None, ps_payments = [\<lparr>cp_payment_id = ''pay_9'', cp_amount = 5000,
       cp_status = ''captured'', cp_method = None, cp_created_at = None, cp_payment_link_id = None\<rparr>]\<rparr>"

text \<open>
  C10. What the evidence proves. A recovery is concluded from exactly one captured payment of
  exactly the expected amount on a paid link whose identity, reference, amount and currency are
  the expected ones; and a link is called pending, expired or cancelled exactly if it says so, is
  the expected one, and no money or payment is on it. Everything else is left to a human, so money
  that arrived is never reported as an outcome without money.
\<close>

theorem classification_exact:
  fixes e s
  defines "expected_link \<equiv> ps_id s = ee_payment_link_id e \<and> ps_reference_id s = ee_reference_id e \<and>
    ps_amount s = ee_amount_minor e \<and> ps_currency s = py_upper (py_strip (ee_currency e)) \<and>
    list_all (\<lambda>p. cp_payment_link_id p \<in> {None, Some (ee_payment_link_id e)}) (ps_payments s)"
    and "status \<equiv> oc_outcome_status (classify_payment_link_outcome e s)"
  shows "(status = RecoveryOutcomeStatus.RECOVERED \<longleftrightarrow> expected_link \<and> ps_status s = ''paid'' \<and>
      ps_amount_paid s = ee_amount_minor e \<and>
      (\<exists>p. ps_payments s = [p] \<and> cp_status p = ''captured'' \<and> cp_amount p = ee_amount_minor e)) \<and>
    (status = RecoveryOutcomeStatus.PENDING \<longleftrightarrow> expected_link \<and> ps_status s \<in> {''created'', ''issued''} \<and>
      ps_amount_paid s = 0 \<and> ps_payments s = []) \<and>
    (status = RecoveryOutcomeStatus.EXPIRED \<longleftrightarrow> expected_link \<and> ps_status s = ''expired'' \<and>
      ps_amount_paid s = 0 \<and> ps_payments s = []) \<and>
    (status = RecoveryOutcomeStatus.CANCELLED \<longleftrightarrow> expected_link \<and> ps_status s = ''cancelled'' \<and>
      ps_amount_paid s = 0 \<and> ps_payments s = [])"
proof -
  have e: "expected_link \<longleftrightarrow> \<not> (ps_id s \<noteq> ee_payment_link_id e \<or> ps_reference_id s \<noteq> ee_reference_id e \<or>
        ps_amount s \<noteq> ee_amount_minor e \<or> ps_currency s \<noteq> py_upper (py_strip (ee_currency e))) \<and>
      \<not> list_ex (\<lambda>p. cp_payment_link_id p \<noteq> None \<and> cp_payment_link_id p \<noteq> Some (ee_payment_link_id e)) (ps_payments s)"
    by (auto simp: expected_link_def list_ex_iff list_all_iff)
  show ?thesis
    unfolding e status_def classify_payment_link_outcome_def review_def outcome_of_def
    by (intro conjI; auto split: list.split)
qed

text \<open>
  C11. What a first observation does. A waiting case is resolved to the state of the outcome and
  any other case is left as it is; a recovery is reported only on the evidence of the
  classification and with an attribution; and the attributions that were there are kept, followed
  by at most one for this case, action and observation, with the captured payment and exactly the
  expected amount.
\<close>

theorem observation_effect:
  assumes run: "persist_observation sha claim s source t created ids raced db = (Inr r, db')" "\<not> or_idempotent r"
  shows "(\<exists>c. find_case (ob_case_id claim) db = Some c \<and> pc_amount c = Some (ee_amount_minor (ob_expected claim)) \<and>
    find_case (ob_case_id claim) db' = Some (settled_case c (or_outcome_status r) t) \<and>
    or_case_state r = pc_current_state (settled_case c (or_outcome_status r) t)) \<and>
   (or_outcome_status r = RecoveryOutcomeStatus.RECOVERED \<longrightarrow> or_attribution_id r \<noteq> None \<and>
    oc_outcome_status (classify_payment_link_outcome (ob_expected claim) s) = RecoveryOutcomeStatus.RECOVERED) \<and>
   (\<exists>new. db_attributions db' = db_attributions db @ raced @ new \<and>
      (new = [] \<or> (\<exists>a. new = [a] \<and> or_outcome_status r = RecoveryOutcomeStatus.RECOVERED \<and>
         or_attribution_id r = Some (at_id a) \<and> at_case_id a = ob_case_id claim \<and>
         at_recovery_action_id a = ee_recovery_action_id (ob_expected claim) \<and>
         at_outcome_observation_id a = or_observation_id r \<and>
         at_recovered_amount_minor a = ee_amount_minor (ob_expected claim) \<and>
         [at_provider_payment_id a] = map cp_payment_id (ps_payments s))))"
proof (intro conjI impI)
  obtain action c new where f: "find_case (ob_case_id claim) db = Some c"
    "find_action (ee_recovery_action_id (ob_expected claim)) db = Some action"
    "validate_observable action c = Inr (ob_expected claim)"
    "find_case (ob_case_id claim) db' = Some (settled_case c (or_outcome_status r) t)"
    "or_case_state r = pc_current_state (settled_case c (or_outcome_status r) t)"
    "db_attributions db' = db_attributions db @ raced @ new"
    "or_outcome_status r = RecoveryOutcomeStatus.RECOVERED \<Longrightarrow>
       oc_outcome_status (classify_payment_link_outcome (ob_expected claim) s) = RecoveryOutcomeStatus.RECOVERED \<and>
       or_attribution_id r \<noteq> None"
    "new = [] \<or> (\<exists>a. new = [a] \<and> or_outcome_status r = RecoveryOutcomeStatus.RECOVERED \<and> or_attribution_id r = Some (at_id a) \<and>
       at_case_id a = ob_case_id claim \<and> at_recovery_action_id a = ra_id action \<and>
       at_outcome_observation_id a = or_observation_id r \<and>
       at_recovered_amount_minor a = ee_amount_minor (ob_expected claim) \<and>
       [at_provider_payment_id a] = map cp_payment_id (ps_payments s) \<and>
       \<not> attribution_conflict a (db\<lparr>db_attributions := db_attributions db @ raced\<rparr>))"
    by (rule recorded_outcome [OF run]; rule that; (assumption | blast))
  have id: "ra_id action = ee_recovery_action_id (ob_expected claim)"
    using actions_table.lookup_key [OF f(2)] .
  show "\<exists>c. find_case (ob_case_id claim) db = Some c \<and> pc_amount c = Some (ee_amount_minor (ob_expected claim)) \<and>
    find_case (ob_case_id claim) db' = Some (settled_case c (or_outcome_status r) t) \<and>
    or_case_state r = pc_current_state (settled_case c (or_outcome_status r) t)"
    using f(1,4,5) validate_observable_InrD(5) [OF f(3)] by blast
  show "or_attribution_id r \<noteq> None"
    "oc_outcome_status (classify_payment_link_outcome (ob_expected claim) s) = RecoveryOutcomeStatus.RECOVERED"
    if "or_outcome_status r = RecoveryOutcomeStatus.RECOVERED" using f(7) [OF that] by simp_all
  show "\<exists>new. db_attributions db' = db_attributions db @ raced @ new \<and>
      (new = [] \<or> (\<exists>a. new = [a] \<and> or_outcome_status r = RecoveryOutcomeStatus.RECOVERED \<and>
         or_attribution_id r = Some (at_id a) \<and> at_case_id a = ob_case_id claim \<and>
         at_recovery_action_id a = ee_recovery_action_id (ob_expected claim) \<and>
         at_outcome_observation_id a = or_observation_id r \<and>
         at_recovered_amount_minor a = ee_amount_minor (ob_expected claim) \<and>
         [at_provider_payment_id a] = map cp_payment_id (ps_payments s)))"
    using f(8) by (intro exI [of _ new] conjI f(6)) (elim disjE exE conjE; simp add: id)
qed

theorem observation_effect_witness:
  "\<exists>r db'. persist_observation fixed_sha sample_claim paid_link OutcomeObservationSource.POLL claim_time claim_time
     (50, 60) [] executed_db = (Inr r, db') \<and> or_attribution_id r \<noteq> None \<and>
   (\<exists>c. find_case 7 db' = Some (settled_case c (or_outcome_status r) claim_time))"
proof -
  let ?run = "persist_observation fixed_sha sample_claim paid_link OutcomeObservationSource.POLL claim_time claim_time
     (50, 60) [] executed_db"
  have "case fst ?run of Inl _ \<Rightarrow> False
    | Inr r \<Rightarrow> \<not> or_idempotent r \<and> or_outcome_status r = RecoveryOutcomeStatus.RECOVERED" by code_simp
  then obtain r db' where run: "?run = (Inr r, db')" "\<not> or_idempotent r" "or_outcome_status r = RecoveryOutcomeStatus.RECOVERED"
    by (cases ?run) (auto split: sum.splits)
  have "ob_case_id sample_claim = 7" by (simp add: sample_claim_def)
  with observation_effect [OF run(1,2)] run show ?thesis by auto
qed

text \<open>
  Nothing is counted twice. If no two attributions share an action, an observation or a
  payment, counting the ones that other transactions committed meanwhile, the same holds after any
  observation, whatever its result.
\<close>

definition attributions_distinct :: "recovery_attribution list \<Rightarrow> bool" where
  "attributions_distinct l \<longleftrightarrow> distinct (map at_recovery_action_id l) \<and> distinct (map at_outcome_observation_id l) \<and>
     distinct (map at_provider_payment_id l)"

lemma attributions_stay_distinct:
  assumes "attributions_distinct (db_attributions db @ raced)"
    and "persist_observation sha claim s source t created ids raced db = (res, db')"
  shows "attributions_distinct (db_attributions db')"
proof (cases res)
  case (Inl e)
  with assms(2) have "db' = db" by (auto simp: persist_observation_def dest: transaction_Inl_unchanged)
  with assms(1) show ?thesis by (simp add: attributions_distinct_def)
next
  case (Inr r)
  with assms(2) have run: "persist_observation sha claim s source t created ids raced db = (Inr r, db')" by simp
  show ?thesis
  proof (cases "or_idempotent r")
    case True
    then have "db' = db" using run by (rule persist_idempotent_unchanged)
    with assms(1) show ?thesis by (simp add: attributions_distinct_def)
  next
    case False
    obtain new where "db_attributions db' = db_attributions db @ raced @ new" 
      "new = [] \<or> (\<exists>a. new = [a] \<and> \<not> attribution_conflict a (db\<lparr>db_attributions := db_attributions db @ raced\<rparr>))"
      proof (rule recorded_outcome [OF run False], goal_cases)
      case (1 action c ob new)
      from 1(16) have "new = [] \<or> (\<exists>a. new = [a] \<and> \<not> attribution_conflict a (db\<lparr>db_attributions := db_attributions db @ raced\<rparr>))"
        by (elim disjE exE conjE) simp_all
      from 1(1) [OF 1(14) this] show ?case .
    qed
    with assms(1) show ?thesis
      by (auto simp: attributions_distinct_def attribution_conflict_def list_ex_iff)
  qed
qed

text \<open>
  Observing the same evidence again. After an observation has been recorded, the same claim
  with the same evidence returns it, with its outcome, whatever time it is and whatever other ids
  it would use, and writes nothing.
\<close>

lemma observation_idempotent:
  assumes run: "persist_observation sha claim s source t created ids raced db = (Inr r, db')" "\<not> or_idempotent r"
    and t': "dt_aware t'"
  shows "\<exists>r'. persist_observation sha claim s source' t' created' ids' raced' db' = (Inr r', db') \<and> or_idempotent r' \<and>
    or_observation_id r' = or_observation_id r \<and> or_outcome_status r' = or_outcome_status r"
proof -
  obtain action c ob where
    a: "find_action (ee_recovery_action_id (ob_expected claim)) db = Some action"
    and c: "pc_id c = ob_case_id claim" "ra_case_id action = ob_case_id claim"
    and v: "validate_observable action c = Inr (ob_expected claim)"
    and c': "find_case (ob_case_id claim) db' = Some (settled_case c (or_outcome_status r) t)"
    and a': "find_action (ee_recovery_action_id (ob_expected claim)) db' = Some (action\<lparr>ra_external_status := Some (ps_status s)\<rparr>)"
    and ob: "find (\<lambda>ob. ro_recovery_action_id ob = ra_id action \<and>
       ro_evidence_fingerprint ob = build_outcome_evidence_fingerprint sha (ra_id action) s) (db_observations db') = Some ob"
       "ro_outcome_status ob = or_outcome_status r" "ro_id ob = or_observation_id r"
    by (rule recorded_outcome [OF run]; rule that; (assumption | blast))
  let ?a = "action\<lparr>ra_external_status := Some (ps_status s)\<rparr>" and ?c = "settled_case c (or_outcome_status r) t"
  have id: "ra_id action = ee_recovery_action_id (ob_expected claim)" using actions_table.lookup_key [OF a] .
  have lock: "lock_action_and_case (ee_recovery_action_id (ob_expected claim)) db' = Inr (?a, ?c)"
    using a' c c' by (simp add: lock_action_and_case_Inr)
  have "pc_current_state ?c \<in> observable_states"
    using validate_observable_InrD(3) [OF v]
    by (cases "or_outcome_status r") (auto simp: settled_case_def observable_states_def)
  moreover have "pc_amount ?c = pc_amount c" "pc_currency ?c = pc_currency c" by (simp_all add: settled_case_def)
  ultimately have "validate_observable ?a ?c = Inr (ob_expected claim)"
    using v by (auto simp: validate_observable_def configuration_error_def Let_def split: if_splits option.splits)
  with lock ob id t' c show ?thesis
    by (simp add: persist_observation_def Let_def outcome_view_def)
qed

end
