(* ===== verification/Arc_Razorpay_Client.thy ===== *)
theory Arc_Razorpay_Client
  imports Arc_Payment_Links
begin

text \<open>
  The read client for payments and subscriptions (\<open>arc/integrations/razorpay/client.py\<close>): the two
  snapshots with their strict validation, the classification of HTTP failures, and the two reads.
\<close>

section \<open>Snapshots\<close>

definition RECOGNIZED_PAYMENT_STATUSES :: "string set" where
  "RECOGNIZED_PAYMENT_STATUSES = {''created'', ''authorized'', ''captured'', ''refunded'', ''failed''}"

definition RECOGNIZED_SUBSCRIPTION_STATUSES :: "string set" where
  "RECOGNIZED_SUBSCRIPTION_STATUSES = {''created'', ''authenticated'', ''active'', ''pending'', ''halted'', ''paused'',
     ''cancelled'', ''completed'', ''expired''}"

record payment_snapshot =
  sn_id :: string
  sn_status :: string
  sn_amount :: int
  sn_currency :: string
  sn_customer_id :: "string option"
  sn_order_id :: "string option"
  sn_subscription_id :: "string option"
  sn_method :: "string option"
  sn_error_code :: "string option"
  sn_error_description :: "string option"
  sn_error_source :: "string option"
  sn_error_step :: "string option"
  sn_error_reason :: "string option"
  sn_created_at :: "int option"

record subscription_snapshot =
  ss_id :: string
  ss_status :: string
  ss_customer_id :: "string option"
  ss_current_start :: "int option"
  ss_current_end :: "int option"
  ss_charge_at :: "int option"
  ss_paid_count :: "int option"
  ss_remaining_count :: "int option"
  ss_customer_notify :: "bool option"
  ss_payment_method :: "string option"
  ss_created_at :: "int option"

definition normalize_status :: "string \<Rightarrow> string" where
  "normalize_status value = py_lower (py_strip value)"

definition normalize_currency :: "string \<Rightarrow> string" where
  "normalize_currency value = py_upper (py_strip value)"

definition any_str :: "json \<Rightarrow> string option" where
  "any_str v = (case v of JStr s \<Rightarrow> Some s | _ \<Rightarrow> None)"

definition strict_bool :: "json \<Rightarrow> bool option" where
  "strict_bool v = (case v of JBool b \<Rightarrow> Some b | _ \<Rightarrow> None)"

definition payment_snapshot_validate :: "json \<Rightarrow> payment_snapshot option" where
  "payment_snapshot_validate v = (case v of
     JObj d \<Rightarrow>
       Option.bind (required ''id'' (strict_str 1 100) d) (\<lambda>entity_id.
       Option.bind (required ''status'' (strict_str 1 64) d) (\<lambda>status.
       Option.bind (required ''amount'' (strict_int 0) d) (\<lambda>amount.
       Option.bind (required ''currency'' (strict_str 1 3) d) (\<lambda>currency.
       Option.bind (optional ''customer_id'' (strict_str 0 100) d) (\<lambda>customer_id.
       Option.bind (optional ''order_id'' (strict_str 0 100) d) (\<lambda>order_id.
       Option.bind (optional ''subscription_id'' (strict_str 0 100) d) (\<lambda>subscription_id.
       Option.bind (optional ''method'' (strict_str 0 64) d) (\<lambda>method.
       Option.bind (optional ''error_code'' (strict_str 0 100) d) (\<lambda>error_code.
       Option.bind (optional ''error_description'' any_str d) (\<lambda>error_description.
       Option.bind (optional ''error_source'' (strict_str 0 100) d) (\<lambda>error_source.
       Option.bind (optional ''error_step'' (strict_str 0 100) d) (\<lambda>error_step.
       Option.bind (optional ''error_reason'' (strict_str 0 100) d) (\<lambda>error_reason.
       Option.bind (optional ''created_at'' (strict_int 0) d) (\<lambda>created_at.
         Some \<lparr>sn_id = entity_id, sn_status = normalize_status status, sn_amount = amount,
           sn_currency = normalize_currency currency, sn_customer_id = customer_id, sn_order_id = order_id,
           sn_subscription_id = subscription_id, sn_method = method, sn_error_code = error_code,
           sn_error_description = error_description, sn_error_source = error_source, sn_error_step = error_step,
           sn_error_reason = error_reason, sn_created_at = created_at\<rparr>))))))))))))))
   | _ \<Rightarrow> None)"

definition subscription_snapshot_validate :: "json \<Rightarrow> subscription_snapshot option" where
  "subscription_snapshot_validate v = (case v of
     JObj d \<Rightarrow>
       Option.bind (required ''id'' (strict_str 1 100) d) (\<lambda>entity_id.
       Option.bind (required ''status'' (strict_str 1 64) d) (\<lambda>status.
       Option.bind (optional ''customer_id'' (strict_str 0 100) d) (\<lambda>customer_id.
       Option.bind (optional ''current_start'' (strict_int 0) d) (\<lambda>current_start.
       Option.bind (optional ''current_end'' (strict_int 0) d) (\<lambda>current_end.
       Option.bind (optional ''charge_at'' (strict_int 0) d) (\<lambda>charge_at.
       Option.bind (optional ''paid_count'' (strict_int 0) d) (\<lambda>paid_count.
       Option.bind (optional ''remaining_count'' (strict_int 0) d) (\<lambda>remaining_count.
       Option.bind (optional ''customer_notify'' strict_bool d) (\<lambda>customer_notify.
       Option.bind (optional ''payment_method'' (strict_str 0 64) d) (\<lambda>payment_method.
       Option.bind (optional ''created_at'' (strict_int 0) d) (\<lambda>created_at.
         Some \<lparr>ss_id = entity_id, ss_status = normalize_status status, ss_customer_id = customer_id,
           ss_current_start = current_start, ss_current_end = current_end, ss_charge_at = charge_at,
           ss_paid_count = paid_count, ss_remaining_count = remaining_count, ss_customer_notify = customer_notify,
           ss_payment_method = payment_method, ss_created_at = created_at\<rparr>)))))))))))
   | _ \<Rightarrow> None)"

section \<open>Reads\<close>

fun is_razorpay_client_error :: "arc_error \<Rightarrow> bool" where
  "is_razorpay_client_error (RazorpayConfigurationError m) = True"
| "is_razorpay_client_error (RazorpayAuthenticationError m) = True"
| "is_razorpay_client_error (RazorpayNotFoundError m) = True"
| "is_razorpay_client_error (RazorpayRateLimitError m) = True"
| "is_razorpay_client_error (RazorpayUnavailableError m) = True"
| "is_razorpay_client_error (RazorpayInvalidResponseError m) = True"
| "is_razorpay_client_error _ = False"

definition encoded_identifier :: "string \<Rightarrow> arc_error + string" where
  "encoded_identifier identifier =
    (if identifier = [] \<or> 100 < length identifier
     then Inl (RazorpayInvalidResponseError ''Razorpay entity identifier is invalid'')
     else Inr (url_quote identifier))"

definition raise_for_read_status :: "int \<Rightarrow> arc_error + unit" where
  "raise_for_read_status status_code =
    (if 200 \<le> status_code \<and> status_code < 300 then Inr ()
     else if status_code \<in> {401, 403} then
       Inl (RazorpayAuthenticationError ''Razorpay read API authentication failed'')
     else if status_code = 404 then Inl (RazorpayNotFoundError ''Razorpay entity was not found'')
     else if status_code = 429 then Inl (RazorpayRateLimitError ''Razorpay read API rate limit was reached'')
     else if 500 \<le> status_code then
       Inl (RazorpayUnavailableError ''Razorpay read API is temporarily unavailable'')
     else Inl (RazorpayInvalidResponseError ''Razorpay rejected the entity read request''))"

definition get_entity ::
  "'w http_client \<Rightarrow> string \<Rightarrow> (json \<Rightarrow> 'a option) \<Rightarrow> 'w \<Rightarrow> (arc_error + 'a) \<times> 'w" where
  "get_entity http path parser w =
    (let (outcome, w') = http \<lparr>hq_method = ''GET'', hq_path = path, hq_params = [], hq_json = None\<rparr> w
     in ((case outcome of
            HttpTimeoutOrNetwork \<Rightarrow> Inl (RazorpayUnavailableError ''Razorpay read API is temporarily unavailable'')
          | HttpRequestError \<Rightarrow> Inl (RazorpayUnavailableError ''Razorpay read API request failed'')
          | HttpResponse status_code body \<Rightarrow> sbind (raise_for_read_status status_code) (\<lambda>_.
              case Option.bind body parser of
                Some entity \<Rightarrow> Inr entity
              | None \<Rightarrow> Inl (RazorpayInvalidResponseError ''Razorpay returned an invalid entity response''))), w'))"

definition fetch_payment :: "'w http_client \<Rightarrow> string \<Rightarrow> 'w \<Rightarrow> (arc_error + payment_snapshot) \<times> 'w" where
  "fetch_payment http payment_id w = (case encoded_identifier payment_id of
       Inl e \<Rightarrow> (Inl e, w)
     | Inr i \<Rightarrow> get_entity http (''/v1/payments/'' @ i) payment_snapshot_validate w)"

definition fetch_subscription :: "'w http_client \<Rightarrow> string \<Rightarrow> 'w \<Rightarrow> (arc_error + subscription_snapshot) \<times> 'w" where
  "fetch_subscription http subscription_id w = (case encoded_identifier subscription_id of
       Inl e \<Rightarrow> (Inl e, w)
     | Inr i \<Rightarrow> get_entity http (''/v1/subscriptions/'' @ i) subscription_snapshot_validate w)"

text \<open>The boundary that reconciliation uses, and the client behind it.\<close>

record 'w entity_reader =
  er_fetch_payment :: "string \<Rightarrow> 'w \<Rightarrow> (arc_error + payment_snapshot) \<times> 'w"
  er_fetch_subscription :: "string \<Rightarrow> 'w \<Rightarrow> (arc_error + subscription_snapshot) \<times> 'w"

definition reader_from_settings ::
  "string option \<Rightarrow> string option \<Rightarrow> 'w http_client \<Rightarrow> arc_error + 'w entity_reader" where
  "reader_from_settings key_id key_secret http =
    (if key_id \<in> {None, Some []} \<or> key_secret \<in> {None, Some []} then
       Inl (RazorpayConfigurationError ''Razorpay read API credentials are not configured'')
     else Inr \<lparr>er_fetch_payment = fetch_payment http, er_fetch_subscription = fetch_subscription http\<rparr>)"

section \<open>Facts\<close>

lemma payment_snapshot_bounds:
  assumes "payment_snapshot_validate v = Some s"
  shows "1 \<le> length (sn_id s)" "length (sn_id s) \<le> 100" "0 \<le> sn_amount s" "length (sn_currency s) \<le> 3"
  using assms
  by (auto simp: payment_snapshot_validate_def bind_eq_Some_conv required_Some_iff normalize_currency_def
      py_strip_def intro!: order_trans [OF length_dropWhile_le]
      dest!: strict_str_Some strict_int_Some split: json.splits)

lemma subscription_snapshot_bounds:
  assumes "subscription_snapshot_validate v = Some s"
  shows "1 \<le> length (ss_id s)" "length (ss_id s) \<le> 100"
  using assms
  by (auto simp: subscription_snapshot_validate_def bind_eq_Some_conv required_Some_iff
      dest!: strict_str_Some strict_int_Some split: json.splits)

lemma get_entity_cases:
  "case fst (get_entity http path parser w) of Inl e \<Rightarrow> is_razorpay_client_error e | Inr s \<Rightarrow> \<exists>v. parser v = Some s"
  by (auto simp: get_entity_def raise_for_read_status_def bind_eq_Some_conv
      split: prod.splits http_outcome.splits option.splits)

text \<open>
  Reads fail closed. A read raises nothing but an error of the client; what it returns passed
  the validation, so that it has an identifier of 1 to 100 characters and, for a payment, a
  non-negative amount; and the request is a GET of the entity's own path, except that an
  identifier that is empty or too long is refused without any request.
\<close>

lemma reads_fail_closed:
  "(case fst (fetch_payment http k w) of Inl e \<Rightarrow> is_razorpay_client_error e
     | Inr s \<Rightarrow> 1 \<le> length (sn_id s) \<and> length (sn_id s) \<le> 100 \<and> 0 \<le> sn_amount s \<and> length (sn_currency s) \<le> 3) \<and>
   (case fst (fetch_subscription http k w) of Inl e \<Rightarrow> is_razorpay_client_error e
     | Inr s \<Rightarrow> 1 \<le> length (ss_id s) \<and> length (ss_id s) \<le> 100) \<and>
   snd (fetch_payment http k w) = (if k = [] \<or> 100 < length k then w else
      snd (http \<lparr>hq_method = ''GET'', hq_path = ''/v1/payments/'' @ url_quote k, hq_params = [], hq_json = None\<rparr> w))"
proof (cases "k = [] \<or> 100 < length k")
  case True
  then show ?thesis by (auto simp: fetch_payment_def fetch_subscription_def encoded_identifier_def)
next
  case False
  then have i: "encoded_identifier k = Inr (url_quote k)" by (auto simp: encoded_identifier_def)
  have "snd (get_entity http path parser w) =
      snd (http \<lparr>hq_method = ''GET'', hq_path = path, hq_params = [], hq_json = None\<rparr> w)"
    for path and parser :: "json \<Rightarrow> payment_snapshot option"
    by (simp add: get_entity_def split: prod.splits)
  with False get_entity_cases [of payment_snapshot_validate http "''/v1/payments/'' @ url_quote k" w]
    get_entity_cases [of subscription_snapshot_validate http "''/v1/subscriptions/'' @ url_quote k" w]
  show ?thesis
    by (auto simp: fetch_payment_def fetch_subscription_def i
        dest: payment_snapshot_bounds subscription_snapshot_bounds split: sum.splits)
qed

end
