(* ===== verification/Arc_Reconciliation.thy ===== *)
theory Arc_Reconciliation
  imports Arc_Outcomes Arc_Razorpay_Client
begin

text \<open>
  Reconciliation: the identity of a case and its race-safe creation
  (\<open>arc/persistence/payment_cases.py\<close>), what the provider's truth about a payment or a subscription
  makes of a case (\<open>arc/reconciliation/payment.py\<close>, \<open>arc/reconciliation/subscription.py\<close>), and the
  processing of a stored webhook event under a lease (\<open>arc/reconciliation/service.py\<close>).
\<close>

section \<open>Case identity\<close>

datatype case_identity_kind = PaymentIdentity | SubscriptionIdentity

fun identity_kind_text :: "case_identity_kind \<Rightarrow> string" where
  "identity_kind_text PaymentIdentity = ''payment''"
| "identity_kind_text SubscriptionIdentity = ''subscription''"

definition deterministic_case_reference ::
  "(string \<Rightarrow> string) \<Rightarrow> case_identity_kind \<Rightarrow> string \<Rightarrow> arc_error + string" where
  "deterministic_case_reference sha kind external_id =
    (if external_id = [] \<or> 100 < length external_id
     then Inl (CasePersistenceError ''Case identity is missing or invalid'')
     else let digest = take 48 (sha (identity_kind_text kind @ '':'' @ external_id));
              prefix = (if kind = PaymentIdentity then ''pay'' else ''sub'')
          in Inr (prefix @ ''_'' @ digest))"

definition case_by_reference :: "string \<Rightarrow> arc_db \<Rightarrow> payment_case option" where
  "case_by_reference case_reference db = find (\<lambda>c. pc_case_reference c = case_reference) (db_cases db)"

definition lock_case_by_identity ::
  "(string \<Rightarrow> string) \<Rightarrow> case_identity_kind \<Rightarrow> string \<Rightarrow> arc_db \<Rightarrow> arc_error + payment_case option" where
  "lock_case_by_identity sha kind external_id db =
     sbind (deterministic_case_reference sha kind external_id) (\<lambda>case_reference. Inr (case_by_reference case_reference db))"

text \<open>The row that the insert makes, with the column defaults.\<close>

definition new_case ::
  "uuid \<Rightarrow> string \<Rightarrow> string \<Rightarrow> case_identity_kind \<Rightarrow> string \<Rightarrow> string option \<Rightarrow> py_datetime \<Rightarrow> payment_case" where
  "new_case new_id case_reference merchant_id kind external_id customer_id detected_at =
    \<lparr>pc_id = new_id, pc_case_reference = case_reference, pc_merchant_id = merchant_id,
     pc_payment_id = (if kind = PaymentIdentity then Some external_id else None),
     pc_subscription_id = (if kind = SubscriptionIdentity then Some external_id else None),
     pc_razorpay_payment_status = None, pc_razorpay_subscription_status = None, pc_razorpay_payment_method = None,
     pc_customer_id = customer_id, pc_amount = None, pc_currency = None, pc_current_state = CaseState.DETECTED,
     pc_error_code = None, pc_error_description = None, pc_error_source = None, pc_error_step = None,
     pc_error_reason = None, pc_eligibility_status = None, pc_eligibility_reason_code = None,
     pc_eligibility_evaluated_at = None, pc_failure_category = None, pc_recovery_disposition = None,
     pc_diagnosis_reason_code = None, pc_diagnosed_at = None, pc_assessment_fingerprint = None, pc_attempt_count = 0,
     pc_contact_attempt_count = 0, pc_detected_at = detected_at, pc_last_reconciled_at = None, pc_resolved_at = None\<rparr>"

text \<open>
  The insert does nothing when the reference is taken. \<open>raced\<close> are the cases other transactions
  commit before it; they are in the table when it runs.
\<close>

definition get_or_create_case ::
  "(string \<Rightarrow> string) \<Rightarrow> case_identity_kind \<Rightarrow> string \<Rightarrow> string \<Rightarrow> string option \<Rightarrow> py_datetime \<Rightarrow> uuid \<Rightarrow>
     payment_case list \<Rightarrow> arc_db \<Rightarrow> arc_error + (bool \<times> payment_case) \<times> arc_db" where
  "get_or_create_case sha kind external_id merchant_id customer_id detected_at new_id raced db =
     sbind (deterministic_case_reference sha kind external_id) (\<lambda>case_reference.
       let db1 = db\<lparr>db_cases := db_cases db @ raced\<rparr>;
           inserted = (case_by_reference case_reference db1 = None);
           db2 = (if inserted then
                    add_case (new_case new_id case_reference merchant_id kind external_id customer_id detected_at) db1
                  else db1)
       in case case_by_reference case_reference db2 of
            None \<Rightarrow> Inl (CasePersistenceError ''Payment case could not be resolved'')
          | Some c \<Rightarrow> Inr ((inserted, c), db2))"

section \<open>Payments\<close>

text \<open>
  \<open>new_row\<close> is the database's clock and the id that a new row would get; \<open>reconciled_at\<close> is the
  service's own clock.
\<close>

definition or_unknown :: "string option \<Rightarrow> string" where
  "or_unknown account_id = (if truthy account_id then the account_id else UNKNOWN_MERCHANT_ID)"

definition keep_resolved :: "payment_case \<Rightarrow> CaseState \<Rightarrow> py_datetime \<Rightarrow> payment_case" where
  "keep_resolved c target reconciled_at =
    (if pc_current_state c = target
     then c\<lparr>pc_resolved_at := (case pc_resolved_at c of Some t \<Rightarrow> Some t | None \<Rightarrow> Some reconciled_at)\<rparr> else c)"

definition payment_fields :: "payment_snapshot \<Rightarrow> webhook_event \<Rightarrow> py_datetime \<Rightarrow> payment_case \<Rightarrow> payment_case" where
  "payment_fields s event reconciled_at c =
     c\<lparr>pc_payment_id := Some (sn_id s),
       pc_subscription_id := py_or (py_or (sn_subscription_id s) (we_subscription_id event)) (pc_subscription_id c),
       pc_customer_id := py_or (sn_customer_id s) (pc_customer_id c), pc_amount := Some (sn_amount s),
       pc_currency := Some (sn_currency s), pc_razorpay_payment_status := Some (sn_status s),
       pc_razorpay_payment_method := sn_method s, pc_error_code := sn_error_code s,
       pc_error_description := sn_error_description s, pc_error_source := sn_error_source s,
       pc_error_step := sn_error_step s, pc_error_reason := sn_error_reason s,
       pc_last_reconciled_at := Some reconciled_at\<rparr>"

definition payment_reason :: "string \<Rightarrow> string \<Rightarrow> string" where
  "payment_reason status event_type =
    (if status = ''captured'' then ''RECONCILIATION_FOUND_ALREADY_CAPTURED''
     else if status = ''refunded'' then ''PAYMENT_REFUNDED''
     else if status = ''failed'' then
       (if event_type = ''payment.failed'' then ''RECONCILIATION_CONFIRMED_FAILURE''
        else ''PAYMENT_CAPTURE_SIGNAL_NOT_CONFIRMED'')
     else if status \<in> {''created'', ''authorized''} then ''PAYMENT_STATE_NOT_RECOVERY_READY''
     else if status \<notin> RECOGNIZED_PAYMENT_STATUSES then ''PAYMENT_STATUS_UNRECOGNIZED''
     else ''PAYMENT_STATE_NOT_RECOVERY_READY'')"

text \<open>The status of the entity resolves a case that may still move; the rest of the body is shared.\<close>

definition settle_case ::
  "payment_case \<Rightarrow> CaseState option \<Rightarrow> string \<Rightarrow> webhook_event \<Rightarrow> string \<Rightarrow> py_datetime \<Rightarrow> arc_db \<Rightarrow>
     arc_error + payment_case \<times> arc_db" where
  "settle_case c target reason_code event status reconciled_at db = (case target of
       None \<Rightarrow> Inr (c, db)
     | Some t \<Rightarrow> sbind (transition_if_allowed c t reason_code event status reconciled_at db)
         (\<lambda>(c', db'). Inr (keep_resolved c' t reconciled_at, db')))"

definition payment_target :: "string \<Rightarrow> CaseState option" where
  "payment_target status = (if status = ''captured'' then Some CaseState.RECOVERED
     else if status = ''refunded'' then Some CaseState.EXHAUSTED else None)"

definition apply_payment_truth ::
  "webhook_event \<Rightarrow> payment_snapshot \<Rightarrow> py_datetime \<Rightarrow> bool \<Rightarrow> payment_case \<Rightarrow> arc_db \<Rightarrow>
     arc_error + (uuid option \<times> string) \<times> arc_db" where
  "apply_payment_truth event s reconciled_at created c db =
    (let db1 = initialize_case_audit c event (sn_status s) reconciled_at created db;
         reason_code = payment_reason (sn_status s) (we_event_type event)
     in sbind (move_detected_case_to_reconciling c event (sn_status s) reconciled_at db1) (\<lambda>(c1, db2).
          let c2 = payment_fields s event reconciled_at c1; previous_state = pc_current_state c2
          in sbind (settle_case c2 (payment_target (sn_status s)) reason_code event (sn_status s) reconciled_at db2)
               (\<lambda>(c3, db3). Inr ((Some (pc_id c3), reason_code),
                  save_case c3 (append_reconciliation_audit c3 event previous_state reason_code (sn_status s)
                    reconciled_at db3)))))"

definition reconcile_payment ::
  "(string \<Rightarrow> string) \<Rightarrow> py_datetime \<Rightarrow> py_datetime \<times> uuid \<Rightarrow> payment_case list \<Rightarrow> webhook_event \<Rightarrow> payment_snapshot \<Rightarrow> arc_db \<Rightarrow>
     arc_error + (uuid option \<times> string) \<times> arc_db" where
  "reconcile_payment sha reconciled_at new_row raced event s db =
    (case we_payment_id event of
       None \<Rightarrow> Inl (WebhookProcessingError ''Razorpay payment response did not match the requested entity'')
     | Some payment_id \<Rightarrow>
       if sn_id s \<noteq> payment_id
       then Inl (WebhookProcessingError ''Razorpay payment response did not match the requested entity'')
       else sbind (lock_case_by_identity sha PaymentIdentity payment_id db) (\<lambda>existing.
         case existing of
           Some c \<Rightarrow> apply_payment_truth event s reconciled_at False c db
         | None \<Rightarrow>
           if we_event_type event = ''payment.captured'' then
             Inr ((None, if sn_status s = ''captured'' then ''CAPTURE_CONFIRMED_WITHOUT_RECOVERY_CASE''
                         else ''PAYMENT_CAPTURE_SIGNAL_NOT_CONFIRMED''), db)
           else sbind (get_or_create_case sha PaymentIdentity payment_id (or_unknown (we_account_id event))
                  (py_or (sn_customer_id s) (we_customer_id event)) (fst new_row) (snd new_row) raced db)
                (\<lambda>((created, c), db1). apply_payment_truth event s reconciled_at created c db1)))"

section \<open>Subscriptions\<close>

definition subscription_fields :: "subscription_snapshot \<Rightarrow> py_datetime \<Rightarrow> payment_case \<Rightarrow> payment_case" where
  "subscription_fields s reconciled_at c =
     c\<lparr>pc_subscription_id := Some (ss_id s), pc_customer_id := py_or (ss_customer_id s) (pc_customer_id c),
       pc_razorpay_subscription_status := Some (ss_status s), pc_last_reconciled_at := Some reconciled_at\<rparr>"

definition subscription_reason :: "string \<Rightarrow> string" where
  "subscription_reason status =
    (if status = ''pending'' then ''PLATFORM_RETRY_ACTIVE''
     else if status = ''halted'' then ''SUBSCRIPTION_RETRIES_EXHAUSTED''
     else if status = ''active'' then ''SUBSCRIPTION_ACTIVE_NO_RECOVERY_REQUIRED''
     else if status \<in> {''cancelled'', ''completed'', ''expired''} then ''SUBSCRIPTION_TERMINAL_WITHOUT_RECOVERY''
     else if status \<notin> RECOGNIZED_SUBSCRIPTION_STATUSES then ''SUBSCRIPTION_STATUS_UNRECOGNIZED''
     else ''SUBSCRIPTION_STATE_NOT_RECOVERY_READY'')"

definition subscription_target :: "string \<Rightarrow> CaseState option" where
  "subscription_target status = (if status = ''active'' then Some CaseState.RECOVERED
     else if status \<in> {''cancelled'', ''completed'', ''expired''} then Some CaseState.EXHAUSTED else None)"

definition apply_subscription_truth ::
  "webhook_event \<Rightarrow> subscription_snapshot \<Rightarrow> py_datetime \<Rightarrow> bool \<Rightarrow> payment_case \<Rightarrow> arc_db \<Rightarrow>
     arc_error + (uuid option \<times> string) \<times> arc_db" where
  "apply_subscription_truth event s reconciled_at created c db =
    (let db1 = initialize_case_audit c event (ss_status s) reconciled_at created db;
         reason_code = subscription_reason (ss_status s)
     in sbind (if ss_status s \<in> {''pending'', ''halted''}
               then move_detected_case_to_reconciling c event (ss_status s) reconciled_at db1 else Inr (c, db1)) (\<lambda>(c1, db2).
          let c2 = subscription_fields s reconciled_at c1; previous_state = pc_current_state c2
          in sbind (settle_case c2 (subscription_target (ss_status s)) reason_code event (ss_status s) reconciled_at db2)
               (\<lambda>(c3, db3). Inr ((Some (pc_id c3), reason_code),
                  save_case c3 (append_reconciliation_audit c3 event previous_state reason_code (ss_status s)
                    reconciled_at db3)))))"

definition reconcile_subscription ::
  "(string \<Rightarrow> string) \<Rightarrow> py_datetime \<Rightarrow> py_datetime \<times> uuid \<Rightarrow> payment_case list \<Rightarrow> webhook_event \<Rightarrow> subscription_snapshot \<Rightarrow> arc_db \<Rightarrow>
     arc_error + (uuid option \<times> string) \<times> arc_db" where
  "reconcile_subscription sha reconciled_at new_row raced event s db =
    (case we_subscription_id event of
       None \<Rightarrow> Inl (WebhookProcessingError ''Razorpay subscription response did not match the requested entity'')
     | Some subscription_id \<Rightarrow>
       if ss_id s \<noteq> subscription_id
       then Inl (WebhookProcessingError ''Razorpay subscription response did not match the requested entity'')
       else sbind (lock_case_by_identity sha SubscriptionIdentity subscription_id db) (\<lambda>existing.
         case existing of
           Some c \<Rightarrow> apply_subscription_truth event s reconciled_at False c db
         | None \<Rightarrow>
           if ss_status s \<notin> {''pending'', ''halted''} then
             Inr ((None, if ss_status s = ''active'' then ''SUBSCRIPTION_ACTIVE_NO_RECOVERY_REQUIRED''
                         else if ss_status s \<notin> RECOGNIZED_SUBSCRIPTION_STATUSES then ''SUBSCRIPTION_STATUS_UNRECOGNIZED''
                         else ''SUBSCRIPTION_STATE_NOT_RECOVERY_READY''), db)
           else sbind (get_or_create_case sha SubscriptionIdentity subscription_id (or_unknown (we_account_id event))
                  (py_or (ss_customer_id s) (we_customer_id event)) (fst new_row) (snd new_row) raced db)
                (\<lambda>((created, c), db1). apply_subscription_truth event s reconciled_at created c db1)))"

section \<open>What reconciliation makes of a case\<close>

text \<open>The specification: the row that the provider's truth makes of a row.\<close>

definition detected_to_reconciling :: "payment_case \<Rightarrow> payment_case" where
  "detected_to_reconciling c =
    (if pc_current_state c = CaseState.DETECTED then c\<lparr>pc_current_state := CaseState.RECONCILING\<rparr> else c)"

definition settled_by :: "CaseState option \<Rightarrow> py_datetime \<Rightarrow> payment_case \<Rightarrow> payment_case" where
  "settled_by target t c = (case target of None \<Rightarrow> c
     | Some g \<Rightarrow> keep_resolved (if pc_current_state c \<in> TERMINAL_CASE_STATES then c else c\<lparr>pc_current_state := g\<rparr>) g t)"

definition payment_truth :: "webhook_event \<Rightarrow> payment_snapshot \<Rightarrow> py_datetime \<Rightarrow> payment_case \<Rightarrow> payment_case" where
  "payment_truth event s t c =
     settled_by (payment_target (sn_status s)) t (payment_fields s event t (detected_to_reconciling c))"

definition subscription_truth :: "subscription_snapshot \<Rightarrow> py_datetime \<Rightarrow> payment_case \<Rightarrow> payment_case" where
  "subscription_truth s t c = settled_by (subscription_target (ss_status s)) t
     (subscription_fields s t (if ss_status s \<in> {''pending'', ''halted''} then detected_to_reconciling c else c))"

lemma keep_resolved_id [simp]: "pc_id (keep_resolved c g t) = pc_id c"
  "pc_case_reference (keep_resolved c g t) = pc_case_reference c"
  by (simp_all add: keep_resolved_def)

lemma settled_by_id [simp]: "pc_id (settled_by g t c) = pc_id c" "pc_case_reference (settled_by g t c) = pc_case_reference c"
  by (simp_all add: settled_by_def split: option.split)

lemma detected_to_reconciling_id [simp]: "pc_id (detected_to_reconciling c) = pc_id c"
  "pc_case_reference (detected_to_reconciling c) = pc_case_reference c"
  by (simp_all add: detected_to_reconciling_def)

lemma truth_id [simp]: "pc_id (payment_truth ev s t c) = pc_id c" "pc_case_reference (payment_truth ev s t c) = pc_case_reference c"
  "pc_id (subscription_truth u t c) = pc_id c" "pc_case_reference (subscription_truth u t c) = pc_case_reference c"
  by (simp_all add: payment_truth_def payment_fields_def subscription_truth_def subscription_fields_def)

lemma settle_case_total:
  assumes "\<And>g. target = Some g \<Longrightarrow> g \<in> TERMINAL_CASE_STATES"
  shows "\<exists>db'. settle_case c target r ev st t db = Inr (settled_by target t c, db') \<and> only_events_added db db'"
proof (cases target)
  case (Some g)
  with assms have "g \<in> TERMINAL_CASE_STATES" by simp
  then have "can_transition (pc_current_state c) g \<longleftrightarrow> pc_current_state c = g \<or> pc_current_state c \<notin> TERMINAL_CASE_STATES"
    using can_transition_iff by blast
  then have "(if can_transition (pc_current_state c) g then c\<lparr>pc_current_state := g\<rparr> else c) =
      (if pc_current_state c \<in> TERMINAL_CASE_STATES then c else c\<lparr>pc_current_state := g\<rparr>)" by auto
  with Some transition_if_allowed_total [of c g r ev st t db] show ?thesis
    by (auto simp: settle_case_def settled_by_def)
qed (simp add: settle_case_def settled_by_def)

lemma targets_terminal: "payment_target x = Some g \<Longrightarrow> g \<in> TERMINAL_CASE_STATES"
  "subscription_target x = Some g \<Longrightarrow> g \<in> TERMINAL_CASE_STATES"
  by (auto simp: payment_target_def subscription_target_def TERMINAL_CASE_STATES_def split: if_splits)

lemma settle_target_total:
  "\<exists>db'. settle_case c (payment_target x) r ev st t db = Inr (settled_by (payment_target x) t c, db') \<and> only_events_added db db'"
  "\<exists>db'. settle_case c (subscription_target x) r ev st t db = Inr (settled_by (subscription_target x) t c, db') \<and>
     only_events_added db db'"
  by (rule settle_case_total, erule targets_terminal)+

lemma only_events_initialize [simp]: "only_events_added db (initialize_case_audit c ev st t created db)"
  by (simp add: initialize_case_audit_def)

lemma only_events_reconciliation [simp]: "only_events_added db (append_reconciliation_audit c ev p r st t db)"
  by (simp add: append_reconciliation_audit_def)

lemma move_detected_total':
  "\<exists>db'. move_detected_case_to_reconciling c ev st t db = Inr (detected_to_reconciling c, db') \<and> only_events_added db db'"
  unfolding detected_to_reconciling_def by (rule move_detected_total)

lemma apply_payment_total:
  "\<exists>d. apply_payment_truth ev s t created c db =
      Inr ((Some (pc_id c), payment_reason (sn_status s) (we_event_type ev)), save_case (payment_truth ev s t c) d) \<and>
    only_events_added db d"
proof -
  let ?db1 = "initialize_case_audit c ev (sn_status s) t created db"
  obtain db2 where m: "move_detected_case_to_reconciling c ev (sn_status s) t ?db1 = Inr (detected_to_reconciling c, db2)"
    "only_events_added ?db1 db2" using move_detected_total' by blast
  let ?c2 = "payment_fields s ev t (detected_to_reconciling c)"
  obtain db3 where s: "settle_case ?c2 (payment_target (sn_status s)) (payment_reason (sn_status s) (we_event_type ev)) ev
      (sn_status s) t db2 = Inr (payment_truth ev s t c, db3)" "only_events_added db2 db3"
    using settle_target_total(1) unfolding payment_truth_def by blast
  have "only_events_added db ?db1" by simp
  then have "only_events_added db db3" using m(2) s(2) only_events_added_trans by blast
  then have "only_events_added db (append_reconciliation_audit (payment_truth ev s t c) ev (pc_current_state ?c2)
      (payment_reason (sn_status s) (we_event_type ev)) (sn_status s) t db3)"
    by (rule only_events_added_trans) simp
  with m s show ?thesis by (auto simp: apply_payment_truth_def Let_def)
qed

lemma apply_subscription_total:
  "\<exists>d. apply_subscription_truth ev s t created c db =
      Inr ((Some (pc_id c), subscription_reason (ss_status s)), save_case (subscription_truth s t c) d) \<and>
    only_events_added db d"
proof -
  let ?db1 = "initialize_case_audit c ev (ss_status s) t created db"
  let ?c1 = "if ss_status s \<in> {''pending'', ''halted''} then detected_to_reconciling c else c"
  obtain db2 where m: "(if ss_status s \<in> {''pending'', ''halted''}
      then move_detected_case_to_reconciling c ev (ss_status s) t ?db1 else Inr (c, ?db1)) = Inr (?c1, db2)"
    "only_events_added ?db1 db2"
    using move_detected_total' [of c ev "ss_status s" t ?db1]
    by (cases "ss_status s \<in> {''pending'', ''halted''}") auto
  let ?c2 = "subscription_fields s t ?c1"
  obtain db3 where s: "settle_case ?c2 (subscription_target (ss_status s)) (subscription_reason (ss_status s)) ev
      (ss_status s) t db2 = Inr (subscription_truth s t c, db3)" "only_events_added db2 db3"
    using settle_target_total(2) unfolding subscription_truth_def by blast
  have "only_events_added db ?db1" by simp
  then have "only_events_added db db3" using m(2) s(2) only_events_added_trans by blast
  then have "only_events_added db (append_reconciliation_audit (subscription_truth s t c) ev (pc_current_state ?c2)
      (subscription_reason (ss_status s)) (ss_status s) t db3)"
    by (rule only_events_added_trans) simp
  with s(1) show ?thesis unfolding apply_subscription_truth_def Let_def m(1) by auto
qed

text \<open>Finding a row by its reference, and what a creation leaves.\<close>

lemma case_by_reference_Some: "case_by_reference ref db = Some c \<Longrightarrow> c \<in> set (db_cases db) \<and> pc_case_reference c = ref"
  by (auto simp: case_by_reference_def find_Some_iff)

lemma case_by_reference_None: "case_by_reference ref db = None \<longleftrightarrow> ref \<notin> pc_case_reference ` set (db_cases db)"
  by (auto simp: case_by_reference_def find_None_iff)

lemma new_case_sel [simp]:
  "pc_id (new_case i ref m kind k cu d) = i" "pc_case_reference (new_case i ref m kind k cu d) = ref"
  "pc_current_state (new_case i ref m kind k cu d) = CaseState.DETECTED"
  by (simp_all add: new_case_def)

text \<open>The row that is reconciled, in the table it is taken from.\<close>

definition resolved_row ::
  "case_identity_kind \<Rightarrow> string \<Rightarrow> string \<Rightarrow> string \<Rightarrow> string option \<Rightarrow> py_datetime \<times> uuid \<Rightarrow> payment_case list \<Rightarrow> arc_db \<Rightarrow>
     payment_case \<Rightarrow> arc_db \<Rightarrow> bool" where
  "resolved_row kind k ref m cu new_row raced db c db1 \<longleftrightarrow> c \<in> set (db_cases db1) \<and> pc_case_reference c = ref \<and>
     (db1 = db \<or> db1 = db\<lparr>db_cases := db_cases db @ raced\<rparr> \<or>
      c = new_case (snd new_row) ref m kind k cu (fst new_row) \<and>
      db1 = add_case c (db\<lparr>db_cases := db_cases db @ raced\<rparr>) \<and> ref \<notin> pc_case_reference ` set (db_cases db @ raced))"

lemma get_or_create_total:
  assumes "deterministic_case_reference sha kind k = Inr ref"
  obtains created c db1 where "get_or_create_case sha kind k m cu (fst new_row) (snd new_row) raced db = Inr ((created, c), db1)"
    "resolved_row kind k ref m cu new_row raced db c db1"
proof (cases "case_by_reference ref (db\<lparr>db_cases := db_cases db @ raced\<rparr>)")
  case None
  let ?c = "new_case (snd new_row) ref m kind k cu (fst new_row)"
  let ?db1 = "add_case ?c (db\<lparr>db_cases := db_cases db @ raced\<rparr>)"
  have "case_by_reference ref ?db1 = Some ?c"
    using None find_append_new [of "\<lambda>c. pc_case_reference c = ref" "db_cases db @ raced" ?c]
    by (simp add: case_by_reference_def add_case_def row_add_def)
  with None assms have "get_or_create_case sha kind k m cu (fst new_row) (snd new_row) raced db = Inr ((True, ?c), ?db1)"
    by (simp add: get_or_create_case_def Let_def)
  moreover have "resolved_row kind k ref m cu new_row raced db ?c ?db1"
    using None by (simp add: resolved_row_def case_by_reference_None add_case_def row_add_def)
  ultimately show thesis by (rule that)
next
  case (Some c)
  with assms have "get_or_create_case sha kind k m cu (fst new_row) (snd new_row) raced db =
      Inr ((False, c), db\<lparr>db_cases := db_cases db @ raced\<rparr>)"
    by (simp add: get_or_create_case_def Let_def)
  moreover have "resolved_row kind k ref m cu new_row raced db c (db\<lparr>db_cases := db_cases db @ raced\<rparr>)"
    using case_by_reference_Some [OF Some] by (simp add: resolved_row_def)
  ultimately show thesis by (rule that)
qed

lemma existing_resolved: "case_by_reference ref db = Some c \<Longrightarrow> resolved_row kind k ref m cu new_row raced db c db"
  by (auto simp: resolved_row_def dest: case_by_reference_Some)

text \<open>What a reconciliation returns, in one description of its branches.\<close>

definition reconciled ::
  "case_identity_kind \<Rightarrow> string \<Rightarrow> string \<Rightarrow> string \<Rightarrow> string option \<Rightarrow> py_datetime \<times> uuid \<Rightarrow> payment_case list \<Rightarrow>
     (payment_case \<Rightarrow> payment_case) \<Rightarrow> string \<Rightarrow> arc_db \<Rightarrow> (uuid option \<times> string) \<times> arc_db \<Rightarrow> bool" where
  "reconciled kind k ref m cu new_row raced truth reason db r \<longleftrightarrow>
     (case_by_reference ref db = None \<and> (\<exists>why. r = ((None, why), db))) \<or>
     (\<exists>c db1 d. resolved_row kind k ref m cu new_row raced db c db1 \<and>
        (case_by_reference ref db \<noteq> None \<longrightarrow> case_by_reference ref db = Some c \<and> db1 = db) \<and> only_events_added db1 d \<and>
        r = ((Some (pc_id c), reason), save_case (truth c) d))"

lemma reconcile_payment_total:
  assumes "we_payment_id ev = Some k" "sn_id s = k" "deterministic_case_reference sha PaymentIdentity k = Inr ref"
  shows "\<exists>r. reconcile_payment sha t new_row raced ev s db = Inr r \<and>
    reconciled PaymentIdentity k ref (or_unknown (we_account_id ev)) (py_or (sn_customer_id s) (we_customer_id ev)) new_row
      raced (payment_truth ev s t) (payment_reason (sn_status s) (we_event_type ev)) db r"
proof (cases "case_by_reference ref db")
  case (Some c)
  obtain d where "apply_payment_truth ev s t False c db =
      Inr ((Some (pc_id c), payment_reason (sn_status s) (we_event_type ev)), save_case (payment_truth ev s t c) d)"
    "only_events_added db d" using apply_payment_total by blast
  with Some assms existing_resolved [OF Some] show ?thesis
    by (auto simp: reconcile_payment_def lock_case_by_identity_def reconciled_def)
next
  case None
  obtain created c db1 where g: "get_or_create_case sha PaymentIdentity k (or_unknown (we_account_id ev))
      (py_or (sn_customer_id s) (we_customer_id ev)) (fst new_row) (snd new_row) raced db = Inr ((created, c), db1)"
    "resolved_row PaymentIdentity k ref (or_unknown (we_account_id ev)) (py_or (sn_customer_id s) (we_customer_id ev))
       new_row raced db c db1" by (rule get_or_create_total [OF assms(3)])
  obtain d where "apply_payment_truth ev s t created c db1 =
      Inr ((Some (pc_id c), payment_reason (sn_status s) (we_event_type ev)), save_case (payment_truth ev s t c) d)"
    "only_events_added db1 d" using apply_payment_total by blast
  with None assms g show ?thesis
    by (cases "we_event_type ev = ''payment.captured''")
      (auto simp: reconcile_payment_def lock_case_by_identity_def reconciled_def)
qed

lemma reconcile_subscription_total:
  assumes "we_subscription_id ev = Some k" "ss_id s = k" "deterministic_case_reference sha SubscriptionIdentity k = Inr ref"
  shows "\<exists>r. reconcile_subscription sha t new_row raced ev s db = Inr r \<and>
    reconciled SubscriptionIdentity k ref (or_unknown (we_account_id ev)) (py_or (ss_customer_id s) (we_customer_id ev)) new_row
      raced (subscription_truth s t) (subscription_reason (ss_status s)) db r"
proof (cases "case_by_reference ref db")
  case (Some c)
  obtain d where "apply_subscription_truth ev s t False c db =
      Inr ((Some (pc_id c), subscription_reason (ss_status s)), save_case (subscription_truth s t c) d)"
    "only_events_added db d" using apply_subscription_total by blast
  with Some assms existing_resolved [OF Some] show ?thesis
    by (auto simp: reconcile_subscription_def lock_case_by_identity_def reconciled_def)
next
  case None
  obtain created c db1 where g: "get_or_create_case sha SubscriptionIdentity k (or_unknown (we_account_id ev))
      (py_or (ss_customer_id s) (we_customer_id ev)) (fst new_row) (snd new_row) raced db = Inr ((created, c), db1)"
    "resolved_row SubscriptionIdentity k ref (or_unknown (we_account_id ev)) (py_or (ss_customer_id s) (we_customer_id ev))
       new_row raced db c db1" by (rule get_or_create_total [OF assms(3)])
  obtain d where "apply_subscription_truth ev s t created c db1 =
      Inr ((Some (pc_id c), subscription_reason (ss_status s)), save_case (subscription_truth s t c) d)"
    "only_events_added db1 d" using apply_subscription_total by blast
  with None assms g show ?thesis
    by (cases "ss_status s \<in> {''pending'', ''halted''}")
      (auto simp: reconcile_subscription_def lock_case_by_identity_def reconciled_def)
qed

text \<open>Primary keys and the unique constraint on references.\<close>

definition case_keys :: "payment_case list \<Rightarrow> bool" where
  "case_keys cs \<longleftrightarrow> distinct (map pc_id cs) \<and> distinct (map pc_case_reference cs)"

lemma case_keys_save:
  assumes "case_keys cs" "c \<in> set cs" "pc_id c' = pc_id c" "pc_case_reference c' = pc_case_reference c"
  shows "case_keys (row_save pc_id c' cs)" "map pc_case_reference (row_save pc_id c' cs) = map pc_case_reference cs"
proof -
  have "x = c" if "x \<in> set cs" "pc_id x = pc_id c" for x
    using assms(1,2) that by (auto simp: case_keys_def distinct_map inj_on_def)
  then show r: "map pc_case_reference (row_save pc_id c' cs) = map pc_case_reference cs"
    using assms(3,4) by (auto simp: row_save_def)
  have "map pc_id (row_save pc_id c' cs) = map pc_id cs" by (rule row_save_keys)
  with r assms(1) show "case_keys (row_save pc_id c' cs)" by (simp add: case_keys_def)
qed

lemma resolved_row_keys:
  assumes "resolved_row kind k ref m cu new_row raced db c db1" "case_keys (db_cases db @ raced)"
    and "snd new_row \<notin> pc_id ` set (db_cases db @ raced)"
  shows "case_keys (db_cases db1)"
proof -
  have "case_keys (db_cases db)" using assms(2) by (simp add: case_keys_def)
  moreover have "case_keys (db_cases db @ raced @ [c])"
    if "c = new_case (snd new_row) ref m kind k cu (fst new_row)" "ref \<notin> pc_case_reference ` set (db_cases db @ raced)"
    using assms(2,3) that(2) by (subst that(1)) (auto simp: case_keys_def)
  ultimately show ?thesis
    using assms(1,2) unfolding resolved_row_def by (elim conjE disjE) (simp_all add: add_case_def row_add_def)
qed

lemma reconciled_keys:
  assumes "reconciled kind k ref m cu new_row raced truth reason db (x, db')" "case_keys (db_cases db @ raced)"
    and "snd new_row \<notin> pc_id ` set (db_cases db @ raced)"
    and "\<And>c. pc_id (truth c) = pc_id c" "\<And>c. pc_case_reference (truth c) = pc_case_reference c"
  shows "case_keys (db_cases db')"
proof -
  consider "db' = db" | c db1 d where "resolved_row kind k ref m cu new_row raced db c db1" "only_events_added db1 d"
      "db' = save_case (truth c) d"
    using assms(1) by (auto simp: reconciled_def)
  then show ?thesis
  proof cases
    case 1
    with assms(2) show ?thesis by (simp add: case_keys_def)
  next
    case 2
    have "case_keys (db_cases d)" "c \<in> set (db_cases d)"
      using resolved_row_keys [OF 2(1) assms(2,3)] 2(1) by (auto simp: only_events_addedD(1) [OF 2(2)] resolved_row_def)
    with case_keys_save(1) [OF this, of "truth c"] assms(4,5) 2(3) show ?thesis by (simp add: save_case_def)
  qed
qed

lemma reconcile_payment_InrD:
  assumes "reconcile_payment sha t new_row raced ev s db = Inr r"
  obtains ref where "we_payment_id ev = Some (sn_id s)" "deterministic_case_reference sha PaymentIdentity (sn_id s) = Inr ref"
    "reconciled PaymentIdentity (sn_id s) ref (or_unknown (we_account_id ev)) (py_or (sn_customer_id s) (we_customer_id ev)) new_row
      raced (payment_truth ev s t) (payment_reason (sn_status s) (we_event_type ev)) db r"
proof -
  obtain k where k: "we_payment_id ev = Some k" "sn_id s = k"
    using assms by (auto simp: reconcile_payment_def split: option.splits if_splits)
  obtain ref where "deterministic_case_reference sha PaymentIdentity k = Inr ref"
    using assms k by (auto simp: reconcile_payment_def lock_case_by_identity_def sbind_eq_Inr_iff)
  with reconcile_payment_total [OF k this, of t new_row raced db] assms k show thesis by (intro that) auto
qed

lemma reconcile_subscription_InrD:
  assumes "reconcile_subscription sha t new_row raced ev s db = Inr r"
  obtains ref where "we_subscription_id ev = Some (ss_id s)"
    "deterministic_case_reference sha SubscriptionIdentity (ss_id s) = Inr ref"
    "reconciled SubscriptionIdentity (ss_id s) ref (or_unknown (we_account_id ev)) (py_or (ss_customer_id s) (we_customer_id ev))
      new_row raced (subscription_truth s t) (subscription_reason (ss_status s)) db r"
proof -
  obtain k where k: "we_subscription_id ev = Some k" "ss_id s = k"
    using assms by (auto simp: reconcile_subscription_def split: option.splits if_splits)
  obtain ref where "deterministic_case_reference sha SubscriptionIdentity k = Inr ref"
    using assms k by (auto simp: reconcile_subscription_def lock_case_by_identity_def sbind_eq_Inr_iff)
  with reconcile_subscription_total [OF k this, of t new_row raced db] assms k show thesis by (intro that) auto
qed

lemma reconciled_found:
  assumes "reconciled kind k ref m cu new_row raced truth reason db ((Some cid, why), db')"
    and "\<And>c. pc_id (truth c) = pc_id c" "\<And>c. pc_case_reference (truth c) = pc_case_reference c"
    and "case_keys (db_cases db')"
  shows "\<exists>c. find_case cid db' = Some c \<and> pc_case_reference c = ref"
proof -
  obtain c db1 d where r: "resolved_row kind k ref m cu new_row raced db c db1" "only_events_added db1 d"
      "db' = save_case (truth c) d" "cid = pc_id c"
    using assms(1) by (auto simp: reconciled_def)
  then have "c \<in> set (db_cases d)" by (auto simp: resolved_row_def only_events_addedD(1))
  then have "find_case cid d \<noteq> None" using r(4) by (auto simp: cases_table.lookup_None_iff)
  with r assms(2) have "find_case cid db' = Some (truth c)" by (simp add: cases_table.lookup_save)
  with r(1) assms(3) show ?thesis by (auto simp: resolved_row_def)
qed

section \<open>Properties\<close>

definition failed_payment :: payment_snapshot where
  "failed_payment = \<lparr>sn_id = ''p1'', sn_status = ''failed'', sn_amount = 5000, sn_currency = ''INR'', sn_customer_id = None,
     sn_order_id = None, sn_subscription_id = None, sn_method = Some ''card'', sn_error_code = None,
     sn_error_description = None, sn_error_source = Some ''customer'', sn_error_step = None,
     sn_error_reason = Some ''incorrect_otp'', sn_created_at = None\<rparr>"

definition halted_subscription :: subscription_snapshot where
  "halted_subscription = \<lparr>ss_id = ''s1'', ss_status = ''halted'', ss_customer_id = None, ss_current_start = None,
     ss_current_end = None, ss_charge_at = None, ss_paid_count = None, ss_remaining_count = None,
     ss_customer_notify = None, ss_payment_method = None, ss_created_at = None\<rparr>"

definition failed_event :: webhook_event where
  "failed_event = \<lparr>we_id = 3, we_razorpay_event_id = ''evt_1'', we_event_type = ''payment.failed'', we_account_id = Some ''acc'',
     we_payment_id = Some ''p1'', we_subscription_id = None, we_customer_id = None, we_raw_payload = JObj [],
     we_payload_hash = ''h'', we_raw_body_sha256 = Some ''h'', we_signature_verified = True, we_received_at = sample_time,
     we_processing_status = EventProcessingStatus.RECEIVED, we_processing_started_at = None,
     we_processing_attempt_count = 0, we_processed_at = None, we_processing_error = None\<rparr>"




lemma payment_keeps_keys:
  assumes "case_keys (db_cases db @ raced)" "snd new_row \<notin> pc_id ` set (db_cases db @ raced)"
    and "reconcile_payment sha t new_row raced ev s db = Inr ((cid, reason), db')"
  shows "case_keys (db_cases db') \<and> (\<forall>k \<in> set_option cid. \<exists>c. find_case k db' = Some c \<and>
    deterministic_case_reference sha PaymentIdentity (sn_id s) = Inr (pc_case_reference c))"
proof -
  obtain ref where ref: "deterministic_case_reference sha PaymentIdentity (sn_id s) = Inr ref"
    and r: "reconciled PaymentIdentity (sn_id s) ref (or_unknown (we_account_id ev)) (py_or (sn_customer_id s) (we_customer_id ev))
      new_row raced (payment_truth ev s t) (payment_reason (sn_status s) (we_event_type ev)) db ((cid, reason), db')"
    by (rule reconcile_payment_InrD [OF assms(3)])
  have keys: "case_keys (db_cases db')" by (rule reconciled_keys [OF r assms(1,2)]) simp_all
  from reconciled_found [OF _ truth_id(1,2) this] r ref keys show ?thesis by fastforce
qed

lemma subscription_keeps_keys:
  assumes "case_keys (db_cases db @ raced)" "snd new_row \<notin> pc_id ` set (db_cases db @ raced)"
    and "reconcile_subscription sha t new_row raced ev u db = Inr ((cid, reason), db')"
  shows "case_keys (db_cases db') \<and> (\<forall>k \<in> set_option cid. \<exists>c. find_case k db' = Some c \<and>
    deterministic_case_reference sha SubscriptionIdentity (ss_id u) = Inr (pc_case_reference c))"
proof -
  obtain ref where ref: "deterministic_case_reference sha SubscriptionIdentity (ss_id u) = Inr ref"
    and r: "reconciled SubscriptionIdentity (ss_id u) ref (or_unknown (we_account_id ev)) (py_or (ss_customer_id u) (we_customer_id ev))
      new_row raced (subscription_truth u t) (subscription_reason (ss_status u)) db ((cid, reason), db')"
    by (rule reconcile_subscription_InrD [OF assms(3)])
  have keys: "case_keys (db_cases db')" by (rule reconciled_keys [OF r assms(1,2)]) simp_all
  from reconciled_found [OF _ truth_id(3,4) this] r ref keys show ?thesis by fastforce
qed

text \<open>
  C17. One case for each payment and subscription. If ids and references are unique, counting the
  cases that other transactions commit meanwhile, and the id of a new row is fresh, the same holds
  after a reconciliation; and the case it returns is in the table under the entity's reference,
  where the next event about the entity finds it.
\<close>

theorem one_case_per_entity:
  assumes "case_keys (db_cases db @ raced)" "snd new_row \<notin> pc_id ` set (db_cases db @ raced)"
    and "reconcile_payment sha t new_row raced ev s db = Inr ((cid, reason), db1)"
    and "reconcile_subscription sha t new_row raced ev2 u db = Inr ((cid2, reason2), db2)"
  shows "case_keys (db_cases db1) \<and> case_keys (db_cases db2) \<and>
    (\<forall>k. cid = Some k \<longrightarrow> (\<exists>c. find_case k db1 = Some c \<and>
       deterministic_case_reference sha PaymentIdentity (sn_id s) = Inr (pc_case_reference c))) \<and>
    (\<forall>k. cid2 = Some k \<longrightarrow> (\<exists>c. find_case k db2 = Some c \<and>
       deterministic_case_reference sha SubscriptionIdentity (ss_id u) = Inr (pc_case_reference c)))"
  using payment_keeps_keys [OF assms(1-3)] subscription_keeps_keys [OF assms(1,2,4)] by simp

theorem one_case_per_entity_witness:
  "\<exists>db' reason. reconcile_payment fixed_sha claim_time (claim_time, 8) [] failed_event failed_payment empty_db =
     Inr ((Some 8, reason), db') \<and> case_keys (db_cases db') \<and> find_case 8 db' \<noteq> None"
proof -
  let ?run = "reconcile_payment fixed_sha claim_time (claim_time, 8) [] failed_event failed_payment empty_db"
  have "case ?run of Inl _ \<Rightarrow> False | Inr ((cid, _), _) \<Rightarrow> cid = Some 8" by code_simp
  then obtain reason db' where run: "?run = Inr ((Some 8, reason), db')" by (cases ?run) auto
  let ?sub = "reconcile_subscription fixed_sha claim_time (claim_time, 8) [] (failed_event\<lparr>we_subscription_id := Some ''s1''\<rparr>)
    halted_subscription empty_db"
  have "case ?sub of Inl _ \<Rightarrow> False | Inr _ \<Rightarrow> True" by code_simp
  then obtain cid2 reason2 db2 where sub: "?sub = Inr ((cid2, reason2), db2)" by (cases ?sub) auto
  have "case_keys (db_cases empty_db @ [])" "snd (claim_time, 8 :: uuid) \<notin> pc_id ` set (db_cases empty_db @ [])" by code_simp+
  from one_case_per_entity [OF this run sub] run show ?thesis by auto
qed

end
