(* ===== verification/Arc_Webhook_Payload.thy ===== *)
theory Arc_Webhook_Payload
  imports Arc_State_Machine
begin

text \<open>
  What ARC reads of a webhook (\<open>arc/integrations/razorpay/webhook_payload.py\<close>) and how it checks
  that the provider sent it (\<open>arc/integrations/razorpay/webhook_security.py\<close>). \<open>hmac\<close> is the
  hexadecimal HMAC-SHA256 of a body under a secret.
\<close>

section \<open>Envelope\<close>

definition SUPPORTED_RAZORPAY_EVENTS :: "string set" where
  "SUPPORTED_RAZORPAY_EVENTS = {''payment.failed'', ''payment.captured'', ''subscription.pending'',
     ''subscription.halted'', ''payment_link.paid'', ''payment_link.cancelled'', ''payment_link.expired'',
     ''payment_link.partially_paid''}"

record normalized_webhook =
  nw_event_type :: string
  nw_account_id :: "string option"
  nw_payment_id :: "string option"
  nw_subscription_id :: "string option"
  nw_customer_id :: "string option"
  nw_raw_payload :: json

definition supported :: "normalized_webhook \<Rightarrow> bool" where
  "supported n \<longleftrightarrow> nw_event_type n \<in> SUPPORTED_RAZORPAY_EVENTS"

text \<open>\<open>d.get(k)\<close>, and the mapping a value is, the empty one when it is none.\<close>

definition get_key :: "string \<Rightarrow> json_dict \<Rightarrow> json option" where
  "get_key k d = map_of d k"

fun as_mapping :: "json option \<Rightarrow> json_dict option" where
  "as_mapping (Some (JObj d)) = Some d"
| "as_mapping _ = None"

definition entity :: "json_dict \<Rightarrow> string \<Rightarrow> json_dict" where
  "entity payload entity_name = (case as_mapping (get_key ''payload'' payload) of
       None \<Rightarrow> []
     | Some payload_section \<Rightarrow> (case as_mapping (get_key entity_name payload_section) of
         None \<Rightarrow> []
       | Some entity_wrapper \<Rightarrow> (case as_mapping (get_key ''entity'' entity_wrapper) of None \<Rightarrow> [] | Some e \<Rightarrow> e)))"

definition identifier_within :: "nat \<Rightarrow> json option \<Rightarrow> string option" where
  "identifier_within max_length value = (case value of
       Some (JStr s) \<Rightarrow> if s = [] \<or> max_length < length s then None else Some s
     | _ \<Rightarrow> None)"

definition identifier_of :: "json option \<Rightarrow> string option" where
  "identifier_of = identifier_within 100"

definition normalize_webhook_payload :: "json \<Rightarrow> arc_error + normalized_webhook" where
  "normalize_webhook_payload payload = (case payload of
     JObj d \<Rightarrow>
       (case get_key ''event'' d of
          Some (JStr event_type) \<Rightarrow>
            if event_type = [] \<or> 100 < length event_type
            then Inl (InvalidWebhookPayload ''Webhook event must be a non-empty string'')
            else if as_mapping (get_key ''payload'' d) = None
            then Inl (InvalidWebhookPayload ''Webhook payload must be an object'')
            else
              let payment = entity d ''payment''; subscription = entity d ''subscription''; customer = entity d ''customer''
              in Inr \<lparr>nw_event_type = event_type, nw_account_id = identifier_of (get_key ''account_id'' d),
                   nw_payment_id = identifier_of (get_key ''id'' payment),
                   nw_subscription_id = py_or (identifier_of (get_key ''id'' subscription))
                     (identifier_of (get_key ''subscription_id'' payment)),
                   nw_customer_id = py_or (py_or (identifier_of (get_key ''customer_id'' payment))
                     (identifier_of (get_key ''customer_id'' subscription))) (identifier_of (get_key ''id'' customer)),
                   nw_raw_payload = payload\<rparr>
        | _ \<Rightarrow> Inl (InvalidWebhookPayload ''Webhook event must be a non-empty string''))
   | _ \<Rightarrow> Inl (InvalidWebhookPayload ''Webhook JSON must be an object''))"

record payment_link_reference =
  lr_payment_link_id :: "string option"
  lr_reference_id :: "string option"

definition extract_payment_link_webhook_reference :: "json \<Rightarrow> payment_link_reference" where
  "extract_payment_link_webhook_reference payload = (case payload of
       JObj d \<Rightarrow> (let payment_link = entity d ''payment_link'' in
         \<lparr>lr_payment_link_id = identifier_of (get_key ''id'' payment_link),
          lr_reference_id = identifier_within 40 (get_key ''reference_id'' payment_link)\<rparr>)
     | _ \<Rightarrow> \<lparr>lr_payment_link_id = None, lr_reference_id = None\<rparr>)"

section \<open>Signatures\<close>

definition is_ascii :: "string \<Rightarrow> bool" where
  "is_ascii s \<longleftrightarrow> list_all (\<lambda>c. py_ord c < 128) s"

definition verify_webhook_signature ::
  "(string \<Rightarrow> string \<Rightarrow> string) \<Rightarrow> string \<Rightarrow> string \<Rightarrow> string \<Rightarrow> bool" where
  "verify_webhook_signature hmac raw_body received_signature secret =
    (if \<not> is_ascii received_signature then False else hmac secret raw_body = received_signature)"

definition verify_webhook_signature_with_rotation ::
  "(string \<Rightarrow> string \<Rightarrow> string) \<Rightarrow> string \<Rightarrow> string \<Rightarrow> string \<Rightarrow> string option \<Rightarrow> bool" where
  "verify_webhook_signature_with_rotation hmac raw_body received_signature current_secret previous_secret =
    (let current_matches = verify_webhook_signature hmac raw_body received_signature current_secret;
         previous_matches = (case previous_secret of
             None \<Rightarrow> False
           | Some p \<Rightarrow> if p = [] then False else verify_webhook_signature hmac raw_body received_signature p)
     in current_matches \<or> previous_matches)"

definition hash_raw_body :: "(string \<Rightarrow> string) \<Rightarrow> string \<Rightarrow> string" where
  "hash_raw_body sha raw_body = sha raw_body"

section \<open>Facts\<close>

lemma identifier_within_Some:
  "identifier_within n v = Some s \<longleftrightarrow> v = Some (JStr s) \<and> s \<noteq> [] \<and> length s \<le> n"
  by (auto simp: identifier_within_def split: option.splits json.splits)

lemma identifier_Some: "identifier_of v = Some s \<longleftrightarrow> v = Some (JStr s) \<and> s \<noteq> [] \<and> length s \<le> 100"
  by (simp add: identifier_of_def identifier_within_Some)

definition bounded_column :: "string option \<Rightarrow> bool" where
  "bounded_column v \<longleftrightarrow> v \<noteq> Some [] \<and> (\<forall>s \<in> set_option v. length s \<le> 100)"

lemma bounded_identifier_column: "bounded_column (identifier_of v)"
  by (cases "identifier_of v") (auto simp: bounded_column_def identifier_Some)

lemma bounded_py_or: "bounded_column a \<Longrightarrow> bounded_column b \<Longrightarrow> bounded_column (py_or a b)"
  by (cases a) (auto simp: py_or_def)

lemma normalized_bounds:
  assumes "normalize_webhook_payload v = Inr n"
  shows "nw_event_type n \<noteq> []" "length (nw_event_type n) \<le> 100" "nw_raw_payload n = v" "bounded_column (nw_account_id n)"
    "bounded_column (nw_payment_id n)" "bounded_column (nw_subscription_id n)" "bounded_column (nw_customer_id n)"
  using assms
  by (auto simp: normalize_webhook_payload_def Let_def bounded_identifier_column bounded_py_or
      split: json.splits option.splits if_splits)

lemma verified_iff:
  "verify_webhook_signature_with_rotation hmac body sig current previous \<longleftrightarrow> is_ascii sig \<and>
     (sig = hmac current body \<or> (\<exists>p. previous = Some p \<and> p \<noteq> [] \<and> sig = hmac p body))"
  by (auto simp: verify_webhook_signature_with_rotation_def verify_webhook_signature_def split: option.splits)

end
