(* ===== verification/Arc_Webhooks.thy ===== *)
theory Arc_Webhooks
  imports Arc_Reconciliation Arc_Webhook_Payload Arc_Leases
begin

text \<open>
  The processing of a stored webhook event (\<open>arc/reconciliation/service.py\<close>): a claim under a lease
  of 120 seconds, a read of the provider without a lock, and the application of what was read by
  the worker that still holds the claim.
\<close>

section \<open>Claims\<close>

definition MAX_PROCESSING_ERROR_LENGTH :: nat where
  "MAX_PROCESSING_ERROR_LENGTH = 256"

definition PROCESSING_LEASE :: int where
  "PROCESSING_LEASE = seconds 120"

record processing_result =
  wp_event_id :: uuid
  wp_processing_status :: EventProcessingStatus
  wp_case_id :: "uuid option"
  wp_reason_code :: string
  wp_idempotent :: bool

record claimed_event =
  wc_id :: uuid
  wc_razorpay_event_id :: string
  wc_event_type :: string
  wc_account_id :: "string option"
  wc_payment_id :: "string option"
  wc_subscription_id :: "string option"
  wc_customer_id :: "string option"
  wc_processing_attempt_count :: int
  wc_raw_payload :: json

definition webhook_not_found :: "arc_error + 'a" where
  "webhook_not_found = Inl (WebhookEventNotFoundError ''Webhook event was not found'')"

definition has_fresh_processing_lease :: "webhook_event \<Rightarrow> py_datetime \<Rightarrow> bool" where
  "has_fresh_processing_lease event claim_started_at \<longleftrightarrow>
     we_processing_status event = EventProcessingStatus.PROCESSING \<and>
     (case we_processing_started_at event of None \<Rightarrow> False
      | Some t \<Rightarrow> dt_aware t \<and> dt_less (dt_add claim_started_at (- PROCESSING_LEASE)) t)"

definition start_processing :: "py_datetime \<Rightarrow> webhook_event \<Rightarrow> webhook_event" where
  "start_processing claim_started_at event =
     event\<lparr>we_processing_status := EventProcessingStatus.PROCESSING, we_processing_started_at := Some claim_started_at,
       we_processing_attempt_count := we_processing_attempt_count event + 1, we_processed_at := None,
       we_processing_error := None\<rparr>"

definition claimed_of :: "webhook_event \<Rightarrow> claimed_event" where
  "claimed_of event = \<lparr>wc_id = we_id event, wc_razorpay_event_id = we_razorpay_event_id event,
     wc_event_type = we_event_type event, wc_account_id = we_account_id event, wc_payment_id = we_payment_id event,
     wc_subscription_id = we_subscription_id event, wc_customer_id = we_customer_id event,
     wc_processing_attempt_count = we_processing_attempt_count event, wc_raw_payload = we_raw_payload event\<rparr>"

definition idempotent_result :: "webhook_event \<Rightarrow> uuid option \<Rightarrow> string \<Rightarrow> processing_result" where
  "idempotent_result event case_id reason_code =
     \<lparr>wp_event_id = we_id event, wp_processing_status = we_processing_status event, wp_case_id = case_id,
      wp_reason_code = reason_code, wp_idempotent = True\<rparr>"

definition claim_found ::
  "py_datetime \<Rightarrow> webhook_event \<Rightarrow> arc_db \<Rightarrow> (processing_result + claimed_event) \<times> arc_db" where
  "claim_found claim_started_at event db =
    (if we_processing_status event = EventProcessingStatus.UNSUPPORTED \<or>
        we_event_type event \<notin> SUPPORTED_RAZORPAY_EVENTS then
       let event' = event\<lparr>we_processing_status := EventProcessingStatus.UNSUPPORTED\<rparr>
       in (Inl (idempotent_result event' None ''UNSUPPORTED_EVENT''),
           if we_processing_status event \<noteq> EventProcessingStatus.UNSUPPORTED then save_webhook event' db else db)
     else if we_processing_status event = EventProcessingStatus.PROCESSED then
       (Inl (idempotent_result event None ''EVENT_ALREADY_PROCESSED''), db)
     else if has_fresh_processing_lease event claim_started_at then
       (Inl (idempotent_result event None ''EVENT_ALREADY_PROCESSING''), db)
     else let event' = start_processing claim_started_at event
          in (Inr (claimed_of event'), save_webhook event' db))"

definition claim_event ::
  "py_datetime \<Rightarrow> uuid \<Rightarrow> arc_db \<Rightarrow> (arc_error + processing_result + claimed_event) \<times> arc_db" where
  "claim_event claim_started_at event_id db = (case find_webhook event_id db of
       None \<Rightarrow> (webhook_not_found, db)
     | Some event \<Rightarrow> let (r, db') = claim_found claim_started_at event db in (Inr r, db'))"

section \<open>Finishing\<close>

text \<open>
  The three transactions that finish a claim begin alike: the event is locked, and one that was
  processed, or claimed again by another worker, is left alone.
\<close>

definition superseded :: "claimed_event \<Rightarrow> uuid option \<Rightarrow> webhook_event \<Rightarrow> processing_result option" where
  "superseded claimed case_id event =
    (if we_processing_status event = EventProcessingStatus.PROCESSED
     then Some (idempotent_result event case_id ''EVENT_ALREADY_PROCESSED'')
     else if we_processing_attempt_count event \<noteq> wc_processing_attempt_count claimed
     then Some (idempotent_result event None ''EVENT_PROCESSING_CLAIM_SUPERSEDED'')
     else None)"

definition processed_event :: "py_datetime \<Rightarrow> webhook_event \<Rightarrow> webhook_event" where
  "processed_event processed_at event =
     event\<lparr>we_processing_status := EventProcessingStatus.PROCESSED, we_processed_at := Some processed_at,
       we_processing_error := None\<rparr>"

definition processed_result :: "webhook_event \<Rightarrow> uuid option \<Rightarrow> string \<Rightarrow> processing_result" where
  "processed_result event case_id reason_code =
     \<lparr>wp_event_id = we_id event, wp_processing_status = EventProcessingStatus.PROCESSED, wp_case_id = case_id,
      wp_reason_code = reason_code, wp_idempotent = False\<rparr>"

definition mark_processed_without_case ::
  "claimed_event \<Rightarrow> string \<Rightarrow> uuid option \<Rightarrow> py_datetime \<Rightarrow> arc_db \<Rightarrow> (arc_error + processing_result) \<times> arc_db" where
  "mark_processed_without_case claimed reason_code case_id processed_at db = transaction db
    (case find_webhook (wc_id claimed) db of
       None \<Rightarrow> webhook_not_found
     | Some event \<Rightarrow> (case superseded claimed case_id event of
         Some r \<Rightarrow> Inr (r, db)
       | None \<Rightarrow>
         if we_processing_status event \<noteq> EventProcessingStatus.PROCESSING
         then Inl (WebhookProcessingError ''Webhook event is not available for outcome processing'')
         else Inr (processed_result event case_id reason_code, save_webhook (processed_event processed_at event) db)))"

datatype entity_snapshot = PaymentEntity payment_snapshot | SubscriptionEntity subscription_snapshot

definition apply_reconciliation ::
  "(string \<Rightarrow> string) \<Rightarrow> claimed_event \<Rightarrow> entity_snapshot \<Rightarrow> py_datetime \<Rightarrow> py_datetime \<times> uuid \<Rightarrow> payment_case list \<Rightarrow>
     py_datetime \<Rightarrow> arc_db \<Rightarrow> (arc_error + processing_result) \<times> arc_db" where
  "apply_reconciliation sha claimed s reconciled_at new_row raced processed_at db = transaction db
    (case find_webhook (wc_id claimed) db of
       None \<Rightarrow> webhook_not_found
     | Some event \<Rightarrow> (case superseded claimed None event of
         Some r \<Rightarrow> Inr (r, db)
       | None \<Rightarrow>
         if we_processing_status event \<noteq> EventProcessingStatus.PROCESSING
         then Inl (WebhookProcessingError ''Webhook event is not available for reconciliation'')
         else sbind (case s of
                PaymentEntity p \<Rightarrow> reconcile_payment sha reconciled_at new_row raced event p db
              | SubscriptionEntity u \<Rightarrow> reconcile_subscription sha reconciled_at new_row raced event u db)
            (\<lambda>((case_id, reason_code), db1).
               Inr (processed_result event case_id reason_code, save_webhook (processed_event processed_at event) db1))))"

definition mark_failed ::
  "claimed_event \<Rightarrow> string \<Rightarrow> py_datetime \<Rightarrow> arc_db \<Rightarrow> (arc_error + processing_result) \<times> arc_db" where
  "mark_failed claimed safe_error processed_at db = transaction db
    (case find_webhook (wc_id claimed) db of
       None \<Rightarrow> webhook_not_found
     | Some event \<Rightarrow> (case superseded claimed None event of
         Some r \<Rightarrow> Inr (r, db)
       | None \<Rightarrow>
         let event' = event\<lparr>we_processing_status := EventProcessingStatus.FAILED,
               we_processing_error := Some (take MAX_PROCESSING_ERROR_LENGTH safe_error), we_processed_at := Some processed_at\<rparr>
         in Inr (\<lparr>wp_event_id = we_id event, wp_processing_status = EventProcessingStatus.FAILED, wp_case_id = None,
                  wp_reason_code = ''RECONCILIATION_FAILED'', wp_idempotent = False\<rparr>, save_webhook event' db)))"

text \<open>The exception handlers of the processor, in their order.\<close>

fun safe_error_text :: "arc_error \<Rightarrow> string" where
  "safe_error_text (CasePersistenceError m) = m"
| "safe_error_text (WebhookProcessingError m) = m"
| "safe_error_text (WebhookEventNotFoundError m) = m"
| "safe_error_text (IntegrityError m) = ''ARC database reconciliation failed''"
| "safe_error_text e = (if is_razorpay_client_error e then error_text e else ''Webhook reconciliation failed safely'')"

section \<open>Processing\<close>

definition starts_with :: "string \<Rightarrow> string \<Rightarrow> bool" where
  "starts_with prefix s \<longleftrightarrow> take (length prefix) s = prefix"

definition fetch_authoritative_entity ::
  "'w entity_reader \<Rightarrow> claimed_event \<Rightarrow> 'w \<Rightarrow> (arc_error + entity_snapshot) \<times> 'w" where
  "fetch_authoritative_entity reader event w =
    (if starts_with ''payment.'' (wc_event_type event) then
       (case wc_payment_id event of
          None \<Rightarrow> (Inl (WebhookProcessingError ''Payment webhook is missing a payment identifier''), w)
        | Some k \<Rightarrow> map_prod (\<lambda>r. sbind r (\<lambda>s. Inr (PaymentEntity s))) id (er_fetch_payment reader k w))
     else
       (case wc_subscription_id event of
          None \<Rightarrow> (Inl (WebhookProcessingError ''Subscription webhook is missing a subscription identifier''), w)
        | Some k \<Rightarrow> map_prod (\<lambda>r. sbind r (\<lambda>s. Inr (SubscriptionEntity s))) id (er_fetch_subscription reader k w)))"

definition matching_actions :: "payment_link_reference \<Rightarrow> arc_db \<Rightarrow> uuid list" where
  "matching_actions reference db = remdups (map ra_id (filter (\<lambda>a.
     lr_payment_link_id reference \<noteq> None \<and> ra_external_reference_id a = lr_payment_link_id reference \<or>
     lr_reference_id reference \<noteq> None \<and> ra_external_reference a = lr_reference_id reference) (db_actions db)))"

text \<open>
  \<open>observe\<close> is the observer given, or the outcome service. Its own transactions are finished when
  it returns.
\<close>

type_synonym 'w outcome_observer =
  "uuid \<Rightarrow> OutcomeObservationSource \<Rightarrow> 'w \<Rightarrow> arc_db \<Rightarrow> (arc_error + outcome_result) \<times> arc_db \<times> 'w"

definition process_payment_link_event ::
  "'w outcome_observer \<Rightarrow> claimed_event \<Rightarrow> py_datetime \<Rightarrow> 'w \<Rightarrow> arc_db \<Rightarrow> (arc_error + processing_result) \<times> arc_db \<times> 'w" where
  "process_payment_link_event observe claimed processed_at w db =
    (let reference = extract_payment_link_webhook_reference (wc_raw_payload claimed) in
     if lr_payment_link_id reference = None \<and> lr_reference_id reference = None then
       (Inl (WebhookProcessingError ''Payment Link webhook is missing stable identifiers''), db, w)
     else case matching_actions reference db of
       [] \<Rightarrow> (let (r, db1) = mark_processed_without_case claimed ''UNMATCHED_RECOVERY_PAYMENT_LINK_EVENT'' None
                processed_at db in (r, db1, w))
     | [action_id] \<Rightarrow> (case observe action_id OutcomeObservationSource.WEBHOOK_TRIGGERED w db of
         (Inl e, db1, w1) \<Rightarrow> (Inl e, db1, w1)
       | (Inr outcome, db1, w1) \<Rightarrow>
           (let (r, db2) = mark_processed_without_case claimed (or_reason_code outcome) (Some (or_case_id outcome))
                  processed_at db1 in (r, db2, w1)))
     | _ \<Rightarrow> (Inl (WebhookProcessingError ''Payment Link webhook action match is ambiguous''), db, w))"

text \<open>
  One call. \<open>clocks\<close> are the clock's readings at the claim, at the reconciliation and at the end;
  \<open>others\<close> is what other transactions commit while the provider is read.
\<close>

definition process_claimed ::
  "(string \<Rightarrow> string) \<Rightarrow> 'w entity_reader \<Rightarrow> 'w outcome_observer \<Rightarrow> claimed_event \<Rightarrow> py_datetime \<times> py_datetime \<Rightarrow>
     py_datetime \<times> uuid \<Rightarrow> payment_case list \<Rightarrow> (arc_db \<Rightarrow> arc_db) \<Rightarrow> 'w \<Rightarrow> arc_db \<Rightarrow>
     (arc_error + processing_result) \<times> arc_db \<times> 'w" where
  "process_claimed sha reader observe claimed clocks new_row raced others w db =
    (if starts_with ''payment_link.'' (wc_event_type claimed) then
       process_payment_link_event observe claimed (snd clocks) w db
     else case fetch_authoritative_entity reader claimed w of
       (Inl e, w1) \<Rightarrow> (Inl e, others db, w1)
     | (Inr s, w1) \<Rightarrow>
         (let (r, db1) = apply_reconciliation sha claimed s (fst clocks) new_row raced (snd clocks) (others db)
          in (r, db1, w1)))"

definition process_webhook_event ::
  "(string \<Rightarrow> string) \<Rightarrow> 'w entity_reader \<Rightarrow> 'w outcome_observer \<Rightarrow> uuid \<Rightarrow> py_datetime \<times> py_datetime \<times> py_datetime \<Rightarrow>
     py_datetime \<times> uuid \<Rightarrow> payment_case list \<Rightarrow> (arc_db \<Rightarrow> arc_db) \<Rightarrow> 'w \<Rightarrow> arc_db \<Rightarrow>
     (arc_error + processing_result) \<times> arc_db \<times> 'w" where
  "process_webhook_event sha reader observe event_id clocks new_row raced others w db =
    (case claim_event (fst clocks) event_id db of
       (Inl e, db1) \<Rightarrow> (Inl e, db1, w)
     | (Inr (Inl r), db1) \<Rightarrow> (Inr r, db1, w)
     | (Inr (Inr claimed), db1) \<Rightarrow>
       (case process_claimed sha reader observe claimed (snd clocks) new_row raced others w db1 of
          (Inr r, db2, w1) \<Rightarrow> (Inr r, db2, w1)
        | (Inl e, db2, w1) \<Rightarrow>
            (let (r, db3) = mark_failed claimed (safe_error_text e) (snd (snd clocks)) db2 in (r, db3, w1))))"

section \<open>Facts\<close>

interpretation processing_lease: leased start_processing has_fresh_processing_lease we_processing_attempt_count PROCESSING_LEASE
  by unfold_locales (auto simp: has_fresh_processing_lease_def start_processing_def PROCESSING_LEASE_def seconds_def dt_less_def)

lemma start_processing_sel [simp]: "we_id (start_processing t e) = we_id e" "we_event_type (start_processing t e) = we_event_type e"
  "we_processing_status (start_processing t e) = EventProcessingStatus.PROCESSING"
  by (simp_all add: start_processing_def)

lemma processed_event_sel [simp]: "we_id (processed_event t e) = we_id e" "we_event_type (processed_event t e) = we_event_type e"
  "we_processing_status (processed_event t e) = EventProcessingStatus.PROCESSED"
  by (simp_all add: processed_event_def)

lemma webhook_saved: "find_webhook k db = Some e0 \<Longrightarrow> we_id e = k \<Longrightarrow> find_webhook k (save_webhook e db) = Some e"
  by (rule webhook_events_table.lookup_saved)

lemma claim_event_claimed:
  assumes "claim_event t k db = (Inr (Inr claimed), db1)"
  obtains e where "find_webhook k db = Some e" "we_event_type e \<in> SUPPORTED_RAZORPAY_EVENTS"
    "we_processing_status e \<noteq> EventProcessingStatus.PROCESSED" "\<not> has_fresh_processing_lease e t"
    "claimed = claimed_of (start_processing t e)" "db1 = save_webhook (start_processing t e) db" "we_id e = k"
    "find_webhook k db1 = Some (start_processing t e)"
proof -
  from assms obtain e where e: "find_webhook k db = Some e" and c: "claim_found t e db = (Inr claimed, db1)"
    by (auto simp: claim_event_def webhook_not_found_def split: option.splits prod.splits)
  have id: "we_id e = k" using webhook_events_table.lookup_key [OF e] .
  from c have "we_event_type e \<in> SUPPORTED_RAZORPAY_EVENTS" "we_processing_status e \<noteq> EventProcessingStatus.PROCESSED"
    "\<not> has_fresh_processing_lease e t" "claimed = claimed_of (start_processing t e)"
    "db1 = save_webhook (start_processing t e) db"
    by (auto simp: claim_found_def Let_def split: if_splits)
  with e id webhook_saved [OF e, of "start_processing t e"] show thesis by (intro that [of e]) simp_all
qed

text \<open>A finishing transaction of a worker that has lost its claim.\<close>

lemma superseded_finish:
  assumes "find_webhook (wc_id claimed) db = Some e" "superseded claimed None e = Some r"
  shows "apply_reconciliation sha claimed s t new_row raced t' db = (Inr r, db)"
    "mark_failed claimed m t' db = (Inr r, db)"
    "\<exists>r'. mark_processed_without_case claimed why cid t' db = (Inr r', db) \<and> wp_idempotent r'"
  using assms by (auto simp: apply_reconciliation_def mark_failed_def mark_processed_without_case_def superseded_def
      idempotent_result_def split: if_splits)

text \<open>What a failure writes to the row of the event.\<close>

definition failed_processing :: "string \<Rightarrow> py_datetime \<Rightarrow> webhook_event \<Rightarrow> webhook_event" where
  "failed_processing m t e = e\<lparr>we_processing_status := EventProcessingStatus.FAILED, we_processing_error := Some m,
     we_processed_at := Some t\<rparr>"

lemma mark_failed_found:
  assumes "find_webhook (wc_id claimed) d = Some e"
  shows "\<exists>r d'. mark_failed claimed m t d = (Inr r, d') \<and>
    (wp_idempotent r \<or> d' = save_webhook (failed_processing (take 256 m) t e) d)"
proof (cases "superseded claimed None e")
  case (Some r)
  then have "wp_idempotent r" by (auto simp: superseded_def idempotent_result_def split: if_splits)
  with superseded_finish(2) [OF assms Some] show ?thesis by simp
next
  case None
  with assms show ?thesis by (simp add: mark_failed_def Let_def MAX_PROCESSING_ERROR_LENGTH_def failed_processing_def)
qed

lemma apply_reconciliation_cases:
  assumes "apply_reconciliation sha claimed s t new_row raced t' d = (r, d')"
  shows "case r of Inl e \<Rightarrow> d' = d | Inr x \<Rightarrow> wp_idempotent x \<or> wp_processing_status x = EventProcessingStatus.PROCESSED"
proof (cases r)
  case (Inl e)
  with assms show ?thesis unfolding apply_reconciliation_def by (auto dest: transaction_Inl_unchanged)
next
  case (Inr x)
  with assms show ?thesis
    unfolding apply_reconciliation_def
    by (auto simp: transaction_Inr_iff webhook_not_found_def superseded_def idempotent_result_def processed_result_def
        sbind_eq_Inr_iff split: option.splits if_splits)
qed

lemma mark_processed_result:
  "mark_processed_without_case claimed why cid t d = (r, d') \<Longrightarrow>
     (case r of Inl e \<Rightarrow> d' = d | Inr x \<Rightarrow> wp_idempotent x \<or> wp_processing_status x = EventProcessingStatus.PROCESSED)"
  by (auto simp: mark_processed_without_case_def webhook_not_found_def superseded_def idempotent_result_def
      processed_result_def split: option.splits if_splits)

lemma link_event_cases:
  assumes "process_payment_link_event observe claimed t w d = (r, d', w')"
  shows "case r of Inl e \<Rightarrow> d' = d \<or> (\<exists>a. d' = fst (snd (observe a OutcomeObservationSource.WEBHOOK_TRIGGERED w d)))
    | Inr x \<Rightarrow> wp_idempotent x \<or> wp_processing_status x = EventProcessingStatus.PROCESSED"
proof -
  consider e where "r = Inl e" "d' = d"
    | why cid where "mark_processed_without_case claimed why cid t d = (r, d')"
    | a e where "observe a OutcomeObservationSource.WEBHOOK_TRIGGERED w d = (Inl e, d', w')" "r = Inl e"
    | a x d0 why cid where "observe a OutcomeObservationSource.WEBHOOK_TRIGGERED w d = (Inr x, d0, w')"
        "mark_processed_without_case claimed why cid t d0 = (r, d')"
    using assms by (auto simp: process_payment_link_event_def Let_def split: if_splits list.splits prod.splits sum.splits)
  then show ?thesis
  proof cases
    case 2
    then show ?thesis by (auto dest: mark_processed_result split: sum.splits)
  next
    case (3 a e)
    then show ?thesis by (auto intro: exI [of _ a])
  next
    case (4 a x d0 why cid)
    then show ?thesis by (auto dest!: mark_processed_result intro: exI [of _ a] split: sum.splits)
  qed simp
qed

lemma process_claimed_cases:
  assumes "process_claimed sha reader observe claimed clocks new_row raced others w d = (r, d', w')"
  shows "case r of Inl e \<Rightarrow> if starts_with ''payment_link.'' (wc_event_type claimed)
        then d' = d \<or> (\<exists>a. d' = fst (snd (observe a OutcomeObservationSource.WEBHOOK_TRIGGERED w d))) else d' = others d
    | Inr x \<Rightarrow> wp_idempotent x \<or> wp_processing_status x = EventProcessingStatus.PROCESSED"
proof (cases "starts_with ''payment_link.'' (wc_event_type claimed)")
  case True
  with assms have "process_payment_link_event observe claimed (snd clocks) w d = (r, d', w')" by (simp add: process_claimed_def)
  from link_event_cases [OF this] True show ?thesis by (simp split: sum.splits)
next
  case False
  with assms show ?thesis
    by (cases "fetch_authoritative_entity reader claimed w"; cases "fst (fetch_authoritative_entity reader claimed w)")
      (auto simp: process_claimed_def split: prod.splits sum.splits dest!: apply_reconciliation_cases)
qed

section \<open>Properties\<close>

definition received_db :: arc_db where
  "received_db = empty_db\<lparr>db_webhook_events := [failed_event]\<rparr>"

text \<open>
  C15. The lease and its fence. For 120 seconds after a worker claimed an event, no other worker
  gets it, and trying changes nothing. After that another worker takes it over, and then whatever
  the first one wants to record, the reconciled truth, a failure, or the end of a payment link
  event, is refused: it is told so and nothing is written.
\<close>

theorem lease_fences:
  assumes claim: "claim_event t k db = (Inr (Inr claimed), db1)" and t: "dt_aware t"
  shows "(dt_us t2 < dt_us t + seconds 120 \<longrightarrow>
      (\<exists>r. claim_event t2 k db1 = (Inr (Inl r), db1) \<and> wp_reason_code r = ''EVENT_ALREADY_PROCESSING'')) \<and>
    (dt_us t + seconds 120 \<le> dt_us t2 \<longrightarrow>
      (\<exists>claimed2 db2 r. claim_event t2 k db1 = (Inr (Inr claimed2), db2) \<and>
        wp_reason_code r = ''EVENT_PROCESSING_CLAIM_SUPERSEDED'' \<and>
        apply_reconciliation sha claimed s t3 new_row raced t4 db2 = (Inr r, db2) \<and>
        mark_failed claimed m t4 db2 = (Inr r, db2) \<and>
        (\<exists>r'. mark_processed_without_case claimed why cid t4 db2 = (Inr r', db2) \<and> wp_idempotent r')))"
proof (intro conjI impI)
  obtain e where e: "we_event_type e \<in> SUPPORTED_RAZORPAY_EVENTS" "claimed = claimed_of (start_processing t e)"
    "we_id e = k" "find_webhook k db1 = Some (start_processing t e)" by (rule claim_event_claimed [OF claim])
  show "\<exists>r. claim_event t2 k db1 = (Inr (Inl r), db1) \<and> wp_reason_code r = ''EVENT_ALREADY_PROCESSING''"
    if "dt_us t2 < dt_us t + seconds 120"
    using e processing_lease.exclusive [OF t, of t2] that
    by (simp add: claim_event_def claim_found_def PROCESSING_LEASE_def idempotent_result_def)
  assume late: "dt_us t + seconds 120 \<le> dt_us t2"
  let ?e2 = "start_processing t2 (start_processing t e)" and ?db2 = "save_webhook (start_processing t2 (start_processing t e)) db1"
  have "\<not> has_fresh_processing_lease (start_processing t e) t2"
    using processing_lease.taken_over [OF t] late by (simp add: PROCESSING_LEASE_def)
  with e have c2: "claim_event t2 k db1 = (Inr (Inr (claimed_of ?e2)), ?db2)"
    by (simp add: claim_event_def claim_found_def Let_def)
  have f: "find_webhook (wc_id claimed) ?db2 = Some ?e2"
    using webhook_saved [OF e(4), of ?e2] e(2,3) by (simp add: claimed_of_def)
  have s: "superseded claimed None ?e2 = Some (idempotent_result ?e2 None ''EVENT_PROCESSING_CLAIM_SUPERSEDED'')"
    using e(2) by (simp add: superseded_def claimed_of_def start_processing_def)
  from c2 superseded_finish [OF f s]
  show "\<exists>claimed2 db2 r. claim_event t2 k db1 = (Inr (Inr claimed2), db2) \<and>
        wp_reason_code r = ''EVENT_PROCESSING_CLAIM_SUPERSEDED'' \<and>
        apply_reconciliation sha claimed s t3 new_row raced t4 db2 = (Inr r, db2) \<and>
        mark_failed claimed m t4 db2 = (Inr r, db2) \<and>
        (\<exists>r'. mark_processed_without_case claimed why cid t4 db2 = (Inr r', db2) \<and> wp_idempotent r')"
    by (intro exI [of _ "claimed_of ?e2"] exI [of _ ?db2]
        exI [of _ "idempotent_result ?e2 None ''EVENT_PROCESSING_CLAIM_SUPERSEDED''"]) (simp add: idempotent_result_def)
qed

theorem lease_fences_witness:
  "\<exists>claimed db1 r. claim_event sample_time 3 received_db = (Inr (Inr claimed), db1) \<and>
     claim_event claim_time 3 db1 = (Inr (Inl r), db1) \<and> wp_reason_code r = ''EVENT_ALREADY_PROCESSING''"
proof -
  have "case fst (claim_event sample_time 3 received_db) of Inr (Inr _) \<Rightarrow> True | _ \<Rightarrow> False" by code_simp
  then obtain claimed db1 where c: "claim_event sample_time 3 received_db = (Inr (Inr claimed), db1)"
    by (cases "claim_event sample_time 3 received_db") (auto split: sum.splits)
  have "dt_aware sample_time" "dt_us claim_time < dt_us sample_time + seconds 120" by code_simp+
  from lease_fences [OF c this(1)] this(2) c show ?thesis by blast
qed

text \<open>
  C16. Processing fails safely. For an event that is stored, and stays stored while the provider and
  the observer are asked, processing always returns a result, whatever they and the database
  constraints answer. If the result is a failure, then processing itself wrote nothing but two
  versions of the row of this event: the claim at the start and, at the end, the status FAILED,
  the time and an error of at most 256 characters. Everything else in the database is as it was,
  or as other transactions left it, those of the observer for a payment link event.
\<close>

theorem processing_fails_safely:
  assumes stored: "find_webhook k db \<noteq> None"
    and others: "\<And>d. find_webhook k d \<noteq> None \<Longrightarrow> find_webhook k (others d) \<noteq> None"
    and observer: "\<And>a src w d r d' w'. observe a src w d = (r, d', w') \<Longrightarrow> find_webhook k d \<noteq> None \<Longrightarrow> find_webhook k d' \<noteq> None"
  shows "\<exists>r db' w'. process_webhook_event sha reader observe k clocks new_row raced others w db = (Inr r, db', w') \<and>
    (wp_processing_status r = EventProcessingStatus.FAILED \<and> \<not> wp_idempotent r \<longrightarrow>
     (\<exists>e claimed_db d e' m. find_webhook k db = Some e \<and> claimed_db = save_webhook (start_processing (fst clocks) e) db \<and>
        (if starts_with ''payment_link.'' (we_event_type e)
         then d = claimed_db \<or> (\<exists>a. d = fst (snd (observe a OutcomeObservationSource.WEBHOOK_TRIGGERED w claimed_db)))
         else d = others claimed_db) \<and>
        find_webhook k d = Some e' \<and> length m \<le> 256 \<and>
        db' = save_webhook (e'\<lparr>we_processing_status := EventProcessingStatus.FAILED, we_processing_error := Some m,
          we_processed_at := Some (snd (snd clocks))\<rparr>) d))"
proof (cases "claim_event (fst clocks) k db")
  case (Pair c db1)
  obtain e where e: "find_webhook k db = Some e" using stored by auto
  consider (broken) err where "c = Inl err" | (refused) r where "c = Inr (Inl r)" | (claimed) claimed where "c = Inr (Inr claimed)"
    by (cases c) (auto, metis sum.exhaust)
  then show ?thesis
  proof cases
    case broken
    with Pair e show ?thesis by (auto simp: claim_event_def split: prod.splits)
  next
    case (refused r)
    with Pair e have "wp_idempotent r"
      by (auto simp: claim_event_def claim_found_def Let_def idempotent_result_def split: if_splits)
    with refused Pair show ?thesis by (simp add: process_webhook_event_def)
  next
    case (claimed claimed)
    with Pair have "claim_event (fst clocks) k db = (Inr (Inr claimed), db1)" by simp
    then obtain e1 where c: "claimed = claimed_of (start_processing (fst clocks) e)"
      "db1 = save_webhook (start_processing (fst clocks) e) db" "we_id e = k" "find_webhook k db1 = Some (start_processing (fst clocks) e)"
      by (rule claim_event_claimed) (use e in auto)
    have k: "wc_id claimed = k" "wc_event_type claimed = we_event_type e" using c by (simp_all add: claimed_of_def)
    obtain r1 db2 w1 where run: "process_claimed sha reader observe claimed (snd clocks) new_row raced others w db1 = (r1, db2, w1)"
      by (cases "process_claimed sha reader observe claimed (snd clocks) new_row raced others w db1") auto
    note left = process_claimed_cases [OF run, unfolded k(2)]
    show ?thesis
    proof (cases r1)
      case (Inr x)
      with Pair claimed run left show ?thesis by (auto simp: process_webhook_event_def)
    next
      case (Inl err)
      have "find_webhook k (fst (snd (observe a src w db1))) \<noteq> None" for a src
        using observer [of a src w db1] c(4) by (cases "observe a src w db1") auto
      then obtain e2 where e2: "find_webhook k db2 = Some e2"
        using left Inl others [of db1] c(4) by (auto split: if_splits)
      from mark_failed_found [of claimed db2 e2 "safe_error_text err" "snd (snd clocks)"] obtain r d' where
        f: "mark_failed claimed (safe_error_text err) (snd (snd clocks)) db2 = (Inr r, d')"
          "wp_idempotent r \<or> d' = save_webhook (failed_processing (take 256 (safe_error_text err)) (snd (snd clocks)) e2) db2"
        unfolding k using e2 by blast
      have p: "process_webhook_event sha reader observe k clocks new_row raced others w db = (Inr r, d', w1)"
        using Pair claimed run Inl f(1) by (simp add: process_webhook_event_def)
      have left: "if starts_with ''payment_link.'' (we_event_type e)
         then db2 = db1 \<or> (\<exists>a. db2 = fst (snd (observe a OutcomeObservationSource.WEBHOOK_TRIGGERED w db1))) else db2 = others db1"
        using left Inl by simp
      show ?thesis
        by (intro exI [of _ r] exI [of _ d'] exI [of _ w1] conjI [OF p] impI exI [of _ e] exI [of _ db1] exI [of _ db2]
            exI [of _ e2] exI [of _ "take 256 (safe_error_text err)"])
          (use e c(2) left e2 f(2) in \<open>auto simp: failed_processing_def\<close>)
    qed
  qed
qed

definition gone_reader :: "'w entity_reader" where
  "gone_reader = \<lparr>er_fetch_payment = (\<lambda>_ w. (Inl (RazorpayNotFoundError ''gone''), w)),
     er_fetch_subscription = (\<lambda>_ w. (Inl (RazorpayNotFoundError ''gone''), w))\<rparr>"

theorem processing_fails_safely_witness:
  "\<exists>e m. snd (process_webhook_event fixed_sha gone_reader (\<lambda>_ _ w d. (Inl (PyRuntimeError []), d, w)) 3
       (sample_time, claim_time, claim_time) (claim_time, 8) [] id () received_db) =
     (save_webhook (e\<lparr>we_processing_status := EventProcessingStatus.FAILED, we_processing_error := Some m,
        we_processed_at := Some claim_time\<rparr>) (save_webhook e received_db), ()) \<and> length m \<le> 256"
proof -
  let ?observe = "\<lambda>_ _ w d. (Inl (PyRuntimeError []), d, w)"
  have stored: "find_webhook 3 received_db \<noteq> None"
    and plain: "\<not> starts_with ''payment_link.'' (we_event_type failed_event)"
    and failed: "case fst (process_webhook_event fixed_sha gone_reader ?observe 3 (sample_time, claim_time, claim_time)
       (claim_time, 8) [] id () received_db) of
       Inr r \<Rightarrow> wp_processing_status r = EventProcessingStatus.FAILED \<and> \<not> wp_idempotent r | Inl _ \<Rightarrow> False"
    by code_simp+
  have id: "we_id (start_processing sample_time failed_event) = 3" "find_webhook 3 received_db = Some failed_event"
    by code_simp+
  from processing_fails_safely [OF stored, of id ?observe fixed_sha gone_reader "(sample_time, claim_time, claim_time)"
      "(claim_time, 8)" "[]" "()"] failed plain id webhook_saved [OF id(2,1)]
  show ?thesis by fastforce
qed

text \<open>The rows of the ledger: a transaction keeps each row and its immutable fields.\<close>

definition ledger_kept :: "arc_db \<Rightarrow> arc_db \<Rightarrow> bool" where
  "ledger_kept d d' \<longleftrightarrow>
     (\<forall>k e. find_webhook k d = Some e \<longrightarrow> (\<exists>e'. find_webhook k d' = Some e' \<and> immutable_event_fields_kept e e'))"

lemma ledger_kept_refl [simp]: "ledger_kept d d"
  by (simp add: ledger_kept_def immutable_event_fields_kept_def)

lemma immutable_trans: "immutable_event_fields_kept a b \<Longrightarrow> immutable_event_fields_kept b c \<Longrightarrow> immutable_event_fields_kept a c"
  by (simp add: immutable_event_fields_kept_def)

lemma ledger_kept_trans [trans]: "ledger_kept a b \<Longrightarrow> ledger_kept b c \<Longrightarrow> ledger_kept a c"
  unfolding ledger_kept_def using immutable_trans by blast

lemma ledger_kept_same: "db_webhook_events d' = db_webhook_events d \<Longrightarrow> ledger_kept d d'"
  by (simp add: ledger_kept_def find_webhook_def immutable_event_fields_kept_def)

lemma ledger_kept_save:
  assumes "find_webhook k d = Some e" "immutable_event_fields_kept e e'"
  shows "ledger_kept d (save_webhook e' d)"
proof -
  have "we_id e' = k" "we_id e = k"
    using assms webhook_events_table.lookup_key by (auto simp: immutable_event_fields_kept_def)
  with assms show ?thesis
    by (auto simp: ledger_kept_def webhook_events_table.lookup_save) (auto simp: immutable_event_fields_kept_def)
qed

lemma immutable_steps [simp]:
  "immutable_event_fields_kept e (start_processing t e)" "immutable_event_fields_kept e (processed_event t e)"
  "immutable_event_fields_kept e (e\<lparr>we_processing_status := x, we_processing_error := y, we_processed_at := z\<rparr>)"
  "immutable_event_fields_kept e (e\<lparr>we_processing_status := x\<rparr>)"
  by (simp_all add: immutable_event_fields_kept_def start_processing_def processed_event_def)

lemma claim_keeps: "claim_event t k d = (r, d') \<Longrightarrow> ledger_kept d d'"
  by (auto simp: claim_event_def claim_found_def Let_def intro: ledger_kept_save split: option.splits if_splits prod.splits)

lemma mark_processed_keeps: "mark_processed_without_case claimed why cid t d = (r, d') \<Longrightarrow> ledger_kept d d'"
  by (auto simp: mark_processed_without_case_def webhook_not_found_def intro: ledger_kept_save split: option.splits if_splits)

lemma mark_failed_keeps: "mark_failed claimed m t d = (r, d') \<Longrightarrow> ledger_kept d d'"
  by (auto simp: mark_failed_def webhook_not_found_def Let_def intro: ledger_kept_save split: option.splits if_splits)

lemma reconciled_webhooks: "reconciled kind k ref m cu new_row raced truth reason d (x, d') \<Longrightarrow>
  db_webhook_events d' = db_webhook_events d"
  by (auto simp: reconciled_def resolved_row_def dest: only_events_addedD(9))

lemma reconcile_webhooks:
  "(case s of PaymentEntity p \<Rightarrow> reconcile_payment sha t new_row raced ev p d
     | SubscriptionEntity u \<Rightarrow> reconcile_subscription sha t new_row raced ev u d) = Inr (x, d') \<Longrightarrow>
   db_webhook_events d' = db_webhook_events d"
  by (cases s) (auto elim!: reconcile_payment_InrD reconcile_subscription_InrD dest: reconciled_webhooks)

lemma apply_processed:
  assumes "apply_reconciliation sha claimed s t new_row raced t' d = (Inr r, d')" "\<not> wp_idempotent r"
  obtains e d1 where "find_webhook (wc_id claimed) d = Some e" "db_webhook_events d1 = db_webhook_events d"
    "d' = save_webhook (processed_event t' e) d1" "r = processed_result e (wp_case_id r) (wp_reason_code r)"
proof -
  from assms obtain e where e: "find_webhook (wc_id claimed) d = Some e"
    unfolding apply_reconciliation_def
    by (auto simp: transaction_Inr_iff webhook_not_found_def split: option.splits)
  have n: "superseded claimed None e = None"
    using assms e superseded_finish(1) [OF e] by (cases "superseded claimed None e")
      (auto simp: superseded_def idempotent_result_def split: if_splits)
  from assms(1) e n obtain cid why d1 where
    "(case s of PaymentEntity p \<Rightarrow> reconcile_payment sha t new_row raced e p d
       | SubscriptionEntity u \<Rightarrow> reconcile_subscription sha t new_row raced e u d) = Inr ((cid, why), d1)"
    "r = processed_result e cid why" "d' = save_webhook (processed_event t' e) d1"
    unfolding apply_reconciliation_def transaction_Inr_iff
    by (auto simp: sbind_eq_Inr_iff split: if_splits)
  with e reconcile_webhooks [OF this(1)] show thesis by (intro that [of e d1]) (simp_all add: processed_result_def)
qed

lemma apply_keeps: "apply_reconciliation sha claimed s t new_row raced t' d = (r, d') \<Longrightarrow> ledger_kept d d'"
proof (cases r)
  case (Inl e)
  moreover assume "apply_reconciliation sha claimed s t new_row raced t' d = (r, d')"
  ultimately show ?thesis by (auto dest: apply_reconciliation_cases)
next
  case (Inr x)
  assume run: "apply_reconciliation sha claimed s t new_row raced t' d = (r, d')"
  show ?thesis
  proof (cases "wp_idempotent x")
    case True
    with run Inr have "d' = d" 
      unfolding apply_reconciliation_def
      by (auto simp: transaction_Inr_iff webhook_not_found_def processed_result_def sbind_eq_Inr_iff split: option.splits if_splits)
    then show ?thesis by simp
  next
    case False
    with run Inr obtain e d1 where f: "find_webhook (wc_id claimed) d = Some e" "db_webhook_events d1 = db_webhook_events d"
      "d' = save_webhook (processed_event t' e) d1" by (auto elim: apply_processed)
    then have "find_webhook (wc_id claimed) d1 = Some e" by (simp add: find_webhook_def)
    from ledger_kept_save [OF this, of "processed_event t' e"] ledger_kept_same [OF f(2)] f(3) show ?thesis
      using ledger_kept_trans by simp
  qed
qed

lemma mark_processed_done:
  assumes "mark_processed_without_case claimed why cid t d = (Inr r, d')" "\<not> wp_idempotent r"
  obtains e where "find_webhook (wc_id claimed) d = Some e" "d' = save_webhook (processed_event t e) d"
  using assms
  by (auto simp: mark_processed_without_case_def transaction_Inr_iff webhook_not_found_def superseded_def idempotent_result_def
      split: option.splits if_splits)

definition observer_keeps_ledger :: "'w outcome_observer \<Rightarrow> bool" where
  "observer_keeps_ledger observe \<longleftrightarrow> (\<forall>a src w d. ledger_kept d (fst (snd (observe a src w d))))"

lemma observer_keepsD: "observer_keeps_ledger observe \<Longrightarrow> observe a src w d = (r, d', w') \<Longrightarrow> ledger_kept d d'"
  unfolding observer_keeps_ledger_def by (metis fst_conv snd_conv)

text \<open>The end of a claim: nothing happened to the ledger but in its own row.\<close>

lemma process_claimed_keeps:
  assumes run: "process_claimed sha reader observe claimed clocks new_row raced others w d = (r, d', w')"
    and others: "\<And>d. ledger_kept d (others d)"
    and observer: "observer_keeps_ledger observe"
  shows "ledger_kept d d'"
    and "r = Inr x \<Longrightarrow> \<not> wp_idempotent x \<Longrightarrow> \<exists>d0 d1 e t. ledger_kept d d0 \<and> find_webhook (wc_id claimed) d0 = Some e \<and>
      db_webhook_events d1 = db_webhook_events d0 \<and> d' = save_webhook (processed_event t e) d1"
proof -
  consider (link) "process_payment_link_event observe claimed (snd clocks) w d = (r, d', w')"
    | (failed) e where "r = Inl e" "d' = others d"
    | (entity) s where "apply_reconciliation sha claimed s (fst clocks) new_row raced (snd clocks) (others d) = (r, d')"
    using run by (auto simp: process_claimed_def split: if_splits prod.splits sum.splits)
  note cases = this
  have link_steps: "(\<exists>why cid d0. ledger_kept d d0 \<and> mark_processed_without_case claimed why cid (snd clocks) d0 = (r, d')) \<or>
      (\<exists>e. r = Inl e \<and> ledger_kept d d')"
    if "process_payment_link_event observe claimed (snd clocks) w d = (r, d', w')"
    using that
    by (auto simp: process_payment_link_event_def Let_def split: if_splits list.splits prod.splits sum.splits
        dest: observer_keepsD [OF observer] intro: ledger_kept_refl)
  show "ledger_kept d d'"
    using cases
  proof cases
    case link
    then show ?thesis using link_steps mark_processed_keeps ledger_kept_trans by blast
  next
    case failed
    then show ?thesis using others by simp
  next
    case entity
    from apply_keeps [OF this] others show ?thesis using ledger_kept_trans by blast
  qed
  assume r: "r = Inr x" "\<not> wp_idempotent x"
  show "\<exists>d0 d1 e t. ledger_kept d d0 \<and> find_webhook (wc_id claimed) d0 = Some e \<and>
      db_webhook_events d1 = db_webhook_events d0 \<and> d' = save_webhook (processed_event t e) d1"
    using cases
  proof cases
    case link
    then obtain why cid d0 where d0: "ledger_kept d d0" "mark_processed_without_case claimed why cid (snd clocks) d0 = (Inr x, d')"
      using link_steps r by auto
    from mark_processed_done [OF d0(2) r(2)] d0(1) show ?thesis by metis
  next
    case entity
    with r have "apply_reconciliation sha claimed s (fst clocks) new_row raced (snd clocks) (others d) = (Inr x, d')" by simp
    from apply_processed [OF this r(2)] others show ?thesis by metis
  qed (use r in simp)
qed

text \<open>
  The ledger is immutable. If the other transactions and the observer keep every stored event
  with its immutable fields, so does processing, whatever it returns: the update listener of the
  ledger never has a reason to refuse one of its writes.
\<close>

lemma processing_keeps_ledger:
  assumes run: "process_webhook_event sha reader observe k clocks new_row raced others w db = (r, db', w')"
    and others: "\<And>d. ledger_kept d (others d)"
    and observer: "observer_keeps_ledger observe"
  shows "ledger_kept db db'"
proof (cases "claim_event (fst clocks) k db")
  case (Pair c db1)
  note c = claim_keeps [OF Pair]
  show ?thesis
  proof (cases "\<exists>claimed. c = Inr (Inr claimed)")
    case False
    with run Pair c show ?thesis by (auto simp: process_webhook_event_def split: sum.splits)
  next
    case True
    then obtain claimed where claimed: "c = Inr (Inr claimed)" by blast
    obtain r1 db2 w1 where p: "process_claimed sha reader observe claimed (snd clocks) new_row raced others w db1 = (r1, db2, w1)"
      by (cases "process_claimed sha reader observe claimed (snd clocks) new_row raced others w db1") auto
    have "ledger_kept db db2" using c process_claimed_keeps(1) [OF p others observer] ledger_kept_trans by blast
    with run Pair claimed p mark_failed_keeps ledger_kept_trans show ?thesis
      by (cases r1) (auto simp: process_webhook_event_def split: prod.splits)
  qed
qed

text \<open>
  Processed once. When processing reports an event as processed, processing it again, at any
  time and with any provider, says so at once, without a call to the provider or the observer
  and without writing.
\<close>

lemma processed_once:
  assumes run: "process_webhook_event sha reader observe k clocks new_row raced others w db = (Inr r, db', w')"
    and r: "wp_processing_status r = EventProcessingStatus.PROCESSED" "\<not> wp_idempotent r"
    and others: "\<And>d. ledger_kept d (others d)"
    and observer: "observer_keeps_ledger observe"
  shows "\<exists>r2. process_webhook_event sha' reader' observe' k clocks' new_row' raced' others' v db' = (Inr r2, db', v) \<and>
    wp_reason_code r2 = ''EVENT_ALREADY_PROCESSED'' \<and> wp_idempotent r2"
proof -
  obtain c db1 where c: "claim_event (fst clocks) k db = (c, db1)" by (cases "claim_event (fst clocks) k db") auto
  have "\<exists>claimed. c = Inr (Inr claimed)"
  proof (rule ccontr)
    assume "\<not> ?thesis"
    with run c have "c = Inr (Inl r)" by (auto simp: process_webhook_event_def split: sum.splits)
    with c r(2) show False
      by (auto simp: claim_event_def claim_found_def Let_def idempotent_result_def webhook_not_found_def
          split: option.splits if_splits prod.splits)
  qed
  then obtain claimed where claimed: "c = Inr (Inr claimed)" by blast
  obtain e0 where e0: "we_event_type e0 \<in> SUPPORTED_RAZORPAY_EVENTS" "claimed = claimed_of (start_processing (fst clocks) e0)"
    "we_id e0 = k" "find_webhook k db1 = Some (start_processing (fst clocks) e0)"
    by (rule claim_event_claimed [OF c [unfolded claimed]])
  obtain r1 db2 w1 where p: "process_claimed sha reader observe claimed (snd clocks) new_row raced others w db1 = (r1, db2, w1)"
    by (cases "process_claimed sha reader observe claimed (snd clocks) new_row raced others w db1") auto
  have "r1 = Inr r \<and> db2 = db'"
  proof (cases r1)
    case (Inl err)
    with run c claimed p have m: "mark_failed claimed (safe_error_text err) (snd (snd clocks)) db2 = (Inr r, db')"
      by (simp add: process_webhook_event_def split: prod.splits)
    then have False using r
      by (auto simp: mark_failed_def webhook_not_found_def superseded_def idempotent_result_def Let_def transaction_Inr_iff
          split: option.splits if_splits)
    then show ?thesis ..
  next
    case (Inr x)
    with run c claimed p show ?thesis by (simp add: process_webhook_event_def)
  qed
  then have "\<exists>d0 d1 e t. ledger_kept db1 d0 \<and> find_webhook (wc_id claimed) d0 = Some e \<and>
      db_webhook_events d1 = db_webhook_events d0 \<and> db' = save_webhook (processed_event t e) d1"
    using process_claimed_keeps(2) [OF p others observer _ r(2)] by blast
  then obtain d0 d1 e t where d: "ledger_kept db1 d0" "find_webhook k d0 = Some e"
      "db_webhook_events d1 = db_webhook_events d0" "db' = save_webhook (processed_event t e) d1"
    using e0(2,3) by (auto simp: claimed_of_def)
  have "find_webhook k d1 = Some e" using d(2,3) by (simp add: find_webhook_def)
  moreover have "we_id e = k" using webhook_events_table.lookup_key [OF d(2)] .
  ultimately have f: "find_webhook k db' = Some (processed_event t e)"
    using webhook_saved [of k d1 e "processed_event t e"] d(4) by simp
  have "immutable_event_fields_kept (start_processing (fst clocks) e0) e"
    using d(1,2) e0(4) unfolding ledger_kept_def by (metis option.inject)
  then have "we_event_type e \<in> SUPPORTED_RAZORPAY_EVENTS" using e0(1) by (simp add: immutable_event_fields_kept_def)
  with f show ?thesis
    by (simp add: process_webhook_event_def claim_event_def claim_found_def idempotent_result_def)
qed

end
