(* ===== verification/Arc_Ingress.thy ===== *)
theory Arc_Ingress
  imports Arc_Webhook_Payload
begin

text \<open>
  The webhook ledger and its entrance: the insert that records an event once
  (\<open>arc/persistence/webhook_events.py\<close>) and the route that verifies, normalizes and records a
  request (\<open>services/api/routes/razorpay_webhooks.py\<close>). \<open>json_loads\<close> decodes a body, \<open>None\<close> being
  each of the two exceptions the route catches. Other deliveries that commit first are in the table
  the insert runs on, since it is the route's first access to the database.
\<close>

section \<open>The ledger\<close>

record record_event_result =
  rr_inserted :: bool
  rr_duplicate :: bool
  rr_integrity_mismatch :: bool
  rr_event :: webhook_event

definition hash_payload :: "(string \<Rightarrow> string) \<Rightarrow> json \<Rightarrow> string" where
  "hash_payload sha raw_payload = sha (json_dumps False raw_payload)"

definition event_row ::
  "(string \<Rightarrow> string) \<Rightarrow> uuid \<Rightarrow> string \<Rightarrow> normalized_webhook \<Rightarrow> bool \<Rightarrow> string \<Rightarrow> EventProcessingStatus \<Rightarrow> py_datetime \<Rightarrow>
     webhook_event" where
  "event_row sha new_id razorpay_event_id n signature_verified raw_body_sha256 processing_status received_at =
    \<lparr>we_id = new_id, we_razorpay_event_id = razorpay_event_id, we_event_type = nw_event_type n,
     we_account_id = nw_account_id n, we_payment_id = nw_payment_id n, we_subscription_id = nw_subscription_id n,
     we_customer_id = nw_customer_id n, we_raw_payload = nw_raw_payload n,
     we_payload_hash = hash_payload sha (nw_raw_payload n), we_raw_body_sha256 = Some raw_body_sha256,
     we_signature_verified = signature_verified, we_received_at = received_at,
     we_processing_status = processing_status, we_processing_started_at = None, we_processing_attempt_count = 0,
     we_processed_at = None, we_processing_error = None\<rparr>"

definition event_by_razorpay_id :: "string \<Rightarrow> arc_db \<Rightarrow> webhook_event option" where
  "event_by_razorpay_id razorpay_event_id db =
     find (\<lambda>e. we_razorpay_event_id e = razorpay_event_id) (db_webhook_events db)"

definition record_event_once ::
  "(string \<Rightarrow> string) \<Rightarrow> uuid \<Rightarrow> string \<Rightarrow> normalized_webhook \<Rightarrow> bool \<Rightarrow> string \<Rightarrow> EventProcessingStatus \<Rightarrow> py_datetime \<Rightarrow>
     arc_db \<Rightarrow> arc_error + record_event_result \<times> arc_db" where
  "record_event_once sha new_id razorpay_event_id n signature_verified raw_body_sha256 processing_status received_at db =
    (let row = event_row sha new_id razorpay_event_id n signature_verified raw_body_sha256 processing_status received_at in
     if \<not> webhook_event_check row then Inl (IntegrityError ''webhook_events'')
     else if event_by_razorpay_id razorpay_event_id db = None then
       (let db1 = add_webhook row db in
        case find_webhook new_id db1 of
          None \<Rightarrow> Inl (EventPersistenceError ''Inserted webhook event could not be reloaded'')
        | Some e \<Rightarrow> Inr (\<lparr>rr_inserted = True, rr_duplicate = False, rr_integrity_mismatch = False, rr_event = e\<rparr>, db1))
     else case event_by_razorpay_id razorpay_event_id db of
          None \<Rightarrow> Inl (EventPersistenceError ''Duplicate webhook event could not be loaded'')
        | Some e \<Rightarrow> Inr (\<lparr>rr_inserted = False, rr_duplicate = True,
            rr_integrity_mismatch = (we_raw_body_sha256 e \<noteq> Some raw_body_sha256), rr_event = e\<rparr>, db))"

section \<open>The route\<close>

record webhook_request =
  rq_body :: string
  rq_signature :: "string option"
  rq_event_id :: "string option"

record webhook_settings =
  st_secret :: "string option"
  st_previous_secret :: "string option"

record ingestion_response =
  ir_duplicate :: bool
  ir_event_id :: string

type_synonym http_failure = "int \<times> string"

definition ingest_razorpay_webhook ::
  "(string \<Rightarrow> string) \<Rightarrow> (string \<Rightarrow> string \<Rightarrow> string) \<Rightarrow> (string \<Rightarrow> json option) \<Rightarrow> webhook_settings \<Rightarrow> uuid \<Rightarrow> py_datetime \<Rightarrow>
     webhook_request \<Rightarrow> arc_db \<Rightarrow> (http_failure + ingestion_response) \<times> arc_db" where
  "ingest_razorpay_webhook sha hmac json_loads settings new_id received_at request db =
    (let raw_body = rq_body request in
     if \<not> truthy (rq_signature request) then (Inl (401, ''Missing webhook signature''), db)
     else if \<not> truthy (st_secret settings) then (Inl (503, ''Webhook ingestion is not configured''), db)
     else if \<not> verify_webhook_signature_with_rotation hmac raw_body (the (rq_signature request))
                 (the (st_secret settings)) (st_previous_secret settings)
     then (Inl (401, ''Invalid webhook signature''), db)
     else case json_loads raw_body of
       None \<Rightarrow> (Inl (400, ''Malformed webhook JSON''), db)
     | Some parsed_payload \<Rightarrow>
       if \<not> truthy (rq_event_id request) \<or> 128 < length (the (rq_event_id request))
       then (Inl (400, ''Missing or invalid Razorpay event id''), db)
       else case normalize_webhook_payload parsed_payload of
         Inl e \<Rightarrow> (Inl (400, error_text e), db)
       | Inr n \<Rightarrow>
         (case record_event_once sha new_id (the (rq_event_id request)) n True (hash_raw_body sha raw_body)
             (if supported n then EventProcessingStatus.RECEIVED else EventProcessingStatus.UNSUPPORTED) received_at db of
            Inl e \<Rightarrow> (Inl (503, ''Webhook persistence unavailable''), db)
          | Inr (result, db1) \<Rightarrow>
            if rr_integrity_mismatch result
            then (Inl (409, ''Event id already exists with different request content''), db)
            else (Inr \<lparr>ir_duplicate = rr_duplicate result, ir_event_id = the (rq_event_id request)\<rparr>, db1)))"

section \<open>Facts\<close>

lemma recorded_once:
  assumes "record_event_once sha new_id i n sg h st t db = Inr (res, db')"
  shows "\<not> rr_duplicate res \<and> \<not> rr_integrity_mismatch res \<and> event_by_razorpay_id i db = None \<and>
      db' = add_webhook (event_row sha new_id i n sg h st t) db \<or>
    rr_duplicate res \<and> db' = db \<and> (\<exists>e. event_by_razorpay_id i db = Some e \<and>
      (rr_integrity_mismatch res \<longleftrightarrow> we_raw_body_sha256 e \<noteq> Some h))"
  using assms by (auto simp: record_event_once_def Let_def split: if_splits option.splits)

lemma event_added:
  assumes "event_by_razorpay_id i db = None"
  shows "event_by_razorpay_id i (add_webhook (event_row sha new_id i n sg h st t) db) =
    Some (event_row sha new_id i n sg h st t)"
proof -
  have "find P (xs @ [y]) = Some y" if "find P xs = None" "P y" for P and xs :: "webhook_event list" and y
    using that by (induction xs) (auto split: if_splits)
  with assms show ?thesis by (simp add: event_by_razorpay_id_def add_webhook_def row_add_def event_row_def)
qed

text \<open>An accepted request, with everything its acceptance proves.\<close>

lemma accepted:
  assumes "ingest_razorpay_webhook sha hmac json_loads settings new_id received_at request db = (Inr resp, db')"
  obtains sig secret v n res where "rq_signature request = Some sig" "st_secret settings = Some secret" "secret \<noteq> []"
    "verify_webhook_signature_with_rotation hmac (rq_body request) sig secret (st_previous_secret settings)"
    "json_loads (rq_body request) = Some v" "rq_event_id request = Some (ir_event_id resp)" "ir_event_id resp \<noteq> []"
    "length (ir_event_id resp) \<le> 128" "normalize_webhook_payload v = Inr n"
    "record_event_once sha new_id (ir_event_id resp) n True (sha (rq_body request))
       (if supported n then EventProcessingStatus.RECEIVED else EventProcessingStatus.UNSUPPORTED) received_at db =
       Inr (res, db')" "rr_duplicate res = ir_duplicate resp" "\<not> rr_integrity_mismatch res"
proof -
  have t: "truthy (rq_signature request)" "truthy (st_secret settings)" "truthy (rq_event_id request)"
    using assms by (auto simp: ingest_razorpay_webhook_def Let_def split: if_splits option.splits)
  then obtain sig secret i where s: "rq_signature request = Some sig" "st_secret settings = Some secret" "secret \<noteq> []"
    "rq_event_id request = Some i" "i \<noteq> []" by (auto simp: truthy_def split: option.splits)
  from assms t s show thesis
    by (auto simp: ingest_razorpay_webhook_def Let_def hash_raw_body_def split: if_splits option.splits sum.splits prod.splits
        intro!: that)
qed

lemma accepted_digest:
  assumes "record_event_once sha new_id i n sg h st t db = Inr (res, db')" "\<not> rr_integrity_mismatch res"
  shows "\<exists>e. event_by_razorpay_id i db' = Some e \<and> we_raw_body_sha256 e = Some h"
  using recorded_once [OF assms(1)] assms(2) event_added [of i db]
  by (auto simp: event_row_def)

lemma duplicate_recorded:
  assumes "record_event_once sha new_id i n sg h st t db = Inr (res, db')" "event_by_razorpay_id i later = Some e"
  shows "record_event_once sha new_id' i n sg h st t' later = Inr (\<lparr>rr_inserted = False, rr_duplicate = True,
    rr_integrity_mismatch = (we_raw_body_sha256 e \<noteq> Some h), rr_event = e\<rparr>, later)"
proof -
  have "webhook_event_check (event_row sha new_id i n sg h st t)"
    using assms(1) by (auto simp: record_event_once_def Let_def split: if_splits)
  then have "webhook_event_check (event_row sha new_id' i n sg h st t')" by (simp add: webhook_event_check_def event_row_def)
  with assms(2) show ?thesis by (simp add: record_event_once_def)
qed

section \<open>Properties\<close>

text \<open>The body of a delivery, decoded, and a digest and a signature for the examples.\<close>

definition sample_payload :: json where
  "sample_payload = JObj [(''event'', JStr ''payment.failed''), (''account_id'', JStr ''acc''),
     (''payload'', JObj [(''payment'', JObj [(''entity'', JObj [(''id'', JStr ''p1'')])])])]"

definition sample_request :: webhook_request where
  "sample_request = \<lparr>rq_body = ''b'', rq_signature = Some ''k:b'', rq_event_id = Some ''evt_1''\<rparr>"

definition hex_sha :: "string \<Rightarrow> string" where
  "hex_sha s = replicate 64 CHR ''0''"

definition sample_hmac :: "string \<Rightarrow> string \<Rightarrow> string" where
  "sample_hmac secret body = secret @ '':'' @ body"

definition sample_settings :: webhook_settings where
  "sample_settings = \<lparr>st_secret = Some ''k'', st_previous_secret = None\<rparr>"

lemma refused_unchanged:
  "ingest_razorpay_webhook sha hmac json_loads settings new_id t request db = (Inl failure, db') \<Longrightarrow> db' = db"
  by (auto simp: ingest_razorpay_webhook_def Let_def split: if_splits option.splits sum.splits prod.splits)

lemma recorded_effect:
  assumes "ingest_razorpay_webhook sha hmac json_loads settings new_id t request db = (Inr resp, db')"
  shows "\<exists>e v n. event_by_razorpay_id (ir_event_id resp) db' = Some e \<and> we_raw_body_sha256 e = Some (sha (rq_body request)) \<and>
        json_loads (rq_body request) = Some v \<and> normalize_webhook_payload v = Inr n \<and>
        (if ir_duplicate resp then db' = db
         else db' = db\<lparr>db_webhook_events := db_webhook_events db @ [e]\<rparr> \<and> we_signature_verified e \<and>
           we_event_type e = nw_event_type n \<and> we_payment_id e = nw_payment_id n \<and> we_raw_payload e = v \<and>
           we_processing_status e = (if nw_event_type n \<in> SUPPORTED_RAZORPAY_EVENTS then EventProcessingStatus.RECEIVED
             else EventProcessingStatus.UNSUPPORTED))"
proof -
  obtain v n res where a: "json_loads (rq_body request) = Some v" "normalize_webhook_payload v = Inr n"
    "record_event_once sha new_id (ir_event_id resp) n True (sha (rq_body request))
       (if supported n then EventProcessingStatus.RECEIVED else EventProcessingStatus.UNSUPPORTED) t db =
       Inr (res, db')" "rr_duplicate res = ir_duplicate resp" "\<not> rr_integrity_mismatch res" by (rule accepted [OF assms])
  from recorded_once [OF a(3)] a event_added [of "ir_event_id resp" db] normalized_bounds(3) [OF a(2)]
  show ?thesis
    by (cases "ir_duplicate resp")
      (auto simp: event_row_def add_webhook_def row_add_def supported_def split: if_splits)
qed

text \<open>
  C14. Only authentic requests are recorded. A request is accepted only if its signature is the one
  that the current secret, or a non-empty previous one, gives for exactly its body; its event is
  then in the ledger under its id, with the digest of that body. An event that is new is appended
  with the identifiers of the decoded body, marked as verified, and waits for processing exactly
  if ARC supports its type. A request that is not accepted changes nothing.
\<close>

theorem only_authentic_recorded:
  "case ingest_razorpay_webhook sha hmac json_loads settings new_id t request db of
      (Inl failure, db') \<Rightarrow> db' = db
    | (Inr resp, db') \<Rightarrow>
      (\<exists>secret \<in> set_option (st_secret settings) \<union> set_option (st_previous_secret settings).
        secret \<noteq> [] \<and> rq_signature request = Some (hmac secret (rq_body request))) \<and>
      (\<exists>e v n. event_by_razorpay_id (ir_event_id resp) db' = Some e \<and> we_raw_body_sha256 e = Some (sha (rq_body request)) \<and>
        json_loads (rq_body request) = Some v \<and> normalize_webhook_payload v = Inr n \<and>
        (if ir_duplicate resp then db' = db
         else db' = db\<lparr>db_webhook_events := db_webhook_events db @ [e]\<rparr> \<and> we_signature_verified e \<and>
           we_event_type e = nw_event_type n \<and> we_payment_id e = nw_payment_id n \<and> we_raw_payload e = v \<and>
           we_processing_status e = (if nw_event_type n \<in> SUPPORTED_RAZORPAY_EVENTS then EventProcessingStatus.RECEIVED
             else EventProcessingStatus.UNSUPPORTED)))"
proof (cases "ingest_razorpay_webhook sha hmac json_loads settings new_id t request db")
  case (Pair r db')
  show ?thesis
  proof (cases r)
    case (Inl failure)
    then show ?thesis using refused_unchanged Pair by simp
  next
    case (Inr resp)
    with Pair have run: "ingest_razorpay_webhook sha hmac json_loads settings new_id t request db = (Inr resp, db')" by simp
    then have "\<exists>secret \<in> set_option (st_secret settings) \<union> set_option (st_previous_secret settings).
        secret \<noteq> [] \<and> rq_signature request = Some (hmac secret (rq_body request))"
      by (rule accepted) (auto simp: verified_iff)
    with recorded_effect [OF run] Pair Inr show ?thesis by simp
  qed
qed

theorem only_authentic_recorded_witness:
  "\<exists>resp db'. ingest_razorpay_webhook hex_sha sample_hmac (\<lambda>_. Some sample_payload) sample_settings 3 sample_time sample_request
     empty_db = (Inr resp, db') \<and> event_by_razorpay_id (ir_event_id resp) db' \<noteq> None"
proof -
  let ?run = "ingest_razorpay_webhook hex_sha sample_hmac (\<lambda>_. Some sample_payload) sample_settings 3 sample_time sample_request
     empty_db"
  have "case fst ?run of Inl _ \<Rightarrow> False | Inr _ \<Rightarrow> True" by code_simp
  then obtain resp db' where run: "?run = (Inr resp, db')" by (cases ?run) (auto split: sum.splits)
  from only_authentic_recorded [where sha = hex_sha and hmac = sample_hmac and json_loads = "\<lambda>_. Some sample_payload" and
      settings = sample_settings and new_id = 3 and t = sample_time and request = sample_request and db = empty_db] run show ?thesis by auto
qed

text \<open>
  A delivery counts once. If the ids of the ledger are unique they stay so. When a request has
  been accepted and its event is still in the ledger with the immutable fields of then, a
  redelivery of the same request is accepted as a duplicate and changes nothing, and a request
  that carries the same event id on a body with another digest is refused, however it is signed,
  and changes nothing.
\<close>

lemma delivery_counts_once:
  assumes run: "ingest_razorpay_webhook sha hmac json_loads settings new_id t request db = (Inr resp, db')"
    and e: "event_by_razorpay_id (ir_event_id resp) db' = Some e" "event_by_razorpay_id (ir_event_id resp) later = Some e'"
      "immutable_event_fields_kept e e'"
  shows "(distinct (map we_razorpay_event_id (db_webhook_events db)) \<longrightarrow>
      distinct (map we_razorpay_event_id (db_webhook_events db'))) \<and>
    ingest_razorpay_webhook sha hmac json_loads settings new_id' t' request later =
      (Inr \<lparr>ir_duplicate = True, ir_event_id = ir_event_id resp\<rparr>, later) \<and>
    (rq_event_id other = rq_event_id request \<and> sha (rq_body other) \<noteq> sha (rq_body request) \<longrightarrow>
      (\<exists>failure. ingest_razorpay_webhook sha hmac json_loads settings new_id' t' other later = (Inl failure, later)))"
proof (intro conjI impI)
  obtain sig secret v n res where a: "rq_signature request = Some sig" "st_secret settings = Some secret" "secret \<noteq> []"
    "verify_webhook_signature_with_rotation hmac (rq_body request) sig secret (st_previous_secret settings)"
    "json_loads (rq_body request) = Some v" "rq_event_id request = Some (ir_event_id resp)" "ir_event_id resp \<noteq> []"
    "length (ir_event_id resp) \<le> 128" "normalize_webhook_payload v = Inr n"
    "record_event_once sha new_id (ir_event_id resp) n True (sha (rq_body request))
       (if supported n then EventProcessingStatus.RECEIVED else EventProcessingStatus.UNSUPPORTED) t db =
       Inr (res, db')" "rr_duplicate res = ir_duplicate resp" "\<not> rr_integrity_mismatch res" by (rule accepted [OF run])
  show "distinct (map we_razorpay_event_id (db_webhook_events db'))"
    if "distinct (map we_razorpay_event_id (db_webhook_events db))"
  proof (cases "rr_duplicate res")
    case False
    with recorded_once [OF a(10)] have "ir_event_id resp \<notin> we_razorpay_event_id ` set (db_webhook_events db)"
      "map we_razorpay_event_id (db_webhook_events db') = map we_razorpay_event_id (db_webhook_events db) @ [ir_event_id resp]"
      by (auto simp: event_by_razorpay_id_def find_None_iff add_webhook_def row_add_def event_row_def)
    with that show ?thesis by simp
  qed (use recorded_once [OF a(10)] that in auto)
  from e have digest: "we_raw_body_sha256 e' = Some (sha (rq_body request))"
    using accepted_digest [OF a(10,12)] by (auto simp: immutable_event_fields_kept_def)
  have sig: "sig \<noteq> []" using run a(1) by (auto simp: ingest_razorpay_webhook_def Let_def)
  show "ingest_razorpay_webhook sha hmac json_loads settings new_id' t' request later =
        (Inr \<lparr>ir_duplicate = True, ir_event_id = ir_event_id resp\<rparr>, later)"
    using a sig duplicate_recorded [OF a(10) e(2), of new_id' t'] digest
    by (simp add: ingest_razorpay_webhook_def Let_def hash_raw_body_def)
  assume other: "rq_event_id other = rq_event_id request \<and> sha (rq_body other) \<noteq> sha (rq_body request)"
  show "\<exists>failure. ingest_razorpay_webhook sha hmac json_loads settings new_id' t' other later = (Inl failure, later)"
  proof (cases "ingest_razorpay_webhook sha hmac json_loads settings new_id' t' other later")
    case (Pair r d)
    show ?thesis
    proof (cases r)
      case (Inl f)
      with Pair show ?thesis
        using refused_unchanged by auto
    next
      case (Inr resp2)
      with Pair have "ingest_razorpay_webhook sha hmac json_loads settings new_id' t' other later = (Inr resp2, d)" by simp
      then obtain n2 res2 where b: "rq_event_id other = Some (ir_event_id resp2)"
        "record_event_once sha new_id' (ir_event_id resp2) n2 True (sha (rq_body other))
          (if supported n2 then EventProcessingStatus.RECEIVED else EventProcessingStatus.UNSUPPORTED) t' later = Inr (res2, d)"
        "\<not> rr_integrity_mismatch res2" by (rule accepted)
      with other a(6) have "ir_event_id resp2 = ir_event_id resp" by simp
      with recorded_once [OF b(2)] e(2) b(3) digest other have False by auto
      then show ?thesis ..
    qed
  qed
qed

end
