(* ===== verification/Arc_Execution_Liveness.thy ===== *)
theory Arc_Execution_Liveness
  imports Arc_Execution
begin

text \<open>
  That an execution comes to its end: with a provider that answers, a claimed link action succeeds
  and its case waits for the outcome.
\<close>

lemma prepare_builds:
  assumes "prepare_and_claim sha k now record_id db = (Inr (Inr claim), db')"
    and "find_current_decision k db = Some d" "find_action_for (pd_id d) db = None"
  obtains c p i r where "find_case k db = Some c" "find_current_proposal k db = Some p"
    "build_record sha c p d (find_approval_for (pd_id d) db) i now record_id = Inr r"
    "claim = to_claim (start_attempt now r) c"
  using assms
  by (auto simp: prepare_and_claim_def prepare_locked_def claim_current_def claim_row_def Let_def sbind_eq_Inr_iff
      split: if_splits elim!: transaction_InrE dest!: cases_table.lookup_key)

text \<open>The request of a new row passes the request's own validation.\<close>

lemma new_claim_request:
  assumes "build_record sha c p d approval i now k = Inr r" "sp_action p = RecoveryAction.CREATE_RECOVERY_LINK"
    and "0 \<le> dt_us now"
  shows "\<exists>q. payment_link_request (to_claim (start_attempt now r) c) = Inr q \<and>
    pq_reference_id q = ''arc_'' @ uuid_hex k"
proof -
  obtain r0 where l: "link_record sha c p d now r0 = Inr r" "ra_id r0 = k"
    using assms(1,2) by (auto simp: build_record_def Let_def)
  from link_record_InrD(7,10,11) [OF l(1)] l(2) obtain e a cur where
    e: "ra_external_reference r = Some (''arc_'' @ uuid_hex k)" "ra_external_expires_at r = Some e"
      "dt_timestamp now < dt_timestamp e" "pc_amount c = Some a" "0 < a" "pc_currency c = Some cur" "length (py_strip cur) = 3"
    by auto
  have "0 \<le> dt_timestamp now" using assms(3) by (simp add: dt_timestamp_def)
  with e show ?thesis
    by (simp add: payment_link_request_def to_claim_def make_payment_link_request_def)
qed

text \<open>
  C5. A link action comes to its end. Take the first claim of a decision's link action; a provider
  that lists no link with the new reference and makes the one it is asked for; other transactions
  that leave the case and the row alone while it answers; and an authorization that still stands
  then. The execution returns a success, the ledger row is SUCCEEDED with the link, the attempt is
  counted and the case waits for the outcome.
\<close>

theorem link_execution_succeeds:
  fixes record_id :: uuid
  defines "ref \<equiv> ''arc_'' @ uuid_hex record_id"
  assumes claim: "prepare_and_claim sha k t1 record_id db = (Inr (Inr claim), db1)"
    and link: "xc_action claim = RecoveryAction.CREATE_RECOVERY_LINK"
    and first: "find_current_decision k db = Some d" "find_action_for (pd_id d) db = None"
    and clocks: "0 \<le> dt_us t1" "dt_aware t2"
    and lookup: "gw_lookup gw ref w = (Inr [], w1)"
    and creates: "\<And>q. pq_reference_id q = ref \<Longrightarrow> \<exists>s w2. gw_create gw q w1 = (Inr s, w2)"
    and still: "\<And>c r. find_case k db1 = Some c \<Longrightarrow> find_action record_id db1 = Some r \<Longrightarrow>
      find_case k (others db1) = Some c \<and> find_action record_id (others db1) = Some r \<and>
      post_request_context_is_current sha c r t2 (others db1)"
  shows "\<exists>res db2 w2 r c. execute sha (Inr gw) k t1 t2 record_id others later w db = (Inr res, db2, w2) \<and>
    xr_execution_status res = RecoveryExecutionStatus.SUCCEEDED \<and>
    find_action record_id db2 = Some r \<and> ra_execution_status r = RecoveryExecutionStatus.SUCCEEDED \<and>
    ra_external_reference_id r \<noteq> None \<and> find_case k db = Some c \<and>
    find_case k db2 = Some (count_attempt RecoveryAction.CREATE_RECOVERY_LINK c
      \<lparr>pc_current_state := CaseState.WAITING_FOR_OUTCOME\<rparr>)"
proof -
  obtain c p i r where b: "find_case k db = Some c" "find_current_proposal k db = Some p"
    "build_record sha c p d (find_approval_for (pd_id d) db) i t1 record_id = Inr r" "claim = to_claim (start_attempt t1 r) c"
    by (rule prepare_builds [OF claim first])
  note rec = build_record_InrD [OF b(3)]
  have id: "ra_id r = record_id" "pc_id c = k" using rec(1) cases_table.lookup_key [OF b(1)] by simp_all
  have act: "ra_action r = RecoveryAction.CREATE_RECOVERY_LINK" using link b(4) by (simp add: to_claim_def)
  then have "sp_action p = RecoveryAction.CREATE_RECOVERY_LINK" using rec(4) by simp
  from new_claim_request [OF b(3) this clocks(1)] obtain q where
    q: "payment_link_request claim = Inr q" "pq_reference_id q = ref" by (auto simp: b(4) ref_def)
  obtain s w2 where s: "gw_create gw q w1 = (Inr s, w2)" using creates [OF q(2)] by blast
  have got: "obtain_link gw q w = (Inr (Inr (s, False)), w2)" using lookup q(2) s by (simp add: obtain_link_def)
  have xc: "xc_case_id claim = k" "xc_recovery_action_id claim = record_id"
    using b(4) id rec(2) by (simp_all add: to_claim_def)
  obtain c1 d1 r1 rows where pc: "find_case k db = Some c1" "find_current_decision k db = Some d1" "row_for d1 record_id r1 db rows"
    "ra_policy_decision_id r1 = pd_id d1" "claim = to_claim (start_attempt t1 r1) c1"
    "db_actions db1 = row_save ra_id (start_attempt t1 r1) rows" "db_cases db1 = db_cases db"
    by (rule prepare_claimE [OF claim]) (rule that)
  have found: "find_case k db1 = Some c" "find_action record_id db1 = Some (start_attempt t1 r1)"
    using b(1) pc(7) claimed_row(2) [OF pc(3,4,6)] pc(5) xc(2) by (simp_all add: find_case_def to_claim_def)
  from still [OF this] have after: "find_case (xc_case_id claim) (others db1) = Some c"
    "find_action (xc_recovery_action_id claim) (others db1) = Some (start_attempt t1 r1)"
    "post_request_context_is_current sha c (start_attempt t1 r1) t2 (others db1)" by (simp_all add: xc)
  have "ra_action (start_attempt t1 r1) = RecoveryAction.CREATE_RECOVERY_LINK" using link pc(5) by (simp add: to_claim_def)
  with finalize_success_current [OF after clocks(2), of s False] obtain res db2 r2 where
    fin: "finalize_external_success sha claim s False t2 (others db1) = (Inr (res, False), db2)"
      "xr_execution_status res = RecoveryExecutionStatus.SUCCEEDED" "find_action record_id db2 = Some r2"
      "ra_execution_status r2 = RecoveryExecutionStatus.SUCCEEDED" "ra_external_reference_id r2 = Some (ps_id s)"
      "find_case k db2 = Some (count_attempt RecoveryAction.CREATE_RECOVERY_LINK c
        \<lparr>pc_current_state := CaseState.WAITING_FOR_OUTCOME\<rparr>)"
    by (auto simp: xc persist_external_projection_def)
  have "execute sha (Inr gw) k t1 t2 record_id others later w db = (Inr res, db2, w2)"
    using claim link q(1) got fin(1) by (simp add: execute_def execute_payment_link_def)
  with fin b(1) show ?thesis by blast
qed

theorem link_execution_succeeds_witness:
  "\<exists>res db2 w2. execute fixed_sha (Inr sample_gateway) 7 claim_time claim_time 40 id id [] ready_db = (Inr res, db2, w2) \<and>
     xr_execution_status res = RecoveryExecutionStatus.SUCCEEDED"
proof -
  have "case prepare_and_claim fixed_sha 7 claim_time 40 ready_db of
      (Inr (Inr claim), db1) \<Rightarrow> xc_action claim = RecoveryAction.CREATE_RECOVERY_LINK \<and>
        (case (find_case 7 db1, find_action 40 db1) of
           (Some c, Some r) \<Rightarrow> post_request_context_is_current fixed_sha c r claim_time db1 | _ \<Rightarrow> False)
    | _ \<Rightarrow> False" by code_simp
  then obtain claim db1 where c: "prepare_and_claim fixed_sha 7 claim_time 40 ready_db = (Inr (Inr claim), db1)"
    "xc_action claim = RecoveryAction.CREATE_RECOVERY_LINK"
    "case (find_case 7 db1, find_action 40 db1) of
       (Some c, Some r) \<Rightarrow> post_request_context_is_current fixed_sha c r claim_time db1 | _ \<Rightarrow> False"
    by (cases "prepare_and_claim fixed_sha 7 claim_time 40 ready_db") (auto split: sum.splits)
  have d: "find_current_decision 7 ready_db = Some authorized_decision" "find_action_for (pd_id authorized_decision) ready_db = None"
    "0 \<le> dt_us claim_time" "dt_aware claim_time" by code_simp+
  have l: "gw_lookup sample_gateway (''arc_'' @ uuid_hex 40) [] = (Inr [], [])" by (simp add: sample_gateway_def)
  have "\<exists>s w2. gw_create sample_gateway q [] = (Inr s, w2)" for q by (simp add: sample_gateway_def)
  from link_execution_succeeds [OF c(1,2) d l this, of id id] c(3) show ?thesis
    by (auto split: option.splits)
qed

end
