(* ===== verification/Arc_Execution_Outcome.thy ===== *)
theory Arc_Execution_Outcome
  imports Arc_Execution
begin

text \<open>
  What an execution records is what the provider answered. The provider is any gateway: each of its
  calls answers anything and changes its world, and the worker makes at most one lookup, one
  creation and one cancellation.
\<close>

section \<open>What the provider answered\<close>

text \<open>
  A link was obtained: the one link that the lookup found fits the request, or none was found and
  one was made. Making it was refused for certain. Or it is unknown whether there is a usable link.
\<close>

definition link_obtained ::
  "'w payment_link_gateway \<Rightarrow> payment_link_request \<Rightarrow> 'w \<Rightarrow> payment_link_snapshot \<Rightarrow> 'w \<Rightarrow> bool" where
  "link_obtained gw q w s w' \<longleftrightarrow>
     gw_lookup gw (pq_reference_id q) w = (Inr [s], w') \<and> matches_request s q \<or>
     (\<exists>w1. gw_lookup gw (pq_reference_id q) w = (Inr [], w1) \<and> gw_create gw q w1 = (Inr s, w'))"

definition link_refused :: "'w payment_link_gateway \<Rightarrow> payment_link_request \<Rightarrow> 'w \<Rightarrow> 'w \<Rightarrow> bool" where
  "link_refused gw q w w' \<longleftrightarrow> (\<exists>w1 e. gw_lookup gw (pq_reference_id q) w = (Inr [], w1) \<and>
     gw_create gw q w1 = (Inl e, w') \<and> is_payment_link_error e \<and> \<not> is_uncertain e)"

definition link_unknown :: "'w payment_link_gateway \<Rightarrow> payment_link_request \<Rightarrow> 'w \<Rightarrow> 'w \<Rightarrow> bool" where
  "link_unknown gw q w w' \<longleftrightarrow>
     (\<exists>e. gw_lookup gw (pq_reference_id q) w = (Inl e, w') \<and> is_payment_link_error e) \<or>
     (\<exists>ss. gw_lookup gw (pq_reference_id q) w = (Inr ss, w') \<and> ss \<noteq> [] \<and> (\<forall>s. ss = [s] \<longrightarrow> \<not> matches_request s q)) \<or>
     (\<exists>w1 e. gw_lookup gw (pq_reference_id q) w = (Inr [], w1) \<and> gw_create gw q w1 = (Inl e, w') \<and> is_uncertain e)"

text \<open>The authorization of the claimed action at the time its link is recorded.\<close>

definition still_authorized :: "(string \<Rightarrow> string) \<Rightarrow> execution_claim \<Rightarrow> py_datetime \<Rightarrow> arc_db \<Rightarrow> bool" where
  "still_authorized sha claim t db \<longleftrightarrow> (\<exists>c r. find_case (xc_case_id claim) db = Some c \<and>
     find_action (xc_recovery_action_id claim) db = Some r \<and> post_request_context_is_current sha c r t db)"

text \<open>
  What the answers have to be for the status that is recorded, when the provider went from \<open>w\<close> to
  \<open>w'\<close> and \<open>db\<close> is what the worker found after asking; \<open>r\<close> is the row it left.
\<close>

definition status_earned ::
  "(string \<Rightarrow> string) \<Rightarrow> 'w payment_link_gateway \<Rightarrow> execution_claim \<Rightarrow> payment_link_request \<Rightarrow> py_datetime \<Rightarrow> arc_db \<Rightarrow>
     'w \<Rightarrow> recovery_action \<Rightarrow> 'w \<Rightarrow> bool" where
  "status_earned sha gw claim q t db w r w' \<longleftrightarrow>
    (case ra_execution_status r of
       RecoveryExecutionStatus.SUCCEEDED \<Rightarrow> \<exists>s. link_obtained gw q w s w' \<and> still_authorized sha claim t db \<and>
         ra_external_reference_id r = Some (ps_id s) \<and> ra_external_url r = Some (ps_short_url s)
     | RecoveryExecutionStatus.CANCELLED \<Rightarrow> \<exists>s w1 x. link_obtained gw q w s w1 \<and> \<not> still_authorized sha claim t db \<and>
         gw_cancel gw (ps_id s) w1 = (Inr x, w') \<and> ps_status x = ''cancelled'' \<and> ra_external_reference_id r = Some (ps_id x)
     | RecoveryExecutionStatus.COMPENSATION_REQUIRED \<Rightarrow> \<exists>s w1 a. link_obtained gw q w s w1 \<and>
         \<not> still_authorized sha claim t db \<and> gw_cancel gw (ps_id s) w1 = (a, w') \<and>
         (\<forall>x. a = Inr x \<longrightarrow> ps_status x \<noteq> ''cancelled'') \<and> ra_external_reference_id r = Some (ps_id s)
     | RecoveryExecutionStatus.FAILED \<Rightarrow> link_refused gw q w w'
     | RecoveryExecutionStatus.INDETERMINATE \<Rightarrow> link_unknown gw q w w'
     | _ \<Rightarrow> False)"

section \<open>The steps of the worker\<close>

lemma obtain_link_cases:
  assumes "obtain_link gw q w = (answer, w')"
  shows "case answer of Inl e \<Rightarrow> True
    | Inr (Inl problem) \<Rightarrow> pp_status problem = RecoveryExecutionStatus.FAILED \<and> link_refused gw q w w' \<or>
        pp_status problem = RecoveryExecutionStatus.INDETERMINATE \<and> link_unknown gw q w w'
    | Inr (Inr (s, adopted)) \<Rightarrow> link_obtained gw q w s w'"
proof (cases "gw_lookup gw (pq_reference_id q) w")
  case (Pair found w1)
  show ?thesis
  proof (cases found)
    case (Inl e)
    with assms Pair show ?thesis
      by (auto simp: obtain_link_def link_unknown_def indeterminate_def)
  next
    case (Inr ss)
    consider "ss = []" | s where "ss = [s]" | s s' ss' where "ss = s # s' # ss'" by (cases ss rule: remdups_adj.cases) auto
    then show ?thesis
    proof cases
      case 1
      with assms Pair Inr show ?thesis
        by (cases "gw_create gw q w1")
          (auto simp: obtain_link_def link_unknown_def link_refused_def link_obtained_def indeterminate_def failed_def
            split: sum.splits if_splits)
    next
      case (2 s)
      with assms Pair Inr show ?thesis
        by (auto simp: obtain_link_def link_unknown_def link_obtained_def indeterminate_def split: if_splits)
    next
      case (3 s s' ss')
      with assms Pair Inr show ?thesis by (auto simp: obtain_link_def link_unknown_def indeterminate_def)
    qed
  qed
qed

lemma problem_recorded:
  assumes "finalize_provider_problem claim problem t db = (Inr res, db')" "\<not> xr_idempotent res"
  obtains r where "find_action (xc_recovery_action_id claim) db' = Some r" "ra_execution_status r = pp_status problem"
    "xr_execution_status res = pp_status problem" "xr_recovery_action_id res = xc_recovery_action_id claim"
proof -
  from assms(1) obtain c r0 where c: "find_case (xc_case_id claim) db = Some c" and r0: "find_action (xc_recovery_action_id claim) db = Some r0"
    and body: "(if ra_execution_status r0 \<in> FINAL_EXECUTION_STATUSES then Inr (already_final r0 c, db)
       else
         let code = bounded_error_code (pp_error_code problem);
             r1 = r0\<lparr>ra_execution_status := pp_status problem, ra_error_code := Some code\<rparr>;
             r2 = (if pp_status problem = RecoveryExecutionStatus.FAILED then r1\<lparr>ra_failed_at := Some t\<rparr> else r1)
         in Inr (execution_view r2 c code False,
              append_execution_audit r2 (pp_event_type problem) [] (save_action r2 db))) =
       (Inr (res, db') :: arc_error + execution_result \<times> arc_db)"
    unfolding finalize_provider_problem_def by (auto elim!: transaction_InrE with_claim_InrE)
  have key: "ra_id r0 = xc_recovery_action_id claim" by (rule actions_table.lookup_key [OF r0])
  define r2 where "r2 = (let r1 = r0\<lparr>ra_execution_status := pp_status problem,
      ra_error_code := Some (bounded_error_code (pp_error_code problem))\<rparr>
    in if pp_status problem = RecoveryExecutionStatus.FAILED then r1\<lparr>ra_failed_at := Some t\<rparr> else r1)"
  have r2: "ra_id r2 = xc_recovery_action_id claim" "ra_execution_status r2 = pp_status problem"
    using key by (simp_all add: r2_def Let_def)
  from body assms(2) have res: "res = execution_view r2 c (bounded_error_code (pp_error_code problem)) False"
    "db' = append_execution_audit r2 (pp_event_type problem) [] (save_action r2 db)"
    by (auto simp: already_final_def execution_view_def r2_def Let_def split: if_splits)
  have "find_action (xc_recovery_action_id claim) db' = Some r2"
    using action_saved [OF r0 r2(1)] by (simp add: res(2) append_execution_audit_def)
  with r2 show thesis by (intro that [of r2]) (simp_all add: res(1) execution_view_def)
qed

lemma compensation_recorded:
  assumes "finalize_compensation claim s outcome db = (Inr res, db')"
  obtains r where "find_action (xc_recovery_action_id claim) db' = Some r" "xr_execution_status res = ra_execution_status r"
    "xr_recovery_action_id res = xc_recovery_action_id claim"
    "case outcome of
       Inr x \<Rightarrow> ra_execution_status r = RecoveryExecutionStatus.CANCELLED \<and> ra_external_reference_id r = Some (ps_id x)
     | Inl code \<Rightarrow> ra_execution_status r = RecoveryExecutionStatus.COMPENSATION_REQUIRED \<and>
         ra_external_reference_id r = Some (ps_id s)"
proof -
  from assms obtain c r0 where c: "find_case (xc_case_id claim) db = Some c" and r0: "find_action (xc_recovery_action_id claim) db = Some r0"
    and body: "(let (r1, reason, event_type) = (case outcome of
             Inr cancelled \<Rightarrow>
               ((persist_external_projection r0 cancelled)\<lparr>ra_execution_status := RecoveryExecutionStatus.CANCELLED,
                  ra_error_code := None\<rparr>, ''RECOVERY_ACTION_COMPENSATED'', ''RECOVERY_ACTION_COMPENSATED'')
           | Inl error_code \<Rightarrow>
               (let code = bounded_error_code error_code in
                ((persist_external_projection r0 s)\<lparr>ra_execution_status :=
                    RecoveryExecutionStatus.COMPENSATION_REQUIRED, ra_error_code := Some code\<rparr>, code,
                 ''RECOVERY_ACTION_COMPENSATION_REQUIRED'')))
       in Inr (execution_view r1 c reason False, append_execution_audit r1 event_type [] (save_action r1 db))) =
       (Inr (res, db') :: arc_error + execution_result \<times> arc_db)"
    unfolding finalize_compensation_def by (auto elim!: transaction_InrE with_claim_InrE)
  have key: "ra_id r0 = xc_recovery_action_id claim" by (rule actions_table.lookup_key [OF r0])
  show thesis
  proof (cases outcome)
    case (Inl code)
    let ?r = "(persist_external_projection r0 s)\<lparr>ra_execution_status := RecoveryExecutionStatus.COMPENSATION_REQUIRED,
      ra_error_code := Some (bounded_error_code code)\<rparr>"
    have "find_action (xc_recovery_action_id claim) (save_action ?r db) = Some ?r" by (rule action_saved [OF r0]) (simp add: key)
    with body Inl key show thesis
      by (intro that [of ?r]) (auto simp: Let_def append_execution_audit_def execution_view_def persist_external_projection_def)
  next
    case (Inr x)
    let ?r = "(persist_external_projection r0 x)\<lparr>ra_execution_status := RecoveryExecutionStatus.CANCELLED,
      ra_error_code := None\<rparr>"
    have "find_action (xc_recovery_action_id claim) (save_action ?r db) = Some ?r" by (rule action_saved [OF r0]) (simp add: key)
    with body Inr key show thesis
      by (intro that [of ?r]) (auto simp: append_execution_audit_def execution_view_def persist_external_projection_def)
  qed
qed

lemma still_authorized_iff:
  "find_case (xc_case_id claim) db = Some c \<Longrightarrow> find_action (xc_recovery_action_id claim) db = Some r \<Longrightarrow>
     still_authorized sha claim t db = post_request_context_is_current sha c r t db"
  by (simp add: still_authorized_def)

lemma success_recorded:
  assumes "finalize_external_success sha claim s adopted t db = (Inr (res, compensation_required), db')"
  obtains r where "find_action (xc_recovery_action_id claim) db' = Some r" "xr_execution_status res = ra_execution_status r"
    "xr_recovery_action_id res = xc_recovery_action_id claim"
    "ra_external_reference_id r = Some (ps_id s)" "ra_external_url r = Some (ps_short_url s)"
    "compensation_required \<longleftrightarrow> \<not> still_authorized sha claim t db"
    "ra_execution_status r = (if compensation_required then RecoveryExecutionStatus.COMPENSATION_REQUIRED
       else RecoveryExecutionStatus.SUCCEEDED)"
proof -
  from assms obtain c r0 where c: "find_case (xc_case_id claim) db = Some c"
    and r0: "find_action (xc_recovery_action_id claim) db = Some r0" and t: "dt_aware t"
    and body: "(let r = persist_external_projection r0 s in
       if \<not> post_request_context_is_current sha c r t db then
         let r1 = r\<lparr>ra_execution_status := RecoveryExecutionStatus.COMPENSATION_REQUIRED,
                   ra_error_code := Some ''EXECUTION_BLOCKED_STALE_AUTHORIZATION''\<rparr>
         in Inr ((execution_view r1 c ''EXECUTION_BLOCKED_STALE_AUTHORIZATION'' False, True),
              append_execution_audit r1 ''EXECUTION_BLOCKED_STALE_AUTHORIZATION'' [] (save_action r1 db))
       else
         let r1 = r\<lparr>ra_execution_status := RecoveryExecutionStatus.SUCCEEDED, ra_executed_at := Some t,
                   ra_failed_at := None, ra_error_code := None\<rparr>
         in sbind (await_outcome r1 (count_attempt (ra_action r1) c, save_action r1 db)) (\<lambda>(c', db1).
              let db2 = (if adopted then append_execution_audit r1 ''RECOVERY_ACTION_ADOPTED_EXISTING'' [] db1 else db1);
                  db3 = append_execution_audit r1 ''RECOVERY_ACTION_SUCCEEDED''
                    (state_metadata (pc_current_state c) (pc_current_state c')) db2
              in Inr ((execution_view r1 c' ''RECOVERY_ACTION_SUCCEEDED'' False, False), save_case c' db3))) =
      Inr ((res, compensation_required), db')"
    unfolding finalize_external_success_def by (auto elim!: transaction_InrE with_claim_InrE)
  have key: "ra_id r0 = xc_recovery_action_id claim" by (rule actions_table.lookup_key [OF r0])
  note auth = still_authorized_iff [OF c r0, of sha t]
  show thesis
  proof (cases "post_request_context_is_current sha c r0 t db")
    case False
    let ?r = "(persist_external_projection r0 s)\<lparr>ra_execution_status := RecoveryExecutionStatus.COMPENSATION_REQUIRED,
      ra_error_code := Some ''EXECUTION_BLOCKED_STALE_AUTHORIZATION''\<rparr>"
    have "find_action (xc_recovery_action_id claim) (save_action ?r db) = Some ?r" by (rule action_saved [OF r0]) (simp add: key)
    moreover from body False have "res = execution_view ?r c ''EXECUTION_BLOCKED_STALE_AUTHORIZATION'' False"
      "compensation_required" "db' = append_execution_audit ?r ''EXECUTION_BLOCKED_STALE_AUTHORIZATION'' [] (save_action ?r db)"
      by (simp_all add: Let_def)
    ultimately show thesis
      using False key auth
      by (intro that [of ?r]) (simp_all add: append_execution_audit_def execution_view_def persist_external_projection_def)
  next
    case True
    let ?r = "persist_external_projection r0 s\<lparr>ra_execution_status := RecoveryExecutionStatus.SUCCEEDED,
      ra_executed_at := Some t, ra_failed_at := None, ra_error_code := None\<rparr>"
    from finalize_success_current [OF c r0 True t, of s adopted] assms
    have "find_action (xc_recovery_action_id claim) db' = Some ?r" "\<not> compensation_required"
      "xr_execution_status res = RecoveryExecutionStatus.SUCCEEDED" by auto
    moreover have "xr_recovery_action_id res = xc_recovery_action_id claim"
      using body True key by (auto simp: Let_def sbind_eq_Inr_iff execution_view_def)
    ultimately show thesis
      using auth True by (intro that [of ?r]) (simp_all add: persist_external_projection_def)
  qed
qed

lemma link_status_earned:
  assumes run: "execute_payment_link sha (Inr gw) claim t2 others later w db = (Inr res, db', w')"
    and fresh: "\<not> xr_idempotent res"
  shows "\<exists>q r. payment_link_request claim = Inr q \<and> xr_recovery_action_id res = xc_recovery_action_id claim \<and>
    find_action (xc_recovery_action_id claim) db' = Some r \<and> ra_execution_status r = xr_execution_status res \<and>
    status_earned sha gw claim q t2 (others db) w r w'"
proof -
  obtain q where q: "payment_link_request claim = Inr q"
    using run by (cases "payment_link_request claim") (simp_all add: execute_payment_link_def)
  obtain answer w1 where o: "obtain_link gw q w = (answer, w1)" by (cases "obtain_link gw q w")
  note earned = obtain_link_cases [OF o]
  consider (problem) p where "answer = Inr (Inl p)" | (link) s adopted where "answer = Inr (Inr (s, adopted))"
    using run q o by (cases answer) (auto simp: execute_payment_link_def, metis sum.exhaust surj_pair)
  then show ?thesis
  proof cases
    case (problem p)
    with run q o have f: "finalize_provider_problem claim p t2 (others db) = (Inr res, db')" "w' = w1"
      by (auto simp: execute_payment_link_def split: prod.splits)
    from problem_recorded [OF f(1) fresh] obtain r where r: "find_action (xc_recovery_action_id claim) db' = Some r"
      "ra_execution_status r = pp_status p" "xr_execution_status res = pp_status p"
      "xr_recovery_action_id res = xc_recovery_action_id claim" .
    then show ?thesis using q earned problem f(2) by (auto simp: status_earned_def)
  next
    case (link s adopted)
    with run q o obtain result comp db1 where
      f: "finalize_external_success sha claim s adopted t2 (others db) = (Inr (result, comp), db1)"
      by (cases "finalize_external_success sha claim s adopted t2 (others db)"; cases "fst (finalize_external_success sha claim s adopted t2 (others db))")
        (auto simp: execute_payment_link_def)
    from success_recorded [OF f] obtain r where r: "find_action (xc_recovery_action_id claim) db1 = Some r"
      "xr_execution_status result = ra_execution_status r" "xr_recovery_action_id result = xc_recovery_action_id claim"
      "ra_external_reference_id r = Some (ps_id s)" "ra_external_url r = Some (ps_short_url s)"
      "comp \<longleftrightarrow> \<not> still_authorized sha claim t2 (others db)"
      "ra_execution_status r = (if comp then RecoveryExecutionStatus.COMPENSATION_REQUIRED else RecoveryExecutionStatus.SUCCEEDED)" .
    have s: "link_obtained gw q w s w1" using earned link by simp
    show ?thesis
    proof (cases comp)
      case False
      with run q o link f have "res = result" "db' = db1" "w' = w1" by (auto simp: execute_payment_link_def)
      with q r s False show ?thesis by (auto simp: status_earned_def)
    next
      case True
      obtain cancelled w2 where k: "gw_cancel gw (ps_id s) w1 = (cancelled, w2)" by (cases "gw_cancel gw (ps_id s) w1")
      from run q o link f True k obtain outcome where
        oc: "cancel_outcome gw s w1 = (Inr outcome, w')" "finalize_compensation claim s outcome (later db1) = (Inr res, db')"
        by (cases "cancel_outcome gw s w1"; cases "fst (cancel_outcome gw s w1)")
          (auto simp: execute_payment_link_def split: prod.splits)
      from compensation_recorded [OF oc(2)] obtain r2 where r2: "find_action (xc_recovery_action_id claim) db' = Some r2"
        "xr_execution_status res = ra_execution_status r2" "xr_recovery_action_id res = xc_recovery_action_id claim"
        "case outcome of
           Inr x \<Rightarrow> ra_execution_status r2 = RecoveryExecutionStatus.CANCELLED \<and> ra_external_reference_id r2 = Some (ps_id x)
         | Inl code \<Rightarrow> ra_execution_status r2 = RecoveryExecutionStatus.COMPENSATION_REQUIRED \<and>
             ra_external_reference_id r2 = Some (ps_id s)" .
      have w2: "w2 = w'" and x: "case outcome of Inr x \<Rightarrow> cancelled = Inr x \<and> ps_status x = ''cancelled''
          | Inl code \<Rightarrow> \<forall>x. cancelled = Inr x \<longrightarrow> ps_status x \<noteq> ''cancelled''"
        using oc(1) k by (auto simp: cancel_outcome_def split: sum.splits if_splits)
      show ?thesis
        using q r2 s r(6) True k w2 x by (cases outcome) (auto simp: status_earned_def)
    qed
  qed
qed

text \<open>An exception: nothing is recorded, or the link is recorded as one to be cancelled.\<close>

lemma link_exception:
  assumes run: "execute_payment_link sha (Inr gw) claim t2 others later w db = (Inl e, db', w')"
  shows "db' = db \<or> db' = others db \<or> (\<exists>d r. find_action (xc_recovery_action_id claim) d = Some r \<and>
    ra_execution_status r = RecoveryExecutionStatus.COMPENSATION_REQUIRED \<and> (db' = d \<or> db' = later d))"
proof -
  have problem: "d' = d" if "finalize_provider_problem claim p t2 d = (Inl e', d')" for p d e' d'
    using that by (auto simp: finalize_provider_problem_def dest: transaction_Inl_unchanged)
  have success: "d' = d" if "finalize_external_success sha claim s adopted t2 d = (Inl e', d')" for s adopted d e' d'
    using that by (auto simp: finalize_external_success_def dest: transaction_Inl_unchanged)
  have comp: "d' = d" if "finalize_compensation claim s outcome d = (Inl e', d')" for s outcome d e' d'
    using that by (auto simp: finalize_compensation_def dest: transaction_Inl_unchanged)
  consider "db' = db" | p where "finalize_provider_problem claim p t2 (others db) = (Inl e, db')"
    | s adopted where "finalize_external_success sha claim s adopted t2 (others db) = (Inl e, db')"
    | s adopted result d where "finalize_external_success sha claim s adopted t2 (others db) = (Inr (result, True), d)"
        "db' = d \<or> (\<exists>outcome. finalize_compensation claim s outcome (later d) = (Inl e, db'))"
    using run by (auto simp: execute_payment_link_def Let_def split: sum.splits prod.splits if_splits) blast
  then show ?thesis
  proof cases
    case (4 s adopted result d)
    from success_recorded [OF 4(1)] obtain r where "find_action (xc_recovery_action_id claim) d = Some r"
      "ra_execution_status r = RecoveryExecutionStatus.COMPENSATION_REQUIRED" by auto
    with 4(2) comp show ?thesis by blast
  qed (use problem success in blast)+
qed

section \<open>Properties\<close>

text \<open>
  C9. The recorded status is the truth about the provider. The provider is asked only for an action
  that was claimed and creates a link; in every other call its world stays as it was. Whatever the
  provider answers and other transactions do meanwhile, a new result of the claimed link action has
  the status of its row, and that is SUCCEEDED only with a link that was adopted or made for this
  request while the authorization stood; CANCELLED only when it no longer stood and the provider
  confirmed the cancellation of the link; COMPENSATION_REQUIRED only when it no longer stood, the
  cancellation was tried and not confirmed; FAILED only when making the link was refused for certain;
  and INDETERMINATE only when the provider left open whether there is a usable link. An exception
  records nothing, or it leaves the link recorded as one to be cancelled.
\<close>

theorem execution_status_truthful:
  assumes "execute sha (Inr gw) k t1 t2 record_id others later w db = (result, db', w')"
  shows "case prepare_and_claim sha k t1 record_id db of
      (Inr (Inr claim), db1) \<Rightarrow>
        if xc_action claim = RecoveryAction.CREATE_RECOVERY_LINK then
          (case result of
             Inr res \<Rightarrow> xr_idempotent res \<or> (\<exists>q r. payment_link_request claim = Inr q \<and>
               xr_recovery_action_id res = xc_recovery_action_id claim \<and>
               find_action (xc_recovery_action_id claim) db' = Some r \<and> ra_execution_status r = xr_execution_status res \<and>
               status_earned sha gw claim q t2 (others db1) w r w')
           | Inl e \<Rightarrow> db' = db1 \<or> db' = others db1 \<or> (\<exists>d r. find_action (xc_recovery_action_id claim) d = Some r \<and>
               ra_execution_status r = RecoveryExecutionStatus.COMPENSATION_REQUIRED \<and> (db' = d \<or> db' = later d)))
        else w' = w
    | (_, db1) \<Rightarrow> w' = w \<and> db' = db1"
proof -
  obtain p db1 where p: "prepare_and_claim sha k t1 record_id db = (p, db1)" by (cases "prepare_and_claim sha k t1 record_id db")
  consider e where "p = Inl e" | x where "p = Inr (Inl x)" | claim where "p = Inr (Inr claim)"
    by (cases p; cases "projr p") auto
  then show ?thesis
  proof cases
    case (3 claim)
    show ?thesis
    proof (cases "xc_action claim = RecoveryAction.CREATE_RECOVERY_LINK")
      case True
      with assms p 3 have run: "execute_payment_link sha (Inr gw) claim t2 others later w db1 = (result, db', w')"
        by (simp add: execute_def)
      show ?thesis
      proof (cases result)
        case (Inl e)
        from link_exception [OF run [unfolded Inl]] Inl True show ?thesis by (simp add: p 3)
      next
        case (Inr res)
        from link_status_earned [OF run [unfolded Inr]] Inr True show ?thesis by (simp add: p 3) blast
      qed
    qed (use assms p 3 in \<open>auto simp: execute_def split: prod.splits\<close>)
  qed (use assms p in \<open>auto simp: execute_def\<close>)
qed

theorem execution_status_truthful_witness:
  "\<exists>db1 db' w' claim q r. prepare_and_claim fixed_sha 7 claim_time 40 ready_db = (Inr (Inr claim), db1) \<and>
     snd (execute fixed_sha (Inr sample_gateway) 7 claim_time claim_time 40 id id [] ready_db) = (db', w') \<and>
     find_action 40 db' = Some r \<and> ra_execution_status r = RecoveryExecutionStatus.SUCCEEDED \<and>
     status_earned fixed_sha sample_gateway claim q claim_time db1 [] r w'"
proof -
  let ?run = "execute fixed_sha (Inr sample_gateway) 7 claim_time claim_time 40 id id [] ready_db"
  have run: "case fst ?run of Inr res \<Rightarrow> \<not> xr_idempotent res \<and> xr_execution_status res = RecoveryExecutionStatus.SUCCEEDED
    | Inl e \<Rightarrow> False" by code_simp
  have claimed: "case fst (prepare_and_claim fixed_sha 7 claim_time 40 ready_db) of
      Inr (Inr claim) \<Rightarrow> xc_action claim = RecoveryAction.CREATE_RECOVERY_LINK \<and> xc_recovery_action_id claim = 40
    | _ \<Rightarrow> False" by code_simp
  obtain res db' w' where e: "?run = (Inr res, db', w')" "\<not> xr_idempotent res"
    "xr_execution_status res = RecoveryExecutionStatus.SUCCEEDED"
    using run by (cases ?run) (auto split: sum.splits)
  obtain claim db1 where c: "prepare_and_claim fixed_sha 7 claim_time 40 ready_db = (Inr (Inr claim), db1)"
    "xc_action claim = RecoveryAction.CREATE_RECOVERY_LINK" "xc_recovery_action_id claim = 40"
    using claimed by (cases "prepare_and_claim fixed_sha 7 claim_time 40 ready_db") (auto split: sum.splits)
  from execution_status_truthful [OF e(1)] c e show ?thesis by auto
qed

end
