(* ===== verification/Arc_Metrics.thy ===== *)
theory Arc_Metrics
  imports Arc_Outcomes Complex_Main "HOL-Library.AList"
begin

text \<open>
  The read models of outcomes (\<open>arc/outcomes/queries.py\<close>): the current outcome and the attribution
  of a case, the lists of recovered and waiting cases, the recovered amounts per provider mode and
  currency, and the recovery metrics of one mode and currency. A query is a function of the tables.
  Where SQL leaves the order of rows open, that of the table is taken; dictionaries are association
  lists in the order of insertion; rates are the exact quotients that the code rounds to a double.
\<close>

section \<open>Queries\<close>

definition row_time :: "outcome_observation \<Rightarrow> int \<times> int" where
  "row_time ob = (dt_us (ro_observed_at ob), dt_us (ro_created_at ob))"

definition get_current_outcome_for_case :: "uuid \<Rightarrow> arc_db \<Rightarrow> outcome_observation option" where
  "get_current_outcome_for_case k db =
    (case sort_key (\<lambda>ob. (- dt_us (ro_observed_at ob), - dt_us (ro_created_at ob)))
        (filter (\<lambda>ob. ro_case_id ob = k) (db_observations db)) of
       [] \<Rightarrow> None | ob # _ \<Rightarrow> Some ob)"

definition get_attribution_for_case :: "uuid \<Rightarrow> arc_db \<Rightarrow> recovery_attribution option" where
  "get_attribution_for_case k db = find (\<lambda>a. at_case_id a = k) (db_attributions db)"

text \<open>\<open>_currency\<close>.\<close>

definition metric_currency :: "string \<Rightarrow> arc_error + string" where
  "metric_currency value = (let normalized = py_upper (py_strip value) in
     if length normalized \<noteq> 3 then Inl (PyValueError ''Currency must be a three-letter code'') else Inr normalized)"

text \<open>The rows that SQLAlchemy's \<open>unique\<close> keeps: the first occurrence of each.\<close>

definition unique_first :: "'a list \<Rightarrow> 'a list" where
  "unique_first xs = rev (remdups (rev xs))"

definition list_recovered_cases :: "ProviderMode \<Rightarrow> string option \<Rightarrow> arc_db \<Rightarrow> arc_error + payment_case list" where
  "list_recovered_cases mode currency db =
    (let rows = sort_key (\<lambda>a. - dt_us (at_attributed_at a))
           (filter (\<lambda>a. at_provider_mode a = mode) (db_attributions db));
         joined = (\<lambda>l. unique_first (List.map_filter (\<lambda>a. find_case (at_case_id a) db) l))
     in case currency of
          None \<Rightarrow> Inr (joined rows)
        | Some value \<Rightarrow> sbind (metric_currency value) (\<lambda>c. Inr (joined (filter (\<lambda>a. at_currency a = c) rows))))"

definition list_waiting_for_outcome_cases :: "(payment_case \<Rightarrow> py_datetime) \<Rightarrow> arc_db \<Rightarrow> payment_case list" where
  "list_waiting_for_outcome_cases updated_at db =
     sort_key (\<lambda>c. dt_us (updated_at c)) (filter (\<lambda>c. pc_current_state c = CaseState.WAITING_FOR_OUTCOME) (db_cases db))"

record recovered_amount_summary =
  rs_provider_mode :: ProviderMode
  rs_currency :: string
  rs_recovered_cases :: nat
  rs_recovered_amount_minor :: int

definition summarize_recovered_amount :: "ProviderMode option \<Rightarrow> arc_db \<Rightarrow> recovered_amount_summary list" where
  "summarize_recovered_amount mode db =
    (let rows = (case mode of None \<Rightarrow> db_attributions db
           | Some m \<Rightarrow> filter (\<lambda>a. at_provider_mode a = m) (db_attributions db));
         group = (\<lambda>a. (at_provider_mode a, at_currency a))
     in map (\<lambda>g. let members = filter (\<lambda>a. group a = g) rows in
          \<lparr>rs_provider_mode = fst g, rs_currency = snd g, rs_recovered_cases = length (map at_case_id members),
           rs_recovered_amount_minor = sum_list (map at_recovered_amount_minor members)\<rparr>)
        (unique_first (map group rows)))"

section \<open>Metrics\<close>

record recovery_metrics =
  rm_provider_mode :: ProviderMode
  rm_currency :: string
  rm_cases_evaluated :: nat
  rm_revenue_at_risk_minor :: int
  rm_recovery_actions_succeeded :: nat
  rm_recovered_cases :: nat
  rm_recovered_revenue_minor :: int
  rm_recovery_rate_by_cases :: rat
  rm_recovery_rate_by_amount :: rat
  rm_awaiting_outcome :: nat
  rm_requires_attention :: nat

definition note_latest ::
  "outcome_observation \<Rightarrow> (uuid \<times> outcome_observation) list \<Rightarrow> (uuid \<times> outcome_observation) list" where
  "note_latest ob latest =
    (case map_of latest (ro_recovery_action_id ob) of
       None \<Rightarrow> AList.update (ro_recovery_action_id ob) ob latest
     | Some previous \<Rightarrow>
         if row_time previous < row_time ob then AList.update (ro_recovery_action_id ob) ob latest else latest)"

definition latest_by_action :: "outcome_observation list \<Rightarrow> (uuid \<times> outcome_observation) list" where
  "latest_by_action observations = fold note_latest observations []"

definition scoped_observations :: "ProviderMode \<Rightarrow> string \<Rightarrow> arc_db \<Rightarrow> outcome_observation list" where
  "scoped_observations mode currency db =
     filter (\<lambda>ob. ro_provider_mode ob = mode \<and> ro_currency ob = currency) (db_observations db)"

definition scoped_attributions :: "ProviderMode \<Rightarrow> string \<Rightarrow> arc_db \<Rightarrow> recovery_attribution list" where
  "scoped_attributions mode currency db =
     filter (\<lambda>a. at_provider_mode a = mode \<and> at_currency a = currency) (db_attributions db)"

definition or_zero :: "int option \<Rightarrow> int" where
  "or_zero v = (case v of None \<Rightarrow> 0 | Some n \<Rightarrow> n)"

definition metrics_rate :: "int \<Rightarrow> int \<Rightarrow> rat" where
  "metrics_rate part whole = (if whole = 0 then 0 else of_int part / of_int whole)"

definition needs_attention :: "payment_case list \<Rightarrow> outcome_observation \<Rightarrow> bool" where
  "needs_attention cases ob \<longleftrightarrow> ro_outcome_status ob = RecoveryOutcomeStatus.REVIEW_REQUIRED \<or>
     (case row_find pc_id (ro_case_id ob) cases of None \<Rightarrow> False
      | Some c \<Rightarrow> pc_current_state c = CaseState.ESCALATED)"

definition calculate_recovery_metrics :: "ProviderMode \<Rightarrow> string \<Rightarrow> arc_db \<Rightarrow> arc_error + recovery_metrics" where
  "calculate_recovery_metrics mode value db = sbind (metric_currency value) (\<lambda>currency.
    let observations = scoped_observations mode currency db;
        latest = latest_by_action observations;
        case_ids = map ro_case_id observations;
        cases = filter (\<lambda>c. pc_id c \<in> set case_ids) (db_cases db);
        actions = filter (\<lambda>r. ra_id r \<in> set (map fst latest)) (db_actions db);
        attributions = scoped_attributions mode currency db;
        cases_evaluated = length cases;
        revenue_at_risk = sum_list (map (\<lambda>c. or_zero (pc_amount c)) (filter (\<lambda>c. pc_currency c = Some currency) cases));
        recovered_case_ids = remdups (map at_case_id attributions);
        recovered_revenue = sum_list (map at_recovered_amount_minor attributions)
    in Inr \<lparr>rm_provider_mode = mode, rm_currency = currency, rm_cases_evaluated = cases_evaluated,
      rm_revenue_at_risk_minor = revenue_at_risk,
      rm_recovery_actions_succeeded =
        length (filter (\<lambda>r. ra_execution_status r = RecoveryExecutionStatus.SUCCEEDED) actions),
      rm_recovered_cases = length recovered_case_ids, rm_recovered_revenue_minor = recovered_revenue,
      rm_recovery_rate_by_cases = metrics_rate (int (length recovered_case_ids)) (int cases_evaluated),
      rm_recovery_rate_by_amount = metrics_rate recovered_revenue revenue_at_risk,
      rm_awaiting_outcome = length (filter (\<lambda>c. pc_current_state c = CaseState.WAITING_FOR_OUTCOME) cases),
      rm_requires_attention =
        length (remdups (map ro_case_id (filter (needs_attention cases) (map snd latest))))\<rparr>)"

section \<open>Facts\<close>

lemma set_unique_first [simp]: "set (unique_first xs) = set xs" and distinct_unique_first [simp]: "distinct (unique_first xs)"
  by (simp_all add: unique_first_def)

lemma filter_distinct_key: "distinct xs \<Longrightarrow> filter (\<lambda>x. x = k) xs = (if k \<in> set xs then [k] else [])"
  by (induction xs) auto

lemma metric_currency_fixed: "metric_currency value = Inr c \<Longrightarrow> length c = 3"
  by (auto simp: metric_currency_def Let_def split: if_splits)

text \<open>The dictionary of the latest observations: for each action observed, one that no other one follows.\<close>

lemma note_latest_map: "map_of (note_latest ob d) a =
  (if a = ro_recovery_action_id ob then
     Some (case map_of d a of None \<Rightarrow> ob | Some p \<Rightarrow> if row_time p < row_time ob then ob else p)
   else map_of d a)"
  by (auto simp: note_latest_def update_conv' split: option.split)

lemma note_latest_keys: "distinct (map fst d) \<Longrightarrow> distinct (map fst (note_latest ob d))"
  by (auto simp: note_latest_def distinct_update split: option.split)

lemma latest_keys: "distinct (map fst (latest_by_action obs))"
  unfolding latest_by_action_def
  by (rule fold_invariant [where Q = "\<lambda>_. True"]) (auto intro: note_latest_keys)

lemma latest_exact:
  "map_of (latest_by_action obs) a = None \<longleftrightarrow> (\<forall>ob \<in> set obs. ro_recovery_action_id ob \<noteq> a)"
  "map_of (latest_by_action obs) a = Some ob \<Longrightarrow> ob \<in> set obs \<and> ro_recovery_action_id ob = a \<and>
     (\<forall>o' \<in> set obs. ro_recovery_action_id o' = a \<longrightarrow> row_time o' \<le> row_time ob)"
proof (induction obs arbitrary: ob rule: rev_induct)
  case Nil
  case 1 show ?case by (simp add: latest_by_action_def)
  case 2 then show ?case by (simp add: latest_by_action_def)
next
  case (snoc x obs)
  have step: "latest_by_action (obs @ [x]) = note_latest x (latest_by_action obs)" by (simp add: latest_by_action_def)
  case 1 show ?case using snoc.IH(1) by (auto simp: step note_latest_map)
  case 2
  show ?case
  proof (cases "a = ro_recovery_action_id x")
    case False
    with 2 snoc.IH(2) show ?thesis by (auto simp: step note_latest_map)
  next
    case True
    show ?thesis
    proof (cases "map_of (latest_by_action obs) a")
      case None
      with 2 True snoc.IH(1) show ?thesis by (auto simp: step note_latest_map)
    next
      case (Some p)
      from snoc.IH(2) [OF this] 2 True Some show ?thesis
        by (auto simp: step note_latest_map split: if_splits)
    qed
  qed
qed

lemma latest_observed: "ob \<in> set (map snd (latest_by_action obs)) \<Longrightarrow> ob \<in> set obs"
  using latest_exact(2) map_of_is_SomeI [OF latest_keys] by fastforce

lemma length_remdups_le:
  assumes "set xs \<subseteq> f ` set ys"
  shows "length (remdups xs) \<le> length ys"
proof -
  have "card (set xs) \<le> card (f ` set ys)" using assms by (intro card_mono) auto
  also have "\<dots> \<le> length ys" using card_image_le [of "set ys" f] card_length [of ys] by simp
  finally show ?thesis by (simp add: length_remdups_card_conv)
qed

section \<open>The metrics and the summary\<close>

text \<open>
  C21. Two reports on the same money agree. The summary of recovered amounts, with or without a filter on the
  provider mode, has one entry for the mode and currency of the metrics if anything was recovered
  there, and none otherwise; its amount is the recovered revenue of the metrics. Its count is that
  of the attributions and not of the cases: it is the number of recovered cases of the metrics
  exactly when no case has two attributions, and larger otherwise.
\<close>

theorem metrics_match_summary:
  assumes "calculate_recovery_metrics mode value db = Inr m" "filter_mode = None \<or> filter_mode = Some mode"
  defines "scoped \<equiv> scoped_attributions mode (rm_currency m) db"
  shows "filter (\<lambda>s. rs_provider_mode s = mode \<and> rs_currency s = rm_currency m) (summarize_recovered_amount filter_mode db) =
      (if scoped = [] then [] else
        [\<lparr>rs_provider_mode = mode, rs_currency = rm_currency m, rs_recovered_cases = length scoped,
          rs_recovered_amount_minor = rm_recovered_revenue_minor m\<rparr>]) \<and>
    rm_recovered_cases m \<le> length scoped \<and>
    (rm_recovered_cases m = length scoped \<longleftrightarrow> distinct (map at_case_id scoped))"
proof -
  define g where "g = (\<lambda>a :: recovery_attribution. (at_provider_mode a, at_currency a))"
  define rows where "rows = (case filter_mode of None \<Rightarrow> db_attributions db
    | Some m \<Rightarrow> filter (\<lambda>a. at_provider_mode a = m) (db_attributions db))"
  have m: "rm_recovered_cases m = length (remdups (map at_case_id scoped))"
    "rm_recovered_revenue_minor m = sum_list (map at_recovered_amount_minor scoped)"
    using assms(1) by (auto simp: calculate_recovery_metrics_def Let_def sbind_eq_Inr_iff scoped_def)
  have members: "filter (\<lambda>a. g a = (mode, rm_currency m)) rows = scoped"
    using assms(2) by (elim disjE) (simp_all add: rows_def g_def scoped_def scoped_attributions_def conj_ac cong: conj_cong)
  have entry: "filter (\<lambda>x. x = (mode, rm_currency m)) (unique_first (map g rows)) =
      (if scoped = [] then [] else [(mode, rm_currency m)])"
    by (subst filter_distinct_key) (auto simp: members [symmetric] filter_empty_conv image_iff)
  have "filter (\<lambda>s. rs_provider_mode s = mode \<and> rs_currency s = rm_currency m) (summarize_recovered_amount filter_mode db) =
      map (\<lambda>k. let ms = filter (\<lambda>a. g a = k) rows in
          \<lparr>rs_provider_mode = fst k, rs_currency = snd k, rs_recovered_cases = length (map at_case_id ms),
           rs_recovered_amount_minor = sum_list (map at_recovered_amount_minor ms)\<rparr>)
        (filter (\<lambda>x. x = (mode, rm_currency m)) (unique_first (map g rows)))"
    by (simp add: summarize_recovered_amount_def Let_def g_def rows_def filter_map o_def prod_eq_iff)
  then show ?thesis unfolding entry using m
    by (simp add: members Let_def length_remdups_leq [of "map at_case_id scoped", simplified])
       (metis card_distinct distinct_card length_map length_remdups_card_conv)
qed

lemma metrics_defined: "metric_currency value = Inr c \<Longrightarrow> \<exists>m. calculate_recovery_metrics mode value db = Inr m \<and> rm_currency m = c"
  by (simp add: calculate_recovery_metrics_def Let_def)

text \<open>The tables after the captured payment of the outcome theory has been observed.\<close>

definition observed_db :: arc_db where
  "observed_db = snd (persist_observation fixed_sha sample_claim paid_link OutcomeObservationSource.POLL
     claim_time claim_time (50, 60) [] executed_db)"

theorem metrics_match_summary_witness:
  "\<exists>m. calculate_recovery_metrics (ob_provider_mode sample_claim) '' inr'' observed_db = Inr m \<and>
     length (filter (\<lambda>s. rs_provider_mode s = ob_provider_mode sample_claim \<and> rs_currency s = ''INR'')
       (summarize_recovered_amount None observed_db)) = 1"
proof -
  have "metric_currency '' inr'' = Inr ''INR''" by code_simp
  from metrics_defined [OF this] obtain m where
    m: "calculate_recovery_metrics (ob_provider_mode sample_claim) '' inr'' observed_db = Inr m" "rm_currency m = ''INR''"
    by blast
  have "scoped_attributions (ob_provider_mode sample_claim) ''INR'' observed_db \<noteq> []" by code_simp
  with metrics_match_summary [OF m(1), of None] m show ?thesis by simp
qed

section \<open>The ledger of outcomes\<close>

text \<open>
  What the metrics rest on: every attribution has its observation, of the same case, mode and
  currency, and every observation is of a case in the table.
\<close>

definition attribution_supported :: "outcome_observation list \<Rightarrow> recovery_attribution \<Rightarrow> bool" where
  "attribution_supported obs a \<longleftrightarrow> list_ex (\<lambda>ob. ro_id ob = at_outcome_observation_id a \<and> ro_case_id ob = at_case_id a \<and>
     ro_provider_mode ob = at_provider_mode a \<and> ro_currency ob = at_currency a) obs"

definition outcome_ledger :: "arc_db \<Rightarrow> bool" where
  "outcome_ledger db \<longleftrightarrow> list_all (attribution_supported (db_observations db)) (db_attributions db) \<and>
     list_all (\<lambda>ob. ro_case_id ob \<in> pc_id ` set (db_cases db)) (db_observations db)"

lemma supported_append: "attribution_supported obs a \<Longrightarrow> attribution_supported (obs @ new) a"
  by (simp add: attribution_supported_def)

lemma row_save_added: "key r \<notin> key ` set t \<Longrightarrow> key r' = key r \<Longrightarrow> row_save key r' (t @ [r]) = t @ [r']"
  by (induction t) (auto simp: row_save_def)

lemma first_observation_rows:
  assumes "persist_observation sha claim s source t created ids raced db = (Inr r, db')" "\<not> or_idempotent r"
    and "fst ids \<notin> ro_id ` set (db_observations db)"
  obtains ob new action where "db_observations db' = db_observations db @ [ob]" "map pc_id (db_cases db') = map pc_id (db_cases db)"
    "ro_case_id ob \<in> pc_id ` set (db_cases db)" "db_attributions db' = db_attributions db @ raced @ new"
    "list_all (attribution_supported [ob]) new" "ro_id ob = fst ids"
    "find_action (ro_recovery_action_id ob) db = Some action" "ra_case_id action = ro_case_id ob"
    "\<And>old. old \<in> set (db_observations db) \<Longrightarrow> ro_recovery_action_id old = ro_recovery_action_id ob \<Longrightarrow>
       ro_evidence_fingerprint old \<noteq> ro_evidence_fingerprint ob"
    "\<And>a. a \<in> set new \<Longrightarrow> at_outcome_observation_id a = ro_id ob \<and> at_recovery_action_id a = ro_recovery_action_id ob"
proof -
  define e where "e = ob_expected claim"
  obtain action c where a: "find_action (ee_recovery_action_id e) db = Some action"
    and c: "find_case (ob_case_id claim) db = Some c" "ra_case_id action = pc_id c"
    and none: "find (\<lambda>ob. ro_recovery_action_id ob = ra_id action \<and>
      ro_evidence_fingerprint ob = build_outcome_evidence_fingerprint sha (ra_id action) s) (db_observations db) = None"
    and rec: "record_observation claim c action e s (build_outcome_evidence_fingerprint sha (ra_id action) s)
      source t created ids raced db = Inr (r, db')"
    unfolding e_def by (rule persist_observation_InrE [OF assms(1,2)])
  define fp where "fp = build_outcome_evidence_fingerprint sha (ra_id action) s"
  note none = none [folded fp_def] and rec = rec [folded fp_def]
  define k where "k = protect_existing c action (classify_payment_link_outcome e s) (attribution_for_action (ra_id action) db) db"
  define ob where "ob = build_observation claim c action e s k fp source t created (fst ids)"
  define db1 where "db1 = save_action (action\<lparr>ra_external_status := Some (ps_status s)\<rparr>) (add_observation ob db)"
  define db2 where "db2 = db1\<lparr>db_attributions := db_attributions db1 @ raced\<rparr>"
  from record_observation_InrE [OF rec, folded k_def, folded ob_def, folded db1_def, folded db2_def]
  obtain ob' k' attribution db3 db4 where
    at: "attribute claim ob e s k (attribution_for_action (ra_id action) db) (snd ids) db2 = (ob', k', attribution, db3)"
    and ev: "only_events_added db3 db4" and db': "db' = save_case (settled_case c (oc_outcome_status k') t) db4" by metis
  have rows2: "db_cases db2 = db_cases db" "db_observations db2 = db_observations db @ [ob]"
    "db_attributions db2 = db_attributions db @ raced"
    by (simp_all add: db2_def db1_def add_observation_def save_action_def row_add_def)
  have new: "ro_id ob \<notin> ro_id ` set (db_observations db)" "ro_case_id ob = pc_id c"
    using assms(3) by (simp_all add: ob_def build_observation_def)
  have found: "pc_id c \<in> pc_id ` set (db_cases db)"
    using c by (auto simp: find_case_def dest!: row_find_SomeD)
  have "\<exists>new. db_observations db3 = db_observations db @ [ob'] \<and> db_cases db3 = db_cases db \<and> ro_case_id ob' = pc_id c \<and>
      db_attributions db3 = db_attributions db @ raced @ new \<and> list_all (attribution_supported [ob']) new \<and>
      ro_id ob' = ro_id ob \<and> ro_recovery_action_id ob' = ro_recovery_action_id ob \<and>
      ro_evidence_fingerprint ob' = ro_evidence_fingerprint ob \<and>
      (\<forall>a \<in> set new. at_outcome_observation_id a = ro_id ob \<and> at_recovery_action_id a = ro_recovery_action_id ob)"
    using at
  proof (cases rule: attribute_cases)
    case kept
    with rows2 new show ?thesis by (intro exI [of _ "[]"]) simp
  next
    case (attributed a)
    with rows2 new show ?thesis
      by (intro exI [of _ "[a]"])
        (simp add: add_attribution_def row_add_def attribution_supported_def build_attribution_def ob_def build_observation_def)
  next
    case conflict
    with rows2 new row_save_added [of ro_id ob "db_observations db" ob'] show ?thesis
      by (intro exI [of _ "[]"]) (simp add: save_observation_def)
  qed
  then obtain new where n: "db_observations db3 = db_observations db @ [ob']" "db_cases db3 = db_cases db" "ro_case_id ob' = pc_id c"
      "db_attributions db3 = db_attributions db @ raced @ new" "list_all (attribution_supported [ob']) new"
      "ro_id ob' = ro_id ob" "ro_recovery_action_id ob' = ro_recovery_action_id ob"
      "ro_evidence_fingerprint ob' = ro_evidence_fingerprint ob"
      "\<And>a. a \<in> set new \<Longrightarrow> at_outcome_observation_id a = ro_id ob \<and> at_recovery_action_id a = ro_recovery_action_id ob" by blast
  note e = only_events_addedD [OF ev]
  have ob: "ro_id ob = fst ids" "ro_recovery_action_id ob = ra_id action" "ro_evidence_fingerprint ob = fp"
    by (simp_all add: ob_def build_observation_def)
  have "find_action (ra_id action) db = Some action" using a actions_table.lookup_key [OF a] by simp
  moreover have "ro_evidence_fingerprint old \<noteq> fp"
    if "old \<in> set (db_observations db)" "ro_recovery_action_id old = ra_id action" for old
    using none that by (auto simp: find_None_iff)
  ultimately show thesis
    by (intro that [of ob' new action]) (use n e found ob c(2) in \<open>simp_all add: db' save_case_def row_save_keys\<close>)
qed

lemma ledger_kept:
  assumes ledger: "outcome_ledger (db\<lparr>db_attributions := db_attributions db @ raced\<rparr>)"
    and fresh: "fst ids \<notin> ro_id ` set (db_observations db)"
    and run: "persist_observation sha claim s source t created ids raced db = (res, db')"
  shows "outcome_ledger db'"
proof -
  have same: "outcome_ledger db" using ledger by (simp add: outcome_ledger_def)
  show ?thesis
  proof (cases res)
    case (Inl e)
    with run have "db' = db" by (auto simp: persist_observation_def dest: transaction_Inl_unchanged)
    with same show ?thesis by simp
  next
    case (Inr r)
    with run have run: "persist_observation sha claim s source t created ids raced db = (Inr r, db')" by simp
    show ?thesis
    proof (cases "or_idempotent r")
      case True
      from persist_idempotent_unchanged [OF this run] same show ?thesis by simp
    next
      case False
      from first_observation_rows [OF run False fresh] obtain ob new where
        o: "db_observations db' = db_observations db @ [ob]" "map pc_id (db_cases db') = map pc_id (db_cases db)"
        "ro_case_id ob \<in> pc_id ` set (db_cases db)" "db_attributions db' = db_attributions db @ raced @ new"
        "list_all (attribution_supported [ob]) new"
        by (rule first_observation_rows [OF run False fresh])
      have ids: "pc_id ` set (db_cases db') = pc_id ` set (db_cases db)" using o(2) by (metis set_map)
      show ?thesis using ledger o(1,3,4,5) unfolding outcome_ledger_def ids
        by (auto simp: list_all_iff attribution_supported_def)
    qed
  qed
qed

text \<open>
  C20. The ledger supports the metrics. Suppose that every attribution, counting the ones other
  sessions add meanwhile, has its observation and every observation its case. Then this still
  holds after any observation with a fresh id, whatever its result, and in every mode and currency
  the recovered, the waiting and the cases that need attention are at most the evaluated ones, so
  that the recovery rate by cases is between 0 and 1.
\<close>

theorem metrics_supported:
  assumes "outcome_ledger (db\<lparr>db_attributions := db_attributions db @ raced\<rparr>)"
    and "fst ids \<notin> ro_id ` set (db_observations db)"
    and "persist_observation sha claim s source t created ids raced db = (res, db')"
    and "calculate_recovery_metrics mode value db' = Inr m"
  shows "outcome_ledger db' \<and> rm_recovered_cases m \<le> rm_cases_evaluated m \<and>
    rm_awaiting_outcome m \<le> rm_cases_evaluated m \<and> rm_requires_attention m \<le> rm_cases_evaluated m \<and>
    0 \<le> rm_recovery_rate_by_cases m \<and> rm_recovery_rate_by_cases m \<le> 1"
proof -
  have ledger: "outcome_ledger db'" using assms(1-3) by (rule ledger_kept)
  define obs where "obs = scoped_observations mode (rm_currency m) db'"
  define cases' where "cases' = filter (\<lambda>c. pc_id c \<in> ro_case_id ` set obs) (db_cases db')"
  have m: "rm_cases_evaluated m = length cases'"
    "rm_recovered_cases m = length (remdups (map at_case_id (scoped_attributions mode (rm_currency m) db')))"
    "rm_awaiting_outcome m = length (filter (\<lambda>c. pc_current_state c = CaseState.WAITING_FOR_OUTCOME) cases')"
    "rm_requires_attention m = length (remdups (map ro_case_id (filter (needs_attention cases') (map snd (latest_by_action obs)))))"
    "rm_recovery_rate_by_cases m = metrics_rate (int (rm_recovered_cases m)) (int (rm_cases_evaluated m))"
    using assms(4) by (auto simp: calculate_recovery_metrics_def Let_def sbind_eq_Inr_iff obs_def cases'_def)
  have observed: "ro_case_id ` set obs \<subseteq> pc_id ` set cases'"
  proof
    fix k assume k: "k \<in> ro_case_id ` set obs"
    then have "k \<in> pc_id ` set (db_cases db')"
      using ledger by (auto simp: outcome_ledger_def list_all_iff obs_def scoped_observations_def)
    then obtain c where "c \<in> set (db_cases db')" "pc_id c = k" by blast
    with k show "k \<in> pc_id ` set cases'" unfolding cases'_def by (intro image_eqI [of _ _ c]) simp_all
  qed
  have "at_case_id ` set (scoped_attributions mode (rm_currency m) db') \<subseteq> ro_case_id ` set obs"
  proof
    fix k assume "k \<in> at_case_id ` set (scoped_attributions mode (rm_currency m) db')"
    then obtain a where a: "a \<in> set (db_attributions db')" "at_provider_mode a = mode" "at_currency a = rm_currency m"
      "k = at_case_id a" by (auto simp: scoped_attributions_def)
    with ledger obtain ob where "ob \<in> set (db_observations db')" "ro_case_id ob = k" "ro_provider_mode ob = mode"
      "ro_currency ob = rm_currency m" by (auto simp: outcome_ledger_def list_all_iff attribution_supported_def list_ex_iff)
    then show "k \<in> ro_case_id ` set obs"
      unfolding obs_def scoped_observations_def by (intro image_eqI [of _ _ ob]) simp_all
  qed
  from order_trans [OF this observed] have rec: "rm_recovered_cases m \<le> rm_cases_evaluated m"
    unfolding m(1,2) by (intro length_remdups_le [of _ pc_id]) (simp only: set_map)
  have "set (map ro_case_id (filter (needs_attention cases') (map snd (latest_by_action obs)))) \<subseteq> ro_case_id ` set obs"
    using latest_observed [of _ obs] by auto
  from order_trans [OF this observed] have "rm_requires_attention m \<le> rm_cases_evaluated m"
    unfolding m(1,4) by (rule length_remdups_le)
  moreover have "0 \<le> rm_recovery_rate_by_cases m \<and> rm_recovery_rate_by_cases m \<le> 1"
    using rec by (simp add: m(5) metrics_rate_def divide_le_eq)
  ultimately show ?thesis using ledger rec m(1,3) by (simp add: length_filter_le)
qed

theorem metrics_supported_witness:
  "\<exists>m. calculate_recovery_metrics (ob_provider_mode sample_claim) ''INR'' observed_db = Inr m \<and>
     outcome_ledger observed_db \<and> rm_recovery_rate_by_cases m \<le> 1"
proof -
  have "metric_currency ''INR'' = Inr ''INR''" by code_simp
  from metrics_defined [OF this] obtain m where
    m: "calculate_recovery_metrics (ob_provider_mode sample_claim) ''INR'' observed_db = Inr m" by blast
  have l: "outcome_ledger (executed_db\<lparr>db_attributions := db_attributions executed_db @ []\<rparr>)"
    "fst (50, 60) \<notin> ro_id ` set (db_observations executed_db)" by code_simp+
  have "persist_observation fixed_sha sample_claim paid_link OutcomeObservationSource.POLL claim_time claim_time
      (50, 60) [] executed_db = (fst (persist_observation fixed_sha sample_claim paid_link OutcomeObservationSource.POLL
        claim_time claim_time (50, 60) [] executed_db), observed_db)"
    by (simp add: observed_db_def)
  from metrics_supported [OF l this m] m show ?thesis by blast
qed

end
