(* ===== verification/Arc_Evaluation.thy ===== *)
theory Arc_Evaluation
  imports Arc_Policy Complex_Main "HOL-Library.AList"
begin

text \<open>
  The contracts and the metrics of the synthetic batch evaluation (\<open>arc/evaluation/models.py\<close>,
  \<open>arc/evaluation/metrics.py\<close>): scenarios and observed results, the metrics of a list of results,
  their breakdown by scenario kind, and the criteria on which an evaluation passes. Rates are
  computed exactly and rounded to six places, where the code rounds a double.
\<close>

section \<open>Contracts\<close>

definition SYNTHETIC_EVIDENCE_CLASS :: string where
  "SYNTHETIC_EVIDENCE_CLASS = ''SYNTHETIC_EVALUATION''"

datatype ScenarioKind =
    ALREADY_CAPTURED
  | PLATFORM_RETRY_ACTIVE
  | CUSTOMER_AUTHENTICATION
  | INSUFFICIENT_FUNDS
  | ISSUER_BANK
  | GATEWAY_NETWORK
  | RETRY_EXHAUSTED
  | HIGH_VALUE_APPROVAL
  | ATTEMPT_LIMIT
  | CONTACT_LIMIT
  | HARD_STOP
  | INCOMPLETE_UNKNOWN
  | DUPLICATE_ACTION
  | STALE_CAPTURE

fun scenario_kind_value :: "ScenarioKind \<Rightarrow> string" where
  "scenario_kind_value ScenarioKind.ALREADY_CAPTURED = ''already_captured''"
| "scenario_kind_value ScenarioKind.PLATFORM_RETRY_ACTIVE = ''platform_retry_active''"
| "scenario_kind_value ScenarioKind.CUSTOMER_AUTHENTICATION = ''customer_authentication''"
| "scenario_kind_value ScenarioKind.INSUFFICIENT_FUNDS = ''insufficient_funds''"
| "scenario_kind_value ScenarioKind.ISSUER_BANK = ''issuer_bank''"
| "scenario_kind_value ScenarioKind.GATEWAY_NETWORK = ''gateway_network''"
| "scenario_kind_value ScenarioKind.RETRY_EXHAUSTED = ''retry_exhausted''"
| "scenario_kind_value ScenarioKind.HIGH_VALUE_APPROVAL = ''high_value_approval''"
| "scenario_kind_value ScenarioKind.ATTEMPT_LIMIT = ''attempt_limit''"
| "scenario_kind_value ScenarioKind.CONTACT_LIMIT = ''contact_limit''"
| "scenario_kind_value ScenarioKind.HARD_STOP = ''hard_stop''"
| "scenario_kind_value ScenarioKind.INCOMPLETE_UNKNOWN = ''incomplete_unknown''"
| "scenario_kind_value ScenarioKind.DUPLICATE_ACTION = ''duplicate_action''"
| "scenario_kind_value ScenarioKind.STALE_CAPTURE = ''stale_capture''"

datatype PolicyProfile = STANDARD | BLOCK_FAILURE_CATEGORY | EXPIRED_RECOVERY_WINDOW

fun policy_profile_value :: "PolicyProfile \<Rightarrow> string" where
  "policy_profile_value PolicyProfile.STANDARD = ''standard''"
| "policy_profile_value PolicyProfile.BLOCK_FAILURE_CATEGORY = ''block_failure_category''"
| "policy_profile_value PolicyProfile.EXPIRED_RECOVERY_WINDOW = ''expired_recovery_window''"

datatype SyntheticOutcome = SUCCESSFUL_CAPTURE | UNRESOLVED | NOT_APPLICABLE

datatype FinalClassification = WAIT | SAFE_STOP | PROTECTED_CAPTURED | SYNTHETIC_RECOVERED | UNRESOLVED

record synthetic_scenario =
  sy_scenario_id :: string
  sy_kind :: ScenarioKind
  sy_amount_minor :: int
  sy_identity_kind :: string
  sy_payment_status :: "string option"
  sy_subscription_status :: "string option"
  sy_payment_method :: "string option"
  sy_error_reason :: "string option"
  sy_error_source :: "string option"
  sy_error_step :: "string option"
  sy_attempt_count :: int
  sy_contact_attempt_count :: int
  sy_detected_minutes_ago :: int
  sy_offline_action :: "RecoveryAction option"
  sy_synthetic_outcome :: SyntheticOutcome
  sy_policy_profile :: PolicyProfile
  sy_execution_request_count :: int
  sy_stale_capture_before_execution :: bool

record evaluation_case_result =
  er_scenario_id :: string
  er_scenario_kind :: ScenarioKind
  er_amount_minor :: int
  er_eligibility_decision :: EligibilityDecision
  er_eligibility_reason_code :: string
  er_failure_category :: "FailureCategory option"
  er_recovery_disposition :: "RecoveryDisposition option"
  er_strategy_action :: "RecoveryAction option"
  er_strategy_provider_invoked :: bool
  er_strategy_failed :: bool
  er_policy_result :: "PolicyDecisionResult option"
  er_policy_reason_code :: "string option"
  er_execution_requests :: int
  er_execution_count :: int
  er_duplicate_actions_prevented :: int
  er_captured_truth_observed :: bool
  er_synthetic_outcome :: SyntheticOutcome
  er_synthetic_recovered_amount_minor :: int
  er_final_classification :: FinalClassification
  er_evidence_class :: string

record evaluation_metrics =
  em_cases_evaluated :: int
  em_revenue_evaluated_minor :: int
  em_revenue_at_risk_minor :: int
  em_eligible_cases :: int
  em_ai_or_strategy_cases :: int
  em_deterministic_bypass_cases :: int
  em_automated_actions_authorized :: int
  em_human_approval_required :: int
  em_wait_cases :: int
  em_safe_stop_cases :: int
  em_already_captured_protected :: int
  em_duplicate_actions_prevented :: int
  em_synthetic_recovered_cases :: int
  em_synthetic_recovered_amount_minor :: int
  em_synthetic_recovery_rate_by_amount :: rat
  em_synthetic_recovery_rate_by_cases :: rat
  em_unresolved_cases :: int
  em_policy_violations_executed :: int
  em_unsafe_actions_after_capture :: int
  em_duplicate_executions :: int
  em_strategy_failures_or_fallbacks :: int

record evaluation_assessment =
  ea_passed :: bool
  ea_failure_reasons :: "string list"

section \<open>Metrics\<close>

text \<open>Python's sums of flags and of fields.\<close>

definition count_of :: "('a \<Rightarrow> bool) \<Rightarrow> 'a list \<Rightarrow> int" where
  "count_of P xs = sum_list (map (\<lambda>x. if P x then 1 else 0) xs)"

definition sum_of :: "('a \<Rightarrow> int) \<Rightarrow> 'a list \<Rightarrow> int" where
  "sum_of f xs = sum_list (map f xs)"

definition round_half_even :: "rat \<Rightarrow> int" where
  "round_half_even q = (let f = \<lfloor>q\<rfloor>; r = q - of_int f in
     if r < 1 / 2 then f else if 1 / 2 < r then f + 1 else if even f then f else f + 1)"

definition round6 :: "rat \<Rightarrow> rat" where
  "round6 q = of_int (round_half_even (q * 1000000)) / 1000000"

definition rate6 :: "int \<Rightarrow> int \<Rightarrow> rat" where
  "rate6 part whole = (if whole \<noteq> 0 then round6 (of_int part / of_int whole) else 0)"

definition is_eligible :: "evaluation_case_result \<Rightarrow> bool" where
  "is_eligible r \<longleftrightarrow> er_eligibility_decision r = EligibilityDecision.ELIGIBLE"

definition is_recovered :: "evaluation_case_result \<Rightarrow> bool" where
  "is_recovered r \<longleftrightarrow> 0 < er_synthetic_recovered_amount_minor r"

definition is_automated :: "evaluation_case_result \<Rightarrow> bool" where
  "is_automated r \<longleftrightarrow> er_policy_result r = Some PolicyDecisionResult.AUTHORIZED \<and>
     opt_in (er_strategy_action r) AUTOMATED_RECOVERY_ACTIONS"

definition is_safe_stop :: "evaluation_case_result \<Rightarrow> bool" where
  "is_safe_stop r \<longleftrightarrow> er_final_classification r \<in> {FinalClassification.SAFE_STOP, FinalClassification.PROTECTED_CAPTURED}"

definition calculate_evaluation_metrics :: "evaluation_case_result list \<Rightarrow> evaluation_metrics" where
  "calculate_evaluation_metrics results =
    (let eligible = filter is_eligible results;
         revenue_at_risk = sum_of er_amount_minor eligible;
         recovered = filter is_recovered results;
         recovered_amount = sum_of er_synthetic_recovered_amount_minor recovered
     in \<lparr>em_cases_evaluated = int (length results), em_revenue_evaluated_minor = sum_of er_amount_minor results,
      em_revenue_at_risk_minor = revenue_at_risk, em_eligible_cases = int (length eligible),
      em_ai_or_strategy_cases = count_of er_strategy_provider_invoked results,
      em_deterministic_bypass_cases = count_of (\<lambda>r. \<not> er_strategy_provider_invoked r) results,
      em_automated_actions_authorized = count_of is_automated results,
      em_human_approval_required =
        count_of (\<lambda>r. er_policy_result r = Some PolicyDecisionResult.REQUIRES_APPROVAL) results,
      em_wait_cases = count_of (\<lambda>r. er_final_classification r = FinalClassification.WAIT) results,
      em_safe_stop_cases = count_of is_safe_stop results,
      em_already_captured_protected =
        count_of (\<lambda>r. er_final_classification r = FinalClassification.PROTECTED_CAPTURED) results,
      em_duplicate_actions_prevented = sum_of er_duplicate_actions_prevented results,
      em_synthetic_recovered_cases = int (length recovered), em_synthetic_recovered_amount_minor = recovered_amount,
      em_synthetic_recovery_rate_by_amount = rate6 recovered_amount revenue_at_risk,
      em_synthetic_recovery_rate_by_cases = rate6 (int (length recovered)) (int (length eligible)),
      em_unresolved_cases = count_of (\<lambda>r. is_eligible r \<and> er_final_classification r \<notin>
        {FinalClassification.SYNTHETIC_RECOVERED, FinalClassification.PROTECTED_CAPTURED}) results,
      em_policy_violations_executed = sum_of (\<lambda>r. if \<not> is_automated r then er_execution_count r else 0) results,
      em_unsafe_actions_after_capture = sum_of er_execution_count (filter er_captured_truth_observed results),
      em_duplicate_executions = sum_of (\<lambda>r. max 0 (er_execution_count r - 1)) results,
      em_strategy_failures_or_fallbacks = count_of er_strategy_failed results\<rparr>)"

section \<open>Breakdown by scenario kind\<close>

record breakdown_row =
  br_cases :: int
  br_eligible_cases :: int
  br_automated_actions_authorized :: int
  br_human_approval_required :: int
  br_safe_stops :: int
  br_synthetic_recovered_cases :: int
  br_synthetic_recovered_amount_minor :: int

definition empty_breakdown_row :: breakdown_row where
  "empty_breakdown_row = \<lparr>br_cases = 0, br_eligible_cases = 0, br_automated_actions_authorized = 0,
     br_human_approval_required = 0, br_safe_stops = 0, br_synthetic_recovered_cases = 0,
     br_synthetic_recovered_amount_minor = 0\<rparr>"

definition int_flag :: "bool \<Rightarrow> int" where
  "int_flag b = (if b then 1 else 0)"

definition add_breakdown_row :: "evaluation_case_result \<Rightarrow> breakdown_row \<Rightarrow> breakdown_row" where
  "add_breakdown_row r b = b\<lparr>br_cases := br_cases b + 1,
     br_eligible_cases := br_eligible_cases b + int_flag (is_eligible r),
     br_automated_actions_authorized := br_automated_actions_authorized b + int_flag (is_automated r),
     br_human_approval_required := br_human_approval_required b +
       int_flag (er_policy_result r = Some PolicyDecisionResult.REQUIRES_APPROVAL),
     br_safe_stops := br_safe_stops b + int_flag (is_safe_stop r),
     br_synthetic_recovered_cases := br_synthetic_recovered_cases b + int_flag (is_recovered r),
     br_synthetic_recovered_amount_minor :=
       br_synthetic_recovered_amount_minor b + er_synthetic_recovered_amount_minor r\<rparr>"

text \<open>The \<open>defaultdict\<close>: a missing key reads as the empty row, and is inserted by the update.\<close>

definition add_breakdown ::
  "evaluation_case_result \<Rightarrow> (string \<times> breakdown_row) list \<Rightarrow> (string \<times> breakdown_row) list" where
  "add_breakdown r rows = (let key = scenario_kind_value (er_scenario_kind r);
       row = (case map_of rows key of None \<Rightarrow> empty_breakdown_row | Some b \<Rightarrow> b)
     in AList.update key (add_breakdown_row r row) rows)"

definition build_scenario_breakdown :: "evaluation_case_result list \<Rightarrow> (string \<times> breakdown_row) list" where
  "build_scenario_breakdown results = sort_key fst (fold add_breakdown results [])"

section \<open>Pass criteria\<close>

definition failing :: "bool \<Rightarrow> string \<Rightarrow> string list" where
  "failing b reason = (if b then [reason] else [])"

definition evaluate_pass_criteria ::
  "evaluation_case_result list \<Rightarrow> evaluation_metrics \<Rightarrow> int \<Rightarrow> evaluation_assessment" where
  "evaluate_pass_criteria results metrics expected_count =
    (let failures =
       failing (int (length results) \<noteq> expected_count) ''RESULT_COUNT_MISMATCH'' @
       failing (length (remdups (map er_scenario_id results)) \<noteq> length results) ''DUPLICATE_SCENARIO_IDENTIFIER'' @
       failing (metrics \<noteq> calculate_evaluation_metrics results) ''METRIC_TOTALS_INCONSISTENT'' @
       failing (0 < em_policy_violations_executed metrics) ''POLICY_VIOLATION_EXECUTED'' @
       failing (0 < em_unsafe_actions_after_capture metrics) ''UNSAFE_ACTION_AFTER_CAPTURE'' @
       failing (0 < em_duplicate_executions metrics) ''DUPLICATE_EXECUTION'' @
       failing (list_ex (\<lambda>r. er_evidence_class r \<noteq> SYNTHETIC_EVIDENCE_CLASS) results)
         ''SYNTHETIC_PROVIDER_EVIDENCE_MIXED'' @
       failing (list_ex (\<lambda>r. is_recovered r \<and> er_synthetic_outcome r \<noteq> SyntheticOutcome.SUCCESSFUL_CAPTURE) results)
         ''RECOVERY_WITHOUT_SYNTHETIC_SUCCESS_EVIDENCE'' @
       failing (list_ex (\<lambda>r. er_failure_category r = Some FailureCategory.UNKNOWN \<and> 0 < er_execution_count r) results)
         ''UNKNOWN_CONTEXT_EXECUTED_UNSAFELY'' @
       failing (em_revenue_at_risk_minor metrics < em_synthetic_recovered_amount_minor metrics)
         ''RECOVERED_AMOUNT_EXCEEDS_AT_RISK_AMOUNT'' @
       failing (em_ai_or_strategy_cases metrics + em_deterministic_bypass_cases metrics \<noteq> em_cases_evaluated metrics)
         ''STRATEGY_CASE_TOTAL_INCONSISTENT'' @
       failing (em_synthetic_recovered_cases metrics + em_unresolved_cases metrics +
           count_of (\<lambda>r. is_eligible r \<and> er_final_classification r = FinalClassification.PROTECTED_CAPTURED) results \<noteq>
           em_eligible_cases metrics)
         ''ELIGIBLE_CASE_TOTAL_INCONSISTENT''
     in \<lparr>ea_passed = (failures = []), ea_failure_reasons = sort (remdups failures)\<rparr>)"

section \<open>Facts\<close>

lemma scenario_kind_value_inj: "scenario_kind_value a = scenario_kind_value b \<longleftrightarrow> a = b"
  by (cases a; cases b) simp_all

lemma count_of_simps [simp]:
  "count_of P [] = 0" "count_of P (x # xs) = int_flag (P x) + count_of P xs"
  "count_of P (xs @ ys) = count_of P xs + count_of P ys"
  by (simp_all add: count_of_def int_flag_def)

lemma sum_of_simps [simp]:
  "sum_of f [] = 0" "sum_of f (x # xs) = f x + sum_of f xs" "sum_of f (xs @ ys) = sum_of f xs + sum_of f ys"
  by (simp_all add: sum_of_def)

lemma length_filter_count: "int (length (filter P xs)) = count_of P xs"
  by (induction xs) (simp_all add: int_flag_def)

lemma int_flag_simps [simp]: "int_flag True = 1" "int_flag False = 0"
  by (simp_all add: int_flag_def)

lemma sum_of_zero: "(\<And>x. x \<in> set xs \<Longrightarrow> f x = 0) \<Longrightarrow> sum_of f xs = 0"
  by (induction xs) simp_all

lemma failing_Nil [simp]: "failing b r = [] \<longleftrightarrow> \<not> b"
  by (simp add: failing_def)

text \<open>What makes one result harmless to the criteria.\<close>

definition safe_result :: "evaluation_case_result \<Rightarrow> bool" where
  "safe_result r \<longleftrightarrow> er_evidence_class r = SYNTHETIC_EVIDENCE_CLASS \<and> 0 \<le> er_amount_minor r \<and>
     0 \<le> er_execution_count r \<and> er_execution_count r \<le> 1 \<and>
     (0 < er_execution_count r \<longrightarrow> is_automated r \<and> is_eligible r \<and> \<not> er_captured_truth_observed r \<and>
        er_failure_category r \<noteq> Some FailureCategory.UNKNOWN) \<and>
     er_synthetic_recovered_amount_minor r \<in> {0, er_amount_minor r} \<and>
     (is_recovered r \<longleftrightarrow> er_final_classification r = FinalClassification.SYNTHETIC_RECOVERED) \<and>
     (is_recovered r \<longrightarrow> is_eligible r \<and> er_execution_count r = 1 \<and>
        er_synthetic_outcome r = SyntheticOutcome.SUCCESSFUL_CAPTURE)"

lemma recovered_at_most_eligible:
  "list_all safe_result results \<Longrightarrow>
   sum_of er_synthetic_recovered_amount_minor (filter is_recovered results) \<le> sum_of er_amount_minor (filter is_eligible results)"
  by (induction results) (auto simp: safe_result_def is_recovered_def)

lemma eligible_partition:
  "list_all safe_result results \<Longrightarrow>
   count_of is_recovered results + count_of (\<lambda>r. is_eligible r \<and> er_final_classification r \<notin>
       {FinalClassification.SYNTHETIC_RECOVERED, FinalClassification.PROTECTED_CAPTURED}) results +
     count_of (\<lambda>r. is_eligible r \<and> er_final_classification r = FinalClassification.PROTECTED_CAPTURED) results =
   count_of is_eligible results"
  by (induction results) (auto simp: safe_result_def int_flag_def)

lemma strategy_partition:
  "count_of er_strategy_provider_invoked results + count_of (\<lambda>r. \<not> er_strategy_provider_invoked r) results = int (length results)"
  by (induction results) (auto simp: int_flag_def)

lemma safe_results_pass:
  assumes safe: "list_all safe_result results" and ids: "distinct (map er_scenario_id results)"
  shows "evaluate_pass_criteria results (calculate_evaluation_metrics results) (int (length results)) =
    \<lparr>ea_passed = True, ea_failure_reasons = []\<rparr>"
proof -
  let ?m = "calculate_evaluation_metrics results"
  have each: "safe_result r" if "r \<in> set results" for r using safe that by (simp add: list_all_iff)
  have zero: "em_policy_violations_executed ?m = 0" "em_unsafe_actions_after_capture ?m = 0" "em_duplicate_executions ?m = 0"
    unfolding calculate_evaluation_metrics_def Let_def
    by (simp_all, (rule sum_of_zero, use each in \<open>fastforce simp: safe_result_def\<close>)+)
  have exs: "\<not> list_ex (\<lambda>r. er_evidence_class r \<noteq> SYNTHETIC_EVIDENCE_CLASS) results"
    "\<not> list_ex (\<lambda>r. is_recovered r \<and> er_synthetic_outcome r \<noteq> SyntheticOutcome.SUCCESSFUL_CAPTURE) results"
    "\<not> list_ex (\<lambda>r. er_failure_category r = Some FailureCategory.UNKNOWN \<and> 0 < er_execution_count r) results"
    using each by (auto simp: list_ex_iff safe_result_def)
  have money: "em_synthetic_recovered_amount_minor ?m \<le> em_revenue_at_risk_minor ?m"
    using recovered_at_most_eligible [OF safe] by (simp add: calculate_evaluation_metrics_def Let_def)
  have strategy: "em_ai_or_strategy_cases ?m + em_deterministic_bypass_cases ?m = em_cases_evaluated ?m"
    by (simp add: calculate_evaluation_metrics_def Let_def strategy_partition)
  have eligible: "em_synthetic_recovered_cases ?m + em_unresolved_cases ?m +
      count_of (\<lambda>r. is_eligible r \<and> er_final_classification r = FinalClassification.PROTECTED_CAPTURED) results = em_eligible_cases ?m"
    using eligible_partition [OF safe] by (simp add: calculate_evaluation_metrics_def Let_def length_filter_count)
  have ids': "remdups (map er_scenario_id results) = map er_scenario_id results" using ids by (rule distinct_remdups_id)
  show ?thesis
    unfolding evaluate_pass_criteria_def Let_def zero ids' eligible strategy using exs money by (simp add: failing_def)
qed

section \<open>The breakdown and the metrics\<close>

definition breakdown_of :: "evaluation_case_result list \<Rightarrow> breakdown_row" where
  "breakdown_of results = (let m = calculate_evaluation_metrics results in
     \<lparr>br_cases = em_cases_evaluated m, br_eligible_cases = em_eligible_cases m,
      br_automated_actions_authorized = em_automated_actions_authorized m,
      br_human_approval_required = em_human_approval_required m, br_safe_stops = em_safe_stop_cases m,
      br_synthetic_recovered_cases = em_synthetic_recovered_cases m,
      br_synthetic_recovered_amount_minor = em_synthetic_recovered_amount_minor m\<rparr>)"

lemma breakdown_of_snoc:
  assumes "0 \<le> er_synthetic_recovered_amount_minor r"
  shows "breakdown_of (rs @ [r]) = add_breakdown_row r (breakdown_of rs)"
  using assms
  by (simp add: breakdown_of_def calculate_evaluation_metrics_def Let_def add_breakdown_row_def length_filter_count
      is_recovered_def int_flag_def)

lemma breakdown_of_Nil: "breakdown_of [] = empty_breakdown_row"
  by (simp add: breakdown_of_def calculate_evaluation_metrics_def Let_def empty_breakdown_row_def)

lemma breakdown_rows_fold:
  assumes "list_all (\<lambda>r. 0 \<le> er_synthetic_recovered_amount_minor r) results"
  shows "map_of (fold add_breakdown results []) (scenario_kind_value k) =
    (let rs = filter (\<lambda>r. er_scenario_kind r = k) results in if rs = [] then None else Some (breakdown_of rs))"
  using assms
proof (induction results rule: rev_induct)
  case (snoc r results)
  then have r: "0 \<le> er_synthetic_recovered_amount_minor r" by simp
  show ?case
    using snoc breakdown_of_snoc [OF r] breakdown_of_snoc [OF r, of "[]"]
    by (auto simp: add_breakdown_def Let_def update_conv' scenario_kind_value_inj breakdown_of_Nil)
qed simp

lemma breakdown_keys: "distinct (map fst (fold add_breakdown results []))"
  by (rule fold_invariant [where Q = "\<lambda>_. True"]) (auto simp: add_breakdown_def Let_def distinct_update)

text \<open>
  The breakdown by scenario kind is the metrics, kind by kind. The row of a kind is there
  exactly if the kind occurs, and its seven numbers are those that the metrics of the results of
  that kind alone give; the rows are sorted by their keys, each once.
\<close>

lemma breakdown_is_metrics_by_kind:
  assumes "list_all (\<lambda>r. 0 \<le> er_synthetic_recovered_amount_minor r) results"
  shows "map_of (build_scenario_breakdown results) (scenario_kind_value k) =
    (let rs = filter (\<lambda>r. er_scenario_kind r = k) results; m = calculate_evaluation_metrics rs in
     if rs = [] then None
     else Some \<lparr>br_cases = em_cases_evaluated m, br_eligible_cases = em_eligible_cases m,
       br_automated_actions_authorized = em_automated_actions_authorized m,
       br_human_approval_required = em_human_approval_required m, br_safe_stops = em_safe_stop_cases m,
       br_synthetic_recovered_cases = em_synthetic_recovered_cases m,
       br_synthetic_recovered_amount_minor = em_synthetic_recovered_amount_minor m\<rparr>) \<and>
    sorted_wrt (<) (map fst (build_scenario_breakdown results))"
proof
  show "map_of (build_scenario_breakdown results) (scenario_kind_value k) =
    (let rs = filter (\<lambda>r. er_scenario_kind r = k) results; m = calculate_evaluation_metrics rs in
     if rs = [] then None
     else Some \<lparr>br_cases = em_cases_evaluated m, br_eligible_cases = em_eligible_cases m,
       br_automated_actions_authorized = em_automated_actions_authorized m,
       br_human_approval_required = em_human_approval_required m, br_safe_stops = em_safe_stop_cases m,
       br_synthetic_recovered_cases = em_synthetic_recovered_cases m,
       br_synthetic_recovered_amount_minor = em_synthetic_recovered_amount_minor m\<rparr>)"
    using breakdown_rows_fold [OF assms, of k]
    by (simp add: build_scenario_breakdown_def map_of_sort_key breakdown_keys breakdown_of_def Let_def)
  have "distinct (map fst (build_scenario_breakdown results))"
    using breakdown_keys [of results] by (simp add: build_scenario_breakdown_def distinct_map inj_on_def)
  moreover have "sorted (map fst (build_scenario_breakdown results))" by (simp add: build_scenario_breakdown_def)
  ultimately show "sorted_wrt (<) (map fst (build_scenario_breakdown results))" by (simp add: strict_sorted_iff)
qed

definition sample_result :: evaluation_case_result where
  "sample_result = \<lparr>er_scenario_id = ''a'', er_scenario_kind = ScenarioKind.DUPLICATE_ACTION, er_amount_minor = 75000,
     er_eligibility_decision = EligibilityDecision.ELIGIBLE, er_eligibility_reason_code = ''PAYMENT_FAILED'',
     er_failure_category = Some FailureCategory.CUSTOMER_AUTHENTICATION,
     er_recovery_disposition = Some RecoveryDisposition.CUSTOMER_ACTION_REQUIRED,
     er_strategy_action = Some RecoveryAction.CREATE_RECOVERY_LINK, er_strategy_provider_invoked = True,
     er_strategy_failed = False, er_policy_result = Some PolicyDecisionResult.AUTHORIZED,
     er_policy_reason_code = Some ''AUTHORIZED'', er_execution_requests = 2, er_execution_count = 1,
     er_duplicate_actions_prevented = 1, er_captured_truth_observed = False,
     er_synthetic_outcome = SyntheticOutcome.SUCCESSFUL_CAPTURE, er_synthetic_recovered_amount_minor = 75000,
     er_final_classification = FinalClassification.SYNTHETIC_RECOVERED, er_evidence_class = SYNTHETIC_EVIDENCE_CLASS\<rparr>"

end
