(* ===== verification/Arc_Batch.thy ===== *)
theory Arc_Batch
  imports Arc_Evaluation Arc_Execution "HOL-Library.Multiset"
begin

text \<open>
  The synthetic batch evaluation: the generation of its data set (\<open>arc/evaluation/scenarios.py\<close>),
  the offline strategy provider (\<open>arc/evaluation/strategy.py\<close>), and the runner
  (\<open>arc/evaluation/runner.py\<close>), which takes every scenario through eligibility, diagnosis, strategy,
  policy and a simulated execution by the definitions that production uses. Python's generator of
  random numbers, \<open>uuid5\<close> and the strategy provider are parameters; the provider has a state \<open>'w\<close>.
  Dates outside Python's range are not considered.
\<close>

section \<open>Scenarios\<close>

definition DATASET_CASE_COUNT :: nat where
  "DATASET_CASE_COUNT = 100"

definition DATASET_VERSION :: string where
  "DATASET_VERSION = ''arc-synthetic-recovery-v1''"

definition DATASET_SEED :: int where
  "DATASET_SEED = 1403"

definition SCENARIO_COUNTS :: "(ScenarioKind \<times> nat) list" where
  "SCENARIO_COUNTS =
    [(ScenarioKind.ALREADY_CAPTURED, 10), (ScenarioKind.PLATFORM_RETRY_ACTIVE, 10),
     (ScenarioKind.CUSTOMER_AUTHENTICATION, 12), (ScenarioKind.INSUFFICIENT_FUNDS, 12), (ScenarioKind.ISSUER_BANK, 10),
     (ScenarioKind.GATEWAY_NETWORK, 10), (ScenarioKind.RETRY_EXHAUSTED, 8), (ScenarioKind.HIGH_VALUE_APPROVAL, 8),
     (ScenarioKind.ATTEMPT_LIMIT, 5), (ScenarioKind.CONTACT_LIMIT, 5), (ScenarioKind.HARD_STOP, 4),
     (ScenarioKind.INCOMPLETE_UNKNOWN, 3), (ScenarioKind.DUPLICATE_ACTION, 2), (ScenarioKind.STALE_CAPTURE, 1)]"

definition PLAUSIBLE_AMOUNTS_MINOR :: "int list" where
  "PLAUSIBLE_AMOUNTS_MINOR = [19900, 49900, 75000, 99900, 125000, 180000, 249900, 350000, 499900, 750000]"

definition HIGH_VALUE_AMOUNTS_MINOR :: "int list" where
  "HIGH_VALUE_AMOUNTS_MINOR = [1250000, 2500000, 5000000]"

text \<open>What ARC uses of \<open>random.Random\<close>: a shuffle and a choice, on a generator of type \<open>'r\<close>.\<close>

record 'r random_source =
  rg_shuffle :: "(ScenarioKind \<times> nat) list \<Rightarrow> 'r \<Rightarrow> (ScenarioKind \<times> nat) list \<times> 'r"
  rg_choice :: "int list \<Rightarrow> 'r \<Rightarrow> int \<times> 'r"

definition amount_drawn :: "'r random_source \<Rightarrow> bool \<Rightarrow> 'r \<Rightarrow> int \<times> 'r" where
  "amount_drawn g high_value r = rg_choice g (if high_value then HIGH_VALUE_AMOUNTS_MINOR else PLAUSIBLE_AMOUNTS_MINOR) r"

text \<open>\<open>_base\<close> with its defaults; the other arguments are record updates.\<close>

definition base_scenario :: "string \<Rightarrow> ScenarioKind \<Rightarrow> int \<Rightarrow> synthetic_scenario" where
  "base_scenario scenario_id kind amount_minor = \<lparr>sy_scenario_id = scenario_id, sy_kind = kind,
     sy_amount_minor = amount_minor, sy_identity_kind = ''payment'', sy_payment_status = Some ''failed'',
     sy_subscription_status = None, sy_payment_method = Some ''card'', sy_error_reason = None, sy_error_source = None,
     sy_error_step = None, sy_attempt_count = 0, sy_contact_attempt_count = 0, sy_detected_minutes_ago = 30,
     sy_offline_action = None, sy_synthetic_outcome = SyntheticOutcome.NOT_APPLICABLE,
     sy_policy_profile = PolicyProfile.STANDARD, sy_execution_request_count = 1,
     sy_stale_capture_before_execution = False\<rparr>"

definition failing_at :: "string \<Rightarrow> string \<Rightarrow> string \<Rightarrow> synthetic_scenario \<Rightarrow> synthetic_scenario" where
  "failing_at reason source step s = s\<lparr>sy_error_reason := Some reason, sy_error_source := Some source,
     sy_error_step := Some step\<rparr>"

definition as_subscription :: "string \<Rightarrow> synthetic_scenario \<Rightarrow> synthetic_scenario" where
  "as_subscription status s = s\<lparr>sy_identity_kind := ''subscription'', sy_payment_status := None,
     sy_subscription_status := Some status, sy_payment_method := None\<rparr>"

definition captured_below :: "nat \<Rightarrow> nat \<Rightarrow> SyntheticOutcome" where
  "captured_below limit occurrence =
     (if occurrence < limit then SyntheticOutcome.SUCCESSFUL_CAPTURE else SyntheticOutcome.UNRESOLVED)"

definition incorrect_otp :: "synthetic_scenario \<Rightarrow> synthetic_scenario" where
  "incorrect_otp s = failing_at ''incorrect_otp'' ''customer'' ''payment_authentication'' s"

definition insufficient_funds :: "synthetic_scenario \<Rightarrow> synthetic_scenario" where
  "insufficient_funds s = failing_at ''insufficient_funds'' ''customer'' ''payment_authorization'' s"

definition build_scenario ::
  "'r random_source \<Rightarrow> string \<Rightarrow> ScenarioKind \<Rightarrow> nat \<Rightarrow> 'r \<Rightarrow> synthetic_scenario \<times> 'r" where
  "build_scenario g scenario_id kind occurrence r =
    (let (amount, r1) = amount_drawn g False r;
         s = base_scenario scenario_id kind amount;
         link = Some RecoveryAction.CREATE_RECOVERY_LINK
     in case kind of
       ScenarioKind.ALREADY_CAPTURED \<Rightarrow> (s\<lparr>sy_payment_status := Some ''captured''\<rparr>, r1)
     | ScenarioKind.PLATFORM_RETRY_ACTIVE \<Rightarrow> (as_subscription ''pending'' s, r1)
     | ScenarioKind.CUSTOMER_AUTHENTICATION \<Rightarrow> ((incorrect_otp s)\<lparr>sy_offline_action := link,
         sy_synthetic_outcome := captured_below 8 occurrence\<rparr>, r1)
     | ScenarioKind.INSUFFICIENT_FUNDS \<Rightarrow> ((insufficient_funds s)\<lparr>sy_payment_method := Some ''upi'',
         sy_offline_action := link, sy_synthetic_outcome := captured_below 6 occurrence\<rparr>, r1)
     | ScenarioKind.ISSUER_BANK \<Rightarrow>
         ((failing_at ''bank_technical_error'' ''issuer_bank'' ''payment_authorization'' s)
            \<lparr>sy_offline_action := Some RecoveryAction.WAIT\<rparr>, r1)
     | ScenarioKind.GATEWAY_NETWORK \<Rightarrow>
         ((failing_at ''gateway_technical_error'' ''gateway'' ''payment_authorization'' s)
            \<lparr>sy_payment_method := Some ''upi'', sy_offline_action := Some RecoveryAction.WAIT\<rparr>, r1)
     | ScenarioKind.RETRY_EXHAUSTED \<Rightarrow> ((as_subscription ''halted'' s)\<lparr>sy_offline_action := link,
         sy_synthetic_outcome := captured_below 5 occurrence\<rparr>, r1)
     | ScenarioKind.HIGH_VALUE_APPROVAL \<Rightarrow> (let (high, r2) = amount_drawn g True r1 in
         ((insufficient_funds (base_scenario scenario_id kind high))\<lparr>sy_offline_action := link\<rparr>, r2))
     | ScenarioKind.ATTEMPT_LIMIT \<Rightarrow> ((incorrect_otp s)\<lparr>sy_attempt_count := 3, sy_offline_action := link\<rparr>, r1)
     | ScenarioKind.CONTACT_LIMIT \<Rightarrow>
         ((insufficient_funds s)\<lparr>sy_contact_attempt_count := 2, sy_offline_action := link\<rparr>, r1)
     | ScenarioKind.HARD_STOP \<Rightarrow>
         if occurrence < 2 then
           ((failing_at ''gateway_technical_error'' ''gateway'' ''payment_authorization'' s)
              \<lparr>sy_offline_action := Some RecoveryAction.REQUEST_RETRY,
               sy_policy_profile := PolicyProfile.BLOCK_FAILURE_CATEGORY\<rparr>, r1)
         else ((incorrect_otp s)\<lparr>sy_detected_minutes_ago := 2000, sy_offline_action := link,
                 sy_policy_profile := PolicyProfile.EXPIRED_RECOVERY_WINDOW\<rparr>, r1)
     | ScenarioKind.INCOMPLETE_UNKNOWN \<Rightarrow> (s, r1)
     | ScenarioKind.DUPLICATE_ACTION \<Rightarrow> ((incorrect_otp s)\<lparr>sy_offline_action := link,
         sy_synthetic_outcome := SyntheticOutcome.SUCCESSFUL_CAPTURE, sy_execution_request_count := 2\<rparr>, r1)
     | ScenarioKind.STALE_CAPTURE \<Rightarrow> ((incorrect_otp s)\<lparr>sy_offline_action := link,
         sy_stale_capture_before_execution := True\<rparr>, r1))"

definition scenario_blueprint :: "(ScenarioKind \<times> nat) list" where
  "scenario_blueprint = concat (map (\<lambda>(kind, n). map (\<lambda>i. (kind, i)) [0..<n]) SCENARIO_COUNTS)"

definition scenario_name :: "nat \<Rightarrow> string" where
  "scenario_name position = ''eval_case_'' @ zero_pad 4 (int position)"

fun build_scenarios ::
  "'r random_source \<Rightarrow> nat \<Rightarrow> (ScenarioKind \<times> nat) list \<Rightarrow> 'r \<Rightarrow> synthetic_scenario list \<times> 'r" where
  "build_scenarios g position [] r = ([], r)"
| "build_scenarios g position ((kind, occurrence) # rest) r =
    (let (s, r1) = build_scenario g (scenario_name position) kind occurrence r;
         (ss, r2) = build_scenarios g (position + 1) rest r1
     in (s # ss, r2))"

definition generate_scenarios :: "'r random_source \<Rightarrow> 'r \<Rightarrow> arc_error + synthetic_scenario list" where
  "generate_scenarios g r =
    (let (blueprint, r1) = rg_shuffle g scenario_blueprint r;
         scenarios = fst (build_scenarios g 1 blueprint r1)
     in if length scenarios \<noteq> DATASET_CASE_COUNT then Inl (PyRuntimeError ''Synthetic evaluation dataset size is invalid'')
        else if length (remdups (map sy_scenario_id scenarios)) \<noteq> length scenarios
        then Inl (PyRuntimeError ''Synthetic evaluation case identifiers are not unique'')
        else if \<not> list_all (\<lambda>(kind, n). length (filter (\<lambda>s. sy_kind s = kind) scenarios) = n) SCENARIO_COUNTS
        then Inl (PyRuntimeError ''Synthetic evaluation scenario composition changed'')
        else Inr scenarios)"

section \<open>Strategy providers\<close>

record 'w evaluation_provider =
  vp_mode :: string
  vp_propose :: "strategy_context \<Rightarrow> synthetic_scenario \<Rightarrow> 'w \<Rightarrow> (arc_error + strategy_output option) \<times> 'w"

definition offline_propose :: "synthetic_scenario \<Rightarrow> arc_error + strategy_output option" where
  "offline_propose s = (case sy_offline_action s of
       None \<Rightarrow> Inl (PyValueError ''Offline strategy fixture is missing'')
     | Some action \<Rightarrow> Inr (Some \<lparr>so_action = action,
         so_explanation = ''Deterministic synthetic strategy fixture validated against the ARC action contract.'',
         so_confidence = ''1.0'',
         so_re_evaluate_after_seconds = (if action = RecoveryAction.WAIT then Some 300 else None)\<rparr>))"

definition offline_provider :: "'w evaluation_provider" where
  "offline_provider = \<lparr>vp_mode = ''OFFLINE'', vp_propose = (\<lambda>context s w. (offline_propose s, w))\<rparr>"

text \<open>The adapter of the production client, with its call as a function of the world.\<close>

definition openai_provider ::
  "(strategy_context \<Rightarrow> 'w \<Rightarrow> (arc_error + strategy_model_result) \<times> 'w) \<Rightarrow> 'w evaluation_provider" where
  "openai_provider client = \<lparr>vp_mode = ''OPENAI'', vp_propose = (\<lambda>context s w.
     (case client context w of (Inl e, w1) \<Rightarrow> (Inl e, w1) | (Inr mr, w1) \<Rightarrow> (Inr (Some (mr_output mr)), w1)))\<rparr>"

section \<open>One scenario\<close>

definition EVALUATION_CLOCK :: py_datetime where
  "EVALUATION_CLOCK = \<lparr>dt_us = 1787572800000000, dt_offset = Some 0\<rparr>"

text \<open>The case row of a scenario; it is never flushed, and its id, unset in the code, is not read.\<close>

definition scenario_case :: "synthetic_scenario \<Rightarrow> payment_case" where
  "scenario_case s = (let is_payment = (sy_identity_kind s = ''payment'') in
    \<lparr>pc_id = 0, pc_case_reference = sy_scenario_id s, pc_merchant_id = ''eval_merchant_v1'',
     pc_payment_id = (if is_payment then Some (sy_scenario_id s) else None),
     pc_subscription_id = (if is_payment then None else Some (sy_scenario_id s)),
     pc_razorpay_payment_status = sy_payment_status s, pc_razorpay_subscription_status = sy_subscription_status s,
     pc_razorpay_payment_method = sy_payment_method s, pc_customer_id = None, pc_amount = Some (sy_amount_minor s),
     pc_currency = Some ''INR'', pc_current_state = CaseState.RECONCILING, pc_error_code = None,
     pc_error_description = None, pc_error_source = sy_error_source s, pc_error_step = sy_error_step s,
     pc_error_reason = sy_error_reason s, pc_eligibility_status = None, pc_eligibility_reason_code = None,
     pc_eligibility_evaluated_at = None, pc_failure_category = None, pc_recovery_disposition = None,
     pc_diagnosis_reason_code = None, pc_diagnosed_at = None, pc_assessment_fingerprint = None,
     pc_attempt_count = sy_attempt_count s, pc_contact_attempt_count = sy_contact_attempt_count s,
     pc_detected_at = dt_add EVALUATION_CLOCK (- minutes (sy_detected_minutes_ago s)),
     pc_last_reconciled_at = Some (dt_add EVALUATION_CLOCK (- minutes 1)), pc_resolved_at = None\<rparr>)"

definition assessed_scenario_case :: "payment_case \<Rightarrow> eligibility_result \<Rightarrow> failure_diagnosis \<Rightarrow> payment_case" where
  "assessed_scenario_case c eligibility diagnosis = c\<lparr>pc_eligibility_status := Some (el_decision eligibility),
     pc_eligibility_reason_code := Some (el_reason_code eligibility),
     pc_eligibility_evaluated_at := Some EVALUATION_CLOCK,
     pc_assessment_fingerprint := Some (el_assessment_fingerprint eligibility),
     pc_failure_category := Some (dg_failure_category diagnosis),
     pc_recovery_disposition := Some (dg_recovery_disposition diagnosis),
     pc_diagnosis_reason_code := Some (dg_diagnosis_reason_code diagnosis),
     pc_diagnosed_at := Some EVALUATION_CLOCK, pc_current_state := CaseState.DIAGNOSED\<rparr>"

definition profile_policy :: "PolicyProfile \<Rightarrow> merchant_policy" where
  "profile_policy profile = \<lparr>mp_id = 0, mp_merchant_id = ''eval_policy_'' @ policy_profile_value profile,
     mp_automation_enabled = JBool True,
     mp_allowed_actions = JArr (map (\<lambda>a. JStr (action_value a))
       [RecoveryAction.CREATE_RECOVERY_LINK, RecoveryAction.REQUEST_PAYMENT_METHOD_UPDATE, RecoveryAction.REQUEST_RETRY]),
     mp_max_automated_attempts = JInt 3, mp_max_contact_attempts = JInt 2, mp_recovery_window_minutes = JInt 1440,
     mp_high_value_threshold_minor = JInt 1000000, mp_require_approval_above_minor = JInt 1000000,
     mp_stopping_rules = JObj (if profile = PolicyProfile.BLOCK_FAILURE_CATEGORY
       then [(''blocked_failure_categories'', JArr [JStr ''GATEWAY_OR_NETWORK''])] else [])\<rparr>"

definition profile_configuration :: "PolicyProfile \<Rightarrow> arc_error + policy_configuration" where
  "profile_configuration profile = validate_policy (profile_policy profile)"

definition scenario_execution_key ::
  "(string \<Rightarrow> string) \<Rightarrow> (string \<Rightarrow> uuid) \<Rightarrow> synthetic_scenario \<Rightarrow> RecoveryAction \<Rightarrow> string" where
  "scenario_execution_key sha uuid5 s action = build_execution_idempotency_key sha
    \<lparr>xi_policy_decision_id = uuid5 (sy_scenario_id s @ '':policy''),
     xi_authorization_input_fingerprint = sha (sy_scenario_id s @ '':'' @ action_value action @ '':'' @
       int_str (sy_attempt_count s) @ '':'' @ int_str (sy_contact_attempt_count s)),
     xi_strategy_proposal_id = uuid5 (sy_scenario_id s @ '':proposal''), xi_action = action\<rparr>"

text \<open>\<open>_case_result\<close> with its defaults.\<close>

definition base_result ::
  "synthetic_scenario \<Rightarrow> eligibility_result \<Rightarrow> FinalClassification \<Rightarrow> evaluation_case_result" where
  "base_result s eligibility final = \<lparr>er_scenario_id = sy_scenario_id s, er_scenario_kind = sy_kind s,
     er_amount_minor = sy_amount_minor s, er_eligibility_decision = el_decision eligibility,
     er_eligibility_reason_code = el_reason_code eligibility, er_failure_category = None,
     er_recovery_disposition = None, er_strategy_action = None, er_strategy_provider_invoked = False,
     er_strategy_failed = False, er_policy_result = None, er_policy_reason_code = None, er_execution_requests = 0,
     er_execution_count = 0, er_duplicate_actions_prevented = 0, er_captured_truth_observed = False,
     er_synthetic_outcome = sy_synthetic_outcome s, er_synthetic_recovered_amount_minor = 0,
     er_final_classification = final, er_evidence_class = SYNTHETIC_EVIDENCE_CLASS\<rparr>"

text \<open>The loop over \<open>range(execution_request_count)\<close>: executions, prevented duplicates, and the keys.\<close>

primrec request_executions :: "string \<Rightarrow> nat \<Rightarrow> int \<times> int \<times> string set \<Rightarrow> int \<times> int \<times> string set" where
  "request_executions key 0 st = st"
| "request_executions key (Suc n) st = request_executions key n (case st of (executed, prevented, keys) \<Rightarrow>
     if key \<in> keys then (executed, prevented + 1, keys) else (executed + 1, prevented, insert key keys))"

definition execute_scenario ::
  "(string \<Rightarrow> string) \<Rightarrow> (string \<Rightarrow> uuid) \<Rightarrow> synthetic_scenario \<Rightarrow> payment_case \<Rightarrow> RecoveryAction \<Rightarrow>
     evaluation_case_result \<Rightarrow> string set \<Rightarrow> evaluation_case_result \<times> string set" where
  "execute_scenario sha uuid5 s c action common keys =
    (if sy_stale_capture_before_execution s then
       let current = assess_eligibility sha (c\<lparr>pc_current_state := CaseState.RECOVERED,
             pc_razorpay_payment_status := Some ''captured'', pc_last_reconciled_at := Some EVALUATION_CLOCK\<rparr>)
             EVALUATION_CLOCK
       in (common\<lparr>er_captured_truth_observed := (el_decision current = EligibilityDecision.STOP),
             er_final_classification := FinalClassification.PROTECTED_CAPTURED\<rparr>, keys)
     else
       let (executed, prevented, keys1) = request_executions (scenario_execution_key sha uuid5 s action)
             (nat (sy_execution_request_count s)) (0, 0, keys);
           recovered_amount = (if sy_synthetic_outcome s = SyntheticOutcome.SUCCESSFUL_CAPTURE \<and> executed = 1
             then sy_amount_minor s else 0)
       in (common\<lparr>er_execution_requests := sy_execution_request_count s, er_execution_count := executed,
             er_duplicate_actions_prevented := prevented, er_synthetic_recovered_amount_minor := recovered_amount,
             er_final_classification := (if 0 < recovered_amount then FinalClassification.SYNTHETIC_RECOVERED
               else FinalClassification.UNRESOLVED)\<rparr>, keys1))"

definition decide_scenario ::
  "(string \<Rightarrow> string) \<Rightarrow> (string \<Rightarrow> uuid) \<Rightarrow> synthetic_scenario \<Rightarrow> payment_case \<Rightarrow> RecoveryAction \<Rightarrow> policy_configuration \<Rightarrow>
     evaluation_case_result \<Rightarrow> string set \<Rightarrow> evaluation_case_result \<times> string set" where
  "decide_scenario sha uuid5 s c action configuration diagnosed keys =
    (let policy = evaluate_authorization \<lparr>af_action = action, af_amount_minor = pc_amount c,
           af_attempt_count = pc_attempt_count c, af_contact_attempt_count = pc_contact_attempt_count c,
           af_detected_at = pc_detected_at c, af_failure_category = pc_failure_category c,
           af_payment_method = pc_razorpay_payment_method c, af_evaluated_at = EVALUATION_CLOCK\<rparr>
           True (Some configuration);
         common = diagnosed\<lparr>er_strategy_action := Some action, er_policy_result := Some (av_result policy),
           er_policy_reason_code := Some (av_reason_code policy)\<rparr>;
         ended = (\<lambda>final. (common\<lparr>er_final_classification := final\<rparr>, keys))
     in if action = RecoveryAction.WAIT then ended FinalClassification.WAIT
        else if action \<in> {RecoveryAction.NO_ACTION, RecoveryAction.ESCALATE_TO_HUMAN} then ended FinalClassification.SAFE_STOP
        else if av_result policy = PolicyDecisionResult.BLOCKED then ended FinalClassification.SAFE_STOP
        else if av_result policy = PolicyDecisionResult.REQUIRES_APPROVAL then ended FinalClassification.UNRESOLVED
        else if action \<notin> AUTOMATED_RECOVERY_ACTIONS then ended FinalClassification.SAFE_STOP
        else execute_scenario sha uuid5 s c action common keys)"

definition validate_action_compatibility :: "RecoveryDisposition \<Rightarrow> RecoveryAction \<Rightarrow> arc_error + RecoveryAction" where
  "validate_action_compatibility disposition action = (if is_action_compatible disposition action then Inr action
     else Inl (StrategyNotAllowedError ''Strategy proposal is incompatible with deterministic diagnosis''))"

text \<open>The \<open>try\<close> block: the rule or the provider proposes, and the action must fit the disposition.\<close>

definition propose_action ::
  "'w evaluation_provider \<Rightarrow> strategy_context \<Rightarrow> synthetic_scenario \<Rightarrow> RecoveryDisposition \<Rightarrow> 'w \<Rightarrow>
     (arc_error + RecoveryAction) \<times> 'w" where
  "propose_action provider context s disposition w =
    (case rule_strategy_for disposition of
       Some rule \<Rightarrow> (validate_action_compatibility disposition (rs_action rule), w)
     | None \<Rightarrow> (case vp_propose provider context s w of
         (Inl e, w1) \<Rightarrow> (Inl e, w1)
       | (Inr None, w1) \<Rightarrow> (Inl (PyValueError ''Strategy provider returned no proposal''), w1)
       | (Inr (Some output), w1) \<Rightarrow> (validate_action_compatibility disposition (so_action output), w1)))"

definition ineligible_result :: "synthetic_scenario \<Rightarrow> eligibility_result \<Rightarrow> evaluation_case_result" where
  "ineligible_result s eligibility =
    (let captured = (el_reason_code eligibility \<in> {''PAYMENT_ALREADY_CAPTURED'', ''STOP_ALREADY_RECOVERED''}) in
     (base_result s eligibility
       (if captured then FinalClassification.PROTECTED_CAPTURED
        else if el_decision eligibility = EligibilityDecision.WAIT then FinalClassification.WAIT
        else FinalClassification.SAFE_STOP))\<lparr>er_captured_truth_observed := captured\<rparr>)"

definition evaluate_scenario ::
  "(string \<Rightarrow> string) \<Rightarrow> (string \<Rightarrow> uuid) \<Rightarrow> 'w evaluation_provider \<Rightarrow> synthetic_scenario \<Rightarrow> string set \<Rightarrow> 'w \<Rightarrow>
     arc_error + evaluation_case_result \<times> string set \<times> 'w" where
  "evaluate_scenario sha uuid5 provider s keys w =
    (let c = scenario_case s; eligibility = assess_eligibility sha c EVALUATION_CLOCK in
     if el_decision eligibility \<noteq> EligibilityDecision.ELIGIBLE then Inr (ineligible_result s eligibility, keys, w)
     else
       let diagnosis = classify_failure c; c1 = assessed_scenario_case c eligibility diagnosis;
           disposition = dg_recovery_disposition diagnosis
       in sbind (validate_strategy_context sha c1 EVALUATION_CLOCK) (\<lambda>context.
          let invoked = (rule_strategy_for disposition = None);
              diagnosed = (base_result s eligibility FinalClassification.SAFE_STOP)
                \<lparr>er_failure_category := Some (dg_failure_category diagnosis), er_recovery_disposition := Some disposition,
                 er_strategy_provider_invoked := invoked\<rparr>
          in case propose_action provider context s disposition w of
               (Inl _, w1) \<Rightarrow> Inr (diagnosed\<lparr>er_strategy_failed := True\<rparr>, keys, w1)
             | (Inr action, w1) \<Rightarrow>
                 sbind (profile_configuration (sy_policy_profile s)) (\<lambda>configuration.
                   let (r, keys1) = decide_scenario sha uuid5 s c1 action configuration diagnosed keys
                   in Inr (r, keys1, w1))))"

section \<open>The batch\<close>

fun evaluate_scenarios ::
  "(string \<Rightarrow> string) \<Rightarrow> (string \<Rightarrow> uuid) \<Rightarrow> 'w evaluation_provider \<Rightarrow> synthetic_scenario list \<Rightarrow> string set \<Rightarrow> 'w \<Rightarrow>
     arc_error + evaluation_case_result list \<times> 'w" where
  "evaluate_scenarios sha uuid5 provider [] keys w = Inr ([], w)"
| "evaluate_scenarios sha uuid5 provider (s # rest) keys w =
    sbind (evaluate_scenario sha uuid5 provider s keys w) (\<lambda>(r, keys1, w1).
    sbind (evaluate_scenarios sha uuid5 provider rest keys1 w1) (\<lambda>(rs, w2). Inr (r # rs, w2)))"

record evaluation_report =
  ep_evaluation_name :: string
  ep_evaluation_version :: string
  ep_dataset_version :: string
  ep_dataset_seed :: int
  ep_strategy_mode :: string
  ep_case_count :: int
  ep_metrics :: evaluation_metrics
  ep_scenario_breakdown :: "(string \<times> breakdown_row) list"
  ep_assessment :: evaluation_assessment
  ep_case_results :: "evaluation_case_result list"

definition run_batch_evaluation ::
  "(string \<Rightarrow> string) \<Rightarrow> (string \<Rightarrow> uuid) \<Rightarrow> synthetic_scenario list \<Rightarrow> 'w evaluation_provider \<Rightarrow> 'w \<Rightarrow>
     arc_error + evaluation_report \<times> 'w" where
  "run_batch_evaluation sha uuid5 selected provider w =
    sbind (evaluate_scenarios sha uuid5 provider selected {} w) (\<lambda>(results, w1).
      let metrics = calculate_evaluation_metrics results;
          assessment = evaluate_pass_criteria results metrics (int (length selected))
      in Inr (\<lparr>ep_evaluation_name = ''ARC Batch Recovery Evaluation'',
           ep_evaluation_version = ''arc-batch-evaluation-v1'', ep_dataset_version = DATASET_VERSION,
           ep_dataset_seed = DATASET_SEED, ep_strategy_mode = vp_mode provider, ep_case_count = int (length selected),
           ep_metrics = metrics, ep_scenario_breakdown = build_scenario_breakdown results,
           ep_assessment = assessment, ep_case_results = results\<rparr>, w1))"

section \<open>Facts\<close>

lemma request_executions_result:
  "request_executions key n (executed, prevented, keys) =
    (let first = (if 0 < n \<and> key \<notin> keys then 1 else 0) in
     (executed + first, prevented + int n - first, if n = 0 then keys else insert key keys))"
  by (induction n arbitrary: executed prevented keys) (auto simp: Let_def)

lemma base_result_sel [simp]:
  "er_scenario_id (base_result s el final) = sy_scenario_id s" "er_amount_minor (base_result s el final) = sy_amount_minor s"
  "er_eligibility_decision (base_result s el final) = el_decision el" "er_execution_count (base_result s el final) = 0"
  "er_synthetic_recovered_amount_minor (base_result s el final) = 0" "er_policy_result (base_result s el final) = None"
  "er_captured_truth_observed (base_result s el final) = False" "er_final_classification (base_result s el final) = final"
  "er_evidence_class (base_result s el final) = SYNTHETIC_EVIDENCE_CLASS"
  "er_synthetic_outcome (base_result s el final) = sy_synthetic_outcome s"
  "er_strategy_action (base_result s el final) = None" "er_failure_category (base_result s el final) = None"
  "er_scenario_kind (base_result s el final) = sy_kind s"
  by (simp_all add: base_result_def)

text \<open>The result of a diagnosed scenario before its action is decided.\<close>

definition diagnosed_result :: "synthetic_scenario \<Rightarrow> eligibility_result \<Rightarrow> FailureCategory \<Rightarrow> evaluation_case_result \<Rightarrow> bool" where
  "diagnosed_result s el cat r \<longleftrightarrow> (\<exists>d i. r = (base_result s el FinalClassification.SAFE_STOP)
     \<lparr>er_failure_category := Some cat, er_recovery_disposition := d, er_strategy_provider_invoked := i\<rparr>)"

lemma automated_external:
  "action \<in> AUTOMATED_RECOVERY_ACTIONS \<Longrightarrow>
   action \<noteq> RecoveryAction.WAIT \<and> action \<notin> {RecoveryAction.NO_ACTION, RecoveryAction.ESCALATE_TO_HUMAN}"
  by (auto simp: AUTOMATED_RECOVERY_ACTIONS_def)

lemma execute_safe:
  assumes "diagnosed_result s el cat diagnosed" "el_decision el = EligibilityDecision.ELIGIBLE" "0 \<le> sy_amount_minor s"
    and "cat \<noteq> FailureCategory.UNKNOWN" "action \<in> AUTOMATED_RECOVERY_ACTIONS"
    and "common = diagnosed\<lparr>er_strategy_action := Some action, er_policy_result := Some PolicyDecisionResult.AUTHORIZED,
           er_policy_reason_code := reason\<rparr>"
  shows "safe_result (fst (execute_scenario sha uuid5 s c action common keys)) \<and>
    er_scenario_id (fst (execute_scenario sha uuid5 s c action common keys)) = sy_scenario_id s"
  using assms
  by (auto simp: execute_scenario_def Let_def request_executions_result diagnosed_result_def safe_result_def is_recovered_def
      is_eligible_def is_automated_def opt_in_def)

lemma decide_safe:
  assumes d: "diagnosed_result s el cat diagnosed" "el_decision el = EligibilityDecision.ELIGIBLE" "0 \<le> sy_amount_minor s"
    and u: "action \<in> AUTOMATED_RECOVERY_ACTIONS \<Longrightarrow> cat \<noteq> FailureCategory.UNKNOWN"
  shows "safe_result (fst (decide_scenario sha uuid5 s c action cf diagnosed keys)) \<and>
    er_scenario_id (fst (decide_scenario sha uuid5 s c action cf diagnosed keys)) = sy_scenario_id s"
proof -
  define policy where "policy = evaluate_authorization \<lparr>af_action = action, af_amount_minor = pc_amount c,
           af_attempt_count = pc_attempt_count c, af_contact_attempt_count = pc_contact_attempt_count c,
           af_detected_at = pc_detected_at c, af_failure_category = pc_failure_category c,
           af_payment_method = pc_razorpay_payment_method c, af_evaluated_at = EVALUATION_CLOCK\<rparr> True (Some cf)"
  define common where "common = diagnosed\<lparr>er_strategy_action := Some action, er_policy_result := Some (av_result policy),
           er_policy_reason_code := Some (av_reason_code policy)\<rparr>"
  have ended: "safe_result (common\<lparr>er_final_classification := final\<rparr>) \<and>
      er_scenario_id (common\<lparr>er_final_classification := final\<rparr>) = sy_scenario_id s"
    if "final \<noteq> FinalClassification.SYNTHETIC_RECOVERED" for final
    using d that by (auto simp: common_def diagnosed_result_def safe_result_def is_recovered_def)
  show ?thesis
  proof (cases "action \<in> AUTOMATED_RECOVERY_ACTIONS \<and> av_result policy = PolicyDecisionResult.AUTHORIZED")
    case True
    then have "decide_scenario sha uuid5 s c action cf diagnosed keys = execute_scenario sha uuid5 s c action common keys"
      using automated_external [of action]
      by (auto simp: decide_scenario_def Let_def policy_def [symmetric] common_def)
    moreover have "common = diagnosed\<lparr>er_strategy_action := Some action,
        er_policy_result := Some PolicyDecisionResult.AUTHORIZED, er_policy_reason_code := Some (av_reason_code policy)\<rparr>"
      using True by (simp add: common_def)
    ultimately show ?thesis using execute_safe [OF d u] True by metis
  next
    case False
    then have "decide_scenario sha uuid5 s c action cf diagnosed keys \<in>
        (\<lambda>final. (common\<lparr>er_final_classification := final\<rparr>, keys)) `
          {FinalClassification.WAIT, FinalClassification.SAFE_STOP, FinalClassification.UNRESOLVED}"
      unfolding decide_scenario_def Let_def policy_def [symmetric] common_def [symmetric]
      by (cases "av_result policy") simp_all
    with ended [of FinalClassification.WAIT] ended [of FinalClassification.SAFE_STOP] ended [of FinalClassification.UNRESOLVED]
    show ?thesis by auto
  qed
qed

lemma unknown_escalates:
  "propose_action provider context s (disposition_of FailureCategory.UNKNOWN) w = (Inr RecoveryAction.ESCALATE_TO_HUMAN, w)"
  by (simp add: propose_action_def validate_action_compatibility_def is_action_compatible_def)

lemma evaluate_scenario_safe:
  assumes "evaluate_scenario sha uuid5 provider s keys w = Inr (r, keys', w')" "0 \<le> sy_amount_minor s"
  shows "safe_result r \<and> er_scenario_id r = sy_scenario_id s"
proof -
  define el where "el = assess_eligibility sha (scenario_case s) EVALUATION_CLOCK"
  define dg where "dg = classify_failure (scenario_case s)"
  define c1 where "c1 = assessed_scenario_case (scenario_case s) el dg"
  define diagnosed where "diagnosed = (base_result s el FinalClassification.SAFE_STOP)
    \<lparr>er_failure_category := Some (dg_failure_category dg), er_recovery_disposition := Some (dg_recovery_disposition dg),
     er_strategy_provider_invoked := (rule_strategy_for (dg_recovery_disposition dg) = None)\<rparr>"
  have dgd: "diagnosed_result s el (dg_failure_category dg) diagnosed" by (auto simp: diagnosed_result_def diagnosed_def)
  show ?thesis
  proof (cases "el_decision el = EligibilityDecision.ELIGIBLE")
    case False
    with assms show ?thesis
      by (auto simp: evaluate_scenario_def Let_def el_def [symmetric] ineligible_result_def safe_result_def is_recovered_def
          split: if_splits)
  next
    case True
    with assms(1) obtain ctx where run: "(case propose_action provider ctx s (dg_recovery_disposition dg) w of
               (Inl _, w1) \<Rightarrow> Inr (diagnosed\<lparr>er_strategy_failed := True\<rparr>, keys, w1)
             | (Inr action, w1) \<Rightarrow>
                 sbind (profile_configuration (sy_policy_profile s)) (\<lambda>configuration.
                   let (r, keys1) = decide_scenario sha uuid5 s c1 action configuration diagnosed keys
                   in Inr (r, keys1, w1))) = Inr (r, keys', w')"
      unfolding evaluate_scenario_def Let_def el_def [symmetric] dg_def [symmetric] c1_def [symmetric]
        diagnosed_def [symmetric] by (auto simp: sbind_eq_Inr_iff [of "validate_strategy_context sha c1 EVALUATION_CLOCK"])
    show ?thesis
    proof (cases "propose_action provider ctx s (dg_recovery_disposition dg) w")
      case (Pair a w1)
      show ?thesis
      proof (cases a)
        case (Inl e)
        with run Pair assms(2) True show ?thesis
          by (auto simp: diagnosed_def safe_result_def is_recovered_def)
      next
        case (Inr action)
        with run Pair obtain cf where r: "r = fst (decide_scenario sha uuid5 s c1 action cf diagnosed keys)"
          by (auto simp: sbind_eq_Inr_iff case_prod_beta)
        have "dg_failure_category dg \<noteq> FailureCategory.UNKNOWN" if "action \<in> AUTOMATED_RECOVERY_ACTIONS"
        proof
          assume "dg_failure_category dg = FailureCategory.UNKNOWN"
          then have "propose_action provider ctx s (dg_recovery_disposition dg) w = (Inr RecoveryAction.ESCALATE_TO_HUMAN, w)"
            using unknown_escalates by (simp add: dg_def)
          with Pair Inr automated_external [OF that] show False by simp
        qed
        from decide_safe [OF dgd True assms(2) this] r show ?thesis by simp
      qed
    qed
  qed
qed

lemma evaluate_scenarios_safe:
  assumes "evaluate_scenarios sha uuid5 provider ss keys w = Inr (rs, w')" "list_all (\<lambda>s. 0 \<le> sy_amount_minor s) ss"
  shows "list_all safe_result rs \<and> map er_scenario_id rs = map sy_scenario_id ss"
  using assms
proof (induction ss arbitrary: keys w rs)
  case (Cons s ss)
  then show ?case using evaluate_scenario_safe by (fastforce simp: sbind_eq_Inr_iff)
qed simp

section \<open>A scenario is always evaluated\<close>

definition scenario_ok :: "synthetic_scenario \<Rightarrow> bool" where
  "scenario_ok s \<longleftrightarrow> 0 \<le> sy_amount_minor s \<and> 0 \<le> sy_attempt_count s \<and>
     list_all (\<lambda>v. opt_all bounded_context_text (normalized v)) [sy_payment_status s, sy_subscription_status s,
       sy_payment_method s, sy_error_reason s, sy_error_source s, sy_error_step s]"

lemma reason_codes_bounded: "bounded_context_text (dg_diagnosis_reason_code (classify_failure c))"
proof -
  have rules: "list_all (\<lambda>(k, cat, r). bounded_context_text r) (reason_rules @ source_rules @ step_rules)" by code_simp
  have "bounded_context_text r"
    if "rule_for rules v = Some (cat, r)" "set rules \<subseteq> set (reason_rules @ source_rules @ step_rules)" for rules v cat r
    using rule_for_Some [OF that(1)] rules that(2) by (fastforce simp: list_all_iff)
  moreover have "bounded_context_text ''SUBSCRIPTION_AUTOMATIC_RETRIES_EXHAUSTED''"
    "bounded_context_text ''PAYMENT_FAILURE_UNCLASSIFIED''" by code_simp+
  ultimately show ?thesis
    by (auto simp: classify_failure_def Let_def split: option.split)
qed

lemma profile_configured: "\<exists>cf. profile_configuration p = Inr cf"
proof -
  have "case profile_configuration PolicyProfile.STANDARD of Inl _ \<Rightarrow> False | Inr _ \<Rightarrow> True"
    "case profile_configuration PolicyProfile.BLOCK_FAILURE_CATEGORY of Inl _ \<Rightarrow> False | Inr _ \<Rightarrow> True"
    "case profile_configuration PolicyProfile.EXPIRED_RECOVERY_WINDOW of Inl _ \<Rightarrow> False | Inr _ \<Rightarrow> True"
    by code_simp+
  then show ?thesis by (cases p) (auto split: sum.splits)
qed

lemma assessed_context:
  fixes sha :: "string \<Rightarrow> string" and s :: synthetic_scenario
  assumes "scenario_ok s"
  defines "el \<equiv> assess_eligibility sha (scenario_case s) EVALUATION_CLOCK" and "dg \<equiv> classify_failure (scenario_case s)"
  assumes "el_decision el = EligibilityDecision.ELIGIBLE"
  shows "\<exists>x. validate_strategy_context sha (assessed_scenario_case (scenario_case s) el dg) EVALUATION_CLOCK = Inr x"
proof -
  let ?c = "assessed_scenario_case (scenario_case s) el dg"
  have el: "assess_eligibility sha ?c EVALUATION_CLOCK = el"
    unfolding el_def
    by (rule assess_eligibility_cong) (simp_all add: assessed_scenario_case_def assessment_facts_def scenario_case_def Let_def)
  have dg: "classify_failure ?c = dg"
    unfolding dg_def by (rule classify_failure_cong) (simp_all add: assessed_scenario_case_def)
  have inr: "length (py_upper (py_strip ''INR'')) = 3" by code_simp
  have sel: "pc_amount ?c = Some (sy_amount_minor s)" "pc_currency ?c = Some ''INR''" "pc_attempt_count ?c = sy_attempt_count s"
    "pc_razorpay_payment_method ?c = sy_payment_method s" "pc_razorpay_payment_status ?c = sy_payment_status s"
    "pc_razorpay_subscription_status ?c = sy_subscription_status s" "pc_error_reason ?c = sy_error_reason s"
    "pc_error_source ?c = sy_error_source s" "pc_error_step ?c = sy_error_step s"
    "pc_failure_category ?c = Some (dg_failure_category dg)" "pc_recovery_disposition ?c = Some (dg_recovery_disposition dg)"
    "pc_diagnosis_reason_code ?c = Some (dg_diagnosis_reason_code dg)"
    by (simp_all add: assessed_scenario_case_def scenario_case_def Let_def)
  have "\<exists>x. build_strategy_context ?c = Inr x"
    using assms(1) reason_codes_bounded [of "scenario_case s", folded dg_def] inr
    unfolding build_strategy_context_def sel by (simp add: Let_def strategy_context_valid_def scenario_ok_def)
  then show ?thesis
    using assms(4) by (simp add: validate_strategy_context_def Let_def el dg) (simp add: assessed_scenario_case_def)
qed

lemma evaluate_scenario_total:
  assumes "scenario_ok s"
  shows "\<exists>r keys' w'. evaluate_scenario sha uuid5 provider s keys w = Inr (r, keys', w')"
proof (cases "el_decision (assess_eligibility sha (scenario_case s) EVALUATION_CLOCK) = EligibilityDecision.ELIGIBLE")
  case True
  obtain cf where cf: "profile_configuration (sy_policy_profile s) = Inr cf" using profile_configured by blast
  from assessed_context [OF assms True] True cf show ?thesis
    by (auto simp: evaluate_scenario_def Let_def case_prod_beta split: sum.splits prod.splits)
qed (simp add: evaluate_scenario_def Let_def)

lemma evaluate_scenarios_total:
  "list_all scenario_ok ss \<Longrightarrow> \<exists>rs w'. evaluate_scenarios sha uuid5 provider ss keys w = Inr (rs, w')"
proof (induction ss arbitrary: keys w)
  case (Cons s ss)
  then obtain r keys' w' where "evaluate_scenario sha uuid5 provider s keys w = Inr (r, keys', w')"
    using evaluate_scenario_total by fastforce
  with Cons.IH [of keys' w'] Cons.prems show ?case by auto
qed simp

section \<open>The generated data set\<close>

lemma build_scenarios_meta:
  "map sy_scenario_id (fst (build_scenarios g p bp r)) = map scenario_name [p..<p + length bp]"
  "map sy_kind (fst (build_scenarios g p bp r)) = map fst bp"
proof (induction bp arbitrary: p r)
  case (Cons x bp)
  obtain kind occ where x: "x = (kind, occ)" by (cases x)
  have s: "sy_scenario_id (fst (build_scenario g n kind occ r)) = n" "sy_kind (fst (build_scenario g n kind occ r)) = kind" for n r
    by (simp_all add: build_scenario_def Let_def case_prod_beta base_scenario_def as_subscription_def incorrect_otp_def
        insufficient_funds_def failing_at_def split: ScenarioKind.split)
  case 1 show ?case using Cons.IH(1) s(1) by (simp add: x case_prod_beta Let_def upt_conv_Cons del: upt_Suc)
  case 2 show ?case using Cons.IH(2) s(2) by (simp add: x case_prod_beta Let_def)
qed simp_all

lemma normalized_texts:
  "list_all (\<lambda>t. opt_all bounded_context_text (normalized (Some t))) [''failed'', ''captured'', ''pending'', ''halted'',
     ''card'', ''upi'', ''incorrect_otp'', ''insufficient_funds'', ''bank_technical_error'', ''gateway_technical_error'',
     ''customer'', ''issuer_bank'', ''gateway'', ''payment_authentication'', ''payment_authorization'']"
  by code_simp

definition chooses_member :: "'r random_source \<Rightarrow> bool" where
  "chooses_member g \<longleftrightarrow> (\<forall>xs r. xs \<noteq> [] \<longrightarrow> fst (rg_choice g xs r) \<in> set xs)"

lemma build_scenario_ok: "chooses_member g \<Longrightarrow> scenario_ok (fst (build_scenario g name kind occ r))"
proof -
  assume g: "chooses_member g"
  have amount: "0 \<le> fst (amount_drawn g high r)" for high r
  proof -
    have "fst (amount_drawn g high r) \<in> set (if high then HIGH_VALUE_AMOUNTS_MINOR else PLAUSIBLE_AMOUNTS_MINOR)"
      using g by (simp add: chooses_member_def amount_drawn_def HIGH_VALUE_AMOUNTS_MINOR_def PLAUSIBLE_AMOUNTS_MINOR_def)
    then show ?thesis by (auto simp: HIGH_VALUE_AMOUNTS_MINOR_def PLAUSIBLE_AMOUNTS_MINOR_def split: if_splits)
  qed
  have none: "normalized None = None" by (simp add: normalized_def)
  show ?thesis
    using normalized_texts amount none
    by (cases kind) (simp_all add: build_scenario_def Let_def case_prod_beta base_scenario_def as_subscription_def
        incorrect_otp_def insufficient_funds_def failing_at_def scenario_ok_def)
qed

lemma build_scenarios_ok: "chooses_member g \<Longrightarrow> list_all scenario_ok (fst (build_scenarios g p bp r))"
  by (induction bp arbitrary: p r) (auto simp: case_prod_beta Let_def build_scenario_ok)

lemma scenario_names_distinct: "distinct (map scenario_name [1..<101])"
  by code_simp

lemma blueprint_composition:
  "length scenario_blueprint = 100"
  "list_all (\<lambda>(kind, n). length (filter (\<lambda>x. kind = fst x) scenario_blueprint) = n) SCENARIO_COUNTS"
  by code_simp+

lemma generated_scenarios:
  assumes "\<And>xs r. mset (fst (rg_shuffle g xs r)) = mset xs" "chooses_member g"
  obtains ss where "generate_scenarios g r = Inr ss" "length ss = 100" "distinct (map sy_scenario_id ss)"
    "list_all scenario_ok ss" "list_all (\<lambda>(k, n). length (filter (\<lambda>s. sy_kind s = k) ss) = n) SCENARIO_COUNTS"
proof -
  define bp where "bp = fst (rg_shuffle g scenario_blueprint r)"
  define ss where "ss = fst (build_scenarios g 1 bp (snd (rg_shuffle g scenario_blueprint r)))"
  have bp: "mset bp = mset scenario_blueprint" using assms(1) by (simp add: bp_def)
  have "length bp = 100" using mset_eq_length [OF bp] blueprint_composition(1) by simp
  then have ids: "map sy_scenario_id ss = map scenario_name [1..<101]"
    using build_scenarios_meta(1) [of g 1 bp "snd (rg_shuffle g scenario_blueprint r)"] by (simp add: ss_def)
  then have len: "length ss = 100" by (metis length_map length_upt add_diff_cancel_right' numeral_plus_one semiring_norm(5))
  have kinds: "length (filter (\<lambda>s. sy_kind s = k) ss) = length (filter (\<lambda>x. k = fst x) scenario_blueprint)" for k
  proof -
    have "length (filter (\<lambda>s. sy_kind s = k) ss) = count (mset (map sy_kind ss)) k"
      by (simp add: count_mset count_list_eq_length_filter filter_map o_def eq_commute [of k] del: mset_map)
    also have "\<dots> = count (mset (map fst scenario_blueprint)) k"
      using bp by (simp add: ss_def build_scenarios_meta(2) del: mset_map) (simp add: mset_map)
    also have "\<dots> = length (filter (\<lambda>x. k = fst x) scenario_blueprint)"
      by (simp add: count_mset count_list_eq_length_filter filter_map o_def del: mset_map)
    finally show ?thesis .
  qed
  have composition: "list_all (\<lambda>(k, n). length (filter (\<lambda>s. sy_kind s = k) ss) = n) SCENARIO_COUNTS"
    using blueprint_composition(2) by (simp add: kinds)
  have dist: "distinct (map sy_scenario_id ss)" unfolding ids by (rule scenario_names_distinct)
  then have "length (remdups (map sy_scenario_id ss)) = length ss" by (simp only: distinct_remdups_id length_map)
  then have "generate_scenarios g r = Inr ss"
    using len composition [unfolded case_prod_beta]
    unfolding generate_scenarios_def case_prod_beta Let_def bp_def [symmetric] ss_def [symmetric]
    by (simp add: DATASET_CASE_COUNT_def)
  with len dist composition build_scenarios_ok [OF assms(2)] show thesis by (intro that) (simp_all add: ss_def)
qed

section \<open>The verdict of the batch\<close>

text \<open>
  C19. No strategy provider can make a batch unsafe. Whatever a provider answers, or raises, on
  whatever scenarios with different ids and no negative amounts: a batch that ends has one result for
  each scenario, executes nothing that policy does not authorize, nothing after a captured payment
  is seen and nothing twice, attributes only what a synthetic capture supports and at most the
  revenue at risk, and so passes all twelve criteria.
\<close>

theorem batch_evaluation_passes:
  assumes "run_batch_evaluation sha uuid5 ss provider w = Inr (report, w')"
    and "distinct (map sy_scenario_id ss)" "\<forall>s \<in> set ss. 0 \<le> sy_amount_minor s"
  shows "ea_passed (ep_assessment report) \<and> ea_failure_reasons (ep_assessment report) = [] \<and>
    map er_scenario_id (ep_case_results report) = map sy_scenario_id ss \<and>
    (\<forall>r \<in> set (ep_case_results report). 0 < er_execution_count r \<longrightarrow>
       er_execution_count r = 1 \<and> er_policy_result r = Some PolicyDecisionResult.AUTHORIZED \<and>
       opt_in (er_strategy_action r) AUTOMATED_RECOVERY_ACTIONS \<and> \<not> er_captured_truth_observed r) \<and>
    em_synthetic_recovered_amount_minor (ep_metrics report) \<le> em_revenue_at_risk_minor (ep_metrics report)"
proof -
  obtain results where run: "evaluate_scenarios sha uuid5 provider ss {} w = Inr (results, w')"
    and r: "ep_case_results report = results" "ep_metrics report = calculate_evaluation_metrics results"
      "ep_assessment report = evaluate_pass_criteria results (calculate_evaluation_metrics results) (int (length ss))"
    using assms(1) by (auto simp: run_batch_evaluation_def sbind_eq_Inr_iff Let_def)
  have "list_all (\<lambda>s. 0 \<le> sy_amount_minor s) ss" using assms(3) by (simp add: list_all_iff)
  from evaluate_scenarios_safe [OF run this]
  have safe: "list_all safe_result results" and ids: "map er_scenario_id results = map sy_scenario_id ss" by simp_all
  have len: "length results = length ss" using ids by (metis length_map)
  have "distinct (map er_scenario_id results)" unfolding ids by (rule assms(2))
  from safe_results_pass [OF safe this] have "ep_assessment report = \<lparr>ea_passed = True, ea_failure_reasons = []\<rparr>"
    unfolding r(3) len .
  moreover have "\<forall>r \<in> set results. 0 < er_execution_count r \<longrightarrow>
       er_execution_count r = 1 \<and> er_policy_result r = Some PolicyDecisionResult.AUTHORIZED \<and>
       opt_in (er_strategy_action r) AUTOMATED_RECOVERY_ACTIONS \<and> \<not> er_captured_truth_observed r"
  proof (intro ballI impI)
    fix r assume r: "r \<in> set results" "0 < er_execution_count r"
    then have s: "safe_result r" using safe by (simp add: list_all_iff)
    then have "er_execution_count r \<le> 1" by (simp add: safe_result_def)
    with r(2) have "er_execution_count r = 1" by simp
    with s show "er_execution_count r = 1 \<and> er_policy_result r = Some PolicyDecisionResult.AUTHORIZED \<and>
       opt_in (er_strategy_action r) AUTOMATED_RECOVERY_ACTIONS \<and> \<not> er_captured_truth_observed r"
      by (simp add: safe_result_def is_automated_def)
  qed
  moreover have "em_synthetic_recovered_amount_minor (ep_metrics report) \<le> em_revenue_at_risk_minor (ep_metrics report)"
    using recovered_at_most_eligible [OF safe] by (simp add: r(2) calculate_evaluation_metrics_def Let_def)
  ultimately show ?thesis using ids r(1) by simp
qed

text \<open>
  The batch of the generated data set always ends, and passes. For every generator that
  shuffles and chooses, the data set has its 100 scenarios with different names in the fixed
  composition, none of the checks of its generation fails, and with every strategy provider,
  failing ones included, the evaluation returns a report that passes.
\<close>

lemma generated_batch_passes:
  assumes "\<And>xs r. mset (fst (rg_shuffle g xs r)) = mset xs" "chooses_member g"
  shows "\<exists>ss report w'. generate_scenarios g r = Inr ss \<and> length ss = 100 \<and> distinct (map sy_scenario_id ss) \<and>
    (\<forall>(k, n) \<in> set SCENARIO_COUNTS. length (filter (\<lambda>s. sy_kind s = k) ss) = n) \<and>
    run_batch_evaluation sha uuid5 ss provider w = Inr (report, w') \<and>
    ea_passed (ep_assessment report) \<and> length (ep_case_results report) = 100"
proof -
  obtain ss where ss: "generate_scenarios g r = Inr ss" "length ss = 100" "distinct (map sy_scenario_id ss)"
    "list_all scenario_ok ss" "list_all (\<lambda>(k, n). length (filter (\<lambda>s. sy_kind s = k) ss) = n) SCENARIO_COUNTS"
    using generated_scenarios [OF assms] by blast
  obtain rs w' where run: "evaluate_scenarios sha uuid5 provider ss {} w = Inr (rs, w')"
    using evaluate_scenarios_total [OF ss(4), of sha uuid5 provider "{}" w] by blast
  have amounts: "list_all (\<lambda>s. 0 \<le> sy_amount_minor s) ss" using ss(4) by (simp add: list_all_iff scenario_ok_def)
  have "length rs = 100" using evaluate_scenarios_safe [OF run amounts] ss(2) by (metis length_map)
  moreover have "evaluate_pass_criteria rs (calculate_evaluation_metrics rs) (int (length rs)) =
      \<lparr>ea_passed = True, ea_failure_reasons = []\<rparr>"
    by (rule safe_results_pass) (use evaluate_scenarios_safe [OF run amounts] ss(3) in simp_all)
  ultimately show ?thesis
    using run ss(1-3,5) by (simp add: run_batch_evaluation_def Let_def list_all_iff)
qed

text \<open>A generator that leaves lists alone and chooses their first element.\<close>

definition first_choice :: "unit random_source" where
  "first_choice = \<lparr>rg_shuffle = (\<lambda>xs r. (xs, r)), rg_choice = (\<lambda>xs r. (hd xs, r))\<rparr>"

text \<open>Two scenarios, one of which asks for its execution twice, under a provider that always raises for the other.\<close>

definition sample_scenarios :: "synthetic_scenario list" where
  "sample_scenarios =
    [(incorrect_otp (base_scenario ''a'' ScenarioKind.DUPLICATE_ACTION 75000))
       \<lparr>sy_offline_action := Some RecoveryAction.CREATE_RECOVERY_LINK,
        sy_synthetic_outcome := SyntheticOutcome.SUCCESSFUL_CAPTURE, sy_execution_request_count := 2\<rparr>,
     insufficient_funds (base_scenario ''b'' ScenarioKind.INSUFFICIENT_FUNDS 50000)]"

theorem batch_evaluation_passes_witness:
  "\<exists>report. run_batch_evaluation fixed_sha (\<lambda>_. 0) sample_scenarios offline_provider () = Inr (report, ()) \<and>
     ea_passed (ep_assessment report) \<and> map er_execution_count (ep_case_results report) = [1, 0] \<and>
     map er_duplicate_actions_prevented (ep_case_results report) = [1, 0]"
proof -
  let ?run = "evaluate_scenarios fixed_sha (\<lambda>_. 0) offline_provider sample_scenarios {} ()"
  have "(case ?run of Inl _ \<Rightarrow> False | Inr (rs, _) \<Rightarrow> map er_execution_count rs = [1, 0] \<and>
      map er_duplicate_actions_prevented rs = [1, 0])" by code_simp
  then obtain rs where rs: "?run = Inr (rs, ())" "map er_execution_count rs = [1, 0]"
    "map er_duplicate_actions_prevented rs = [1, 0]" by (cases ?run) auto
  then obtain report where report: "run_batch_evaluation fixed_sha (\<lambda>_. 0) sample_scenarios offline_provider () = Inr (report, ())"
    "ep_case_results report = rs" by (simp add: run_batch_evaluation_def Let_def)
  have "distinct (map sy_scenario_id sample_scenarios)" "\<forall>s \<in> set sample_scenarios. 0 \<le> sy_amount_minor s"
    by code_simp+
  from batch_evaluation_passes [OF report(1) this] rs report show ?thesis by simp
qed

end
