(* ===== verification/Arc_Read_Models.thy ===== *)
theory Arc_Read_Models
  imports Arc_Metrics
begin

text \<open>
  The display-safe projections of the read API (\<open>arc/read_models\<close>, \<open>arc/demo/markers.py\<close>): case
  lists, the detail and the timeline of a case, the approval queue and the executed actions. Every
  query is a function of the tables. The server-side creation times that the projections read and
  that the rows of \<open>Arc_Models\<close> leave out, and the sort key of the database's collation, are the
  parameter \<open>row_times\<close>. Where SQL leaves the order of equal rows open, that of the table is taken.
\<close>

section \<open>Markers\<close>

definition DEMO_EVENT_TYPE :: string where
  "DEMO_EVENT_TYPE = ''DEMO_SCENARIO_SEEDED''"

definition DEMO_EVENT_SOURCE :: string where
  "DEMO_EVENT_SOURCE = ''DEMO_SEED''"

definition OFFLINE_DEMO_STRATEGY_MODEL :: string where
  "OFFLINE_DEMO_STRATEGY_MODEL = ''arc-demo-offline-strategy-v1''"

definition OPENAI_EVIDENCE_EVENT_TYPE :: string where
  "OPENAI_EVIDENCE_EVENT_TYPE = ''OPENAI_EVIDENCE_CASE_CREATED''"

definition OPENAI_EVIDENCE_EVENT_SOURCE :: string where
  "OPENAI_EVIDENCE_EVENT_SOURCE = ''OPENAI_EVIDENCE_SCRIPT''"

section \<open>Response contracts\<close>

datatype DataOrigin = TEST_MODE | LIVE_MODE | SYNTHETIC_DEMO | SYNTHETIC_INPUT

datatype ResolutionKind = ARC_RECOVERED | ALREADY_CAPTURED | REQUIRES_APPROVAL | AWAITING_OUTCOME
  | EXHAUSTED | ESCALATED | PENDING

datatype StrategyProvenance = DETERMINISTIC_RULE | OFFLINE_SIMULATION | OPENAI | BYPASSED

fun strategy_provenance_value :: "StrategyProvenance \<Rightarrow> string" where
  "strategy_provenance_value StrategyProvenance.DETERMINISTIC_RULE = ''DETERMINISTIC_RULE''"
| "strategy_provenance_value StrategyProvenance.OFFLINE_SIMULATION = ''OFFLINE_SIMULATION''"
| "strategy_provenance_value StrategyProvenance.OPENAI = ''OPENAI''"
| "strategy_provenance_value StrategyProvenance.BYPASSED = ''BYPASSED''"

record case_list_item =
  li_case_reference :: string
  li_amount_minor :: "int option"
  li_currency :: "string option"
  li_current_state :: CaseState
  li_resolution_kind :: ResolutionKind
  li_payment_method :: "string option"
  li_failure_category :: "FailureCategory option"
  li_recovery_disposition :: "RecoveryDisposition option"
  li_eligibility_status :: "EligibilityDecision option"
  li_detected_at :: py_datetime
  li_resolved_at :: "py_datetime option"
  li_strategy_action :: "RecoveryAction option"
  li_strategy_provenance :: StrategyProvenance
  li_policy_result :: "PolicyDecisionResult option"
  li_approval_status :: "ApprovalStatus option"
  li_recovery_execution_status :: "RecoveryExecutionStatus option"
  li_outcome_status :: "RecoveryOutcomeStatus option"
  li_recovered_amount_minor :: "int option"
  li_provider_mode :: "ProviderMode option"
  li_data_origin :: "DataOrigin option"

record case_projection =
  cj_case_reference :: string
  cj_amount_minor :: "int option"
  cj_currency :: "string option"
  cj_current_state :: CaseState
  cj_resolution_kind :: ResolutionKind
  cj_payment_method :: "string option"
  cj_attempt_count :: int
  cj_contact_attempt_count :: int
  cj_detected_at :: py_datetime
  cj_resolved_at :: "py_datetime option"

record diagnosis_projection =
  dj_eligibility_status :: "EligibilityDecision option"
  dj_eligibility_reason_code :: "string option"
  dj_failure_category :: "FailureCategory option"
  dj_recovery_disposition :: "RecoveryDisposition option"
  dj_diagnosis_reason_code :: "string option"
  dj_diagnosed_at :: "py_datetime option"

record strategy_projection =
  sj_action :: RecoveryAction
  sj_source :: StrategySource
  sj_provenance :: StrategyProvenance
  sj_model :: "string option"
  sj_reason_code :: string
  sj_explanation :: string
  sj_confidence :: "string option"
  sj_confidence_authority :: "string option"
  sj_created_at :: py_datetime

record policy_projection =
  pj_result :: PolicyDecisionResult
  pj_reason_code :: string
  pj_explanation :: string
  pj_approval_threshold_minor :: "int option"
  pj_evaluated_at :: py_datetime

record approval_projection =
  aj_approval_request_id :: uuid
  aj_approval_status :: ApprovalStatus
  aj_requested_at :: py_datetime
  aj_decided_at :: "py_datetime option"

record execution_projection =
  xj_action :: RecoveryAction
  xj_execution_status :: RecoveryExecutionStatus
  xj_provider :: string
  xj_external_status :: "string option"
  xj_execution_attempt_count :: int
  xj_executed_at :: "py_datetime option"
  xj_next_evaluation_at :: "py_datetime option"

record outcome_projection =
  oj_outcome_status :: RecoveryOutcomeStatus
  oj_provider_mode :: ProviderMode
  oj_provider_status :: string
  oj_amount_expected_minor :: int
  oj_amount_paid_minor :: int
  oj_currency :: string
  oj_observed_at :: py_datetime

record attribution_projection =
  tj_provider_mode :: ProviderMode
  tj_recovered_amount_minor :: int
  tj_currency :: string
  tj_reason_code :: string
  tj_attributed_at :: py_datetime

record case_detail =
  cd_data_origin :: "DataOrigin option"
  cd_case :: case_projection
  cd_diagnosis :: diagnosis_projection
  cd_strategy :: "strategy_projection option"
  cd_policy :: "policy_projection option"
  cd_approval :: "approval_projection option"
  cd_execution :: "execution_projection option"
  cd_outcome :: "outcome_projection option"
  cd_attribution :: "attribution_projection option"

record timeline_item =
  tl_stage :: string
  tl_title :: string
  tl_status :: string
  tl_timestamp :: py_datetime
  tl_detail :: "string option"
  tl_action :: "RecoveryAction option"
  tl_authority :: "string option"
  tl_strategy_provenance :: "StrategyProvenance option"
  tl_strategy_model :: "string option"
  tl_result :: "string option"
  tl_amount_minor :: "int option"
  tl_currency :: "string option"
  tl_provider_mode :: "ProviderMode option"
  tl_data_origin :: "DataOrigin option"

record approval_queue_item =
  qi_approval_request_id :: uuid
  qi_case_reference :: string
  qi_amount_minor :: "int option"
  qi_currency :: "string option"
  qi_strategy_action :: RecoveryAction
  qi_strategy_provenance :: StrategyProvenance
  qi_policy_reason_code :: string
  qi_approval_status :: ApprovalStatus
  qi_requested_at :: py_datetime
  qi_decided_at :: "py_datetime option"
  qi_data_origin :: "DataOrigin option"

record recovery_action_item =
  ri_case_reference :: string
  ri_action :: RecoveryAction
  ri_strategy_provenance :: StrategyProvenance
  ri_execution_status :: RecoveryExecutionStatus
  ri_provider :: string
  ri_external_status :: "string option"
  ri_execution_attempt_count :: int
  ri_executed_at :: "py_datetime option"
  ri_next_evaluation_at :: "py_datetime option"
  ri_outcome_status :: "RecoveryOutcomeStatus option"
  ri_provider_mode :: "ProviderMode option"
  ri_data_origin :: "DataOrigin option"

section \<open>A case with its relationships\<close>

text \<open>
  Times that the server sets: of a case event by its position in its table, of the other rows by
  id; and the sort key that the collation gives a case reference.
\<close>

record row_times =
  rt_event :: "nat \<Rightarrow> py_datetime"
  rt_proposal :: "uuid \<Rightarrow> py_datetime"
  rt_action :: "uuid \<Rightarrow> py_datetime"
  rt_attribution :: "uuid \<Rightarrow> py_datetime"
  rt_collation :: "string \<Rightarrow> string"

text \<open>\<open>_CASE_OPTIONS\<close> loads the relationships of \<open>PaymentCase\<close>, each in the order of its column.\<close>

record case_rows =
  cr_case :: payment_case
  cr_events :: "(py_datetime \<times> case_event) list"
  cr_proposals :: "strategy_proposal list"
  cr_decisions :: "policy_decision list"
  cr_approvals :: "approval_request list"
  cr_actions :: "recovery_action list"
  cr_observations :: "outcome_observation list"
  cr_attributions :: "recovery_attribution list"

definition load_case_rows :: "row_times \<Rightarrow> arc_db \<Rightarrow> payment_case \<Rightarrow> case_rows" where
  "load_case_rows T db c =
    \<lparr>cr_case = c,
     cr_events = sort_key (\<lambda>(t, e). dt_us t) (filter (\<lambda>(t, e). ce_case_id e = pc_id c)
       (map (\<lambda>(n, e). (rt_event T n, e)) (List.enumerate 0 (db_case_events db)))),
     cr_proposals = sort_key (\<lambda>p. dt_us (rt_proposal T (sp_id p))) (filter (\<lambda>p. sp_case_id p = pc_id c) (db_proposals db)),
     cr_decisions = sort_key (\<lambda>d. dt_us (pd_evaluated_at d)) (filter (\<lambda>d. pd_case_id d = pc_id c) (db_decisions db)),
     cr_approvals = sort_key (\<lambda>a. dt_us (ar_requested_at a)) (filter (\<lambda>a. ar_case_id a = pc_id c) (db_approvals db)),
     cr_actions = sort_key (\<lambda>r. dt_us (rt_action T (ra_id r))) (filter (\<lambda>r. ra_case_id r = pc_id c) (db_actions db)),
     cr_observations = sort_key (\<lambda>ob. dt_us (ro_observed_at ob)) (filter (\<lambda>ob. ro_case_id ob = pc_id c) (db_observations db)),
     cr_attributions = sort_key (\<lambda>a. dt_us (at_attributed_at a)) (filter (\<lambda>a. at_case_id a = pc_id c) (db_attributions db))\<rparr>"

text \<open>\<open>_current\<close>: the last item that nothing superseded. \<open>_latest\<close>: Python's \<open>max\<close> with a key.\<close>

definition current_item :: "('a \<Rightarrow> py_datetime option) \<Rightarrow> 'a list \<Rightarrow> 'a option" where
  "current_item superseded_at items = find (\<lambda>x. superseded_at x = None) (rev items)"

fun first_max :: "('a \<Rightarrow> int \<times> int) \<Rightarrow> 'a \<Rightarrow> 'a list \<Rightarrow> 'a" where
  "first_max key best [] = best"
| "first_max key best (x # xs) = first_max key (if key best < key x then x else best) xs"

definition latest_row :: "('a \<Rightarrow> py_datetime) \<Rightarrow> ('a \<Rightarrow> py_datetime) \<Rightarrow> 'a list \<Rightarrow> 'a option" where
  "latest_row at_time created_at items =
    (case items of [] \<Rightarrow> None | x # xs \<Rightarrow> Some (first_max (\<lambda>i. (dt_us (at_time i), dt_us (created_at i))) x xs))"

definition latest_action :: "row_times \<Rightarrow> case_rows \<Rightarrow> recovery_action option" where
  "latest_action T R = latest_row (\<lambda>r. rt_action T (ra_id r)) (\<lambda>r. rt_action T (ra_id r)) (cr_actions R)"

definition latest_outcome :: "outcome_observation list \<Rightarrow> outcome_observation option" where
  "latest_outcome items = latest_row ro_observed_at ro_created_at items"

definition latest_attribution :: "row_times \<Rightarrow> case_rows \<Rightarrow> recovery_attribution option" where
  "latest_attribution T R = latest_row at_attributed_at (\<lambda>a. rt_attribution T (at_id a)) (cr_attributions R)"

definition approval_for_decision :: "case_rows \<Rightarrow> policy_decision option \<Rightarrow> approval_request option" where
  "approval_for_decision R decision =
    (case decision of None \<Rightarrow> None
     | Some d \<Rightarrow> find (\<lambda>a. ar_policy_decision_id a = pd_id d) (rev (cr_approvals R)))"

section \<open>Origin, provenance and resolution\<close>

definition is_demo_marker :: "case_event \<Rightarrow> bool" where
  "is_demo_marker e \<longleftrightarrow> ce_event_type e = DEMO_EVENT_TYPE \<and> ce_source e = DEMO_EVENT_SOURCE"

definition is_input_marker :: "case_event \<Rightarrow> bool" where
  "is_input_marker e \<longleftrightarrow> ce_event_type e = OPENAI_EVIDENCE_EVENT_TYPE \<and> ce_source e = OPENAI_EVIDENCE_EVENT_SOURCE"

definition is_synthetic :: "case_rows \<Rightarrow> bool" where
  "is_synthetic R \<longleftrightarrow> list_ex (\<lambda>(t, e). is_demo_marker e) (cr_events R)"

definition is_synthetic_input :: "case_rows \<Rightarrow> bool" where
  "is_synthetic_input R \<longleftrightarrow> list_ex (\<lambda>(t, e). is_input_marker e) (cr_events R)"

definition origin_from_mode :: "ProviderMode option \<Rightarrow> DataOrigin option" where
  "origin_from_mode mode = (case mode of
     Some ProviderMode.TEST \<Rightarrow> Some TEST_MODE | Some ProviderMode.LIVE \<Rightarrow> Some LIVE_MODE | None \<Rightarrow> None)"

definition evidence_mode :: "outcome_observation option \<Rightarrow> recovery_attribution option \<Rightarrow> ProviderMode option" where
  "evidence_mode outcome attribution =
    (case attribution of Some a \<Rightarrow> Some (at_provider_mode a) | None \<Rightarrow> map_option ro_provider_mode outcome)"

definition data_origin ::
  "case_rows \<Rightarrow> outcome_observation option \<Rightarrow> recovery_attribution option \<Rightarrow> DataOrigin option" where
  "data_origin R outcome attribution =
    (if is_synthetic_input R then Some SYNTHETIC_INPUT
     else if is_synthetic R then Some SYNTHETIC_DEMO
     else origin_from_mode (evidence_mode outcome attribution))"

definition origin_for_case_id :: "uuid \<Rightarrow> ProviderMode option \<Rightarrow> arc_db \<Rightarrow> DataOrigin option" where
  "origin_for_case_id k mode db =
    (if list_ex (\<lambda>e. ce_case_id e = k \<and> is_demo_marker e) (db_case_events db) then Some SYNTHETIC_DEMO
     else if list_ex (\<lambda>e. ce_case_id e = k \<and> is_input_marker e) (db_case_events db) then Some SYNTHETIC_INPUT
     else origin_from_mode mode)"

definition strategy_provenance :: "strategy_proposal option \<Rightarrow> StrategyProvenance" where
  "strategy_provenance proposal = (case proposal of
     None \<Rightarrow> BYPASSED
   | Some p \<Rightarrow> if sp_source p = StrategySource.RULE then DETERMINISTIC_RULE
       else if sp_model p = Some OFFLINE_DEMO_STRATEGY_MODEL then OFFLINE_SIMULATION
       else OPENAI)"

text \<open>\<open>[A-Za-z0-9][A-Za-z0-9._:-]{0,99}\<close> and \<open>[A-Z][A-Z0-9_]{0,99}\<close>, matched against the whole text.\<close>

definition alnum_char :: "char \<Rightarrow> bool" where
  "alnum_char c \<longleftrightarrow> (let n = py_ord c in (48 \<le> n \<and> n \<le> 57) \<or> (65 \<le> n \<and> n \<le> 90) \<or> (97 \<le> n \<and> n \<le> 122))"

definition strategy_model_name :: "string \<Rightarrow> bool" where
  "strategy_model_name s = (case s of [] \<Rightarrow> False
     | c # cs \<Rightarrow> alnum_char c \<and> list_all (\<lambda>d. alnum_char d \<or> d \<in> set ''._:-'') cs \<and> length cs \<le> 99)"

definition code_char :: "char \<Rightarrow> bool" where
  "code_char c \<longleftrightarrow> (let n = py_ord c in (48 \<le> n \<and> n \<le> 57) \<or> (65 \<le> n \<and> n \<le> 90) \<or> n = 95)"

definition timeline_reason_code :: "string \<Rightarrow> bool" where
  "timeline_reason_code s = (case s of [] \<Rightarrow> False
     | c # cs \<Rightarrow> 65 \<le> py_ord c \<and> py_ord c \<le> 90 \<and> list_all code_char cs \<and> length cs \<le> 99)"

definition safe_strategy_model :: "strategy_proposal \<Rightarrow> string option" where
  "safe_strategy_model p =
    (if sp_source p = StrategySource.RULE then None
     else case sp_model p of None \<Rightarrow> None
       | Some model \<Rightarrow> if strategy_model_name (py_strip model) then Some (py_strip model) else None)"

definition resolution_kind ::
  "case_rows \<Rightarrow> recovery_action option \<Rightarrow> recovery_attribution option \<Rightarrow> policy_decision option \<Rightarrow> ResolutionKind" where
  "resolution_kind R action attribution decision =
    (let c = cr_case R;
         already_captured = list_ex (\<lambda>(t, e). ce_event_type e = ''RECONCILIATION_FOUND_ALREADY_CAPTURED'') (cr_events R)
     in if attribution \<noteq> None then ResolutionKind.ARC_RECOVERED
        else if already_captured \<and> action = None \<and> pc_current_state c = CaseState.RECOVERED
        then ResolutionKind.ALREADY_CAPTURED
        else if pc_current_state c = CaseState.EXHAUSTED then ResolutionKind.EXHAUSTED
        else if pc_current_state c = CaseState.ESCALATED then ResolutionKind.ESCALATED
        else if (case decision of None \<Rightarrow> False | Some d \<Rightarrow> pd_result d = PolicyDecisionResult.REQUIRES_APPROVAL)
        then ResolutionKind.REQUIRES_APPROVAL
        else if pc_current_state c = CaseState.WAITING_FOR_OUTCOME then ResolutionKind.AWAITING_OUTCOME
        else ResolutionKind.PENDING)"

section \<open>Projections\<close>

definition strategy_projection_of :: "row_times \<Rightarrow> strategy_proposal \<Rightarrow> strategy_projection" where
  "strategy_projection_of T p =
    \<lparr>sj_action = sp_action p, sj_source = sp_source p, sj_provenance = strategy_provenance (Some p),
     sj_model = safe_strategy_model p, sj_reason_code = sp_reason_code p, sj_explanation = sp_explanation p,
     sj_confidence = sp_confidence p,
     sj_confidence_authority = (if sp_source p = StrategySource.AI then Some ''MODEL_OBSERVABILITY_ONLY'' else None),
     sj_created_at = rt_proposal T (sp_id p)\<rparr>"

definition policy_projection_of :: "policy_decision \<Rightarrow> policy_projection" where
  "policy_projection_of d =
    \<lparr>pj_result = pd_result d, pj_reason_code = pd_reason_code d, pj_explanation = pd_explanation d,
     pj_approval_threshold_minor = pd_approval_threshold_minor d, pj_evaluated_at = pd_evaluated_at d\<rparr>"

definition approval_projection_of :: "approval_request \<Rightarrow> approval_projection" where
  "approval_projection_of a =
    \<lparr>aj_approval_request_id = ar_id a, aj_approval_status = ar_status a, aj_requested_at = ar_requested_at a,
     aj_decided_at = ar_decided_at a\<rparr>"

definition execution_projection_of :: "recovery_action \<Rightarrow> execution_projection" where
  "execution_projection_of r =
    \<lparr>xj_action = ra_action r, xj_execution_status = ra_execution_status r, xj_provider = ra_provider r,
     xj_external_status = ra_external_status r, xj_execution_attempt_count = ra_execution_attempt_count r,
     xj_executed_at = ra_executed_at r, xj_next_evaluation_at = ra_next_evaluation_at r\<rparr>"

definition outcome_projection_of :: "outcome_observation \<Rightarrow> outcome_projection" where
  "outcome_projection_of ob =
    \<lparr>oj_outcome_status = ro_outcome_status ob, oj_provider_mode = ro_provider_mode ob,
     oj_provider_status = ro_provider_status ob, oj_amount_expected_minor = ro_amount_expected_minor ob,
     oj_amount_paid_minor = ro_amount_paid_minor ob, oj_currency = ro_currency ob, oj_observed_at = ro_observed_at ob\<rparr>"

definition attribution_projection_of :: "recovery_attribution \<Rightarrow> attribution_projection" where
  "attribution_projection_of a =
    \<lparr>tj_provider_mode = at_provider_mode a, tj_recovered_amount_minor = at_recovered_amount_minor a,
     tj_currency = at_currency a, tj_reason_code = at_attribution_reason_code a, tj_attributed_at = at_attributed_at a\<rparr>"

definition case_list_item_of :: "row_times \<Rightarrow> case_rows \<Rightarrow> case_list_item" where
  "case_list_item_of T R =
    (let c = cr_case R; proposal = current_item sp_superseded_at (cr_proposals R);
         decision = current_item pd_superseded_at (cr_decisions R); approval = approval_for_decision R decision;
         action = latest_action T R; outcome = latest_outcome (cr_observations R);
         attribution = latest_attribution T R
     in \<lparr>li_case_reference = pc_case_reference c, li_amount_minor = pc_amount c, li_currency = pc_currency c,
         li_current_state = pc_current_state c, li_resolution_kind = resolution_kind R action attribution decision,
         li_payment_method = pc_razorpay_payment_method c, li_failure_category = pc_failure_category c,
         li_recovery_disposition = pc_recovery_disposition c, li_eligibility_status = pc_eligibility_status c,
         li_detected_at = pc_detected_at c, li_resolved_at = pc_resolved_at c,
         li_strategy_action = map_option sp_action proposal, li_strategy_provenance = strategy_provenance proposal,
         li_policy_result = map_option pd_result decision, li_approval_status = map_option ar_status approval,
         li_recovery_execution_status = map_option ra_execution_status action,
         li_outcome_status = map_option ro_outcome_status outcome,
         li_recovered_amount_minor = map_option at_recovered_amount_minor attribution,
         li_provider_mode = evidence_mode outcome attribution, li_data_origin = data_origin R outcome attribution\<rparr>)"

definition case_detail_of :: "row_times \<Rightarrow> case_rows \<Rightarrow> case_detail" where
  "case_detail_of T R =
    (let c = cr_case R; proposal = current_item sp_superseded_at (cr_proposals R);
         decision = current_item pd_superseded_at (cr_decisions R); approval = approval_for_decision R decision;
         action = latest_action T R; outcome = latest_outcome (cr_observations R);
         attribution = latest_attribution T R
     in \<lparr>cd_data_origin = data_origin R outcome attribution,
         cd_case = \<lparr>cj_case_reference = pc_case_reference c, cj_amount_minor = pc_amount c, cj_currency = pc_currency c,
           cj_current_state = pc_current_state c, cj_resolution_kind = resolution_kind R action attribution decision,
           cj_payment_method = pc_razorpay_payment_method c, cj_attempt_count = pc_attempt_count c,
           cj_contact_attempt_count = pc_contact_attempt_count c, cj_detected_at = pc_detected_at c,
           cj_resolved_at = pc_resolved_at c\<rparr>,
         cd_diagnosis = \<lparr>dj_eligibility_status = pc_eligibility_status c,
           dj_eligibility_reason_code = pc_eligibility_reason_code c, dj_failure_category = pc_failure_category c,
           dj_recovery_disposition = pc_recovery_disposition c, dj_diagnosis_reason_code = pc_diagnosis_reason_code c,
           dj_diagnosed_at = pc_diagnosed_at c\<rparr>,
         cd_strategy = map_option (strategy_projection_of T) proposal,
         cd_policy = map_option policy_projection_of decision,
         cd_approval = map_option approval_projection_of approval,
         cd_execution = map_option execution_projection_of action,
         cd_outcome = map_option outcome_projection_of outcome,
         cd_attribution = map_option attribution_projection_of attribution\<rparr>)"

section \<open>Queries\<close>

definition page :: "nat \<Rightarrow> nat \<Rightarrow> 'a list \<Rightarrow> 'a list" where
  "page limit offset rows = take limit (drop offset rows)"

definition case_matches ::
  "CaseState option \<Rightarrow> FailureCategory option \<Rightarrow> ProviderMode option \<Rightarrow> outcome_observation list \<Rightarrow> payment_case \<Rightarrow> bool" where
  "case_matches state failure_category mode observations c \<longleftrightarrow>
     (case state of None \<Rightarrow> True | Some s \<Rightarrow> pc_current_state c = s) \<and>
     (case failure_category of None \<Rightarrow> True | Some f \<Rightarrow> pc_failure_category c = Some f) \<and>
     (case mode of None \<Rightarrow> True
      | Some m \<Rightarrow> list_ex (\<lambda>ob. ro_case_id ob = pc_id c \<and> ro_provider_mode ob = m) observations)"

definition matching_cases ::
  "CaseState option \<Rightarrow> FailureCategory option \<Rightarrow> ProviderMode option \<Rightarrow> arc_db \<Rightarrow> payment_case list" where
  "matching_cases state failure_category mode db =
     filter (case_matches state failure_category mode (db_observations db)) (db_cases db)"

definition list_case_summaries ::
  "row_times \<Rightarrow> CaseState option \<Rightarrow> FailureCategory option \<Rightarrow> ProviderMode option \<Rightarrow> nat \<Rightarrow> nat \<Rightarrow> arc_db \<Rightarrow>
     case_list_item list" where
  "list_case_summaries T state failure_category mode limit offset db =
    map (\<lambda>c. case_list_item_of T (load_case_rows T db c))
      (page limit offset (sort_key (\<lambda>c. (- dt_us (pc_detected_at c), rt_collation T (pc_case_reference c)))
        (matching_cases state failure_category mode db)))"

definition find_case_reference :: "string \<Rightarrow> arc_db \<Rightarrow> payment_case option" where
  "find_case_reference reference db = find (\<lambda>c. pc_case_reference c = reference) (db_cases db)"

definition get_case_detail :: "row_times \<Rightarrow> string \<Rightarrow> arc_db \<Rightarrow> case_detail option" where
  "get_case_detail T reference db =
     map_option (\<lambda>c. case_detail_of T (load_case_rows T db c)) (find_case_reference reference db)"

text \<open>The inner joins of the queue: a request without its case, decision or proposal has no row.\<close>

definition queue_join ::
  "arc_db \<Rightarrow> approval_request \<Rightarrow> (approval_request \<times> payment_case \<times> policy_decision \<times> strategy_proposal) option" where
  "queue_join db a =
    Option.bind (find_case (ar_case_id a) db) (\<lambda>c.
    Option.bind (find_decision (ar_policy_decision_id a) db) (\<lambda>d.
    Option.bind (find_proposal (pd_strategy_proposal_id d) db) (\<lambda>p. Some (a, c, d, p))))"

definition list_approval_queue :: "ApprovalStatus \<Rightarrow> nat \<Rightarrow> nat \<Rightarrow> arc_db \<Rightarrow> approval_queue_item list" where
  "list_approval_queue status limit offset db =
    map (\<lambda>(a, c, d, p).
        \<lparr>qi_approval_request_id = ar_id a, qi_case_reference = pc_case_reference c, qi_amount_minor = pc_amount c,
         qi_currency = pc_currency c, qi_strategy_action = sp_action p,
         qi_strategy_provenance = strategy_provenance (Some p), qi_policy_reason_code = pd_reason_code d,
         qi_approval_status = ar_status a, qi_requested_at = ar_requested_at a, qi_decided_at = ar_decided_at a,
         qi_data_origin = origin_for_case_id (pc_id c) None db\<rparr>)
      (page limit offset (sort_key (\<lambda>(a, c, d, p). - dt_us (ar_requested_at a))
        (List.map_filter (queue_join db)
          (filter (\<lambda>a. ar_status a = status) (db_approvals db)))))"

definition list_recovery_actions :: "row_times \<Rightarrow> nat \<Rightarrow> nat \<Rightarrow> arc_db \<Rightarrow> recovery_action_item list" where
  "list_recovery_actions T limit offset db =
    map (\<lambda>(r, c).
        let outcome = latest_outcome (sort_key (\<lambda>ob. dt_us (ro_observed_at ob))
              (filter (\<lambda>ob. ro_recovery_action_id ob = ra_id r) (db_observations db)))
        in \<lparr>ri_case_reference = pc_case_reference c, ri_action = ra_action r,
            ri_strategy_provenance = strategy_provenance (find_proposal (ra_strategy_proposal_id r) db),
            ri_execution_status = ra_execution_status r, ri_provider = ra_provider r,
            ri_external_status = ra_external_status r, ri_execution_attempt_count = ra_execution_attempt_count r,
            ri_executed_at = ra_executed_at r, ri_next_evaluation_at = ra_next_evaluation_at r,
            ri_outcome_status = map_option ro_outcome_status outcome,
            ri_provider_mode = map_option ro_provider_mode outcome,
            ri_data_origin = origin_for_case_id (pc_id c) (map_option ro_provider_mode outcome) db\<rparr>)
      (page limit offset (sort_key (\<lambda>(r, c). - dt_us (rt_action T (ra_id r)))
        (List.map_filter (\<lambda>r. map_option (\<lambda>c. (r, c)) (find_case (ra_case_id r) db)) (db_actions db))))"

end
