(* ===== verification/Arc_Timeline.thy ===== *)
theory Arc_Timeline
  imports Arc_Read_Models "HOL-Library.Multiset"
begin

text \<open>
  The timeline of a case (\<open>get_case_timeline\<close>): the audit events that are shown, and an item for
  every domain row, in one chronological trace. The values that an event's free data may contribute
  are bounded: members of an enum, or reason codes of a fixed form.
\<close>

section \<open>Items\<close>

definition timeline_base :: "string \<Rightarrow> string \<Rightarrow> string \<Rightarrow> py_datetime \<Rightarrow> string \<Rightarrow> DataOrigin option \<Rightarrow> timeline_item" where
  "timeline_base stage title status timestamp authority origin =
    \<lparr>tl_stage = stage, tl_title = title, tl_status = status, tl_timestamp = timestamp, tl_detail = None,
     tl_action = None, tl_authority = Some authority, tl_strategy_provenance = None, tl_strategy_model = None,
     tl_result = None, tl_amount_minor = None, tl_currency = None, tl_provider_mode = None, tl_data_origin = origin\<rparr>"

definition RECONCILIATION_TIMELINE :: "(string \<times> string \<times> string) list" where
  "RECONCILIATION_TIMELINE =
    [(''RECONCILIATION_CONFIRMED_FAILURE'', ''Razorpay state reconciled'', ''Payment confirmed failed''),
     (''RECONCILIATION_FOUND_ALREADY_CAPTURED'', ''Razorpay state reconciled'', ''Payment confirmed captured''),
     (''PAYMENT_CAPTURE_SIGNAL_NOT_CONFIRMED'', ''Razorpay state reconciled'', ''Capture signal was not confirmed''),
     (''PAYMENT_STATE_NOT_RECOVERY_READY'', ''Razorpay state reconciled'', ''Payment is not recovery-ready''),
     (''PAYMENT_REFUNDED'', ''Razorpay state reconciled'', ''Payment was refunded'')]"

definition TIMELINE_STAGE_ORDER :: "(string \<times> nat) list" where
  "TIMELINE_STAGE_ORDER =
    [(''DEMO'', 0), (''DETECTED'', 1), (''RECONCILED'', 2), (''ELIGIBILITY'', 3), (''DIAGNOSED'', 4),
     (''STRATEGY'', 5), (''POLICY'', 6), (''APPROVAL'', 7), (''EXECUTION'', 8), (''OUTCOME'', 9), (''ATTRIBUTION'', 10)]"

definition stage_order :: "string \<Rightarrow> nat" where
  "stage_order stage = (case map_of TIMELINE_STAGE_ORDER stage of Some n \<Rightarrow> n | None \<Rightarrow> 99)"

definition ELIGIBILITY_TIMELINE_VALUES :: "string list" where
  "ELIGIBILITY_TIMELINE_VALUES = map eligibility_value
     [EligibilityDecision.ELIGIBLE, EligibilityDecision.WAIT, EligibilityDecision.STOP, EligibilityDecision.REVIEW]"

definition FAILURE_CATEGORY_TIMELINE_VALUES :: "string list" where
  "FAILURE_CATEGORY_TIMELINE_VALUES = map failure_category_value
     [FailureCategory.CUSTOMER_AUTHENTICATION, FailureCategory.CUSTOMER_FUNDS, FailureCategory.CUSTOMER_INTERRUPTION,
      FailureCategory.CUSTOMER_OR_INSTRUMENT_RESTRICTION, FailureCategory.BANK_OR_ISSUER,
      FailureCategory.GATEWAY_OR_NETWORK, FailureCategory.MERCHANT_CONFIGURATION,
      FailureCategory.RAZORPAY_OR_PLATFORM, FailureCategory.SUBSCRIPTION_RETRY_EXHAUSTED, FailureCategory.UNKNOWN]"

definition RECOVERY_DISPOSITION_TIMELINE_VALUES :: "string list" where
  "RECOVERY_DISPOSITION_TIMELINE_VALUES = map disposition_value
     [RecoveryDisposition.CUSTOMER_ACTION_REQUIRED, RecoveryDisposition.RETRY_LATER,
      RecoveryDisposition.ALTERNATE_METHOD_PREFERRED, RecoveryDisposition.MERCHANT_FIX_REQUIRED,
      RecoveryDisposition.RECOVERY_STRATEGY_REQUIRED, RecoveryDisposition.MANUAL_REVIEW, RecoveryDisposition.UNKNOWN]"

definition event_text :: "json \<Rightarrow> string \<Rightarrow> string option" where
  "event_text data key = (case data of
     JObj kvs \<Rightarrow> (case map_of kvs key of Some (JStr s) \<Rightarrow> Some s | _ \<Rightarrow> None) | _ \<Rightarrow> None)"

definition bounded_event_value :: "json \<Rightarrow> string \<Rightarrow> string list \<Rightarrow> string option" where
  "bounded_event_value data key allowed =
    (case event_text data key of None \<Rightarrow> None | Some v \<Rightarrow> if v \<in> set allowed then Some v else None)"

definition bounded_event_reason :: "json \<Rightarrow> string \<Rightarrow> string option" where
  "bounded_event_reason data key =
    (case event_text data key of None \<Rightarrow> None | Some v \<Rightarrow> if timeline_reason_code v then Some v else None)"

definition diagnosis_detail :: "string option \<Rightarrow> string option \<Rightarrow> string" where
  "diagnosis_detail category disposition = (case (category, disposition) of
     (Some c, Some d) \<Rightarrow> c @ '' / '' @ d | (Some c, None) \<Rightarrow> c | (None, Some d) \<Rightarrow> d | (None, None) \<Rightarrow> '''')"

definition timeline_from_case_event :: "py_datetime \<Rightarrow> case_event \<Rightarrow> DataOrigin option \<Rightarrow> timeline_item option" where
  "timeline_from_case_event created_at e origin =
    (let ty = ce_event_type e; data = ce_event_data e
     in if is_input_marker e then
          Some ((timeline_base ''DEMO'' ''Synthetic input case created'' ''complete'' created_at
            ''CONTROLLED_SYNTHETIC_INPUT'' (Some SYNTHETIC_INPUT))
            \<lparr>tl_detail := Some ''No provider payment or customer interaction''\<rparr>)
        else if is_demo_marker e then
          Some ((timeline_base ''DEMO'' ''Synthetic demo scenario seeded'' ''complete'' created_at
            ''CONTROLLED_SIMULATION'' (Some SYNTHETIC_DEMO))\<lparr>tl_detail := Some ''Controlled offline scenario''\<rparr>)
        else if ty = ''CASE_DETECTED'' then
          Some (timeline_base ''DETECTED'' ''Revenue risk detected'' ''complete'' created_at ''ARC_CONTROL_PLANE'' origin)
        else if origin = Some SYNTHETIC_INPUT \<and> ty = ''RECONCILIATION_CONFIRMED_FAILURE'' then
          Some ((timeline_base ''RECONCILED'' ''Synthetic case truth established'' ''complete'' created_at
            ''CONTROLLED_SYNTHETIC_INPUT'' origin)\<lparr>tl_detail := Some ''Controlled failed-payment input''\<rparr>)
        else case map_of RECONCILIATION_TIMELINE ty of
          Some (title, detail) \<Rightarrow>
            Some ((timeline_base ''RECONCILED'' title ''complete'' created_at ''AUTHORITATIVE_RECONCILIATION'' origin)
              \<lparr>tl_detail := Some detail\<rparr>)
        | None \<Rightarrow>
          if ty = ''ELIGIBILITY_EVALUATED'' then
            Some ((timeline_base ''ELIGIBILITY'' ''Recovery eligibility evaluated'' ''complete'' created_at
              ''DETERMINISTIC_PRECONDITIONS'' origin)
              \<lparr>tl_detail := py_or (bounded_event_reason data ''eligibility_reason'')
                 (Some ''Historical eligibility detail unavailable''),
               tl_result := bounded_event_value data ''eligibility_decision'' ELIGIBILITY_TIMELINE_VALUES\<rparr>)
          else if ty \<in> {''FAILURE_DIAGNOSED'', ''FAILURE_REDIAGNOSED''} then
            Some ((timeline_base ''DIAGNOSED'' ''Failure diagnosed'' ''complete'' created_at
              ''DETERMINISTIC_DIAGNOSIS'' origin)
              \<lparr>tl_detail := py_or (Some (diagnosis_detail
                   (bounded_event_value data ''failure_category'' FAILURE_CATEGORY_TIMELINE_VALUES)
                   (bounded_event_value data ''recovery_disposition'' RECOVERY_DISPOSITION_TIMELINE_VALUES)))
                 (Some ''Historical diagnosis detail unavailable''),
               tl_result := bounded_event_reason data ''diagnosis_reason''\<rparr>)
          else None)"

fun execution_timeline_status :: "RecoveryExecutionStatus \<Rightarrow> string" where
  "execution_timeline_status status =
    (if status \<in> {RecoveryExecutionStatus.PREPARED, RecoveryExecutionStatus.IN_PROGRESS} then ''pending''
     else if status \<in> {RecoveryExecutionStatus.FAILED, RecoveryExecutionStatus.INDETERMINATE,
       RecoveryExecutionStatus.COMPENSATION_REQUIRED} then ''blocked''
     else ''complete'')"

fun outcome_timeline_status :: "RecoveryOutcomeStatus \<Rightarrow> string" where
  "outcome_timeline_status status =
    (if status = RecoveryOutcomeStatus.PENDING then ''pending''
     else if status = RecoveryOutcomeStatus.REVIEW_REQUIRED then ''blocked'' else ''complete'')"

section \<open>The trace\<close>

text \<open>The calls of \<open>add\<close>, loop by loop; the item of a call has the timestamp it is filed under.\<close>

definition event_entries :: "DataOrigin option \<Rightarrow> (py_datetime \<times> case_event) list \<Rightarrow> timeline_item list" where
  "event_entries origin events = List.map_filter (\<lambda>(t, e). timeline_from_case_event t e origin) events"

definition mapped_detection :: "DataOrigin option \<Rightarrow> (py_datetime \<times> case_event) list \<Rightarrow> bool" where
  "mapped_detection origin events \<longleftrightarrow> list_ex (\<lambda>(t, e). timeline_from_case_event t e origin \<noteq> None \<and>
     ce_event_type e = ''CASE_DETECTED'') events"

definition detection_entry :: "DataOrigin option \<Rightarrow> payment_case \<Rightarrow> timeline_item" where
  "detection_entry origin c =
     timeline_base ''DETECTED'' ''Revenue risk detected'' ''complete'' (pc_detected_at c) ''ARC_CONTROL_PLANE'' origin"

definition proposal_entry :: "row_times \<Rightarrow> DataOrigin option \<Rightarrow> strategy_proposal \<Rightarrow> timeline_item" where
  "proposal_entry T origin p =
    (let provenance = strategy_provenance (Some p)
     in (timeline_base ''STRATEGY'' ''Recovery strategy proposed'' ''complete'' (rt_proposal T (sp_id p))
          (strategy_provenance_value provenance) origin)
        \<lparr>tl_detail := Some (sp_reason_code p), tl_action := Some (sp_action p),
         tl_strategy_provenance := Some provenance, tl_strategy_model := safe_strategy_model p\<rparr>)"

definition decision_entry :: "DataOrigin option \<Rightarrow> policy_decision \<Rightarrow> timeline_item" where
  "decision_entry origin d =
    (timeline_base ''POLICY'' ''Merchant policy evaluated''
        (if pd_result d = PolicyDecisionResult.BLOCKED then ''blocked'' else ''complete'')
        (pd_evaluated_at d) ''DETERMINISTIC_POLICY'' origin)
      \<lparr>tl_detail := Some (pd_reason_code d), tl_result := Some (policy_result_value (pd_result d))\<rparr>"

definition approval_entries :: "DataOrigin option \<Rightarrow> approval_request \<Rightarrow> timeline_item list" where
  "approval_entries origin a =
    (timeline_base ''APPROVAL'' ''Human approval requested'' ''pending'' (ar_requested_at a) ''HUMAN_APPROVAL'' origin)
      \<lparr>tl_result := Some ''PENDING''\<rparr> #
    (case ar_decided_at a of None \<Rightarrow> []
     | Some t \<Rightarrow> [(timeline_base ''APPROVAL'' ''Human approval decided''
           (if ar_status a = ApprovalStatus.REJECTED then ''blocked'' else ''complete'') t ''HUMAN_APPROVAL'' origin)
         \<lparr>tl_result := Some (approval_status_value (ar_status a))\<rparr>])"

definition action_entry :: "row_times \<Rightarrow> DataOrigin option \<Rightarrow> recovery_action \<Rightarrow> timeline_item" where
  "action_entry T origin r =
    (timeline_base ''EXECUTION'' ''Governed recovery action recorded'' (execution_timeline_status (ra_execution_status r))
        (case ra_executed_at r of Some t \<Rightarrow> t | None \<Rightarrow> rt_action T (ra_id r)) ''GOVERNED_EXECUTOR'' origin)
      \<lparr>tl_detail := ra_external_status r, tl_action := Some (ra_action r),
       tl_result := Some (execution_status_value (ra_execution_status r))\<rparr>"

definition observation_entry :: "DataOrigin option \<Rightarrow> outcome_observation \<Rightarrow> timeline_item" where
  "observation_entry origin ob =
    (timeline_base ''OUTCOME'' ''Authoritative recovery outcome observed''
        (outcome_timeline_status (ro_outcome_status ob)) (ro_observed_at ob) ''AUTHORITATIVE_PROVIDER_EVIDENCE'' origin)
      \<lparr>tl_detail := Some (ro_provider_status ob), tl_result := Some (outcome_status_value (ro_outcome_status ob)),
       tl_amount_minor := Some (ro_amount_paid_minor ob), tl_currency := Some (ro_currency ob),
       tl_provider_mode := Some (ro_provider_mode ob)\<rparr>"

definition attribution_entry :: "DataOrigin option \<Rightarrow> recovery_attribution \<Rightarrow> timeline_item" where
  "attribution_entry origin a =
    (timeline_base ''ATTRIBUTION'' ''Revenue recovered'' ''complete'' (at_attributed_at a)
        ''EVIDENCE_BACKED_ATTRIBUTION'' origin)
      \<lparr>tl_detail := Some (at_attribution_reason_code a), tl_result := Some ''ATTRIBUTED'',
       tl_amount_minor := Some (at_recovered_amount_minor a), tl_currency := Some (at_currency a),
       tl_provider_mode := Some (at_provider_mode a)\<rparr>"

definition timeline_origin :: "row_times \<Rightarrow> case_rows \<Rightarrow> DataOrigin option" where
  "timeline_origin T R = data_origin R (latest_outcome (cr_observations R)) (latest_attribution T R)"

definition timeline_entries :: "row_times \<Rightarrow> case_rows \<Rightarrow> timeline_item list" where
  "timeline_entries T R =
    (let origin = timeline_origin T R
     in event_entries origin (cr_events R) @
        (if mapped_detection origin (cr_events R) then [] else [detection_entry origin (cr_case R)]) @
        map (proposal_entry T origin) (cr_proposals R) @
        map (decision_entry origin) (cr_decisions R) @
        concat (map (approval_entries origin) (cr_approvals R)) @
        map (action_entry T origin) (cr_actions R) @
        map (observation_entry origin) (cr_observations R) @
        map (attribution_entry origin) (cr_attributions R))"

definition timeline_key :: "nat \<times> timeline_item \<Rightarrow> int \<times> nat \<times> nat" where
  "timeline_key entry = (dt_us (tl_timestamp (snd entry)), stage_order (tl_stage (snd entry)), fst entry)"

definition case_timeline_of :: "row_times \<Rightarrow> case_rows \<Rightarrow> timeline_item list" where
  "case_timeline_of T R = map snd (sort_key timeline_key (List.enumerate 0 (timeline_entries T R)))"

definition get_case_timeline :: "row_times \<Rightarrow> string \<Rightarrow> arc_db \<Rightarrow> timeline_item list option" where
  "get_case_timeline T reference db =
     map_option (\<lambda>c. case_timeline_of T (load_case_rows T db c)) (find_case_reference reference db)"

section \<open>The trace is complete and in order\<close>

lemma mset_timeline: "mset (case_timeline_of T R) = mset (timeline_entries T R)"
proof -
  have "mset (case_timeline_of T R) = image_mset snd (mset (List.enumerate 0 (timeline_entries T R)))"
    by (simp add: case_timeline_of_def)
  also have "\<dots> = mset (map snd (List.enumerate 0 (timeline_entries T R)))" by (simp only: mset_map)
  finally show ?thesis by simp
qed

abbreviation trace_key :: "timeline_item \<Rightarrow> int \<times> nat" where
  "trace_key i \<equiv> (dt_us (tl_timestamp i), stage_order (tl_stage i))"

lemma trace_key_mono: "timeline_key a \<le> timeline_key b \<Longrightarrow> trace_key (snd a) \<le> trace_key (snd b)"
  by (auto simp: timeline_key_def less_eq_prod_def less_prod_def)

lemma timeline_sorted: "sorted (map trace_key (case_timeline_of T R))"
proof -
  have "sorted (map timeline_key (sort_key timeline_key (List.enumerate 0 (timeline_entries T R))))" by simp
  then have "sorted_wrt (\<lambda>a b. timeline_key a \<le> timeline_key b) (sort_key timeline_key (List.enumerate 0 (timeline_entries T R)))"
    by (simp add: sorted_map)
  from sorted_wrt_mono_rel [OF _ this, of "\<lambda>a b. trace_key (snd a) \<le> trace_key (snd b)"]
  show ?thesis unfolding case_timeline_of_def sorted_map map_map sorted_wrt_map comp_def
    using trace_key_mono by blast
qed

definition stage_count :: "string \<Rightarrow> timeline_item list \<Rightarrow> nat" where
  "stage_count stage items = length (filter (\<lambda>i. tl_stage i = stage) items)"

lemma stage_count_append [simp]: "stage_count s (xs @ ys) = stage_count s xs + stage_count s ys"
  by (simp add: stage_count_def)

lemma stage_count_mset: "mset xs = mset ys \<Longrightarrow> stage_count s xs = stage_count s ys"
  unfolding stage_count_def by (metis mset_filter size_mset)

lemma stage_count_all: "(\<And>i. i \<in> set xs \<Longrightarrow> tl_stage i = t) \<Longrightarrow> stage_count s xs = (if s = t then length xs else 0)"
  by (auto simp: stage_count_def filter_empty_conv filter_id_conv)

lemma event_stage: "timeline_from_case_event t e origin = Some i \<Longrightarrow>
    tl_stage i \<in> {''DEMO'', ''DETECTED'', ''RECONCILED'', ''ELIGIBILITY'', ''DIAGNOSED''}"
  by (auto simp: timeline_from_case_event_def timeline_base_def Let_def split: if_splits option.splits prod.splits)

lemma event_entries_stage:
  assumes "s \<notin> {''DEMO'', ''DETECTED'', ''RECONCILED'', ''ELIGIBILITY'', ''DIAGNOSED''}"
  shows "stage_count s (event_entries origin evs) = 0"
  using assms event_stage by (fastforce simp: stage_count_def event_entries_def filter_empty_conv map_filter_def
      case_prod_unfold)

lemma entry_stages [simp]:
  "tl_stage (detection_entry origin c) = ''DETECTED''" "tl_stage (proposal_entry T origin p) = ''STRATEGY''"
  "tl_stage (decision_entry origin d) = ''POLICY''" "tl_stage (action_entry T origin r) = ''EXECUTION''"
  "tl_stage (observation_entry origin ob) = ''OUTCOME''" "tl_stage (attribution_entry origin a) = ''ATTRIBUTION''"
  by (simp_all add: detection_entry_def proposal_entry_def decision_entry_def action_entry_def observation_entry_def
      attribution_entry_def timeline_base_def Let_def)

lemma stage_count_map: "(\<And>x. tl_stage (f x) = t) \<Longrightarrow> stage_count s (map f xs) = (if s = t then length xs else 0)"
  by (subst stage_count_all [where t = t]) auto

lemma approval_stage: "i \<in> set (approval_entries origin a) \<Longrightarrow> tl_stage i = ''APPROVAL''"
  by (auto simp: approval_entries_def timeline_base_def split: option.splits)

lemma length_approval_entries: "length (approval_entries origin a) = (if ar_decided_at a = None then 1 else 2)"
  by (auto simp: approval_entries_def split: option.split)

lemma approval_count: "stage_count s (concat (map (approval_entries origin) as)) =
    (if s = ''APPROVAL'' then length as + length (filter (\<lambda>a. ar_decided_at a \<noteq> None) as) else 0)"
proof (induction as)
  case (Cons a as)
  have "stage_count s (approval_entries origin a) = (if s = ''APPROVAL'' then length (approval_entries origin a) else 0)"
    by (rule stage_count_all) (rule approval_stage)
  with Cons show ?case by (simp add: length_approval_entries)
qed (simp add: stage_count_def)

lemma loaded_length:
  "length (cr_proposals (load_case_rows T db c)) = length (filter (\<lambda>p. sp_case_id p = pc_id c) (db_proposals db))"
  "length (cr_decisions (load_case_rows T db c)) = length (filter (\<lambda>d. pd_case_id d = pc_id c) (db_decisions db))"
  "length (cr_approvals (load_case_rows T db c)) = length (filter (\<lambda>a. ar_case_id a = pc_id c) (db_approvals db))"
  "length (cr_actions (load_case_rows T db c)) = length (filter (\<lambda>r. ra_case_id r = pc_id c) (db_actions db))"
  "length (cr_observations (load_case_rows T db c)) = length (filter (\<lambda>ob. ro_case_id ob = pc_id c) (db_observations db))"
  "length (cr_attributions (load_case_rows T db c)) = length (filter (\<lambda>a. at_case_id a = pc_id c) (db_attributions db))"
  "length (filter P (cr_approvals (load_case_rows T db c))) =
     length (filter (\<lambda>a. P a \<and> ar_case_id a = pc_id c) (db_approvals db))"
  by (simp_all add: load_case_rows_def filter_sort conj_commute)

lemma domain_stage_counts:
  assumes "items = case_timeline_of T R"
  shows "stage_count ''STRATEGY'' items = length (cr_proposals R)" "stage_count ''POLICY'' items = length (cr_decisions R)"
    "stage_count ''APPROVAL'' items = length (cr_approvals R) + length (filter (\<lambda>a. ar_decided_at a \<noteq> None) (cr_approvals R))"
    "stage_count ''EXECUTION'' items = length (cr_actions R)" "stage_count ''OUTCOME'' items = length (cr_observations R)"
    "stage_count ''ATTRIBUTION'' items = length (cr_attributions R)"
  unfolding assms stage_count_mset [OF mset_timeline]
  by (simp_all add: timeline_entries_def Let_def event_entries_stage stage_count_map approval_count)
    (simp_all add: stage_count_def)

lemma detection_stage: "timeline_from_case_event t e origin = Some i \<Longrightarrow> ce_event_type e = ''CASE_DETECTED'' \<Longrightarrow>
    tl_stage i = ''DETECTED''"
  by (auto simp: timeline_from_case_event_def timeline_base_def Let_def is_demo_marker_def is_input_marker_def
      DEMO_EVENT_TYPE_def OPENAI_EVIDENCE_EVENT_TYPE_def RECONCILIATION_TIMELINE_def split: if_splits)

lemma stage_count_pos: "i \<in> set items \<Longrightarrow> tl_stage i = s \<Longrightarrow> 0 < stage_count s items"
  by (auto simp: stage_count_def filter_empty_conv)

lemma detection_shown: "0 < stage_count ''DETECTED'' (case_timeline_of T R)"
proof -
  let ?o = "timeline_origin T R"
  have "\<exists>i \<in> set (timeline_entries T R). tl_stage i = ''DETECTED''"
  proof (cases "mapped_detection ?o (cr_events R)")
    case True
    then obtain t e i where "(t, e) \<in> set (cr_events R)" "timeline_from_case_event t e ?o = Some i"
        "ce_event_type e = ''CASE_DETECTED''"
      by (auto simp: mapped_detection_def list_ex_iff)
    then have "i \<in> set (event_entries ?o (cr_events R))" "tl_stage i = ''DETECTED''"
      by (auto simp: event_entries_def map_filter_def detection_stage intro!: image_eqI [where x = "(t, e)"])
    then show ?thesis by (auto simp: timeline_entries_def Let_def)
  next
    case False
    then show ?thesis by (auto simp: timeline_entries_def Let_def)
  qed
  then have "0 < stage_count ''DETECTED'' (timeline_entries T R)" using stage_count_pos by blast
  then show ?thesis by (simp add: stage_count_mset [OF mset_timeline])
qed

text \<open>
  C25. The timeline of a case is in the order of time, and of the life of a case at one time, always
  shows the detection, and has exactly one item for every proposal, decision, approval request and
  decision on it, action, observation and attribution of the case in the tables.
\<close>

theorem timeline_complete:
  assumes "find_case_reference reference db = Some c" "get_case_timeline T reference db = Some items"
  shows "sorted (map (\<lambda>i. (dt_us (tl_timestamp i), stage_order (tl_stage i))) items) \<and>
    0 < stage_count ''DETECTED'' items \<and>
    stage_count ''STRATEGY'' items = length (filter (\<lambda>p. sp_case_id p = pc_id c) (db_proposals db)) \<and>
    stage_count ''POLICY'' items = length (filter (\<lambda>d. pd_case_id d = pc_id c) (db_decisions db)) \<and>
    stage_count ''APPROVAL'' items = length (filter (\<lambda>a. ar_case_id a = pc_id c) (db_approvals db)) +
      length (filter (\<lambda>a. ar_decided_at a \<noteq> None \<and> ar_case_id a = pc_id c) (db_approvals db)) \<and>
    stage_count ''EXECUTION'' items = length (filter (\<lambda>r. ra_case_id r = pc_id c) (db_actions db)) \<and>
    stage_count ''OUTCOME'' items = length (filter (\<lambda>ob. ro_case_id ob = pc_id c) (db_observations db)) \<and>
    stage_count ''ATTRIBUTION'' items = length (filter (\<lambda>a. at_case_id a = pc_id c) (db_attributions db))"
proof -
  have items: "items = case_timeline_of T (load_case_rows T db c)" using assms by (simp add: get_case_timeline_def)
  from timeline_sorted [of T "load_case_rows T db c"] detection_shown [of T "load_case_rows T db c"]
    domain_stage_counts [OF items] show ?thesis
    unfolding items loaded_length by simp
qed

section \<open>Labels\<close>

text \<open>A case with a marker is never shown as live or as test evidence.\<close>

definition marked_synthetic :: "arc_db \<Rightarrow> uuid \<Rightarrow> bool" where
  "marked_synthetic db k \<longleftrightarrow> (\<exists>e \<in> set (db_case_events db). ce_case_id e = k \<and> (is_demo_marker e \<or> is_input_marker e))"

abbreviation synthetic_labels :: "DataOrigin option set" where
  "synthetic_labels \<equiv> {Some SYNTHETIC_DEMO, Some SYNTHETIC_INPUT}"

lemma enumerate_members: "snd ` set (List.enumerate n xs) = set xs"
  by (metis list.set_map map_snd_enumerate)

lemma loaded_events: "snd ` set (cr_events (load_case_rows T db c)) = {e \<in> set (db_case_events db). ce_case_id e = pc_id c}"
proof -
  have "snd ` set (cr_events (load_case_rows T db c)) =
      {e. (\<exists>n. (n, e) \<in> set (List.enumerate 0 (db_case_events db))) \<and> ce_case_id e = pc_id c}"
    by (force simp: load_case_rows_def)
  moreover have "(\<exists>n. (n, e) \<in> set (List.enumerate 0 (db_case_events db))) \<longleftrightarrow> e \<in> set (db_case_events db)" for e
    using enumerate_members [of 0 "db_case_events db"] by force
  ultimately show ?thesis by simp
qed

lemma loaded_markers:
  "is_synthetic (load_case_rows T db c) \<longleftrightarrow> (\<exists>e \<in> set (db_case_events db). ce_case_id e = pc_id c \<and> is_demo_marker e)"
  "is_synthetic_input (load_case_rows T db c) \<longleftrightarrow>
     (\<exists>e \<in> set (db_case_events db). ce_case_id e = pc_id c \<and> is_input_marker e)"
proof -
  have "is_synthetic (load_case_rows T db c) \<longleftrightarrow> (\<exists>e \<in> snd ` set (cr_events (load_case_rows T db c)). is_demo_marker e)"
    "is_synthetic_input (load_case_rows T db c) \<longleftrightarrow> (\<exists>e \<in> snd ` set (cr_events (load_case_rows T db c)). is_input_marker e)"
    by (simp_all add: is_synthetic_def is_synthetic_input_def list_ex_iff case_prod_unfold)
  then show
    "is_synthetic (load_case_rows T db c) \<longleftrightarrow> (\<exists>e \<in> set (db_case_events db). ce_case_id e = pc_id c \<and> is_demo_marker e)"
    "is_synthetic_input (load_case_rows T db c) \<longleftrightarrow>
     (\<exists>e \<in> set (db_case_events db). ce_case_id e = pc_id c \<and> is_input_marker e)"
    unfolding loaded_events by auto
qed

lemma data_origin_marked: "marked_synthetic db (pc_id c) \<Longrightarrow> data_origin (load_case_rows T db c) oc a \<in> synthetic_labels"
  unfolding data_origin_def loaded_markers marked_synthetic_def by auto

lemma origin_marked: "marked_synthetic db k \<Longrightarrow> origin_for_case_id k mode db \<in> synthetic_labels"
  by (auto simp: origin_for_case_id_def marked_synthetic_def list_ex_iff)

lemma base_origin [simp]: "tl_data_origin (timeline_base st ti sta ts au og) = og"
  by (simp add: timeline_base_def)

lemma event_origin_exact:
  assumes "timeline_from_case_event t e origin = Some i"
  shows "tl_data_origin i = (if is_input_marker e then Some SYNTHETIC_INPUT
    else if is_demo_marker e then Some SYNTHETIC_DEMO else origin)"
proof (cases "is_input_marker e \<or> is_demo_marker e")
  case True
  with assms show ?thesis by (auto simp: timeline_from_case_event_def Let_def)
next
  case False
  let ?upd = "\<lambda>i. tl_data_origin i = origin"
  from False have n: "\<not> is_input_marker e" "\<not> is_demo_marker e" by simp_all
  have "?upd i" using assms unfolding timeline_from_case_event_def Let_def if_not_P [OF n(1)] if_not_P [OF n(2)]
    by (simp split: if_split_asm option.split_asm prod.split_asm) (clarify, simp)+
  with n show ?thesis by simp
qed

lemma event_origin:
  assumes "timeline_from_case_event t e origin = Some i"
  shows "tl_data_origin i \<in> insert origin synthetic_labels"
  unfolding event_origin_exact [OF assms] by simp

lemma entry_origins [simp]:
  "tl_data_origin (detection_entry og c) = og" "tl_data_origin (proposal_entry T og p) = og"
  "tl_data_origin (decision_entry og d) = og" "tl_data_origin (action_entry T og r) = og"
  "tl_data_origin (observation_entry og ob) = og" "tl_data_origin (attribution_entry og a) = og"
  by (simp_all add: detection_entry_def proposal_entry_def decision_entry_def action_entry_def observation_entry_def
      attribution_entry_def Let_def)

lemma approval_origin: "i \<in> set (approval_entries og a) \<Longrightarrow> tl_data_origin i = og"
  by (auto simp: approval_entries_def split: option.splits)

lemma set_map_filter: "x \<in> set (List.map_filter f xs) \<longleftrightarrow> (\<exists>y \<in> set xs. f y = Some x)"
  by (force simp: map_filter_def)

lemma event_entry_origin:
  assumes "i \<in> set (event_entries og evs)"
  shows "tl_data_origin i \<in> insert og synthetic_labels"
proof -
  from assms obtain t e where "timeline_from_case_event t e og = Some i" by (auto simp: event_entries_def set_map_filter)
  from event_origin [OF this] show ?thesis .
qed

lemma timeline_origins:
  assumes "i \<in> set (case_timeline_of T R)"
  shows "tl_data_origin i \<in> insert (timeline_origin T R) synthetic_labels"
proof -
  have "i \<in> set (timeline_entries T R)" using assms mset_timeline [of T R] by (metis set_mset_mset)
  then have "i \<in> set (event_entries (timeline_origin T R) (cr_events R)) \<or> tl_data_origin i = timeline_origin T R"
    unfolding timeline_entries_def Let_def set_append set_map set_concat Un_iff
    using approval_origin by (elim disjE) (auto split: if_splits)
  then show ?thesis using event_entry_origin by blast
qed

lemma find_case_D: "find_case k db = Some c \<Longrightarrow> c \<in> set (db_cases db) \<and> pc_id c = k"
  by (auto simp: find_case_def row_find_def find_Some_iff)

lemma same_reference:
  "distinct (map pc_case_reference (db_cases db)) \<Longrightarrow> find_case_reference reference db = Some c \<Longrightarrow>
   c' \<in> set (db_cases db) \<Longrightarrow> pc_case_reference c' = reference \<Longrightarrow> c' = c"
  by (auto simp: find_case_reference_def find_Some_iff distinct_map inj_on_def)

lemma page_subset: "x \<in> set (page l off xs) \<Longrightarrow> x \<in> set xs"
  by (auto simp: page_def dest: in_set_takeD in_set_dropD)

lemma summary_item:
  assumes "i \<in> set (list_case_summaries T st f m l off db)"
  obtains c where "c \<in> set (matching_cases st f m db)" "i = case_list_item_of T (load_case_rows T db c)"
  using assms by (auto simp: list_case_summaries_def dest: page_subset)

lemma queue_item:
  assumes "i \<in> set (list_approval_queue st l off db)"
  obtains a c d p where "a \<in> set (db_approvals db)" "ar_status a = st" "queue_join db a = Some (a, c, d, p)"
    "c \<in> set (db_cases db)" "qi_case_reference i = pc_case_reference c" "qi_approval_status i = st"
    "qi_data_origin i = origin_for_case_id (pc_id c) None db"
  using assms
  by (fastforce simp: list_approval_queue_def set_map_filter queue_join_def bind_eq_Some_conv dest!: page_subset find_case_D)

lemma action_item:
  assumes "i \<in> set (list_recovery_actions T l off db)"
  obtains r c mode where "r \<in> set (db_actions db)" "c \<in> set (db_cases db)" "ri_case_reference i = pc_case_reference c"
    "ri_data_origin i = origin_for_case_id (pc_id c) mode db"
  using assms
  by (fastforce simp: list_recovery_actions_def set_map_filter Let_def dest!: page_subset find_case_D)

lemma list_item_sel:
  "li_case_reference (case_list_item_of T R) = pc_case_reference (cr_case R)"
  "li_current_state (case_list_item_of T R) = pc_current_state (cr_case R)"
  "li_failure_category (case_list_item_of T R) = pc_failure_category (cr_case R)"
  "li_data_origin (case_list_item_of T R) = data_origin R (latest_outcome (cr_observations R)) (latest_attribution T R)"
  "cr_case (load_case_rows T db c) = c"
  by (simp_all add: case_list_item_of_def Let_def load_case_rows_def)

lemma detail_sel:
  "cd_data_origin (case_detail_of T R) = data_origin R (latest_outcome (cr_observations R)) (latest_attribution T R)"
  "cj_resolution_kind (cd_case (case_detail_of T R)) = resolution_kind R (latest_action T R) (latest_attribution T R)
     (current_item pd_superseded_at (cr_decisions R))"
  "cd_attribution (case_detail_of T R) = map_option attribution_projection_of (latest_attribution T R)"
  "cd_execution (case_detail_of T R) = map_option execution_projection_of (latest_action T R)"
  by (simp_all add: case_detail_of_def Let_def)

text \<open>
  C23. Synthetic evidence is never shown as live. A case with a synthetic marker among its audit events
  carries a synthetic label in its detail, in every item of its timeline, and wherever it appears in
  the case list, the approval queue and the executed actions.
\<close>

theorem synthetic_never_live:
  assumes u: "distinct (map pc_case_reference (db_cases db))"
    and f: "find_case_reference reference db = Some c" and m: "marked_synthetic db (pc_id c)"
  shows "(\<forall>d. get_case_detail T reference db = Some d \<longrightarrow> cd_data_origin d \<in> {Some SYNTHETIC_DEMO, Some SYNTHETIC_INPUT}) \<and>
    (\<forall>items i. get_case_timeline T reference db = Some items \<longrightarrow> i \<in> set items \<longrightarrow>
       tl_data_origin i \<in> {Some SYNTHETIC_DEMO, Some SYNTHETIC_INPUT}) \<and>
    (\<forall>st fc mo l off i. i \<in> set (list_case_summaries T st fc mo l off db) \<longrightarrow> li_case_reference i = reference \<longrightarrow>
       li_data_origin i \<in> {Some SYNTHETIC_DEMO, Some SYNTHETIC_INPUT}) \<and>
    (\<forall>st l off i. i \<in> set (list_approval_queue st l off db) \<longrightarrow> qi_case_reference i = reference \<longrightarrow>
       qi_data_origin i \<in> {Some SYNTHETIC_DEMO, Some SYNTHETIC_INPUT}) \<and>
    (\<forall>l off i. i \<in> set (list_recovery_actions T l off db) \<longrightarrow> ri_case_reference i = reference \<longrightarrow>
       ri_data_origin i \<in> {Some SYNTHETIC_DEMO, Some SYNTHETIC_INPUT})"
proof (intro conjI allI impI)
  fix d assume "get_case_detail T reference db = Some d"
  with f have "d = case_detail_of T (load_case_rows T db c)" by (simp add: get_case_detail_def)
  with data_origin_marked [OF m] show "cd_data_origin d \<in> synthetic_labels" by (simp only: detail_sel)
next
  fix items i assume "get_case_timeline T reference db = Some items" "i \<in> set items"
  with f have "i \<in> set (case_timeline_of T (load_case_rows T db c))" by (simp add: get_case_timeline_def)
  moreover have "timeline_origin T (load_case_rows T db c) \<in> synthetic_labels"
    unfolding timeline_origin_def by (rule data_origin_marked [OF m])
  ultimately show "tl_data_origin i \<in> synthetic_labels" using timeline_origins insert_absorb by metis
next
  fix st fc mo l off i
  assume "i \<in> set (list_case_summaries T st fc mo l off db)" "li_case_reference i = reference"
  then obtain c' where c': "c' \<in> set (matching_cases st fc mo db)" "i = case_list_item_of T (load_case_rows T db c')"
      "pc_case_reference c' = reference"
    by (metis summary_item list_item_sel(1,5))
  then have "c' = c" using same_reference [OF u f] by (simp add: matching_cases_def)
  with data_origin_marked [OF m] c' show "li_data_origin i \<in> synthetic_labels" by (simp add: list_item_sel del: insert_iff)
next
  fix st l off i
  assume "i \<in> set (list_approval_queue st l off db)" "qi_case_reference i = reference"
  then obtain c' where "c' \<in> set (db_cases db)" "pc_case_reference c' = reference"
      "qi_data_origin i = origin_for_case_id (pc_id c') None db"
    by (metis queue_item)
  with same_reference [OF u f] origin_marked [OF m] show "qi_data_origin i \<in> synthetic_labels" by metis
next
  fix l off i
  assume "i \<in> set (list_recovery_actions T l off db)" "ri_case_reference i = reference"
  then obtain c' mode where "c' \<in> set (db_cases db)" "pc_case_reference c' = reference"
      "ri_data_origin i = origin_for_case_id (pc_id c') mode db"
    by (metis action_item)
  with same_reference [OF u f] origin_marked [OF m] show "ri_data_origin i \<in> synthetic_labels" by metis
qed

section \<open>Resolutions\<close>

lemma latest_row_None: "latest_row t u xs = None \<longleftrightarrow> xs = []"
  by (cases xs) (simp_all add: latest_row_def)

lemma first_max_member: "first_max k b xs \<in> set (b # xs)"
proof (induction xs arbitrary: b)
  case (Cons x xs)
  from Cons [of "if k b < k x then x else b"] show ?case by (auto split: if_splits)
qed simp

lemma latest_row_member: "latest_row t u xs = Some x \<Longrightarrow> x \<in> set xs"
  using first_max_member [of _ "hd xs" "tl xs"] by (cases xs) (auto simp: latest_row_def)

lemma loaded_rows:
  "set (cr_actions (load_case_rows T db c)) = {r \<in> set (db_actions db). ra_case_id r = pc_id c}"
  "set (cr_attributions (load_case_rows T db c)) = {a \<in> set (db_attributions db). at_case_id a = pc_id c}"
  by (simp_all add: load_case_rows_def)

lemma latest_none:
  "latest_action T (load_case_rows T db c) = None \<longleftrightarrow> (\<forall>r \<in> set (db_actions db). ra_case_id r \<noteq> pc_id c)"
  "latest_attribution T (load_case_rows T db c) = None \<longleftrightarrow> (\<forall>a \<in> set (db_attributions db). at_case_id a \<noteq> pc_id c)"
  unfolding latest_action_def latest_attribution_def latest_row_None
  by (auto simp: loaded_rows simp flip: set_empty)

text \<open>
  C24. A resolution rests on rows. The detail of a case says that ARC recovered it exactly when an
  attribution of the case is in the table, and then shows it; it says that the payment was captured
  already exactly when reconciliation found this, the case is recovered, and neither an action nor an
  attribution of the case exists.
\<close>

theorem resolution_truthful:
  assumes f: "find_case_reference reference db = Some c" and d: "get_case_detail T reference db = Some d"
  shows "(cj_resolution_kind (cd_case d) = ARC_RECOVERED \<longleftrightarrow> (\<exists>a \<in> set (db_attributions db). at_case_id a = pc_id c)) \<and>
    (cd_attribution d \<noteq> None \<longleftrightarrow> cj_resolution_kind (cd_case d) = ARC_RECOVERED) \<and>
    (cj_resolution_kind (cd_case d) = ALREADY_CAPTURED \<longleftrightarrow>
       (\<exists>e \<in> set (db_case_events db). ce_case_id e = pc_id c \<and> ce_event_type e = ''RECONCILIATION_FOUND_ALREADY_CAPTURED'') \<and>
       pc_current_state c = CaseState.RECOVERED \<and>
       (\<forall>r \<in> set (db_actions db). ra_case_id r \<noteq> pc_id c) \<and> (\<forall>a \<in> set (db_attributions db). at_case_id a \<noteq> pc_id c))"
proof -
  let ?R = "load_case_rows T db c"
  have d: "d = case_detail_of T ?R" using f d by (simp add: get_case_detail_def)
  have captured: "list_ex (\<lambda>(t, e). ce_event_type e = ''RECONCILIATION_FOUND_ALREADY_CAPTURED'') (cr_events ?R) \<longleftrightarrow>
      (\<exists>e \<in> set (db_case_events db). ce_case_id e = pc_id c \<and> ce_event_type e = ''RECONCILIATION_FOUND_ALREADY_CAPTURED'')"
    using loaded_events [of T db c] by (force simp: list_ex_iff)
  have kind: "resolution_kind ?R ac atr dc = ARC_RECOVERED \<longleftrightarrow> atr \<noteq> None"
    "resolution_kind ?R ac atr dc = ALREADY_CAPTURED \<longleftrightarrow> atr = None \<and> ac = None \<and> pc_current_state c = CaseState.RECOVERED \<and>
      (\<exists>e \<in> set (db_case_events db). ce_case_id e = pc_id c \<and> ce_event_type e = ''RECONCILIATION_FOUND_ALREADY_CAPTURED'')"
    for ac atr dc
    by (auto simp: resolution_kind_def Let_def captured list_item_sel)
  show ?thesis unfolding d detail_sel kind by (auto simp: latest_none)
qed

section \<open>Witnesses\<close>

definition sample_times :: row_times where
  "sample_times = \<lparr>rt_event = (\<lambda>n. claim_time), rt_proposal = (\<lambda>k. claim_time), rt_action = (\<lambda>k. claim_time),
     rt_attribution = (\<lambda>k. claim_time), rt_collation = (\<lambda>s. s)\<rparr>"

definition marked_db :: arc_db where
  "marked_db = executed_db\<lparr>db_case_events := [\<lparr>ce_case_id = pc_id ready_case, ce_event_type = DEMO_EVENT_TYPE,
     ce_source = DEMO_EVENT_SOURCE, ce_event_data = JObj []\<rparr>]\<rparr>"

lemma find_observed:
  obtains c where "find_case_reference (pc_case_reference ready_case) observed_db = Some c" "pc_id c = pc_id ready_case"
proof -
  have "case find_case_reference (pc_case_reference ready_case) observed_db of None \<Rightarrow> False
    | Some c \<Rightarrow> pc_id c = pc_id ready_case" by code_simp
  then show ?thesis using that by (auto split: option.splits)
qed

theorem timeline_complete_witness:
  "\<exists>items. get_case_timeline sample_times (pc_case_reference ready_case) observed_db = Some items \<and>
     stage_count ''ATTRIBUTION'' items = 1 \<and> stage_count ''EXECUTION'' items = 1"
proof -
  obtain c where c: "find_case_reference (pc_case_reference ready_case) observed_db = Some c" "pc_id c = pc_id ready_case"
    by (rule find_observed)
  then obtain items where i: "get_case_timeline sample_times (pc_case_reference ready_case) observed_db = Some items"
    by (simp add: get_case_timeline_def)
  have "length (filter (\<lambda>a. at_case_id a = pc_id ready_case) (db_attributions observed_db)) = 1"
    "length (filter (\<lambda>r. ra_case_id r = pc_id ready_case) (db_actions observed_db)) = 1" by code_simp+
  with timeline_complete [OF c(1) i] i c(2) show ?thesis by auto
qed

theorem resolution_truthful_witness:
  "\<exists>d. get_case_detail sample_times (pc_case_reference ready_case) observed_db = Some d \<and>
     cj_resolution_kind (cd_case d) = ARC_RECOVERED"
proof -
  obtain c where c: "find_case_reference (pc_case_reference ready_case) observed_db = Some c" "pc_id c = pc_id ready_case"
    by (rule find_observed)
  then obtain d where d: "get_case_detail sample_times (pc_case_reference ready_case) observed_db = Some d"
    by (simp add: get_case_detail_def)
  have "list_ex (\<lambda>a. at_case_id a = pc_id ready_case) (db_attributions observed_db)" by code_simp
  with resolution_truthful [OF c(1) d] c(2) d show ?thesis by (auto simp: list_ex_iff)
qed

theorem synthetic_never_live_witness:
  "\<exists>d. get_case_detail sample_times (pc_case_reference ready_case) marked_db = Some d \<and>
     cd_data_origin d \<in> {Some SYNTHETIC_DEMO, Some SYNTHETIC_INPUT}"
proof -
  have "case find_case_reference (pc_case_reference ready_case) marked_db of None \<Rightarrow> False
    | Some c \<Rightarrow> pc_id c = pc_id ready_case" by code_simp
  then obtain c where c: "find_case_reference (pc_case_reference ready_case) marked_db = Some c" "pc_id c = pc_id ready_case"
    by (auto split: option.splits)
  then obtain d where d: "get_case_detail sample_times (pc_case_reference ready_case) marked_db = Some d"
    by (simp add: get_case_detail_def)
  have u: "distinct (map pc_case_reference (db_cases marked_db))" by code_simp
  have m: "marked_synthetic marked_db (pc_id c)"
    by (simp add: marked_synthetic_def marked_db_def is_demo_marker_def c(2))
  from synthetic_never_live [OF u c(1) m, of sample_times] d show ?thesis by blast
qed

end
