(* ===== verification/Arc_Redaction.thy ===== *)
theory Arc_Redaction
  imports Arc_Timeline
begin

text \<open>
  What the read API cannot reveal. \<open>redact_db\<close> erases from every row what the projections must not
  show (identifiers of customer, merchant and provider, URLs, keys, fingerprints, token counts, the
  operator and the note of a decision, free event data), and every response is the same on the
  redacted tables: none of them depends on what was erased.
\<close>

section \<open>Lists\<close>

lemma find_mapped: "find P (map f xs) = map_option f (find (\<lambda>x. P (f x)) xs)"
  by (induction xs) auto

lemma enumerate_mapped: "List.enumerate n (map f xs) = map (\<lambda>(i, x). (i, f x)) (List.enumerate n xs)"
  by (induction xs arbitrary: n) auto

lemma page_map: "page l off (map f xs) = map f (page l off xs)"
  by (simp add: page_def take_map drop_map)

lemma map_filter_mapped: "List.map_filter g (map f xs) = List.map_filter (\<lambda>x. g (f x)) xs"
  by (induction xs) (auto simp: map_filter_def)

lemma current_item_map: "current_item s (map f xs) = map_option f (current_item (\<lambda>x. s (f x)) xs)"
  by (simp add: current_item_def find_mapped rev_map)

lemma first_max_map: "first_max k (f b) (map f xs) = f (first_max (\<lambda>x. k (f x)) b xs)"
  by (induction xs arbitrary: b) auto

lemma latest_row_map: "latest_row t u (map f xs) = map_option f (latest_row (\<lambda>x. t (f x)) (\<lambda>x. u (f x)) xs)"
  by (cases xs) (simp_all add: latest_row_def first_max_map)

lemma row_find_map:
  assumes "\<And>x. k (f x) = k x"
  shows "row_find k v (map f xs) = map_option f (row_find k v xs)"
  using assms by (simp add: row_find_def find_mapped)

lemmas mapped_rows = sort_key_map find_mapped enumerate_mapped page_map map_filter_mapped filter_map
  current_item_map latest_row_map list_ex_iff

section \<open>What is not shown\<close>

text \<open>
  A row without what the projections must not reveal: identifiers of customer, merchant and
  provider, URLs, keys, fingerprints, usage figures, the operator and the note of a decision, and
  the free data of an event apart from the bounded values.
\<close>

definition redact_case :: "payment_case \<Rightarrow> payment_case" where
  "redact_case c = c\<lparr>pc_merchant_id := [], pc_payment_id := None, pc_subscription_id := None,
     pc_razorpay_payment_status := None, pc_razorpay_subscription_status := None, pc_customer_id := None,
     pc_error_code := None, pc_error_description := None, pc_error_source := None, pc_error_step := None,
     pc_error_reason := None, pc_eligibility_evaluated_at := None, pc_assessment_fingerprint := None,
     pc_last_reconciled_at := None\<rparr>"

definition shown_data :: "json \<Rightarrow> json" where
  "shown_data data = JObj
    [(''eligibility_decision'', jopt JStr (bounded_event_value data ''eligibility_decision'' ELIGIBILITY_TIMELINE_VALUES)),
     (''eligibility_reason'', jopt JStr (bounded_event_reason data ''eligibility_reason'')),
     (''failure_category'', jopt JStr (bounded_event_value data ''failure_category'' FAILURE_CATEGORY_TIMELINE_VALUES)),
     (''recovery_disposition'',
        jopt JStr (bounded_event_value data ''recovery_disposition'' RECOVERY_DISPOSITION_TIMELINE_VALUES)),
     (''diagnosis_reason'', jopt JStr (bounded_event_reason data ''diagnosis_reason''))]"

definition redact_event :: "case_event \<Rightarrow> case_event" where
  "redact_event e = e\<lparr>ce_source := (if is_demo_marker e \<or> is_input_marker e then ce_source e else []),
     ce_event_data := shown_data (ce_event_data e)\<rparr>"

definition redact_proposal :: "strategy_proposal \<Rightarrow> strategy_proposal" where
  "redact_proposal p = p\<lparr>sp_assessment_fingerprint := [], sp_strategy_input_fingerprint := [],
     sp_re_evaluate_after_seconds := None, sp_prompt_version := [],
     sp_model := (if sp_source p = StrategySource.RULE then None
       else map_option (\<lambda>m. if strategy_model_name (py_strip m) then m else []) (sp_model p)),
     sp_provider_response_id := None, sp_input_tokens := None, sp_output_tokens := None, sp_total_tokens := None,
     sp_latency_ms := None\<rparr>"

definition redact_decision :: "policy_decision \<Rightarrow> policy_decision" where
  "redact_decision d = d\<lparr>pd_merchant_policy_id := None, pd_strategy_input_fingerprint := [], pd_policy_fingerprint := [],
     pd_authorization_input_fingerprint := [], pd_recovery_window_ends_at := None, pd_high_value_threshold_minor := None,
     pd_observed_high_value := None, pd_observed_amount_minor := None, pd_observed_attempt_count := 0,
     pd_observed_contact_attempt_count := 0\<rparr>"

definition redact_approval :: "approval_request \<Rightarrow> approval_request" where
  "redact_approval a = a\<lparr>ar_decided_by := None, ar_decision_note := None\<rparr>"

definition redact_action :: "recovery_action \<Rightarrow> recovery_action" where
  "redact_action r = r\<lparr>ra_policy_decision_id := 0, ra_approval_request_id := None, ra_idempotency_key := [],
     ra_request_fingerprint := [], ra_external_reference_id := None, ra_external_reference := None,
     ra_external_url := None, ra_external_expires_at := None, ra_execution_started_at := None, ra_failed_at := None,
     ra_error_code := None\<rparr>"

definition redact_observation :: "outcome_observation \<Rightarrow> outcome_observation" where
  "redact_observation ob = ob\<lparr>ro_source := OutcomeObservationSource.POLL, ro_provider := [],
     ro_provider_payment_id := None, ro_provider_payment_status := None, ro_evidence_fingerprint := []\<rparr>"

definition redact_attribution :: "recovery_attribution \<Rightarrow> recovery_attribution" where
  "redact_attribution a = a\<lparr>at_recovery_action_id := 0, at_outcome_observation_id := 0, at_provider := [],
     at_provider_payment_link_id := [], at_provider_reference_id := [], at_provider_payment_id := [],
     at_evidence_fingerprint := []\<rparr>"

definition redact_db :: "arc_db \<Rightarrow> arc_db" where
  "redact_db db = \<lparr>db_cases = map redact_case (db_cases db), db_case_events = map redact_event (db_case_events db),
     db_proposals = map redact_proposal (db_proposals db), db_policies = [],
     db_decisions = map redact_decision (db_decisions db), db_approvals = map redact_approval (db_approvals db),
     db_actions = map redact_action (db_actions db), db_observations = map redact_observation (db_observations db),
     db_attributions = map redact_attribution (db_attributions db), db_webhook_events = []\<rparr>"

definition redact_rows :: "case_rows \<Rightarrow> case_rows" where
  "redact_rows R = \<lparr>cr_case = redact_case (cr_case R), cr_events = map (\<lambda>(t, e). (t, redact_event e)) (cr_events R),
     cr_proposals = map redact_proposal (cr_proposals R), cr_decisions = map redact_decision (cr_decisions R),
     cr_approvals = map redact_approval (cr_approvals R), cr_actions = map redact_action (cr_actions R),
     cr_observations = map redact_observation (cr_observations R),
     cr_attributions = map redact_attribution (cr_attributions R)\<rparr>"

lemma redacted_case_fields [simp]:
  "pc_id (redact_case c) = pc_id c" "pc_case_reference (redact_case c) = pc_case_reference c"
  "pc_amount (redact_case c) = pc_amount c" "pc_currency (redact_case c) = pc_currency c"
  "pc_current_state (redact_case c) = pc_current_state c" "pc_failure_category (redact_case c) = pc_failure_category c"
  "pc_detected_at (redact_case c) = pc_detected_at c"
  "pc_razorpay_payment_method (redact_case c) = pc_razorpay_payment_method c"
  "pc_recovery_disposition (redact_case c) = pc_recovery_disposition c"
  "pc_eligibility_status (redact_case c) = pc_eligibility_status c"
  "pc_eligibility_reason_code (redact_case c) = pc_eligibility_reason_code c"
  "pc_diagnosis_reason_code (redact_case c) = pc_diagnosis_reason_code c"
  "pc_diagnosed_at (redact_case c) = pc_diagnosed_at c" "pc_attempt_count (redact_case c) = pc_attempt_count c"
  "pc_contact_attempt_count (redact_case c) = pc_contact_attempt_count c"
  "pc_resolved_at (redact_case c) = pc_resolved_at c"
  by (simp_all add: redact_case_def)

lemma redacted_event_fields [simp]:
  "ce_case_id (redact_event e) = ce_case_id e" "ce_event_type (redact_event e) = ce_event_type e"
  "ce_event_data (redact_event e) = shown_data (ce_event_data e)"
  by (simp_all add: redact_event_def)

lemma redacted_markers [simp]:
  "is_demo_marker (redact_event e) = is_demo_marker e" "is_input_marker (redact_event e) = is_input_marker e"
  by (auto simp: redact_event_def is_demo_marker_def is_input_marker_def DEMO_EVENT_SOURCE_def
      OPENAI_EVIDENCE_EVENT_SOURCE_def)

lemma redacted_proposal_fields [simp]:
  "sp_id (redact_proposal p) = sp_id p" "sp_case_id (redact_proposal p) = sp_case_id p"
  "sp_source (redact_proposal p) = sp_source p" "sp_action (redact_proposal p) = sp_action p"
  "sp_reason_code (redact_proposal p) = sp_reason_code p" "sp_explanation (redact_proposal p) = sp_explanation p"
  "sp_confidence (redact_proposal p) = sp_confidence p" "sp_superseded_at (redact_proposal p) = sp_superseded_at p"
  by (simp_all add: redact_proposal_def)

lemma empty_model_name: "py_strip [] = []" "strategy_model_name [] = False"
  by (simp_all add: py_strip_def strategy_model_name_def)

lemma offline_model_name: "strategy_model_name (py_strip OFFLINE_DEMO_STRATEGY_MODEL)"
  by code_simp

lemma redacted_model [simp]:
  "safe_strategy_model (redact_proposal p) = safe_strategy_model p"
  "strategy_provenance (Some (redact_proposal p)) = strategy_provenance (Some p)"
  using offline_model_name
  by (auto simp: safe_strategy_model_def strategy_provenance_def redact_proposal_def empty_model_name
      OFFLINE_DEMO_STRATEGY_MODEL_def split: option.splits)

lemma redacted_decision_fields [simp]:
  "pd_id (redact_decision d) = pd_id d" "pd_case_id (redact_decision d) = pd_case_id d"
  "pd_strategy_proposal_id (redact_decision d) = pd_strategy_proposal_id d" "pd_result (redact_decision d) = pd_result d"
  "pd_reason_code (redact_decision d) = pd_reason_code d" "pd_evaluated_at (redact_decision d) = pd_evaluated_at d"
  "pd_superseded_at (redact_decision d) = pd_superseded_at d" "policy_projection_of (redact_decision d) = policy_projection_of d"
  by (simp_all add: redact_decision_def policy_projection_of_def)

lemma redacted_approval_fields [simp]:
  "ar_id (redact_approval a) = ar_id a" "ar_case_id (redact_approval a) = ar_case_id a"
  "ar_policy_decision_id (redact_approval a) = ar_policy_decision_id a" "ar_status (redact_approval a) = ar_status a"
  "ar_requested_at (redact_approval a) = ar_requested_at a" "ar_decided_at (redact_approval a) = ar_decided_at a"
  by (simp_all add: redact_approval_def)

lemma redacted_action_fields [simp]:
  "ra_id (redact_action r) = ra_id r" "ra_case_id (redact_action r) = ra_case_id r"
  "ra_strategy_proposal_id (redact_action r) = ra_strategy_proposal_id r" "ra_action (redact_action r) = ra_action r"
  "ra_execution_status (redact_action r) = ra_execution_status r" "ra_provider (redact_action r) = ra_provider r"
  "ra_external_status (redact_action r) = ra_external_status r" "ra_executed_at (redact_action r) = ra_executed_at r"
  "ra_execution_attempt_count (redact_action r) = ra_execution_attempt_count r"
  "ra_next_evaluation_at (redact_action r) = ra_next_evaluation_at r"
  by (simp_all add: redact_action_def)

lemma redacted_observation_fields [simp]:
  "ro_case_id (redact_observation ob) = ro_case_id ob" "ro_observed_at (redact_observation ob) = ro_observed_at ob"
  "ro_recovery_action_id (redact_observation ob) = ro_recovery_action_id ob"
  "ro_created_at (redact_observation ob) = ro_created_at ob" "ro_provider_mode (redact_observation ob) = ro_provider_mode ob"
  "ro_outcome_status (redact_observation ob) = ro_outcome_status ob"
  "outcome_projection_of (redact_observation ob) = outcome_projection_of ob"
  "observation_entry origin (redact_observation ob) = observation_entry origin ob"
  by (simp_all add: redact_observation_def outcome_projection_of_def observation_entry_def)

lemma redacted_attribution_fields [simp]:
  "at_id (redact_attribution a) = at_id a" "at_case_id (redact_attribution a) = at_case_id a"
  "at_attributed_at (redact_attribution a) = at_attributed_at a" "at_provider_mode (redact_attribution a) = at_provider_mode a"
  "at_recovered_amount_minor (redact_attribution a) = at_recovered_amount_minor a"
  "attribution_projection_of (redact_attribution a) = attribution_projection_of a"
  "attribution_entry origin (redact_attribution a) = attribution_entry origin a"
  by (simp_all add: redact_attribution_def attribution_projection_of_def attribution_entry_def)

lemma load_redacted: "load_case_rows T (redact_db db) (redact_case c) = redact_rows (load_case_rows T db c)"
  by (simp add: load_case_rows_def redact_db_def redact_rows_def mapped_rows comp_def case_prod_unfold)

lemma find_redacted:
  "find_case_reference reference (redact_db db) = map_option redact_case (find_case_reference reference db)"
  "find_case k (redact_db db) = map_option redact_case (find_case k db)"
  "find_decision k (redact_db db) = map_option redact_decision (find_decision k db)"
  "find_proposal k (redact_db db) = map_option redact_proposal (find_proposal k db)"
  by (simp_all add: find_case_reference_def find_case_def find_decision_def find_proposal_def redact_db_def find_mapped
      row_find_map)

lemma redact_rows_sel [simp]:
  "cr_case (redact_rows R) = redact_case (cr_case R)"
  "cr_events (redact_rows R) = map (\<lambda>(t, e). (t, redact_event e)) (cr_events R)"
  "cr_proposals (redact_rows R) = map redact_proposal (cr_proposals R)"
  "cr_decisions (redact_rows R) = map redact_decision (cr_decisions R)"
  "cr_approvals (redact_rows R) = map redact_approval (cr_approvals R)"
  "cr_actions (redact_rows R) = map redact_action (cr_actions R)"
  "cr_observations (redact_rows R) = map redact_observation (cr_observations R)"
  "cr_attributions (redact_rows R) = map redact_attribution (cr_attributions R)"
  by (simp_all add: redact_rows_def)

lemma redacted_latest:
  "latest_action T (redact_rows R) = map_option redact_action (latest_action T R)"
  "latest_outcome (map redact_observation obs) = map_option redact_observation (latest_outcome obs)"
  "latest_attribution T (redact_rows R) = map_option redact_attribution (latest_attribution T R)"
  "approval_for_decision (redact_rows R) (map_option redact_decision d) =
     map_option redact_approval (approval_for_decision R d)"
  by (simp_all add: latest_action_def latest_outcome_def latest_attribution_def approval_for_decision_def mapped_rows
      comp_def rev_map split: option.split)

lemma redacted_judgements:
  "evidence_mode (map_option redact_observation oc) (map_option redact_attribution atr) = evidence_mode oc atr"
  "data_origin (redact_rows R) (map_option redact_observation oc) (map_option redact_attribution atr) = data_origin R oc atr"
  "resolution_kind (redact_rows R) (map_option redact_action ac) (map_option redact_attribution atr)
     (map_option redact_decision d) = resolution_kind R ac atr d"
  by (auto simp: evidence_mode_def data_origin_def is_synthetic_def is_synthetic_input_def resolution_kind_def Let_def
      list_ex_iff case_prod_unfold option.map_comp comp_def split: option.split)

lemma redacted_provenance: "strategy_provenance (map_option redact_proposal p) = strategy_provenance p"
  by (cases p) simp_all

lemma redacted_projections [simp]:
  "strategy_projection_of T (redact_proposal p) = strategy_projection_of T p"
  "approval_projection_of (redact_approval a) = approval_projection_of a"
  "execution_projection_of (redact_action r) = execution_projection_of r"
  by (simp_all add: strategy_projection_of_def approval_projection_of_def execution_projection_of_def)

lemmas redacted_views = mapped_rows redacted_latest redacted_judgements redacted_provenance comp_def option.map_comp

lemma list_item_redacted: "case_list_item_of T (redact_rows R) = case_list_item_of T R"
  by (simp add: case_list_item_of_def Let_def redacted_views)

lemma detail_redacted: "case_detail_of T (redact_rows R) = case_detail_of T R"
  by (simp add: case_detail_of_def Let_def redacted_views)

lemma bounded_shown:
  "bounded_event_value (shown_data d) ''eligibility_decision'' ELIGIBILITY_TIMELINE_VALUES =
     bounded_event_value d ''eligibility_decision'' ELIGIBILITY_TIMELINE_VALUES"
  "bounded_event_reason (shown_data d) ''eligibility_reason'' = bounded_event_reason d ''eligibility_reason''"
  "bounded_event_value (shown_data d) ''failure_category'' FAILURE_CATEGORY_TIMELINE_VALUES =
     bounded_event_value d ''failure_category'' FAILURE_CATEGORY_TIMELINE_VALUES"
  "bounded_event_value (shown_data d) ''recovery_disposition'' RECOVERY_DISPOSITION_TIMELINE_VALUES =
     bounded_event_value d ''recovery_disposition'' RECOVERY_DISPOSITION_TIMELINE_VALUES"
  "bounded_event_reason (shown_data d) ''diagnosis_reason'' = bounded_event_reason d ''diagnosis_reason''"
  by (simp_all add: shown_data_def bounded_event_value_def bounded_event_reason_def event_text_def jopt_def split: option.split)

lemma event_redacted: "timeline_from_case_event t (redact_event e) origin = timeline_from_case_event t e origin"
  by (simp add: timeline_from_case_event_def Let_def bounded_shown cong: if_cong option.case_cong)

lemma entries_redacted [simp]:
  "proposal_entry T origin (redact_proposal p) = proposal_entry T origin p"
  "decision_entry origin (redact_decision d) = decision_entry origin d"
  "approval_entries origin (redact_approval a) = approval_entries origin a"
  "action_entry T origin (redact_action r) = action_entry T origin r"
  "detection_entry origin (redact_case c) = detection_entry origin c"
  by (simp_all add: proposal_entry_def decision_entry_def approval_entries_def action_entry_def detection_entry_def
      Let_def cong: if_cong option.case_cong)

lemma trace_redacted:
  "timeline_origin T (redact_rows R) = timeline_origin T R"
  "event_entries origin (map (\<lambda>(t, e). (t, redact_event e)) evs) = event_entries origin evs"
  "mapped_detection origin (map (\<lambda>(t, e). (t, redact_event e)) evs) = mapped_detection origin evs"
  by (simp_all add: timeline_origin_def event_entries_def mapped_detection_def redacted_views event_redacted case_prod_unfold)

lemma timeline_redacted: "case_timeline_of T (redact_rows R) = case_timeline_of T R"
  by (simp add: case_timeline_of_def timeline_entries_def trace_redacted
      Let_def comp_def)

lemma origin_redacted: "origin_for_case_id k mode (redact_db db) = origin_for_case_id k mode db"
  by (auto simp: origin_for_case_id_def redact_db_def list_ex_iff)

lemma matching_redacted: "matching_cases st f m (redact_db db) = map redact_case (matching_cases st f m db)"
  by (simp add: matching_cases_def redact_db_def case_matches_def [abs_def] mapped_rows comp_def cong: option.case_cong)

lemma summaries_redacted: "list_case_summaries T st f m l off (redact_db db) = list_case_summaries T st f m l off db"
  by (simp add: list_case_summaries_def matching_redacted mapped_rows comp_def load_redacted list_item_redacted)

lemma bind_map_option: "Option.bind (map_option f v) g = Option.bind v (\<lambda>x. g (f x))"
  by (cases v) simp_all

lemma map_option_bind: "map_option f (Option.bind v g) = Option.bind v (\<lambda>x. map_option f (g x))"
  by (cases v) simp_all

lemma map_filter_option: "List.map_filter (\<lambda>x. map_option f (g x)) xs = map f (List.map_filter g xs)"
  by (induction xs) (auto simp: map_filter_def)

definition redact_joined :: "approval_request \<times> payment_case \<times> policy_decision \<times> strategy_proposal \<Rightarrow>
    approval_request \<times> payment_case \<times> policy_decision \<times> strategy_proposal" where
  "redact_joined = (\<lambda>(a, c, d, p). (redact_approval a, redact_case c, redact_decision d, redact_proposal p))"

lemma queue_join_redacted: "queue_join (redact_db db) (redact_approval a) = map_option redact_joined (queue_join db a)"
  by (simp add: queue_join_def find_redacted bind_map_option map_option_bind redact_joined_def)

lemma queue_redacted: "list_approval_queue st l off (redact_db db) = list_approval_queue st l off db"
proof -
  have "List.map_filter (queue_join (redact_db db)) (filter (\<lambda>a. ar_status a = st) (db_approvals (redact_db db))) =
      map redact_joined (List.map_filter (queue_join db) (filter (\<lambda>a. ar_status a = st) (db_approvals db)))"
    by (simp add: redact_db_def [of db, THEN arg_cong, of db_approvals] filter_map comp_def map_filter_mapped
        queue_join_redacted map_filter_option)
  then show ?thesis
    by (simp add: list_approval_queue_def mapped_rows comp_def case_prod_unfold redact_joined_def origin_redacted)
qed

lemma actions_redacted: "list_recovery_actions T l off (redact_db db) = list_recovery_actions T l off db"
proof -
  have "List.map_filter (\<lambda>r. map_option (\<lambda>c. (r, c)) (find_case (ra_case_id r) (redact_db db))) (db_actions (redact_db db)) =
      map (\<lambda>(r, c). (redact_action r, redact_case c))
        (List.map_filter (\<lambda>r. map_option (\<lambda>c. (r, c)) (find_case (ra_case_id r) db)) (db_actions db))"
    by (simp add: redact_db_def [of db, THEN arg_cong, of db_actions] find_redacted map_filter_mapped option.map_comp
        comp_def flip: map_filter_option)
  moreover have "latest_outcome (sort_key (\<lambda>ob. dt_us (ro_observed_at ob))
        (filter (\<lambda>ob. ro_recovery_action_id ob = k) (db_observations (redact_db db)))) =
      map_option redact_observation (latest_outcome (sort_key (\<lambda>ob. dt_us (ro_observed_at ob))
        (filter (\<lambda>ob. ro_recovery_action_id ob = k) (db_observations db))))" for k
    by (simp add: redact_db_def mapped_rows comp_def redacted_latest)
  ultimately show ?thesis
    by (simp add: list_recovery_actions_def Let_def mapped_rows comp_def case_prod_unfold origin_redacted
        find_redacted redacted_provenance option.map_comp)
qed

text \<open>
  C22. Nothing sensitive is revealed. Every response of the read models is the same when the rows are
  stripped of the identifiers of customer, merchant, payment and provider link, of URLs, idempotency
  keys, fingerprints and token counts, of the operator and the note of a decision, and of all event
  data but the bounded values: no response depends on any of these.
\<close>

theorem read_models_redacted:
  "list_case_summaries T st f m l off (redact_db db) = list_case_summaries T st f m l off db \<and>
   get_case_detail T reference (redact_db db) = get_case_detail T reference db \<and>
   get_case_timeline T reference (redact_db db) = get_case_timeline T reference db \<and>
   list_approval_queue status l off (redact_db db) = list_approval_queue status l off db \<and>
   list_recovery_actions T l off (redact_db db) = list_recovery_actions T l off db"
  by (simp add: summaries_redacted queue_redacted actions_redacted get_case_detail_def get_case_timeline_def
      find_redacted option.map_comp comp_def load_redacted detail_redacted timeline_redacted)

end
