(* ===== verification/Arc_Read_Api.thy ===== *)
theory Arc_Read_Api
  imports Arc_Timeline
begin

text \<open>
  The routes of the read API (\<open>services/api/routes/read_api.py\<close>) and the loader of the evaluation
  summary (\<open>arc/evaluation/read_model.py\<close>). The storage is \<open>None\<close> where every statement raises
  SQLAlchemy's error. A failure is its status, code and message; FastAPI answers 422 where a bound of
  a query parameter is violated. JSON parsing and the validation of the summary's schema, which
  pydantic does, are parameters.
\<close>

section \<open>Members from values\<close>

definition case_state_of_value :: "string \<Rightarrow> CaseState option" where
  "case_state_of_value s = find (\<lambda>m. case_state_value m = s)
     [CaseState.DETECTED, CaseState.RECONCILING, CaseState.DIAGNOSED, CaseState.DECISIONED, CaseState.POLICY_VALIDATED,
      CaseState.ACTIONED, CaseState.WAITING_FOR_OUTCOME, CaseState.RECOVERED, CaseState.EXHAUSTED, CaseState.ESCALATED]"

lemma case_state_of_value_iff: "case_state_of_value s = Some m \<longleftrightarrow> s = case_state_value m"
  unfolding case_state_of_value_def by (rule find_by_value, simp) (cases m; simp)

definition provider_mode_of_value :: "string \<Rightarrow> ProviderMode option" where
  "provider_mode_of_value s = find (\<lambda>m. provider_mode_value m = s) [ProviderMode.TEST, ProviderMode.LIVE]"

lemma provider_mode_of_value_iff: "provider_mode_of_value s = Some m \<longleftrightarrow> s = provider_mode_value m"
  unfolding provider_mode_of_value_def by (rule find_by_value, simp) (cases m; simp)

definition approval_status_of_value :: "string \<Rightarrow> ApprovalStatus option" where
  "approval_status_of_value s = find (\<lambda>m. approval_status_value m = s)
     [ApprovalStatus.PENDING, ApprovalStatus.APPROVED, ApprovalStatus.REJECTED]"

lemma approval_status_of_value_iff: "approval_status_of_value s = Some m \<longleftrightarrow> s = approval_status_value m"
  unfolding approval_status_of_value_def by (rule find_by_value, simp) (cases m; simp)

section \<open>Filters\<close>

type_synonym http_problem = "int \<times> string \<times> string"

definition invalid_filter :: "string \<Rightarrow> http_problem" where
  "invalid_filter name = (400, ''INVALID_FILTER'', ''Invalid '' @ name @ '' filter'')"

definition enum_filter :: "(string \<Rightarrow> 'e option) \<Rightarrow> string \<Rightarrow> string \<Rightarrow> http_problem + 'e" where
  "enum_filter of_value value name =
    (case of_value (py_upper (py_strip value)) of Some e \<Rightarrow> Inr e | None \<Rightarrow> Inl (invalid_filter name))"

definition optional_enum_filter :: "(string \<Rightarrow> 'e option) \<Rightarrow> string option \<Rightarrow> string \<Rightarrow> http_problem + 'e option" where
  "optional_enum_filter of_value value name =
    (case value of None \<Rightarrow> Inr None | Some v \<Rightarrow> sbind (enum_filter of_value v name) (\<lambda>e. Inr (Some e)))"

text \<open>\<open>str.isalpha\<close> on the first 256 code points.\<close>

definition alpha_char :: "char \<Rightarrow> bool" where
  "alpha_char c \<longleftrightarrow> (let n = py_ord c in (65 \<le> n \<and> n \<le> 90) \<or> (97 \<le> n \<and> n \<le> 122) \<or> n \<in> {170, 181, 186} \<or>
     (192 \<le> n \<and> n \<le> 255 \<and> n \<noteq> 215 \<and> n \<noteq> 247))"

definition currency_filter :: "string \<Rightarrow> http_problem + string" where
  "currency_filter value = (let normalized = py_upper (py_strip value)
     in if length normalized \<noteq> 3 \<or> \<not> list_all alpha_char normalized then Inl (invalid_filter ''currency'')
        else Inr normalized)"

definition read_unavailable :: http_problem where
  "read_unavailable = (503, ''READ_MODEL_UNAVAILABLE'', ''Read model storage is unavailable'')"

definition case_not_found :: http_problem where
  "case_not_found = (404, ''CASE_NOT_FOUND'', ''Case not found'')"

definition page_bounds :: "int \<Rightarrow> int \<Rightarrow> http_problem + unit" where
  "page_bounds limit offset =
    (if 1 \<le> limit \<and> limit \<le> 100 \<and> 0 \<le> offset \<and> offset \<le> 100000 then Inr () else Inl (422, [], []))"

definition stored :: "arc_db option \<Rightarrow> http_problem + arc_db" where
  "stored storage = (case storage of None \<Rightarrow> Inl read_unavailable | Some db \<Rightarrow> Inr db)"

section \<open>Routes\<close>

definition dashboard_summary :: "arc_db option \<Rightarrow> string \<Rightarrow> string \<Rightarrow> http_problem + (arc_error + recovery_metrics)" where
  "dashboard_summary storage provider_mode currency =
    sbind (enum_filter provider_mode_of_value provider_mode ''provider_mode'') (\<lambda>mode.
    sbind (currency_filter currency) (\<lambda>normalized.
    sbind (stored storage) (\<lambda>db. Inr (calculate_recovery_metrics mode normalized db))))"

definition cases_route ::
  "row_times \<Rightarrow> arc_db option \<Rightarrow> string option \<Rightarrow> string option \<Rightarrow> string option \<Rightarrow> int \<Rightarrow> int \<Rightarrow>
     http_problem + case_list_item list" where
  "cases_route T storage state failure_category provider_mode limit offset =
    sbind (page_bounds limit offset) (\<lambda>_.
    sbind (optional_enum_filter case_state_of_value state ''state'') (\<lambda>state_filter.
    sbind (optional_enum_filter failure_category_of_value failure_category ''failure_category'') (\<lambda>failure_filter.
    sbind (optional_enum_filter provider_mode_of_value provider_mode ''provider_mode'') (\<lambda>mode_filter.
    sbind (stored storage) (\<lambda>db.
      Inr (list_case_summaries T state_filter failure_filter mode_filter (nat limit) (nat offset) db))))))"

definition case_detail_route :: "row_times \<Rightarrow> arc_db option \<Rightarrow> string \<Rightarrow> http_problem + case_detail" where
  "case_detail_route T storage reference = sbind (stored storage) (\<lambda>db.
    case get_case_detail T reference db of None \<Rightarrow> Inl case_not_found | Some detail \<Rightarrow> Inr detail)"

definition case_timeline_route :: "row_times \<Rightarrow> arc_db option \<Rightarrow> string \<Rightarrow> http_problem + timeline_item list" where
  "case_timeline_route T storage reference = sbind (stored storage) (\<lambda>db.
    case get_case_timeline T reference db of None \<Rightarrow> Inl case_not_found | Some timeline \<Rightarrow> Inr timeline)"

definition approvals_route :: "arc_db option \<Rightarrow> string \<Rightarrow> int \<Rightarrow> int \<Rightarrow> http_problem + approval_queue_item list" where
  "approvals_route storage approval_status limit offset =
    sbind (page_bounds limit offset) (\<lambda>_.
    sbind (enum_filter approval_status_of_value approval_status ''approval_status'') (\<lambda>status_filter.
    sbind (stored storage) (\<lambda>db. Inr (list_approval_queue status_filter (nat limit) (nat offset) db))))"

definition recovery_actions_route ::
  "row_times \<Rightarrow> arc_db option \<Rightarrow> int \<Rightarrow> int \<Rightarrow> http_problem + recovery_action_item list" where
  "recovery_actions_route T storage limit offset =
    sbind (page_bounds limit offset) (\<lambda>_.
    sbind (stored storage) (\<lambda>db. Inr (list_recovery_actions T (nat limit) (nat offset) db)))"

section \<open>The evaluation summary\<close>

text \<open>
  An artifact that is not an object has no \<open>get\<close>: its \<open>AttributeError\<close> is not among the exceptions
  that the loader turns into its own.
\<close>

datatype summary_error = EvaluationSummaryUnavailableError string | AttributeError

definition PUBLIC_SUMMARY_KEYS :: "string list" where
  "PUBLIC_SUMMARY_KEYS = [''evaluation_name'', ''evaluation_version'', ''dataset_version'', ''evidence_class'',
     ''strategy_mode'', ''status'', ''case_count'', ''metrics'']"

definition load_evaluation_summary ::
  "(string \<Rightarrow> json option) \<Rightarrow> ((string \<times> json) list \<Rightarrow> 's option) \<Rightarrow> string option \<Rightarrow> summary_error + 's" where
  "load_evaluation_summary json_loads validate file =
    (let unavailable = Inl (EvaluationSummaryUnavailableError ''Evaluation summary is unavailable'')
     in case Option.bind file json_loads of
          None \<Rightarrow> unavailable
        | Some (JObj payload) \<Rightarrow>
            (case validate (map (\<lambda>k. (k, case map_of payload k of Some v \<Rightarrow> v | None \<Rightarrow> JNull)) PUBLIC_SUMMARY_KEYS) of
               None \<Rightarrow> unavailable | Some summary \<Rightarrow> Inr summary)
        | Some _ \<Rightarrow> Inl AttributeError)"

definition evaluation_summary_route ::
  "(string \<Rightarrow> json option) \<Rightarrow> ((string \<times> json) list \<Rightarrow> 's option) \<Rightarrow> string option \<Rightarrow> http_problem + 's" where
  "evaluation_summary_route json_loads validate file =
    (case load_evaluation_summary json_loads validate file of
       Inr summary \<Rightarrow> Inr summary
     | Inl (EvaluationSummaryUnavailableError _) \<Rightarrow>
         Inl (503, ''EVALUATION_SUMMARY_UNAVAILABLE'', ''Evaluation summary is unavailable'')
     | Inl AttributeError \<Rightarrow> Inl (500, [], []))"

section \<open>Pages\<close>

lemma pages_take: "concat (map (\<lambda>i. page l (i * l) xs) [0..<n]) = page (n * l) 0 xs"
proof (induction n)
  case (Suc n)
  then show ?case by (simp add: page_def add.commute [of l] take_add)
qed (simp add: page_def)

lemma concat_map_map: "concat (map (\<lambda>i. map f (g i)) is) = map f (concat (map g is))"
  by (induction "is") auto

lemma load_case_rows_cases [simp]: "load_case_rows T (db\<lparr>db_cases := cs\<rparr>) c = load_case_rows T db c"
  by (simp add: load_case_rows_def)

lemma filter_mset_eq: "mset xs = mset ys \<Longrightarrow> mset (filter P xs) = mset (filter P ys)"
  by (metis mset_filter)

text \<open>
  The order of the case list does not depend on the order of the rows in the table.
\<close>

lemma summaries_order:
  assumes d: "distinct (map pc_case_reference (db_cases db))"
    and i: "inj_on (rt_collation T) (pc_case_reference ` set (db_cases db))"
    and m: "mset cs = mset (db_cases db)"
  shows "list_case_summaries T st fc mo l off (db\<lparr>db_cases := cs\<rparr>) = list_case_summaries T st fc mo l off db"
proof -
  let ?key = "\<lambda>c. (- dt_us (pc_detected_at c), rt_collation T (pc_case_reference c))"
  let ?P = "case_matches st fc mo (db_observations db)"
  have e: "mset (filter ?P cs) = mset (filter ?P (db_cases db))" by (rule filter_mset_eq [OF m])
  have "inj_on ?key (set (db_cases db))"
  proof (rule inj_onI)
    fix a b assume ab: "a \<in> set (db_cases db)" "b \<in> set (db_cases db)" "?key a = ?key b"
    from ab(3) have "rt_collation T (pc_case_reference a) = rt_collation T (pc_case_reference b)" by simp
    from inj_onD [OF i this] ab(1,2) have "pc_case_reference a = pc_case_reference b" by blast
    with d [unfolded distinct_map] ab(1,2) show "a = b" by (blast dest: inj_onD)
  qed
  moreover have "set (filter ?P cs) \<subseteq> set (db_cases db)" using mset_eq_setD [OF m] by auto
  ultimately have i: "inj_on ?key (set (filter ?P cs))" by (rule inj_on_subset)
  have "sort_key ?key (filter ?P cs) = sort_key ?key (filter ?P (db_cases db))"
  proof (rule sort_key_inj_key_eq [OF _ i])
    show "mset (filter ?P cs) = mset (sort_key ?key (filter ?P (db_cases db)))" unfolding mset_sort by (rule e)
  qed (rule sorted_sort_key)
  then show ?thesis by (simp add: list_case_summaries_def matching_cases_def)
qed

text \<open>
  Pages of the case list. With a collation that tells references apart, consecutive pages of one
  size make up the whole list, without gap or repetition, in whatever order the rows are stored.
\<close>

lemma case_pages_partition:
  assumes "distinct (map pc_case_reference (db_cases db))"
    "inj_on (rt_collation T) (pc_case_reference ` set (db_cases db))" "mset cs = mset (db_cases db)"
    "length (db_cases db) \<le> n * l"
  shows "concat (map (\<lambda>i. list_case_summaries T st fc mo l (i * l) (db\<lparr>db_cases := cs\<rparr>)) [0..<n]) =
      list_case_summaries T st fc mo (length (db_cases db)) 0 db \<and>
    length (list_case_summaries T st fc mo (length (db_cases db)) 0 db) = length (matching_cases st fc mo db)"
proof -
  let ?rows = "sort_key (\<lambda>c. (- dt_us (pc_detected_at c), rt_collation T (pc_case_reference c))) (matching_cases st fc mo db)"
  have l: "length ?rows \<le> length (db_cases db)" by (simp add: matching_cases_def)
  have "concat (map (\<lambda>i. list_case_summaries T st fc mo l (i * l) (db\<lparr>db_cases := cs\<rparr>)) [0..<n]) =
      map (\<lambda>c. case_list_item_of T (load_case_rows T db c)) (page (n * l) 0 ?rows)"
    by (simp only: summaries_order [OF assms(1-3)]) (simp only: list_case_summaries_def concat_map_map pages_take)
  moreover have "page (n * l) 0 ?rows = page (length (db_cases db)) 0 ?rows" using l assms(4) by (simp add: page_def)
  ultimately show ?thesis using l by (simp add: list_case_summaries_def page_def)
qed

section \<open>Requests\<close>

lemma optional_filter_Inr:
  assumes "optional_enum_filter of_value v name = Inr f" "\<And>s m. of_value s = Some m \<longleftrightarrow> s = val m"
  shows "v = None \<and> f = None \<or> (\<exists>s m. v = Some s \<and> f = Some m \<and> val m = py_upper (py_strip s))"
  using assms by (auto simp: optional_enum_filter_def enum_filter_def split: option.splits)

text \<open>
  What the case list answers. A request that is answered had bounds in range and storage to read;
  the answer is no longer than the limit, and every item is the projection of a stored case that has
  the state, the failure category and an observation in the provider mode that were asked for, each
  compared without regard to case and surrounding space.
\<close>

lemma cases_route_respects_request:
  assumes "cases_route T storage state failure_category provider_mode limit offset = Inr items"
  shows "int (length items) \<le> limit \<and> limit \<le> 100 \<and> storage \<noteq> None \<and>
    (\<forall>i \<in> set items. \<exists>c \<in> set (db_cases (the storage)). i = case_list_item_of T (load_case_rows T (the storage) c) \<and>
      (case state of None \<Rightarrow> True | Some s \<Rightarrow> case_state_value (li_current_state i) = py_upper (py_strip s)) \<and>
      (case failure_category of None \<Rightarrow> True
       | Some s \<Rightarrow> map_option failure_category_value (li_failure_category i) = Some (py_upper (py_strip s))) \<and>
      (case provider_mode of None \<Rightarrow> True
       | Some s \<Rightarrow> \<exists>ob \<in> set (db_observations (the storage)). ro_case_id ob = pc_id c \<and>
           provider_mode_value (ro_provider_mode ob) = py_upper (py_strip s)))"
proof -
  from assms obtain db sf ff mf where
    b: "1 \<le> limit" "limit \<le> 100" and st: "storage = Some db"
    and s: "optional_enum_filter case_state_of_value state ''state'' = Inr sf"
    and f: "optional_enum_filter failure_category_of_value failure_category ''failure_category'' = Inr ff"
    and m: "optional_enum_filter provider_mode_of_value provider_mode ''provider_mode'' = Inr mf"
    and items: "items = list_case_summaries T sf ff mf (nat limit) (nat offset) db"
    by (auto simp: cases_route_def page_bounds_def stored_def sbind_def split: sum.splits if_splits option.splits)
  have "length items \<le> nat limit" by (simp add: items list_case_summaries_def page_def)
  moreover have "\<exists>c \<in> set (db_cases db). i = case_list_item_of T (load_case_rows T db c) \<and>
      (case state of None \<Rightarrow> True | Some s \<Rightarrow> case_state_value (li_current_state i) = py_upper (py_strip s)) \<and>
      (case failure_category of None \<Rightarrow> True
       | Some s \<Rightarrow> map_option failure_category_value (li_failure_category i) = Some (py_upper (py_strip s))) \<and>
      (case provider_mode of None \<Rightarrow> True
       | Some s \<Rightarrow> \<exists>ob \<in> set (db_observations db). ro_case_id ob = pc_id c \<and>
           provider_mode_value (ro_provider_mode ob) = py_upper (py_strip s))" if "i \<in> set items" for i
  proof -
    from that [unfolded items] obtain c where c: "c \<in> set (matching_cases sf ff mf db)"
        "i = case_list_item_of T (load_case_rows T db c)" by (rule summary_item)
    then show ?thesis
      using optional_filter_Inr [OF s case_state_of_value_iff] optional_filter_Inr [OF f failure_category_of_value_iff]
        optional_filter_Inr [OF m provider_mode_of_value_iff]
      by (intro bexI [of _ c] conjI) (auto simp: matching_cases_def case_matches_def list_item_sel list_ex_iff)
  qed
  ultimately show ?thesis using b unfolding st option.sel by (intro conjI ballI) simp_all
qed

section \<open>Witnesses\<close>

end
