(* ===== verification/Arc_History.thy ===== *)
theory Arc_History
  imports Arc_Metrics Arc_Webhooks Arc_Ingress Arc_Assessment Arc_Approval Arc_Execution Arc_Strategy Arc_Authorization
    "HOL-Library.Sublist"
begin

text \<open>
  What every transaction of every service keeps of the past. Rows are never deleted: the audit log,
  the observations and the attributions only grow, cases stay and move along permitted
  transitions, proposals and decisions only end or are reinstated, decided approvals do not change,
  actions keep what they were made for, and ledger events keep what was delivered. \<open>evolves S\<close> also
  says that no table outside \<open>S\<close> is touched. What a concurrent session inserts is a transaction of
  its own, so the \<open>raced\<close> rows of the components are empty here.
\<close>

section \<open>Histories of rows\<close>

definition rows_evolve :: "('k \<Rightarrow> 'd \<Rightarrow> 'r option) \<Rightarrow> ('r \<Rightarrow> 'r \<Rightarrow> bool) \<Rightarrow> 'd \<Rightarrow> 'd \<Rightarrow> bool" where
  "rows_evolve find_row R d d' \<longleftrightarrow> (\<forall>k r. find_row k d = Some r \<longrightarrow> (\<exists>r'. find_row k d' = Some r' \<and> R r r'))"

lemma rows_evolveD: "rows_evolve find_row R d d' \<Longrightarrow> find_row k d = Some r \<Longrightarrow> \<exists>r'. find_row k d' = Some r' \<and> R r r'"
  by (simp add: rows_evolve_def)

lemma rows_evolve_same: "(\<And>k. find_row k d' = find_row k d) \<Longrightarrow> reflp R \<Longrightarrow> rows_evolve find_row R d d'"
  by (simp add: rows_evolve_def reflp_def)

lemma rows_evolve_trans: "transp R \<Longrightarrow> rows_evolve f R a b \<Longrightarrow> rows_evolve f R b c \<Longrightarrow> rows_evolve f R a c"
  unfolding rows_evolve_def transp_def by meson

context row_store
begin

lemma save_evolves: "lookup (key r') d = Some r \<Longrightarrow> R r r' \<Longrightarrow> reflp R \<Longrightarrow> rows_evolve lookup R d (save r' d)"
  by (auto simp: rows_evolve_def lookup_save reflp_def)

lemma add_evolves: "reflp R \<Longrightarrow> rows_evolve lookup R d (add r d)"
  by (auto simp: rows_evolve_def lookup_add reflp_def)

end

section \<open>What a transaction keeps\<close>

text \<open>The parts of the tables that a transaction may change: rows, or the set of rows.\<close>

datatype db_part = PolicyRows | CaseRows | NewCases | ProposalRows | DecisionRows | ApprovalRows | NewApprovals | ActionRows | NewActions
  | OutcomeRows | NewEvents

definition case_evolves :: "payment_case \<Rightarrow> payment_case \<Rightarrow> bool" where
  "case_evolves c c' \<longleftrightarrow> pc_id c' = pc_id c \<and> pc_case_reference c' = pc_case_reference c \<and>
     can_transition\<^sup>*\<^sup>* (pc_current_state c) (pc_current_state c')"

definition proposal_evolves :: "strategy_proposal \<Rightarrow> strategy_proposal \<Rightarrow> bool" where
  "proposal_evolves p p' \<longleftrightarrow> (\<exists>t. p' = p\<lparr>sp_superseded_at := t\<rparr>)"

definition decision_evolves :: "policy_decision \<Rightarrow> policy_decision \<Rightarrow> bool" where
  "decision_evolves d d' \<longleftrightarrow> (\<exists>t. d' = d\<lparr>pd_superseded_at := t\<rparr>)"

definition approval_evolves :: "approval_request \<Rightarrow> approval_request \<Rightarrow> bool" where
  "approval_evolves a a' \<longleftrightarrow> ar_id a' = ar_id a \<and> ar_case_id a' = ar_case_id a \<and>
     ar_policy_decision_id a' = ar_policy_decision_id a \<and> (ar_status a \<noteq> ApprovalStatus.PENDING \<longrightarrow> a' = a)"

definition action_evolves :: "recovery_action \<Rightarrow> recovery_action \<Rightarrow> bool" where
  "action_evolves r r' \<longleftrightarrow> ra_id r' = ra_id r \<and> ra_case_id r' = ra_case_id r \<and>
     ra_strategy_proposal_id r' = ra_strategy_proposal_id r \<and> ra_policy_decision_id r' = ra_policy_decision_id r \<and>
     ra_approval_request_id r' = ra_approval_request_id r \<and> ra_action r' = ra_action r \<and>
     ra_idempotency_key r' = ra_idempotency_key r \<and> ra_request_fingerprint r' = ra_request_fingerprint r"

definition logs_kept :: "arc_db \<Rightarrow> arc_db \<Rightarrow> bool" where
  "logs_kept db db' \<longleftrightarrow>
     prefix (db_case_events db) (db_case_events db') \<and> prefix (db_observations db) (db_observations db') \<and>
     prefix (db_attributions db) (db_attributions db') \<and> ledger_kept db db'"

definition rows_kept :: "arc_db \<Rightarrow> arc_db \<Rightarrow> bool" where
  "rows_kept db db' \<longleftrightarrow> rows_evolve find_case case_evolves db db' \<and> rows_evolve find_proposal proposal_evolves db db' \<and>
     rows_evolve find_decision decision_evolves db db' \<and> rows_evolve find_approval approval_evolves db db' \<and>
     rows_evolve find_action action_evolves db db'"

definition untouched :: "db_part set \<Rightarrow> arc_db \<Rightarrow> arc_db \<Rightarrow> bool" where
  "untouched S db db' \<longleftrightarrow>
     (PolicyRows \<notin> S \<longrightarrow> db_policies db' = db_policies db) \<and>
     (CaseRows \<notin> S \<longrightarrow> db_cases db' = db_cases db) \<and>
     (ProposalRows \<notin> S \<longrightarrow> db_proposals db' = db_proposals db) \<and>
     (DecisionRows \<notin> S \<longrightarrow> db_decisions db' = db_decisions db) \<and>
     (ApprovalRows \<notin> S \<longrightarrow> db_approvals db' = db_approvals db) \<and>
     (ActionRows \<notin> S \<longrightarrow> db_actions db' = db_actions db) \<and>
     (OutcomeRows \<notin> S \<longrightarrow> db_observations db' = db_observations db \<and> db_attributions db' = db_attributions db) \<and>
     (NewCases \<notin> S \<longrightarrow> map pc_id (db_cases db') = map pc_id (db_cases db)) \<and>
     (NewApprovals \<notin> S \<longrightarrow> map ar_id (db_approvals db') = map ar_id (db_approvals db)) \<and>
     (NewActions \<notin> S \<longrightarrow> map ra_id (db_actions db') = map ra_id (db_actions db)) \<and>
     (NewEvents \<notin> S \<longrightarrow> map we_id (db_webhook_events db') = map we_id (db_webhook_events db))"

definition evolves :: "db_part set \<Rightarrow> arc_db \<Rightarrow> arc_db \<Rightarrow> bool" where
  "evolves S db db' \<longleftrightarrow> logs_kept db db' \<and> rows_kept db db' \<and> untouched S db db'"

lemma evolve_refl [simp]: "case_evolves c c" "proposal_evolves p p" "decision_evolves d d" "approval_evolves a a"
  "action_evolves r r"
proof -
  show "proposal_evolves p p" unfolding proposal_evolves_def by (rule exI [of _ "sp_superseded_at p"]) simp
  show "decision_evolves d d" unfolding decision_evolves_def by (rule exI [of _ "pd_superseded_at d"]) simp
qed (simp_all add: case_evolves_def approval_evolves_def action_evolves_def)

lemma superseded_evolves [simp]: "proposal_evolves p (p\<lparr>sp_superseded_at := t\<rparr>)"
  "decision_evolves d (d\<lparr>pd_superseded_at := t\<rparr>)"
  by (auto simp: proposal_evolves_def decision_evolves_def)

lemma evolve_reflp [simp]: "reflp case_evolves" "reflp proposal_evolves" "reflp decision_evolves" "reflp approval_evolves"
  "reflp action_evolves"
  by (auto intro: reflpI)

lemma case_evolves_trans: "case_evolves a b \<Longrightarrow> case_evolves b c \<Longrightarrow> case_evolves a c"
  unfolding case_evolves_def using rtranclp_trans by fastforce

lemma evolve_transp [simp]: "transp case_evolves" "transp proposal_evolves" "transp decision_evolves"
  "transp approval_evolves" "transp action_evolves"
proof -
  show "transp case_evolves" by (rule transpI) (rule case_evolves_trans)
  show "transp proposal_evolves" by (rule transpI) (auto simp: proposal_evolves_def)
  show "transp decision_evolves" by (rule transpI) (auto simp: decision_evolves_def)
  show "transp approval_evolves" by (rule transpI) (auto simp: approval_evolves_def)
  show "transp action_evolves" by (rule transpI) (auto simp: action_evolves_def)
qed

lemma case_evolves_state: "can_transition (pc_current_state c) s \<Longrightarrow> case_evolves c (c\<lparr>pc_current_state := s\<rparr>)"
  by (simp add: case_evolves_def)

lemma logs_kept_trans: "logs_kept a b \<Longrightarrow> logs_kept b c \<Longrightarrow> logs_kept a c"
  unfolding logs_kept_def
  by (elim conjE, intro conjI) (erule (1) prefix_order.trans ledger_kept_trans)+

lemma rows_kept_trans: "rows_kept a b \<Longrightarrow> rows_kept b c \<Longrightarrow> rows_kept a c"
  unfolding rows_kept_def by (meson evolve_transp rows_evolve_trans)

lemma untouched_trans: "untouched S a b \<Longrightarrow> untouched S b c \<Longrightarrow> untouched S a c"
  by (simp add: untouched_def)

lemma evolves_trans [trans]: "evolves S a b \<Longrightarrow> evolves S b c \<Longrightarrow> evolves S a c"
  unfolding evolves_def using logs_kept_trans rows_kept_trans untouched_trans by blast

lemma evolves_mono: "evolves S a b \<Longrightarrow> S \<subseteq> S' \<Longrightarrow> evolves S' a b"
  unfolding evolves_def untouched_def by blast

lemmas find_row_defs = find_case_def find_proposal_def find_decision_def find_approval_def find_action_def

lemma same_case_rows: "db_cases d' = db_cases d \<Longrightarrow> rows_evolve find_case case_evolves d d'"
  by (rule rows_evolve_same) (simp_all add: find_case_def)

lemma same_proposal_rows: "db_proposals d' = db_proposals d \<Longrightarrow> rows_evolve find_proposal proposal_evolves d d'"
  by (rule rows_evolve_same) (simp_all add: find_proposal_def)

lemma same_decision_rows: "db_decisions d' = db_decisions d \<Longrightarrow> rows_evolve find_decision decision_evolves d d'"
  by (rule rows_evolve_same) (simp_all add: find_decision_def)

lemma same_approval_rows: "db_approvals d' = db_approvals d \<Longrightarrow> rows_evolve find_approval approval_evolves d d'"
  by (rule rows_evolve_same) (simp_all add: find_approval_def)

lemma same_action_rows: "db_actions d' = db_actions d \<Longrightarrow> rows_evolve find_action action_evolves d d'"
  by (rule rows_evolve_same) (simp_all add: find_action_def)

lemmas same_rows = same_case_rows same_proposal_rows same_decision_rows same_approval_rows same_action_rows

text \<open>One table at a time.\<close>

lemma evolves_events: "only_events_added db db' \<Longrightarrow> evolves S db db'"
  by (auto simp: only_events_added_def evolves_def logs_kept_def rows_kept_def untouched_def intro: same_rows ledger_kept_same)

lemma evolves_refl [simp, intro]: "evolves S db db"
  by (rule evolves_events) simp

lemma evolves_cases:
  "rows_evolve find_case case_evolves db (db\<lparr>db_cases := x\<rparr>) \<Longrightarrow> CaseRows \<in> S \<Longrightarrow>
     NewCases \<in> S \<or> map pc_id x = map pc_id (db_cases db) \<Longrightarrow> evolves S db (db\<lparr>db_cases := x\<rparr>)"
  by (auto simp: evolves_def logs_kept_def rows_kept_def untouched_def intro: same_rows ledger_kept_same)

lemma evolves_proposals:
  "rows_evolve find_proposal proposal_evolves db (db\<lparr>db_proposals := x\<rparr>) \<Longrightarrow> ProposalRows \<in> S \<Longrightarrow>
     evolves S db (db\<lparr>db_proposals := x\<rparr>)"
  by (auto simp: evolves_def logs_kept_def rows_kept_def untouched_def intro: same_rows ledger_kept_same)

lemma evolves_decisions:
  "rows_evolve find_decision decision_evolves db (db\<lparr>db_decisions := x\<rparr>) \<Longrightarrow> DecisionRows \<in> S \<Longrightarrow>
     evolves S db (db\<lparr>db_decisions := x\<rparr>)"
  by (auto simp: evolves_def logs_kept_def rows_kept_def untouched_def intro: same_rows ledger_kept_same)

lemma evolves_approvals:
  "rows_evolve find_approval approval_evolves db (db\<lparr>db_approvals := x\<rparr>) \<Longrightarrow> ApprovalRows \<in> S \<Longrightarrow>
     NewApprovals \<in> S \<or> map ar_id x = map ar_id (db_approvals db) \<Longrightarrow>
     evolves S db (db\<lparr>db_approvals := x\<rparr>)"
  by (auto simp: evolves_def logs_kept_def rows_kept_def untouched_def intro: same_rows ledger_kept_same)

lemma evolves_actions:
  "rows_evolve find_action action_evolves db (db\<lparr>db_actions := x\<rparr>) \<Longrightarrow> ActionRows \<in> S \<Longrightarrow>
     NewActions \<in> S \<or> map ra_id x = map ra_id (db_actions db) \<Longrightarrow>
     evolves S db (db\<lparr>db_actions := x\<rparr>)"
  by (auto simp: evolves_def logs_kept_def rows_kept_def untouched_def intro: same_rows ledger_kept_same)

lemma evolves_outcomes:
  "prefix (db_observations db) os \<Longrightarrow> prefix (db_attributions db) as \<Longrightarrow> OutcomeRows \<in> S \<Longrightarrow>
     evolves S db (db\<lparr>db_observations := os, db_attributions := as\<rparr>)"
  by (auto simp: evolves_def logs_kept_def rows_kept_def untouched_def intro: same_rows ledger_kept_same)

lemma evolves_ledger:
  assumes "ledger_kept db db'" "db' = db\<lparr>db_webhook_events := x\<rparr>"
    "NewEvents \<in> S \<or> map we_id x = map we_id (db_webhook_events db)"
  shows "evolves S db db'"
  using assms by (auto simp: evolves_def logs_kept_def rows_kept_def untouched_def intro: same_rows)

lemma evolves_save_case:
  "find_case (pc_id c') db = Some c \<Longrightarrow> case_evolves c c' \<Longrightarrow> CaseRows \<in> S \<Longrightarrow> evolves S db (save_case c' db)"
  using cases_table.save_evolves [of c' db c case_evolves] by (auto simp: save_case_def row_save_keys intro: evolves_cases)

lemma evolves_add_case: "CaseRows \<in> S \<Longrightarrow> NewCases \<in> S \<Longrightarrow> evolves S db (add_case c db)"
  using cases_table.add_evolves [of case_evolves db c] by (auto simp: add_case_def intro: evolves_cases)

lemma evolves_save_proposal:
  "find_proposal (sp_id p') db = Some p \<Longrightarrow> proposal_evolves p p' \<Longrightarrow> ProposalRows \<in> S \<Longrightarrow> evolves S db (save_proposal p' db)"
  using proposals_table.save_evolves [of p' db p proposal_evolves] by (auto simp: save_proposal_def intro: evolves_proposals)

lemma evolves_add_proposal: "ProposalRows \<in> S \<Longrightarrow> evolves S db (add_proposal p db)"
  using proposals_table.add_evolves [of proposal_evolves db p] by (auto simp: add_proposal_def intro: evolves_proposals)

lemma evolves_save_decision:
  "find_decision (pd_id d') db = Some d \<Longrightarrow> decision_evolves d d' \<Longrightarrow> DecisionRows \<in> S \<Longrightarrow> evolves S db (save_decision d' db)"
  using decisions_table.save_evolves [of d' db d decision_evolves] by (auto simp: save_decision_def intro: evolves_decisions)

lemma evolves_add_decision: "DecisionRows \<in> S \<Longrightarrow> evolves S db (add_decision d db)"
  using decisions_table.add_evolves [of decision_evolves db d] by (auto simp: add_decision_def intro: evolves_decisions)

lemma evolves_save_approval:
  "find_approval (ar_id a') db = Some a \<Longrightarrow> approval_evolves a a' \<Longrightarrow> ApprovalRows \<in> S \<Longrightarrow> evolves S db (save_approval a' db)"
  using approvals_table.save_evolves [of a' db a approval_evolves] by (auto simp: save_approval_def row_save_keys intro: evolves_approvals)

lemma evolves_add_approval: "ApprovalRows \<in> S \<Longrightarrow> NewApprovals \<in> S \<Longrightarrow> evolves S db (add_approval a db)"
  using approvals_table.add_evolves [of approval_evolves db a] by (auto simp: add_approval_def intro: evolves_approvals)

lemma evolves_save_action:
  "find_action (ra_id r') db = Some r \<Longrightarrow> action_evolves r r' \<Longrightarrow> ActionRows \<in> S \<Longrightarrow> evolves S db (save_action r' db)"
  using actions_table.save_evolves [of r' db r action_evolves] by (auto simp: save_action_def row_save_keys intro: evolves_actions)

lemma evolves_add_action: "ActionRows \<in> S \<Longrightarrow> NewActions \<in> S \<Longrightarrow> evolves S db (add_action r db)"
  using actions_table.add_evolves [of action_evolves db r] by (auto simp: add_action_def intro: evolves_actions)

lemma evolves_transaction:
  assumes "\<And>r db'. m = Inr (r, db') \<Longrightarrow> evolves S db db'"
  shows "evolves S db (snd (transaction db m))"
  using assms by (cases m) (auto simp: transaction_def split: prod.splits)

text \<open>A transaction that writes its tables, appends audit events and then writes the case.\<close>

lemma evolves_case_last:
  assumes "evolves S db db1" "only_events_added db1 db2" "find_case (pc_id c) db = Some c" "db_cases db1 = db_cases db"
    "pc_id c' = pc_id c" "case_evolves c c'" "CaseRows \<in> S"
  shows "evolves S db (save_case c' db2)"
proof -
  have "find_case (pc_id c') db2 = Some c"
    using assms(2-5) by (simp add: find_case_def only_events_addedD)
  from evolves_save_case [OF this assms(6,7)] evolves_events [OF assms(2)] assms(1) show ?thesis
    using evolves_trans by blast
qed

section \<open>Each transaction keeps the past\<close>

lemma evolves_claim_event: "claim_event t k db = (r, db') \<Longrightarrow> evolves S db db'"
  by (frule claim_keeps)
    (auto simp: claim_event_def claim_found_def Let_def save_webhook_def row_save_keys intro: evolves_ledger split: option.splits if_splits prod.splits)

lemma evolves_mark_processed: "mark_processed_without_case claimed why cid t db = (r, db') \<Longrightarrow> evolves S db db'"
  by (frule mark_processed_keeps)
    (auto simp: mark_processed_without_case_def webhook_not_found_def save_webhook_def row_save_keys intro: evolves_ledger
      split: option.splits if_splits)

lemma evolves_mark_failed: "mark_failed claimed m t db = (r, db') \<Longrightarrow> evolves S db db'"
  by (frule mark_failed_keeps)
    (auto simp: mark_failed_def webhook_not_found_def Let_def save_webhook_def row_save_keys intro: evolves_ledger split: option.splits if_splits)

lemma find_append_kept: "find P xs = Some y \<Longrightarrow> find P (xs @ ys) = Some y"
  by (induction xs) (auto split: if_splits)

lemma ledger_kept_append: "ledger_kept db (db\<lparr>db_webhook_events := db_webhook_events db @ es\<rparr>)"
  by (auto simp: ledger_kept_def find_webhook_def row_find_def find_append_kept immutable_event_fields_kept_def)

lemma evolves_ingest:
  assumes "ingest_razorpay_webhook sha hmac json_loads settings new_id t request db = (r, db')" "NewEvents \<in> S"
  shows "evolves S db db'"
proof (cases r)
  case (Inl failure)
  with assms(1) refused_unchanged [of sha hmac json_loads settings new_id t request db] show ?thesis
    by (cases failure) auto
next
  case (Inr resp)
  with assms(1) have run: "ingest_razorpay_webhook sha hmac json_loads settings new_id t request db = (Inr resp, db')" by simp
  from recorded_effect [OF run] show ?thesis
    using assms(2) by (auto simp: ledger_kept_append intro: evolves_ledger split: if_splits)
qed

text \<open>A reconciliation moves the state of its case at most twice.\<close>

lemma detected_moves: "can_transition\<^sup>*\<^sup>* (pc_current_state c) (pc_current_state (detected_to_reconciling c))"
  by (auto simp: detected_to_reconciling_def can_transition_def)

lemma terminal_reached: "g \<in> TERMINAL_CASE_STATES \<Longrightarrow> s \<notin> TERMINAL_CASE_STATES \<Longrightarrow> can_transition s g"
  by (cases s; cases g) (simp_all add: can_transition_def TERMINAL_CASE_STATES_def)

lemma settled_moves:
  assumes "\<And>g. target = Some g \<Longrightarrow> g \<in> TERMINAL_CASE_STATES"
  shows "can_transition\<^sup>*\<^sup>* (pc_current_state c) (pc_current_state (settled_by target t c))"
  using assms by (auto simp: settled_by_def keep_resolved_def terminal_reached split: option.splits)

lemma payment_truth_moves: "case_evolves c (payment_truth ev s t c)"
proof -
  have "can_transition\<^sup>*\<^sup>* (pc_current_state (payment_fields s ev t (detected_to_reconciling c)))
      (pc_current_state (payment_truth ev s t c))"
    unfolding payment_truth_def by (rule settled_moves) (rule targets_terminal)
  then have "can_transition\<^sup>*\<^sup>* (pc_current_state (detected_to_reconciling c)) (pc_current_state (payment_truth ev s t c))"
    by (simp add: payment_fields_def)
  with detected_moves [of c] show ?thesis unfolding case_evolves_def by (auto intro: rtranclp_trans)
qed

lemma subscription_truth_moves: "case_evolves c (subscription_truth u t c)"
proof -
  define c1 where "c1 = (if ss_status u \<in> {''pending'', ''halted''} then detected_to_reconciling c else c)"
  have "can_transition\<^sup>*\<^sup>* (pc_current_state (subscription_fields u t c1)) (pc_current_state (subscription_truth u t c))"
    unfolding subscription_truth_def c1_def by (rule settled_moves) (rule targets_terminal)
  then have "can_transition\<^sup>*\<^sup>* (pc_current_state c1) (pc_current_state (subscription_truth u t c))"
    by (simp add: subscription_fields_def)
  with detected_moves [of c] show ?thesis unfolding case_evolves_def c1_def by (auto intro: rtranclp_trans split: if_splits)
qed

lemma find_by_key: "case_keys cs \<Longrightarrow> c \<in> set cs \<Longrightarrow> row_find pc_id (pc_id c) cs = Some c"
  unfolding row_find_def case_keys_def by (induction cs) auto

lemma reconciled_evolves:
  assumes r: "reconciled kind k ref m cu new_row [] truth reason db (x, db')"
    and keys: "case_keys (db_cases db)" "snd new_row \<notin> pc_id ` set (db_cases db)"
    and truth: "\<And>c. case_evolves c (truth c)" and S: "CaseRows \<in> S" "NewCases \<in> S"
  shows "evolves S db db'"
proof -
  consider "db' = db" | c db1 d where "resolved_row kind k ref m cu new_row [] db c db1" "only_events_added db1 d"
      "db' = save_case (truth c) d"
    using r by (auto simp: reconciled_def)
  then show ?thesis
  proof cases
    case 2
    have k1: "case_keys (db_cases db1)" using resolved_row_keys [OF 2(1)] keys by simp
    have e1: "evolves S db db1"
      using 2(1) evolves_add_case [OF S, of db c] by (auto simp: resolved_row_def)
    have "find_case (pc_id c) d = Some c"
      using 2(1) find_by_key [OF k1] by (simp add: find_case_def only_events_addedD(1) [OF 2(2)] resolved_row_def)
    then have "evolves S d db'"
      using evolves_save_case [of "truth c" d c] truth [of c] S(1) 2(3) by (simp add: case_evolves_def)
    with e1 evolves_events [OF 2(2)] show ?thesis using evolves_trans by blast
  qed simp
qed

lemma evolves_reconcile:
  assumes "case_keys (db_cases db)" "snd new_row \<notin> pc_id ` set (db_cases db)"
    and "(case s of PaymentEntity p \<Rightarrow> reconcile_payment sha t new_row [] ev p db
     | SubscriptionEntity u \<Rightarrow> reconcile_subscription sha t new_row [] ev u db) = Inr (x, db')" and "CaseRows \<in> S" "NewCases \<in> S"
  shows "evolves S db db'"
proof (cases s)
  case (PaymentEntity p)
  with assms show ?thesis
    by (auto elim!: reconcile_payment_InrD intro: reconciled_evolves payment_truth_moves)
next
  case (SubscriptionEntity u)
  with assms show ?thesis
    by (auto elim!: reconcile_subscription_InrD intro: reconciled_evolves subscription_truth_moves)
qed

lemma evolves_save_webhook:
  assumes "find_webhook (we_id e') db = Some e" "immutable_event_fields_kept e e'"
  shows "evolves S db (save_webhook e' db)"
  using assms by (intro evolves_ledger [OF ledger_kept_save]) (auto simp: save_webhook_def row_save_keys)

lemma evolves_apply:
  assumes keys: "case_keys (db_cases db)" "snd new_row \<notin> pc_id ` set (db_cases db)" and S: "CaseRows \<in> S" "NewCases \<in> S"
    and run: "apply_reconciliation sha claimed s t new_row [] t' db = (r, db')"
  shows "evolves S db db'"
proof (cases "\<exists>x. r = Inr x \<and> db' \<noteq> db")
  case True
  then obtain x where x: "r = Inr x" "db' \<noteq> db" by blast
  with run obtain ev cid why db1 where ev: "find_webhook (wc_id claimed) db = Some ev" and
    rec: "(case s of PaymentEntity p \<Rightarrow> reconcile_payment sha t new_row [] ev p db
       | SubscriptionEntity u \<Rightarrow> reconcile_subscription sha t new_row [] ev u db) = Inr ((cid, why), db1)"
    and db': "db' = save_webhook (processed_event t' ev) db1"
    unfolding apply_reconciliation_def
    by (auto simp: transaction_Inr_iff webhook_not_found_def sbind_eq_Inr_iff split: option.splits if_splits)
  have "find_webhook (wc_id claimed) db1 = Some ev" using ev reconcile_webhooks [OF rec] by (simp add: find_webhook_def)
  then have "evolves S db1 db'" unfolding db'
    using webhook_events_table.lookup_key by (intro evolves_save_webhook) (auto simp: find_webhook_def)
  with evolves_reconcile [OF keys rec S] show ?thesis by (rule evolves_trans)
next
  case False
  with run have "db' = db" by (cases r) (auto dest: apply_reconciliation_cases)
  then show ?thesis by simp
qed

lemma evolves_assess:
  assumes "assess_case sha k t db = (r, db')" "CaseRows \<in> S"
  shows "evolves S db db'"
proof -
  have locked: "evolves S db d" if c: "find_case k db = Some c" and run: "assess_locked sha c t db = Inr (x, d)" for c x d
  proof (cases "up_to_date sha c t")
    case True
    with run show ?thesis using assess_locked_up_to_date [OF True, of db] by auto
  next
    case False
    obtain d1 where d: "d = save_case (assessed_row sha c t) d1" "only_events_added db d1"
      using assess_locked_work [OF False, of db] run by auto
    have "case_evolves c (assessed_row sha c t)"
      by (auto simp: case_evolves_def assessed_row_def Let_def can_transition_iff TERMINAL_CASE_STATES_def intro!: r_into_rtranclp)
    moreover have "find_case (pc_id c) db = Some c" using c cases_table.lookup_key by auto
    ultimately show ?thesis
      unfolding d(1) using d(2) assms(2) by (intro evolves_case_last [OF evolves_refl]) auto
  qed
  have "evolves S db (snd (assess_case sha k t db))"
    unfolding assess_case_def by (rule evolves_transaction) (auto split: option.splits intro: locked)
  then show ?thesis using assms(1) by simp
qed

lemma evolves_supersede_proposal:
  assumes "one_current sp_id sp_case_id sp_superseded_at (db_proposals db)" "ProposalRows \<in> S"
  shows "evolves S db (supersede_proposal k t db)"
proof (cases "current_row sp_case_id sp_superseded_at k (db_proposals db)")
  case None
  then show ?thesis by (simp add: supersede_proposal_def end_current_def)
next
  case (Some p)
  then have "find_proposal (sp_id p) db = Some p"
    using proposals_table.lookup_distinct one_currentD(1) [OF assms(1)] proposal_rows.current_Some by blast
  moreover have "supersede_proposal k t db = save_proposal (p\<lparr>sp_superseded_at := Some t\<rparr>) db"
    using Some by (simp add: supersede_proposal_def end_current_def save_proposal_def)
  ultimately show ?thesis using assms(2) evolves_save_proposal [of "p\<lparr>sp_superseded_at := Some t\<rparr>" db p S] by simp
qed

lemma evolves_supersede_decision:
  assumes "one_current pd_id pd_case_id pd_superseded_at (db_decisions db)" "DecisionRows \<in> S"
  shows "evolves S db (supersede_decision k t db)"
proof (cases "current_row pd_case_id pd_superseded_at k (db_decisions db)")
  case None
  then show ?thesis by (simp add: supersede_decision_def end_current_def)
next
  case (Some d)
  then have "find_decision (pd_id d) db = Some d"
    using decisions_table.lookup_distinct one_currentD(1) [OF assms(1)] decision_rows.current_Some by blast
  moreover have "supersede_decision k t db = save_decision (d\<lparr>pd_superseded_at := Some t\<rparr>) db"
    using Some by (simp add: supersede_decision_def end_current_def save_decision_def)
  ultimately show ?thesis using assms(2) evolves_save_decision [of "d\<lparr>pd_superseded_at := Some t\<rparr>" db d S] by simp
qed

lemma evolves_accept:
  assumes one: "one_current sp_id sp_case_id sp_superseded_at (db_proposals db)"
    and "accept_proposal c p t db = Inr (r, db')" "find_case (pc_id c) db = Some c"
    and "pc_current_state c = CaseState.DIAGNOSED \<or> pc_current_state c = CaseState.DECISIONED"
    and "CaseRows \<in> S" "ProposalRows \<in> S"
  shows "evolves S db db'"
proof -
  let ?put = "add_proposal p (supersede_proposal (pc_id c) t db)"
  obtain db2 where d: "db' = save_case (c\<lparr>pc_current_state := CaseState.DECISIONED\<rparr>) db2" "only_events_added ?put db2"
    using accept_proposal_InrE [OF assms(2,4)] by blast
  have put: "evolves S db ?put"
    using evolves_trans [OF evolves_supersede_proposal [OF one] evolves_add_proposal] assms(6) by blast
  have "can_transition (pc_current_state c) CaseState.DECISIONED"
    using assms(4) by (auto simp: can_transition_iff TERMINAL_CASE_STATES_def)
  then show ?thesis
    unfolding d(1) using evolves_case_last [OF put d(2) assms(3)] assms(5) by (simp add: case_evolves_state)
qed

text \<open>A reinstated decision is the one that was superseded, and a new one is added.\<close>

lemma evolves_decision_put:
  assumes one: "one_current pd_id pd_case_id pd_superseded_at (db_decisions db)" and S: "DecisionRows \<in> S"
    and ex: "existing = find_identical_decision (pc_id c) fp db"
  shows "evolves S db (decision_put (pc_id c) t existing (decision_for c p i t new_id existing) db)"
proof (cases existing)
  case None
  with evolves_trans [OF evolves_supersede_decision [OF one S] evolves_add_decision [OF S]] show ?thesis
    by (simp add: decision_put_def)
next
  case (Some e)
  note sup = evolves_supersede_decision [OF one S, of "pc_id c" t]
  have "e \<in> set (db_decisions db)" using ex [symmetric] Some by (auto simp: find_identical_decision_def find_Some_iff)
  then have "find_decision (pd_id e) db = Some e"
    using decisions_table.lookup_distinct one_currentD(1) [OF one] by blast
  then obtain e' where e': "find_decision (pd_id e) (supersede_decision (pc_id c) t db) = Some e'" "decision_evolves e e'"
    using sup rows_evolveD [of find_decision decision_evolves] unfolding evolves_def rows_kept_def by metis
  then have "evolves S (supersede_decision (pc_id c) t db)
      (save_decision (e\<lparr>pd_superseded_at := None\<rparr>) (supersede_decision (pc_id c) t db))"
    using S by (intro evolves_save_decision [of _ _ e']) (auto simp: decision_evolves_def)
  with sup Some show ?thesis by (auto simp: decision_put_def decision_for_def intro: evolves_trans)
qed

lemma evolves_policy:
  assumes one: "one_current pd_id pd_case_id pd_superseded_at (db_decisions db)"
    and "evaluate_policy sha ok k sp t new_id db = (r, db')" "CaseRows \<in> S" "DecisionRows \<in> S"
  shows "evolves S db db'"
proof (cases r)
  case (Inl e)
  with assms(2) have "db' = db" by (auto simp: evaluate_policy_def dest: transaction_Inl_unchanged)
  then show ?thesis by simp
next
  case (Inr x)
  with assms(2) obtain c p i where c: "find_case k db = Some c" "pc_id c = k"
    "evaluate_proposal sha ok c p t new_id db = Inr (x, db')" by (auto elim: evaluate_policy_InrE)
  have persisted: "evolves S db d" if run: "persist_decision ok c p i t new_id existing db = Inr (x, d)"
      and ex: "existing = find_identical_decision (pc_id c) fp db" for i existing fp d
  proof -
    define put where "put = decision_put (pc_id c) t existing (decision_for c p i t new_id existing) db"
    obtain db2 where d: "can_transition (pc_current_state c) (fst (policy_target (decision_for c p i t new_id existing)))"
      "only_events_added put db2"
      "d = save_case (c\<lparr>pc_current_state := fst (policy_target (decision_for c p i t new_id existing))\<rparr>) db2"
      unfolding put_def using run by (elim persist_decision_InrE)
    have "evolves S db put" unfolding put_def by (rule evolves_decision_put [OF one assms(4) ex])
    then show ?thesis
      unfolding d(3) using c d(1) assms(3)
      by (intro evolves_case_last [OF _ d(2)]) (auto simp: put_def intro: case_evolves_state)
  qed
  from c(3) show ?thesis
    by (auto simp: evaluate_proposal_def Let_def intro: persisted [OF _ sym] split: sum.splits option.splits if_splits)
qed

lemma evolves_persist_strategy:
  assumes one: "one_current sp_id sp_case_id sp_superseded_at (db_proposals db)"
    and "persist_locked sha snap mr now t new_id db = (r, db')" "CaseRows \<in> S" "ProposalRows \<in> S"
  shows "evolves S db db'"
proof (cases "\<exists>x. r = Inr x \<and> \<not> sg_idempotent x")
  case True
  then obtain x where "r = Inr x" "\<not> sg_idempotent x" by blast
  with assms(2) obtain c action where c: "find_case (ss_case_id snap) db = Some c" "pc_id c = ss_case_id snap"
    "validate_generation_state c db" "accept_proposal c (build_proposal snap action mr new_id) t db = Inr (x, db')"
    by (auto elim: persist_accepts)
  then show ?thesis using assms(3,4)
    by (intro evolves_accept [OF one c(4)]) (auto simp: validate_generation_state_def split: if_splits)
next
  case False
  with assms(2) have "only_events_added db db'"
    by (auto simp: append_rejected_def persist_locked_def persist_on_case_def Let_def strategy_view_def accept_proposal_def sbind_eq_Inr_iff
        transaction_def split: option.splits sum.splits if_splits prod.splits)
  then show ?thesis by (rule evolves_events)
qed

lemma evolves_generation_failure: "evolves S db (record_generation_failure snap reason db)"
  by (auto simp: record_generation_failure_def append_generation_failure_def intro!: evolves_events split: option.split)

lemma evolves_requested: "ApprovalRows \<in> S \<Longrightarrow> NewApprovals \<in> S \<Longrightarrow> evolves S db (append_approval_audit a (add_approval a db))"
  using evolves_trans [OF evolves_add_approval evolves_events [OF only_events_approval]] .

lemma evolves_request_approval:
  assumes "ensure_approval_request d t new_id db = (r, db')" "ApprovalRows \<in> S" "NewApprovals \<in> S"
  shows "evolves S db db'"
proof -
  have "evolves S db e" if "request_locked d t new_id c db = Inr (x, e)" for c x e
    using that assms(2,3)
    by (auto simp: request_locked_def Let_def sbind_eq_Inr_iff evolves_requested split: option.splits)
  then have "evolves S db (snd (ensure_approval_request d t new_id db))"
    unfolding ensure_approval_request_def
    by (intro evolves_transaction) (auto simp: sbind_eq_Inr_iff split: option.splits)
  then show ?thesis using assms(1) by simp
qed

lemma evolves_decide_approval:
  assumes "decide_approval k decision by note t db = (r, db')" "CaseRows \<in> S" "ApprovalRows \<in> S"
  shows "evolves S db db'"
proof (cases r)
  case (Inl e)
  with assms(1) have "db' = db" by (auto dest: decide_approval_Inl)
  then show ?thesis by simp
next
  case (Inr x)
  with assms(1) have run: "decide_approval k decision by note t db = (Inr x, db')" by simp
  show ?thesis
    using run
  proof (cases rule: decide_approval_InrE)
    case (pending a c operator bounded)
    let ?a = "a\<lparr>ar_status := decision, ar_decided_at := Some t, ar_decided_by := Some operator, ar_decision_note := bounded\<rparr>"
    from pending(6) obtain db2 where d: "pc_current_state c = CaseState.POLICY_VALIDATED" "ar_case_id a = pc_id c"
      "only_events_added (save_approval ?a db) db2"
      "db' = save_case (if decision = ApprovalStatus.REJECTED then c\<lparr>pc_current_state := CaseState.ESCALATED\<rparr> else c) db2"
      by (elim decide_pending_InrE)
    have "find_approval (ar_id ?a) db = Some a" using pending(1) approvals_table.lookup_key by auto
    then have e: "evolves S db (save_approval ?a db)"
      using pending(2) assms(3) by (intro evolves_save_approval) (auto simp: approval_evolves_def)
    have "case_evolves c (if decision = ApprovalStatus.REJECTED then c\<lparr>pc_current_state := CaseState.ESCALATED\<rparr> else c)"
      using d(1) by (auto intro!: case_evolves_state simp: can_transition_iff TERMINAL_CASE_STATES_def)
    then show ?thesis
      unfolding d(4) using pending(3) d(2) assms(2)
      by (intro evolves_case_last [OF e d(3)]) (auto simp: case_evolves_def)
  qed simp
qed

lemma evolves_action_audited:
  "find_action (ra_id r') db = Some r \<Longrightarrow> action_evolves r r' \<Longrightarrow> ActionRows \<in> S \<Longrightarrow>
     evolves S db (append_execution_audit r' e m (save_action r' db))"
  using evolves_trans [OF evolves_save_action evolves_events [OF only_events_execution]] .

lemma evolves_claim_row:
  assumes "claim_row r c t db = (x, db')" "find_action (ra_id r) db = Some r" "ActionRows \<in> S"
  shows "evolves S db db'"
proof (cases "has_fresh_lease r t")
  case True
  with assms(1) show ?thesis by (simp add: claim_row_def)
next
  case False
  then have "db' = append_execution_audit (start_attempt t r) ''RECOVERY_ACTION_STARTED'' [] (save_action (start_attempt t r) db)"
    using assms(1) by (simp add: claim_row_def Let_def)
  moreover have "action_evolves r (start_attempt t r)" by (simp add: action_evolves_def start_attempt_def)
  ultimately show ?thesis using assms(2,3) by (simp add: evolves_action_audited)
qed

lemma action_for_found:
  assumes "find_action_for k db = Some r" "distinct (map ra_id (db_actions db))"
  shows "find_action (ra_id r) db = Some r"
  using assms by (intro actions_table.lookup_distinct) (auto simp: find_action_for_def find_Some_iff)

lemma evolves_claim_current:
  assumes "claim_current sha c p d (find_action_for k db) t record_id db = Inr (x, db')"
    and "distinct (map ra_id (db_actions db))" "find_action record_id db = None" "ActionRows \<in> S" "NewActions \<in> S"
  shows "evolves S db db'"
proof (cases "find_action_for k db")
  case (Some r)
  with assms(1) have "claim_row r c t db = (x, db')"
    by (auto simp: claim_current_def Let_def sbind_eq_Inr_iff split: if_splits)
  from evolves_claim_row [OF this action_for_found [OF Some assms(2)] assms(4)] show ?thesis .
next
  case None
  with assms(1) obtain i r where r: "build_record sha c p d (find_approval_for (pd_id d) db) i t record_id = Inr r"
    "claim_row r c t (append_execution_audit r ''RECOVERY_ACTION_PREPARED'' [] (add_action r db)) = (x, db')"
    by (auto simp: claim_current_def Let_def sbind_eq_Inr_iff split: if_splits)
  have id: "ra_id r = record_id" by (rule build_record_InrD(1) [OF r(1)])
  let ?added = "append_execution_audit r ''RECOVERY_ACTION_PREPARED'' [] (add_action r db)"
  have "find_action (ra_id r) (add_action r db) = Some r"
    using assms(3) id actions_table.lookup_added by blast
  then have "find_action (ra_id r) ?added = Some r"
    by (simp add: find_action_def only_events_addedD(6) [OF only_events_execution])
  from evolves_claim_row [OF r(2) this assms(4)] have "evolves S ?added db'" .
  moreover have "evolves S db ?added"
    using evolves_trans [OF evolves_add_action [OF assms(4,5)] evolves_events [OF only_events_execution]] .
  ultimately show ?thesis by (rule evolves_trans [rotated])
qed

lemma evolves_prepare:
  assumes "prepare_and_claim sha k t record_id db = (r, db')"
    and "distinct (map ra_id (db_actions db))" "find_action record_id db = None" "ActionRows \<in> S" "NewActions \<in> S"
  shows "evolves S db db'"
proof -
  have "evolves S db d" if "prepare_locked sha c t record_id db = Inr (x, d)" for c x d
  proof -
    have locked: "d = db \<or> claim_current sha c p dn (find_action_for (pd_id dn) db) t record_id db = Inr (x, d)"
      if "load_current_proposal (pc_id c) db = Inr p" "load_current_decision (pc_id c) db = Inr dn" for p dn
      using that \<open>prepare_locked sha c t record_id db = Inr (x, d)\<close>
      by (cases "find_action_for (pd_id dn) db") (auto simp: prepare_locked_def split: if_splits)
    obtain p dn where "load_current_proposal (pc_id c) db = Inr p" "load_current_decision (pc_id c) db = Inr dn"
      using \<open>prepare_locked sha c t record_id db = Inr (x, d)\<close> unfolding prepare_locked_def sbind_eq_Inr_iff by blast
    from locked [OF this]
    show ?thesis using evolves_claim_current [OF _ assms(2-5)] by blast
  qed
  then have "evolves S db (snd (prepare_and_claim sha k t record_id db))"
    unfolding prepare_and_claim_def by (intro evolves_transaction) (auto simp: sbind_eq_Inr_iff)
  then show ?thesis using assms(1) by simp
qed

text \<open>The three transactions that finish a claim. A row found under the claim has the claim's id.\<close>

lemma projection_kept [simp]:
  "ra_approval_request_id (persist_external_projection r s) = ra_approval_request_id r"
  "ra_idempotency_key (persist_external_projection r s) = ra_idempotency_key r"
  "ra_request_fingerprint (persist_external_projection r s) = ra_request_fingerprint r"
  by (simp_all add: persist_external_projection_def)

lemma evolves_claimed:
  assumes "\<And>c r x d. find_case (pc_id c) db = Some c \<Longrightarrow> find_action (ra_id r) db = Some r \<Longrightarrow> body c r = Inr (x, d) \<Longrightarrow>
      evolves S db d"
  shows "evolves S db (snd (transaction db (with_claim claim db body)))"
    and "evolves S db (snd (transaction db (sbind (require_execution_clock t) (\<lambda>_. with_claim claim db body))))"
proof -
  have w: "evolves S db d" if w: "with_claim claim db body = Inr (x, d)" for x d
  proof -
    obtain c r where c: "find_case (xc_case_id claim) db = Some c" "find_action (xc_recovery_action_id claim) db = Some r"
      "body c r = Inr (x, d)" using w by (rule with_claim_InrE)
    moreover have "find_case (pc_id c) db = Some c" using c(1) cases_table.lookup_key by auto
    moreover have "find_action (ra_id r) db = Some r" using c(2) actions_table.lookup_key by auto
    ultimately show ?thesis using assms by blast
  qed
  then show "evolves S db (snd (transaction db (with_claim claim db body)))" by (rule evolves_transaction)
  show "evolves S db (snd (transaction db (sbind (require_execution_clock t) (\<lambda>_. with_claim claim db body))))"
    by (rule evolves_transaction) (auto simp: sbind_eq_Inr_iff intro: w)
qed

lemma evolves_problem:
  assumes "finalize_provider_problem claim problem t db = (r, db')" "ActionRows \<in> S"
  shows "evolves S db db'"
proof -
  have "evolves S db (snd (finalize_provider_problem claim problem t db))"
    unfolding finalize_provider_problem_def
    by (rule evolves_claimed(2)) (use assms(2) in \<open>auto simp: Let_def action_evolves_def intro!: evolves_action_audited split: if_splits\<close>)
  with assms(1) show ?thesis by simp
qed

lemma evolves_compensation:
  assumes "finalize_compensation claim s outcome db = (r, db')" "ActionRows \<in> S"
  shows "evolves S db db'"
proof -
  have "evolves S db (snd (finalize_compensation claim s outcome db))"
    unfolding finalize_compensation_def
    by (rule evolves_claimed(1))
      (use assms(2) in \<open>auto simp: Let_def action_evolves_def persist_external_projection_def
        intro!: evolves_action_audited split: sum.splits\<close>)
  with assms(1) show ?thesis by simp
qed

text \<open>The case is moved after the row was written.\<close>

lemma evolves_moved:
  assumes "find_action (ra_id r') db = Some r" "action_evolves r r'" "find_case (pc_id c) db = Some c"
    and "only_events_added (save_action r' db) db2" "case_evolves c c'" "ActionRows \<in> S" "CaseRows \<in> S"
  shows "evolves S db (save_case c' db2)"
  using evolves_case_last [OF evolves_save_action [OF assms(1,2,6)] assms(4,3) _ _ assms(5,7)] assms(5)
  by (simp add: case_evolves_def)

lemma await_outcome_Inr:
  assumes "pc_current_state c = CaseState.POLICY_VALIDATED" "await_outcome r (c, db) = Inr (c', db')"
  shows "c' = c\<lparr>pc_current_state := CaseState.WAITING_FOR_OUTCOME\<rparr>" "only_events_added db db'"
  using await_outcome_total [OF assms(1), of r db] assms(2) by auto

lemma validated_awaits:
  "pc_current_state c = CaseState.POLICY_VALIDATED \<Longrightarrow> can_transition\<^sup>*\<^sup>* (pc_current_state c) CaseState.WAITING_FOR_OUTCOME"
  by (rule rtranclp_trans [of _ _ CaseState.ACTIONED]) (auto simp: can_transition_def)

lemma audits_added:
  "only_events_added d (append_execution_audit r e m (if b then append_execution_audit r e' m' d else d))"
  using only_events_added_trans [OF only_events_execution only_events_execution] by simp

lemma evolves_success:
  assumes "finalize_external_success sha claim s adopted t db = (r, db')" "ActionRows \<in> S" "CaseRows \<in> S"
  shows "evolves S db db'"
proof -
  have "evolves S db (snd (finalize_external_success sha claim s adopted t db))"
    unfolding finalize_external_success_def
  proof (rule evolves_claimed(2), unfold Let_def, goal_cases)
    case (1 c r x d)
    show ?case
    proof (cases "post_request_context_is_current sha c (persist_external_projection r s) t db")
      case False
      with 1 assms(2) show ?thesis
        by (auto simp: action_evolves_def intro!: evolves_action_audited)
    next
      case True
      let ?r = "(persist_external_projection r s)\<lparr>ra_execution_status := RecoveryExecutionStatus.SUCCEEDED,
        ra_executed_at := Some t, ra_failed_at := None, ra_error_code := None\<rparr>"
      from True 1(3) obtain c' d1 where a: "await_outcome ?r (count_attempt (ra_action ?r) c, save_action ?r db) = Inr (c', d1)"
        and d: "d = save_case c' (append_execution_audit ?r ''RECOVERY_ACTION_SUCCEEDED''
            (state_metadata (pc_current_state c) (pc_current_state c'))
            (if adopted then append_execution_audit ?r ''RECOVERY_ACTION_ADOPTED_EXISTING'' [] d1 else d1))"
        by (auto simp: sbind_eq_Inr_iff)
      have v: "pc_current_state c = CaseState.POLICY_VALIDATED" using context_current_state [OF True] .
      note w = await_outcome_Inr [OF _ a]
      have "case_evolves c c'" using w(1) v validated_awaits [OF v]
        by (simp add: case_evolves_def count_attempt_def Let_def)
      moreover obtain d2 where "d = save_case c' d2" "only_events_added (save_action ?r db) d2"
        using d only_events_added_trans [OF w(2) audits_added] v by simp
      moreover have "action_evolves r ?r" by (simp add: action_evolves_def persist_external_projection_def)
      ultimately show ?thesis using 1(1,2) assms(2,3) by (auto intro!: evolves_moved [of ?r db r c])
    qed
  qed
  with assms(1) show ?thesis by simp
qed

lemma move_for_action_Inr:
  assumes "move_for_action r target reason (c, db) = Inr (c', db')"
  shows "can_transition (pc_current_state c) target" "c' = c\<lparr>pc_current_state := target\<rparr>" "only_events_added db db'"
  using assms unfolding move_for_action_def by (auto dest: move_case_InrD)

lemma evolves_finish_internal:
  assumes "finish_internal r c t db = Inr (x, db')" "pc_current_state c = CaseState.POLICY_VALIDATED"
    and "find_action (ra_id r) db = Some r" "find_case (pc_id c) db = Some c" "ActionRows \<in> S" "CaseRows \<in> S"
  shows "evolves S db db'"
proof -
  define r1 where "r1 = r\<lparr>ra_execution_status := RecoveryExecutionStatus.SUCCEEDED, ra_executed_at := Some t\<rparr>"
  define re where "re = (case find_proposal (ra_strategy_proposal_id r) db of None \<Rightarrow> None
    | Some p \<Rightarrow> sp_re_evaluate_after_seconds p)"
  define r' where "r' = (if ra_action r = RecoveryAction.WAIT then
      (case re of None \<Rightarrow> r1 | Some n \<Rightarrow> r1\<lparr>ra_next_evaluation_at := Some (dt_add t (seconds n))\<rparr>) else r1)"
  have r: "action_evolves r r'" by (simp add: action_evolves_def r'_def r1_def split: option.split)
  from assms(1) obtain c' d1 where m: "(if ra_action r = RecoveryAction.WAIT then await_outcome r' (c, save_action r' db)
      else if ra_action r = RecoveryAction.ESCALATE_TO_HUMAN then
        move_for_action r' CaseState.ESCALATED ''RECOVERY_ACTION_ESCALATED_TO_HUMAN'' (c, save_action r' db)
      else move_for_action r' CaseState.EXHAUSTED ''RECOVERY_NO_ACTION_SELECTED'' (c, save_action r' db)) = Inr (c', d1)"
    and d: "db' = save_case c' (append_execution_audit r' ''RECOVERY_ACTION_SUCCEEDED''
               (state_metadata (pc_current_state c) (pc_current_state c')) d1)"
    unfolding finish_internal_def Let_def r1_def [symmetric] re_def [symmetric] r'_def [symmetric] sbind_eq_Inr_iff by auto
  have awaited: "case_evolves c c' \<and> only_events_added (save_action r' db) d1"
    if "await_outcome r' (c, save_action r' db) = Inr (c', d1)"
    using await_outcome_Inr [OF assms(2) that] validated_awaits [OF assms(2)] by (simp add: case_evolves_def)
  have moved: "case_evolves c c' \<and> only_events_added (save_action r' db) d1"
    if "move_for_action r' target reason (c, save_action r' db) = Inr (c', d1)" for target reason
    using move_for_action_Inr [OF that] case_evolves_state by simp
  have c': "case_evolves c c'" "only_events_added (save_action r' db) d1"
    using m awaited moved [of CaseState.ESCALATED] moved [of CaseState.EXHAUSTED] by (simp_all split: if_splits)
  show ?thesis
    unfolding d using assms(3-6) r c'(1) only_events_added_trans [OF c'(2) only_events_execution]
    by (intro evolves_moved [of r' db r c]) (simp_all add: action_evolves_def)
qed

lemma evolves_internal:
  assumes "execute_internal sha claim t db = (r, db')" "ActionRows \<in> S" "CaseRows \<in> S"
  shows "evolves S db db'"
proof -
  have "evolves S db (snd (execute_internal sha claim t db))"
    unfolding execute_internal_def
  proof (rule evolves_claimed(2), goal_cases)
    case (1 c r x d)
    let ?stop = "r\<lparr>ra_execution_status := RecoveryExecutionStatus.FAILED, ra_failed_at := Some t,
      ra_error_code := Some ''EXECUTOR_ACTION_NOT_IMPLEMENTED''\<rparr>"
    consider (final) "ra_execution_status r \<in> FINAL_EXECUTION_STATUSES"
      | (stale) "ra_execution_status r \<notin> FINAL_EXECUTION_STATUSES" "\<not> post_request_context_is_current sha c r t db"
      | (unsupported) "ra_execution_status r \<notin> FINAL_EXECUTION_STATUSES" "post_request_context_is_current sha c r t db"
          "ra_action r \<in> UNSUPPORTED_ACTIONS"
      | (internal) "ra_execution_status r \<notin> FINAL_EXECUTION_STATUSES" "post_request_context_is_current sha c r t db"
          "ra_action r \<notin> UNSUPPORTED_ACTIONS" by blast
    then show ?case
    proof cases
      case final
      with 1(3) show ?thesis by simp
    next
      case stale
      with 1(2,3) assms(2) show ?thesis by (auto simp: action_evolves_def Let_def intro!: evolves_action_audited)
    next
      case unsupported
      with 1(3) obtain c' d2 where
        m: "move_for_action ?stop CaseState.ESCALATED ''EXECUTOR_ACTION_NOT_IMPLEMENTED''
          (c, append_execution_audit ?stop ''EXECUTOR_ACTION_NOT_IMPLEMENTED'' [] (save_action ?stop db)) = Inr (c', d2)"
        "d = save_case c' d2" by (auto simp: Let_def sbind_eq_Inr_iff)
      note mv = move_for_action_Inr [OF m(1)]
      have "only_events_added (save_action ?stop db) d2" by (rule only_events_added_trans [OF only_events_execution mv(3)])
      moreover have "case_evolves c c'" using case_evolves_state [OF mv(1)] mv(2) by simp
      ultimately show ?thesis
        unfolding m(2) using 1(1,2) assms(2,3) by (intro evolves_moved [of ?stop db r c]) (simp_all add: action_evolves_def)
    next
      case internal
      with 1(3) have "finish_internal r c t db = Inr (x, d)" by (simp split: if_splits)
      from evolves_finish_internal [OF this context_current_state [OF internal(2)] 1(2,1) assms(2,3)] show ?thesis .
    qed
  qed
  with assms(1) show ?thesis by simp
qed

text \<open>An observation, with a fresh id.\<close>

lemma settled_case_evolves: "case_evolves c (settled_case c status t)"
  by (cases status) (auto simp: settled_case_def case_evolves_def can_transition_iff TERMINAL_CASE_STATES_def
      intro!: r_into_rtranclp)

lemma evolves_observation:
  assumes "persist_observation sha claim s source t created ids [] db = (res, db')"
    and "fst ids \<notin> ro_id ` set (db_observations db)" "CaseRows \<in> S" "ActionRows \<in> S" "OutcomeRows \<in> S"
  shows "evolves S db db'"
proof (cases "\<exists>r. res = Inr r \<and> \<not> or_idempotent r")
  case True
  then obtain r where r: "persist_observation sha claim s source t created ids [] db = (Inr r, db')" "\<not> or_idempotent r"
    using assms(1) by blast
  from persist_observation_InrE [OF r] obtain action c e fp where
    found: "find_action (ee_recovery_action_id (ob_expected claim)) db = Some action" "find_case (ob_case_id claim) db = Some c"
    and rec: "record_observation claim c action e s fp source t created ids [] db = Inr (r, db')" by metis
  have a: "find_action (ra_id action) db = Some action" and c: "find_case (pc_id c) db = Some c"
    using found actions_table.lookup_key cases_table.lookup_key by auto
  define k where "k = protect_existing c action (classify_payment_link_outcome e s) (attribution_for_action (ra_id action) db) db"
  define ob where "ob = build_observation claim c action e s k fp source t created (fst ids)"
  define action' where "action' = action\<lparr>ra_external_status := Some (ps_status s)\<rparr>"
  define db1 where "db1 = save_action action' (add_observation ob db)"
  from record_observation_InrE [OF rec, folded k_def, folded ob_def action'_def, folded db1_def] obtain ob' k' attribution db3 db4 where
    at: "attribute claim ob e s k (attribution_for_action (ra_id action) db) (snd ids) (db1\<lparr>db_attributions := db_attributions db1 @ []\<rparr>) =
      (ob', k', attribution, db3)"
    and ev: "only_events_added db3 db4" and db': "db' = save_case (settled_case c (oc_outcome_status k') t) db4" by metis
  have new: "ro_id ob \<notin> ro_id ` set (db_observations db)" using assms(2) by (simp add: ob_def build_observation_def)
  have "\<exists>os as. db3 = (save_action action' db)\<lparr>db_observations := db_observations db @ os, db_attributions := db_attributions db @ as\<rparr>"
    using at
  proof (cases rule: attribute_cases)
    case kept
    then show ?thesis
      by (intro exI [of _ "[ob]"] exI [of _ "[]"]) (simp add: db1_def save_action_def add_observation_def row_add_def)
  next
    case (attributed a)
    then show ?thesis
      by (intro exI [of _ "[ob]"] exI [of _ "[a]"])
        (simp add: db1_def save_action_def add_observation_def add_attribution_def row_add_def)
  next
    case conflict
    then show ?thesis using row_save_added [OF new, of ob']
      by (intro exI [of _ "[ob']"] exI [of _ "[]"])
        (simp add: db1_def save_action_def add_observation_def save_observation_def row_add_def)
  qed
  then obtain os as where db3: "db3 = (save_action action' db)\<lparr>db_observations := db_observations db @ os,
    db_attributions := db_attributions db @ as\<rparr>" by blast
  have "evolves S db (save_action action' db)"
    using a assms(4) by (intro evolves_save_action [of action' db action]) (simp_all add: action'_def action_evolves_def)
  moreover have "evolves S (save_action action' db) db3"
    unfolding db3 using assms(5) by (intro evolves_outcomes) simp_all
  ultimately have "evolves S db db3" by (rule evolves_trans)
  moreover have "db_cases db3 = db_cases db" by (simp add: db3)
  ultimately show ?thesis
    unfolding db' using c ev assms(3) settled_case_evolves
    by (intro evolves_case_last [of S db db3 db4 c]) simp_all
next
  case False
  with assms(1) have "db' = db" using persist_idempotent_unchanged
    by (cases res) (auto simp: persist_observation_def dest: transaction_Inl_unchanged)
  then show ?thesis by simp
qed

end
