(* ===== verification/Arc_System.thy ===== *)
theory Arc_System
  imports Arc_History
begin

text \<open>
  The composition of the services. Every service commits transactions over the shared tables, and
  transactions of different services and workers interleave in any order: \<open>arc_step\<close> has a rule for
  each transaction, with any arguments, and \<open>arc_step\<close> repeated is a run of the system. New ids are
  fresh, as version 4 UUIDs are taken to be; \<open>configure\<close> is an operator who edits the policies.
  What holds of every state that runs reach is \<open>system_ok\<close>.
\<close>

section \<open>Runs\<close>

inductive arc_step :: "(string \<Rightarrow> string) \<Rightarrow> arc_db \<Rightarrow> arc_db \<Rightarrow> bool" for sha :: "string \<Rightarrow> string" where
  configure: "arc_step sha db (db\<lparr>db_policies := ps\<rparr>)"
| ingest: "new_id \<notin> we_id ` set (db_webhook_events db) \<Longrightarrow>
    ingest_razorpay_webhook sha hmac json_loads settings new_id t request db = (r, db') \<Longrightarrow> arc_step sha db db'"
| claim_event: "claim_event t k db = (r, db') \<Longrightarrow> arc_step sha db db'"
| finish_event: "mark_processed_without_case claimed why cid t db = (r, db') \<Longrightarrow> arc_step sha db db'"
| fail_event: "mark_failed claimed m t db = (r, db') \<Longrightarrow> arc_step sha db db'"
| reconcile: "snd new_row \<notin> pc_id ` set (db_cases db) \<Longrightarrow>
    apply_reconciliation sha claimed s t new_row [] t' db = (r, db') \<Longrightarrow> arc_step sha db db'"
| assess: "assess_case sha k t db = (r, db') \<Longrightarrow> arc_step sha db db'"
| propose: "find_proposal new_id db = None \<Longrightarrow>
    persist_locked sha snap mr now t new_id db = (r, db') \<Longrightarrow> arc_step sha db db'"
| fail_proposal: "arc_step sha db (record_generation_failure snap reason db)"
| evaluate: "find_decision new_id db = None \<Longrightarrow>
    evaluate_policy sha flush_ok k sp t new_id db = (r, db') \<Longrightarrow> arc_step sha db db'"
| request: "find_approval new_id db = None \<Longrightarrow>
    ensure_approval_request k t new_id db = (r, db') \<Longrightarrow> arc_step sha db db'"
| decide: "decide_approval k decision by note t db = (r, db') \<Longrightarrow> arc_step sha db db'"
| prepare: "find_action new_id db = None \<Longrightarrow>
    prepare_and_claim sha k t new_id db = (r, db') \<Longrightarrow> arc_step sha db db'"
| internal: "execute_internal sha claim t db = (r, db') \<Longrightarrow> arc_step sha db db'"
| problem: "finalize_provider_problem claim problem t db = (r, db') \<Longrightarrow> arc_step sha db db'"
| success: "finalize_external_success sha claim link adopted t db = (r, db') \<Longrightarrow> arc_step sha db db'"
| compensate: "finalize_compensation claim link outcome db = (r, db') \<Longrightarrow> arc_step sha db db'"
| observe: "fst ids \<notin> ro_id ` set (db_observations db) \<Longrightarrow>
    persist_observation sha observed link source t created ids [] db = (r, db') \<Longrightarrow> arc_step sha db db'"

section \<open>What holds in every state\<close>

text \<open>
  An action is backed by the rows it was made for: its case, a proposal of this action for the
  case, and a decision on this proposal that authorizes it, or that demands an approval which was
  given. An attribution belongs to a payment link action of its case.
\<close>

definition decision_permits :: "arc_db \<Rightarrow> policy_decision \<Rightarrow> bool" where
  "decision_permits db d \<longleftrightarrow> pd_result d = PolicyDecisionResult.AUTHORIZED \<or>
     pd_result d = PolicyDecisionResult.REQUIRES_APPROVAL \<and> (\<exists>k a. find_approval k db = Some a \<and>
       ar_policy_decision_id a = pd_id d \<and> ar_status a = ApprovalStatus.APPROVED)"

definition action_backed :: "arc_db \<Rightarrow> recovery_action \<Rightarrow> bool" where
  "action_backed db r \<longleftrightarrow> find_case (ra_case_id r) db \<noteq> None \<and>
     (\<exists>p d. find_proposal (ra_strategy_proposal_id r) db = Some p \<and> find_decision (ra_policy_decision_id r) db = Some d \<and>
       sp_case_id p = ra_case_id r \<and> sp_action p = ra_action r \<and> pd_case_id d = ra_case_id r \<and>
       pd_strategy_proposal_id d = sp_id p \<and> decision_permits db d)"

definition attribution_backed :: "arc_db \<Rightarrow> recovery_attribution \<Rightarrow> bool" where
  "attribution_backed db a \<longleftrightarrow> (\<exists>r. find_action (at_recovery_action_id a) db = Some r \<and> ra_case_id r = at_case_id a \<and>
     ra_action r = RecoveryAction.CREATE_RECOVERY_LINK)"

definition actions_ok :: "arc_db \<Rightarrow> bool" where
  "actions_ok db \<longleftrightarrow> distinct (map ra_id (db_actions db)) \<and> distinct (map ra_policy_decision_id (db_actions db)) \<and>
     (\<forall>r \<in> set (db_actions db). action_backed db r)"

definition approvals_ok :: "arc_db \<Rightarrow> bool" where
  "approvals_ok db \<longleftrightarrow> distinct (map ar_id (db_approvals db)) \<and> distinct (map ar_policy_decision_id (db_approvals db))"

definition outcomes_ok :: "arc_db \<Rightarrow> bool" where
  "outcomes_ok db \<longleftrightarrow> attributions_distinct (db_attributions db) \<and> outcome_ledger db \<and>
     (\<forall>a \<in> set (db_attributions db). attribution_backed db a)"

definition events_ok :: "arc_db \<Rightarrow> bool" where
  "events_ok db \<longleftrightarrow> distinct (map we_id (db_webhook_events db)) \<and> distinct (map we_razorpay_event_id (db_webhook_events db))"

definition system_ok :: "arc_db \<Rightarrow> bool" where
  "system_ok db \<longleftrightarrow> case_keys (db_cases db) \<and>
     one_current sp_id sp_case_id sp_superseded_at (db_proposals db) \<and>
     one_current pd_id pd_case_id pd_superseded_at (db_decisions db) \<and>
     approvals_ok db \<and> actions_ok db \<and> outcomes_ok db \<and> events_ok db"

lemma system_okD:
  assumes "system_ok db"
  shows "case_keys (db_cases db)" "one_current sp_id sp_case_id sp_superseded_at (db_proposals db)"
    "one_current pd_id pd_case_id pd_superseded_at (db_decisions db)" "approvals_ok db" "actions_ok db" "outcomes_ok db"
    "events_ok db"
  using assms by (simp_all add: system_ok_def)

lemma actions_distinct: "actions_ok db \<Longrightarrow> distinct (map ra_id (db_actions db))"
  by (simp add: actions_ok_def)

section \<open>Every transaction keeps the past\<close>

lemma arc_step_evolves:
  assumes "arc_step sha db db'" "system_ok db"
  shows "evolves UNIV db db'"
  using assms
proof (cases rule: arc_step.cases)
  case configure
  then show ?thesis
    by (auto simp: evolves_def logs_kept_def rows_kept_def untouched_def intro: same_rows ledger_kept_same)
qed (use assms(2) system_okD actions_distinct in
  \<open>auto intro: evolves_ingest evolves_claim_event evolves_mark_processed evolves_mark_failed evolves_apply evolves_assess
    evolves_persist_strategy evolves_generation_failure evolves_policy evolves_request_approval evolves_decide_approval
    evolves_prepare evolves_internal evolves_problem evolves_success evolves_compensation evolves_observation\<close>)

section \<open>What a transaction does not change\<close>

context row_store
begin

text \<open>With the same keys in the same order, every row is the successor of the row in its place.\<close>

lemma evolves_pointwise:
  assumes "distinct (map key (rows d))" "map key (rows d') = map key (rows d)" "rows_evolve lookup R d d'"
  shows "list_all2 R (rows d) (rows d')"
proof (rule list_all2_all_nthI)
  show len: "length (rows d) = length (rows d')" using assms(2) by (metis length_map)
  fix i assume i: "i < length (rows d)"
  have key: "key (rows d' ! i) = key (rows d ! i)" using i len assms(2) by (metis nth_map)
  have "lookup (key (rows d ! i)) d = Some (rows d ! i)" using i by (intro lookup_distinct [OF assms(1)]) simp
  then obtain r' where r': "lookup (key (rows d ! i)) d' = Some r'" "R (rows d ! i) r'"
    using rows_evolveD [OF assms(3)] by blast
  have "lookup (key (rows d' ! i)) d' = Some (rows d' ! i)"
    using i len assms(1,2) by (intro lookup_distinct) simp_all
  with r' key show "R (rows d ! i) (rows d' ! i)" by simp
qed

end

lemma pointwise_map: "list_all2 R xs ys \<Longrightarrow> (\<And>x y. R x y \<Longrightarrow> f y = f x) \<Longrightarrow> map f ys = map f xs"
  by (induction rule: list_all2_induct) auto

lemma pointwise_in: "list_all2 R xs ys \<Longrightarrow> y \<in> set ys \<Longrightarrow> \<exists>x \<in> set xs. R x y"
  by (induction rule: list_all2_induct) auto

lemma evolves_sel:
  assumes "evolves S db db'"
  shows "rows_evolve find_case case_evolves db db'" "rows_evolve find_proposal proposal_evolves db db'"
    "rows_evolve find_decision decision_evolves db db'" "rows_evolve find_approval approval_evolves db db'"
    "rows_evolve find_action action_evolves db db'" "ledger_kept db db'" "untouched S db db'"
  using assms by (simp_all add: evolves_def rows_kept_def logs_kept_def)

lemma untouched_keys:
  assumes "evolves S db db'"
  shows "NewCases \<notin> S \<Longrightarrow> map pc_id (db_cases db') = map pc_id (db_cases db)"
    "NewApprovals \<notin> S \<Longrightarrow> map ar_id (db_approvals db') = map ar_id (db_approvals db)"
    "NewActions \<notin> S \<Longrightarrow> map ra_id (db_actions db') = map ra_id (db_actions db)"
    "NewEvents \<notin> S \<Longrightarrow> map we_id (db_webhook_events db') = map we_id (db_webhook_events db)"
  using evolves_sel(7) [OF assms] by (simp_all add: untouched_def)

lemma cases_kept:
  assumes "evolves S db db'" "NewCases \<notin> S" "case_keys (db_cases db)"
  shows "case_keys (db_cases db')"
proof -
  note keys = untouched_keys(1) [OF assms(1,2)]
  from cases_table.evolves_pointwise [OF _ keys evolves_sel(1) [OF assms(1)]] assms(3)
  have "list_all2 case_evolves (db_cases db) (db_cases db')" by (simp add: case_keys_def)
  then have "map pc_case_reference (db_cases db') = map pc_case_reference (db_cases db)"
    by (rule pointwise_map) (simp add: case_evolves_def)
  with keys assms(3) show ?thesis by (simp add: case_keys_def)
qed

lemma approvals_kept:
  assumes "evolves S db db'" "NewApprovals \<notin> S" "approvals_ok db"
  shows "approvals_ok db'"
proof -
  note keys = untouched_keys(2) [OF assms(1,2)]
  from approvals_table.evolves_pointwise [OF _ keys evolves_sel(4) [OF assms(1)]] assms(3)
  have "list_all2 approval_evolves (db_approvals db) (db_approvals db')" by (simp add: approvals_ok_def)
  then have "map ar_policy_decision_id (db_approvals db') = map ar_policy_decision_id (db_approvals db)"
    by (rule pointwise_map) (simp add: approval_evolves_def)
  with keys assms(3) show ?thesis by (simp add: approvals_ok_def)
qed

lemma events_kept:
  assumes "evolves S db db'" "NewEvents \<notin> S" "events_ok db"
  shows "events_ok db'"
proof -
  note keys = untouched_keys(4) [OF assms(1,2)]
  have "rows_evolve find_webhook immutable_event_fields_kept db db'"
    using evolves_sel(6) [OF assms(1)] by (simp add: ledger_kept_def rows_evolve_def)
  from webhook_events_table.evolves_pointwise [OF _ keys this] assms(3)
  have "list_all2 immutable_event_fields_kept (db_webhook_events db) (db_webhook_events db')" by (simp add: events_ok_def)
  then have "map we_razorpay_event_id (db_webhook_events db') = map we_razorpay_event_id (db_webhook_events db)"
    by (rule pointwise_map) (simp add: immutable_event_fields_kept_def)
  with keys assms(3) show ?thesis by (simp add: events_ok_def)
qed

text \<open>What backs an action stays.\<close>

lemma permits_kept:
  assumes "evolves S db db'" "decision_permits db d" "decision_evolves d d'"
  shows "decision_permits db' d'"
proof -
  have d': "pd_result d' = pd_result d" "pd_id d' = pd_id d" using assms(3) by (auto simp: decision_evolves_def)
  have "\<exists>k a'. find_approval k db' = Some a' \<and> ar_policy_decision_id a' = pd_id d \<and> ar_status a' = ApprovalStatus.APPROVED"
    if "find_approval k db = Some a" "ar_policy_decision_id a = pd_id d" "ar_status a = ApprovalStatus.APPROVED" for k a
    using rows_evolveD [OF evolves_sel(4) [OF assms(1)] that(1)] that(2,3) by (auto simp: approval_evolves_def)
  with assms(2) d' show ?thesis unfolding decision_permits_def by auto
qed

lemma backed_kept:
  assumes "evolves S db db'" "action_backed db r" "action_evolves r r'"
  shows "action_backed db' r'"
proof -
  obtain c p d where r: "find_case (ra_case_id r) db = Some c" "find_proposal (ra_strategy_proposal_id r) db = Some p"
    "find_decision (ra_policy_decision_id r) db = Some d" "sp_case_id p = ra_case_id r" "sp_action p = ra_action r"
    "pd_case_id d = ra_case_id r" "pd_strategy_proposal_id d = sp_id p" "decision_permits db d"
    using assms(2) unfolding action_backed_def by auto
  note e = evolves_sel [OF assms(1)]
  obtain c' where c': "find_case (ra_case_id r) db' = Some c'" using rows_evolveD [OF e(1) r(1)] by blast
  obtain p' where p': "find_proposal (ra_strategy_proposal_id r) db' = Some p'" "proposal_evolves p p'"
    using rows_evolveD [OF e(2) r(2)] by blast
  obtain d' where d': "find_decision (ra_policy_decision_id r) db' = Some d'" "decision_evolves d d'"
    using rows_evolveD [OF e(3) r(3)] by blast
  have "decision_permits db' d'" by (rule permits_kept [OF assms(1) r(8) d'(2)])
  with c' p' d' r assms(3) show ?thesis
    by (auto simp: action_backed_def action_evolves_def proposal_evolves_def decision_evolves_def)
qed

lemma actions_kept:
  assumes "evolves S db db'" "NewActions \<notin> S" "actions_ok db"
  shows "actions_ok db'"
proof -
  note keys = untouched_keys(3) [OF assms(1,2)]
  from actions_table.evolves_pointwise [OF _ keys evolves_sel(5) [OF assms(1)]] assms(3)
  have pw: "list_all2 action_evolves (db_actions db) (db_actions db')" by (simp add: actions_ok_def)
  then have "map ra_policy_decision_id (db_actions db') = map ra_policy_decision_id (db_actions db)"
    by (rule pointwise_map) (simp add: action_evolves_def)
  moreover have "action_backed db' r'" if "r' \<in> set (db_actions db')" for r'
  proof -
    obtain r where "r \<in> set (db_actions db)" "action_evolves r r'"
      using pointwise_in [OF pw \<open>r' \<in> set (db_actions db')\<close>] by blast
    with assms(3) backed_kept [OF assms(1)] show ?thesis by (auto simp: actions_ok_def)
  qed
  ultimately show ?thesis using keys assms(3) by (simp add: actions_ok_def)
qed

lemma attribution_kept:
  assumes "evolves S db db'" "attribution_backed db a"
  shows "attribution_backed db' a"
proof -
  obtain r where r: "find_action (at_recovery_action_id a) db = Some r" "ra_case_id r = at_case_id a"
    "ra_action r = RecoveryAction.CREATE_RECOVERY_LINK" using assms(2) by (auto simp: attribution_backed_def)
  from rows_evolveD [OF evolves_sel(5) [OF assms(1)] r(1)] r(2,3) show ?thesis
    by (auto simp: attribution_backed_def action_evolves_def)
qed

lemma found_case_id: "find_case k db = Some c \<Longrightarrow> k \<in> pc_id ` set (db_cases db)"
  using cases_table.lookup_None_iff [of k db] by auto

lemma case_ids_kept: "evolves S db db' \<Longrightarrow> pc_id ` set (db_cases db) \<subseteq> pc_id ` set (db_cases db')"
proof
  fix k assume e: "evolves S db db'" and k: "k \<in> pc_id ` set (db_cases db)"
  then obtain c where "find_case k db = Some c" using cases_table.lookup_None_iff [of k db] by (cases "find_case k db") auto
  with rows_evolveD [OF evolves_sel(1) [OF e]] show "k \<in> pc_id ` set (db_cases db')" using found_case_id by blast
qed

lemma outcomes_kept:
  assumes "evolves S db db'" "OutcomeRows \<notin> S" "outcomes_ok db"
  shows "outcomes_ok db'"
proof -
  have same: "db_observations db' = db_observations db" "db_attributions db' = db_attributions db"
    using evolves_sel(7) [OF assms(1)] assms(2) by (simp_all add: untouched_def)
  have "outcome_ledger db'"
    using assms(3) same case_ids_kept [OF assms(1)] by (auto simp: outcomes_ok_def outcome_ledger_def list_all_iff)
  with assms(3) same attribution_kept [OF assms(1)] show ?thesis by (simp add: outcomes_ok_def)
qed

lemma system_kept:
  assumes e: "evolves S db db'" and ok: "system_ok db"
    and new: "NewCases \<in> S \<Longrightarrow> case_keys (db_cases db')"
      "ProposalRows \<in> S \<Longrightarrow> one_current sp_id sp_case_id sp_superseded_at (db_proposals db')"
      "DecisionRows \<in> S \<Longrightarrow> one_current pd_id pd_case_id pd_superseded_at (db_decisions db')"
      "NewApprovals \<in> S \<Longrightarrow> approvals_ok db'" "NewActions \<in> S \<Longrightarrow> actions_ok db'" "OutcomeRows \<in> S \<Longrightarrow> outcomes_ok db'"
      "NewEvents \<in> S \<Longrightarrow> events_ok db'"
  shows "system_ok db'"
proof -
  note o = system_okD [OF ok] and u = evolves_sel(7) [OF e]
  have "case_keys (db_cases db')" using new(1) cases_kept [OF e _ o(1)] by blast
  moreover have "one_current sp_id sp_case_id sp_superseded_at (db_proposals db')"
    using new(2) o(2) u by (cases "ProposalRows \<in> S") (simp_all add: untouched_def)
  moreover have "one_current pd_id pd_case_id pd_superseded_at (db_decisions db')"
    using new(3) o(3) u by (cases "DecisionRows \<in> S") (simp_all add: untouched_def)
  moreover have "approvals_ok db'" using new(4) approvals_kept [OF e _ o(4)] by blast
  moreover have "actions_ok db'" using new(5) actions_kept [OF e _ o(5)] by blast
  moreover have "outcomes_ok db'" using new(6) outcomes_kept [OF e _ o(6)] by blast
  moreover have "events_ok db'" using new(7) events_kept [OF e _ o(7)] by blast
  ultimately show ?thesis by (simp add: system_ok_def)
qed

section \<open>What a transaction adds\<close>

lemma reconcile_keys:
  assumes "case_keys (db_cases db)" "snd new_row \<notin> pc_id ` set (db_cases db)"
    and "apply_reconciliation sha claimed s t new_row [] t' db = (r, db')"
  shows "case_keys (db_cases db')"
proof (cases "db' = db")
  case False
  with assms(3) obtain x where x: "r = Inr x" by (cases r) (auto dest: apply_reconciliation_cases)
  with assms(3) False obtain ev cid why db1 where
    "(case s of PaymentEntity p \<Rightarrow> reconcile_payment sha t new_row [] ev p db
       | SubscriptionEntity u \<Rightarrow> reconcile_subscription sha t new_row [] ev u db) = Inr ((cid, why), db1)"
    and db': "db' = save_webhook (processed_event t' ev) db1"
    unfolding apply_reconciliation_def
    by (auto simp: transaction_Inr_iff webhook_not_found_def sbind_eq_Inr_iff split: option.splits if_splits)
  then have "case_keys (db_cases db1)"
    using payment_keeps_keys [of db "[]" new_row] subscription_keeps_keys [of db "[]" new_row] assms(1,2)
    by (cases s) auto
  then show ?thesis by (simp add: db')
qed (use assms(1) in simp)

text \<open>The rows that a strategy, a policy evaluation and an approval request add.\<close>

lemma propose_rows:
  assumes "persist_locked sha snap mr now t new_id db = (r, db')"
  obtains (kept) "db_proposals db' = db_proposals db"
  | (added) p where "db_proposals db' = db_proposals (add_proposal p (supersede_proposal (sp_case_id p) t db))"
      "sp_id p = new_id" "find_case (sp_case_id p) db \<noteq> None"
      "find_identical_proposal (sp_case_id p) (sp_strategy_input_fingerprint p) db = None"
proof (cases "\<exists>x. r = Inr x \<and> \<not> sg_idempotent x")
  case True
  then obtain x where "r = Inr x" "\<not> sg_idempotent x" by blast
  with assms obtain c action where c: "find_case (ss_case_id snap) db = Some c" "pc_id c = ss_case_id snap"
    "find_identical_proposal (ss_case_id snap) (ss_strategy_input_fingerprint snap) db = None"
    "validate_generation_state c db" "accept_proposal c (build_proposal snap action mr new_id) t db = Inr (x, db')"
    by (auto elim: persist_accepts)
  have "pc_current_state c = CaseState.DIAGNOSED \<or> pc_current_state c = CaseState.DECISIONED"
    using c(4) by (auto simp: validate_generation_state_def split: if_splits)
  from accept_proposal_InrE [OF c(5) this] obtain db2 where
    "only_events_added (add_proposal (build_proposal snap action mr new_id) (supersede_proposal (pc_id c) t db)) db2"
    "db' = save_case (c\<lparr>pc_current_state := CaseState.DECISIONED\<rparr>) db2" by blast
  with c show thesis
    by (intro added [of "build_proposal snap action mr new_id"]) (simp_all add: only_events_addedD)
next
  case False
  with assms have "only_events_added db db'"
    by (auto simp: append_rejected_def persist_locked_def persist_on_case_def Let_def strategy_view_def accept_proposal_def
        sbind_eq_Inr_iff transaction_def split: option.splits sum.splits if_splits prod.splits)
  then show thesis by (intro kept) (simp add: only_events_addedD)
qed

lemma propose_current:
  assumes "one_current sp_id sp_case_id sp_superseded_at (db_proposals db)" "find_proposal new_id db = None"
    and "persist_locked sha snap mr now t new_id db = (r, db')"
  shows "one_current sp_id sp_case_id sp_superseded_at (db_proposals db')"
  using assms(3)
  by (cases rule: propose_rows) (use assms(1,2) one_current_added(1) in auto)

lemma evaluate_rows:
  assumes "evaluate_policy sha ok k sp t new_id db = (r, db')"
  obtains (kept) "db_decisions db' = db_decisions db"
  | (put) c p i existing where "db_decisions db' = db_decisions (decision_put (pc_id c) t existing (decision_for c p i t new_id existing) db)"
      "find_case (pc_id c) db = Some c" "find_current_proposal (pc_id c) db = Some p"
      "recompute_current_authorization_inputs sha c p t db = Inr i"
      "existing = find_identical_decision (pc_id c) (ca_authorization_input_fingerprint i) db"
      "\<And>e. existing = Some e \<Longrightarrow> e \<in> set (db_decisions db) \<and> pd_case_id e = pc_id c \<and> pd_superseded_at e \<noteq> None"
proof (cases r)
  case (Inl e)
  with assms have "db' = db" by (auto simp: evaluate_policy_def dest: transaction_Inl_unchanged)
  then show thesis by (intro kept) simp
next
  case (Inr x)
  with assms obtain c p i where c: "find_case k db = Some c" "pc_id c = k" "find_current_proposal k db = Some p"
    "recompute_current_authorization_inputs sha c p t db = Inr i" "evaluate_proposal sha ok c p t new_id db = Inr (x, db')"
    by (auto elim: evaluate_policy_InrE)
  let ?existing = "find_identical_decision (pc_id c) (ca_authorization_input_fingerprint i) db"
  show thesis
  proof (cases "\<exists>e. ?existing = Some e \<and> pd_superseded_at e = None")
    case True
    with c(4,5) show thesis by (intro kept) (auto simp: evaluate_proposal_def Let_def)
  next
    case False
    with c(4,5) have "persist_decision ok c p i t new_id ?existing db = Inr (x, db')"
      by (cases ?existing) (auto simp: evaluate_proposal_def Let_def)
    then obtain db2 where
      "only_events_added (decision_put (pc_id c) t ?existing (decision_for c p i t new_id ?existing) db) db2"
      "db' = save_case (c\<lparr>pc_current_state := fst (policy_target (decision_for c p i t new_id ?existing))\<rparr>) db2"
      by (elim persist_decision_InrE)
    moreover have "e \<in> set (db_decisions db) \<and> pd_case_id e = pc_id c \<and> pd_superseded_at e \<noteq> None" if "?existing = Some e" for e
      using that False by (auto simp: find_identical_decision_def find_Some_iff)
    ultimately show thesis
      using c by (intro put [of c ?existing p i]) (simp_all add: only_events_addedD)
  qed
qed

lemma evaluate_current:
  assumes one: "one_current pd_id pd_case_id pd_superseded_at (db_decisions db)" and new: "find_decision new_id db = None"
    and run: "evaluate_policy sha ok k sp t new_id db = (r, db')"
  shows "one_current pd_id pd_case_id pd_superseded_at (db_decisions db')"
  using run
proof (cases rule: evaluate_rows)
  case (put c p i existing)
  from decision_put_current(1) [OF one put(6) new, where p = p and i = i and t = t] put(1) show ?thesis by simp
qed (use one in simp)

lemma request_rows:
  assumes "ensure_approval_request k t new_id db = (r, db')"
  obtains (kept) "db_approvals db' = db_approvals db"
  | (added) a d where "db_approvals db' = row_add a (db_approvals db)" "ar_id a = new_id" "ar_status a = ApprovalStatus.PENDING"
      "find_case (ar_case_id a) db \<noteq> None" "find_decision (ar_policy_decision_id a) db = Some d" "pd_case_id d = ar_case_id a"
      "pd_result d = PolicyDecisionResult.REQUIRES_APPROVAL" "find_approval_for (ar_policy_decision_id a) db = None"
proof (cases r)
  case (Inl e)
  with assms have "db' = db" by (auto simp: ensure_approval_request_def dest: transaction_Inl_unchanged)
  then show thesis by (intro kept) simp
next
  case (Inr x)
  with assms obtain j c where c: "lock_case j db = Inr c" "request_locked k t new_id c db = Inr (x, db')"
    by (auto simp: ensure_approval_request_def transaction_Inr_iff sbind_eq_Inr_iff split: option.splits)
  then obtain d where d: "find_decision k db = Some d" "validate_current_approval_context c d = Inr ()"
    by (auto simp: request_locked_def lock_decision_def sbind_eq_Inr_iff split: option.splits)
  have "find_case (pc_id c) db = Some c"
    using c(1) cases_table.lookup_key by (auto simp: lock_case_def split: option.splits)
  moreover have "pd_id d = k" using decisions_table.lookup_key [OF d(1)] .
  moreover have "pd_case_id d = pc_id c" "pd_result d = PolicyDecisionResult.REQUIRES_APPROVAL"
    using d(2) by (auto simp: validate_current_approval_context_def split: if_splits)
  ultimately show thesis
    using c(2) d kept added
    by (auto simp: request_locked_def lock_decision_def Let_def append_approval_audit_def add_approval_def
        sbind_eq_Inr_iff split: option.splits)
qed

lemma request_ok:
  assumes "approvals_ok db" "find_approval new_id db = None" "ensure_approval_request k t new_id db = (r, db')"
  shows "approvals_ok db'"
  using assms(3)
proof (cases rule: request_rows)
  case (added a d)
  have "ar_id a \<notin> ar_id ` set (db_approvals db)" using assms(2) added(2) approvals_table.lookup_None_iff by blast
  moreover have "ar_policy_decision_id a \<notin> ar_policy_decision_id ` set (db_approvals db)"
    using added(8) by (auto simp: find_approval_for_def find_None_iff)
  ultimately show ?thesis using assms(1) added(1) by (simp add: approvals_ok_def row_add_def)
qed (use assms(1) in \<open>simp add: approvals_ok_def\<close>)

text \<open>The row that a claim adds is backed by what the claim checked.\<close>

lemma row_save_decisions:
  assumes "distinct (map ra_id rows)" "r \<in> set rows" "ra_id r' = ra_id r" "ra_policy_decision_id r' = ra_policy_decision_id r"
  shows "map ra_policy_decision_id (row_save ra_id r' rows) = map ra_policy_decision_id rows"
proof -
  have "ra_policy_decision_id r' = ra_policy_decision_id x" if "x \<in> set rows" "ra_id x = ra_id r'" for x
  proof -
    have "x = r" using assms(1-3) that by (auto simp: distinct_map inj_on_def)
    then show ?thesis using assms(4) by simp
  qed
  then show ?thesis by (auto simp: row_save_def)
qed

lemma claim_backed:
  assumes ok: "system_ok db" and run: "prepare_and_claim sha k t new_id db = (Inr (Inr claim), db')"
    and new: "find_action new_id db = None"
  shows "actions_ok db'"
proof -
  obtain c p d i r rows where c: "find_case k db = Some c" and p: "find_current_proposal k db = Some p"
    and d: "find_current_decision k db = Some d" and i: "current_inputs sha c p d t db = Inr i"
    and perm: "is_execution_permitted d (find_approval_for (pd_id d) db)" and row: "row_for d new_id r db rows"
    and r: "ra_policy_decision_id r = pd_id d" "ra_case_id r = k" "ra_action r = sp_action p" "ra_strategy_proposal_id r = sp_id p"
    and acts: "db_actions db' = row_save ra_id (start_attempt t r) rows"
    by (rule prepare_claimE [OF run]) blast
  note o = system_okD [OF ok] and in_rows = row_for_find [OF row r(1)]
  have ids: "distinct (map ra_id rows) \<and> distinct (map ra_policy_decision_id rows)"
  proof (cases "find_action_for (pd_id d) db")
    case None
    then have "pd_id d \<notin> ra_policy_decision_id ` set (db_actions db)"
      by (auto simp: find_action_for_def find_None_iff)
    moreover have "new_id \<notin> ra_id ` set (db_actions db)" using new actions_table.lookup_None_iff by blast
    moreover have "ra_id r = new_id" "rows = db_actions db @ [r]" using row None by (simp_all add: row_for_def row_add_def)
    ultimately show ?thesis using o(5) r(1) by (auto simp: actions_ok_def)
  next
    case (Some r0)
    with row o(5) show ?thesis by (simp add: row_for_def actions_ok_def)
  qed
  have e: "evolves UNIV db db'"
    using evolves_prepare [OF run _ new] o(5) by (simp add: actions_ok_def)
  have pd: "p \<in> set (db_proposals db)" "sp_case_id p = k" "d \<in> set (db_decisions db)" "pd_case_id d = k"
    using p d by (auto simp: find_current_proposal_def find_current_decision_def current_row_def find_Some_iff)
  have "find_proposal (sp_id p) db = Some p" "find_decision (pd_id d) db = Some d"
    using pd one_currentD(1) [OF o(2)] one_currentD(1) [OF o(3)] proposals_table.lookup_distinct decisions_table.lookup_distinct
    by blast+
  moreover have "decision_permits db d"
  proof (cases "is_execution_authorized d")
    case True
    then show ?thesis by (simp add: decision_permits_def is_execution_authorized_def)
  next
    case False
    with perm obtain a where a: "find_approval_for (pd_id d) db = Some a" "pd_result d = PolicyDecisionResult.REQUIRES_APPROVAL"
      "ar_policy_decision_id a = pd_id d" "ar_status a = ApprovalStatus.APPROVED"
      by (auto simp: is_execution_permitted_def split: option.splits)
    then have "a \<in> set (db_approvals db)" by (auto simp: find_approval_for_def find_Some_iff)
    then have "find_approval (ar_id a) db = Some a"
      using o(4) approvals_table.lookup_distinct by (auto simp: approvals_ok_def)
    with a show ?thesis by (auto simp: decision_permits_def)
  qed
  ultimately have backed: "action_backed db r"
    using c pd(2,4) r current_inputs_InrD(1) [OF i] by (auto simp: action_backed_def)
  have "action_backed db' x" if x: "x \<in> set (db_actions db')" for x
  proof -
    obtain y where y: "y \<in> set rows" "x = y \<or> x = start_attempt t r"
      using x by (auto simp: acts row_save_def)
    have old: "action_backed db y" if "y \<in> set rows"
    proof (cases "find_action_for (pd_id d) db")
      case None
      with row that backed o(5) show ?thesis by (auto simp: row_for_def row_add_def actions_ok_def)
    next
      case (Some r0)
      with row that o(5) show ?thesis by (auto simp: row_for_def actions_ok_def)
    qed
    have "action_evolves r (start_attempt t r)" by (simp add: action_evolves_def start_attempt_def)
    with y old backed backed_kept [OF e] show ?thesis by auto
  qed
  moreover have "map ra_policy_decision_id (db_actions db') = map ra_policy_decision_id rows"
    unfolding acts using ids in_rows(2) by (intro row_save_decisions [of rows r]) simp_all
  ultimately show ?thesis using ids by (simp add: actions_ok_def acts row_save_keys)
qed

lemma claim_row_result: "claim_row r c t db = (Inl x, db') \<Longrightarrow> db' = db \<and> has_fresh_lease r t"
  by (simp add: claim_row_def Let_def split: if_splits)

lemma prepare_result_unchanged:
  assumes "prepare_and_claim sha k t new_id db = (Inr (Inl x), db')"
  shows "db' = db"
proof -
  obtain c where prep: "prepare_locked sha c t new_id db = Inr (Inl x, db')"
    using assms by (auto simp: prepare_and_claim_def transaction_Inr_iff sbind_eq_Inr_iff)
  then obtain p d where pd: "load_current_proposal (pc_id c) db = Inr p" "load_current_decision (pc_id c) db = Inr d"
    unfolding prepare_locked_def sbind_eq_Inr_iff by blast
  with prep have "db' = db \<or> claim_current sha c p d (find_action_for (pd_id d) db) t new_id db = Inr (Inl x, db')"
    by (cases "find_action_for (pd_id d) db") (auto simp: prepare_locked_def split: if_splits)
  moreover have "db' = db" if "claim_current sha c p d (find_action_for (pd_id d) db) t new_id db = Inr (Inl x, db')"
    using that claim_row_result build_record_InrD(9)
    by (cases "find_action_for (pd_id d) db") (auto simp: claim_current_def Let_def sbind_eq_Inr_iff split: if_splits, blast+)
  ultimately show ?thesis by blast
qed

lemma prepare_ok:
  assumes "system_ok db" "prepare_and_claim sha k t new_id db = (r, db')" "find_action new_id db = None"
  shows "actions_ok db'"
proof -
  consider e where "r = Inl e" | x where "r = Inr (Inl x)" | claim where "r = Inr (Inr claim)"
    by (cases r; cases "projr r") auto
  then show ?thesis
  proof cases
    case 1
    with assms(2) have "db' = db" by (auto simp: prepare_and_claim_def dest: transaction_Inl_unchanged)
    then show ?thesis using system_okD(5) [OF assms(1)] by simp
  next
    case 2
    with assms(2) have "db' = db" using prepare_result_unchanged [of sha k t new_id db] by simp
    then show ?thesis using system_okD(5) [OF assms(1)] by simp
  next
    case 3
    with assms claim_backed show ?thesis by auto
  qed
qed

lemma observe_ok:
  assumes ok: "outcomes_ok db" and fresh: "fst ids \<notin> ro_id ` set (db_observations db)"
    and run: "persist_observation sha claim s source t created ids [] db = (res, db')"
  shows "outcomes_ok db'"
proof -
  have "outcome_ledger (db\<lparr>db_attributions := db_attributions db @ []\<rparr>)" using ok by (simp add: outcomes_ok_def outcome_ledger_def)
  note ledger = ledger_kept [OF this fresh run]
  have dist: "attributions_distinct (db_attributions db')"
    using attributions_stay_distinct [OF _ run] ok by (simp add: outcomes_ok_def)
  have e: "evolves UNIV db db'" by (rule evolves_observation [OF run fresh]) simp_all
  have "attribution_backed db' a" if a: "a \<in> set (db_attributions db')" for a
  proof (cases "a \<in> set (db_attributions db)")
    case True
    with ok attribution_kept [OF e] show ?thesis by (simp add: outcomes_ok_def)
  next
    case False
    then have "db' \<noteq> db" using a by auto
    with run obtain x where x: "res = Inr x"
      by (cases res) (auto simp: persist_observation_def dest: transaction_Inl_unchanged)
    with run have r: "persist_observation sha claim s source t created ids [] db = (Inr x, db')" by simp
    then have "\<not> or_idempotent x" using \<open>db' \<noteq> db\<close> persist_idempotent_unchanged by blast
    note r = r this
    show ?thesis
    proof (rule recorded_outcome [OF r], goal_cases)
      case (1 action c ob new)
      from 1(13) a False have "a \<in> set new" by simp
      with 1(15) have "at_case_id a = ob_case_id claim \<and> at_recovery_action_id a = ra_id action" by auto
      moreover have "ra_id action = ee_recovery_action_id (ob_expected claim)" using actions_table.lookup_key [OF 1(1)] .
      ultimately show ?case
        using 1(6,9) validate_observable_InrD(2) [OF 1(3)] by (simp add: attribution_backed_def)
    qed
  qed
  with ledger dist show ?thesis by (simp add: outcomes_ok_def)
qed

lemma ingest_ok:
  assumes "events_ok db" "new_id \<notin> we_id ` set (db_webhook_events db)"
    and run: "ingest_razorpay_webhook sha hmac json_loads settings new_id t request db = (r, db')"
  shows "events_ok db'"
proof (cases r)
  case (Inl failure)
  with run have "db' = db" using refused_unchanged [of sha hmac json_loads settings new_id t request db] by (cases failure) auto
  with assms(1) show ?thesis by simp
next
  case (Inr resp)
  with run have "ingest_razorpay_webhook sha hmac json_loads settings new_id t request db = (Inr resp, db')" by simp
  then obtain n res st where "record_event_once sha new_id (ir_event_id resp) n True (sha (rq_body request)) st t db =
      Inr (res, db')" by (rule accepted)
  from recorded_once [OF this] consider "db' = db"
    | "event_by_razorpay_id (ir_event_id resp) db = None"
      "db' = add_webhook (event_row sha new_id (ir_event_id resp) n True (sha (rq_body request)) st t) db" by auto
  then show ?thesis
    by cases (use assms(1,2) in \<open>auto simp: events_ok_def add_webhook_def row_add_def event_row_def event_by_razorpay_id_def
      find_None_iff\<close>)
qed

section \<open>Every transaction keeps the invariant\<close>

lemma system_untouched: "evolves {PolicyRows, CaseRows, ApprovalRows, ActionRows} db db' \<Longrightarrow> system_ok db \<Longrightarrow> system_ok db'"
  by (erule (1) system_kept) simp_all

lemma arc_step_ok:
  assumes "arc_step sha db db'" "system_ok db"
  shows "system_ok db'"
  using assms
proof (cases rule: arc_step.cases)
  case (configure ps)
  have "evolves {PolicyRows} db db'"
    by (auto simp: configure evolves_def logs_kept_def rows_kept_def untouched_def intro: same_rows ledger_kept_same)
  with assms(2) show ?thesis using system_untouched evolves_mono by blast
next
  case (ingest new_id hmac json_loads settings t request r)
  have "evolves {NewEvents} db db'" by (rule evolves_ingest [OF ingest(2)]) simp
  then show ?thesis by (rule system_kept) (use assms(2) system_okD(7) ingest_ok [OF _ ingest] in simp_all)
next
  case (reconcile new_row claimed s t t' r)
  have "evolves {CaseRows, NewCases} db db'"
    by (rule evolves_apply [OF _ reconcile(1) _ _ reconcile(2)]) (use assms(2) system_okD(1) in simp_all)
  then show ?thesis by (rule system_kept) (use assms(2) system_okD(1) reconcile_keys [OF _ reconcile] in simp_all)
next
  case (propose new_id snap mr now t r)
  have "evolves {CaseRows, ProposalRows} db db'"
    by (rule evolves_persist_strategy [OF _ propose(2)]) (use assms(2) system_okD(2) in simp_all)
  then show ?thesis by (rule system_kept) (use assms(2) system_okD(2) propose_current [OF _ propose] in simp_all)
next
  case (evaluate new_id flush_ok k sp t r)
  have "evolves {CaseRows, DecisionRows} db db'"
    by (rule evolves_policy [OF _ evaluate(2)]) (use assms(2) system_okD(3) in simp_all)
  then show ?thesis by (rule system_kept) (use assms(2) system_okD(3) evaluate_current [OF _ evaluate] in simp_all)
next
  case (request new_id k t r)
  have "evolves {ApprovalRows, NewApprovals} db db'" by (rule evolves_request_approval [OF request(2)]) simp_all
  then show ?thesis by (rule system_kept) (use assms(2) system_okD(4) request_ok [OF _ request] in simp_all)
next
  case (prepare new_id k t r)
  have "evolves {ActionRows, NewActions} db db'"
    by (rule evolves_prepare [OF prepare(2) _ prepare(1)]) (use assms(2) system_okD(5) actions_distinct in simp_all)
  then show ?thesis by (rule system_kept) (use assms(2) prepare_ok [OF _ prepare(2,1)] in simp_all)
next
  case (observe ids observed link source t created r)
  have "evolves {CaseRows, ActionRows, OutcomeRows} db db'" by (rule evolves_observation [OF observe(2,1)]) simp_all
  then show ?thesis by (rule system_kept) (use assms(2) system_okD(6) observe_ok [OF _ observe] in simp_all)
qed (use assms(2) system_untouched [of db db'] in
  \<open>auto intro: evolves_claim_event evolves_mark_processed evolves_mark_failed evolves_assess evolves_generation_failure
    evolves_decide_approval evolves_internal evolves_problem evolves_success evolves_compensation\<close>)

lemma run_ok: "(arc_step sha)\<^sup>*\<^sup>* db db' \<Longrightarrow> system_ok db \<Longrightarrow> system_ok db' \<and> evolves UNIV db db'"
proof (induction rule: rtranclp_induct)
  case (step b c)
  then show ?case using arc_step_ok arc_step_evolves evolves_trans by blast
qed simp

section \<open>The services' calls are runs\<close>

text \<open>
  A call of a service is several transactions with the provider in between. With runs of others in
  the gaps, and ids that are fresh when they are used, it is a run.
\<close>

lemma strategy_call_is_run:
  assumes "(arc_step sha)\<^sup>*\<^sup>* db (others db)" "find_proposal new_id (others db) = None"
  shows "(arc_step sha)\<^sup>*\<^sup>* db (snd (generate_strategy sha env k t1 t2 t3 new_id others db))"
proof -
  have "(arc_step sha)\<^sup>*\<^sup>* db (snd (persist_locked sha snap mr t2 t3 new_id (others db)))" for snap mr
    using assms(1) arc_step.propose [OF assms(2) surjective_pairing] by (rule rtranclp.rtrancl_into_rtrancl)
  moreover have "(arc_step sha)\<^sup>*\<^sup>* db (record_generation_failure snap reason (others db))" for snap reason
    using assms(1) arc_step.fail_proposal by (rule rtranclp.rtrancl_into_rtrancl)
  ultimately show ?thesis
    by (auto simp: generate_strategy_def Let_def split: sum.splits)
qed

lemma observation_call_is_run:
  assumes "(arc_step sha)\<^sup>*\<^sup>* db (others db)" "fst ids \<notin> ro_id ` set (db_observations (others db))"
  shows "(arc_step sha)\<^sup>*\<^sup>* db (fst (snd (observe_recovery_action sha mode gateway k source t created ids [] others w db)))"
proof -
  have "(arc_step sha)\<^sup>*\<^sup>* db (snd (persist_observation sha observed link source t created ids [] (others db)))" for observed link
    using assms(1) arc_step.observe [OF assms(2) surjective_pairing] by (rule rtranclp.rtrancl_into_rtrancl)
  then show ?thesis
    by (auto simp: observe_recovery_action_def Let_def split: sum.splits prod.splits) (metis snd_conv)+
qed

lemma link_call_is_run:
  assumes others: "(arc_step sha)\<^sup>*\<^sup>* db (others db)" "\<And>d. (arc_step sha)\<^sup>*\<^sup>* d (later d)"
  shows "(arc_step sha)\<^sup>*\<^sup>* db (fst (snd (execute_payment_link sha gateway claim t2 others later w db)))"
proof -
  have problem: "(arc_step sha)\<^sup>*\<^sup>* db d" if "finalize_provider_problem claim p t2 (others db) = (r, d)" for p r d
    using others(1) arc_step.problem [OF that] by (rule rtranclp.rtrancl_into_rtrancl)
  have success: "(arc_step sha)\<^sup>*\<^sup>* db d" if "finalize_external_success sha claim s adopted t2 (others db) = (r, d)" for s adopted r d
    using others(1) arc_step.success [OF that] by (rule rtranclp.rtrancl_into_rtrancl)
  have compensate: "(arc_step sha)\<^sup>*\<^sup>* db d2"
    if "finalize_external_success sha claim s adopted t2 (others db) = (r, d)"
      and "finalize_compensation claim s outcome (later d) = (r2, d2)" for s adopted r d outcome r2 d2
    using rtranclp_trans [OF success [OF that(1)] others(2)] arc_step.compensate [OF that(2)]
    by (rule rtranclp.rtrancl_into_rtrancl)
  show ?thesis
    by (auto simp: execute_payment_link_def Let_def split: sum.splits prod.splits bool.splits intro: problem success compensate)
qed

lemma execution_call_is_run:
  assumes "find_action record_id db = None"
    and others: "\<And>d. (arc_step sha)\<^sup>*\<^sup>* d (others d)" "\<And>d. (arc_step sha)\<^sup>*\<^sup>* d (later d)"
  shows "(arc_step sha)\<^sup>*\<^sup>* db (fst (snd (execute sha gateway k t1 t2 record_id others later w db)))"
proof -
  obtain r db1 where p: "prepare_and_claim sha k t1 record_id db = (r, db1)" by (cases "prepare_and_claim sha k t1 record_id db")
  have run: "(arc_step sha)\<^sup>*\<^sup>* db db1" using arc_step.prepare [OF assms(1) p] by blast
  have link: "(arc_step sha)\<^sup>*\<^sup>* db (fst (snd (execute_payment_link sha gateway claim t2 others later w db1)))" for claim
    using run link_call_is_run [OF others] by (rule rtranclp_trans)
  have internal: "(arc_step sha)\<^sup>*\<^sup>* db d" if "execute_internal sha claim t2 (others db1) = (res, d)" for claim res d
    using rtranclp_trans [OF run others(1)] arc_step.internal [OF that] by (rule rtranclp.rtrancl_into_rtrancl)
  show ?thesis
    by (auto simp: execute_def p run Let_def link split: sum.splits prod.splits intro: internal) (metis link fst_conv snd_conv)?
qed

lemma webhook_call_is_run:
  assumes others: "\<And>d. (arc_step sha)\<^sup>*\<^sup>* d (others d)"
    and observe: "\<And>a src v d. (arc_step sha)\<^sup>*\<^sup>* d (fst (snd (observe a src v d)))"
    and fresh: "snd new_row \<notin> pc_id ` set (db_cases (others (snd (claim_event (fst clocks) k db))))"
  shows "(arc_step sha)\<^sup>*\<^sup>* db (fst (snd (process_webhook_event sha reader observe k clocks new_row [] others w db)))"
proof -
  obtain c db1 where c: "claim_event (fst clocks) k db = (c, db1)" by (cases "claim_event (fst clocks) k db")
  have run: "(arc_step sha)\<^sup>*\<^sup>* db db1" using arc_step.claim_event [OF c] by blast
  have finish: "(arc_step sha)\<^sup>*\<^sup>* d d'" if "mark_processed_without_case claimed why cid t d = (r, d')" for claimed why cid t d r d'
    using arc_step.finish_event [OF that] by blast
  have observed: "(arc_step sha)\<^sup>*\<^sup>* d d'" if "observe a src v d = (r, d', v')" for a src v d r d' v'
    using observe [where a = a and src = src and v = v and d = d] that by simp
  have link: "(arc_step sha)\<^sup>*\<^sup>* db1 d" if "process_payment_link_event observe claimed t w db1 = (r, d, w')" for claimed t r d w'
    using that
    by (auto simp: process_payment_link_event_def Let_def split: if_splits list.splits prod.splits sum.splits
        intro: finish observed rtranclp_trans)
  have entity: "(arc_step sha)\<^sup>*\<^sup>* db1 d"
    if "apply_reconciliation sha claimed s t new_row [] t' (others db1) = (r, d)" for claimed s t t' r d
    using others arc_step.reconcile [OF _ that] fresh c by (auto intro: rtranclp.rtrancl_into_rtrancl)
  have processed: "(arc_step sha)\<^sup>*\<^sup>* db d"
    if "process_claimed sha reader observe claimed (snd clocks) new_row [] others w db1 = (r, d, w')" for claimed r d w'
    using that run
    by (auto simp: process_claimed_def Let_def split: if_splits prod.splits sum.splits
        intro: link entity others rtranclp_trans)
  have failed: "(arc_step sha)\<^sup>*\<^sup>* db d'"
    if "process_claimed sha reader observe claimed (snd clocks) new_row [] others w db1 = (r, d, w')"
      and "mark_failed claimed m t d = (r', d')" for claimed r d w' m t r' d'
    using processed [OF that(1)] arc_step.fail_event [OF that(2)] by (rule rtranclp.rtrancl_into_rtrancl)
  show ?thesis
    by (auto simp: process_webhook_event_def c Let_def split: sum.splits prod.splits intro: run processed failed)
qed

section \<open>A case along a run\<close>

lemma moves_up: "can_transition\<^sup>*\<^sup>* s t \<Longrightarrow> s \<noteq> t \<Longrightarrow> case_stage s < case_stage t"
  by (rule case_lifecycle.steps_up)

interpretation case_runs: staged "can_transition\<^sup>*\<^sup>*" case_stage 7
  by unfold_locales (erule (1) moves_up, rule case_lifecycle.rank_top)

lemma terminal_stays: "s \<in> TERMINAL_CASE_STATES \<Longrightarrow> can_transition\<^sup>*\<^sup>* s t \<Longrightarrow> t = s"
  by (erule case_lifecycle.final_stays) (simp add: case_lifecycle.final_def terminal_case_final)

lemma run_states:
  assumes "successively (arc_step sha) (db # dbs)" "system_ok db" "find_case k db = Some c"
  shows "\<exists>ss. map (\<lambda>d. map_option pc_current_state (find_case k d)) (db # dbs) = map Some (pc_current_state c # ss) \<and>
    successively can_transition\<^sup>*\<^sup>* (pc_current_state c # ss)"
  using assms
proof (induction dbs arbitrary: db c)
  case (Cons d ds)
  then have step: "arc_step sha db d" and rest: "successively (arc_step sha) (d # ds)" by auto
  obtain c' where c': "find_case k d = Some c'" "case_evolves c c'"
    using rows_evolveD [OF evolves_sel(1) [OF arc_step_evolves [OF step Cons.prems(2)]] Cons.prems(3)] by blast
  from Cons.IH [OF rest arc_step_ok [OF step Cons.prems(2)] c'(1)] obtain ss where
    ss: "map (\<lambda>d. map_option pc_current_state (find_case k d)) (d # ds) = map Some (pc_current_state c' # ss)"
    "successively can_transition\<^sup>*\<^sup>* (pc_current_state c' # ss)" by blast
  with c'(2) Cons.prems(3) show ?case
    by (intro exI [of _ "pc_current_state c' # ss"]) (simp add: case_evolves_def)
qed simp

lemma successively_both: "successively P xs \<Longrightarrow> successively Q xs \<Longrightarrow> successively (\<lambda>x y. P x y \<and> Q x y) xs"
  by (induction xs rule: induct_list012) auto

lemma changes_of_state:
  assumes "successively can_transition\<^sup>*\<^sup>* ss"
  shows "distinct (remdups_adj ss) \<and> length (remdups_adj ss) \<le> 8"
proof -
  have "successively (\<lambda>s t. can_transition\<^sup>*\<^sup>* s t \<and> s \<noteq> t) (remdups_adj ss)"
    using successively_both [OF successively_remdups_adjI [OF assms]] distinct_adj_remdups_adj [of ss]
    unfolding distinct_adj_def by blast
  from case_runs.history_distinct [OF this] case_runs.history_length [OF this] show ?thesis by simp
qed

section \<open>Properties\<close>

lemma empty_ok: "system_ok empty_db"
  by (simp add: system_ok_def case_keys_def one_current_def approvals_ok_def actions_ok_def outcomes_ok_def events_ok_def
      attributions_distinct_def outcome_ledger_def empty_db_def)

text \<open>The rows of the examples: a case with an authorized decision, executed and then paid.\<close>

lemma executed_ok: "system_ok executed_db"
proof -
  have "case_keys (db_cases executed_db)" "one_current sp_id sp_case_id sp_superseded_at (db_proposals executed_db)"
    "one_current pd_id pd_case_id pd_superseded_at (db_decisions executed_db)" "approvals_ok executed_db"
    "attributions_distinct (db_attributions executed_db)" "outcome_ledger executed_db" "events_ok executed_db"
    "distinct (map ra_id (db_actions executed_db))" "distinct (map ra_policy_decision_id (db_actions executed_db))"
    by code_simp+
  moreover have "db_attributions executed_db = []" "db_actions executed_db = [succeeded_action]" by code_simp+
  moreover have "action_backed executed_db succeeded_action"
  proof -
    have "find_proposal (ra_strategy_proposal_id succeeded_action) executed_db = Some sample_proposal"
      "find_decision (ra_policy_decision_id succeeded_action) executed_db = Some authorized_decision"
      "find_case (ra_case_id succeeded_action) executed_db \<noteq> None" "sp_case_id sample_proposal = ra_case_id succeeded_action"
      "sp_action sample_proposal = ra_action succeeded_action" "pd_case_id authorized_decision = ra_case_id succeeded_action"
      "pd_strategy_proposal_id authorized_decision = sp_id sample_proposal"
      "pd_result authorized_decision = PolicyDecisionResult.AUTHORIZED" by code_simp+
    then show ?thesis by (simp add: action_backed_def decision_permits_def)
  qed
  ultimately show ?thesis by (simp add: system_ok_def actions_ok_def outcomes_ok_def)
qed

definition recovered_db :: arc_db where
  "recovered_db = snd (persist_observation fixed_sha sample_claim paid_link OutcomeObservationSource.POLL claim_time claim_time
     (50, 60) [] executed_db)"

lemma observing_step: "arc_step fixed_sha executed_db recovered_db"
  unfolding recovered_db_def by (rule arc_step.observe [OF _ surjective_pairing]) code_simp

lemma observing_run: "(arc_step fixed_sha)\<^sup>*\<^sup>* executed_db recovered_db"
  using observing_step by blast

text \<open>
  C1. No money without authority. In every state that a run reaches, each amount that is reported
  as recovered has its observation and the one payment link action it came from, of the same case;
  that action was authorized by policy, or policy demanded an approval and a human gave it; and no
  other attribution counts the same action or the same payment.
\<close>

theorem recovery_is_authorized:
  assumes "(arc_step sha)\<^sup>*\<^sup>* db db'" "system_ok db" "a \<in> set (db_attributions db')"
  shows "\<exists>ob r d. ob \<in> set (db_observations db') \<and> ro_id ob = at_outcome_observation_id a \<and> ro_case_id ob = at_case_id a \<and>
    find_action (at_recovery_action_id a) db' = Some r \<and> ra_action r = RecoveryAction.CREATE_RECOVERY_LINK \<and>
    ra_case_id r = at_case_id a \<and> find_decision (ra_policy_decision_id r) db' = Some d \<and> pd_case_id d = at_case_id a \<and>
    (pd_result d = PolicyDecisionResult.AUTHORIZED \<or>
     pd_result d = PolicyDecisionResult.REQUIRES_APPROVAL \<and> (\<exists>k ap. find_approval k db' = Some ap \<and>
       ar_policy_decision_id ap = pd_id d \<and> ar_status ap = ApprovalStatus.APPROVED)) \<and>
    (\<forall>b \<in> set (db_attributions db'). at_recovery_action_id b = at_recovery_action_id a \<or>
       at_provider_payment_id b = at_provider_payment_id a \<longrightarrow> b = a)"
proof -
  have ok: "outcomes_ok db'" "actions_ok db'" using run_ok [OF assms(1,2)] system_okD by blast+
  have "attribution_supported (db_observations db') a"
    using ok(1) assms(3) by (simp add: outcomes_ok_def outcome_ledger_def list_all_iff)
  then obtain ob where ob: "ob \<in> set (db_observations db')" "ro_id ob = at_outcome_observation_id a" "ro_case_id ob = at_case_id a"
    by (auto simp: attribution_supported_def list_ex_iff)
  obtain r where r: "find_action (at_recovery_action_id a) db' = Some r" "ra_case_id r = at_case_id a"
    "ra_action r = RecoveryAction.CREATE_RECOVERY_LINK"
    using ok(1) assms(3) by (auto simp: outcomes_ok_def attribution_backed_def)
  have "action_backed db' r" using ok(2) actions_table.lookup_in [OF r(1)] by (simp add: actions_ok_def)
  moreover have "b = a" if "b \<in> set (db_attributions db')" "at_recovery_action_id b = at_recovery_action_id a \<or>
       at_provider_payment_id b = at_provider_payment_id a" for b
    using ok(1) assms(3) that unfolding outcomes_ok_def attributions_distinct_def distinct_map by (metis inj_onD)
  ultimately show ?thesis using ob r unfolding action_backed_def decision_permits_def by auto
qed

theorem recovery_is_authorized_witness:
  "\<exists>a r. a \<in> set (db_attributions recovered_db) \<and> at_recovered_amount_minor a = 5000 \<and>
     find_action (at_recovery_action_id a) recovered_db = Some r \<and> ra_case_id r = at_case_id a"
proof -
  have "map at_recovered_amount_minor (db_attributions recovered_db) = [5000]" by code_simp
  then obtain a where a: "a \<in> set (db_attributions recovered_db)" "at_recovered_amount_minor a = 5000" by auto
  from recovery_is_authorized [OF observing_run executed_ok a(1)] a show ?thesis by blast
qed

text \<open>
  C7. History is kept. Along every run each case stays, under its reference, in a state that its
  permitted transitions reach, and for good once the state is terminal; a decided approval keeps
  its verdict, operator and time; a decision keeps its result and everything else but its end; an
  action keeps what it was made for; and audit log, observations and attributions are only
  extended, and delivered events keep what was delivered.
\<close>

theorem history_kept:
  assumes "(arc_step sha)\<^sup>*\<^sup>* db db'" "system_ok db"
  shows "(\<forall>k c. find_case k db = Some c \<longrightarrow> (\<exists>c'. find_case k db' = Some c' \<and> pc_case_reference c' = pc_case_reference c \<and>
      can_transition\<^sup>*\<^sup>* (pc_current_state c) (pc_current_state c') \<and>
      (pc_current_state c \<in> TERMINAL_CASE_STATES \<longrightarrow> pc_current_state c' = pc_current_state c))) \<and>
    (\<forall>k a. find_approval k db = Some a \<and> ar_status a \<noteq> ApprovalStatus.PENDING \<longrightarrow> find_approval k db' = Some a) \<and>
    (\<forall>k d. find_decision k db = Some d \<longrightarrow> (\<exists>t. find_decision k db' = Some (d\<lparr>pd_superseded_at := t\<rparr>))) \<and>
    (\<forall>k r. find_action k db = Some r \<longrightarrow> (\<exists>r'. find_action k db' = Some r' \<and> action_evolves r r')) \<and>
    prefix (db_case_events db) (db_case_events db') \<and> prefix (db_observations db) (db_observations db') \<and>
    prefix (db_attributions db) (db_attributions db') \<and> ledger_kept db db'"
proof -
  have e: "evolves UNIV db db'" using run_ok [OF assms] by simp
  note s = evolves_sel [OF e]
  have "\<exists>c'. find_case k db' = Some c' \<and> pc_case_reference c' = pc_case_reference c \<and>
      can_transition\<^sup>*\<^sup>* (pc_current_state c) (pc_current_state c') \<and>
      (pc_current_state c \<in> TERMINAL_CASE_STATES \<longrightarrow> pc_current_state c' = pc_current_state c)"
    if "find_case k db = Some c" for k c
    using rows_evolveD [OF s(1) that] terminal_stays by (auto simp: case_evolves_def)
  moreover have "find_approval k db' = Some a" if "find_approval k db = Some a" "ar_status a \<noteq> ApprovalStatus.PENDING" for k a
    using rows_evolveD [OF s(4) that(1)] that(2) by (auto simp: approval_evolves_def)
  moreover have "\<exists>t. find_decision k db' = Some (d\<lparr>pd_superseded_at := t\<rparr>)" if "find_decision k db = Some d" for k d
    using rows_evolveD [OF s(3) that] by (auto simp: decision_evolves_def)
  moreover have "\<exists>r'. find_action k db' = Some r' \<and> action_evolves r r'" if "find_action k db = Some r" for k r
    using rows_evolveD [OF s(5) that] .
  moreover have "logs_kept db db'" using e by (simp add: evolves_def)
  ultimately show ?thesis by (simp add: logs_kept_def)
qed

theorem history_kept_witness:
  "find_case 7 executed_db \<noteq> None \<and> find_case 7 recovered_db \<noteq> None \<and>
     prefix (db_case_events executed_db) (db_case_events recovered_db) \<and> db_case_events recovered_db \<noteq> []"
proof -
  have c: "find_case 7 executed_db \<noteq> None" "db_case_events recovered_db \<noteq> []" by code_simp+
  with history_kept [OF observing_run executed_ok] show ?thesis by blast
qed

text \<open>
  C8. Cases end. Whatever the services do, in whatever order and however often, along every run a
  case is in at most eight states one after another and never again in a state that it left. So
  after finitely many steps its state is settled.
\<close>

theorem case_moves_bounded:
  assumes "successively (arc_step sha) (db # dbs)" "system_ok db" "find_case k db = Some c"
  shows "\<exists>ss. map (\<lambda>d. map_option pc_current_state (find_case k d)) (db # dbs) = map Some ss \<and>
    distinct (remdups_adj ss) \<and> length (remdups_adj ss) \<le> 8"
  using run_states [OF assms] changes_of_state by metis

theorem case_moves_bounded_witness:
  "\<exists>ss. map (\<lambda>d. map_option pc_current_state (find_case 7 d)) [executed_db, recovered_db] = map Some ss \<and>
     remdups_adj ss = [CaseState.WAITING_FOR_OUTCOME, CaseState.RECOVERED]"
proof -
  have run: "successively (arc_step fixed_sha) (executed_db # [recovered_db])" using observing_step by simp
  obtain c where c: "find_case 7 executed_db = Some c" "pc_current_state c = CaseState.WAITING_FOR_OUTCOME"
    by (simp add: find_case_def executed_db_def ready_db_def empty_db_def row_find_def ready_case_def diagnosed_case_def sample_case_def)
  from case_moves_bounded [OF run executed_ok c(1)] obtain ss where
    ss: "map (\<lambda>d. map_option pc_current_state (find_case 7 d)) [executed_db, recovered_db] = map Some ss" by blast
  have "map (\<lambda>d. map_option pc_current_state (find_case 7 d)) [executed_db, recovered_db] =
    map Some [CaseState.WAITING_FOR_OUTCOME, CaseState.RECOVERED]" by code_simp
  with ss have "map Some ss = map Some [CaseState.WAITING_FOR_OUTCOME, CaseState.RECOVERED]" by simp
  then have "ss = [CaseState.WAITING_FOR_OUTCOME, CaseState.RECOVERED]" by (auto simp: map_eq_Cons_conv)
  then have "remdups_adj ss = [CaseState.WAITING_FOR_OUTCOME, CaseState.RECOVERED]" by simp
  with ss show ?thesis by blast
qed

end
