(* ===== verification/Arc_Integrity.thy ===== *)
theory Arc_Integrity
  imports Arc_System
begin

text \<open>
  The integrity of the tables: what the unique constraints and the foreign keys of
  \<open>arc/domain/models\<close> demand of the rows that the services write, and that every run keeps it. The
  policies are written by an operator only; an edit that the constraints refuse is no step here.
\<close>

section \<open>What the tables promise\<close>

text \<open>
  A decision names a proposal of its case and, unless none was found, a stored policy; an approval
  request names a decision of its case that demands one; the approval that an action names was given
  for its decision; an observation names an action of its case, and an attribution the observation
  of its action and case.
\<close>

definition proposal_refers :: "arc_db \<Rightarrow> strategy_proposal \<Rightarrow> bool" where
  "proposal_refers db p \<longleftrightarrow> find_case (sp_case_id p) db \<noteq> None"

definition decision_refers :: "arc_db \<Rightarrow> policy_decision \<Rightarrow> bool" where
  "decision_refers db d \<longleftrightarrow> find_case (pd_case_id d) db \<noteq> None \<and>
     (case find_proposal (pd_strategy_proposal_id d) db of None \<Rightarrow> False | Some p \<Rightarrow> sp_case_id p = pd_case_id d) \<and>
     (case pd_merchant_policy_id d of None \<Rightarrow> True | Some m \<Rightarrow> m \<in> mp_id ` set (db_policies db))"

definition approval_refers :: "arc_db \<Rightarrow> approval_request \<Rightarrow> bool" where
  "approval_refers db a \<longleftrightarrow> find_case (ar_case_id a) db \<noteq> None \<and>
     (case find_decision (ar_policy_decision_id a) db of None \<Rightarrow> False
      | Some d \<Rightarrow> pd_case_id d = ar_case_id a \<and> pd_result d = PolicyDecisionResult.REQUIRES_APPROVAL)"

definition action_refers :: "arc_db \<Rightarrow> recovery_action \<Rightarrow> bool" where
  "action_refers db r \<longleftrightarrow> (case ra_approval_request_id r of None \<Rightarrow> True
     | Some k \<Rightarrow> (case find_approval k db of None \<Rightarrow> False
       | Some a \<Rightarrow> ar_case_id a = ra_case_id r \<and> ar_policy_decision_id a = ra_policy_decision_id r \<and>
           ar_status a = ApprovalStatus.APPROVED))"

definition observation_refers :: "arc_db \<Rightarrow> outcome_observation \<Rightarrow> bool" where
  "observation_refers db ob \<longleftrightarrow> find_case (ro_case_id ob) db \<noteq> None \<and>
     (case find_action (ro_recovery_action_id ob) db of None \<Rightarrow> False | Some r \<Rightarrow> ra_case_id r = ro_case_id ob)"

definition attribution_refers :: "arc_db \<Rightarrow> recovery_attribution \<Rightarrow> bool" where
  "attribution_refers db a \<longleftrightarrow> find_case (at_case_id a) db \<noteq> None \<and>
     (\<exists>ob \<in> set (db_observations db). ro_id ob = at_outcome_observation_id a \<and>
        ro_recovery_action_id ob = at_recovery_action_id a \<and> ro_case_id ob = at_case_id a)"

definition references_ok :: "arc_db \<Rightarrow> bool" where
  "references_ok db \<longleftrightarrow> list_all (proposal_refers db) (db_proposals db) \<and> list_all (decision_refers db) (db_decisions db) \<and>
     list_all (approval_refers db) (db_approvals db) \<and> list_all (action_refers db) (db_actions db) \<and>
     list_all (observation_refers db) (db_observations db) \<and> list_all (attribution_refers db) (db_attributions db)"

text \<open>The unique constraints that \<open>system_ok\<close> does not state.\<close>

definition policies_unique :: "merchant_policy list \<Rightarrow> bool" where
  "policies_unique ps \<longleftrightarrow> distinct (map mp_id ps) \<and> distinct (map mp_merchant_id ps)"

definition inputs_unique :: "arc_db \<Rightarrow> bool" where
  "inputs_unique db \<longleftrightarrow> distinct (map (\<lambda>p. (sp_case_id p, sp_strategy_input_fingerprint p)) (db_proposals db)) \<and>
     distinct (map (\<lambda>d. (pd_case_id d, pd_authorization_input_fingerprint d)) (db_decisions db)) \<and>
     distinct (map ro_id (db_observations db)) \<and>
     distinct (map (\<lambda>ob. (ro_recovery_action_id ob, ro_evidence_fingerprint ob)) (db_observations db))"

definition tables_ok :: "arc_db \<Rightarrow> bool" where
  "tables_ok db \<longleftrightarrow> system_ok db \<and> policies_unique (db_policies db) \<and> inputs_unique db \<and> references_ok db"



section \<open>References stay\<close>










section \<open>The rows that are written\<close>

lemma row_save_map:
  assumes "distinct (map key rows)" "r \<in> set rows" "key r' = key r" "f r' = f r"
  shows "map f (row_save key r' rows) = map f rows"
proof -
  have "f r' = f x" if "x \<in> set rows" "key x = key r'" for x
    using assms that by (metis distinct_map inj_onD)
  then show ?thesis by (auto simp: row_save_def)
qed

context current_rows
begin

lemma end_current_from:
  "x \<in> set (end_current key owner ended set_ended k t rows) \<Longrightarrow> \<exists>r \<in> set rows. x = r \<or> x = set_ended (Some t) r"
  by (auto simp: end_current_def row_save_def dest: current_Some split: option.splits if_splits)

lemma end_current_map:
  assumes "distinct (map key rows)" "\<And>t r. f (set_ended t r) = f r"
  shows "map f (end_current key owner ended set_ended k t rows) = map f rows"
proof (cases "current_row owner ended k rows")
  case (Some r)
  then have "r \<in> set rows" by (auto dest: current_Some)
  with assms Some show ?thesis by (simp add: end_current_def row_save_map)
qed (simp add: end_current_def)

end








section \<open>Every step keeps the integrity\<close>




section \<open>Properties\<close>

lemma empty_tables: "tables_ok empty_db"
  using empty_ok by (simp add: tables_ok_def policies_unique_def inputs_unique_def references_ok_def empty_db_def)




end
