(* ===== verification/Arc_Demo_Columns.thy ===== *)
theory Arc_Demo_Columns
  imports Arc_Read_Models
begin

text \<open>
  The exported columns of the public evaluator bundle (\<open>arc/deployment/public_demo_bundle.py\<close>): the
  field lists of \<open>_ENTITY_SPECS\<close> and the columns of the mapped tables they are reviewed against, a row
  of each table as the dictionary of its column values, the JSON value of a column and the column
  value that a JSON value decodes to. The keys and times that the model of the database leaves out
  are the parameter \<open>server_columns\<close>.
\<close>

section \<open>Failures\<close>

text \<open>
  The three exception classes of the module with their messages, \<open>validate_policy\<close>'s, and Python's own.
\<close>

datatype bundle_error =
    PublicDemoBundleError string
  | PublicDemoImportError string
  | PublicDemoAlreadyImportedError string
  | BundlePolicyError arc_error
  | BundleKeyError
  | BundleTypeError
  | BundleValueError
  | BundleAttributeError
  | BundleUnicodeDecodeError

section \<open>Tables and their columns\<close>

definition ENTITY_SPECS :: "(string \<times> string list) list" where
  "ENTITY_SPECS =
    [(''merchant_policies'',
      [''id'', ''merchant_id'', ''automation_enabled'', ''allowed_actions'', ''max_automated_attempts'',
       ''max_contact_attempts'', ''recovery_window_minutes'', ''high_value_threshold_minor'',
       ''require_approval_above_minor'', ''stopping_rules'', ''created_at'', ''updated_at'']),
     (''payment_cases'',
      [''id'', ''case_reference'', ''merchant_id'', ''payment_id'', ''subscription_id'', ''razorpay_payment_status'',
       ''razorpay_subscription_status'', ''razorpay_payment_method'', ''customer_id'', ''amount'', ''currency'',
       ''current_state'', ''error_code'', ''error_description'', ''error_source'', ''error_step'', ''error_reason'',
       ''eligibility_status'', ''eligibility_reason_code'', ''eligibility_evaluated_at'', ''failure_category'',
       ''recovery_disposition'', ''diagnosis_reason_code'', ''diagnosed_at'', ''assessment_fingerprint'',
       ''attempt_count'', ''contact_attempt_count'', ''detected_at'', ''last_reconciled_at'', ''resolved_at'',
       ''created_at'', ''updated_at'']),
     (''case_events'',
      [''id'', ''case_id'', ''event_type'', ''source'', ''event_data'', ''created_at'']),
     (''strategy_proposals'',
      [''id'', ''case_id'', ''assessment_fingerprint'', ''strategy_input_fingerprint'', ''source'', ''action'',
       ''reason_code'', ''explanation'', ''confidence'', ''re_evaluate_after_seconds'', ''prompt_version'', ''model'',
       ''provider_response_id'', ''input_tokens'', ''output_tokens'', ''total_tokens'', ''latency_ms'', ''created_at'',
       ''superseded_at'']),
     (''policy_decisions'',
      [''id'', ''case_id'', ''strategy_proposal_id'', ''merchant_policy_id'', ''strategy_input_fingerprint'',
       ''policy_fingerprint'', ''authorization_input_fingerprint'', ''result'', ''reason_code'', ''explanation'',
       ''recovery_window_ends_at'', ''approval_threshold_minor'', ''high_value_threshold_minor'',
       ''observed_high_value'', ''observed_amount_minor'', ''observed_attempt_count'',
       ''observed_contact_attempt_count'', ''evaluated_at'', ''superseded_at'']),
     (''approval_requests'',
      [''id'', ''case_id'', ''policy_decision_id'', ''status'', ''requested_at'', ''decided_at'', ''decided_by'',
       ''decision_note'', ''created_at'']),
     (''recovery_actions'',
      [''id'', ''case_id'', ''strategy_proposal_id'', ''policy_decision_id'', ''approval_request_id'', ''action'',
       ''execution_status'', ''idempotency_key'', ''request_fingerprint'', ''provider'', ''external_reference_id'',
       ''external_reference'', ''external_status'', ''external_url'', ''external_expires_at'',
       ''execution_started_at'', ''execution_attempt_count'', ''executed_at'', ''failed_at'', ''error_code'',
       ''next_evaluation_at'', ''created_at'', ''updated_at'']),
     (''recovery_outcome_observations'',
      [''id'', ''case_id'', ''recovery_action_id'', ''source'', ''provider'', ''provider_mode'', ''provider_status'',
       ''outcome_status'', ''amount_expected_minor'', ''amount_paid_minor'', ''currency'', ''provider_payment_id'',
       ''provider_payment_status'', ''evidence_fingerprint'', ''observed_at'', ''created_at'']),
     (''recovery_attributions'',
      [''id'', ''case_id'', ''recovery_action_id'', ''outcome_observation_id'', ''provider'', ''provider_mode'',
       ''provider_payment_link_id'', ''provider_reference_id'', ''provider_payment_id'', ''recovered_amount_minor'',
       ''currency'', ''attribution_reason_code'', ''evidence_fingerprint'', ''attributed_at'', ''created_at''])]"

definition entity_fields :: "string \<Rightarrow> string list" where
  "entity_fields name = (case map_of ENTITY_SPECS name of Some names \<Rightarrow> names | None \<Rightarrow> [])"

definition ENTITY_NAMES :: "string list" where
  "ENTITY_NAMES = map fst ENTITY_SPECS"

text \<open>
  The columns of the mapped class with their types, as far as \<open>_decode_record\<close> tells types apart.
\<close>

datatype column_kind = DateTimeColumn | UuidColumn | OtherColumn

definition plain_columns :: "string list \<Rightarrow> (string \<times> column_kind) list" where
  "plain_columns names = map (\<lambda>n. (n, OtherColumn)) names"

definition model_columns :: "string \<Rightarrow> (string \<times> column_kind) list" where
  "model_columns name =
    (if name = ''merchant_policies'' then
       (''id'', UuidColumn) #
       plain_columns [''merchant_id'', ''automation_enabled'', ''allowed_actions'', ''max_automated_attempts'',
         ''max_contact_attempts'', ''recovery_window_minutes'', ''high_value_threshold_minor'',
         ''require_approval_above_minor'', ''stopping_rules''] @
       [(''created_at'', DateTimeColumn), (''updated_at'', DateTimeColumn)]
     else if name = ''payment_cases'' then
       (''id'', UuidColumn) #
       plain_columns [''case_reference'', ''merchant_id'', ''payment_id'', ''subscription_id'', ''razorpay_payment_status'',
         ''razorpay_subscription_status'', ''razorpay_payment_method'', ''customer_id'', ''amount'', ''currency'',
         ''current_state'', ''error_code'', ''error_description'', ''error_source'', ''error_step'', ''error_reason'',
         ''eligibility_status'', ''eligibility_reason_code''] @
       [(''eligibility_evaluated_at'', DateTimeColumn)] @
       plain_columns [''failure_category'', ''recovery_disposition'', ''diagnosis_reason_code''] @
       [(''diagnosed_at'', DateTimeColumn)] @
       plain_columns [''assessment_fingerprint'', ''attempt_count'', ''contact_attempt_count''] @
       [(''detected_at'', DateTimeColumn), (''last_reconciled_at'', DateTimeColumn), (''resolved_at'', DateTimeColumn),
        (''created_at'', DateTimeColumn), (''updated_at'', DateTimeColumn)]
     else if name = ''case_events'' then
       [(''id'', UuidColumn), (''case_id'', UuidColumn)] @ plain_columns [''event_type'', ''source'', ''event_data''] @
       [(''created_at'', DateTimeColumn)]
     else if name = ''strategy_proposals'' then
       [(''id'', UuidColumn), (''case_id'', UuidColumn)] @
       plain_columns [''assessment_fingerprint'', ''strategy_input_fingerprint'', ''source'', ''action'', ''reason_code'',
         ''explanation'', ''confidence'', ''re_evaluate_after_seconds'', ''prompt_version'', ''model'',
         ''provider_response_id'', ''input_tokens'', ''output_tokens'', ''total_tokens'', ''latency_ms''] @
       [(''created_at'', DateTimeColumn), (''superseded_at'', DateTimeColumn)]
     else if name = ''policy_decisions'' then
       [(''id'', UuidColumn), (''case_id'', UuidColumn), (''strategy_proposal_id'', UuidColumn),
        (''merchant_policy_id'', UuidColumn)] @
       plain_columns [''strategy_input_fingerprint'', ''policy_fingerprint'', ''authorization_input_fingerprint'', ''result'',
         ''reason_code'', ''explanation''] @
       [(''recovery_window_ends_at'', DateTimeColumn)] @
       plain_columns [''approval_threshold_minor'', ''high_value_threshold_minor'', ''observed_high_value'',
         ''observed_amount_minor'', ''observed_attempt_count'', ''observed_contact_attempt_count''] @
       [(''evaluated_at'', DateTimeColumn), (''superseded_at'', DateTimeColumn)]
     else if name = ''approval_requests'' then
       [(''id'', UuidColumn), (''case_id'', UuidColumn), (''policy_decision_id'', UuidColumn), (''status'', OtherColumn),
        (''requested_at'', DateTimeColumn), (''decided_at'', DateTimeColumn)] @
       plain_columns [''decided_by'', ''decision_note''] @ [(''created_at'', DateTimeColumn)]
     else if name = ''recovery_actions'' then
       [(''id'', UuidColumn), (''case_id'', UuidColumn), (''strategy_proposal_id'', UuidColumn),
        (''policy_decision_id'', UuidColumn), (''approval_request_id'', UuidColumn)] @
       plain_columns [''action'', ''execution_status'', ''idempotency_key'', ''request_fingerprint'', ''provider'',
         ''external_reference_id'', ''external_reference'', ''external_status'', ''external_url''] @
       [(''external_expires_at'', DateTimeColumn), (''execution_started_at'', DateTimeColumn),
        (''execution_attempt_count'', OtherColumn), (''executed_at'', DateTimeColumn), (''failed_at'', DateTimeColumn),
        (''error_code'', OtherColumn), (''next_evaluation_at'', DateTimeColumn), (''created_at'', DateTimeColumn),
        (''updated_at'', DateTimeColumn)]
     else if name = ''recovery_outcome_observations'' then
       [(''id'', UuidColumn), (''case_id'', UuidColumn), (''recovery_action_id'', UuidColumn)] @
       plain_columns [''source'', ''provider'', ''provider_mode'', ''provider_status'', ''outcome_status'',
         ''amount_expected_minor'', ''amount_paid_minor'', ''currency'', ''provider_payment_id'',
         ''provider_payment_status'', ''evidence_fingerprint''] @
       [(''observed_at'', DateTimeColumn), (''created_at'', DateTimeColumn)]
     else if name = ''recovery_attributions'' then
       [(''id'', UuidColumn), (''case_id'', UuidColumn), (''recovery_action_id'', UuidColumn),
        (''outcome_observation_id'', UuidColumn)] @
       plain_columns [''provider'', ''provider_mode'', ''provider_payment_link_id'', ''provider_reference_id'',
         ''provider_payment_id'', ''recovered_amount_minor'', ''currency'', ''attribution_reason_code'',
         ''evidence_fingerprint''] @
       [(''attributed_at'', DateTimeColumn), (''created_at'', DateTimeColumn)]
     else [])"

fun assert_model_field_coverage :: "string list \<Rightarrow> bundle_error + unit" where
  "assert_model_field_coverage [] = Inr ()"
| "assert_model_field_coverage (name # names) =
    (if set (map fst (model_columns name)) \<noteq> set (entity_fields name)
     then Inl (PublicDemoBundleError (''Export field review is stale for '' @ name))
     else assert_model_field_coverage names)"

lemma field_coverage: "assert_model_field_coverage ENTITY_NAMES = Inr ()"
  by code_simp

section \<open>Rows as column values\<close>

text \<open>
  A column value: a \<open>datetime\<close>, a \<open>UUID\<close>, or a value that is JSON as it stands (\<open>None\<close> is null, an
  enum member its value). \<open>server_columns\<close> gives the columns that the rows of the model do not hold:
  \<open>created_at\<close> and \<open>updated_at\<close> by table and key, and the key and time of a case event by its position.
\<close>

datatype column_value = CTime py_datetime | CUuid uuid | CPlain json

type_synonym column_row = "(string \<times> column_value) list"

record server_columns =
  sv_created :: "string \<Rightarrow> uuid \<Rightarrow> py_datetime"
  sv_updated :: "string \<Rightarrow> uuid \<Rightarrow> py_datetime"
  sv_event_id :: "nat \<Rightarrow> uuid"
  sv_event_created :: "nat \<Rightarrow> py_datetime"

definition text_column :: "string \<Rightarrow> column_value" where
  "text_column s = CPlain (JStr s)"

definition int_column :: "int \<Rightarrow> column_value" where
  "int_column i = CPlain (JInt i)"

definition nullable :: "('a \<Rightarrow> column_value) \<Rightarrow> 'a option \<Rightarrow> column_value" where
  "nullable f v = (case v of None \<Rightarrow> CPlain JNull | Some x \<Rightarrow> f x)"

definition policy_columns :: "server_columns \<Rightarrow> merchant_policy \<Rightarrow> column_row" where
  "policy_columns V r =
    [(''id'', CUuid (mp_id r)),
     (''merchant_id'', text_column (mp_merchant_id r)),
     (''automation_enabled'', CPlain (mp_automation_enabled r)),
     (''allowed_actions'', CPlain (mp_allowed_actions r)),
     (''max_automated_attempts'', CPlain (mp_max_automated_attempts r)),
     (''max_contact_attempts'', CPlain (mp_max_contact_attempts r)),
     (''recovery_window_minutes'', CPlain (mp_recovery_window_minutes r)),
     (''high_value_threshold_minor'', CPlain (mp_high_value_threshold_minor r)),
     (''require_approval_above_minor'', CPlain (mp_require_approval_above_minor r)),
     (''stopping_rules'', CPlain (mp_stopping_rules r)),
     (''created_at'', CTime (sv_created V ''merchant_policies'' (mp_id r))),
     (''updated_at'', CTime (sv_updated V ''merchant_policies'' (mp_id r)))]"

definition case_columns :: "server_columns \<Rightarrow> payment_case \<Rightarrow> column_row" where
  "case_columns V r =
    [(''id'', CUuid (pc_id r)),
     (''case_reference'', text_column (pc_case_reference r)),
     (''merchant_id'', text_column (pc_merchant_id r)),
     (''payment_id'', nullable text_column (pc_payment_id r)),
     (''subscription_id'', nullable text_column (pc_subscription_id r)),
     (''razorpay_payment_status'', nullable text_column (pc_razorpay_payment_status r)),
     (''razorpay_subscription_status'', nullable text_column (pc_razorpay_subscription_status r)),
     (''razorpay_payment_method'', nullable text_column (pc_razorpay_payment_method r)),
     (''customer_id'', nullable text_column (pc_customer_id r)),
     (''amount'', nullable int_column (pc_amount r)),
     (''currency'', nullable text_column (pc_currency r)),
     (''current_state'', text_column (case_state_value (pc_current_state r))),
     (''error_code'', nullable text_column (pc_error_code r)),
     (''error_description'', nullable text_column (pc_error_description r)),
     (''error_source'', nullable text_column (pc_error_source r)),
     (''error_step'', nullable text_column (pc_error_step r)),
     (''error_reason'', nullable text_column (pc_error_reason r)),
     (''eligibility_status'', nullable (\<lambda>v. text_column (eligibility_value v)) (pc_eligibility_status r)),
     (''eligibility_reason_code'', nullable text_column (pc_eligibility_reason_code r)),
     (''eligibility_evaluated_at'', nullable CTime (pc_eligibility_evaluated_at r)),
     (''failure_category'', nullable (\<lambda>v. text_column (failure_category_value v)) (pc_failure_category r)),
     (''recovery_disposition'', nullable (\<lambda>v. text_column (disposition_value v)) (pc_recovery_disposition r)),
     (''diagnosis_reason_code'', nullable text_column (pc_diagnosis_reason_code r)),
     (''diagnosed_at'', nullable CTime (pc_diagnosed_at r)),
     (''assessment_fingerprint'', nullable text_column (pc_assessment_fingerprint r)),
     (''attempt_count'', int_column (pc_attempt_count r)),
     (''contact_attempt_count'', int_column (pc_contact_attempt_count r)),
     (''detected_at'', CTime (pc_detected_at r)),
     (''last_reconciled_at'', nullable CTime (pc_last_reconciled_at r)),
     (''resolved_at'', nullable CTime (pc_resolved_at r)),
     (''created_at'', CTime (sv_created V ''payment_cases'' (pc_id r))),
     (''updated_at'', CTime (sv_updated V ''payment_cases'' (pc_id r)))]"

definition event_columns :: "server_columns \<Rightarrow> nat \<times> case_event \<Rightarrow> column_row" where
  "event_columns V e =
    [(''id'', CUuid (sv_event_id V (fst e))),
     (''case_id'', CUuid (ce_case_id (snd e))),
     (''event_type'', text_column (ce_event_type (snd e))),
     (''source'', text_column (ce_source (snd e))),
     (''event_data'', CPlain (ce_event_data (snd e))),
     (''created_at'', CTime (sv_event_created V (fst e)))]"

definition proposal_columns :: "server_columns \<Rightarrow> strategy_proposal \<Rightarrow> column_row" where
  "proposal_columns V r =
    [(''id'', CUuid (sp_id r)),
     (''case_id'', CUuid (sp_case_id r)),
     (''assessment_fingerprint'', text_column (sp_assessment_fingerprint r)),
     (''strategy_input_fingerprint'', text_column (sp_strategy_input_fingerprint r)),
     (''source'', text_column (strategy_source_value (sp_source r))),
     (''action'', text_column (action_value (sp_action r))),
     (''reason_code'', text_column (sp_reason_code r)),
     (''explanation'', text_column (sp_explanation r)),
     (''confidence'', nullable (\<lambda>v. CPlain (JFloat v)) (sp_confidence r)),
     (''re_evaluate_after_seconds'', nullable int_column (sp_re_evaluate_after_seconds r)),
     (''prompt_version'', text_column (sp_prompt_version r)),
     (''model'', nullable text_column (sp_model r)),
     (''provider_response_id'', nullable text_column (sp_provider_response_id r)),
     (''input_tokens'', nullable int_column (sp_input_tokens r)),
     (''output_tokens'', nullable int_column (sp_output_tokens r)),
     (''total_tokens'', nullable int_column (sp_total_tokens r)),
     (''latency_ms'', nullable int_column (sp_latency_ms r)),
     (''created_at'', CTime (sv_created V ''strategy_proposals'' (sp_id r))),
     (''superseded_at'', nullable CTime (sp_superseded_at r))]"

definition decision_columns :: "server_columns \<Rightarrow> policy_decision \<Rightarrow> column_row" where
  "decision_columns V r =
    [(''id'', CUuid (pd_id r)),
     (''case_id'', CUuid (pd_case_id r)),
     (''strategy_proposal_id'', CUuid (pd_strategy_proposal_id r)),
     (''merchant_policy_id'', nullable CUuid (pd_merchant_policy_id r)),
     (''strategy_input_fingerprint'', text_column (pd_strategy_input_fingerprint r)),
     (''policy_fingerprint'', text_column (pd_policy_fingerprint r)),
     (''authorization_input_fingerprint'', text_column (pd_authorization_input_fingerprint r)),
     (''result'', text_column (policy_result_value (pd_result r))),
     (''reason_code'', text_column (pd_reason_code r)),
     (''explanation'', text_column (pd_explanation r)),
     (''recovery_window_ends_at'', nullable CTime (pd_recovery_window_ends_at r)),
     (''approval_threshold_minor'', nullable int_column (pd_approval_threshold_minor r)),
     (''high_value_threshold_minor'', nullable int_column (pd_high_value_threshold_minor r)),
     (''observed_high_value'', nullable (\<lambda>v. CPlain (JBool v)) (pd_observed_high_value r)),
     (''observed_amount_minor'', nullable int_column (pd_observed_amount_minor r)),
     (''observed_attempt_count'', int_column (pd_observed_attempt_count r)),
     (''observed_contact_attempt_count'', int_column (pd_observed_contact_attempt_count r)),
     (''evaluated_at'', CTime (pd_evaluated_at r)),
     (''superseded_at'', nullable CTime (pd_superseded_at r))]"

definition approval_columns :: "server_columns \<Rightarrow> approval_request \<Rightarrow> column_row" where
  "approval_columns V r =
    [(''id'', CUuid (ar_id r)),
     (''case_id'', CUuid (ar_case_id r)),
     (''policy_decision_id'', CUuid (ar_policy_decision_id r)),
     (''status'', text_column (approval_status_value (ar_status r))),
     (''requested_at'', CTime (ar_requested_at r)),
     (''decided_at'', nullable CTime (ar_decided_at r)),
     (''decided_by'', nullable text_column (ar_decided_by r)),
     (''decision_note'', nullable text_column (ar_decision_note r)),
     (''created_at'', CTime (sv_created V ''approval_requests'' (ar_id r)))]"

definition action_columns :: "server_columns \<Rightarrow> recovery_action \<Rightarrow> column_row" where
  "action_columns V r =
    [(''id'', CUuid (ra_id r)),
     (''case_id'', CUuid (ra_case_id r)),
     (''strategy_proposal_id'', CUuid (ra_strategy_proposal_id r)),
     (''policy_decision_id'', CUuid (ra_policy_decision_id r)),
     (''approval_request_id'', nullable CUuid (ra_approval_request_id r)),
     (''action'', text_column (action_value (ra_action r))),
     (''execution_status'', text_column (execution_status_value (ra_execution_status r))),
     (''idempotency_key'', text_column (ra_idempotency_key r)),
     (''request_fingerprint'', text_column (ra_request_fingerprint r)),
     (''provider'', text_column (ra_provider r)),
     (''external_reference_id'', nullable text_column (ra_external_reference_id r)),
     (''external_reference'', nullable text_column (ra_external_reference r)),
     (''external_status'', nullable text_column (ra_external_status r)),
     (''external_url'', nullable text_column (ra_external_url r)),
     (''external_expires_at'', nullable CTime (ra_external_expires_at r)),
     (''execution_started_at'', nullable CTime (ra_execution_started_at r)),
     (''execution_attempt_count'', int_column (ra_execution_attempt_count r)),
     (''executed_at'', nullable CTime (ra_executed_at r)),
     (''failed_at'', nullable CTime (ra_failed_at r)),
     (''error_code'', nullable text_column (ra_error_code r)),
     (''next_evaluation_at'', nullable CTime (ra_next_evaluation_at r)),
     (''created_at'', CTime (sv_created V ''recovery_actions'' (ra_id r))),
     (''updated_at'', CTime (sv_updated V ''recovery_actions'' (ra_id r)))]"

definition observation_columns :: "server_columns \<Rightarrow> outcome_observation \<Rightarrow> column_row" where
  "observation_columns V r =
    [(''id'', CUuid (ro_id r)),
     (''case_id'', CUuid (ro_case_id r)),
     (''recovery_action_id'', CUuid (ro_recovery_action_id r)),
     (''source'', text_column (observation_source_value (ro_source r))),
     (''provider'', text_column (ro_provider r)),
     (''provider_mode'', text_column (provider_mode_value (ro_provider_mode r))),
     (''provider_status'', text_column (ro_provider_status r)),
     (''outcome_status'', text_column (outcome_status_value (ro_outcome_status r))),
     (''amount_expected_minor'', int_column (ro_amount_expected_minor r)),
     (''amount_paid_minor'', int_column (ro_amount_paid_minor r)),
     (''currency'', text_column (ro_currency r)),
     (''provider_payment_id'', nullable text_column (ro_provider_payment_id r)),
     (''provider_payment_status'', nullable text_column (ro_provider_payment_status r)),
     (''evidence_fingerprint'', text_column (ro_evidence_fingerprint r)),
     (''observed_at'', CTime (ro_observed_at r)),
     (''created_at'', CTime (ro_created_at r))]"

definition attribution_columns :: "server_columns \<Rightarrow> recovery_attribution \<Rightarrow> column_row" where
  "attribution_columns V r =
    [(''id'', CUuid (at_id r)),
     (''case_id'', CUuid (at_case_id r)),
     (''recovery_action_id'', CUuid (at_recovery_action_id r)),
     (''outcome_observation_id'', CUuid (at_outcome_observation_id r)),
     (''provider'', text_column (at_provider r)),
     (''provider_mode'', text_column (provider_mode_value (at_provider_mode r))),
     (''provider_payment_link_id'', text_column (at_provider_payment_link_id r)),
     (''provider_reference_id'', text_column (at_provider_reference_id r)),
     (''provider_payment_id'', text_column (at_provider_payment_id r)),
     (''recovered_amount_minor'', int_column (at_recovered_amount_minor r)),
     (''currency'', text_column (at_currency r)),
     (''attribution_reason_code'', text_column (at_attribution_reason_code r)),
     (''evidence_fingerprint'', text_column (at_evidence_fingerprint r)),
     (''attributed_at'', CTime (at_attributed_at r)),
     (''created_at'', CTime (sv_created V ''recovery_attributions'' (at_id r)))]"

text \<open>Every row has the reviewed fields, in their order.\<close>

lemma columns_keys:
  "map fst (policy_columns V p) = entity_fields ''merchant_policies''"
  "map fst (case_columns V c) = entity_fields ''payment_cases''"
  "map fst (event_columns V e) = entity_fields ''case_events''"
  "map fst (proposal_columns V sp) = entity_fields ''strategy_proposals''"
  "map fst (decision_columns V d) = entity_fields ''policy_decisions''"
  "map fst (approval_columns V a) = entity_fields ''approval_requests''"
  "map fst (action_columns V r) = entity_fields ''recovery_actions''"
  "map fst (observation_columns V ob) = entity_fields ''recovery_outcome_observations''"
  "map fst (attribution_columns V t) = entity_fields ''recovery_attributions''"
  by (simp_all add: policy_columns_def case_columns_def event_columns_def proposal_columns_def
      decision_columns_def approval_columns_def action_columns_def observation_columns_def
      attribution_columns_def entity_fields_def ENTITY_SPECS_def)

section \<open>Column values as JSON\<close>

text \<open>\<open>str(d)\<close> of a datetime is its ISO text with a blank for the \<open>T\<close>.\<close>

definition dt_str :: "py_datetime \<Rightarrow> string" where
  "dt_str d = map (\<lambda>c. if c = CHR ''T'' then CHR '' '' else c) (dt_isoformat d)"

fun json_value :: "column_value \<Rightarrow> json" where
  "json_value (CTime d) = JStr (dt_str d)"
| "json_value (CUuid u) = JStr (uuid_str u)"
| "json_value (CPlain v) = v"

definition json_record :: "column_row \<Rightarrow> (string \<times> json) list" where
  "json_record row = map (\<lambda>(f, v). (f, json_value v)) row"

section \<open>Reading identifiers and times\<close>

text \<open>
  \<open>UUID(text)\<close> of the standard library: the prefixes \<open>urn:\<close> and \<open>uuid:\<close>, outer braces and hyphens
  are removed, 32 characters must remain, and \<open>int(text, 16)\<close> reads them, which admits surrounding blanks,
  a sign, the prefix \<open>0x\<close> and single underscores between digits.
\<close>

function remove_text :: "string \<Rightarrow> string \<Rightarrow> string" where
  "remove_text p [] = []"
| "remove_text p (c # cs) =
     (if p \<noteq> [] \<and> take (length p) (c # cs) = p then remove_text p (drop (length p) (c # cs))
      else c # remove_text p cs)"
  by pat_completeness auto
termination
  by (relation "measure (\<lambda>(p, s). length s)") auto

definition hex_value :: "char \<Rightarrow> int option" where
  "hex_value c = (let n = py_ord c in
     if 48 \<le> n \<and> n \<le> 57 then Some (n - 48)
     else if 97 \<le> n \<and> n \<le> 102 then Some (n - 87)
     else if 65 \<le> n \<and> n \<le> 70 then Some (n - 55)
     else None)"

text \<open>The digits so far, and whether an underscore or the end may follow.\<close>

fun hex_digits :: "int \<Rightarrow> bool \<Rightarrow> string \<Rightarrow> int option" where
  "hex_digits acc after_digit [] = (if after_digit then Some acc else None)"
| "hex_digits acc after_digit (c # cs) =
     (if c = CHR ''_'' then (if after_digit then hex_digits acc False cs else None)
      else (case hex_value c of None \<Rightarrow> None | Some d \<Rightarrow> hex_digits (acc * 16 + d) True cs))"

definition int_base_16 :: "string \<Rightarrow> int option" where
  "int_base_16 text =
    (let s = py_strip text;
         negative = take 1 s = ''-'';
         body = (if take 1 s = ''-'' \<or> take 1 s = ''+'' then drop 1 s else s);
         digits = (if take 2 body = ''0x'' \<or> take 2 body = ''0X''
           then (if take 1 (drop 2 body) = ''_'' then drop 3 body else drop 2 body) else body)
     in map_option (\<lambda>n. if negative then - n else n) (hex_digits 0 False digits))"

definition parse_uuid :: "string \<Rightarrow> uuid option" where
  "parse_uuid text =
    (let bare = remove_text ''uuid:'' (remove_text ''urn:'' text);
         inner = rev (dropWhile (\<lambda>c. c \<in> set ''{}'') (rev (dropWhile (\<lambda>c. c \<in> set ''{}'') bare)));
         h = filter (\<lambda>c. c \<noteq> CHR ''-'') inner
     in if length h \<noteq> 32 then None
        else (case int_base_16 h of None \<Rightarrow> None
          | Some n \<Rightarrow> if 0 \<le> n \<and> n < 2 ^ 128 then Some (word_of_int n) else None))"

lemma remove_text_absent: "x \<in> set p \<Longrightarrow> x \<notin> set s \<Longrightarrow> remove_text p s = s"
proof (induction p s rule: remove_text.induct)
  case (2 p c cs)
  have "take (length p) (c # cs) \<noteq> p"
    using 2(3,4) by (metis in_set_takeD)
  with 2 show ?case by simp
qed simp

lemma hex_cases: "0 \<le> d \<Longrightarrow> d < 16 \<Longrightarrow> d \<in> {0, 1, 2, 3, 4, 5, 6, 7, 8, 9, 10, 11, 12, 13, 14, 15}" for d :: int
  by (simp only: insert_iff empty_iff) presburger

lemma hex_value_digit: "0 \<le> d \<Longrightarrow> d < 16 \<Longrightarrow> hex_value (digit d) = Some d"
  using hex_cases [of d] by (auto simp: digit_def hex_value_def py_ord_def)

lemma hex_chars: "set (hex_fixed w n) \<subseteq> set ''0123456789abcdef''"
proof (induction w arbitrary: n)
  case (Suc w)
  have "digit (n mod 16) \<in> set ''0123456789abcdef''"
    using hex_cases [of "n mod 16"] by (auto simp: digit_def)
  with Suc show ?case by simp
qed simp

lemma hex_value_chars: "c \<in> set ''0123456789abcdef'' \<Longrightarrow> c \<noteq> CHR ''_'' \<and> (\<exists>d. hex_value c = Some d)"
  by (auto simp: hex_value_def py_ord_def)

lemma hex_digits_fold:
  "set s \<subseteq> set ''0123456789abcdef'' \<Longrightarrow> s \<noteq> [] \<or> b \<Longrightarrow>
     hex_digits acc b s = Some (foldl (\<lambda>a c. a * 16 + the (hex_value c)) acc s)"
proof (induction s arbitrary: acc b)
  case (Cons c s)
  then obtain d where "hex_value c = Some d" "c \<noteq> CHR ''_''" using hex_value_chars [of c] by auto
  with Cons show ?case by simp
qed simp

lemma hex_fixed_value:
  "0 \<le> n \<Longrightarrow> n < 16 ^ w \<Longrightarrow> foldl (\<lambda>a c. a * 16 + the (hex_value c)) 0 (hex_fixed w n) = n"
proof (induction w arbitrary: n)
  case (Suc w)
  have "n div 16 < 16 ^ w" using Suc.prems by (simp add: div_less_iff_less_mult)
  with Suc have "foldl (\<lambda>a c. a * 16 + the (hex_value c)) 0 (hex_fixed w (n div 16)) = n div 16" by simp
  moreover have "hex_value (digit (n mod 16)) = Some (n mod 16)" by (rule hex_value_digit) simp_all
  ultimately show ?case by simp
qed simp

lemma dropWhile_none: "\<forall>c \<in> set s. \<not> P c \<Longrightarrow> dropWhile P s = s"
  by (cases s) auto

lemma py_strip_plain: "\<forall>c \<in> set s. \<not> is_ws c \<Longrightarrow> py_strip s = s"
  by (simp add: py_strip_def dropWhile_none)

lemma uuid_hex_chars: "set (uuid_hex u) \<subseteq> set ''0123456789abcdef''"
  unfolding uuid_hex_def by (rule hex_chars)

lemma uuid_str_subset: "set (uuid_hex u) \<subseteq> H \<Longrightarrow> set (uuid_str u) \<subseteq> insert CHR ''-'' H"
  by (auto simp: uuid_str_def Let_def dest: in_set_takeD in_set_dropD)

lemma uuid_str_chars: "set (uuid_str u) \<subseteq> insert CHR ''-'' (set ''0123456789abcdef'')"
  by (rule uuid_str_subset [OF uuid_hex_chars])

lemma uuid_str_filter: "filter (\<lambda>c. c \<noteq> CHR ''-'') (uuid_str u) = uuid_hex u"
proof -
  have keep: "filter (\<lambda>c. c \<noteq> CHR ''-'') s = s" if "set s \<subseteq> set (uuid_hex u)" for s
    using that uuid_hex_chars [of u] by (intro filter_True) auto
  have sub: "set (take n (drop m (uuid_hex u))) \<subseteq> set (uuid_hex u)" "set (drop m (uuid_hex u)) \<subseteq> set (uuid_hex u)"
    for n m by (meson order_trans set_take_subset set_drop_subset)+
  show ?thesis
    using keep [OF sub(1) [of 8 0]] keep [OF sub(1) [of 4 8]] keep [OF sub(1) [of 4 12]] keep [OF sub(1) [of 4 16]]
      keep [OF sub(2) [of 20]] uuid_parts [of "uuid_hex u"]
    by (simp add: uuid_str_def Let_def)
qed

lemma int_base_16_hex:
  assumes "0 \<le> n" "n < 16 ^ w" "0 < w"
  shows "int_base_16 (hex_fixed w n) = Some n"
proof -
  let ?s = "hex_fixed w n"
  have chars: "set ?s \<subseteq> set ''0123456789abcdef''" by (rule hex_chars)
  then have "\<not> is_ws c" if "c \<in> set ?s" for c using that by (auto simp: is_ws_def py_ord_def)
  then have strip: "py_strip ?s = ?s" by (intro py_strip_plain) blast
  have part: "take k ?s \<noteq> t" if "c \<in> set t" "c \<notin> set ''0123456789abcdef''" for k t c
    using that chars set_take_subset [of k ?s] by blast
  have "take 1 ?s \<noteq> ''-''" "take 1 ?s \<noteq> ''+''" "take 2 ?s \<noteq> ''0x''" "take 2 ?s \<noteq> ''0X''"
    by (rule part [of "CHR ''-''"] part [of "CHR ''+''"] part [of "CHR ''x''"] part [of "CHR ''X''"]; simp)+
  moreover have "hex_digits 0 False ?s = Some n"
    using hex_digits_fold [OF chars, of False 0] hex_fixed_value [OF assms(1,2)] assms(3)
    by (metis length_hex_fixed list.size(3) less_nat_zero_code)
  ultimately show ?thesis by (simp only: int_base_16_def strip Let_def) simp
qed

lemma parse_uuid_str: "parse_uuid (uuid_str u) = Some u"
proof -
  have out: "CHR '':'' \<notin> set (uuid_str u)" "\<forall>c \<in> set (uuid_str u). c \<notin> set ''{}''"
    using uuid_str_chars [of u] by auto
  have plain: "remove_text ''uuid:'' (remove_text ''urn:'' (uuid_str u)) = uuid_str u"
    using out(1) by (simp add: remove_text_absent [where x = "CHR '':''"])
  have strip: "rev (dropWhile (\<lambda>c. c \<in> set ''{}'') (rev (dropWhile (\<lambda>c. c \<in> set ''{}'') (uuid_str u)))) = uuid_str u"
    using out(2) by (simp only: dropWhile_none set_rev rev_rev_ident)
  have "0 \<le> uint u" "uint u < 16 ^ 32" "uint u < 2 ^ 128" using uint_lt2p [of u] by simp_all
  then have "int_base_16 (uuid_hex u) = Some (uint u)" unfolding uuid_hex_def by (intro int_base_16_hex) simp_all
  with \<open>uint u < 2 ^ 128\<close> show ?thesis
    by (simp only: parse_uuid_def plain strip uuid_str_filter Let_def length_uuid_hex) simp
qed

section \<open>Decoding a record\<close>

text \<open>
  \<open>datetime.fromisoformat\<close> is the parameter \<open>fromiso\<close>. A value of another type than text makes it raise a
  \<open>TypeError\<close>, and \<open>UUID\<close> an \<open>AttributeError\<close>.
\<close>

definition decode_value :: "(string \<Rightarrow> py_datetime option) \<Rightarrow> column_kind \<Rightarrow> json \<Rightarrow> bundle_error + column_value" where
  "decode_value fromiso kind v =
    (if v = JNull then Inr (CPlain JNull)
     else (case kind of
        DateTimeColumn \<Rightarrow> (case v of
            JStr s \<Rightarrow> (case fromiso s of None \<Rightarrow> Inl BundleValueError | Some d \<Rightarrow> Inr (CTime d))
          | _ \<Rightarrow> Inl BundleTypeError)
      | UuidColumn \<Rightarrow> (case v of
            JStr s \<Rightarrow> (case parse_uuid s of None \<Rightarrow> Inl BundleValueError | Some u \<Rightarrow> Inr (CUuid u))
          | _ \<Rightarrow> Inl BundleAttributeError)
      | OtherColumn \<Rightarrow> Inr (CPlain v)))"

definition decode_record ::
  "(string \<Rightarrow> py_datetime option) \<Rightarrow> string \<Rightarrow> (string \<times> json) list \<Rightarrow> bundle_error + column_row" where
  "decode_record fromiso name record =
    smap (\<lambda>f. (case map_of record f of None \<Rightarrow> Inl BundleKeyError
      | Some v \<Rightarrow> (case map_of (model_columns name) f of None \<Rightarrow> Inl BundleKeyError
          | Some kind \<Rightarrow> sbind (decode_value fromiso kind v) (\<lambda>c. Inr (f, c))))) (entity_fields name)"

text \<open>A row whose values fit their columns, with times that \<open>fromiso\<close> reads back.\<close>

fun fits :: "(string \<Rightarrow> py_datetime option) \<Rightarrow> column_kind \<Rightarrow> column_value \<Rightarrow> bool" where
  "fits fromiso kind (CTime d) \<longleftrightarrow> kind = DateTimeColumn \<and> fromiso (dt_str d) = Some d"
| "fits fromiso kind (CUuid u) \<longleftrightarrow> kind = UuidColumn"
| "fits fromiso kind (CPlain v) \<longleftrightarrow> v = JNull \<or> kind = OtherColumn"

definition row_fits :: "(string \<Rightarrow> py_datetime option) \<Rightarrow> string \<Rightarrow> column_row \<Rightarrow> bool" where
  "row_fits fromiso name row \<longleftrightarrow> map fst row = entity_fields name \<and>
     list_all (\<lambda>(f, v). (case map_of (model_columns name) f of None \<Rightarrow> False | Some kind \<Rightarrow> fits fromiso kind v)) row"

lemma decode_json_value: "fits fromiso kind v \<Longrightarrow> decode_value fromiso kind (json_value v) = Inr v"
  by (cases v) (auto simp: decode_value_def parse_uuid_str split: column_kind.splits)

lemma decode_json_record:
  assumes "row_fits fromiso name row" "distinct (entity_fields name)" "map_of record = map_of (json_record row)"
  shows "decode_record fromiso name record = Inr row"
proof -
  have d: "distinct (map fst row)" and keys: "entity_fields name = map fst row"
    using assms(1,2) by (simp_all add: row_fits_def)
  have field: "map_of record f = Some (json_value v)" if "(f, v) \<in> set row" for f v
    using that d by (simp add: assms(3) json_record_def map_of_map) 
  have "decode_record fromiso name record = Inr (map (\<lambda>f. (f, the (map_of row f))) (map fst row))"
    unfolding decode_record_def keys
  proof (rule smap_all_Inr)
    fix f assume "f \<in> set (map fst row)"
    then obtain v where v: "(f, v) \<in> set row" by auto
    with assms(1) obtain kind where "map_of (model_columns name) f = Some kind" "fits fromiso kind v"
      by (force simp: row_fits_def list_all_iff split: option.splits)
    with v d field [OF v] show "(case map_of record f of None \<Rightarrow> Inl BundleKeyError
      | Some v \<Rightarrow> (case map_of (model_columns name) f of None \<Rightarrow> Inl BundleKeyError
          | Some kind \<Rightarrow> sbind (decode_value fromiso kind v) (\<lambda>c. Inr (f, c)))) = Inr (f, the (map_of row f))"
      by (simp add: decode_json_value)
  qed
  also have "map (\<lambda>f. (f, the (map_of row f))) (map fst row) = row"
    using d by (simp only: map_map) (auto intro: map_idI)
  finally show ?thesis .
qed

end
