(* ===== verification/Arc_Demo_Export.thy ===== *)
theory Arc_Demo_Export
  imports Arc_Demo_Columns Arc_Policy "HOL-Library.Sublist"
begin

text \<open>
  The export half of \<open>arc/deployment/public_demo_bundle.py\<close>: the selection of the accepted evidence,
  the rows with their private columns replaced, the check of the rendered export, and the bundle with
  its checksum. The claims: the exported records depend on nothing but a pseudonymous view of the
  database, and the evidence of a recovery stays connected under the replacements.
\<close>

section \<open>Selecting the evidence\<close>

definition OPENAI_EVIDENCE_SCENARIO :: string where
  "OPENAI_EVIDENCE_SCENARIO = ''OPENAI_SYNTHETIC_HIGH_VALUE''"

definition OPENAI_EVIDENCE_CASE_REFERENCE :: string where
  "OPENAI_EVIDENCE_CASE_REFERENCE = ''openai_evidence_high_value_v1''"

definition HIGH_VALUE_APPROVAL :: string where
  "HIGH_VALUE_APPROVAL = ''HIGH_VALUE_APPROVAL''"

definition ALREADY_CAPTURED_PROTECTION :: string where
  "ALREADY_CAPTURED_PROTECTION = ''ALREADY_CAPTURED_PROTECTION''"

definition HARD_STOP_ATTENTION :: string where
  "HARD_STOP_ATTENTION = ''HARD_STOP_ATTENTION''"

text \<open>The reserved keys, sorted.\<close>

definition RESERVED_DEMO_SCENARIO_KEYS :: "string list" where
  "RESERVED_DEMO_SCENARIO_KEYS = [ALREADY_CAPTURED_PROTECTION, HARD_STOP_ATTENTION, HIGH_VALUE_APPROVAL]"

record evidence_selection =
  es_case_ids :: "uuid list"
  es_policy_ids :: "uuid list"
  es_sensitive_values :: "string list"
  es_merchants :: "(string \<times> string) list"
  es_case_references :: "(string \<times> string) list"
  es_payments :: "(string \<times> string) list"
  es_subscriptions :: "(string \<times> string) list"

text \<open>
  \<open>marker.event_data.get("scenario_key")\<close> as a key of a dictionary: a list or an object is not
  hashable.
\<close>

definition scenario_key :: "case_event \<Rightarrow> bundle_error + json" where
  "scenario_key e = (case ce_event_data e of
     JObj kvs \<Rightarrow> (case map_of kvs ''scenario_key'' of
         None \<Rightarrow> Inr JNull
       | Some (JArr vs) \<Rightarrow> Inl BundleTypeError
       | Some (JObj ws) \<Rightarrow> Inl BundleTypeError
       | Some v \<Rightarrow> Inr v)
   | _ \<Rightarrow> Inl BundleAttributeError)"

text \<open>
  \<open>event_data == {"scenario_key": OPENAI_EVIDENCE_SCENARIO, "synthetic": True}\<close>; Python's \<open>True\<close>
  equals 1 and 1.0.
\<close>

definition openai_marker_data :: "json \<Rightarrow> bool" where
  "openai_marker_data data = (case data of
     JObj kvs \<Rightarrow> set (map fst kvs) = {''scenario_key'', ''synthetic''} \<and>
       map_of kvs ''scenario_key'' = Some (JStr OPENAI_EVIDENCE_SCENARIO) \<and>
       map_of kvs ''synthetic'' \<in> {Some (JBool True), Some (JInt 1), Some (JFloat ''1.0'')}
   | _ \<Rightarrow> False)"

definition count_actions :: "uuid list \<Rightarrow> arc_db \<Rightarrow> nat" where
  "count_actions ids db = length (filter (\<lambda>r. ra_case_id r \<in> set ids) (db_actions db))"

definition count_observations :: "uuid list \<Rightarrow> arc_db \<Rightarrow> nat" where
  "count_observations ids db = length (filter (\<lambda>r. ro_case_id r \<in> set ids) (db_observations db))"

definition count_attributions :: "uuid list \<Rightarrow> arc_db \<Rightarrow> nat" where
  "count_attributions ids db = length (filter (\<lambda>r. at_case_id r \<in> set ids) (db_attributions db))"

definition validate_provider_evidence :: "arc_db \<Rightarrow> payment_case \<Rightarrow> bundle_error + unit" where
  "validate_provider_evidence db c =
    (case (filter (\<lambda>r. ra_case_id r = pc_id c) (db_actions db),
           filter (\<lambda>r. ro_case_id r = pc_id c) (db_observations db),
           filter (\<lambda>r. at_case_id r = pc_id c) (db_attributions db)) of
       ([action], [ob], [t]) \<Rightarrow>
         if pc_current_state c \<noteq> CaseState.RECOVERED
           \<or> ro_provider_mode ob \<noteq> ProviderMode.TEST
           \<or> ro_outcome_status ob \<noteq> RecoveryOutcomeStatus.RECOVERED
           \<or> ro_provider_payment_status ob \<noteq> Some ''captured''
           \<or> ro_amount_expected_minor ob \<noteq> 1000
           \<or> ro_amount_paid_minor ob \<noteq> 1000
           \<or> ro_currency ob \<noteq> ''INR''
           \<or> at_recovered_amount_minor t \<noteq> 1000
           \<or> at_currency t \<noteq> ''INR''
           \<or> at_outcome_observation_id t \<noteq> ro_id ob
           \<or> at_recovery_action_id t \<noteq> ra_id action
         then Inl (PublicDemoBundleError ''Provider-backed evidence is incomplete'')
         else Inr ()
     | _ \<Rightarrow> Inl (PublicDemoBundleError ''Provider-backed evidence is incomplete''))"

definition validate_openai_evidence :: "arc_db \<Rightarrow> payment_case \<Rightarrow> bundle_error + unit" where
  "validate_openai_evidence db c =
    (case (filter (\<lambda>p. sp_case_id p = pc_id c \<and> sp_superseded_at p = None) (db_proposals db),
           filter (\<lambda>d. pd_case_id d = pc_id c \<and> pd_superseded_at d = None) (db_decisions db),
           filter (\<lambda>a. ar_case_id a = pc_id c \<and> ar_status a = ApprovalStatus.PENDING) (db_approvals db)) of
       ([p], [d], [a]) \<Rightarrow>
         if sp_source p \<noteq> StrategySource.AI
           \<or> sp_model p \<noteq> Some ''gpt-5.6-luna''
           \<or> sp_action p \<noteq> RecoveryAction.REQUEST_PAYMENT_METHOD_UPDATE
           \<or> sp_confidence p \<noteq> Some ''0.98''
           \<or> pd_result d \<noteq> PolicyDecisionResult.REQUIRES_APPROVAL
           \<or> pc_current_state c \<noteq> CaseState.POLICY_VALIDATED
           \<or> count_actions [pc_id c] db \<noteq> 0
           \<or> count_observations [pc_id c] db \<noteq> 0
           \<or> count_attributions [pc_id c] db \<noteq> 0
         then Inl (PublicDemoBundleError ''OpenAI evidence invariants are invalid'')
         else Inr ()
     | _ \<Rightarrow> Inl (PublicDemoBundleError ''OpenAI evidence invariants are invalid''))"

definition validate_offline_evidence ::
  "arc_db \<Rightarrow> payment_case \<Rightarrow> payment_case \<Rightarrow> payment_case \<Rightarrow> bundle_error + unit" where
  "validate_offline_evidence db high_value hard_stop captured =
    (let high_decision = find (\<lambda>d. pd_case_id d = pc_id high_value \<and> pd_superseded_at d = None) (db_decisions db);
         high_approval = find (\<lambda>a. ar_case_id a = pc_id high_value \<and> ar_status a = ApprovalStatus.PENDING)
           (db_approvals db);
         captured_signal = length (filter (\<lambda>e. ce_case_id e = pc_id captured \<and>
           ce_event_type e = ''RECONCILIATION_FOUND_ALREADY_CAPTURED'') (db_case_events db));
         ids = [pc_id high_value, pc_id hard_stop, pc_id captured]
     in if map_option pd_result high_decision \<noteq> Some PolicyDecisionResult.REQUIRES_APPROVAL
          \<or> high_approval = None
          \<or> pc_current_state hard_stop \<noteq> CaseState.EXHAUSTED
          \<or> pc_current_state captured \<noteq> CaseState.RECOVERED
          \<or> captured_signal = 0
          \<or> count_actions [pc_id hard_stop] db \<noteq> 0
          \<or> count_actions [pc_id captured] db \<noteq> 0
          \<or> count_observations ids db \<noteq> 0
          \<or> count_attributions ids db \<noteq> 0
        then Inl (PublicDemoBundleError ''Offline safety evidence is invalid'')
        else Inr ())"

definition collect_sensitive_values ::
  "arc_db \<Rightarrow> uuid list \<Rightarrow> string list \<Rightarrow> string list \<Rightarrow> string list \<Rightarrow> string list" where
  "collect_sensitive_values db ids merchants payments subscriptions =
    filter (\<lambda>v. v \<noteq> []) (merchants @ payments @ subscriptions
      @ List.map_filter pc_customer_id (filter (\<lambda>c. pc_id c \<in> set ids) (db_cases db))
      @ List.map_filter sp_provider_response_id (filter (\<lambda>p. sp_case_id p \<in> set ids) (db_proposals db))
      @ concat (map (\<lambda>r. List.map_filter id [ra_external_reference_id r, ra_external_reference r, ra_external_url r])
          (filter (\<lambda>r. ra_case_id r \<in> set ids) (db_actions db)))
      @ List.map_filter ro_provider_payment_id (filter (\<lambda>ob. ro_case_id ob \<in> set ids) (db_observations db)))
    @ concat (map (\<lambda>t. [at_provider_payment_link_id t, at_provider_reference_id t, at_provider_payment_id t])
        (filter (\<lambda>t. at_case_id t \<in> set ids) (db_attributions db)))"

text \<open>\<open>{value: f"<prefix>{index:03d}" for index, value in enumerate(values, start=1)}\<close>.\<close>

definition numbered :: "string \<Rightarrow> string list \<Rightarrow> (string \<times> string) list" where
  "numbered label values = map (\<lambda>(i, v). (v, label @ zero_pad 3 (int i))) (List.enumerate 1 values)"

definition sorted_values :: "string list \<Rightarrow> string list" where
  "sorted_values vs = sort (remdups vs)"

definition evidence_of :: "arc_db \<Rightarrow> payment_case \<Rightarrow> payment_case list \<Rightarrow> bundle_error + evidence_selection" where
  "evidence_of db provider_case selected =
    (let ids = remdups (map pc_id selected);
         policy_ids = remdups (List.map_filter pd_merchant_policy_id
           (filter (\<lambda>d. pd_case_id d \<in> set ids) (db_decisions db)));
         policies = filter (\<lambda>p. mp_id p \<in> set policy_ids) (db_policies db)
     in case smap validate_policy policies of
          Inl e \<Rightarrow> Inl (BundlePolicyError e)
        | Inr configurations \<Rightarrow>
            (let merchants = sorted_values (map pc_merchant_id selected @ map mp_merchant_id policies);
                 payments = sorted_values (List.map_filter pc_payment_id selected);
                 subscriptions = sorted_values (List.map_filter pc_subscription_id selected)
             in Inr \<lparr>es_case_ids = ids, es_policy_ids = policy_ids,
                  es_sensitive_values = pc_case_reference provider_case #
                    collect_sensitive_values db ids merchants payments subscriptions,
                  es_merchants = numbered ''public_demo_merchant_'' merchants,
                  es_case_references = [(pc_case_reference provider_case, ''public_demo_provider_recovery_v1'')],
                  es_payments = numbered ''public_demo_payment_'' payments,
                  es_subscriptions = numbered ''public_demo_subscription_'' subscriptions\<rparr>))"

definition select_provider_case :: "arc_db \<Rightarrow> uuid list \<Rightarrow> bundle_error + payment_case" where
  "select_provider_case db synthetic_ids =
    (case filter (\<lambda>t. at_provider_mode t = ProviderMode.TEST \<and> at_currency t = ''INR'' \<and>
             at_recovered_amount_minor t = 1000 \<and> at_case_id t \<notin> set synthetic_ids) (db_attributions db) of
       [t] \<Rightarrow> (case find_case (at_case_id t) db of
           None \<Rightarrow> Inl (PublicDemoBundleError ''Accepted provider case is missing'')
         | Some c \<Rightarrow> Inr c)
     | _ \<Rightarrow> Inl (PublicDemoBundleError ''Accepted provider attribution is invalid''))"

definition select_openai_case :: "arc_db \<Rightarrow> bundle_error + payment_case" where
  "select_openai_case db =
    (case filter is_input_marker (db_case_events db) of
       [marker] \<Rightarrow> (case find_case (ce_case_id marker) db of
           Some c \<Rightarrow> if pc_case_reference c = OPENAI_EVIDENCE_CASE_REFERENCE \<and> openai_marker_data (ce_event_data marker)
             then Inr c else Inl (PublicDemoBundleError ''OpenAI evidence identity is invalid'')
         | None \<Rightarrow> Inl (PublicDemoBundleError ''OpenAI evidence identity is invalid''))
     | _ \<Rightarrow> Inl (PublicDemoBundleError ''OpenAI evidence marker is invalid''))"

text \<open>The three offline scenarios in the order of the sorted keys; a later marker overrides an earlier one.\<close>

definition select_scenarios :: "arc_db \<Rightarrow> bundle_error + payment_case list" where
  "select_scenarios db =
    (let markers = filter is_demo_marker (db_case_events db)
     in sbind (smap (\<lambda>e. sbind (scenario_key e) (\<lambda>k. Inr (k, find_case (ce_case_id e) db))) markers) (\<lambda>pairs.
        let scenarios = map (\<lambda>k. case map_of (rev pairs) (JStr k) of Some (Some c) \<Rightarrow> Some c | _ \<Rightarrow> None)
              RESERVED_DEMO_SCENARIO_KEYS
        in if length markers \<noteq> 3 \<or> set (map fst pairs) \<noteq> set (map JStr RESERVED_DEMO_SCENARIO_KEYS)
             \<or> None \<in> set scenarios
           then Inl (PublicDemoBundleError ''Offline demo evidence is incomplete'')
           else Inr (List.map_filter id scenarios)))"

definition select_accepted_evidence :: "arc_db \<Rightarrow> bundle_error + evidence_selection" where
  "select_accepted_evidence db =
    sbind (select_scenarios db) (\<lambda>scenarios.
    sbind (select_openai_case db) (\<lambda>openai_case.
    sbind (select_provider_case db
      (map ce_case_id (filter is_demo_marker (db_case_events db) @ filter is_input_marker (db_case_events db))))
      (\<lambda>provider_case.
    let selected = provider_case # openai_case # scenarios in
    if length (remdups (map pc_id selected)) \<noteq> 5
    then Inl (PublicDemoBundleError ''Judge-facing case count must equal five'')
    else sbind (validate_provider_evidence db provider_case) (\<lambda>_.
      sbind (validate_openai_evidence db openai_case) (\<lambda>_.
      sbind (case scenarios of
          [captured, hard_stop, high_value] \<Rightarrow> validate_offline_evidence db high_value hard_stop captured
        | _ \<Rightarrow> Inl BundleKeyError) (\<lambda>_.
      evidence_of db provider_case selected))))))"

section \<open>Replacing the private columns\<close>

definition BUNDLE_VERSION :: string where
  "BUNDLE_VERSION = ''arc-public-demo-v1''"

definition synthetic_hash :: "(string \<Rightarrow> string) \<Rightarrow> string \<Rightarrow> uuid \<Rightarrow> string" where
  "synthetic_hash sha namespace u = sha (BUNDLE_VERSION @ '':'' @ namespace @ '':'' @ uuid_str u)"

definition short_hex :: "uuid \<Rightarrow> string" where
  "short_hex u = take 12 (uuid_hex u)"

text \<open>\<open>replacements[value]\<close> and \<open>replacements.get(value)\<close>.\<close>

definition replacement :: "(string \<times> string) list \<Rightarrow> string \<Rightarrow> bundle_error + string" where
  "replacement m v = (case map_of m v of None \<Rightarrow> Inl BundleKeyError | Some w \<Rightarrow> Inr w)"

definition replacement_get :: "(string \<times> string) list \<Rightarrow> string option \<Rightarrow> string option" where
  "replacement_get m v = (case v of None \<Rightarrow> None | Some x \<Rightarrow> map_of m x)"

fun json_scalar :: "json \<Rightarrow> bool" where
  "json_scalar (JArr vs) = False"
| "json_scalar (JObj kvs) = False"
| "json_scalar v = True"

definition allowed_event_keys :: "string \<Rightarrow> string list" where
  "allowed_event_keys event_type =
    (if event_type = DEMO_EVENT_TYPE \<or> event_type = OPENAI_EVIDENCE_EVENT_TYPE then [''scenario_key'', ''synthetic'']
     else if event_type = ''ELIGIBILITY_EVALUATED'' then [''eligibility_decision'', ''eligibility_reason'']
     else if event_type = ''FAILURE_DIAGNOSED'' \<or> event_type = ''FAILURE_REDIAGNOSED''
     then [''failure_category'', ''recovery_disposition'', ''diagnosis_reason'']
     else [])"

text \<open>
  \<open>key in event_data\<close> tests the keys of an object, the elements of an array and the substrings of a
  text, and raises on the other values; indexing anything but an object by a text raises as well.
\<close>

definition safe_case_event_data :: "string \<Rightarrow> json \<Rightarrow> bundle_error + json" where
  "safe_case_event_data event_type data =
    (let allowed = allowed_event_keys event_type in
     case data of
       JObj kvs \<Rightarrow> Inr (JObj (List.map_filter (\<lambda>k. case map_of kvs k of
           Some v \<Rightarrow> if json_scalar v then Some (k, v) else None | None \<Rightarrow> None) allowed))
     | JArr vs \<Rightarrow> if list_ex (\<lambda>k. JStr k \<in> set vs) allowed then Inl BundleTypeError else Inr (JObj [])
     | JStr s \<Rightarrow> if list_ex (\<lambda>k. sublist k s) allowed then Inl BundleTypeError else Inr (JObj [])
     | _ \<Rightarrow> if allowed = [] then Inr (JObj []) else Inl BundleTypeError)"

definition export_policy :: "server_columns \<Rightarrow> evidence_selection \<Rightarrow> merchant_policy \<Rightarrow> bundle_error + column_row" where
  "export_policy V S r =
    sbind (replacement (es_merchants S) (mp_merchant_id r)) (\<lambda>merchant.
      Inr (dict_put ''merchant_id'' (text_column merchant) (policy_columns V r)))"

definition export_case ::
  "(string \<Rightarrow> string) \<Rightarrow> server_columns \<Rightarrow> evidence_selection \<Rightarrow> payment_case \<Rightarrow> bundle_error + column_row" where
  "export_case sha V S r =
    (let reference = (case map_of (es_case_references S) (pc_case_reference r) of
           Some w \<Rightarrow> w | None \<Rightarrow> pc_case_reference r)
     in sbind (replacement (es_merchants S) (pc_merchant_id r)) (\<lambda>merchant.
      Inr (dict_update (case_columns V r)
        ([(''case_reference'', text_column reference),
          (''merchant_id'', text_column merchant),
          (''payment_id'', nullable text_column (replacement_get (es_payments S) (pc_payment_id r))),
          (''subscription_id'', nullable text_column (replacement_get (es_subscriptions S) (pc_subscription_id r))),
          (''customer_id'', CPlain JNull),
          (''error_description'', CPlain JNull)] @
         (if pc_assessment_fingerprint r \<noteq> None
          then [(''assessment_fingerprint'', text_column (synthetic_hash sha ''assessment'' (pc_id r)))] else [])))))"

definition export_event :: "server_columns \<Rightarrow> nat \<times> case_event \<Rightarrow> bundle_error + column_row" where
  "export_event V e =
    sbind (safe_case_event_data (ce_event_type (snd e)) (ce_event_data (snd e))) (\<lambda>data.
      Inr (dict_put ''event_data'' (CPlain data) (event_columns V e)))"

definition export_proposal :: "(string \<Rightarrow> string) \<Rightarrow> server_columns \<Rightarrow> strategy_proposal \<Rightarrow> column_row" where
  "export_proposal sha V r = dict_update (proposal_columns V r)
     ([(''assessment_fingerprint'', text_column (synthetic_hash sha ''strategy-assessment'' (sp_id r))),
       (''strategy_input_fingerprint'', text_column (synthetic_hash sha ''strategy-input'' (sp_id r)))] @
      (if sp_provider_response_id r \<noteq> None
       then [(''provider_response_id'', text_column (''public_demo_model_response_'' @ short_hex (sp_id r)))] else []))"

definition export_decision :: "(string \<Rightarrow> string) \<Rightarrow> server_columns \<Rightarrow> policy_decision \<Rightarrow> column_row" where
  "export_decision sha V r = dict_update (decision_columns V r)
     [(''strategy_input_fingerprint'', text_column (synthetic_hash sha ''policy-strategy-input'' (pd_id r))),
      (''policy_fingerprint'', text_column (synthetic_hash sha ''policy'' (pd_id r))),
      (''authorization_input_fingerprint'', text_column (synthetic_hash sha ''authorization-input'' (pd_id r)))]"

definition export_approval :: "server_columns \<Rightarrow> approval_request \<Rightarrow> column_row" where
  "export_approval V r = dict_update (approval_columns V r)
     [(''decided_by'', if ar_decided_at r \<noteq> None then text_column ''public_demo_operator'' else CPlain JNull),
      (''decision_note'', CPlain JNull)]"

definition export_action :: "(string \<Rightarrow> string) \<Rightarrow> server_columns \<Rightarrow> recovery_action \<Rightarrow> column_row" where
  "export_action sha V r = dict_update (action_columns V r)
     [(''idempotency_key'', text_column (synthetic_hash sha ''idempotency'' (ra_id r))),
      (''request_fingerprint'', text_column (synthetic_hash sha ''request'' (ra_id r))),
      (''external_reference_id'',
        if ra_external_reference_id r \<noteq> None then text_column (''public_demo_payment_link_'' @ short_hex (ra_id r))
        else CPlain JNull),
      (''external_reference'',
        if ra_external_reference r \<noteq> None then text_column (''public_demo_ref_'' @ short_hex (ra_id r))
        else CPlain JNull),
      (''external_url'', CPlain JNull)]"

definition export_observation :: "(string \<Rightarrow> string) \<Rightarrow> server_columns \<Rightarrow> outcome_observation \<Rightarrow> column_row" where
  "export_observation sha V r = dict_update (observation_columns V r)
     [(''provider_payment_id'',
        if ro_provider_payment_id r \<noteq> None
        then text_column (''public_demo_provider_payment_'' @ short_hex (ro_recovery_action_id r)) else CPlain JNull),
      (''evidence_fingerprint'', text_column (synthetic_hash sha ''outcome-evidence'' (ro_id r)))]"

definition export_attribution :: "(string \<Rightarrow> string) \<Rightarrow> server_columns \<Rightarrow> recovery_attribution \<Rightarrow> column_row" where
  "export_attribution sha V r =
    (let tail = short_hex (at_recovery_action_id r)
     in dict_update (attribution_columns V r)
     [(''provider_payment_link_id'', text_column (''public_demo_payment_link_'' @ tail)),
      (''provider_reference_id'', text_column (''public_demo_ref_'' @ tail)),
      (''provider_payment_id'', text_column (''public_demo_provider_payment_'' @ tail)),
      (''evidence_fingerprint'', text_column (synthetic_hash sha ''attribution-evidence'' (at_id r)))])"

text \<open>The rows of one entity that belong to the selection, with their replacements.\<close>

definition entity_rows ::
  "(string \<Rightarrow> string) \<Rightarrow> server_columns \<Rightarrow> evidence_selection \<Rightarrow> arc_db \<Rightarrow> string \<Rightarrow> bundle_error + column_row list" where
  "entity_rows sha V S db name =
    (let selected = set (es_case_ids S) in
     if name = ''merchant_policies''
     then smap (export_policy V S) (filter (\<lambda>p. mp_id p \<in> set (es_policy_ids S)) (db_policies db))
     else if name = ''payment_cases''
     then smap (export_case sha V S) (filter (\<lambda>c. pc_id c \<in> selected) (db_cases db))
     else if name = ''case_events''
     then smap (export_event V) (filter (\<lambda>e. ce_case_id (snd e) \<in> selected) (List.enumerate 0 (db_case_events db)))
     else if name = ''strategy_proposals''
     then Inr (map (export_proposal sha V) (filter (\<lambda>p. sp_case_id p \<in> selected) (db_proposals db)))
     else if name = ''policy_decisions''
     then Inr (map (export_decision sha V) (filter (\<lambda>d. pd_case_id d \<in> selected) (db_decisions db)))
     else if name = ''approval_requests''
     then Inr (map (export_approval V) (filter (\<lambda>a. ar_case_id a \<in> selected) (db_approvals db)))
     else if name = ''recovery_actions''
     then Inr (map (export_action sha V) (filter (\<lambda>r. ra_case_id r \<in> selected) (db_actions db)))
     else if name = ''recovery_outcome_observations''
     then Inr (map (export_observation sha V) (filter (\<lambda>ob. ro_case_id ob \<in> selected) (db_observations db)))
     else Inr (map (export_attribution sha V) (filter (\<lambda>t. at_case_id t \<in> selected) (db_attributions db))))"

text \<open>Every entity with its records, sorted by the text of their keys.\<close>

type_synonym bundle_entities = "(string \<times> (string \<times> json) list list) list"

definition id_text :: "(string \<times> json) list \<Rightarrow> string" where
  "id_text record = (case map_of record ''id'' of Some (JStr s) \<Rightarrow> s | _ \<Rightarrow> [])"

definition serialize_entities ::
  "(string \<Rightarrow> string) \<Rightarrow> server_columns \<Rightarrow> evidence_selection \<Rightarrow> arc_db \<Rightarrow> bundle_error + bundle_entities" where
  "serialize_entities sha V S db =
    smap (\<lambda>name. sbind (entity_rows sha V S db name) (\<lambda>rows.
      Inr (name, sort_key id_text (map json_record rows)))) ENTITY_NAMES"

section \<open>Checking the rendered export\<close>

text \<open>\<open>json.dumps(v, sort_keys=True)\<close> with the default separators.\<close>

fun spaced :: "string list \<Rightarrow> string" where
  "spaced [] = []"
| "spaced [x] = x"
| "spaced (x # xs) = x @ '', '' @ spaced xs"

fun json_show :: "json \<Rightarrow> string" where
  "json_show JNull = ''null''"
| "json_show (JBool b) = (if b then ''true'' else ''false'')"
| "json_show (JInt i) = int_str i"
| "json_show (JFloat r) = r"
| "json_show (JStr s) = json_string True s"
| "json_show (JArr vs) = CHR ''['' # spaced (map json_show vs) @ '']''"
| "json_show (JObj kvs) = CHR ''{'' # spaced (map (\<lambda>(k, v). json_string True k @ '': '' @ json_show v) kvs) @ ''}''"

definition entities_json :: "bundle_entities \<Rightarrow> json" where
  "entities_json es = JObj (map (\<lambda>(name, records). (name, JArr (map JObj records))) es)"

text \<open>The pattern \<open>\bsk-[A-Za-z0-9_-]{8,}\<close>; the flag tells whether the preceding character is a word's.\<close>

definition word_char :: "char \<Rightarrow> bool" where
  "word_char c \<longleftrightarrow> alnum_char c \<or> c = CHR ''_''"

fun credential_shaped :: "bool \<Rightarrow> string \<Rightarrow> bool" where
  "credential_shaped in_word [] = False"
| "credential_shaped in_word (c # cs) =
     (\<not> in_word \<and> prefix ''sk-'' (c # cs) \<and>
        8 \<le> length (takeWhile (\<lambda>d. word_char d \<or> d = CHR ''-'') (drop 3 (c # cs)))
      \<or> credential_shaped (word_char c) cs)"

definition quoted :: "string \<Rightarrow> string" where
  "quoted s = CHR 0x22 # s @ [CHR 0x22]"

text \<open>\<open>[0-9a-f]{64}\<close> matched against \<open>str(value)\<close>: only a text or an integer can match.\<close>

fun hash_text :: "json \<Rightarrow> bool" where
  "hash_text (JStr s) = sha256_hex s"
| "hash_text (JInt i) = sha256_hex (int_str i)"
| "hash_text v = False"

definition hashed_field :: "string \<Rightarrow> bool" where
  "hashed_field key \<longleftrightarrow> suffix ''fingerprint'' key \<or> key = ''idempotency_key''"

definition hashes_valid :: "(string \<times> json) list \<Rightarrow> bool" where
  "hashes_valid record \<longleftrightarrow> list_all (\<lambda>(key, v). hashed_field key \<longrightarrow> v = JNull \<or> hash_text v) record"

fun validate_hashes :: "bundle_entities \<Rightarrow> bundle_error + unit" where
  "validate_hashes [] = Inr ()"
| "validate_hashes ((name, records) # es) =
     (if list_all hashes_valid records then validate_hashes es
      else Inl (PublicDemoBundleError (''Invalid sanitized hash in '' @ name)))"

text \<open>Both callers give records that have the reviewed fields, so \<open>record["external_url"]\<close> exists.\<close>

definition has_payment_link_url :: "bundle_entities \<Rightarrow> bool" where
  "has_payment_link_url es = (case map_of es ''recovery_actions'' of None \<Rightarrow> False
     | Some records \<Rightarrow> list_ex (\<lambda>r. map_of r ''external_url'' \<noteq> Some JNull) records)"

definition validate_sanitized_entities :: "bundle_entities \<Rightarrow> string list \<Rightarrow> bundle_error + unit" where
  "validate_sanitized_entities es sensitive_values =
    (let rendered = json_show (json_canon (entities_json es)) in
     if list_ex (\<lambda>v. v \<noteq> [] \<and> sublist v rendered) sensitive_values
     then Inl (PublicDemoBundleError ''Sensitive source identifiers remain in export'')
     else if sublist ''https://rzp.io/'' rendered \<or> sublist ''Authorization'' rendered
     then Inl (PublicDemoBundleError ''Provider URL or credential material remains'')
     else if credential_shaped False rendered
     then Inl (PublicDemoBundleError ''Credential-shaped value remains in export'')
     else if sublist (quoted ''raw_payload'') rendered \<or> sublist (quoted ''raw_prompt'') rendered
     then Inl (PublicDemoBundleError ''Raw provider/model material remains in export'')
     else if has_payment_link_url es
     then Inl (PublicDemoBundleError ''Payment Link URL remains in export'')
     else validate_hashes es)"

section \<open>The bundle\<close>

definition bundle_checksum :: "(string \<Rightarrow> string) \<Rightarrow> json \<Rightarrow> string" where
  "bundle_checksum sha payload = sha (json_dumps False payload)"

record bundle_result =
  br_bundle_version :: json
  br_case_count :: json
  br_checksum_sha256 :: string

definition bundle_payload :: "bundle_entities \<Rightarrow> (string \<times> json) list" where
  "bundle_payload es =
    [(''bundle_version'', JStr BUNDLE_VERSION), (''case_count'', JInt 5), (''entities'', entities_json es)]"

text \<open>\<open>{**payload, "checksum_sha256": checksum}\<close>, and \<open>export_public_demo_bundle\<close> with the bundle it writes.\<close>

definition sealed_bundle :: "(string \<Rightarrow> string) \<Rightarrow> bundle_entities \<Rightarrow> json" where
  "sealed_bundle sha es =
    JObj (dict_put ''checksum_sha256'' (JStr (bundle_checksum sha (JObj (bundle_payload es)))) (bundle_payload es))"

definition export_public_demo_bundle ::
  "(string \<Rightarrow> string) \<Rightarrow> server_columns \<Rightarrow> arc_db \<Rightarrow> bundle_error + (json \<times> bundle_result)" where
  "export_public_demo_bundle sha V db =
    sbind (assert_model_field_coverage ENTITY_NAMES) (\<lambda>_.
    sbind (select_accepted_evidence db) (\<lambda>S.
    sbind (serialize_entities sha V S db) (\<lambda>es.
    sbind (validate_sanitized_entities es (es_sensitive_values S)) (\<lambda>_.
      Inr (sealed_bundle sha es,
        \<lparr>br_bundle_version = JStr BUNDLE_VERSION, br_case_count = JInt 5,
         br_checksum_sha256 = bundle_checksum sha (JObj (bundle_payload es))\<rparr>)))))"

end
