(* ===== verification/Arc_Demo_Privacy.thy ===== *)
theory Arc_Demo_Privacy
  imports Arc_Demo_Export
begin

text \<open>
  What an exported bundle reveals (\<open>arc/deployment/public_demo_bundle.py\<close>): the records are a function of
  a public view of the selected rows, and the search of the rendered export for sensitive identifiers
  finds each that JSON renders as it stands in any of its texts, but not the others.
\<close>

section \<open>What the export reveals\<close>

text \<open>
  The public view of a selected row: its pseudonyms, which of its private columns are set, and its
  other columns. The view of a database lists the views of the selected rows of every table.
\<close>

definition public_policy :: "evidence_selection \<Rightarrow> merchant_policy \<Rightarrow> string option \<times> merchant_policy" where
  "public_policy S p = (map_of (es_merchants S) (mp_merchant_id p), p\<lparr>mp_merchant_id := []\<rparr>)"

definition public_reference :: "evidence_selection \<Rightarrow> string \<Rightarrow> string" where
  "public_reference S ref = (case map_of (es_case_references S) ref of Some w \<Rightarrow> w | None \<Rightarrow> ref)"

definition present :: "string option \<Rightarrow> string option" where
  "present v = map_option (\<lambda>_. []) v"

definition public_case ::
  "evidence_selection \<Rightarrow> payment_case \<Rightarrow> string option \<times> string \<times> string option \<times> string option \<times> payment_case" where
  "public_case S c = (map_of (es_merchants S) (pc_merchant_id c), public_reference S (pc_case_reference c),
     replacement_get (es_payments S) (pc_payment_id c), replacement_get (es_subscriptions S) (pc_subscription_id c),
     c\<lparr>pc_case_reference := [], pc_merchant_id := [], pc_payment_id := None, pc_subscription_id := None,
       pc_customer_id := None, pc_error_description := None,
       pc_assessment_fingerprint := present (pc_assessment_fingerprint c)\<rparr>)"

definition public_event :: "nat \<times> case_event \<Rightarrow> nat \<times> case_event \<times> (bundle_error + json)" where
  "public_event e = (fst e, (snd e)\<lparr>ce_event_data := JNull\<rparr>,
     safe_case_event_data (ce_event_type (snd e)) (ce_event_data (snd e)))"

definition public_proposal :: "strategy_proposal \<Rightarrow> strategy_proposal" where
  "public_proposal p = p\<lparr>sp_assessment_fingerprint := [], sp_strategy_input_fingerprint := [],
     sp_provider_response_id := present (sp_provider_response_id p)\<rparr>"

definition public_decision :: "policy_decision \<Rightarrow> policy_decision" where
  "public_decision d = d\<lparr>pd_strategy_input_fingerprint := [], pd_policy_fingerprint := [],
     pd_authorization_input_fingerprint := []\<rparr>"

definition public_approval :: "approval_request \<Rightarrow> approval_request" where
  "public_approval a = a\<lparr>ar_decided_by := None, ar_decision_note := None\<rparr>"

definition public_action :: "recovery_action \<Rightarrow> recovery_action" where
  "public_action r = r\<lparr>ra_idempotency_key := [], ra_request_fingerprint := [],
     ra_external_reference_id := present (ra_external_reference_id r),
     ra_external_reference := present (ra_external_reference r), ra_external_url := None\<rparr>"

definition public_observation :: "outcome_observation \<Rightarrow> outcome_observation" where
  "public_observation ob = ob\<lparr>ro_provider_payment_id := present (ro_provider_payment_id ob),
     ro_evidence_fingerprint := []\<rparr>"

definition public_attribution :: "recovery_attribution \<Rightarrow> recovery_attribution" where
  "public_attribution t = t\<lparr>at_provider_payment_link_id := [], at_provider_reference_id := [],
     at_provider_payment_id := [], at_evidence_fingerprint := []\<rparr>"

record public_rows =
  pv_policies :: "(string option \<times> merchant_policy) list"
  pv_cases :: "(string option \<times> string \<times> string option \<times> string option \<times> payment_case) list"
  pv_events :: "(nat \<times> case_event \<times> (bundle_error + json)) list"
  pv_proposals :: "strategy_proposal list"
  pv_decisions :: "policy_decision list"
  pv_approvals :: "approval_request list"
  pv_actions :: "recovery_action list"
  pv_observations :: "outcome_observation list"
  pv_attributions :: "recovery_attribution list"

definition public_view :: "evidence_selection \<Rightarrow> arc_db \<Rightarrow> public_rows" where
  "public_view S db = (let selected = set (es_case_ids S) in
    \<lparr>pv_policies = map (public_policy S) (filter (\<lambda>p. mp_id p \<in> set (es_policy_ids S)) (db_policies db)),
     pv_cases = map (public_case S) (filter (\<lambda>c. pc_id c \<in> selected) (db_cases db)),
     pv_events = map public_event (filter (\<lambda>e. ce_case_id (snd e) \<in> selected) (List.enumerate 0 (db_case_events db))),
     pv_proposals = map public_proposal (filter (\<lambda>p. sp_case_id p \<in> selected) (db_proposals db)),
     pv_decisions = map public_decision (filter (\<lambda>d. pd_case_id d \<in> selected) (db_decisions db)),
     pv_approvals = map public_approval (filter (\<lambda>a. ar_case_id a \<in> selected) (db_approvals db)),
     pv_actions = map public_action (filter (\<lambda>r. ra_case_id r \<in> selected) (db_actions db)),
     pv_observations = map public_observation (filter (\<lambda>ob. ro_case_id ob \<in> selected) (db_observations db)),
     pv_attributions = map public_attribution (filter (\<lambda>t. at_case_id t \<in> selected) (db_attributions db))\<rparr>)"

lemma present_eq: "present v = present w \<Longrightarrow> (v = None) = (w = None)"
  by (cases v; cases w) (simp_all add: present_def)

lemma map_determined: "map f xs = map f' ys \<Longrightarrow> (\<And>x y. f x = f' y \<Longrightarrow> g x = g' y) \<Longrightarrow> map g xs = map g' ys"
  by (induction xs arbitrary: ys) auto

lemma smap_determined: "map f xs = map f' ys \<Longrightarrow> (\<And>x y. f x = f' y \<Longrightarrow> g x = g' y) \<Longrightarrow> smap g xs = smap g' ys"
  by (induction xs arbitrary: ys) auto

lemma export_policy_public: "public_policy S p = public_policy S' p' \<Longrightarrow> export_policy V S p = export_policy V S' p'"
  by (cases p; cases p') (simp add: public_policy_def export_policy_def replacement_def policy_columns_def
      dict_put_def split: option.splits)

lemma export_case_row:
  "dict_update (case_columns V r) [(''case_reference'', a), (''merchant_id'', b), (''payment_id'', p), (''subscription_id'', s),
     (''customer_id'', CPlain JNull), (''error_description'', CPlain JNull)] =
    [(''id'', CUuid (pc_id r)),
     (''case_reference'', a),
     (''merchant_id'', b),
     (''payment_id'', p),
     (''subscription_id'', s),
     (''razorpay_payment_status'', nullable text_column (pc_razorpay_payment_status r)),
     (''razorpay_subscription_status'', nullable text_column (pc_razorpay_subscription_status r)),
     (''razorpay_payment_method'', nullable text_column (pc_razorpay_payment_method r)),
     (''customer_id'', CPlain JNull),
     (''amount'', nullable int_column (pc_amount r)),
     (''currency'', nullable text_column (pc_currency r)),
     (''current_state'', text_column (case_state_value (pc_current_state r))),
     (''error_code'', nullable text_column (pc_error_code r)),
     (''error_description'', CPlain JNull),
     (''error_source'', nullable text_column (pc_error_source r)),
     (''error_step'', nullable text_column (pc_error_step r)),
     (''error_reason'', nullable text_column (pc_error_reason r)),
     (''eligibility_status'', nullable (\<lambda>v. text_column (eligibility_value v)) (pc_eligibility_status r)),
     (''eligibility_reason_code'', nullable text_column (pc_eligibility_reason_code r)),
     (''eligibility_evaluated_at'', nullable CTime (pc_eligibility_evaluated_at r)),
     (''failure_category'', nullable (\<lambda>v. text_column (failure_category_value v)) (pc_failure_category r)),
     (''recovery_disposition'', nullable (\<lambda>v. text_column (disposition_value v)) (pc_recovery_disposition r)),
     (''diagnosis_reason_code'', nullable text_column (pc_diagnosis_reason_code r)),
     (''diagnosed_at'', nullable CTime (pc_diagnosed_at r)),
     (''assessment_fingerprint'', nullable text_column (pc_assessment_fingerprint r)),
     (''attempt_count'', int_column (pc_attempt_count r)),
     (''contact_attempt_count'', int_column (pc_contact_attempt_count r)),
     (''detected_at'', CTime (pc_detected_at r)),
     (''last_reconciled_at'', nullable CTime (pc_last_reconciled_at r)),
     (''resolved_at'', nullable CTime (pc_resolved_at r)),
     (''created_at'', CTime (sv_created V ''payment_cases'' (pc_id r))),
     (''updated_at'', CTime (sv_updated V ''payment_cases'' (pc_id r)))]"
  by (simp add: case_columns_def dict_put_def)

lemma export_case_row_assessed:
  "dict_update (case_columns V r) [(''case_reference'', a), (''merchant_id'', b), (''payment_id'', p), (''subscription_id'', s),
     (''customer_id'', CPlain JNull), (''error_description'', CPlain JNull), (''assessment_fingerprint'', g)] =
    [(''id'', CUuid (pc_id r)),
     (''case_reference'', a),
     (''merchant_id'', b),
     (''payment_id'', p),
     (''subscription_id'', s),
     (''razorpay_payment_status'', nullable text_column (pc_razorpay_payment_status r)),
     (''razorpay_subscription_status'', nullable text_column (pc_razorpay_subscription_status r)),
     (''razorpay_payment_method'', nullable text_column (pc_razorpay_payment_method r)),
     (''customer_id'', CPlain JNull),
     (''amount'', nullable int_column (pc_amount r)),
     (''currency'', nullable text_column (pc_currency r)),
     (''current_state'', text_column (case_state_value (pc_current_state r))),
     (''error_code'', nullable text_column (pc_error_code r)),
     (''error_description'', CPlain JNull),
     (''error_source'', nullable text_column (pc_error_source r)),
     (''error_step'', nullable text_column (pc_error_step r)),
     (''error_reason'', nullable text_column (pc_error_reason r)),
     (''eligibility_status'', nullable (\<lambda>v. text_column (eligibility_value v)) (pc_eligibility_status r)),
     (''eligibility_reason_code'', nullable text_column (pc_eligibility_reason_code r)),
     (''eligibility_evaluated_at'', nullable CTime (pc_eligibility_evaluated_at r)),
     (''failure_category'', nullable (\<lambda>v. text_column (failure_category_value v)) (pc_failure_category r)),
     (''recovery_disposition'', nullable (\<lambda>v. text_column (disposition_value v)) (pc_recovery_disposition r)),
     (''diagnosis_reason_code'', nullable text_column (pc_diagnosis_reason_code r)),
     (''diagnosed_at'', nullable CTime (pc_diagnosed_at r)),
     (''assessment_fingerprint'', g),
     (''attempt_count'', int_column (pc_attempt_count r)),
     (''contact_attempt_count'', int_column (pc_contact_attempt_count r)),
     (''detected_at'', CTime (pc_detected_at r)),
     (''last_reconciled_at'', nullable CTime (pc_last_reconciled_at r)),
     (''resolved_at'', nullable CTime (pc_resolved_at r)),
     (''created_at'', CTime (sv_created V ''payment_cases'' (pc_id r))),
     (''updated_at'', CTime (sv_updated V ''payment_cases'' (pc_id r)))]"
  by (simp add: case_columns_def dict_put_def)

text \<open>The replacements and the other columns decide the exported case.\<close>

lemma export_case_public: 
  assumes "public_case S c = public_case S' c'"
  shows "export_case sha V S c = export_case sha V S' c'"
proof -
  have merchant: "replacement (es_merchants S) (pc_merchant_id c) = replacement (es_merchants S') (pc_merchant_id c')"
    and texts: "public_reference S (pc_case_reference c) = public_reference S' (pc_case_reference c')"
      "replacement_get (es_payments S) (pc_payment_id c) = replacement_get (es_payments S') (pc_payment_id c')"
      "replacement_get (es_subscriptions S) (pc_subscription_id c) = replacement_get (es_subscriptions S') (pc_subscription_id c')"
    using assms by (simp_all add: public_case_def replacement_def)
  have masked: "c\<lparr>pc_case_reference := [], pc_merchant_id := [], pc_payment_id := None, pc_subscription_id := None,
       pc_customer_id := None, pc_error_description := None,
       pc_assessment_fingerprint := present (pc_assessment_fingerprint c)\<rparr> =
    c'\<lparr>pc_case_reference := [], pc_merchant_id := [], pc_payment_id := None, pc_subscription_id := None,
       pc_customer_id := None, pc_error_description := None,
       pc_assessment_fingerprint := present (pc_assessment_fingerprint c')\<rparr>"
    using assms by (simp add: public_case_def)
  have rest: "present (pc_assessment_fingerprint c) = present (pc_assessment_fingerprint c')"
    "pc_id c = pc_id c'" "pc_razorpay_payment_status c = pc_razorpay_payment_status c'"
    "pc_razorpay_subscription_status c = pc_razorpay_subscription_status c'"
    "pc_razorpay_payment_method c = pc_razorpay_payment_method c'" "pc_amount c = pc_amount c'"
    "pc_currency c = pc_currency c'" "pc_current_state c = pc_current_state c'" "pc_error_code c = pc_error_code c'"
    "pc_error_source c = pc_error_source c'" "pc_error_step c = pc_error_step c'" "pc_error_reason c = pc_error_reason c'"
    "pc_eligibility_status c = pc_eligibility_status c'" "pc_eligibility_reason_code c = pc_eligibility_reason_code c'"
    "pc_eligibility_evaluated_at c = pc_eligibility_evaluated_at c'" "pc_failure_category c = pc_failure_category c'"
    "pc_recovery_disposition c = pc_recovery_disposition c'" "pc_diagnosis_reason_code c = pc_diagnosis_reason_code c'"
    "pc_diagnosed_at c = pc_diagnosed_at c'" "pc_attempt_count c = pc_attempt_count c'"
    "pc_contact_attempt_count c = pc_contact_attempt_count c'" "pc_detected_at c = pc_detected_at c'"
    "pc_last_reconciled_at c = pc_last_reconciled_at c'" "pc_resolved_at c = pc_resolved_at c'"
    using masked by (cases c; cases c'; simp)+
  show ?thesis
  proof (cases "pc_assessment_fingerprint c")
    case None
    then have "pc_assessment_fingerprint c' = None" using present_eq [OF rest(1)] by simp
    with None show ?thesis
      by (simp add: export_case_def merchant texts rest(2-) export_case_row del: dict_update_simps flip: public_reference_def)
  next
    case (Some x)
    then obtain y where "pc_assessment_fingerprint c' = Some y" using present_eq [OF rest(1)] by auto
    with Some show ?thesis
      by (simp add: export_case_def merchant texts rest(2-) export_case_row_assessed del: dict_update_simps flip: public_reference_def)
  qed
qed

lemma export_event_public: "public_event e = public_event e' \<Longrightarrow> export_event V e = export_event V e'"
  by (cases "snd e"; cases "snd e'") (auto simp: public_event_def export_event_def event_columns_def dict_put_def sbind_def
      split: sum.splits)

lemma export_proposal_public: "public_proposal p = public_proposal p' \<Longrightarrow> export_proposal sha V p = export_proposal sha V p'"
  by (cases p; cases p') (auto simp: public_proposal_def export_proposal_def proposal_columns_def dict_put_def present_def
      nullable_def split: option.splits)

lemma export_decision_public: "public_decision d = public_decision d' \<Longrightarrow> export_decision sha V d = export_decision sha V d'"
  by (cases d; cases d') (simp add: public_decision_def export_decision_def decision_columns_def dict_put_def)

lemma export_approval_public: "public_approval a = public_approval a' \<Longrightarrow> export_approval V a = export_approval V a'"
  by (cases a; cases a') (simp add: public_approval_def export_approval_def approval_columns_def dict_put_def)

lemma export_action_public: "public_action r = public_action r' \<Longrightarrow> export_action sha V r = export_action sha V r'"
  by (cases r; cases r') (auto simp: public_action_def export_action_def action_columns_def dict_put_def dest!: present_eq)

lemma export_observation_public:
  "public_observation ob = public_observation ob' \<Longrightarrow> export_observation sha V ob = export_observation sha V ob'"
  by (cases ob; cases ob') (auto simp: public_observation_def export_observation_def observation_columns_def dict_put_def
      dest!: present_eq)

lemma export_attribution_public:
  "public_attribution t = public_attribution t' \<Longrightarrow> export_attribution sha V t = export_attribution sha V t'"
  by (cases t; cases t') (simp add: public_attribution_def export_attribution_def attribution_columns_def dict_put_def Let_def)


lemma entity_rows_public:
  assumes "public_view S db = public_view S' db'"
  shows "entity_rows sha V S db name = entity_rows sha V S' db' name"
proof -
  note view = assms [unfolded public_view_def Let_def, simplified]
  have "smap (export_policy V S) (filter (\<lambda>p. mp_id p \<in> set (es_policy_ids S)) (db_policies db)) =
      smap (export_policy V S') (filter (\<lambda>p. mp_id p \<in> set (es_policy_ids S')) (db_policies db'))"
    "smap (export_case sha V S) (filter (\<lambda>c. pc_id c \<in> set (es_case_ids S)) (db_cases db)) =
      smap (export_case sha V S') (filter (\<lambda>c. pc_id c \<in> set (es_case_ids S')) (db_cases db'))"
    "smap (export_event V) (filter (\<lambda>e. ce_case_id (snd e) \<in> set (es_case_ids S)) (List.enumerate 0 (db_case_events db))) =
      smap (export_event V) (filter (\<lambda>e. ce_case_id (snd e) \<in> set (es_case_ids S')) (List.enumerate 0 (db_case_events db')))"
    using view by (blast intro: smap_determined export_policy_public export_case_public export_event_public)+
  moreover have "map (export_proposal sha V) (filter (\<lambda>p. sp_case_id p \<in> set (es_case_ids S)) (db_proposals db)) =
      map (export_proposal sha V) (filter (\<lambda>p. sp_case_id p \<in> set (es_case_ids S')) (db_proposals db'))"
    "map (export_decision sha V) (filter (\<lambda>d. pd_case_id d \<in> set (es_case_ids S)) (db_decisions db)) =
      map (export_decision sha V) (filter (\<lambda>d. pd_case_id d \<in> set (es_case_ids S')) (db_decisions db'))"
    "map (export_approval V) (filter (\<lambda>a. ar_case_id a \<in> set (es_case_ids S)) (db_approvals db)) =
      map (export_approval V) (filter (\<lambda>a. ar_case_id a \<in> set (es_case_ids S')) (db_approvals db'))"
    "map (export_action sha V) (filter (\<lambda>r. ra_case_id r \<in> set (es_case_ids S)) (db_actions db)) =
      map (export_action sha V) (filter (\<lambda>r. ra_case_id r \<in> set (es_case_ids S')) (db_actions db'))"
    "map (export_observation sha V) (filter (\<lambda>ob. ro_case_id ob \<in> set (es_case_ids S)) (db_observations db)) =
      map (export_observation sha V) (filter (\<lambda>ob. ro_case_id ob \<in> set (es_case_ids S')) (db_observations db'))"
    "map (export_attribution sha V) (filter (\<lambda>t. at_case_id t \<in> set (es_case_ids S)) (db_attributions db)) =
      map (export_attribution sha V) (filter (\<lambda>t. at_case_id t \<in> set (es_case_ids S')) (db_attributions db'))"
    using view by (blast intro: map_determined export_proposal_public export_decision_public export_approval_public
      export_action_public export_observation_public export_attribution_public)+
  ultimately show ?thesis by (simp only: entity_rows_def Let_def)
qed

text \<open>
  C27. The exported records show the public view of the selected rows and nothing else: two databases whose
  selected rows have the same public view are exported to the same records, whatever the merchant, payment,
  subscription and customer identifiers, provider references and links, error texts, operator notes,
  fingerprints, event data and unselected rows of each are.
\<close>

theorem export_shows_public_view_only:
  assumes "public_view S db = public_view S' db'"
  shows "serialize_entities sha V S db = serialize_entities sha V S' db'"
  by (simp only: serialize_entities_def entity_rows_public [OF assms])

section \<open>The leak check\<close>

fun json_texts :: "json \<Rightarrow> string list" where
  "json_texts (JStr s) = [s]"
| "json_texts (JArr vs) = concat (map json_texts vs)"
| "json_texts (JObj kvs) = concat (map (\<lambda>(k, v). json_texts v) kvs)"
| "json_texts v = []"

text \<open>A text that JSON renders as it stands.\<close>

definition unescaped :: "string \<Rightarrow> bool" where
  "unescaped s \<longleftrightarrow> list_all (\<lambda>c. escape_char True c = [c]) s"

lemma sublist_in: "sublist p b \<Longrightarrow> sublist p (a @ b @ c)"
  by (meson sublist_order.order_trans sublist_appendI)

lemma sublist_spaced: "x \<in> set xs \<Longrightarrow> sublist x (spaced xs)"
proof (induction xs rule: spaced.induct)
  case (3 x' y ys)
  show ?case
  proof (cases "x = x'")
    case True
    then show ?thesis using sublist_in [of x x "[]"] by simp
  next
    case False
    with 3 have "sublist x (spaced (y # ys))" by simp
    then show ?thesis using sublist_in [of x "spaced (y # ys)" "x' @ '', ''" "[]"] by simp
  qed
qed auto

lemma text_rendered: "s \<in> set (json_texts v) \<Longrightarrow> sublist (concat (map (escape_char True) s)) (json_show v)"
proof (induction v rule: json_show.induct)
  case (5 t)
  then show ?case
    using sublist_in [of _ _ "[CHR 0x22]" "[CHR 0x22]"] by (simp add: json_string_def)
next
  case (6 vs)
  then obtain v where v: "v \<in> set vs" "s \<in> set (json_texts v)" by auto
  have "sublist (json_show v) (spaced (map json_show vs))" using v(1) by (intro sublist_spaced) simp
  then have "sublist (concat (map (escape_char True) s)) (spaced (map json_show vs))"
    using "6.IH" [OF v] by (rule sublist_order.order_trans [rotated])
  from sublist_in [OF this, of "''[''" "'']''"] show ?case by simp
next
  case (7 kvs)
  then obtain k v where v: "(k, v) \<in> set kvs" "s \<in> set (json_texts v)" by auto
  let ?e = "\<lambda>(k, v). json_string True k @ '': '' @ json_show v"
  have "sublist (concat (map (escape_char True) s)) (json_show v)" using "7.IH" [OF v(1) refl v(2)] .
  then have "sublist (concat (map (escape_char True) s)) (?e (k, v))"
    using sublist_in [of _ "json_show v" "json_string True k @ '': ''" "[]"] by simp
  moreover have "sublist (?e (k, v)) (spaced (map ?e kvs))" using v(1) by (intro sublist_spaced) force
  ultimately have "sublist (concat (map (escape_char True) s)) (spaced (map ?e kvs))" by (rule sublist_order.order_trans)
  from sublist_in [OF this, of "''{''" "''}''"] show ?case by simp
qed simp_all

lemma json_texts_canon: "set (json_texts (json_canon v)) = set (json_texts v)"
proof (induction v rule: json_canon.induct)
  case (2 kvs)
  have "set (json_texts (json_canon v)) = set (json_texts v)" if "(k, v) \<in> set kvs" for k v
    using "2.IH" [OF that refl] .
  then show ?case by (force simp: case_prod_beta)
qed auto

lemma unescaped_sublist:
  assumes "unescaped v" "sublist v s"
  shows "sublist v (concat (map (escape_char True) s))"
proof -
  have "concat (map (escape_char True) v) = v" using assms(1) by (induction v) (auto simp: unescaped_def)
  moreover from assms(2) obtain a b where "s = a @ v @ b" by (auto simp: sublist_def)
  ultimately show ?thesis by (simp add: sublist_def) blast
qed

lemma checked_texts:
  assumes ok: "validate_sanitized_entities es values = Inr ()" and v: "v \<in> set values" "v \<noteq> []" "unescaped v"
    and s: "s \<in> set (json_texts (entities_json es))"
  shows "\<not> sublist v s"
proof
  assume "sublist v s"
  with v(3) have "sublist v (concat (map (escape_char True) s))" by (rule unescaped_sublist)
  also have "sublist \<dots> (json_show (json_canon (entities_json es)))"
    using s by (intro text_rendered) (simp add: json_texts_canon)
  finally have "\<exists>w \<in> set values. w \<noteq> [] \<and> sublist w (json_show (json_canon (entities_json es)))" using v by blast
  with ok show False by (auto simp: validate_sanitized_entities_def Let_def list_ex_iff split: if_splits)
qed

text \<open>Of a whole export, the identifiers are those that the selection collected.\<close>

lemma exported_texts_hide_identifiers:
  assumes "export_public_demo_bundle sha V db = Inr (bundle, result)"
    and "select_accepted_evidence db = Inr S" "serialize_entities sha V S db = Inr es"
    and "v \<in> set (es_sensitive_values S)" "v \<noteq> []" "unescaped v" "s \<in> set (json_texts (entities_json es))"
  shows "\<not> sublist v s"
proof (rule checked_texts [OF _ assms(4-7)])
  show "validate_sanitized_entities es (es_sensitive_values S) = Inr ()"
    using assms(1) by (auto simp: export_public_demo_bundle_def assms(2,3))
qed

text \<open>
  C28. A set of records passes the check only if no text in it, in whatever column or event, contains one of
  the sensitive identifiers that JSON renders as they stand: the search of the rendered export misses none
  of its texts.
\<close>

theorem leak_check_complete:
  assumes "validate_sanitized_entities es values = Inr ()" "v \<in> set values" "v \<noteq> []" "unescaped v"
    "s \<in> set (json_texts (entities_json es))"
  shows "\<not> sublist v s"
  by (rule checked_texts [OF assms])

text \<open>
  An identifier with a character that JSON escapes is searched in its raw form, which the rendered text does
  not contain: the check passes although the records show it.
\<close>

definition escaped_identifier :: string where
  "escaped_identifier = ''cust'' @ [CHR 0x22] @ ''1''"

definition leaking_entities :: bundle_entities where
  "leaking_entities = [(''payment_cases'', [[(''error_reason'', JStr escaped_identifier)]])]"

lemma leak_check_misses_escaped:
  "validate_sanitized_entities leaking_entities [escaped_identifier] = Inr () \<and>
   escaped_identifier \<in> set (json_texts (entities_json leaking_entities)) \<and> \<not> unescaped escaped_identifier"
  by code_simp

section \<open>Examples\<close>

definition demo_columns :: server_columns where
  "demo_columns = \<lparr>sv_created = (\<lambda>_ _. sample_time), sv_updated = (\<lambda>_ _. sample_time),
     sv_event_id = (\<lambda>n. of_nat (100 + n)), sv_event_created = (\<lambda>_. sample_time)\<rparr>"

definition demo_selection :: "string \<Rightarrow> string \<Rightarrow> evidence_selection" where
  "demo_selection merchant payment =
    \<lparr>es_case_ids = [7], es_policy_ids = [], es_sensitive_values = [merchant, payment],
     es_merchants = [(merchant, ''public_demo_merchant_001'')], es_case_references = [],
     es_payments = [(payment, ''public_demo_payment_001'')], es_subscriptions = []\<rparr>"

definition demo_db :: "string \<Rightarrow> string \<Rightarrow> string \<Rightarrow> arc_db" where
  "demo_db merchant payment customer = empty_db\<lparr>
     db_cases := [sample_case\<lparr>pc_merchant_id := merchant, pc_payment_id := Some payment, pc_customer_id := Some customer\<rparr>],
     db_case_events := [\<lparr>ce_case_id = 7, ce_event_type = ''ELIGIBILITY_EVALUATED'', ce_source = ''ARC'',
       ce_event_data = JObj [(''eligibility_decision'', JStr ''STOP''), (''customer'', JStr customer)]\<rparr>]\<rparr>"

definition demo_sha :: "string \<Rightarrow> string" where
  "demo_sha = (\<lambda>_. replicate 64 CHR ''a'')"

theorem export_shows_public_view_only_witness:
  "serialize_entities demo_sha demo_columns (demo_selection ''m1'' ''p1'') (demo_db ''m1'' ''p1'' ''cust_1'') =
   serialize_entities demo_sha demo_columns (demo_selection ''m2'' ''p2'') (demo_db ''m2'' ''p2'' ''cust_2'') \<and>
   demo_db ''m1'' ''p1'' ''cust_1'' \<noteq> demo_db ''m2'' ''p2'' ''cust_2''"
proof (rule conjI)
  have "public_view (demo_selection ''m1'' ''p1'') (demo_db ''m1'' ''p1'' ''cust_1'') =
    public_view (demo_selection ''m2'' ''p2'') (demo_db ''m2'' ''p2'' ''cust_2'')" by code_simp
  then show "serialize_entities demo_sha demo_columns (demo_selection ''m1'' ''p1'') (demo_db ''m1'' ''p1'' ''cust_1'') =
    serialize_entities demo_sha demo_columns (demo_selection ''m2'' ''p2'') (demo_db ''m2'' ''p2'' ''cust_2'')"
    by (rule export_shows_public_view_only)
  show "demo_db ''m1'' ''p1'' ''cust_1'' \<noteq> demo_db ''m2'' ''p2'' ''cust_2''" by code_simp
qed

definition demo_records :: bundle_entities where
  "demo_records = [(''approval_requests'', [[(''decided_by'', JStr ''public_demo_operator'')]])]"

theorem leak_check_complete_witness:
  "\<not> sublist ''ops_1'' ''public_demo_operator''"
proof (rule leak_check_complete)
  show "validate_sanitized_entities demo_records [''ops_1''] = Inr ()" by code_simp
  show "''ops_1'' \<in> set [''ops_1'']" "''ops_1'' \<noteq> []" by simp_all
  show "unescaped ''ops_1''" by code_simp
  show "''public_demo_operator'' \<in> set (json_texts (entities_json demo_records))" by code_simp
qed

end
