(* ===== verification/Arc_Demo_Import.thy ===== *)
theory Arc_Demo_Import
  imports Arc_Demo_Privacy
begin

text \<open>
  The import half of \<open>arc/deployment/public_demo_bundle.py\<close>: reading and checking a bundle file, the guard
  of the target database, and the transaction that decodes and inserts the records. Reading ISO times
  (\<open>fromiso\<close>) and what the database stores for the rows of a flush (\<open>store\<close>, \<open>None\<close> when it
  refuses them) are parameters.
\<close>

section \<open>Reading the file\<close>

text \<open>
  What \<open>json.loads(path.read_text(encoding="utf-8"))\<close> meets: a file that cannot be read, bytes that are not
  UTF-8, a text that is not JSON, or a value.
\<close>

datatype bundle_file = Unreadable | NotUtf8 | NotJson | ParsedJson json

definition items_of :: "json \<Rightarrow> (string \<times> json) list" where
  "items_of v = (case v of JObj kvs \<Rightarrow> kvs | _ \<Rightarrow> [])"

definition elements_of :: "json \<Rightarrow> json list" where
  "elements_of v = (case v of JArr vs \<Rightarrow> vs | _ \<Rightarrow> [])"

fun is_object :: "json \<Rightarrow> bool" where
  "is_object (JObj kvs) = True"
| "is_object v = False"

fun is_array :: "json \<Rightarrow> bool" where
  "is_array (JArr vs) = True"
| "is_array v = False"

definition keys_of :: "json \<Rightarrow> string set" where
  "keys_of v = set (map fst (items_of v))"

text \<open>The checks of the entity collections, in the order of \<open>_ENTITY_SPECS\<close>.\<close>

fun check_collections :: "json \<Rightarrow> string list \<Rightarrow> bundle_error + unit" where
  "check_collections entities [] = Inr ()"
| "check_collections entities (name # names) =
    (case map_of (items_of entities) name of
       None \<Rightarrow> Inl BundleKeyError
     | Some records \<Rightarrow>
         if \<not> is_array records then Inl (PublicDemoImportError ''Public demo entity collection is invalid'')
         else if list_ex (\<lambda>r. \<not> is_object r \<or> keys_of r \<noteq> set (entity_fields name)) (elements_of records)
         then Inl (PublicDemoImportError ''Public demo entity record is invalid'')
         else check_collections entities names)"

definition entities_of :: "json \<Rightarrow> bundle_entities" where
  "entities_of entities = map (\<lambda>(name, records). (name, map items_of (elements_of records))) (items_of entities)"

record loaded_bundle =
  lb_version :: json
  lb_case_count :: json
  lb_checksum :: string
  lb_entities :: bundle_entities

text \<open>
  \<open>bundle["case_count"] != 5\<close> also admits the float 5.0. The checksum is that of the other items.
\<close>

definition load_bundle :: "(string \<Rightarrow> string) \<Rightarrow> bundle_file \<Rightarrow> bundle_error + loaded_bundle" where
  "load_bundle sha file =
    (case file of
       Unreadable \<Rightarrow> Inl (PublicDemoImportError ''Public demo bundle is unreadable'')
     | NotJson \<Rightarrow> Inl (PublicDemoImportError ''Public demo bundle is unreadable'')
     | NotUtf8 \<Rightarrow> Inl BundleUnicodeDecodeError
     | ParsedJson bundle \<Rightarrow>
         if \<not> is_object bundle \<or>
            keys_of bundle \<noteq> {''bundle_version'', ''case_count'', ''entities'', ''checksum_sha256''}
         then Inl (PublicDemoImportError ''Public demo bundle envelope is invalid'')
         else let item = (\<lambda>k. the (map_of (items_of bundle) k)) in
         if item ''bundle_version'' \<noteq> JStr BUNDLE_VERSION \<or>
            item ''case_count'' \<notin> {JInt 5, JFloat ''5.0''}
         then Inl (PublicDemoImportError ''Public demo bundle version or count is invalid'')
         else (case item ''checksum_sha256'' of
            JStr checksum \<Rightarrow>
              if \<not> sha256_hex checksum then Inl (PublicDemoImportError ''Public demo bundle checksum is invalid'')
              else if bundle_checksum sha (JObj (filter (\<lambda>kv. fst kv \<noteq> ''checksum_sha256'') (items_of bundle))) \<noteq> checksum
              then Inl (PublicDemoImportError ''Public demo bundle checksum does not match'')
              else let entities = item ''entities'' in
              if \<not> is_object entities \<or> keys_of entities \<noteq> set ENTITY_NAMES
              then Inl (PublicDemoImportError ''Public demo bundle entities are invalid'')
              else sbind (check_collections entities ENTITY_NAMES) (\<lambda>_.
                sbind (validate_sanitized_entities (entities_of entities) []) (\<lambda>_.
                  Inr \<lparr>lb_version = item ''bundle_version'', lb_case_count = item ''case_count'',
                       lb_checksum = checksum, lb_entities = entities_of entities\<rparr>))
          | _ \<Rightarrow> Inl (PublicDemoImportError ''Public demo bundle checksum is invalid'')))"

section \<open>The target database\<close>

text \<open>The stored rows of each table by the entity's name, and the number of webhook events.\<close>

record demo_target =
  dt_rows :: "string \<Rightarrow> column_row list"
  dt_webhook_count :: nat

definition stored_ids :: "column_row list \<Rightarrow> uuid set" where
  "stored_ids rows = set (List.map_filter (\<lambda>row. case map_of row ''id'' of Some (CUuid u) \<Rightarrow> Some u | _ \<Rightarrow> None) rows)"

text \<open>\<open>UUID(record["id"])\<close>: \<open>None\<close> makes it raise a \<open>TypeError\<close>, another value an \<open>AttributeError\<close>.\<close>

definition record_id :: "(string \<times> json) list \<Rightarrow> bundle_error + uuid" where
  "record_id record = (case map_of record ''id'' of
     None \<Rightarrow> Inl BundleKeyError
   | Some (JStr s) \<Rightarrow> (case parse_uuid s of None \<Rightarrow> Inl BundleValueError | Some u \<Rightarrow> Inr u)
   | Some JNull \<Rightarrow> Inl BundleTypeError
   | Some v \<Rightarrow> Inl BundleAttributeError)"

definition records_named :: "bundle_entities \<Rightarrow> string \<Rightarrow> (string \<times> json) list list" where
  "records_named es name = (case map_of es name of None \<Rightarrow> [] | Some records \<Rightarrow> records)"

text \<open>Whether the keys of every table are exactly those of the bundle.\<close>

fun same_ids :: "demo_target \<Rightarrow> bundle_entities \<Rightarrow> bool \<Rightarrow> string list \<Rightarrow> bundle_error + bool" where
  "same_ids T es exact [] = Inr exact"
| "same_ids T es exact (name # names) =
    sbind (smap record_id (records_named es name)) (\<lambda>expected.
      same_ids T es (exact \<and> stored_ids (dt_rows T name) = set expected) names)"

definition target_empty :: "demo_target \<Rightarrow> bool" where
  "target_empty T \<longleftrightarrow> list_all (\<lambda>name. dt_rows T name = []) ENTITY_NAMES \<and> dt_webhook_count T = 0"

definition guard_import_target :: "demo_target \<Rightarrow> bundle_entities \<Rightarrow> bundle_error + unit" where
  "guard_import_target T es =
    (if target_empty T then Inr ()
     else sbind (same_ids T es (dt_webhook_count T = 0) ENTITY_NAMES) (\<lambda>exact.
       if exact then Inl (PublicDemoAlreadyImportedError ''Exact public demo bundle is already imported'')
       else Inl (PublicDemoImportError ''Target database contains unexpected operational data'')))"

section \<open>The import\<close>

text \<open>The records of an entity are decoded and added, then flushed; the next entity follows.\<close>

type_synonym row_store_fun = "demo_target \<Rightarrow> string \<Rightarrow> column_row list \<Rightarrow> column_row list option"

definition IMPORT_FAILED :: bundle_error where
  "IMPORT_FAILED = PublicDemoImportError ''Public demo bundle import failed safely''"

fun import_entities ::
  "(string \<Rightarrow> py_datetime option) \<Rightarrow> row_store_fun \<Rightarrow> bundle_entities \<Rightarrow> string list \<Rightarrow> demo_target \<Rightarrow> bundle_error + demo_target" where
  "import_entities fromiso store es [] T = Inr T"
| "import_entities fromiso store es (name # names) T =
    sbind (smap (decode_record fromiso name) (records_named es name)) (\<lambda>rows.
      case store T name rows of
        None \<Rightarrow> Inl IMPORT_FAILED
      | Some stored \<Rightarrow>
          import_entities fromiso store es names (T\<lparr>dt_rows := (dt_rows T)(name := dt_rows T name @ stored)\<rparr>))"

text \<open>
  \<open>except (SQLAlchemyError, TypeError, ValueError)\<close>: the other exceptions leave the transaction as they are.
\<close>

fun import_handler :: "bundle_error \<Rightarrow> bundle_error" where
  "import_handler BundleTypeError = IMPORT_FAILED"
| "import_handler BundleValueError = IMPORT_FAILED"
| "import_handler e = e"

text \<open>An exception rolls the transaction back, so the target is the one it met.\<close>

definition import_public_demo_bundle ::
  "(string \<Rightarrow> string) \<Rightarrow> (string \<Rightarrow> py_datetime option) \<Rightarrow> row_store_fun \<Rightarrow> bundle_file \<Rightarrow> demo_target
    \<Rightarrow> (bundle_error + bundle_result) \<times> demo_target" where
  "import_public_demo_bundle sha fromiso store file T =
    (case load_bundle sha file of
       Inl e \<Rightarrow> (Inl e, T)
     | Inr bundle \<Rightarrow>
         (case sbind (guard_import_target T (lb_entities bundle)) (\<lambda>_.
                 import_entities fromiso store (lb_entities bundle) ENTITY_NAMES T) of
            Inl e \<Rightarrow> (Inl (import_handler e), T)
          | Inr T' \<Rightarrow> (Inr \<lparr>br_bundle_version = lb_version bundle, br_case_count = lb_case_count bundle,
                           br_checksum_sha256 = lb_checksum bundle\<rparr>, T')))"

section \<open>Canonical JSON\<close>

lemma map_sort_key: "(\<And>x. k' (f x) = k x) \<Longrightarrow> map f (sort_key k xs) = sort_key k' (map f xs)"
  by (simp add: sort_key_map)

lemma sort_key_twice: "sort_key k (sort_key k xs) = sort_key k xs"
  by (simp add: sort_key_id_if_sorted)

lemma canon_entries_sort: "canon_entries (sort_key fst kvs) = sort_key fst (canon_entries kvs)"
  by (rule map_sort_key) auto

lemma json_canon_idem [simp]: "json_canon (json_canon v) = json_canon v"
proof (induction v rule: json_canon.induct)
  case (2 kvs)
  have "json_canon (json_canon (snd kv)) = json_canon (snd kv)" if "kv \<in> set kvs" for kv
    using that by (intro "2.IH" [of kv "fst kv" "snd kv"]) simp_all
  then have "canon_entries (canon_entries kvs) = canon_entries kvs" by (simp add: case_prod_beta)
  then show ?case by (simp only: json_canon.simps canon_entries_sort sort_key_twice)
qed auto

text \<open>A record as the file gives it back: sorted keys, canonical values.\<close>

definition canon_record :: "(string \<times> json) list \<Rightarrow> (string \<times> json) list" where
  "canon_record r = sort_key fst (canon_entries r)"

lemma json_canon_record: "json_canon (JObj r) = JObj (canon_record r)"
  by (simp add: canon_record_def)

lemma set_canon_record: "set (canon_record r) = (\<lambda>(k, v). (k, json_canon v)) ` set r"
  by (simp add: canon_record_def)

lemma canon_record_canon [simp]: "canon_record (canon_record r) = canon_record r"
  using json_canon_idem [of "JObj r"] by (simp only: json_canon_record json.inject)

lemma keys_canon_record: "set (map fst (canon_record r)) = set (map fst r)"
  by (force simp: set_canon_record)

lemma map_of_canon_record:
  assumes "distinct (map fst r)"
  shows "map_of (canon_record r) k = map_option json_canon (map_of r k)"
proof -
  have "distinct (map fst (canon_entries r))" using assms by (simp only: keys_canon_entries)
  then have "map_of (canon_record r) = map_of (canon_entries r)" by (simp only: canon_record_def map_of_sort_key)
  then show ?thesis by (simp only: map_of_map comp_apply)
qed

lemma json_canon_JNull [simp]: "json_canon v = JNull \<longleftrightarrow> v = JNull"
  by (cases v) auto

lemma hash_text_canon [simp]: "hash_text (json_canon v) = hash_text v"
  by (cases v) auto

lemma hashes_valid_canon: "hashes_valid (canon_record r) = hashes_valid r"
  by (simp add: hashes_valid_def list_all_iff set_canon_record case_prod_beta)

definition canon_entities :: "bundle_entities \<Rightarrow> bundle_entities" where
  "canon_entities es = sort_key fst (map (\<lambda>(name, records). (name, map canon_record records)) es)"

lemma json_canon_entities: "json_canon (entities_json es) = entities_json (canon_entities es)"
proof -
  have "map (\<lambda>(name, records). (name, JArr (map JObj records)))
      (sort_key fst (map (\<lambda>(name, records). (name, map canon_record records)) es)) =
    sort_key fst (map (\<lambda>(name, records). (name, JArr (map JObj records)))
      (map (\<lambda>(name, records). (name, map canon_record records)) es))"
    by (rule map_sort_key) auto
  also have "\<dots> = sort_key fst (canon_entries (map (\<lambda>(name, records). (name, JArr (map JObj records))) es))"
    by (rule arg_cong [where f = "sort_key fst"]) (simp add: json_canon_record case_prod_beta comp_def del: json_canon.simps(2))
  finally show ?thesis by (simp add: entities_json_def canon_entities_def)
qed

lemma set_canon_entities:
  "set (canon_entities es) = (\<lambda>(name, records). (name, map canon_record records)) ` set es"
  by (simp add: canon_entities_def)

lemma map_of_canon_entities:
  assumes "distinct (map fst es)"
  shows "map_of (canon_entities es) name = map_option (map canon_record) (map_of es name)"
proof -
  let ?es = "map (\<lambda>(name, records). (name, map canon_record records)) es"
  have "map fst ?es = map fst es" by auto
  then have "distinct (map fst ?es)" using assms by (simp only:)
  then have "map_of (canon_entities es) = map_of ?es" by (simp only: canon_entities_def map_of_sort_key)
  then show ?thesis by (simp only: map_of_map comp_apply)
qed

lemma validate_hashes_iff: "validate_hashes es = Inr () \<longleftrightarrow> (\<forall>(name, records) \<in> set es. \<forall>r \<in> set records. hashes_valid r)"
  by (induction es rule: validate_hashes.induct) (auto simp: list_all_iff)

lemma validate_hashes_canon: "validate_hashes es = Inr () \<Longrightarrow> validate_hashes (canon_entities es) = Inr ()"
  by (fastforce simp: validate_hashes_iff set_canon_entities hashes_valid_canon)

text \<open>Entities whose records have the reviewed fields, each once.\<close>

definition entities_shape :: "bundle_entities \<Rightarrow> bool" where
  "entities_shape es \<longleftrightarrow> map fst es = ENTITY_NAMES \<and>
     (\<forall>(name, records) \<in> set es. \<forall>r \<in> set records. map fst r = entity_fields name)"

lemma entity_names_distinct: "distinct ENTITY_NAMES" and entity_fields_distinct: "distinct (entity_fields name)"
  by (simp_all add: ENTITY_NAMES_def ENTITY_SPECS_def entity_fields_def)

lemma validate_canon:
  assumes shape: "entities_shape es" and ok: "validate_sanitized_entities es vals = Inr ()"
  shows "validate_sanitized_entities (canon_entities es) [] = Inr ()"
proof -
  have same: "json_canon (entities_json (canon_entities es)) = json_canon (entities_json es)"
    by (simp flip: json_canon_entities)
  have d: "distinct (map fst es)" using shape by (simp add: entities_shape_def entity_names_distinct)
  have "has_payment_link_url (canon_entities es) = has_payment_link_url es"
  proof (cases "map_of es ''recovery_actions''")
    case (Some records)
    then have "distinct (map fst r)" if "r \<in> set records" for r
      using shape that by (auto simp: entities_shape_def entity_fields_distinct dest!: map_of_SomeD)
    then have "(map_of (canon_record r) k = Some JNull) = (map_of r k = Some JNull)" if "r \<in> set records" for r k
      using that by (simp add: map_of_canon_record)
    with Some show ?thesis by (simp add: has_payment_link_url_def map_of_canon_entities [OF d] list_ex_iff)
  qed (simp add: has_payment_link_url_def map_of_canon_entities [OF d])
  with ok show ?thesis
    by (auto simp: validate_sanitized_entities_def same Let_def validate_hashes_canon split: if_splits)
qed

section \<open>An exported bundle loads\<close>

lemma entities_of_json [simp]: "entities_of (entities_json es) = es"
  by (simp add: entities_of_def entities_json_def items_of_def elements_of_def comp_def case_prod_beta)

lemma check_collections_ok:
  assumes "\<And>name. name \<in> set names \<Longrightarrow> \<exists>records. map_of es name = Some records \<and>
    (\<forall>r \<in> set records. set (map fst r) = set (entity_fields name))"
  shows "check_collections (entities_json es) names = Inr ()"
  using assms
proof (induction names)
  case (Cons name names)
  then obtain records where "map_of es name = Some records"
    "\<forall>r \<in> set records. set (map fst r) = set (entity_fields name)" by (meson list.set_intros(1))
  moreover have "items_of (entities_json es) = map (\<lambda>(name, records). (name, JArr (map JObj records))) es"
    by (simp add: entities_json_def items_of_def)
  ultimately show ?case
    using Cons by (auto simp: map_of_map list_ex_iff keys_of_def items_of_def elements_of_def)
qed simp

lemma canon_entities_keys: "set (map fst (canon_entities es)) = set (map fst es)"
  by (force simp: set_canon_entities)

lemma canon_collections:
  assumes "entities_shape es"
  shows "check_collections (entities_json (canon_entities es)) ENTITY_NAMES = Inr ()"
proof (rule check_collections_ok)
  fix name assume "name \<in> set ENTITY_NAMES"
  then have "name \<in> fst ` set es" using assms by (metis entities_shape_def list.set_map)
  then obtain records where r: "(name, records) \<in> set es" by auto
  have "distinct (map fst es)" using assms by (simp add: entities_shape_def entity_names_distinct)
  then have "map_of (canon_entities es) name = Some (map canon_record records)"
    using r by (simp add: map_of_canon_entities)
  moreover have "set (map fst q) = set (entity_fields name)" if "q \<in> set (map canon_record records)" for q
  proof -
    from that obtain r' where "q = canon_record r'" "r' \<in> set records" by auto
    with assms r show ?thesis by (auto simp only: keys_canon_record entities_shape_def)
  qed
  ultimately show "\<exists>records. map_of (canon_entities es) name = Some records \<and>
    (\<forall>r \<in> set records. set (map fst r) = set (entity_fields name))" by blast
qed

lemma envelope_order:
  "''bundle_version'' \<le> (''case_count'' :: string)" "''case_count'' \<le> (''checksum_sha256'' :: string)"
  "''case_count'' \<le> (''entities'' :: string)" "''bundle_version'' \<le> (''entities'' :: string)"
  "''bundle_version'' \<le> (''checksum_sha256'' :: string)" "''checksum_sha256'' \<le> (''entities'' :: string)"
  "\<not> ''entities'' \<le> (''checksum_sha256'' :: string)"
  by code_simp+

lemma canon_sealed_bundle:
  "json_canon (sealed_bundle sha es) = JObj
    [(''bundle_version'', JStr BUNDLE_VERSION), (''case_count'', JInt 5),
     (''checksum_sha256'', JStr (bundle_checksum sha (JObj (bundle_payload es)))),
     (''entities'', entities_json (canon_entities es))]"
  by (simp add: sealed_bundle_def bundle_payload_def dict_put_def sort_key_def envelope_order json_canon_entities)

lemma checksum_of_canon:
  "bundle_checksum sha (JObj [(''bundle_version'', JStr BUNDLE_VERSION), (''case_count'', JInt 5),
     (''entities'', entities_json (canon_entities es))]) = bundle_checksum sha (JObj (bundle_payload es))"
  by (simp add: bundle_checksum_def json_dumps_def bundle_payload_def flip: json_canon_entities)

lemma sealed_bundle_loads:
  assumes shape: "entities_shape es" and ok: "validate_sanitized_entities es vals = Inr ()"
    and hex: "sha256_hex (bundle_checksum sha (JObj (bundle_payload es)))"
  shows "load_bundle sha (ParsedJson (json_canon (sealed_bundle sha es))) =
    Inr \<lparr>lb_version = JStr BUNDLE_VERSION, lb_case_count = JInt 5,
         lb_checksum = bundle_checksum sha (JObj (bundle_payload es)), lb_entities = canon_entities es\<rparr>"
proof -
  have keys: "keys_of (entities_json (canon_entities es)) = set ENTITY_NAMES"
  proof -
    have "keys_of (entities_json (canon_entities es)) = set (map fst (canon_entities es))"
      by (force simp: keys_of_def items_of_def entities_json_def)
    also have "\<dots> = set ENTITY_NAMES" using shape by (simp only: canon_entities_keys entities_shape_def)
    finally show ?thesis .
  qed
  have "is_object (entities_json (canon_entities es))" by (simp add: entities_json_def)
  moreover have "keys_of (json_canon (sealed_bundle sha es)) =
      {''bundle_version'', ''case_count'', ''entities'', ''checksum_sha256''}"
    by (auto simp: canon_sealed_bundle keys_of_def items_of_def)
  ultimately show ?thesis
    using hex keys canon_collections [OF shape] validate_canon [OF shape ok]
    by (simp add: load_bundle_def canon_sealed_bundle items_of_def checksum_of_canon Let_def)
qed

section \<open>The records decode to the exported rows\<close>

text \<open>The kinds of the values of a row, and its times.\<close>

fun of_kind :: "column_kind \<Rightarrow> column_value \<Rightarrow> bool" where
  "of_kind kind (CTime d) \<longleftrightarrow> kind = DateTimeColumn"
| "of_kind kind (CUuid u) \<longleftrightarrow> kind = UuidColumn"
| "of_kind kind (CPlain v) \<longleftrightarrow> v = JNull \<or> kind = OtherColumn"

definition row_kinds :: "string \<Rightarrow> column_row \<Rightarrow> bool" where
  "row_kinds name row \<longleftrightarrow> map fst row = entity_fields name \<and>
     (\<forall>(f, v) \<in> set row. \<exists>kind. map_of (model_columns name) f = Some kind \<and> of_kind kind v)"

fun time_reads :: "(string \<Rightarrow> py_datetime option) \<Rightarrow> column_value \<Rightarrow> bool" where
  "time_reads fromiso (CTime d) \<longleftrightarrow> fromiso (dt_str d) = Some d"
| "time_reads fromiso v \<longleftrightarrow> True"

definition times_read :: "(string \<Rightarrow> py_datetime option) \<Rightarrow> column_row \<Rightarrow> bool" where
  "times_read fromiso row \<longleftrightarrow> list_all (\<lambda>(f, v). time_reads fromiso v) row"

lemma fits_iff: "fits fromiso kind v \<longleftrightarrow> of_kind kind v \<and> time_reads fromiso v"
  by (cases v) auto

lemma row_fits_kinds: "row_kinds name row \<Longrightarrow> times_read fromiso row \<Longrightarrow> row_fits fromiso name row"
  by (fastforce simp: row_fits_def row_kinds_def times_read_def list_all_iff fits_iff)

lemma row_kinds_put:
  assumes "row_kinds name row" "map_of (model_columns name) f = Some kind" "of_kind kind v"
    "f \<in> set (entity_fields name)"
  shows "row_kinds name (dict_put f v row)"
proof -
  have f: "f \<in> fst ` set row" using assms(1,4) by (metis row_kinds_def list.set_map)
  then have "map fst (dict_put f v row) = map fst row" by (simp add: dict_put_def case_prod_beta)
  moreover have "\<exists>kind. map_of (model_columns name) g = Some kind \<and> of_kind kind w"
    if "(g, w) \<in> set (dict_put f v row)" for g w
    using that f assms(1-3) by (auto simp: dict_put_def row_kinds_def split: if_splits)
  ultimately show ?thesis using assms(1) by (auto simp: row_kinds_def)
qed

lemma of_kind_nullable: "(\<And>x. of_kind kind (f x)) \<Longrightarrow> of_kind kind (nullable f v)"
  by (cases v) (simp_all add: nullable_def)

lemma of_kind_columns [simp]:
  "of_kind kind (text_column s) \<longleftrightarrow> kind = OtherColumn" "of_kind kind (int_column i) \<longleftrightarrow> kind = OtherColumn"
  "of_kind OtherColumn (nullable text_column t)" "of_kind OtherColumn (nullable int_column n)"
  "of_kind DateTimeColumn (nullable CTime d)" "of_kind UuidColumn (nullable CUuid u)"
  by (simp_all add: text_column_def int_column_def of_kind_nullable)

text \<open>The columns of the model are those of the review, in its order.\<close>

lemma model_columns_fields: "list_all (\<lambda>name. map fst (model_columns name) = entity_fields name) ENTITY_NAMES"
  by code_simp

lemma row_kinds_by_order:
  assumes "list_all2 (\<lambda>(f, kind) (g, v). f = g \<and> of_kind kind v) (model_columns name) row" "name \<in> set ENTITY_NAMES"
  shows "row_kinds name row"
proof -
  have keys: "map fst (model_columns name) = entity_fields name"
    using assms(2) model_columns_fields by (simp add: list_all_iff)
  have "map fst (model_columns name) = map fst row"
    using assms(1) by (induction rule: list_all2_induct) auto
  moreover have "\<exists>kind. map_of (model_columns name) f = Some kind \<and> of_kind kind v" if "(f, v) \<in> set row" for f v
  proof -
    from that obtain i where i: "i < length row" "row ! i = (f, v)" by (auto simp: in_set_conv_nth)
    moreover obtain g kind where g: "model_columns name ! i = (g, kind)" by (rule prod.exhaust)
    ultimately have "(g, kind) \<in> set (model_columns name)" "g = f" "of_kind kind v"
      using assms(1) by (auto simp: list_all2_conv_all_nth in_set_conv_nth dest: spec [of _ i])
    moreover have "distinct (map fst (model_columns name))" unfolding keys by (rule entity_fields_distinct)
    ultimately show ?thesis by (metis map_of_is_SomeI)
  qed
  ultimately show ?thesis by (auto simp: row_kinds_def keys)
qed

lemma row_kinds_columns:
  "row_kinds ''merchant_policies'' (policy_columns V p)"
  "row_kinds ''payment_cases'' (case_columns V c)"
  "row_kinds ''case_events'' (event_columns V e)"
  "row_kinds ''strategy_proposals'' (proposal_columns V sp)"
  "row_kinds ''policy_decisions'' (decision_columns V d)"
  "row_kinds ''approval_requests'' (approval_columns V a)"
  "row_kinds ''recovery_actions'' (action_columns V r)"
  "row_kinds ''recovery_outcome_observations'' (observation_columns V ob)"
  "row_kinds ''recovery_attributions'' (attribution_columns V t)"
  by (rule row_kinds_by_order; simp add: policy_columns_def case_columns_def event_columns_def proposal_columns_def
      decision_columns_def approval_columns_def action_columns_def observation_columns_def
      attribution_columns_def model_columns_def plain_columns_def of_kind_nullable ENTITY_NAMES_def ENTITY_SPECS_def)+

definition plain_column :: "string \<Rightarrow> string \<Rightarrow> bool" where
  "plain_column name f \<longleftrightarrow> map_of (model_columns name) f = Some OtherColumn \<and> f \<in> set (entity_fields name)"

lemma replaced_columns:
  "plain_column ''merchant_policies'' ''merchant_id''"
  "plain_column ''payment_cases'' ''case_reference''" "plain_column ''payment_cases'' ''merchant_id''" "plain_column ''payment_cases'' ''payment_id''" "plain_column ''payment_cases'' ''subscription_id''" "plain_column ''payment_cases'' ''customer_id''" "plain_column ''payment_cases'' ''error_description''" "plain_column ''payment_cases'' ''assessment_fingerprint''"
  "plain_column ''case_events'' ''event_data''"
  "plain_column ''strategy_proposals'' ''assessment_fingerprint''" "plain_column ''strategy_proposals'' ''strategy_input_fingerprint''" "plain_column ''strategy_proposals'' ''provider_response_id''"
  "plain_column ''policy_decisions'' ''strategy_input_fingerprint''" "plain_column ''policy_decisions'' ''policy_fingerprint''" "plain_column ''policy_decisions'' ''authorization_input_fingerprint''"
  "plain_column ''approval_requests'' ''decided_by''" "plain_column ''approval_requests'' ''decision_note''"
  "plain_column ''recovery_actions'' ''idempotency_key''" "plain_column ''recovery_actions'' ''request_fingerprint''" "plain_column ''recovery_actions'' ''external_reference_id''" "plain_column ''recovery_actions'' ''external_reference''" "plain_column ''recovery_actions'' ''external_url''"
  "plain_column ''recovery_outcome_observations'' ''provider_payment_id''" "plain_column ''recovery_outcome_observations'' ''evidence_fingerprint''"
  "plain_column ''recovery_attributions'' ''provider_payment_link_id''" "plain_column ''recovery_attributions'' ''provider_reference_id''" "plain_column ''recovery_attributions'' ''provider_payment_id''" "plain_column ''recovery_attributions'' ''evidence_fingerprint''"
  by code_simp+

lemma put_plain:
  assumes "row_kinds name row" "plain_column name f"
  shows "row_kinds name (dict_put f (CPlain v) row)" "row_kinds name (dict_put f (text_column s) row)"
    "row_kinds name (dict_put f (nullable text_column t) row)"
  using assms by (auto simp: plain_column_def intro!: row_kinds_put)

lemma export_kinds:
  "export_policy V S p = Inr row \<Longrightarrow> row_kinds ''merchant_policies'' row"
  "export_case sha V S c = Inr row \<Longrightarrow> row_kinds ''payment_cases'' row"
  "export_event V e = Inr row \<Longrightarrow> row_kinds ''case_events'' row"
  "row_kinds ''strategy_proposals'' (export_proposal sha V sp)"
  "row_kinds ''policy_decisions'' (export_decision sha V d)"
  "row_kinds ''approval_requests'' (export_approval V a)"
  "row_kinds ''recovery_actions'' (export_action sha V r)"
  "row_kinds ''recovery_outcome_observations'' (export_observation sha V ob)"
  "row_kinds ''recovery_attributions'' (export_attribution sha V t)"
  by (auto simp: export_policy_def export_case_def export_event_def export_proposal_def export_decision_def
      export_approval_def export_action_def export_observation_def export_attribution_def Let_def
      intro!: put_plain row_kinds_columns replaced_columns)

lemma entity_rows_kinds:
  "name \<in> set ENTITY_NAMES \<Longrightarrow> entity_rows sha V S db name = Inr rows \<Longrightarrow> row \<in> set rows \<Longrightarrow> row_kinds name row"
  by (auto simp: ENTITY_NAMES_def ENTITY_SPECS_def entity_rows_def Let_def export_kinds dest!: smap_Inr_set)

text \<open>What a row becomes in the file and back: its JSON values are canonical.\<close>

fun canon_column :: "column_value \<Rightarrow> column_value" where
  "canon_column (CPlain v) = CPlain (json_canon v)"
| "canon_column v = v"

definition canon_row :: "column_row \<Rightarrow> column_row" where
  "canon_row row = map (\<lambda>(f, v). (f, canon_column v)) row"

lemma json_value_canon: "json_value (canon_column v) = json_canon (json_value v)"
  by (cases v) auto

lemma keys_canon_row: "map fst (canon_row row) = map fst row"
  by (simp add: canon_row_def case_prod_beta)

lemma keys_json_record: "map fst (json_record row) = map fst row"
  by (simp add: json_record_def case_prod_beta)

lemma json_record_canon: "json_record (canon_row row) = canon_entries (json_record row)"
  by (simp add: json_record_def canon_row_def json_value_canon case_prod_beta)

lemma of_kind_canon: "of_kind kind (canon_column v) = of_kind kind v"
  by (cases v) auto

lemma time_reads_canon: "time_reads fromiso (canon_column v) = time_reads fromiso v"
  by (cases v) auto

lemma canon_row_fits:
  assumes "row_kinds name row" "times_read fromiso row"
  shows "row_fits fromiso name (canon_row row)"
proof (rule row_fits_kinds)
  have "\<exists>kind. map_of (model_columns name) f = Some kind \<and> of_kind kind w" if "(f, w) \<in> set (canon_row row)" for f w
  proof -
    from that obtain v where "(f, v) \<in> set row" "w = canon_column v" by (auto simp: canon_row_def)
    with assms(1) show ?thesis by (auto simp: row_kinds_def of_kind_canon)
  qed
  with assms(1) show "row_kinds name (canon_row row)" by (auto simp: row_kinds_def keys_canon_row)
  show "times_read fromiso (canon_row row)"
    using assms(2) by (fastforce simp: times_read_def canon_row_def list_all_iff time_reads_canon)
qed

lemma decode_canon_record:
  assumes "row_kinds name row" "times_read fromiso row"
  shows "decode_record fromiso name (canon_record (json_record row)) = Inr (canon_row row)"
proof (rule decode_json_record)
  have "map fst row = entity_fields name" using assms(1) by (simp add: row_kinds_def)
  then have "distinct (map fst (canon_entries (json_record row)))"
    by (simp only: keys_canon_entries keys_json_record entity_fields_distinct)
  then show "map_of (canon_record (json_record row)) = map_of (json_record (canon_row row))"
    by (simp only: canon_record_def json_record_canon map_of_sort_key)
qed (simp_all only: canon_row_fits [OF assms] entity_fields_distinct)

text \<open>The rows that an export publishes for an entity, as a target stores them.\<close>

definition published_rows :: "column_row list \<Rightarrow> column_row list" where
  "published_rows rows = map canon_row (sort_key (\<lambda>row. id_text (json_record row)) rows)"

lemma decode_published:
  assumes "\<forall>row \<in> set rows. row_kinds name row \<and> times_read fromiso row"
  shows "smap (decode_record fromiso name) (map canon_record (sort_key id_text (map json_record rows))) =
    Inr (published_rows rows)"
proof -
  have "sort_key id_text (map json_record rows) = map json_record (sort_key (\<lambda>row. id_text (json_record row)) rows)"
    by (rule map_sort_key [symmetric]) simp
  moreover have "smap (decode_record fromiso name) (map canon_record (map json_record rs)) = Inr (map canon_row rs)"
    if "set rs \<subseteq> set rows" for rs
    using that assms by (induction rs) (simp_all add: decode_canon_record)
  ultimately show ?thesis by (simp add: published_rows_def)
qed

lemma import_entities_stores:
  assumes "distinct names"
    and "\<And>name. name \<in> set names \<Longrightarrow> smap (decode_record fromiso name) (records_named es name) = Inr (R name)"
    and "\<And>name T. name \<in> set names \<Longrightarrow> store T name (R name) = Some (R name)"
  shows "import_entities fromiso store es names T =
    Inr (T\<lparr>dt_rows := (\<lambda>n. if n \<in> set names then dt_rows T n @ R n else dt_rows T n)\<rparr>)"
  using assms
proof (induction names arbitrary: T)
  case (Cons name names)
  then show ?case by (simp add: Cons.IH) (auto intro!: demo_target.equality)
qed (simp add: demo_target.equality)

text \<open>Every serialised entity set has the reviewed shape.\<close>

lemma serialize_all2:
  assumes "serialize_entities sha V S db = Inr es"
  shows "list_all2 (\<lambda>name e. \<exists>rows. entity_rows sha V S db name = Inr rows \<and>
      e = (name, sort_key id_text (map json_record rows))) ENTITY_NAMES es"
  using assms unfolding serialize_entities_def smap_Inr_iff
  by (rule list_all2_mono) (auto simp: sbind_eq_Inr_iff)

lemma serialize_names:
  assumes "serialize_entities sha V S db = Inr es"
  shows "map fst es = ENTITY_NAMES"
  using serialize_all2 [OF assms] by (induction rule: list_all2_induct) auto

lemma list_all2_left: "list_all2 P xs ys \<Longrightarrow> x \<in> set xs \<Longrightarrow> \<exists>y \<in> set ys. P x y"
  by (induction rule: list_all2_induct) auto

lemma serialize_rows:
  assumes "serialize_entities sha V S db = Inr es" "name \<in> set ENTITY_NAMES"
  obtains rows where "entity_rows sha V S db name = Inr rows"
    "map_of es name = Some (sort_key id_text (map json_record rows))"
proof -
  from list_all2_left [OF serialize_all2 [OF assms(1)] assms(2)] obtain rows where
    rows: "entity_rows sha V S db name = Inr rows" "(name, sort_key id_text (map json_record rows)) \<in> set es" by blast
  have "distinct (map fst es)" by (simp only: serialize_names [OF assms(1)] entity_names_distinct)
  then have "map_of es name = Some (sort_key id_text (map json_record rows))" using rows(2) by simp
  with rows(1) show ?thesis by (rule that)
qed

lemma serialize_shape:
  assumes "serialize_entities sha V S db = Inr es"
  shows "entities_shape es"
proof -
  have names: "map fst es = ENTITY_NAMES" by (rule serialize_names [OF assms])
  have "map fst r = entity_fields name" if r: "(name, records) \<in> set es" "r \<in> set records" for name records r
  proof -
    have name: "name \<in> set ENTITY_NAMES" using r(1) names by (metis fst_conv image_eqI list.set_map)
    obtain rows where rows: "entity_rows sha V S db name = Inr rows"
      "map_of es name = Some (sort_key id_text (map json_record rows))" by (rule serialize_rows [OF assms name])
    have "distinct (map fst es)" by (simp only: names entity_names_distinct)
    with r(1) rows(2) have "records = sort_key id_text (map json_record rows)" by simp
    with r(2) obtain row where "row \<in> set rows" "r = json_record row" by auto
    with entity_rows_kinds [OF name rows(1)] show ?thesis by (simp add: keys_json_record row_kinds_def)
  qed
  with names show ?thesis by (auto simp: entities_shape_def)
qed

section \<open>Exports and imports\<close>

text \<open>Every time of the exported rows is read back from its text.\<close>

definition exported_times_read ::
  "(string \<Rightarrow> py_datetime option) \<Rightarrow> (string \<Rightarrow> string) \<Rightarrow> server_columns \<Rightarrow> evidence_selection \<Rightarrow> arc_db \<Rightarrow> bool" where
  "exported_times_read fromiso sha V S db \<longleftrightarrow>
    list_all (\<lambda>name. case entity_rows sha V S db name of Inl e \<Rightarrow> True | Inr rows \<Rightarrow> list_all (times_read fromiso) rows)
      ENTITY_NAMES"

lemma target_empty_iff: "target_empty T \<longleftrightarrow> (\<forall>name \<in> set ENTITY_NAMES. dt_rows T name = []) \<and> dt_webhook_count T = 0"
  by (simp add: target_empty_def list_all_iff)

definition export_result :: "(string \<Rightarrow> string) \<Rightarrow> bundle_entities \<Rightarrow> bundle_result" where
  "export_result sha es = \<lparr>br_bundle_version = JStr BUNDLE_VERSION, br_case_count = JInt 5,
     br_checksum_sha256 = bundle_checksum sha (JObj (bundle_payload es))\<rparr>"

lemma export_is_sealed:
  "export_public_demo_bundle sha V db = Inr (bundle, result) \<Longrightarrow>
     \<exists>S es. select_accepted_evidence db = Inr S \<and> serialize_entities sha V S db = Inr es \<and>
       validate_sanitized_entities es (es_sensitive_values S) = Inr () \<and>
       bundle = sealed_bundle sha es \<and> result = export_result sha es"
  by (auto simp: export_public_demo_bundle_def export_result_def sbind_eq_Inr_iff)

text \<open>
  C29. A bundle written from records that passed the check is imported into an empty target: the loader accepts
  its envelope, checksum and records, and a database that stores the rows as they are given ends up with
  exactly the exported rows of every table, every key and time read back, under the checksum that the export
  reported.
\<close>

theorem exported_bundle_imports:
  assumes es: "serialize_entities sha V S db = Inr es" and ok: "validate_sanitized_entities es values = Inr ()"
    and hex: "\<And>s. sha256_hex (sha s)" and times: "exported_times_read fromiso sha V S db"
    and store: "\<And>T name rows. store T name rows = Some rows" and empty: "target_empty T"
  shows "\<exists>T'. import_public_demo_bundle sha fromiso store (ParsedJson (json_canon (sealed_bundle sha es))) T =
      (Inr (export_result sha es), T') \<and> dt_webhook_count T' = 0 \<and>
    list_all (\<lambda>name. \<exists>rows. entity_rows sha V S db name = Inr rows \<and> dt_rows T' name = published_rows rows) ENTITY_NAMES"
proof -
  let ?R = "\<lambda>name. published_rows (projr (entity_rows sha V S db name))"
  have shape: "entities_shape es" by (rule serialize_shape [OF es])
  have rows: "entity_rows sha V S db name = Inr (projr (entity_rows sha V S db name)) \<and>
      smap (decode_record fromiso name) (records_named (canon_entities es) name) = Inr (?R name)"
    if name: "name \<in> set ENTITY_NAMES" for name
  proof -
    obtain rows where rows: "entity_rows sha V S db name = Inr rows"
      "map_of es name = Some (sort_key id_text (map json_record rows))" by (rule serialize_rows [OF es name])
    have "distinct (map fst es)" using shape by (simp add: entities_shape_def entity_names_distinct)
    then have named: "records_named (canon_entities es) name = map canon_record (sort_key id_text (map json_record rows))"
      using rows(2) by (simp add: records_named_def map_of_canon_entities)
    have "times_read fromiso row" if "row \<in> set rows" for row
      using times name rows(1) that by (force simp: exported_times_read_def list_all_iff)
    with entity_rows_kinds [OF name rows(1)] have "\<forall>row \<in> set rows. row_kinds name row \<and> times_read fromiso row" by blast
    from decode_published [OF this] rows(1) show ?thesis by (simp only: named rows(1) sum.sel)
  qed
  have stored: "import_entities fromiso store (canon_entities es) ENTITY_NAMES T =
      Inr (T\<lparr>dt_rows := (\<lambda>n. if n \<in> set ENTITY_NAMES then dt_rows T n @ ?R n else dt_rows T n)\<rparr>)"
    by (rule import_entities_stores) (rule entity_names_distinct, erule conjunct2 [OF rows], rule store)
  have load: "load_bundle sha (ParsedJson (json_canon (sealed_bundle sha es))) =
    Inr \<lparr>lb_version = JStr BUNDLE_VERSION, lb_case_count = JInt 5,
         lb_checksum = bundle_checksum sha (JObj (bundle_payload es)), lb_entities = canon_entities es\<rparr>"
    by (rule sealed_bundle_loads [OF shape ok]) (simp add: bundle_checksum_def hex)
  let ?T = "T\<lparr>dt_rows := (\<lambda>n. if n \<in> set ENTITY_NAMES then dt_rows T n @ ?R n else dt_rows T n)\<rparr>"
  have "import_public_demo_bundle sha fromiso store (ParsedJson (json_canon (sealed_bundle sha es))) T =
      (Inr (export_result sha es), ?T)"
    by (simp add: import_public_demo_bundle_def load guard_import_target_def empty stored export_result_def)
  moreover have "dt_webhook_count ?T = 0" using empty by (simp add: target_empty_iff)
  moreover have "dt_rows ?T name = ?R name" if "name \<in> set ENTITY_NAMES" for name
    using empty that by (simp add: target_empty_iff)
  then have "list_all (\<lambda>name. \<exists>rows. entity_rows sha V S db name = Inr rows \<and> dt_rows ?T name = published_rows rows) ENTITY_NAMES"
    unfolding list_all_iff using rows by blast
  ultimately show ?thesis by blast
qed

lemma import_entities_frame:
  "import_entities fromiso store es names T = Inr T' \<Longrightarrow>
     dt_webhook_count T' = dt_webhook_count T \<and> (\<forall>n. n \<notin> set names \<longrightarrow> dt_rows T' n = dt_rows T n)"
proof (induction names arbitrary: T)
  case (Cons name names)
  then show ?case by (fastforce simp: sbind_eq_Inr_iff split: option.splits)
qed simp

lemma import_fails_unchanged:
  "import_public_demo_bundle sha fromiso store file T = (Inl e, T') \<Longrightarrow> T' = T"
  by (auto simp: import_public_demo_bundle_def split: sum.splits)

lemma import_succeeds:
  assumes "import_public_demo_bundle sha fromiso store file T = (Inr result, T')"
  obtains b where "load_bundle sha file = Inr b" "guard_import_target T (lb_entities b) = Inr ()"
    "import_entities fromiso store (lb_entities b) ENTITY_NAMES T = Inr T'"
    "result = \<lparr>br_bundle_version = lb_version b, br_case_count = lb_case_count b,
       br_checksum_sha256 = lb_checksum b\<rparr>"
  using assms by (auto simp: import_public_demo_bundle_def sbind_eq_Inr_iff split: sum.splits intro: that)

lemma guard_passes_empty: "guard_import_target T es = Inr () \<Longrightarrow> target_empty T"
  by (auto simp: guard_import_target_def sbind_eq_Inr_iff split: if_splits)

lemma guard_InrD: "(if P then Inl e else x) = Inr y \<Longrightarrow> \<not> P \<and> x = Inr y"
  by (simp split: if_split_asm)

lemma load_checked:
  assumes "load_bundle sha file = Inr b"
  shows "\<exists>kvs. file = ParsedJson (JObj kvs) \<and> sha256_hex (lb_checksum b) \<and>
     lb_checksum b = bundle_checksum sha (JObj (filter (\<lambda>kv. fst kv \<noteq> ''checksum_sha256'') kvs)) \<and>
     validate_sanitized_entities (lb_entities b) [] = Inr ()"
proof -
  obtain v where v: "file = ParsedJson v" using assms by (cases "file") (auto simp: load_bundle_def)
  note load = assms [unfolded v load_bundle_def bundle_file.case Let_def]
  obtain kvs where kvs: "v = JObj kvs" using guard_InrD [OF load] by (cases v) auto
  note l1 = conjunct2 [OF guard_InrD [OF conjunct2 [OF guard_InrD [OF load]]]]
  obtain checksum where c: "the (map_of (items_of v) ''checksum_sha256'') = JStr checksum"
    using l1 by (cases "the (map_of (items_of v) ''checksum_sha256'')") simp_all
  note l2 = guard_InrD [OF l1 [unfolded c json.case]]
  note l3 = guard_InrD [OF conjunct2 [OF l2]]
  note l4 = conjunct2 [OF guard_InrD [OF conjunct2 [OF l3]]]
  obtain u w where "validate_sanitized_entities (entities_of (the (map_of (items_of v) ''entities''))) [] = Inr ()"
    "b = \<lparr>lb_version = the (map_of (items_of v) ''bundle_version''), lb_case_count = the (map_of (items_of v) ''case_count''),
       lb_checksum = checksum, lb_entities = entities_of (the (map_of (items_of v) ''entities''))\<rparr>"
    using l4 unfolding sbind_eq_Inr_iff by auto
  with l2 l3 v kvs show ?thesis by (auto simp: items_of_def)
qed

text \<open>
  The target an entity's rows are flushed into: the entities before it in the order of the import are
  stored already, the others are not.
\<close>

definition flushed_before :: "string \<Rightarrow> string list \<Rightarrow> demo_target \<Rightarrow> demo_target \<Rightarrow> demo_target" where
  "flushed_before name names T T' =
     T\<lparr>dt_rows := (\<lambda>n. if n \<in> set (takeWhile (\<lambda>m. m \<noteq> name) names) then dt_rows T' n else dt_rows T n)\<rparr>"

lemma import_entities_rows:
  "import_entities fromiso store es names T = Inr T' \<Longrightarrow> distinct names \<Longrightarrow> name \<in> set names \<Longrightarrow>
     \<exists>rows stored. smap (decode_record fromiso name) (records_named es name) = Inr rows \<and>
       store (flushed_before name names T T') name rows = Some stored \<and> dt_rows T' name = dt_rows T name @ stored"
proof (induction names arbitrary: T)
  case (Cons n names)
  then obtain rows stored where n: "smap (decode_record fromiso n) (records_named es n) = Inr rows"
    "store T n rows = Some stored"
    "import_entities fromiso store es names (T\<lparr>dt_rows := (dt_rows T)(n := dt_rows T n @ stored)\<rparr>) = Inr T'"
    by (auto simp: sbind_eq_Inr_iff split: option.splits)
  have done_n: "dt_rows T' n = dt_rows T n @ stored"
    using import_entities_frame [OF n(3)] Cons.prems(2) by simp
  show ?case
  proof (cases "name = n")
    case True
    then have "flushed_before name (n # names) T T' = T" by (simp add: flushed_before_def)
    with True done_n n(1,2) show ?thesis by simp
  next
    case False
    have "flushed_before name (n # names) T T' =
        flushed_before name names (T\<lparr>dt_rows := (dt_rows T)(n := dt_rows T n @ stored)\<rparr>) T'"
      using False done_n by (auto simp: flushed_before_def intro!: demo_target.equality)
    with Cons.IH [OF n(3)] Cons.prems(2,3) False show ?thesis by simp
  qed
qed simp

lemma import_entities_Inl:
  "import_entities fromiso store es names T = Inl e \<Longrightarrow>
     \<exists>name \<in> set names. smap (decode_record fromiso name) (records_named es name) = Inl e \<or>
       e = IMPORT_FAILED \<and> (\<exists>T0 rows. smap (decode_record fromiso name) (records_named es name) = Inr rows \<and>
         store T0 name rows = None)"
proof (induction names arbitrary: T)
  case (Cons n names)
  show ?case
  proof (cases "smap (decode_record fromiso n) (records_named es n)")
    case (Inl e')
    with Cons.prems show ?thesis by simp
  next
    case (Inr rows)
    show ?thesis
    proof (cases "store T n rows")
      case None
      with Cons.prems Inr show ?thesis by (intro bexI [of _ n]) auto
    next
      case (Some stored)
      with Cons.prems Inr Cons.IH [of "T\<lparr>dt_rows := (dt_rows T)(n := dt_rows T n @ stored)\<rparr>"] show ?thesis by simp
    qed
  qed
qed simp

lemma import_fails_why:
  assumes "import_public_demo_bundle sha fromiso store file T = (Inl e, T')"
  shows "load_bundle sha file = Inl e \<or> (\<exists>b e'. load_bundle sha file = Inr b \<and> e = import_handler e' \<and>
     (guard_import_target T (lb_entities b) = Inl e' \<or>
      (\<exists>name \<in> set ENTITY_NAMES. smap (decode_record fromiso name) (records_named (lb_entities b) name) = Inl e' \<or>
        e' = IMPORT_FAILED \<and> (\<exists>T0 rows. smap (decode_record fromiso name) (records_named (lb_entities b) name) = Inr rows \<and>
          store T0 name rows = None))))"
proof (cases "load_bundle sha file")
  case (Inr b)
  with assms obtain e' where e: "e = import_handler e'" "guard_import_target T (lb_entities b) = Inl e' \<or>
      import_entities fromiso store (lb_entities b) ENTITY_NAMES T = Inl e'"
    by (cases "guard_import_target T (lb_entities b)") (auto simp: import_public_demo_bundle_def split: sum.splits)
  from e(2) show ?thesis
  proof
    assume "guard_import_target T (lb_entities b) = Inl e'"
    with Inr e(1) show ?thesis by blast
  next
    assume "import_entities fromiso store (lb_entities b) ENTITY_NAMES T = Inl e'"
    from import_entities_Inl [OF this] Inr e(1) show ?thesis by (intro disjI2 exI [of _ b] exI [of _ e']) simp
  qed
qed (use assms in \<open>simp add: import_public_demo_bundle_def\<close>)

text \<open>
  C26. An import is all or nothing and guarded. One that fails leaves the target as it was, and fails because
  the bundle does not load, the guard refuses the target, a record is not decoded or the database refuses
  a flush. One that succeeds read a bundle that passed the content checks under a checksum that its
  other items have, met a target without a row in any exported table and without webhook events, and then
  every exported table holds exactly what the database made of all the decoded records of its entity, flushed
  after the entities before it, and nothing else was written.
\<close>

theorem import_is_guarded:
  assumes "import_public_demo_bundle sha fromiso store file T = (outcome, T')"
  shows "case outcome of
     Inl e \<Rightarrow> T' = T \<and> (load_bundle sha file = Inl e \<or> (\<exists>b e'. load_bundle sha file = Inr b \<and> e = import_handler e' \<and>
       (guard_import_target T (lb_entities b) = Inl e' \<or>
        (\<exists>name \<in> set ENTITY_NAMES. smap (decode_record fromiso name) (records_named (lb_entities b) name) = Inl e' \<or>
          e' = IMPORT_FAILED \<and> (\<exists>T0 rows. smap (decode_record fromiso name) (records_named (lb_entities b) name) = Inr rows \<and>
            store T0 name rows = None)))))
   | Inr result \<Rightarrow> target_empty T \<and> dt_webhook_count T' = 0 \<and>
       (\<forall>n. n \<notin> set ENTITY_NAMES \<longrightarrow> dt_rows T' n = dt_rows T n) \<and>
       (\<exists>kvs b. file = ParsedJson (JObj kvs) \<and> load_bundle sha file = Inr b \<and>
          validate_sanitized_entities (lb_entities b) [] = Inr () \<and>
          br_checksum_sha256 result = bundle_checksum sha (JObj (filter (\<lambda>kv. fst kv \<noteq> ''checksum_sha256'') kvs)) \<and>
          (\<forall>name \<in> set ENTITY_NAMES. \<exists>rows.
             smap (decode_record fromiso name) (records_named (lb_entities b) name) = Inr rows \<and>
             store (flushed_before name ENTITY_NAMES T T') name rows = Some (dt_rows T' name)))"
proof (cases outcome)
  case (Inl e)
  note fails = assms [unfolded Inl]
  show ?thesis
    unfolding Inl sum.case using import_fails_unchanged [OF fails] import_fails_why [OF fails] by (rule conjI)
next
  case (Inr result)
  from assms [unfolded Inr] obtain b where b: "load_bundle sha file = Inr b"
    "guard_import_target T (lb_entities b) = Inr ()"
    "import_entities fromiso store (lb_entities b) ENTITY_NAMES T = Inr T'"
    "result = \<lparr>br_bundle_version = lb_version b, br_case_count = lb_case_count b,
       br_checksum_sha256 = lb_checksum b\<rparr>" by (rule import_succeeds)
  note empty = guard_passes_empty [OF b(2)]
  have "\<exists>rows. smap (decode_record fromiso name) (records_named (lb_entities b) name) = Inr rows \<and>
      store (flushed_before name ENTITY_NAMES T T') name rows = Some (dt_rows T' name)" if "name \<in> set ENTITY_NAMES" for name
    using import_entities_rows [OF b(3) entity_names_distinct that] empty that by (auto simp: target_empty_def list_all_iff)
  with empty import_entities_frame [OF b(3)] load_checked [OF b(1)] b(1,4) Inr show ?thesis
    by (auto simp: target_empty_def)
qed

section \<open>Importing a bundle twice\<close>

text \<open>A database that stores a primary key as it is given, and no row without one.\<close>

definition keeps_ids :: "row_store_fun \<Rightarrow> bool" where
  "keeps_ids store \<longleftrightarrow> (\<forall>T name rows stored. store T name rows = Some stored \<longrightarrow>
     map (\<lambda>row. map_of row ''id'') stored = map (\<lambda>row. map_of row ''id'') rows \<and>
     (\<forall>row \<in> set rows. \<exists>u. map_of row ''id'' = Some (CUuid u)))"

lemma smap_map_of:
  assumes "smap (\<lambda>f. case map_of m f of None \<Rightarrow> Inl e | Some v \<Rightarrow> g f v) fs = Inr row" "k \<in> set fs"
    and "\<And>f v p. g f v = Inr p \<Longrightarrow> fst p = f"
  shows "\<exists>v c. map_of m k = Some v \<and> g k v = Inr (k, c) \<and> map_of row k = Some c"
  using assms(1,2)
proof (induction fs arbitrary: row)
  case (Cons f fs)
  then obtain v p rest where p: "map_of m f = Some v" "g f v = Inr p" "row = p # rest"
    "smap (\<lambda>f. case map_of m f of None \<Rightarrow> Inl e | Some v \<Rightarrow> g f v) fs = Inr rest"
    by (auto simp: sbind_eq_Inr_iff split: option.splits)
  then have "fst p = f" using assms(3) by blast
  then obtain c where "p = (f, c)" by (cases p) auto
  with p Cons.IH [OF p(4)] Cons.prems(2) show ?case by (cases "k = f") auto
qed simp

lemma id_columns: "list_all (\<lambda>name. ''id'' \<in> set (entity_fields name) \<and>
    map_of (model_columns name) ''id'' = Some UuidColumn) ENTITY_NAMES"
  by code_simp

lemma decoded_id:
  assumes "decode_record fromiso name record = Inr row" "name \<in> set ENTITY_NAMES" "map_of row ''id'' = Some (CUuid u)"
  shows "record_id record = Inr u"
proof -
  have id: "''id'' \<in> set (entity_fields name)" "map_of (model_columns name) ''id'' = Some UuidColumn"
    using id_columns assms(2) by (simp_all add: list_all_iff)
  have "\<exists>v c. map_of record ''id'' = Some v \<and>
      (case map_of (model_columns name) ''id'' of None \<Rightarrow> Inl BundleKeyError
        | Some kind \<Rightarrow> sbind (decode_value fromiso kind v) (\<lambda>c. Inr (''id'', c))) = Inr (''id'', c) \<and>
      map_of row ''id'' = Some c"
    using assms(1) [unfolded decode_record_def] id(1)
    by (rule smap_map_of) (auto simp: sbind_eq_Inr_iff split: option.splits)
  then obtain v where "map_of record ''id'' = Some v" "decode_value fromiso UuidColumn v = Inr (CUuid u)"
    using id(2) assms(3) by (auto simp: sbind_eq_Inr_iff)
  then show ?thesis
    by (auto simp: record_id_def decode_value_def split: if_splits json.splits option.splits)
qed

lemma stored_ids_eq: "stored_ids rows = {u. Some (CUuid u) \<in> set (map (\<lambda>row. map_of row ''id'') rows)}"
  by (induction rows) (auto simp: stored_ids_def map_filter_simps split: option.splits column_value.splits)

lemma stored_ids_cong:
  "map (\<lambda>row. map_of row ''id'') rows = map (\<lambda>row. map_of row ''id'') rows' \<Longrightarrow> stored_ids rows = stored_ids rows'"
  by (simp only: stored_ids_eq)

lemma expected_ids:
  assumes "smap (decode_record fromiso name) records = Inr rows" "name \<in> set ENTITY_NAMES"
    "\<forall>row \<in> set rows. \<exists>u. map_of row ''id'' = Some (CUuid u)"
  shows "\<exists>ids. smap record_id records = Inr ids \<and> set ids = stored_ids rows"
  using assms(1,3)
proof (induction records arbitrary: rows)
  case Nil
  then show ?case by (simp add: stored_ids_def map_filter_simps)
next
  case (Cons r0 records)
  then obtain row rest where row: "decode_record fromiso name r0 = Inr row" "rows = row # rest"
    "smap (decode_record fromiso name) records = Inr rest" by (auto simp: sbind_eq_Inr_iff)
  then obtain u where u: "map_of row ''id'' = Some (CUuid u)" using Cons.prems(2) by auto
  obtain ids where ids: "smap record_id records = Inr ids" "set ids = stored_ids rest"
    using Cons.IH [OF row(3)] Cons.prems(2) row(2) by auto
  have "record_id r0 = Inr u" by (rule decoded_id [OF row(1) assms(2) u])
  moreover have "stored_ids rows = insert u (stored_ids rest)"
    by (simp add: stored_ids_def row(2) map_filter_simps u)
  ultimately show ?case using ids by simp
qed

lemma same_ids_all:
  assumes "\<And>name. name \<in> set names \<Longrightarrow> \<exists>ids. smap record_id (records_named es name) = Inr ids \<and>
    stored_ids (dt_rows T name) = set ids"
  shows "same_ids T es exact names = Inr exact"
  using assms
proof (induction names arbitrary: exact)
  case (Cons name names)
  then obtain ids where "smap record_id (records_named es name) = Inr ids" "stored_ids (dt_rows T name) = set ids"
    by (meson list.set_intros(1))
  with Cons show ?case by simp
qed simp

text \<open>
  Importing a bundle again into the target that holds it is refused as already imported and changes nothing,
  provided that the bundle has a record at all.
\<close>

lemma reimport_refused:
  assumes "import_public_demo_bundle sha fromiso store file T = (Inr result, T')" "keeps_ids store" "\<not> target_empty T'"
  shows "import_public_demo_bundle sha fromiso store' file T' =
    (Inl (PublicDemoAlreadyImportedError ''Exact public demo bundle is already imported''), T')"
proof -
  obtain b where b: "load_bundle sha file = Inr b" "guard_import_target T (lb_entities b) = Inr ()"
    "import_entities fromiso store (lb_entities b) ENTITY_NAMES T = Inr T'"
    using assms(1) by (rule import_succeeds)
  note empty = guard_passes_empty [OF b(2), unfolded target_empty_iff]
  have "\<exists>ids. smap record_id (records_named (lb_entities b) name) = Inr ids \<and> stored_ids (dt_rows T' name) = set ids"
    if name: "name \<in> set ENTITY_NAMES" for name
  proof -
    obtain T0 rows stored where rows: "smap (decode_record fromiso name) (records_named (lb_entities b) name) = Inr rows"
      "store T0 name rows = Some stored" "dt_rows T' name = stored"
      using import_entities_rows [OF b(3) entity_names_distinct name] empty name by auto
    have kept: "map (\<lambda>row. map_of row ''id'') stored = map (\<lambda>row. map_of row ''id'') rows"
      "\<forall>row \<in> set rows. \<exists>u. map_of row ''id'' = Some (CUuid u)"
      using assms(2) rows(2) unfolding keeps_ids_def by blast+
    from expected_ids [OF rows(1) name kept(2)] stored_ids_cong [OF kept(1)] rows(3) show ?thesis by auto
  qed
  then have "same_ids T' (lb_entities b) True ENTITY_NAMES = Inr True" by (rule same_ids_all)
  moreover have "dt_webhook_count T' = 0" using import_entities_frame [OF b(3)] empty by simp
  ultimately have "guard_import_target T' (lb_entities b) =
      Inl (PublicDemoAlreadyImportedError ''Exact public demo bundle is already imported'')"
    using assms(3) by (simp add: guard_import_target_def)
  with b(1) show ?thesis by (simp add: import_public_demo_bundle_def)
qed

section \<open>Examples\<close>

definition empty_target :: demo_target where
  "empty_target = \<lparr>dt_rows = (\<lambda>_. []), dt_webhook_count = 0\<rparr>"

definition store_as_given :: row_store_fun where
  "store_as_given = (\<lambda>T name rows. Some rows)"

definition demo_fromiso :: "string \<Rightarrow> py_datetime option" where
  "demo_fromiso s = (if s = dt_str sample_time then Some sample_time else None)"

text \<open>
  A bundle is counted by its envelope: one without a record is imported as one of five cases, and again after
  that.
\<close>

definition no_records :: bundle_entities where
  "no_records = map (\<lambda>name. (name, [])) ENTITY_NAMES"

lemma no_records_loads:
  "load_bundle demo_sha (ParsedJson (json_canon (sealed_bundle demo_sha no_records))) =
    Inr \<lparr>lb_version = JStr BUNDLE_VERSION, lb_case_count = JInt 5,
         lb_checksum = bundle_checksum demo_sha (JObj (bundle_payload no_records)), lb_entities = canon_entities no_records\<rparr>"
proof (rule sealed_bundle_loads)
  show "entities_shape no_records" by (simp add: entities_shape_def no_records_def comp_def)
  show "validate_sanitized_entities no_records [] = Inr ()" by code_simp
  show "sha256_hex (bundle_checksum demo_sha (JObj (bundle_payload no_records)))"
    by (simp add: bundle_checksum_def demo_sha_def sha256_hex_def)
qed

lemma empty_import: "(\<And>name. records_named es name = []) \<Longrightarrow> (\<And>T name. store T name [] = Some []) \<Longrightarrow>
    import_entities fromiso store es names T = Inr T"
  by (induction names) simp_all

lemma empty_bundle_counts_five:
  "\<exists>b. load_bundle demo_sha (ParsedJson b) = Inr (projr (load_bundle demo_sha (ParsedJson b))) \<and>
     lb_entities (projr (load_bundle demo_sha (ParsedJson b))) = canon_entities no_records \<and>
     import_public_demo_bundle demo_sha fromiso store_as_given (ParsedJson b) empty_target =
       (Inr (export_result demo_sha no_records), empty_target) \<and>
     br_case_count (export_result demo_sha no_records) = JInt 5"
proof (intro exI conjI)
  let ?b = "json_canon (sealed_bundle demo_sha no_records)"
  show "load_bundle demo_sha (ParsedJson ?b) = Inr (projr (load_bundle demo_sha (ParsedJson ?b)))"
    "lb_entities (projr (load_bundle demo_sha (ParsedJson ?b))) = canon_entities no_records"
    by (simp_all add: no_records_loads)
  have "records_named (canon_entities no_records) name = []" for name
  proof -
    have "distinct (map fst no_records)"
      by (simp only: no_records_def map_map comp_def fst_conv map_ident entity_names_distinct)
    moreover have "map_of no_records name = Some [] \<or> map_of no_records name = None"
      by (cases "map_of no_records name") (auto simp: no_records_def dest!: map_of_SomeD)
    ultimately show ?thesis by (auto simp: records_named_def map_of_canon_entities)
  qed
  then have "import_entities fromiso store_as_given (canon_entities no_records) ENTITY_NAMES empty_target = Inr empty_target"
    by (rule empty_import) (simp add: store_as_given_def)
  then show "import_public_demo_bundle demo_sha fromiso store_as_given (ParsedJson ?b) empty_target =
      (Inr (export_result demo_sha no_records), empty_target)"
    by (simp add: import_public_demo_bundle_def no_records_loads guard_import_target_def target_empty_def
        empty_target_def list_all_iff export_result_def)
  show "br_case_count (export_result demo_sha no_records) = JInt 5" by (simp add: export_result_def)
qed

definition demo_source :: arc_db where
  "demo_source = empty_db\<lparr>
     db_case_events := [\<lparr>ce_case_id = 7, ce_event_type = DEMO_EVENT_TYPE, ce_source = DEMO_EVENT_SOURCE,
       ce_event_data = JObj [(''scenario_key'', JStr ''K''), (''operator'', JStr ''cust_1'')]\<rparr>]\<rparr>"

lemma demo_serialized:
  "\<not> isl (serialize_entities demo_sha demo_columns (demo_selection ''m1'' ''p1'') demo_source)"
  by code_simp

theorem exported_bundle_imports_witness:
  "\<exists>es T'. serialize_entities demo_sha demo_columns (demo_selection ''m1'' ''p1'') demo_source = Inr es \<and>
     import_public_demo_bundle demo_sha demo_fromiso store_as_given (ParsedJson (json_canon (sealed_bundle demo_sha es)))
       empty_target = (Inr (export_result demo_sha es), T')"
proof -
  obtain es where es: "serialize_entities demo_sha demo_columns (demo_selection ''m1'' ''p1'') demo_source = Inr es"
    using demo_serialized by (cases "serialize_entities demo_sha demo_columns (demo_selection ''m1'' ''p1'') demo_source") auto
  have "validate_sanitized_entities (projr (serialize_entities demo_sha demo_columns (demo_selection ''m1'' ''p1'') demo_source))
      [''cust_1''] = Inr ()" by code_simp
  then have ok: "validate_sanitized_entities es [''cust_1''] = Inr ()" by (simp add: es)
  have "exported_times_read demo_fromiso demo_sha demo_columns (demo_selection ''m1'' ''p1'') demo_source" by code_simp
  from exported_bundle_imports [OF es ok _ this, of store_as_given empty_target] show ?thesis
    using es by (auto simp: demo_sha_def sha256_hex_def store_as_given_def empty_target_def target_empty_def list_all_iff)
qed

theorem import_is_guarded_witness:
  "import_public_demo_bundle demo_sha demo_fromiso store_as_given NotJson empty_target =
     (Inl (PublicDemoImportError ''Public demo bundle is unreadable''), empty_target) \<and>
   (\<exists>file b. load_bundle demo_sha file = Inr b \<and> (\<forall>name \<in> set ENTITY_NAMES. \<exists>rows.
      smap (decode_record demo_fromiso name) (records_named (lb_entities b) name) = Inr rows \<and>
      dt_rows (snd (import_public_demo_bundle demo_sha demo_fromiso store_as_given file empty_target)) name = rows))"
proof
  show fails: "import_public_demo_bundle demo_sha demo_fromiso store_as_given NotJson empty_target =
    (Inl (PublicDemoImportError ''Public demo bundle is unreadable''), empty_target)"
    by (simp add: import_public_demo_bundle_def load_bundle_def)
  from empty_bundle_counts_five [where fromiso = demo_fromiso] obtain v where
    v: "import_public_demo_bundle demo_sha demo_fromiso store_as_given (ParsedJson v) empty_target =
      (Inr (export_result demo_sha no_records), empty_target)" by blast
  from import_is_guarded [OF v] obtain b where b: "load_bundle demo_sha (ParsedJson v) = Inr b"
    "\<forall>name \<in> set ENTITY_NAMES. \<exists>rows. smap (decode_record demo_fromiso name) (records_named (lb_entities b) name) = Inr rows \<and>
      store_as_given (flushed_before name ENTITY_NAMES empty_target empty_target) name rows = Some (dt_rows empty_target name)"
    by auto
  show "\<exists>file b. load_bundle demo_sha file = Inr b \<and> (\<forall>name \<in> set ENTITY_NAMES. \<exists>rows.
      smap (decode_record demo_fromiso name) (records_named (lb_entities b) name) = Inr rows \<and>
      dt_rows (snd (import_public_demo_bundle demo_sha demo_fromiso store_as_given file empty_target)) name = rows)"
    using b(2)
    by (intro exI [of _ "ParsedJson v"] exI [of _ b] conjI [OF b(1)]) (simp only: v snd_conv, simp add: store_as_given_def)
qed

end
