(* ===== verification/Spec2Isabelle.thy ===== *)
theory Spec2Isabelle
  imports Arc_Webhooks Arc_Ingress Arc_Execution_Liveness Arc_Execution_Outcome Arc_Assessment
    Arc_Metrics Arc_Batch Arc_Redaction Arc_Read_Api Arc_System Arc_Integrity Arc_Demo_Import
begin

text \<open>
  ARC revenue control: a control plane that recovers failed payments under merchant policy. A
  webhook of the payment provider is recorded once and processed under a lease; processing reads
  the provider's truth and reconciles the case of the payment or subscription; a case is assessed
  (eligibility and diagnosis), gets a strategy proposal, is evaluated against the merchant policy,
  may wait for a human, and its action is executed through the provider's payment links; what
  became of the link is observed and attributed. All state is in tables; every service is one or
  more transactions over them. The development models these services, operation by operation, and
  proves what they promise to each other.

  \<^bold>\<open>State.\<close> \<open>Arc_Models\<close> has one record per table (\<open>arc/domain/models\<close>), with its CHECK constraints
  as the predicates \<open>..._check\<close>, and \<open>arc_db\<close>, the record of all tables, in insertion order.
  Rows are found, saved and added by key (\<open>row_find\<close>, \<open>row_save\<close>, \<open>row_add\<close> in \<open>Arc_Prelude\<close>, whose
  locale of keyed tables is interpreted on every table). \<open>transaction\<close> is a session that commits on
  success and rolls back on an error. Errors are the constructors of \<open>arc_error\<close>, named after the
  exception classes, in the left summand of a result; \<open>sbind\<close> is their propagation. Datetimes are
  microseconds with an offset (\<open>py_datetime\<close>); amounts and counters are \<open>int\<close>, as Python's; ids are
  128-bit words. \<open>Arc_Json\<close> is \<open>json.dumps\<close> with sorted keys and proves it injective on canonical
  values, on which every fingerprint theorem rests. \<open>Arc_Enums\<close> has the enums with their values.

  \<^bold>\<open>Components\<close>, a theory each, in the order of the life of a case:
  \<^item> \<open>Arc_Webhook_Payload\<close>, \<open>Arc_Ingress\<close>: signature check with key rotation, payload normalization, the
    ledger of events (\<open>webhook_security.py\<close>, \<open>webhook_payload.py\<close>, \<open>webhook_events.py\<close>, the route).
  \<^item> \<open>Arc_Webhooks\<close>: the leased processing of a stored event (\<open>reconciliation/service.py\<close>).
  \<^item> \<open>Arc_Razorpay_Client\<close>, \<open>Arc_Reconciliation\<close>: reads of provider truth, and what they make of a case
    (\<open>client.py\<close>, \<open>payment.py\<close>, \<open>subscription.py\<close>, \<open>payment_cases.py\<close>, \<open>case_audit.py\<close>).
  \<^item> \<open>Arc_State_Machine\<close>: the case lifecycle (\<open>state_machine.py\<close>), used by every service below.
  \<^item> \<open>Arc_Eligibility\<close>, \<open>Arc_Diagnosis\<close>, \<open>Arc_Assessment\<close>: \<open>eligibility.py\<close>, \<open>failure_classifier.py\<close> and the
    transaction of \<open>assessment.py\<close>.
  \<^item> \<open>Arc_Strategy\<close>: strategy generation (\<open>arc/intelligence\<close>) in its two transactions around the call
    of the model.
  \<^item> \<open>Arc_Policy\<close>, \<open>Arc_Authorization\<close>: policy validation, the authorization decision and the
    evaluation that records it (\<open>arc/policy\<close>). \<open>Arc_Current_Rows\<close> is the contract that proposals and
    decisions share: at most one row of a case is current.
  \<^item> \<open>Arc_Approval\<close>: requests for a human decision and their decisions (\<open>arc/approval\<close>).
  \<^item> \<open>Arc_Payment_Links\<close>, \<open>Arc_Leases\<close>, \<open>Arc_Execution\<close>, \<open>Arc_Execution_Liveness\<close>, \<open>Arc_Execution_Outcome\<close>: the
    payment link client, the lease that executions and webhooks share, and governed execution: claim,
    provider call, finalization, compensation (\<open>payment_links.py\<close>, \<open>arc/execution\<close>); that it reaches
    success, and which status each answer of the provider leaves in the action.
  \<^item> \<open>Arc_Outcomes\<close>: observation, classification and attribution (\<open>arc/outcomes\<close>).
  \<^item> \<open>Arc_Metrics\<close>: what is counted of it: the metrics of a table of cases and the per-action summary
    (\<open>outcomes/queries.py\<close>, \<open>outcomes/schemas.py\<close>).
  \<^item> \<open>Arc_Evaluation\<close>, \<open>Arc_Batch\<close>: the synthetic batch: generation of scenarios, their run through the
    same decision functions as a real case, the ledger of predictions and its metrics
    (\<open>arc/evaluation\<close>).
  \<^item> \<open>Arc_Read_Models\<close>, \<open>Arc_Timeline\<close>, \<open>Arc_Redaction\<close>: the projections of the read API as functions of the
    tables (\<open>read_models/queries.py\<close>, \<open>schemas.py\<close>, \<open>demo/markers.py\<close>), the timeline of a case, and what
    no response depends on. \<open>Arc_Read_Api\<close>: the routes with their filters, bounds and errors, and the
    stored evaluation summary (\<open>read_api.py\<close>, \<open>evaluation/read_model.py\<close>).
  \<^item> \<open>Arc_Demo_Columns\<close>, \<open>Arc_Demo_Export\<close>, \<open>Arc_Demo_Privacy\<close>, \<open>Arc_Demo_Import\<close>: the public evaluator bundle
    (\<open>deployment/public_demo_bundle.py\<close>): the rows of every table as column values and JSON, the selection
    and pseudonymous export of the accepted evidence, what an export reveals, and its guarded import.
  \<^item> \<open>Arc_History\<close>, \<open>Arc_System\<close>, \<open>Arc_Integrity\<close>: the composition. \<open>Arc_History\<close> has, for each transaction of each service,
    what it keeps of the past and which tables it touches (\<open>evolves\<close>); \<open>Arc_System\<close> makes the
    transactions the steps of one system (\<open>arc_step\<close>), whose runs are their interleavings, and proves
    the invariant \<open>system_ok\<close> of the tables together. \<open>Arc_Integrity\<close> extends it to \<open>tables_ok\<close>, the unique
    and foreign keys of the tables, along the runs in which an operator's edits of the policies are
    those that the constraints accept.

  \<^bold>\<open>What is proved.\<close> Safety of execution: a claim has current authorization, no second
  link under one reference, one worker at a time, a claimed action reaches success, and the status
  recorded in an action is what the provider answered. Money: attribution is exclusive, exact and evidence-based, and no recovered amount is
  counted without an attribution in the table. Authority: the recorded
  decision, the exact condition of automatic authorization, human decisions made once. Ingress and
  processing: only authentic requests are recorded, once; leases fence workers that were overtaken;
  the writes of processing are exactly the claim, what it reconciles or observes, and the end of the
  event, with a bounded error when it failed. Reconciliation and assessment implement
  specifications that give every field of the row of the case. Fingerprints bind the facts they are computed from, given
  that SHA-256 has no collision on the two inputs compared (\<open>no_collision\<close>). Evaluation: every batch
  the generator makes runs without a safety violation, and its breakdown agrees with its metrics.
  Read models: responses depend on no identifier, URL, key, fingerprint, operator or free text,
  synthetic cases are never shown as live, the resolution shown is what the rows support, the timeline
  misses no row, and pages partition the list. The public bundle: its records are a function of a
  pseudonymous view of the rows, what is exported can be imported and comes back as the exported rows,
  and an import stores every record or none, in an empty target only. The whole system: along every interleaving of all
  services the unique and foreign keys of the tables hold, the past is kept, every case moves at most seven times, and
  every amount reported as recovered rests on an action that policy or a human authorized. That
  the calls of the services are such interleavings are the lemmas \<open>..._call_is_run\<close> of \<open>Arc_System\<close>.

  \<^bold>\<open>Parameters.\<close> Code outside the repository is an argument: \<open>sha\<close> (SHA-256 as hex digits), \<open>hmac\<close>,
  \<open>json_loads\<close>, the HTTP transport of the two clients, the payment link gateway over a world \<open>'w\<close>
  (\<open>gateway_lookup_ok\<close>, \<open>gateway_create_ok\<close>, \<open>gateway_cancel_ok\<close> state what the provider documents
  of its links, and the witnesses instantiate them with a list of links), the answer of the strategy
  model, clocks and new ids. What other sessions commit between two transactions of one service is
  an argument too (\<open>others\<close>, \<open>later\<close>, \<open>raced\<close>), so that interleavings are explicit: rows that a
  concurrent session inserted first are \<open>raced\<close>, and the theorems hold for all of them. The order
  in which a session writes two updated rows is the argument \<open>flush_ok\<close> of policy evaluation. For
  the batch, the random source, \<open>uuid5\<close> and the strategy provider over a world \<open>'w\<close> are arguments,
  and its rates are exact rationals. The read models take the server times and the collation of the
  database as \<open>row_times\<close>, and the stored evaluation summary as file contents with the decoder and the
  validation of its schema as functions. The bundle takes the keys and times that the rows of the model
  leave out (\<open>server_columns\<close>), the reading of ISO times (\<open>fromiso\<close>) and what the target database stores
  for the rows of a flush (\<open>store\<close>).

  \<^bold>\<open>Bounds.\<close> Execution and processing leases last 120 seconds; a link expires within 30
  minutes and within the authorized window; a reconciliation is fresh for 300 seconds. No definition
  needs fuel: every loop of the modelled code runs over a list.

  \<^bold>\<open>Findings\<close> that the theorems exhibit: a validated case that is reconciled again is a dead end
  (\<open>Spec2Isabelle\<close>), a worker that returns late overwrites a recorded success with a demand for
  compensation (\<open>Arc_Execution\<close>), and reinstating a superseded decision can violate the index of current decisions
  (\<open>Arc_Authorization\<close>). Two more are visible in the definitions: a stored evaluation summary that is
  not an object or not UTF-8 escapes its loader's exceptions (\<open>Arc_Read_Api\<close>), and the error code that
  compensation passes for an unconfirmed cancellation is never used (\<open>Arc_Execution\<close>). Of the bundle: the
  search for sensitive identifiers misses those that JSON escapes (\<open>Arc_Demo_Privacy\<close>), a bundle without
  records is imported as one of five cases, and a target that has the keys of a bundle counts as holding it,
  whatever its other columns are (\<open>Arc_Demo_Import\<close>).

  \<^bold>\<open>Not modelled.\<close> Engine, settings and router set-up; the SDK call of the model client; DDL
  migrations (their constraints are modelled with the rows); demo fixtures; the read-only verification
  report of the public demo and its text; file output; the browser client. Each is listed with its
  reason among the components of the manifest. The retry of strategy
  persistence after an \<open>IntegrityError\<close> (\<open>_persist_if_current\<close>) is not modelled: the case is locked when
  a proposal is inserted, so that its fingerprint cannot have been stored by another session, and the
  superseded row is flushed first. The ids and references of audit events are not part of \<open>tables_ok\<close>.
\<close>

section \<open>Properties that span components\<close>

lemma recompute_stale:
  assumes "pc_assessment_fingerprint c \<noteq> Some (sp_assessment_fingerprint p)"
  shows "\<exists>e. recompute_current_authorization_inputs sha c p t db = Inl e"
  using assms by (auto simp: recompute_current_authorization_inputs_def validate_current_proposal_def Let_def)

lemma current_inputs_stale:
  assumes "pc_assessment_fingerprint c \<noteq> Some (sp_assessment_fingerprint p)"
  shows "\<exists>e. current_inputs sha c p d t db = Inl e"
proof (cases "current_inputs sha c p d t db")
  case (Inr i)
  from current_inputs_InrD(2) [OF this] recompute_stale [OF assms, of sha t db] show ?thesis by auto
qed simp

lemma transaction_unchanged: "(\<And>r db'. m = Inr (r, db') \<Longrightarrow> db' = db) \<Longrightarrow> snd (transaction db m) = db"
  by (cases m) (auto simp: transaction_def split: prod.splits)

text \<open>
  The assessment fingerprint covers the time of the last reconciliation, so that reconciling a case
  again, even to the same truth, moves it.
\<close>

lemma reconciliation_moves_fingerprint:
  assumes a: "pc_last_reconciled_at c = Some t0" "dt_isoformat t \<noteq> dt_isoformat t0"
      "no_collision sha (json_dumps True (assessment_facts (payment_truth ev s t c))) (json_dumps True (assessment_facts c))"
  shows "build_assessment_fingerprint sha (payment_truth ev s t c) \<noteq> build_assessment_fingerprint sha c"
proof
  assume "build_assessment_fingerprint sha (payment_truth ev s t c) = build_assessment_fingerprint sha c"
  from assessment_fp.binds [OF this [unfolded build_assessment_fingerprint_def] a(3), of "''last_reconciled_at''"]
  have "json_canon (jopt (\<lambda>d. JStr (dt_isoformat d)) (pc_last_reconciled_at (payment_truth ev s t c))) =
      json_canon (jopt (\<lambda>d. JStr (dt_isoformat d)) (pc_last_reconciled_at c))"
    by (simp add: assessment_facts_def json_field_def)
  moreover have "pc_last_reconciled_at (payment_truth ev s t c) = Some t"
    by (simp add: payment_truth_def settled_by_def keep_resolved_def payment_fields_def split: option.split)
  ultimately show False using a(1,2) by (simp add: jopt_def)
qed

text \<open>
  C32. The dead end of a validated case. A case that is POLICY_VALIDATED and whose current proposal
  was made for a fingerprint of before, as after every new reconciliation and assessment, can no
  longer be acted upon: at any time, policy evaluation refuses the proposal,
  execution claims nothing, strategy generation, which alone could replace the proposal, is not
  allowed in this state, and none of the three writes anything.
\<close>

theorem validated_case_dead_end:
  assumes a: "find_case k db = Some c" "pc_current_state c = CaseState.POLICY_VALIDATED" "find_current_proposal k db = Some p"
      "pc_assessment_fingerprint c \<noteq> Some (sp_assessment_fingerprint p)"
  shows "(\<exists>e. evaluate_policy sha flush_ok k chosen t i db = (Inl e, db)) \<and>
    (\<forall>claim. fst (prepare_and_claim sha k t i db) \<noteq> Inr (Inr claim)) \<and> snd (prepare_and_claim sha k t i db) = db \<and>
    snd (generate_strategy sha env k t t2 t3 i others db) = db"
proof -
  have id: "pc_id c = k" using cases_table.lookup_key [OF a(1)] .
  obtain e where "recompute_current_authorization_inputs sha c p t db = Inl e" using recompute_stale [OF a(4)] by blast
  then have "\<exists>e. evaluate_policy sha flush_ok k chosen t i db = (Inl e, db)"
    using a(1-3) by (auto simp: evaluate_policy_def evaluate_locked_def evaluate_proposal_def id)
  moreover have prep: "(\<exists>e. prepare_locked sha c t i db = Inl e) \<or> (\<exists>r. prepare_locked sha c t i db = Inr (Inl r, db))"
  proof (cases "find_current_decision k db")
    case None
    with a(3) show ?thesis by (simp add: prepare_locked_def id load_current_proposal_def load_current_decision_def)
  next
    case (Some d)
    obtain e where e: "current_inputs sha c p d t db = Inl e" using current_inputs_stale [OF a(4)] by blast
    have "claim_current sha c p d x t i db = Inl e" for x by (simp add: claim_current_def e)
    with Some a(2,3) show ?thesis
      by (cases "find_action_for (pd_id d) db")
        (auto simp: prepare_locked_def id load_current_proposal_def load_current_decision_def Let_def)
  qed
  moreover have "snd (generate_strategy sha env k t t2 t3 i others db) = db"
  proof -
    have "\<not> validate_generation_state c db" using a(2) by (simp add: validate_generation_state_def)
    then have "prepare_snapshot sha env k t db \<noteq> Inr (Inr snap)" for snap
      using a(1) by (auto simp: prepare_snapshot_def Let_def sbind_eq_Inr_iff split: option.splits if_splits)
    then show ?thesis by (auto simp: generate_strategy_def split: sum.splits)
  qed
  moreover from prep have "(\<forall>claim. fst (prepare_and_claim sha k t i db) \<noteq> Inr (Inr claim)) \<and>
      snd (prepare_and_claim sha k t i db) = db"
    using a(1) by (cases "dt_aware t") (auto simp: prepare_and_claim_def require_execution_clock_def lock_execution_case_def)
  ultimately show ?thesis by blast
qed

text \<open>The ready case of the execution theory, assessed again after its proposal was made.\<close>

definition reassessed_db :: arc_db where
  "reassessed_db = ready_db\<lparr>db_cases := [ready_case\<lparr>pc_assessment_fingerprint := Some ''later''\<rparr>]\<rparr>"

theorem validated_case_dead_end_witness:
  "\<exists>e. evaluate_policy fixed_sha (\<lambda>_ _. True) 7 None claim_time 50 reassessed_db = (Inl e, reassessed_db)"
proof -
  have "find_case 7 reassessed_db = Some (hd (db_cases reassessed_db))"
    "pc_current_state (hd (db_cases reassessed_db)) = CaseState.POLICY_VALIDATED"
    "find_current_proposal 7 reassessed_db = Some sample_proposal"
    "pc_assessment_fingerprint (hd (db_cases reassessed_db)) \<noteq> Some (sp_assessment_fingerprint sample_proposal)"
    by code_simp+
  from validated_case_dead_end [OF this] show ?thesis by blast
qed

end
